(* ===== verification/RV_Prelude.thy ===== *)
theory RV_Prelude
  imports Main "HOL-Library.Word"
begin

text \<open>
  Shared vocabulary of the development: the Rust integer types as machine words, the casts
  and shifts the sources use, little-endian byte encodings, the \<open>Result\<close> type, and
  the word lemmas that the component theories rely on.  The collection \<open>rv_defs\<close> holds the
  definitions of the small register operations, so that \<open>simp add: rv_defs\<close> unfolds them.

  Arithmetic operators follow the release profile of the Rust compiler: \<open>+\<close>, \<open>-\<close> and
  \<open>*\<close> wrap, and a shift amount is reduced modulo the width.  Where a debug build would stop
  instead, the theory of the component says so.
\<close>

unbundle bit_operations_syntax

named_theorems rv_defs \<open>definitions of register level operations\<close>

type_synonym u8 = "8 word"
type_synonym u16 = "16 word"
type_synonym u32 = "32 word"
type_synonym u64 = "64 word"
type_synonym i64 = "64 word" \<comment> \<open>two's complement bit pattern, read with \<open>sint\<close>\<close>
type_synonym u128 = "128 word"

section \<open>Results\<close>

text \<open>\<open>Result<T, E>\<close> is a sum with the error on the left, as everywhere below.\<close>

type_synonym ('e, 'a) result = "'e + 'a"

definition map_result :: "('a \<Rightarrow> 'b) \<Rightarrow> ('e, 'a) result \<Rightarrow> ('e, 'b) result" where
  "map_result f r = (case r of Inl e \<Rightarrow> Inl e | Inr a \<Rightarrow> Inr (f a))"

definition map_err :: "('e \<Rightarrow> 'f) \<Rightarrow> ('e, 'a) result \<Rightarrow> ('f, 'a) result" where
  "map_err f r = (case r of Inl e \<Rightarrow> Inl (f e) | Inr a \<Rightarrow> Inr a)"

lemma map_result_simps [simp]:
  "map_result f (Inl e) = Inl e" "map_result f (Inr a) = Inr (f a)"
  by (simp_all add: map_result_def)

lemma map_err_simps [simp]:
  "map_err f (Inl e) = Inl (f e)" "map_err f (Inr a) = Inr a"
  by (simp_all add: map_err_def)

section \<open>Casts and shifts\<close>

text \<open>\<open>x as i32 as u64\<close>: keep the low 32 bits, then sign-extend.\<close>

definition sext32 :: "u64 \<Rightarrow> u64" where
  "sext32 x = scast (ucast x :: u32)"

text \<open>
  \<open>x << n\<close> and \<open>x >> n\<close> on \<open>u64\<close> and \<open>u32\<close>, and the arithmetic shifts of
  \<open>i64\<close> and \<open>i32\<close>; the amount is reduced modulo the width.
\<close>

definition shl64 :: "u64 \<Rightarrow> u64 \<Rightarrow> u64" where
  "shl64 x n = push_bit (unat n mod 64) x"

definition shr64 :: "u64 \<Rightarrow> u64 \<Rightarrow> u64" where
  "shr64 x n = drop_bit (unat n mod 64) x"

definition sar64 :: "u64 \<Rightarrow> u64 \<Rightarrow> u64" where
  "sar64 x n = signed_drop_bit (unat n mod 64) x"

definition shr32 :: "u32 \<Rightarrow> u64 \<Rightarrow> u32" where
  "shr32 x n = drop_bit (unat n mod 32) x"

definition sar32 :: "u32 \<Rightarrow> u64 \<Rightarrow> u32" where
  "sar32 x n = signed_drop_bit (unat n mod 32) x"

definition saturating_sub :: "'a::len word \<Rightarrow> 'a word \<Rightarrow> 'a word" where
  "saturating_sub a b = (if b \<le> a then a - b else 0)"

section \<open>Little-endian byte encodings\<close>

definition to_le_bytes :: "'a::len word \<Rightarrow> u8 list" where
  "to_le_bytes w = map (\<lambda>i. ucast (drop_bit (8 * i) w)) [0..<LENGTH('a) div 8]"

definition from_le_bytes :: "u8 list \<Rightarrow> 'a::len word" where
  "from_le_bytes bs = foldr (\<lambda>b acc. ucast b OR push_bit 8 acc) bs 0"

lemma length_to_le_bytes [simp]: "length (to_le_bytes (w :: 'a::len word)) = LENGTH('a) div 8"
  by (simp add: to_le_bytes_def)

lemma from_le_bytes_Cons [simp]:
  "from_le_bytes (b # bs) = ucast b OR push_bit 8 (from_le_bytes bs)"
  by (simp add: from_le_bytes_def)

lemma from_le_bytes_Nil [simp]: "from_le_bytes [] = 0"
  by (simp add: from_le_bytes_def)

lemma bit_from_le_bytes:
  "bit (from_le_bytes bs :: 'a::len word) n \<longleftrightarrow>
     n < LENGTH('a) \<and> n div 8 < length bs \<and> bit (bs ! (n div 8)) (n mod 8)"
proof (induction bs arbitrary: n)
  case Nil
  then show ?case by simp
next
  case (Cons b bs)
  show ?case
  proof (cases "n < 8")
    case True
    then show ?thesis
      by (auto simp: bit_simps dest: bit_imp_le_length)
  next
    case False
    then have *: "n div 8 = Suc ((n - 8) div 8)" "n mod 8 = (n - 8) mod 8"
      by (simp_all add: le_div_geq le_mod_geq)
    have "\<not> bit b n"
      using False by (auto dest: bit_imp_le_length)
    then show ?thesis
      using False * by (auto simp: bit_simps Cons.IH)
  qed
qed

lemma nth_to_le_bytes:
  "i < LENGTH('a) div 8 \<Longrightarrow> to_le_bytes (w :: 'a::len word) ! i = ucast (drop_bit (8 * i) w)"
  by (simp add: to_le_bytes_def)

lemma from_to_le_bytes:
  assumes "8 dvd LENGTH('a)"
  shows "from_le_bytes (to_le_bytes (w :: 'a::len word)) = w"
proof (rule bit_word_eqI)
  fix n assume n: "n < LENGTH('a)"
  then have d: "n div 8 < LENGTH('a) div 8"
    using assms by (metis div_less_iff_less_mult dvd_div_mult_self zero_less_numeral)
  have "8 * (n div 8) + n mod 8 = n" by simp
  then show "bit (from_le_bytes (to_le_bytes w) :: 'a word) n = bit w n"
    using n d by (simp add: bit_from_le_bytes nth_to_le_bytes bit_simps)
qed

section \<open>Bits of small words\<close>

lemma bit_less_pow:
  fixes w :: "'a::len word"
  assumes "w < 2 ^ n" "bit w m"
  shows "m < n"
proof -
  have "bit (w AND mask n) m"
    using assms by (simp add: less_mask_eq)
  then show ?thesis
    by (simp add: bit_simps)
qed

lemma push_drop_bit: "push_bit n (drop_bit n w) = w AND NOT (mask n)" for w :: "'a::len word"
  by (rule bit_word_eqI) (auto simp: bit_simps)

lemma unat_AND_mask_less: "unat (w AND mask n :: 'a::len word) < 2 ^ n"
proof -
  have "unat (w AND mask n) = take_bit n (unat w)"
    by (simp add: take_bit_eq_mask [symmetric] unsigned_take_bit_eq)
  then show ?thesis
    by simp
qed

end
