(* ===== verification/RV_Registers.thy ===== *)
theory RV_Registers
  imports RV_Prelude
begin

text \<open>
  The integer and floating-point register files of
  \<open>src/src/risc_v/interpreter/src/machine_state/registers.rs\<close>: the register indices, the
  decoding of a register number, and the \<open>read\<close>, \<open>write\<close> and \<open>reset\<close> operations.
  The storage of a register file (\<open>Region<XValue, 31>\<close>) is a function on indices; the bounds
  lemmas show that every access stays inside the array.  The interface that both register files
  offer to the instructions is the locale \<open>register_file\<close>.
\<close>

section \<open>Integer registers\<close>

datatype XRegister =
    x0 | x1 | x2 | x3 | x4 | x5 | x6 | x7
  | x8 | x9 | x10 | x11 | x12 | x13 | x14 | x15
  | x16 | x17 | x18 | x19 | x20 | x21 | x22 | x23
  | x24 | x25 | x26 | x27 | x28 | x29 | x30 | x31

text \<open>
  The \<open>usize\<close> discriminant, used as an index into the 31-element array: \<open>x0\<close> has a dummy
  index because it has no entry.
\<close>

primrec x_index :: "XRegister \<Rightarrow> nat" where
  "x_index x0 = 0xFFFF"
| "x_index x1 = 0"
| "x_index x2 = 1"
| "x_index x3 = 2"
| "x_index x4 = 3"
| "x_index x5 = 4"
| "x_index x6 = 5"
| "x_index x7 = 6"
| "x_index x8 = 7"
| "x_index x9 = 8"
| "x_index x10 = 9"
| "x_index x11 = 10"
| "x_index x12 = 11"
| "x_index x13 = 12"
| "x_index x14 = 13"
| "x_index x15 = 14"
| "x_index x16 = 15"
| "x_index x17 = 16"
| "x_index x18 = 17"
| "x_index x19 = 18"
| "x_index x20 = 19"
| "x_index x21 = 20"
| "x_index x22 = 21"
| "x_index x23 = 22"
| "x_index x24 = 23"
| "x_index x25 = 24"
| "x_index x26 = 25"
| "x_index x27 = 26"
| "x_index x28 = 27"
| "x_index x29 = 28"
| "x_index x30 = 29"
| "x_index x31 = 30"

text \<open>\<open>parse_xregister\<close>; \<open>None\<close> is the panic of the last arm.\<close>

definition parse_xregister :: "u32 \<Rightarrow> XRegister option" where
  "parse_xregister r =
     (if r = 0 then Some x0
      else if r = 1 then Some x1
      else if r = 2 then Some x2
      else if r = 3 then Some x3
      else if r = 4 then Some x4
      else if r = 5 then Some x5
      else if r = 6 then Some x6
      else if r = 7 then Some x7
      else if r = 8 then Some x8
      else if r = 9 then Some x9
      else if r = 10 then Some x10
      else if r = 11 then Some x11
      else if r = 12 then Some x12
      else if r = 13 then Some x13
      else if r = 14 then Some x14
      else if r = 15 then Some x15
      else if r = 16 then Some x16
      else if r = 17 then Some x17
      else if r = 18 then Some x18
      else if r = 19 then Some x19
      else if r = 20 then Some x20
      else if r = 21 then Some x21
      else if r = 22 then Some x22
      else if r = 23 then Some x23
      else if r = 24 then Some x24
      else if r = 25 then Some x25
      else if r = 26 then Some x26
      else if r = 27 then Some x27
      else if r = 28 then Some x28
      else if r = 29 then Some x29
      else if r = 30 then Some x30
      else if r = 31 then Some x31
      else None)"

definition is_zero :: "XRegister \<Rightarrow> bool" where
  "is_zero r \<longleftrightarrow> r = x0"

type_synonym XValue = u64

record XRegisters =
  xr_registers :: "nat \<Rightarrow> XValue"

definition xread :: "XRegisters \<Rightarrow> XRegister \<Rightarrow> XValue" where
  "xread s reg = (if is_zero reg then 0 else xr_registers s (x_index reg))"

definition xwrite :: "XRegisters \<Rightarrow> XRegister \<Rightarrow> XValue \<Rightarrow> XRegisters" where
  "xwrite s reg val =
     (if is_zero reg then s
      else s\<lparr>xr_registers := (xr_registers s)(x_index reg := val)\<rparr>)"

text \<open>\<open>for i in 0..31 { self.registers.write(i, 0) }\<close>\<close>

definition xreset :: "XRegisters \<Rightarrow> XRegisters" where
  "xreset s = s\<lparr>xr_registers := fold (\<lambda>i r. r(i := 0)) [0..<31] (xr_registers s)\<rparr>"

section \<open>Floating-point registers\<close>

datatype FRegister =
    f0 | f1 | f2 | f3 | f4 | f5 | f6 | f7
  | f8 | f9 | f10 | f11 | f12 | f13 | f14 | f15
  | f16 | f17 | f18 | f19 | f20 | f21 | f22 | f23
  | f24 | f25 | f26 | f27 | f28 | f29 | f30 | f31

primrec f_index :: "FRegister \<Rightarrow> nat" where
  "f_index f0 = 0"
| "f_index f1 = 1"
| "f_index f2 = 2"
| "f_index f3 = 3"
| "f_index f4 = 4"
| "f_index f5 = 5"
| "f_index f6 = 6"
| "f_index f7 = 7"
| "f_index f8 = 8"
| "f_index f9 = 9"
| "f_index f10 = 10"
| "f_index f11 = 11"
| "f_index f12 = 12"
| "f_index f13 = 13"
| "f_index f14 = 14"
| "f_index f15 = 15"
| "f_index f16 = 16"
| "f_index f17 = 17"
| "f_index f18 = 18"
| "f_index f19 = 19"
| "f_index f20 = 20"
| "f_index f21 = 21"
| "f_index f22 = 22"
| "f_index f23 = 23"
| "f_index f24 = 24"
| "f_index f25 = 25"
| "f_index f26 = 26"
| "f_index f27 = 27"
| "f_index f28 = 28"
| "f_index f29 = 29"
| "f_index f30 = 30"
| "f_index f31 = 31"

definition parse_fregister :: "u32 \<Rightarrow> FRegister option" where
  "parse_fregister r =
     (if r = 0 then Some f0
      else if r = 1 then Some f1
      else if r = 2 then Some f2
      else if r = 3 then Some f3
      else if r = 4 then Some f4
      else if r = 5 then Some f5
      else if r = 6 then Some f6
      else if r = 7 then Some f7
      else if r = 8 then Some f8
      else if r = 9 then Some f9
      else if r = 10 then Some f10
      else if r = 11 then Some f11
      else if r = 12 then Some f12
      else if r = 13 then Some f13
      else if r = 14 then Some f14
      else if r = 15 then Some f15
      else if r = 16 then Some f16
      else if r = 17 then Some f17
      else if r = 18 then Some f18
      else if r = 19 then Some f19
      else if r = 20 then Some f20
      else if r = 21 then Some f21
      else if r = 22 then Some f22
      else if r = 23 then Some f23
      else if r = 24 then Some f24
      else if r = 25 then Some f25
      else if r = 26 then Some f26
      else if r = 27 then Some f27
      else if r = 28 then Some f28
      else if r = 29 then Some f29
      else if r = 30 then Some f30
      else if r = 31 then Some f31
      else None)"

text \<open>\<open>FValue\<close> is a transparent wrapper around \<open>u64\<close>.\<close>

type_synonym FValue = u64

record FRegisters =
  fr_registers :: "nat \<Rightarrow> FValue"

definition fread :: "FRegisters \<Rightarrow> FRegister \<Rightarrow> FValue" where
  "fread s reg = fr_registers s (f_index reg)"

definition fwrite :: "FRegisters \<Rightarrow> FRegister \<Rightarrow> FValue \<Rightarrow> FRegisters" where
  "fwrite s reg val = s\<lparr>fr_registers := (fr_registers s)(f_index reg := val)\<rparr>"

definition freset :: "FRegisters \<Rightarrow> FRegisters" where
  "freset s = s\<lparr>fr_registers := fold (\<lambda>i r. r(i := 0)) [0..<32] (fr_registers s)\<rparr>"

section \<open>Bounds and decoding\<close>

lemma x_index_bound: "\<not> is_zero r \<Longrightarrow> x_index r < 31"
  by (cases r) (simp_all add: is_zero_def)

lemma f_index_bound: "f_index r < 32"
  by (cases r) simp_all

lemma x_index_inj [simp]: "x_index r = x_index r' \<longleftrightarrow> r = r'"
  by (cases r; cases r'; simp)

lemma f_index_inj [simp]: "f_index r = f_index r' \<longleftrightarrow> r = r'"
  by (cases r; cases r'; simp)

section \<open>The register file interface\<close>

text \<open>
  What an instruction relies on: a write is seen by reads of the same register unless the
  register is hard-wired, and no other register changes.
\<close>

locale register_file =
  fixes rread :: "'s \<Rightarrow> 'r \<Rightarrow> 'v"
    and rwrite :: "'s \<Rightarrow> 'r \<Rightarrow> 'v \<Rightarrow> 's"
    and hard_wired :: "'r \<Rightarrow> bool"
  assumes read_write: "rread (rwrite s r v) r' = (if r' = r \<and> \<not> hard_wired r then v else rread s r')"
    and write_hard_wired: "hard_wired r \<Longrightarrow> rwrite s r v = s"
    and write_write_same: "rwrite (rwrite s r v) r v' = rwrite s r v'"
    and write_swap: "r \<noteq> r' \<Longrightarrow> rwrite (rwrite s r v) r' v' = rwrite (rwrite s r' v') r v"
begin

lemma read_write_same: "\<not> hard_wired r \<Longrightarrow> rread (rwrite s r v) r = v"
  by (simp add: read_write)

lemma read_write_other: "r' \<noteq> r \<Longrightarrow> rread (rwrite s r v) r' = rread s r'"
  by (simp add: read_write)

lemma read_after_writes:
  "r \<notin> fst ` set ws \<Longrightarrow> rread (fold (\<lambda>(q, v) t. rwrite t q v) ws s) r = rread s r"
  by (induction ws arbitrary: s) (auto simp: read_write)

lemma last_write_wins:
  assumes "\<not> hard_wired r" and "r \<notin> fst ` set ws'"
  shows "rread (fold (\<lambda>(q, v) t. rwrite t q v) (ws @ (r, v) # ws') s) r = v"
  using assms by (simp add: read_after_writes read_write_same)

end

interpretation xregs: register_file xread xwrite is_zero
  by unfold_locales (auto simp: xread_def xwrite_def fun_upd_twist)

interpretation fregs: register_file fread fwrite "\<lambda>_. False"
  by unfold_locales (auto simp: fread_def fwrite_def fun_upd_twist)

lemmas reg_simps [simp] = xregs.read_write fregs.read_write

lemma xread_x0 [simp]: "xread s x0 = 0"
  by (simp add: xread_def is_zero_def)

lemma fold_zero_upd: "fold (\<lambda>i r. r(i := 0)) is f = (\<lambda>i. if i \<in> set is then 0 else f i)"
  by (induction "is" arbitrary: f) (auto simp: fun_eq_iff)

lemma xread_xreset [simp]: "xread (xreset s) r = 0"
  using x_index_bound [of r] by (auto simp: xread_def xreset_def fold_zero_upd)

lemma fread_freset [simp]: "fread (freset s) r = 0"
  using f_index_bound [of r] by (simp add: fread_def freset_def fold_zero_upd)

end
