(* ===== verification/RV_Traps.thy ===== *)
theory RV_Traps
  imports RV_Registers
begin

text \<open>
  Privilege modes (\<open>machine_state/mode.rs\<close>), exceptions, interrupts and the trap context
  (\<open>traps.rs\<close>).  The Rust trait \<open>TrapContext\<close> is a record of functions, with one record for
  exceptions and one for interrupts, so that the generic code of the hart takes the record as an
  argument.  The locale \<open>trap_context\<close> states what the hart relies on.
\<close>

section \<open>Modes\<close>

datatype Mode = User | Supervisor | Machine

primrec mode_as_u8 :: "Mode \<Rightarrow> u8" where
  "mode_as_u8 User = 0"
| "mode_as_u8 Supervisor = 1"
| "mode_as_u8 Machine = 3"

definition mode_try_from :: "u8 \<Rightarrow> Mode option" where
  "mode_try_from value =
     (if value = 0 then Some User
      else if value = 1 then Some Supervisor
      else if value = 3 then Some Machine
      else None)"

text \<open>
  A \<open>ModeCell\<close> stores \<open>mode as u8\<close> and reads it back with \<open>try_from(..).unwrap()\<close>.  Every
  write stores an encoded mode, so the cell is modelled by the mode itself; the round trip says
  that the \<open>unwrap\<close> cannot fail.
\<close>

lemma mode_round_trip [simp]: "mode_try_from (mode_as_u8 m) = Some m"
  by (cases m) (simp_all add: mode_try_from_def)

lemma mode_try_from_Some: "mode_try_from b = Some m \<longleftrightarrow> b = mode_as_u8 m"
  by (cases m; cases "b = 0"; cases "b = 1"; cases "b = 3"; simp add: mode_try_from_def)

text \<open>The derived \<open>PartialOrd\<close> orders the variants as declared.\<close>

definition mode_le :: "Mode \<Rightarrow> Mode \<Rightarrow> bool" where
  "mode_le a b \<longleftrightarrow> mode_as_u8 a \<le> mode_as_u8 b"

lemma mode_le_simps [simp]:
  "mode_le User m" "mode_le m Machine" "mode_le Supervisor Supervisor"
  "\<not> mode_le Supervisor User" "\<not> mode_le Machine User" "\<not> mode_le Machine Supervisor"
  by (cases m; simp add: mode_le_def word_le_nat_alt; fail | simp add: mode_le_def word_le_nat_alt)+

datatype TrapMode = TM_Supervisor | TM_Machine

primrec as_mode :: "TrapMode \<Rightarrow> Mode" where
  "as_mode TM_Supervisor = Supervisor"
| "as_mode TM_Machine = Machine"

section \<open>Exceptions and interrupts\<close>

type_synonym Address = u64
type_synonym CSRValue = u64

datatype EnvironException = EE_EnvCallFromUMode | EE_EnvCallFromSMode | EE_EnvCallFromMMode

datatype Exception =
    InstructionAccessFault Address
  | IllegalInstruction
  | Breakpoint
  | LoadAccessFault Address
  | StoreAccessFault Address
  | EnvCallFromUMode
  | EnvCallFromSMode
  | EnvCallFromMMode
  | InstructionPageFault Address
  | LoadPageFault Address
  | StoreAMOPageFault Address

primrec as_exception :: "EnvironException \<Rightarrow> Exception" where
  "as_exception EE_EnvCallFromUMode = EnvCallFromUMode"
| "as_exception EE_EnvCallFromSMode = EnvCallFromSMode"
| "as_exception EE_EnvCallFromMMode = EnvCallFromMMode"

text \<open>\<open>TryFrom<&Exception> for EnvironException\<close>; \<open>None\<close> is the error.\<close>

primrec environ_try_from :: "Exception \<Rightarrow> EnvironException option" where
  "environ_try_from EnvCallFromUMode = Some EE_EnvCallFromUMode"
| "environ_try_from EnvCallFromSMode = Some EE_EnvCallFromSMode"
| "environ_try_from EnvCallFromMMode = Some EE_EnvCallFromMMode"
| "environ_try_from Breakpoint = None"
| "environ_try_from IllegalInstruction = None"
| "environ_try_from (InstructionAccessFault a) = None"
| "environ_try_from (LoadAccessFault a) = None"
| "environ_try_from (StoreAccessFault a) = None"
| "environ_try_from (InstructionPageFault a) = None"
| "environ_try_from (LoadPageFault a) = None"
| "environ_try_from (StoreAMOPageFault a) = None"

lemma environ_try_from_iff: "environ_try_from e = Some ee \<longleftrightarrow> e = as_exception ee"
  by (cases e; cases ee; simp)

datatype Interrupt =
    SupervisorSoftware | MachineSoftware | SupervisorTimer
  | MachineTimer | SupervisorExternal | MachineExternal

primrec exception_code_const :: "Interrupt \<Rightarrow> CSRValue" where
  "exception_code_const SupervisorSoftware = 1"
| "exception_code_const MachineSoftware = 3"
| "exception_code_const SupervisorTimer = 5"
| "exception_code_const MachineTimer = 7"
| "exception_code_const SupervisorExternal = 9"
| "exception_code_const MachineExternal = 11"

definition SUPERVISOR_BIT_MASK :: CSRValue where
  "SUPERVISOR_BIT_MASK =
     push_bit (unat (exception_code_const SupervisorSoftware)) 1
     OR push_bit (unat (exception_code_const SupervisorTimer)) 1
     OR push_bit (unat (exception_code_const SupervisorExternal)) 1"

definition MACHINE_BIT_MASK :: CSRValue where
  "MACHINE_BIT_MASK =
     push_bit (unat (exception_code_const MachineSoftware)) 1
     OR push_bit (unat (exception_code_const MachineTimer)) 1
     OR push_bit (unat (exception_code_const MachineExternal)) 1"

lemma SUPERVISOR_BIT_MASK_eq: "SUPERVISOR_BIT_MASK = 0x222"
  by (simp add: SUPERVISOR_BIT_MASK_def)

lemma MACHINE_BIT_MASK_eq: "MACHINE_BIT_MASK = 0x888"
  by (simp add: MACHINE_BIT_MASK_def)

section \<open>The trap context\<close>

datatype TrapKind = TK_Interrupt | TK_Exception

record 'tc TrapContext =
  tc_xtval :: "'tc \<Rightarrow> CSRValue"
  tc_exception_code :: "'tc \<Rightarrow> CSRValue"
  tc_xcause :: "'tc \<Rightarrow> CSRValue"
  tc_trap_handler_address :: "'tc \<Rightarrow> CSRValue \<Rightarrow> Address"
  tc_kind :: TrapKind

primrec exc_exception_code :: "Exception \<Rightarrow> CSRValue" where
  "exc_exception_code (InstructionAccessFault a) = 1"
| "exc_exception_code IllegalInstruction = 2"
| "exc_exception_code Breakpoint = 3"
| "exc_exception_code (LoadAccessFault a) = 5"
| "exc_exception_code (StoreAccessFault a) = 7"
| "exc_exception_code EnvCallFromUMode = 8"
| "exc_exception_code EnvCallFromSMode = 9"
| "exc_exception_code EnvCallFromMMode = 11"
| "exc_exception_code (InstructionPageFault a) = 12"
| "exc_exception_code (LoadPageFault a) = 13"
| "exc_exception_code (StoreAMOPageFault a) = 15"

primrec exc_xtval :: "Exception \<Rightarrow> CSRValue" where
  "exc_xtval IllegalInstruction = 0"
| "exc_xtval Breakpoint = 0"
| "exc_xtval EnvCallFromUMode = 0"
| "exc_xtval EnvCallFromSMode = 0"
| "exc_xtval EnvCallFromMMode = 0"
| "exc_xtval (InstructionAccessFault a) = a"
| "exc_xtval (LoadAccessFault a) = a"
| "exc_xtval (StoreAccessFault a) = a"
| "exc_xtval (InstructionPageFault a) = a"
| "exc_xtval (LoadPageFault a) = a"
| "exc_xtval (StoreAMOPageFault a) = a"

definition exc_trap_handler_address :: "Exception \<Rightarrow> CSRValue \<Rightarrow> Address" where
  "exc_trap_handler_address e xtvec_val = xtvec_val AND NOT 3"

definition exception_context :: "Exception TrapContext" where
  "exception_context =
     \<lparr>tc_xtval = exc_xtval,
      tc_exception_code = exc_exception_code,
      tc_xcause = exc_exception_code,
      tc_trap_handler_address = exc_trap_handler_address,
      tc_kind = TK_Exception\<rparr>"

definition int_xcause :: "Interrupt \<Rightarrow> CSRValue" where
  "int_xcause i = push_bit 63 1 OR exception_code_const i"

definition int_trap_handler_address :: "Interrupt \<Rightarrow> CSRValue \<Rightarrow> Address" where
  "int_trap_handler_address i xtvec_val =
     (let xtvec_mode = xtvec_val AND 3;
          xtvec_base = xtvec_val AND NOT 3;
          handler_offset = (if xtvec_mode = 1 then 4 * exception_code_const i else 0)
      in xtvec_base + handler_offset)"

definition interrupt_context :: "Interrupt TrapContext" where
  "interrupt_context =
     \<lparr>tc_xtval = \<lambda>_. 0,
      tc_exception_code = exception_code_const,
      tc_xcause = int_xcause,
      tc_trap_handler_address = int_trap_handler_address,
      tc_kind = TK_Interrupt\<rparr>"

text \<open>
  What trap entry relies on: the code of a trap is a bit position of the delegation registers,
  the cause carries the code and the interrupt bit of its kind, and the handler address is aligned
  to four bytes and lies at most one vector table after the base.
\<close>

locale trap_context =
  fixes tc :: "'tc TrapContext"
  assumes code_bound: "tc_exception_code tc t < 16"
    and cause_code: "tc_xcause tc t =
      tc_exception_code tc t OR (if tc_kind tc = TK_Interrupt then push_bit 63 1 else 0)"
    and handler_aligned: "tc_trap_handler_address tc t v AND 3 = 0"
    and handler_direct: "v AND 3 = 0 \<Longrightarrow> tc_trap_handler_address tc t v = v"
begin

lemma cause_kind: "bit (tc_xcause tc t) 63 \<longleftrightarrow> tc_kind tc = TK_Interrupt"
proof -
  have "\<not> bit (tc_exception_code tc t) 63"
    using bit_less_pow [of "tc_exception_code tc t" 4 63] code_bound [of t] by auto
  then show ?thesis
    by (simp add: cause_code bit_simps)
qed

lemma code_of_cause: "tc_xcause tc t AND mask 63 = tc_exception_code tc t"
proof (rule bit_word_eqI)
  fix n :: nat
  assume "n < LENGTH(64)"
  show "bit (tc_xcause tc t AND mask 63) n = bit (tc_exception_code tc t) n"
    using bit_less_pow [of "tc_exception_code tc t" 4 n] code_bound [of t]
    by (auto simp: cause_code bit_and_iff bit_or_iff bit_mask_iff bit_push_bit_iff
        simp del: push_bit_of_1 push_bit_numeral)
qed

lemma handler_base: "tc_trap_handler_address tc t v AND 1 = 0"
proof -
  have "tc_trap_handler_address tc t v AND 1 = (tc_trap_handler_address tc t v AND 3) AND 1"
    by (simp add: and.assoc)
  then show ?thesis
    by (simp add: handler_aligned)
qed

end

lemma and3_mask: "(3 :: u64) = mask 2"
  by (simp add: mask_eq_exp_minus_1)

lemma aligned4_mult4: "(4 * b :: u64) AND 3 = 0"
proof -
  have "4 * b = push_bit 2 b"
    by (simp add: push_bit_eq_mult)
  then show ?thesis
    unfolding and3_mask by (simp add: bit_eq_iff bit_simps)
qed

lemma aligned4_base: "(v AND NOT 3 :: u64) AND 3 = 0"
  unfolding and3_mask by (rule bit_word_eqI) (auto simp: bit_simps)

lemma aligned4_id: "v AND NOT 3 = v" if "v AND 3 = 0" for v :: u64
proof -
  have "(v AND NOT 3) OR (v AND 3) = v"
    unfolding and3_mask by (rule bit_word_eqI) (auto simp: bit_simps)
  with that show ?thesis
    by simp
qed

lemma aligned4_add:
  fixes a b :: u64
  assumes "a AND 3 = 0" "b AND 3 = 0"
  shows "(a + b) AND 3 = 0"
proof -
  have "x = 4 * drop_bit 2 x" if "x AND 3 = 0" for x :: u64
  proof -
    have "push_bit 2 (drop_bit 2 x) = x AND NOT 3"
      unfolding and3_mask by (rule push_drop_bit)
    then show ?thesis
      using aligned4_id [OF that] by (simp add: push_bit_eq_mult mult.commute)
  qed
  then obtain x y where "a = 4 * x" "b = 4 * y"
    using assms by blast
  then have "a + b = 4 * (x + y)"
    by (simp add: distrib_left)
  then show ?thesis
    by (simp only: aligned4_mult4)
qed

interpretation exc: trap_context exception_context
proof
  fix t v
  show "tc_exception_code exception_context t < 16"
    by (cases t) (simp_all add: exception_context_def)
  show "tc_xcause exception_context t = tc_exception_code exception_context t
      OR (if tc_kind exception_context = TK_Interrupt then push_bit 63 1 else 0)"
    by (simp add: exception_context_def)
  show "tc_trap_handler_address exception_context t v AND 3 = 0"
    using aligned4_base [of v] by (simp add: exception_context_def exc_trap_handler_address_def)
  show "v AND 3 = 0 \<Longrightarrow> tc_trap_handler_address exception_context t v = v"
    using aligned4_id [of v] by (simp add: exception_context_def exc_trap_handler_address_def)
qed

interpretation intr: trap_context interrupt_context
proof
  fix t v
  show "tc_exception_code interrupt_context t < 16"
    by (cases t) (simp_all add: interrupt_context_def)
  show "tc_xcause interrupt_context t = tc_exception_code interrupt_context t
      OR (if tc_kind interrupt_context = TK_Interrupt then push_bit 63 1 else 0)"
    by (simp add: interrupt_context_def int_xcause_def or.commute)
  show "tc_trap_handler_address interrupt_context t v AND 3 = 0"
    using aligned4_base [of v] aligned4_add [of "v AND NOT 3" "4 * exception_code_const t"]
    by (simp add: interrupt_context_def int_trap_handler_address_def Let_def aligned4_mult4)
  show "v AND 3 = 0 \<Longrightarrow> tc_trap_handler_address interrupt_context t v = v"
    using aligned4_id [of v]
    by (simp add: interrupt_context_def int_trap_handler_address_def Let_def)
qed

end
