(* ===== verification/RV_Bus.thy ===== *)
theory RV_Bus
  imports RV_Traps
begin

text \<open>
  The bus, the devices and the main memory (\<open>machine_state/bus.rs\<close>, \<open>bus/devices.rs\<close>,
  \<open>bus/main_memory.rs\<close>).  An element type \<open>E: Elem\<close> of the Rust code is a word type whose
  length is a multiple of eight; its bytes lie in little-endian order.  The size of the main memory
  is the constant \<open>ML::BYTES\<close>, kept here as a field that no operation changes.

  The locale \<open>addressable\<close> is the contract of the Rust trait of this name: the component is a
  partial map from byte addresses to bytes.  It is interpreted on the devices, the main memory
  and the bus, for every element type.
\<close>

datatype OutOfBounds = OutOfBounds

definition size_of :: "'a::len itself \<Rightarrow> nat" where
  "size_of _ = LENGTH('a) div 8"

declare size_of_def [simp]

section \<open>Devices\<close>

definition DEVICES_ADDRESS_SPACE_LENGTH :: u64 where
  "DEVICES_ADDRESS_SPACE_LENGTH = 2 * 1024 * 1024 * 1024"

record Devices =
  dev_placeholder :: u8

definition devices_reset :: "Devices \<Rightarrow> Devices" where
  "devices_reset d = d\<lparr>dev_placeholder := 0\<rparr>"

definition devices_read :: "Devices \<Rightarrow> Address \<Rightarrow> (OutOfBounds, 'a::len word) result" where
  "devices_read d addr = Inl OutOfBounds"

definition devices_write :: "Devices \<Rightarrow> Address \<Rightarrow> 'a::len word \<Rightarrow> (OutOfBounds, Devices) result" where
  "devices_write d addr value = Inl OutOfBounds"

definition devices_write_all :: "Devices \<Rightarrow> Address \<Rightarrow> 'a::len word list \<Rightarrow> (OutOfBounds, Devices) result" where
  "devices_write_all d addr values = Inl OutOfBounds"

section \<open>Main memory\<close>

text \<open>
  \<open>data\<close> is the dynamic region \<open>[u8; BYTES]\<close>: only the indices below \<open>BYTES\<close> exist.
  The region's own operations assert the bounds and copy the bytes of the element.
\<close>

record MainMemory =
  mm_BYTES :: nat
  mm_data :: "nat \<Rightarrow> u8"

definition data_write :: "(nat \<Rightarrow> u8) \<Rightarrow> nat \<Rightarrow> u8 list \<Rightarrow> nat \<Rightarrow> u8" where
  "data_write d address bytes =
     (\<lambda>i. if address \<le> i \<and> i < address + length bytes then bytes ! (i - address) else d i)"

definition data_read :: "(nat \<Rightarrow> u8) \<Rightarrow> nat \<Rightarrow> nat \<Rightarrow> u8 list" where
  "data_read d address n = map d [address..<address + n]"

definition memory_reset :: "MainMemory \<Rightarrow> MainMemory" where
  "memory_reset m = m\<lparr>mm_data := fold (\<lambda>i d. d(i := 0)) [0..<mm_BYTES m] (mm_data m)\<rparr>"

text \<open>\<open>addr as usize + size\<close> is an addition of \<open>usize\<close>, which wraps at \<open>2^64\<close>.\<close>

definition usize_add :: "nat \<Rightarrow> nat \<Rightarrow> nat" where
  "usize_add a b = (a + b) mod 2 ^ 64"

definition memory_read :: "MainMemory \<Rightarrow> Address \<Rightarrow> (OutOfBounds, 'a::len word) result" where
  "memory_read m addr =
     (if usize_add (unat addr) (size_of TYPE('a)) > mm_BYTES m then Inl OutOfBounds
      else Inr (from_le_bytes (data_read (mm_data m) (unat addr) (size_of TYPE('a)))))"

definition memory_write :: "MainMemory \<Rightarrow> Address \<Rightarrow> 'a::len word \<Rightarrow> (OutOfBounds, MainMemory) result" where
  "memory_write m addr value =
     (if usize_add (unat addr) (size_of TYPE('a)) > mm_BYTES m then Inl OutOfBounds
      else Inr (m\<lparr>mm_data := data_write (mm_data m) (unat addr) (to_le_bytes value)\<rparr>))"

definition memory_write_all ::
    "MainMemory \<Rightarrow> Address \<Rightarrow> 'a::len word list \<Rightarrow> (OutOfBounds, MainMemory) result" where
  "memory_write_all m addr values =
     (if usize_add (unat addr) (length values * size_of TYPE('a)) > mm_BYTES m
      then Inl OutOfBounds
      else Inr (m\<lparr>mm_data :=
             data_write (mm_data m) (unat addr) (concat (map to_le_bytes values))\<rparr>))"

section \<open>Bus\<close>

datatype AddressSpace = AS_Devices | AS_MainMemory | AS_OutOfBounds

text \<open>The argument is \<open>ML::BYTES\<close>.\<close>

definition locate :: "nat \<Rightarrow> Address \<Rightarrow> AddressSpace \<times> Address" where
  "locate BYTES addr =
     (if addr < DEVICES_ADDRESS_SPACE_LENGTH then (AS_Devices, addr)
      else
        let mem_addr = saturating_sub addr DEVICES_ADDRESS_SPACE_LENGTH;
            mem_size = of_nat BYTES
        in if mem_addr < mem_size then (AS_MainMemory, mem_addr)
           else (AS_OutOfBounds, saturating_sub mem_addr mem_size))"

primrec address_space_start :: "AddressSpace \<Rightarrow> nat \<Rightarrow> Address" where
  "address_space_start AS_Devices = (\<lambda>BYTES. 0)"
| "address_space_start AS_MainMemory = (\<lambda>BYTES. DEVICES_ADDRESS_SPACE_LENGTH)"
| "address_space_start AS_OutOfBounds = (\<lambda>BYTES. DEVICES_ADDRESS_SPACE_LENGTH + of_nat BYTES)"

record Bus =
  bus_devices :: Devices
  bus_memory :: MainMemory

definition bus_reset :: "Bus \<Rightarrow> Bus" where
  "bus_reset b = b\<lparr>bus_devices := devices_reset (bus_devices b),
                  bus_memory := memory_reset (bus_memory b)\<rparr>"

definition start_of_main_memory :: "nat \<Rightarrow> Address" where
  "start_of_main_memory BYTES = address_space_start AS_MainMemory BYTES"

abbreviation bus_BYTES :: "Bus \<Rightarrow> nat" where
  "bus_BYTES b \<equiv> mm_BYTES (bus_memory b)"

definition bus_read :: "Bus \<Rightarrow> Address \<Rightarrow> (OutOfBounds, 'a::len word) result" where
  "bus_read b addr =
     (let (addr_space, local_address) = locate (bus_BYTES b) addr in
      case addr_space of
        AS_Devices \<Rightarrow> devices_read (bus_devices b) local_address
      | AS_MainMemory \<Rightarrow> memory_read (bus_memory b) local_address
      | AS_OutOfBounds \<Rightarrow> Inl OutOfBounds)"

definition bus_write :: "Bus \<Rightarrow> Address \<Rightarrow> 'a::len word \<Rightarrow> (OutOfBounds, Bus) result" where
  "bus_write b addr value =
     (let (addr_space, local_address) = locate (bus_BYTES b) addr in
      case addr_space of
        AS_Devices \<Rightarrow>
          map_result (\<lambda>d. b\<lparr>bus_devices := d\<rparr>) (devices_write (bus_devices b) local_address value)
      | AS_MainMemory \<Rightarrow>
          map_result (\<lambda>m. b\<lparr>bus_memory := m\<rparr>) (memory_write (bus_memory b) local_address value)
      | AS_OutOfBounds \<Rightarrow> Inl OutOfBounds)"

definition bus_write_all :: "Bus \<Rightarrow> Address \<Rightarrow> 'a::len word list \<Rightarrow> (OutOfBounds, Bus) result" where
  "bus_write_all b addr values =
     (let end_addr = addr + of_nat (length values * size_of TYPE('a) - 1);
          (addr_space, local_addr) = locate (bus_BYTES b) addr;
          (end_addr_space, _) = locate (bus_BYTES b) end_addr
      in if addr_space \<noteq> end_addr_space then Inl OutOfBounds
         else case addr_space of
           AS_Devices \<Rightarrow>
             map_result (\<lambda>d. b\<lparr>bus_devices := d\<rparr>)
               (devices_write_all (bus_devices b) local_addr values)
         | AS_MainMemory \<Rightarrow>
             map_result (\<lambda>m. b\<lparr>bus_memory := m\<rparr>)
               (memory_write_all (bus_memory b) local_addr values)
         | AS_OutOfBounds \<Rightarrow> Inl OutOfBounds)"

section \<open>Partial byte maps\<close>

type_synonym byte_view = "nat \<Rightarrow> u8 option"

definition mapped :: "byte_view \<Rightarrow> nat \<Rightarrow> nat \<Rightarrow> bool" where
  "mapped vw a n \<longleftrightarrow> (\<forall>i<n. vw (a + i) \<noteq> None)"

definition view_bytes :: "byte_view \<Rightarrow> nat \<Rightarrow> nat \<Rightarrow> u8 list" where
  "view_bytes vw a n = map (\<lambda>i. the (vw (a + i))) [0..<n]"

definition view_write :: "byte_view \<Rightarrow> nat \<Rightarrow> u8 list \<Rightarrow> byte_view" where
  "view_write vw a bs = (\<lambda>i. if a \<le> i \<and> i < a + length bs then Some (bs ! (i - a)) else vw i)"

definition disjoint_ranges :: "nat \<Rightarrow> nat \<Rightarrow> nat \<Rightarrow> nat \<Rightarrow> bool" where
  "disjoint_ranges a n b m \<longleftrightarrow> a + n \<le> b \<or> b + m \<le> a"

lemma view_bytes_write_same: "view_bytes (view_write vw a bs) a (length bs) = bs"
  by (rule nth_equalityI) (simp_all add: view_bytes_def view_write_def)

lemma view_bytes_write_other:
  "disjoint_ranges a (length bs) b n \<Longrightarrow> view_bytes (view_write vw a bs) b n = view_bytes vw b n"
  by (auto simp: view_bytes_def view_write_def disjoint_ranges_def)

lemma mapped_write: "mapped vw a (length bs) \<Longrightarrow> mapped (view_write vw a bs) b n = mapped vw b n"
proof -
  assume "mapped vw a (length bs)"
  then have "view_write vw a bs i = None \<longleftrightarrow> vw i = None" for i
    unfolding mapped_def view_write_def
    by (cases "a \<le> i \<and> i < a + length bs") (auto dest: spec [of _ "i - a"])
  then show ?thesis
    by (simp add: mapped_def)
qed

lemma view_write_append:
  "view_write vw a (bs @ cs) = view_write (view_write vw a bs) (a + length bs) cs"
  by (auto simp: view_write_def fun_eq_iff nth_append)

section \<open>The contract of an addressable component\<close>

text \<open>
  \<open>ok\<close> is the component's invariant and \<open>adm\<close> the addresses its client may pass.  The
  contents are a partial byte map \<open>vw\<close>; an access succeeds exactly when all its bytes are
  mapped.
\<close>

locale addressable =
  fixes ok :: "'m \<Rightarrow> bool"
    and adm :: "Address \<Rightarrow> bool"
    and vw :: "'m \<Rightarrow> byte_view"
    and aread :: "'m \<Rightarrow> Address \<Rightarrow> (OutOfBounds, 'a::len word) result"
    and awrite :: "'m \<Rightarrow> Address \<Rightarrow> 'a word \<Rightarrow> (OutOfBounds, 'm) result"
  assumes elem: "8 dvd LENGTH('a)"
    and read_spec: "\<lbrakk>ok m; adm a\<rbrakk> \<Longrightarrow> aread m a =
      (if mapped (vw m) (unat a) (size_of TYPE('a))
       then Inr (from_le_bytes (view_bytes (vw m) (unat a) (size_of TYPE('a))))
       else Inl OutOfBounds)"
    and write_err: "\<lbrakk>ok m; adm a\<rbrakk> \<Longrightarrow>
      awrite m a v = Inl OutOfBounds \<longleftrightarrow> \<not> mapped (vw m) (unat a) (size_of TYPE('a))"
    and write_ok: "\<lbrakk>ok m; adm a; awrite m a v = Inr m'\<rbrakk> \<Longrightarrow>
      ok m' \<and> vw m' = view_write (vw m) (unat a) (to_le_bytes v)"
begin

lemma write_mapped:
  "\<lbrakk>ok m; adm a; awrite m a v = Inr m'\<rbrakk> \<Longrightarrow> mapped (vw m) (unat a) (size_of TYPE('a))"
  using write_err [of m a v] by auto

lemma read_after_write:
  assumes "ok m" "adm a" "awrite m a v = Inr m'"
  shows "aread m' a = Inr v"
proof -
  have m': "ok m'" "vw m' = view_write (vw m) (unat a) (to_le_bytes v)"
    using write_ok [OF assms] by simp_all
  have "mapped (vw m') (unat a) (size_of TYPE('a))"
    using write_mapped [OF assms] by (simp add: m' mapped_write)
  moreover have "view_bytes (vw m') (unat a) (size_of TYPE('a)) = to_le_bytes v"
    using view_bytes_write_same [of "vw m" "unat a" "to_le_bytes v"] by (simp add: m')
  ultimately show ?thesis
    using assms(2) by (simp add: read_spec m'(1) from_to_le_bytes [OF elem])
qed

lemma read_write_disjoint:
  assumes "ok m" "adm a" "adm b" "awrite m a v = Inr m'"
    and "disjoint_ranges (unat a) (size_of TYPE('a)) (unat b) (size_of TYPE('a))"
  shows "aread m' b = aread m b"
  using write_ok [OF assms(1,2,4)] write_mapped [OF assms(1,2,4)] assms
  by (simp add: read_spec mapped_write view_bytes_write_other)

lemma write_mapped_same:
  assumes "ok m" "adm a" "awrite m a v = Inr m'"
  shows "mapped (vw m') b n = mapped (vw m) b n"
  using write_ok [OF assms] write_mapped [OF assms] by (simp add: mapped_write)

lemma write_read_agree:
  assumes "ok m" "adm a"
  shows "awrite m a v = Inl OutOfBounds \<longleftrightarrow> aread m a = Inl OutOfBounds"
  using assms by (simp add: read_spec write_err)

end

section \<open>The devices, the main memory and the bus satisfy the contract\<close>

definition devices_view :: "Devices \<Rightarrow> byte_view" where
  "devices_view d = (\<lambda>i. None)"

definition memory_view :: "MainMemory \<Rightarrow> byte_view" where
  "memory_view m = (\<lambda>i. if i < mm_BYTES m then Some (mm_data m i) else None)"

definition bus_view :: "Bus \<Rightarrow> byte_view" where
  "bus_view b = (\<lambda>i. if 2 ^ 31 \<le> i then memory_view (bus_memory b) (i - 2 ^ 31) else None)"

text \<open>A Rust allocation, hence an array, has at most \<open>isize::MAX\<close> bytes.\<close>

definition memory_ok :: "MainMemory \<Rightarrow> bool" where
  "memory_ok m \<longleftrightarrow> mm_BYTES m < 2 ^ 63"

definition bus_ok :: "Bus \<Rightarrow> bool" where
  "bus_ok b \<longleftrightarrow> memory_ok (bus_memory b)"

text \<open>
  The sum in the bounds check of the main memory may wrap for an address at the very end of the
  address space.  The bus never passes one.
\<close>

definition memory_adm :: "Address \<Rightarrow> bool" where
  "memory_adm a \<longleftrightarrow> unat a < 2 ^ 63"

lemma mapped_nonempty_None: "0 < n \<Longrightarrow> \<not> mapped (\<lambda>i. None) a n"
  by (auto simp: mapped_def)

lemma elem_size_pos:
  assumes "8 dvd LENGTH('a::len)"
  shows "0 < LENGTH('a) div 8"
  using assms by (metis div_greater_zero_iff dvd_imp_le len_gt_0 zero_less_numeral)

lemma devices_addressable:
  assumes "8 dvd LENGTH('a)"
  shows "addressable (\<lambda>_. True) (\<lambda>_. True) devices_view
    (devices_read :: Devices \<Rightarrow> Address \<Rightarrow> (OutOfBounds, 'a::len word) result) devices_write"
  using elem_size_pos [OF assms] by unfold_locales
    (simp_all add: assms devices_read_def devices_write_def devices_view_def mapped_nonempty_None)

lemma mapped_memory: "0 < n \<Longrightarrow> mapped (memory_view m) a n \<longleftrightarrow> a + n \<le> mm_BYTES m"
proof -
  assume n: "0 < n"
  have "(\<forall>i<n. a + i < mm_BYTES m) \<longleftrightarrow> a + n \<le> mm_BYTES m"
  proof
    assume "\<forall>i<n. a + i < mm_BYTES m"
    from this [rule_format, of "n - 1"] n show "a + n \<le> mm_BYTES m" by linarith
  qed auto
  moreover have "mapped (memory_view m) a n \<longleftrightarrow> (\<forall>i<n. a + i < mm_BYTES m)"
    by (auto simp: mapped_def memory_view_def)
  ultimately show ?thesis
    by simp
qed

lemma memory_view_write:
  "a + length bs \<le> mm_BYTES m \<Longrightarrow>
   memory_view (m\<lparr>mm_data := data_write (mm_data m) a bs\<rparr>) = view_write (memory_view m) a bs"
  by (auto simp: memory_view_def view_write_def data_write_def fun_eq_iff)

lemma memory_view_bytes:
  "a + n \<le> mm_BYTES m \<Longrightarrow> view_bytes (memory_view m) a n = data_read (mm_data m) a n"
  by (rule nth_equalityI) (simp_all add: view_bytes_def memory_view_def data_read_def)

lemma usize_add_small: "a + b < 2 ^ 64 \<Longrightarrow> usize_add a b = a + b"
  by (simp add: usize_add_def)

lemma memory_read_spec:
  assumes "memory_adm a" "8 dvd LENGTH('a)" "LENGTH('a) \<le> 2 ^ 32"
  shows "(memory_read m a :: (OutOfBounds, 'a::len word) result) =
    (if mapped (memory_view m) (unat a) (size_of TYPE('a))
     then Inr (from_le_bytes (view_bytes (memory_view m) (unat a) (size_of TYPE('a))))
     else Inl OutOfBounds)"
  using assms elem_size_pos [OF assms(2)]
  by (simp add: memory_read_def mapped_memory memory_view_bytes usize_add_small memory_adm_def)

lemma memory_write_spec:
  assumes "memory_adm a" "8 dvd LENGTH('a)" "LENGTH('a) \<le> 2 ^ 32"
  shows "memory_write m a (v :: 'a::len word) =
    (if mapped (memory_view m) (unat a) (size_of TYPE('a))
     then Inr (m\<lparr>mm_data := data_write (mm_data m) (unat a) (to_le_bytes v)\<rparr>)
     else Inl OutOfBounds)"
  using assms elem_size_pos [OF assms(2)]
  by (simp add: memory_write_def mapped_memory usize_add_small memory_adm_def)

lemma memory_addressable:
  assumes "8 dvd LENGTH('a)" "LENGTH('a) \<le> 2 ^ 32"
  shows "addressable memory_ok memory_adm memory_view
    (memory_read :: MainMemory \<Rightarrow> Address \<Rightarrow> (OutOfBounds, 'a::len word) result) memory_write"
proof
  fix m m' :: MainMemory and a :: Address and v :: "'a word"
  assume ok: "memory_ok m" and adm: "memory_adm a"
  show "memory_read m a =
      (if mapped (memory_view m) (unat a) (size_of TYPE('a))
       then Inr (from_le_bytes (view_bytes (memory_view m) (unat a) (size_of TYPE('a))) :: 'a word)
       else Inl OutOfBounds)"
    by (rule memory_read_spec [OF adm assms])
  show "memory_write m a v = Inl OutOfBounds \<longleftrightarrow>
      \<not> mapped (memory_view m) (unat a) (size_of TYPE('a))"
    by (simp add: memory_write_spec [OF adm assms])
  assume "memory_write m a v = Inr m'"
  then have "mapped (memory_view m) (unat a) (size_of TYPE('a))"
      "m' = m\<lparr>mm_data := data_write (mm_data m) (unat a) (to_le_bytes v)\<rparr>"
    by (simp_all add: memory_write_spec [OF adm assms] split: if_splits)
  then show "memory_ok m' \<and> memory_view m' = view_write (memory_view m) (unat a) (to_le_bytes v)"
    using ok elem_size_pos [OF assms(1)]
    by (simp add: memory_view_write mapped_memory memory_ok_def)
qed (rule assms)

text \<open>The address decoder as arithmetic on natural numbers.\<close>

lemma DEVICES_unat: "unat DEVICES_ADDRESS_SPACE_LENGTH = 2 ^ 31"
  by (simp add: DEVICES_ADDRESS_SPACE_LENGTH_def)

lemma unat_mem_addr:
  "DEVICES_ADDRESS_SPACE_LENGTH \<le> a \<Longrightarrow>
   unat (saturating_sub a DEVICES_ADDRESS_SPACE_LENGTH) = unat a - 2 ^ 31"
  by (simp add: saturating_sub_def unat_sub DEVICES_unat)

lemma locate_cases:
  assumes "BYTES < 2 ^ 63"
  obtains (devices) "unat a < 2 ^ 31" "locate BYTES a = (AS_Devices, a)"
  | (memory) l where "2 ^ 31 \<le> unat a" "unat a < 2 ^ 31 + BYTES" "unat l = unat a - 2 ^ 31"
      "locate BYTES a = (AS_MainMemory, l)"
  | (oob) l where "2 ^ 31 + BYTES \<le> unat a" "unat l = unat a - 2 ^ 31 - BYTES"
      "locate BYTES a = (AS_OutOfBounds, l)"
proof -
  let ?l = "saturating_sub a DEVICES_ADDRESS_SPACE_LENGTH"
  have B: "unat (of_nat BYTES :: u64) = BYTES"
    using assms by (simp add: unat_of_nat)
  show thesis
  proof (cases "a < DEVICES_ADDRESS_SPACE_LENGTH")
    case True
    then show thesis
      using devices DEVICES_unat by (simp add: word_less_nat_alt locate_def)
  next
    case False
    then have d: "DEVICES_ADDRESS_SPACE_LENGTH \<le> a" "2 ^ 31 \<le> unat a"
      using DEVICES_unat by (simp_all add: word_le_nat_alt not_less)
    show thesis
    proof (cases "?l < of_nat BYTES")
      case True
      then have "locate BYTES a = (AS_MainMemory, ?l)"
        using False by (simp add: locate_def Let_def)
      with True d unat_mem_addr [OF d(1)] show thesis
        by (intro memory [of ?l]) (auto simp: word_less_nat_alt B)
    next
      case F: False
      then have "locate BYTES a = (AS_OutOfBounds, saturating_sub ?l (of_nat BYTES))"
        using False by (simp add: locate_def Let_def)
      with F d unat_mem_addr [OF d(1)] show thesis
        by (intro oob [of "saturating_sub ?l (of_nat BYTES)"])
          (auto simp: not_less word_le_nat_alt saturating_sub_def unat_sub B)
    qed
  qed
qed

lemma bus_BYTES_bound: "bus_ok b \<Longrightarrow> bus_BYTES b < 2 ^ 63"
  by (simp add: bus_ok_def memory_ok_def)

lemma mapped_bus:
  assumes "0 < n"
  shows "mapped (bus_view b) a n \<longleftrightarrow> 2 ^ 31 \<le> a \<and> mapped (memory_view (bus_memory b)) (a - 2 ^ 31) n"
proof (cases "2 ^ 31 \<le> a")
  case True
  then show ?thesis
    by (simp add: mapped_def bus_view_def)
next
  case False
  then have "bus_view b (a + 0) = None"
    by (simp add: bus_view_def)
  with assms False show ?thesis
    unfolding mapped_def by blast
qed

lemma view_bytes_bus:
  "2 ^ 31 \<le> a \<Longrightarrow> view_bytes (bus_view b) a n = view_bytes (memory_view (bus_memory b)) (a - 2 ^ 31) n"
  by (simp add: view_bytes_def bus_view_def)

lemma bus_view_memory_write:
  assumes "2 ^ 31 \<le> a" "memory_view m = view_write (memory_view (bus_memory b)) (a - 2 ^ 31) bs"
  shows "bus_view (b\<lparr>bus_memory := m\<rparr>) = view_write (bus_view b) a bs"
  using assms by (auto simp: bus_view_def view_write_def fun_eq_iff)

lemma bus_read_spec:
  assumes "bus_ok b" "8 dvd LENGTH('a)" "LENGTH('a) \<le> 2 ^ 32"
  shows "(bus_read b a :: (OutOfBounds, 'a::len word) result) =
    (if mapped (bus_view b) (unat a) (size_of TYPE('a))
     then Inr (from_le_bytes (view_bytes (bus_view b) (unat a) (size_of TYPE('a))))
     else Inl OutOfBounds)"
proof -
  note pos = elem_size_pos [OF assms(2)]
  have B: "bus_BYTES b < 2 ^ 63"
    using assms(1) by (rule bus_BYTES_bound)
  then show ?thesis
  proof (cases rule: locate_cases [where a = a])
    case devices
    then show ?thesis
      using pos by (simp add: bus_read_def devices_read_def mapped_bus)
  next
    case (memory l)
    then have "memory_adm l"
      using B by (simp add: memory_adm_def)
    from memory_read_spec [OF this assms(2,3)] memory pos show ?thesis
      by (simp add: bus_read_def mapped_bus view_bytes_bus)
  next
    case (oob l)
    then show ?thesis
      using pos by (simp add: bus_read_def mapped_bus mapped_memory)
  qed
qed

lemma bus_write_spec:
  assumes "bus_ok b" "8 dvd LENGTH('a)" "LENGTH('a) \<le> 2 ^ 32"
  shows "if mapped (bus_view b) (unat a) (size_of TYPE('a))
    then \<exists>b'. bus_write b a (v :: 'a::len word) = Inr b' \<and> bus_ok b' \<and>
      bus_view b' = view_write (bus_view b) (unat a) (to_le_bytes v)
    else bus_write b a v = Inl OutOfBounds"
proof -
  note pos = elem_size_pos [OF assms(2)]
  have B: "bus_BYTES b < 2 ^ 63"
    using assms(1) by (rule bus_BYTES_bound)
  then show ?thesis
  proof (cases rule: locate_cases [where a = a])
    case devices
    then show ?thesis
      using pos by (simp add: bus_write_def devices_write_def mapped_bus)
  next
    case (memory l)
    then have adm: "memory_adm l"
      using B by (simp add: memory_adm_def)
    let ?m = "(bus_memory b)\<lparr>mm_data := data_write (mm_data (bus_memory b)) (unat l) (to_le_bytes v)\<rparr>"
    have "bus_view (b\<lparr>bus_memory := ?m\<rparr>) = view_write (bus_view b) (unat a) (to_le_bytes v)"
      if "unat l + LENGTH('a) div 8 \<le> bus_BYTES b"
      using memory that by (intro bus_view_memory_write) (simp_all add: memory_view_write)
    with memory_write_spec [OF adm assms(2,3), of "bus_memory b" v] memory pos assms(1) show ?thesis
      by (simp add: bus_write_def mapped_bus mapped_memory bus_ok_def memory_ok_def)
  next
    case (oob l)
    then show ?thesis
      using pos by (simp add: bus_write_def mapped_bus mapped_memory)
  qed
qed

lemma unat_add_of_nat: "unat a + k < 2 ^ 64 \<Longrightarrow> unat (a + of_nat k :: u64) = unat a + k"
  by (simp add: unat_word_ariths unat_of_nat)

lemma length_concat_bytes:
  "length (concat (map to_le_bytes (vs :: 'a::len word list))) = length vs * (LENGTH('a) div 8)"
  by (induction vs) simp_all

text \<open>
  A bulk write succeeds exactly when all its bytes are mapped; an empty one needs an address within
  the main memory.
\<close>

lemma bus_write_all_spec:
  fixes vs :: "'a::len word list"
  defines "n \<equiv> length vs * size_of TYPE('a)"
  assumes "bus_ok b" "0 < n" "n < 2 ^ 62" "unat a + n \<le> 2 ^ 64"
  shows "if mapped (bus_view b) (unat a) n
    then \<exists>b'. bus_write_all b a vs = Inr b' \<and> bus_ok b' \<and>
      bus_view b' = view_write (bus_view b) (unat a) (concat (map to_le_bytes vs))
    else bus_write_all b a vs = Inl OutOfBounds"
proof -
  have B: "bus_BYTES b < 2 ^ 63"
    using assms(2) by (rule bus_BYTES_bound)
  let ?e = "a + of_nat (n - 1)"
  have e: "unat ?e = unat a + (n - 1)"
    using assms(3,5) by (intro unat_add_of_nat) simp
  have len: "length (concat (map to_le_bytes vs)) = n"
    by (simp add: length_concat_bytes n_def)
  have unfold: "bus_write_all b a vs =
    (case (locate (bus_BYTES b) a, locate (bus_BYTES b) ?e) of ((s, l), (s', _)) \<Rightarrow>
      if s \<noteq> s' then Inl OutOfBounds else case s of
        AS_Devices \<Rightarrow> map_result (\<lambda>d. b\<lparr>bus_devices := d\<rparr>) (devices_write_all (bus_devices b) l vs)
      | AS_MainMemory \<Rightarrow> map_result (\<lambda>m. b\<lparr>bus_memory := m\<rparr>) (memory_write_all (bus_memory b) l vs)
      | AS_OutOfBounds \<Rightarrow> Inl OutOfBounds)"
    by (simp add: bus_write_all_def Let_def n_def split: prod.splits)
  from B show ?thesis
  proof (cases rule: locate_cases [where a = a])
    case devices
    then show ?thesis
      using assms(3) by (simp add: unfold devices_write_all_def mapped_bus split: prod.split)
  next
    case (oob l)
    then show ?thesis
      using assms(3) by (auto simp: unfold mapped_bus mapped_memory split: prod.split)
  next
    case (memory l)
    show ?thesis
    proof (cases "unat l + n \<le> bus_BYTES b")
      case False
      then have "fst (locate (bus_BYTES b) ?e) = AS_OutOfBounds"
        using memory assms(3) e by (cases rule: locate_cases [OF B, where a = ?e]) simp_all
      then show ?thesis
        using memory False assms(3)
        by (cases "locate (bus_BYTES b) ?e") (simp add: unfold mapped_bus mapped_memory)
    next
      case True
      let ?m = "(bus_memory b)\<lparr>mm_data :=
        data_write (mm_data (bus_memory b)) (unat l) (concat (map to_le_bytes vs))\<rparr>"
      have "fst (locate (bus_BYTES b) ?e) = AS_MainMemory"
        using memory True assms(3) e by (cases rule: locate_cases [OF B, where a = ?e]) simp_all
      then have "bus_write_all b a vs = Inr (b\<lparr>bus_memory := ?m\<rparr>)"
        using memory True B
        by (cases "locate (bus_BYTES b) ?e")
          (simp add: unfold memory_write_all_def usize_add_small n_def)
      moreover have "bus_view (b\<lparr>bus_memory := ?m\<rparr>) =
          view_write (bus_view b) (unat a) (concat (map to_le_bytes vs))"
        using memory True len by (intro bus_view_memory_write) (simp_all add: memory_view_write)
      ultimately show ?thesis
        using memory True assms(2,3)
        by (simp add: mapped_bus mapped_memory bus_ok_def memory_ok_def)
    qed
  qed
qed

lemma bus_addressable:
  assumes "8 dvd LENGTH('a)" "LENGTH('a) \<le> 2 ^ 32"
  shows "addressable bus_ok (\<lambda>_. True) bus_view
    (bus_read :: Bus \<Rightarrow> Address \<Rightarrow> (OutOfBounds, 'a::len word) result) bus_write"
proof
  fix b b' :: Bus and a :: Address and v :: "'a word"
  assume ok: "bus_ok b"
  show "bus_read b a =
      (if mapped (bus_view b) (unat a) (size_of TYPE('a))
       then Inr (from_le_bytes (view_bytes (bus_view b) (unat a) (size_of TYPE('a))) :: 'a word)
       else Inl OutOfBounds)"
    by (rule bus_read_spec [OF ok assms])
  show "bus_write b a v = Inl OutOfBounds \<longleftrightarrow>
      \<not> mapped (bus_view b) (unat a) (size_of TYPE('a))"
    using bus_write_spec [OF ok assms, of a v] by (auto split: if_splits)
  show "bus_ok b' \<and> bus_view b' = view_write (bus_view b) (unat a) (to_le_bytes v)"
    if "bus_write b a v = Inr b'"
    using bus_write_spec [OF ok assms, of a v] that by (auto split: if_splits)
qed (rule assms)

text \<open>The element types of the interpreter: bytes, half words, words and double words.\<close>

interpretation dev8: addressable "\<lambda>_. True" "\<lambda>_. True" devices_view
    "devices_read :: Devices \<Rightarrow> Address \<Rightarrow> (OutOfBounds, u8) result" devices_write
  by (rule devices_addressable) simp

interpretation mem8: addressable memory_ok memory_adm memory_view
    "memory_read :: MainMemory \<Rightarrow> Address \<Rightarrow> (OutOfBounds, u8) result" memory_write
  by (rule memory_addressable) simp_all

interpretation mem64: addressable memory_ok memory_adm memory_view
    "memory_read :: MainMemory \<Rightarrow> Address \<Rightarrow> (OutOfBounds, u64) result" memory_write
  by (rule memory_addressable) simp_all

interpretation bus8: addressable bus_ok "\<lambda>_. True" bus_view
    "bus_read :: Bus \<Rightarrow> Address \<Rightarrow> (OutOfBounds, u8) result" bus_write
  by (rule bus_addressable) simp_all

interpretation bus16: addressable bus_ok "\<lambda>_. True" bus_view
    "bus_read :: Bus \<Rightarrow> Address \<Rightarrow> (OutOfBounds, u16) result" bus_write
  by (rule bus_addressable) simp_all

interpretation bus32: addressable bus_ok "\<lambda>_. True" bus_view
    "bus_read :: Bus \<Rightarrow> Address \<Rightarrow> (OutOfBounds, u32) result" bus_write
  by (rule bus_addressable) simp_all

interpretation bus64: addressable bus_ok "\<lambda>_. True" bus_view
    "bus_read :: Bus \<Rightarrow> Address \<Rightarrow> (OutOfBounds, u64) result" bus_write
  by (rule bus_addressable) simp_all

section \<open>Properties\<close>

lemma bus_mapped_iff:
  "0 < n \<Longrightarrow> mapped (bus_view b) a n \<longleftrightarrow> 2 ^ 31 \<le> a \<and> a + n \<le> 2 ^ 31 + bus_BYTES b"
  by (auto simp: mapped_bus mapped_memory)

text \<open>
  C22: After a successful bus write, a read of the same element type at the address returns the value
  written, a read of any element type at a disjoint address returns what it returned before, and
  the size of the memory has not changed.
\<close>

theorem bus_read_after_write:
  fixes v :: "'a::len word"
  assumes "LENGTH('a) \<in> {8, 16, 32, 64}" "LENGTH('b::len) \<in> {8, 16, 32, 64}"
    and "bus_ok b" and "bus_write b addr v = Inr b'"
  shows "bus_read b' addr = Inr v \<and> bus_ok b' \<and>
    (\<forall>addr'. disjoint_ranges (unat addr) (size_of TYPE('a)) (unat addr') (size_of TYPE('b)) \<longrightarrow>
      (bus_read b' addr' :: (OutOfBounds, 'b word) result) = bus_read b addr')"
proof (intro conjI allI impI)
  have a: "8 dvd LENGTH('a)" "LENGTH('a) \<le> 2 ^ 32" and c: "8 dvd LENGTH('b)" "LENGTH('b) \<le> 2 ^ 32"
    using assms(1,2) by auto
  note A = bus_addressable [OF a]
  show "bus_read b' addr = Inr v"
    using addressable.read_after_write [OF A assms(3) TrueI assms(4)] .
  have b': "bus_ok b'" "bus_view b' = view_write (bus_view b) (unat addr) (to_le_bytes v)"
    using addressable.write_ok [OF A assms(3) TrueI assms(4)] by simp_all
  then show "bus_ok b'" by simp
  fix addr' :: Address
  assume "disjoint_ranges (unat addr) (size_of TYPE('a)) (unat addr') (size_of TYPE('b))"
  with addressable.write_mapped [OF A assms(3) TrueI assms(4)]
  show "(bus_read b' addr' :: (OutOfBounds, 'b word) result) = bus_read b addr'"
    by (simp add: bus_read_spec [OF b'(1) c] bus_read_spec [OF assms(3) c] b'(2)
        mapped_write view_bytes_write_other)
qed

lemmas bus_eval = bus_write_def bus_read_def memory_write_def memory_read_def locate_def
  DEVICES_ADDRESS_SPACE_LENGTH_def saturating_sub_def usize_add_def bus_ok_def memory_ok_def
  word_less_nat_alt word_le_nat_alt

definition example_bus :: Bus where
  "example_bus = \<lparr>bus_devices = \<lparr>dev_placeholder = 0\<rparr>,
     bus_memory = \<lparr>mm_BYTES = 1024, mm_data = \<lambda>_. 0\<rparr>\<rparr>"

theorem bus_read_after_write_witness:
  "\<exists>b'. bus_write example_bus 0x80000010 (0x1122334455667788 :: u64) = Inr b' \<and>
     bus_read b' 0x80000010 = Inr (0x1122334455667788 :: u64) \<and>
     bus_read b' 0x80000018 = Inr (0 :: u8)"
proof -
  obtain b' where b': "bus_write example_bus 0x80000010 (0x1122334455667788 :: u64) = Inr b'"
    by (simp add: bus_eval example_bus_def)
  have ok: "bus_ok example_bus"
    by (simp add: bus_eval example_bus_def)
  have "(bus_read example_bus 0x80000018 :: (OutOfBounds, u8) result) = Inr 0"
    by (simp add: bus_eval example_bus_def data_read_def)
  with b' bus_read_after_write [where 'a = 64 and 'b = 8, OF _ _ ok b'] show ?thesis
    by (auto simp: disjoint_ranges_def)
qed

text \<open>
  A bus access of \<open>n\<close> bytes succeeds exactly when it lies within the main memory, which
  starts at 2 GiB; reads and writes agree on this, and no access wraps around.
\<close>

theorem bus_access_bounds:
  fixes v :: "'a::len word"
  assumes "LENGTH('a) \<in> {8, 16, 32, 64}" and "bus_ok b"
  shows "((\<exists>w :: 'a word. bus_read b addr = Inr w) \<longleftrightarrow>
      2 ^ 31 \<le> unat addr \<and> unat addr + size_of TYPE('a) \<le> 2 ^ 31 + bus_BYTES b) \<and>
    ((\<exists>b'. bus_write b addr v = Inr b') \<longleftrightarrow> (\<exists>w :: 'a word. bus_read b addr = Inr w))"
proof -
  have a: "8 dvd LENGTH('a)" "LENGTH('a) \<le> 2 ^ 32"
    using assms(1) by auto
  have "mapped (bus_view b) (unat addr) (size_of TYPE('a)) \<longleftrightarrow>
      2 ^ 31 \<le> unat addr \<and> unat addr + size_of TYPE('a) \<le> 2 ^ 31 + bus_BYTES b"
    using elem_size_pos [OF a(1)] by (simp add: bus_mapped_iff)
  with bus_read_spec [OF assms(2) a, of addr] bus_write_spec [OF assms(2) a, of addr v] show ?thesis
    by (auto split: if_splits)
qed

theorem bus_access_bounds_witness:
  "(\<exists>w :: u32. bus_read example_bus 0x800003FC = Inr w) \<and>
   \<not> (\<exists>w :: u64. bus_read example_bus 0x800003FC = Inr w)"
proof -
  have ok: "bus_ok example_bus" and B: "bus_BYTES example_bus = 1024"
    by (simp_all add: bus_eval example_bus_def)
  show ?thesis
    using bus_access_bounds [where 'a = 32, OF _ ok, where addr = "0x800003FC"]
      bus_access_bounds [where 'a = 64, OF _ ok, where addr = "0x800003FC"] B by simp
qed

end
