(* ===== verification/RV_Fields.thy ===== *)
theory RV_Fields
  imports RV_Bus
begin

text \<open>
  Register fields (\<open>csregisters/fields.rs\<close>), the field types and masks of the status registers
  (\<open>csregisters/xstatus.rs\<close>) and the \<open>satp\<close> register (\<open>csregisters/satp.rs\<close>).

  The Rust trait \<open>FieldValue\<close> is a pair of functions, \<open>new\<close> from the raw bits and
  \<open>raw_bits\<close> back.  The macro \<open>create_field!\<close> generates a getter and a setter per field; here
  they are instances of \<open>get_field\<close> and \<open>set_field\<close>.  The locale \<open>register_field\<close> states
  the contract of \<open>FieldValue\<close> and derives the laws of the getter and the setter; it is
  interpreted on every field that is both read and written.
\<close>

section \<open>Bit masks and fields\<close>

definition ones :: "u64 \<Rightarrow> u64" where
  "ones n = (let sh_amt = saturating_sub 64 n in if n = 0 then 0 else shr64 (NOT 0) sh_amt)"

record FieldProps =
  field_offset :: u64
  field_width :: u64

definition FieldProps_new :: "u64 \<Rightarrow> u64 \<Rightarrow> FieldProps" where
  "FieldProps_new off w = \<lparr>field_offset = off, field_width = w\<rparr>"

definition get_field :: "FieldProps \<Rightarrow> (u64 \<Rightarrow> 'v) \<Rightarrow> CSRValue \<Rightarrow> 'v" where
  "get_field p new reg_value = new (shr64 reg_value (field_offset p) AND ones (field_width p))"

definition set_field :: "FieldProps \<Rightarrow> ('v \<Rightarrow> u64) \<Rightarrow> CSRValue \<Rightarrow> 'v \<Rightarrow> CSRValue" where
  "set_field p raw_bits reg_value new_value =
     (let field_bits = raw_bits new_value AND ones (field_width p);
          reg_value = reg_value AND NOT (shl64 (ones (field_width p)) (field_offset p))
      in reg_value OR shl64 field_bits (field_offset p))"

definition field_mask :: "FieldProps \<Rightarrow> CSRValue" where
  "field_mask p = shl64 (ones (field_width p)) (field_offset p)"

text \<open>\<open>UnsignedValue\<close> wraps the raw bits.\<close>

type_synonym UnsignedValue = u64

definition UnsignedValue_new :: "u64 \<Rightarrow> UnsignedValue" where
  "UnsignedValue_new value = value"

definition UnsignedValue_raw_bits :: "UnsignedValue \<Rightarrow> u64" where
  "UnsignedValue_raw_bits v = v"

section \<open>Field types of the status registers\<close>

definition bool_new :: "u64 \<Rightarrow> bool" where
  "bool_new value \<longleftrightarrow> value AND 1 = 1"

definition bool_raw_bits :: "bool \<Rightarrow> u64" where
  "bool_raw_bits b = (if b then 1 else 0)"

datatype MPPValue = MPP_User | MPP_Supervisor | MPP_Machine

definition MPPValue_new :: "u64 \<Rightarrow> MPPValue" where
  "MPPValue_new value =
     (let v = value AND 3 in
      if v = 0 then MPP_User
      else if v = 1 then MPP_Supervisor
      else if v = 3 then MPP_Machine
      else MPP_User)"

primrec MPPValue_raw_bits :: "MPPValue \<Rightarrow> u64" where
  "MPPValue_raw_bits MPP_User = 0"
| "MPPValue_raw_bits MPP_Supervisor = 1"
| "MPPValue_raw_bits MPP_Machine = 3"

datatype SPPValue = SPP_User | SPP_Supervisor

definition SPPValue_new :: "u64 \<Rightarrow> SPPValue" where
  "SPPValue_new value = (if value AND 1 = 0 then SPP_User else SPP_Supervisor)"

primrec SPPValue_raw_bits :: "SPPValue \<Rightarrow> u64" where
  "SPPValue_raw_bits SPP_User = 0"
| "SPPValue_raw_bits SPP_Supervisor = 1"

datatype XLenValue = MXL32 | MXL64 | MXL128

definition XLenValue_new :: "u64 \<Rightarrow> XLenValue" where
  "XLenValue_new value =
     (let v = value AND 3 in
      if v = 1 then MXL32
      else if v = 2 then MXL64
      else if v = 3 then MXL128
      else MXL64)"

primrec XLenValue_raw_bits :: "XLenValue \<Rightarrow> u64" where
  "XLenValue_raw_bits MXL32 = 1"
| "XLenValue_raw_bits MXL64 = 2"
| "XLenValue_raw_bits MXL128 = 3"

datatype ExtensionValue = Off | Initial | Clean | Dirty

definition ExtensionValue_new :: "u64 \<Rightarrow> ExtensionValue" where
  "ExtensionValue_new value =
     (let v = value AND 3 in
      if v = 0 then Off
      else if v = 1 then Initial
      else if v = 2 then Clean
      else Dirty)"

primrec ExtensionValue_raw_bits :: "ExtensionValue \<Rightarrow> u64" where
  "ExtensionValue_raw_bits Off = 0"
| "ExtensionValue_raw_bits Initial = 1"
| "ExtensionValue_raw_bits Clean = 2"
| "ExtensionValue_raw_bits Dirty = 3"

section \<open>Fields of the status registers\<close>

definition FIELD_SD :: FieldProps where
  "FIELD_SD = FieldProps_new 63 1"

definition get_SD :: "CSRValue \<Rightarrow> bool" where
  "get_SD reg_value = get_field FIELD_SD bool_new reg_value"

definition set_SD :: "CSRValue \<Rightarrow> bool \<Rightarrow> CSRValue" where
  "set_SD reg_value new_value = set_field FIELD_SD bool_raw_bits reg_value new_value"

definition FIELD_MBE :: FieldProps where
  "FIELD_MBE = FieldProps_new 37 1"

definition get_MBE :: "CSRValue \<Rightarrow> bool" where
  "get_MBE reg_value = get_field FIELD_MBE bool_new reg_value"

definition set_MBE :: "CSRValue \<Rightarrow> bool \<Rightarrow> CSRValue" where
  "set_MBE reg_value new_value = set_field FIELD_MBE bool_raw_bits reg_value new_value"

definition FIELD_SBE :: FieldProps where
  "FIELD_SBE = FieldProps_new 36 1"

definition get_SBE :: "CSRValue \<Rightarrow> bool" where
  "get_SBE reg_value = get_field FIELD_SBE bool_new reg_value"

definition set_SBE :: "CSRValue \<Rightarrow> bool \<Rightarrow> CSRValue" where
  "set_SBE reg_value new_value = set_field FIELD_SBE bool_raw_bits reg_value new_value"

definition FIELD_SXL :: FieldProps where
  "FIELD_SXL = FieldProps_new 34 2"

definition get_SXL :: "CSRValue \<Rightarrow> XLenValue" where
  "get_SXL reg_value = get_field FIELD_SXL XLenValue_new reg_value"

definition set_SXL :: "CSRValue \<Rightarrow> XLenValue \<Rightarrow> CSRValue" where
  "set_SXL reg_value new_value = set_field FIELD_SXL XLenValue_raw_bits reg_value new_value"

definition FIELD_UXL :: FieldProps where
  "FIELD_UXL = FieldProps_new 32 2"

definition get_UXL :: "CSRValue \<Rightarrow> XLenValue" where
  "get_UXL reg_value = get_field FIELD_UXL XLenValue_new reg_value"

definition set_UXL :: "CSRValue \<Rightarrow> XLenValue \<Rightarrow> CSRValue" where
  "set_UXL reg_value new_value = set_field FIELD_UXL XLenValue_raw_bits reg_value new_value"

definition FIELD_TSR :: FieldProps where
  "FIELD_TSR = FieldProps_new 22 1"

definition get_TSR :: "CSRValue \<Rightarrow> bool" where
  "get_TSR reg_value = get_field FIELD_TSR bool_new reg_value"

definition set_TSR :: "CSRValue \<Rightarrow> bool \<Rightarrow> CSRValue" where
  "set_TSR reg_value new_value = set_field FIELD_TSR bool_raw_bits reg_value new_value"

definition FIELD_TW :: FieldProps where
  "FIELD_TW = FieldProps_new 21 1"

definition get_TW :: "CSRValue \<Rightarrow> bool" where
  "get_TW reg_value = get_field FIELD_TW bool_new reg_value"

definition set_TW :: "CSRValue \<Rightarrow> bool \<Rightarrow> CSRValue" where
  "set_TW reg_value new_value = set_field FIELD_TW bool_raw_bits reg_value new_value"

definition FIELD_TVM :: FieldProps where
  "FIELD_TVM = FieldProps_new 20 1"

definition get_TVM :: "CSRValue \<Rightarrow> bool" where
  "get_TVM reg_value = get_field FIELD_TVM bool_new reg_value"

definition set_TVM :: "CSRValue \<Rightarrow> bool \<Rightarrow> CSRValue" where
  "set_TVM reg_value new_value = set_field FIELD_TVM bool_raw_bits reg_value new_value"

definition FIELD_MXR :: FieldProps where
  "FIELD_MXR = FieldProps_new 19 1"

definition get_MXR :: "CSRValue \<Rightarrow> bool" where
  "get_MXR reg_value = get_field FIELD_MXR bool_new reg_value"

definition set_MXR :: "CSRValue \<Rightarrow> bool \<Rightarrow> CSRValue" where
  "set_MXR reg_value new_value = set_field FIELD_MXR bool_raw_bits reg_value new_value"

definition FIELD_SUM :: FieldProps where
  "FIELD_SUM = FieldProps_new 18 1"

definition get_SUM :: "CSRValue \<Rightarrow> bool" where
  "get_SUM reg_value = get_field FIELD_SUM bool_new reg_value"

definition set_SUM :: "CSRValue \<Rightarrow> bool \<Rightarrow> CSRValue" where
  "set_SUM reg_value new_value = set_field FIELD_SUM bool_raw_bits reg_value new_value"

definition FIELD_MPRV :: FieldProps where
  "FIELD_MPRV = FieldProps_new 17 1"

definition get_MPRV :: "CSRValue \<Rightarrow> bool" where
  "get_MPRV reg_value = get_field FIELD_MPRV bool_new reg_value"

definition set_MPRV :: "CSRValue \<Rightarrow> bool \<Rightarrow> CSRValue" where
  "set_MPRV reg_value new_value = set_field FIELD_MPRV bool_raw_bits reg_value new_value"

definition FIELD_XS :: FieldProps where
  "FIELD_XS = FieldProps_new 15 2"

definition get_XS :: "CSRValue \<Rightarrow> ExtensionValue" where
  "get_XS reg_value = get_field FIELD_XS ExtensionValue_new reg_value"

definition set_XS :: "CSRValue \<Rightarrow> ExtensionValue \<Rightarrow> CSRValue" where
  "set_XS reg_value new_value = set_field FIELD_XS ExtensionValue_raw_bits reg_value new_value"

definition FIELD_FS :: FieldProps where
  "FIELD_FS = FieldProps_new 13 2"

definition get_FS :: "CSRValue \<Rightarrow> ExtensionValue" where
  "get_FS reg_value = get_field FIELD_FS ExtensionValue_new reg_value"

definition set_FS :: "CSRValue \<Rightarrow> ExtensionValue \<Rightarrow> CSRValue" where
  "set_FS reg_value new_value = set_field FIELD_FS ExtensionValue_raw_bits reg_value new_value"

definition FIELD_MPP :: FieldProps where
  "FIELD_MPP = FieldProps_new 11 2"

definition get_MPP :: "CSRValue \<Rightarrow> MPPValue" where
  "get_MPP reg_value = get_field FIELD_MPP MPPValue_new reg_value"

definition set_MPP :: "CSRValue \<Rightarrow> MPPValue \<Rightarrow> CSRValue" where
  "set_MPP reg_value new_value = set_field FIELD_MPP MPPValue_raw_bits reg_value new_value"

definition FIELD_VS :: FieldProps where
  "FIELD_VS = FieldProps_new 9 2"

definition get_VS :: "CSRValue \<Rightarrow> ExtensionValue" where
  "get_VS reg_value = get_field FIELD_VS ExtensionValue_new reg_value"

definition set_VS :: "CSRValue \<Rightarrow> ExtensionValue \<Rightarrow> CSRValue" where
  "set_VS reg_value new_value = set_field FIELD_VS ExtensionValue_raw_bits reg_value new_value"

definition FIELD_SPP :: FieldProps where
  "FIELD_SPP = FieldProps_new 8 1"

definition get_SPP :: "CSRValue \<Rightarrow> SPPValue" where
  "get_SPP reg_value = get_field FIELD_SPP SPPValue_new reg_value"

definition set_SPP :: "CSRValue \<Rightarrow> SPPValue \<Rightarrow> CSRValue" where
  "set_SPP reg_value new_value = set_field FIELD_SPP SPPValue_raw_bits reg_value new_value"

definition FIELD_MPIE :: FieldProps where
  "FIELD_MPIE = FieldProps_new 7 1"

definition get_MPIE :: "CSRValue \<Rightarrow> bool" where
  "get_MPIE reg_value = get_field FIELD_MPIE bool_new reg_value"

definition set_MPIE :: "CSRValue \<Rightarrow> bool \<Rightarrow> CSRValue" where
  "set_MPIE reg_value new_value = set_field FIELD_MPIE bool_raw_bits reg_value new_value"

definition FIELD_UBE :: FieldProps where
  "FIELD_UBE = FieldProps_new 6 1"

definition get_UBE :: "CSRValue \<Rightarrow> bool" where
  "get_UBE reg_value = get_field FIELD_UBE bool_new reg_value"

definition set_UBE :: "CSRValue \<Rightarrow> bool \<Rightarrow> CSRValue" where
  "set_UBE reg_value new_value = set_field FIELD_UBE bool_raw_bits reg_value new_value"

definition FIELD_SPIE :: FieldProps where
  "FIELD_SPIE = FieldProps_new 5 1"

definition get_SPIE :: "CSRValue \<Rightarrow> bool" where
  "get_SPIE reg_value = get_field FIELD_SPIE bool_new reg_value"

definition set_SPIE :: "CSRValue \<Rightarrow> bool \<Rightarrow> CSRValue" where
  "set_SPIE reg_value new_value = set_field FIELD_SPIE bool_raw_bits reg_value new_value"

definition FIELD_MIE :: FieldProps where
  "FIELD_MIE = FieldProps_new 3 1"

definition get_MIE :: "CSRValue \<Rightarrow> bool" where
  "get_MIE reg_value = get_field FIELD_MIE bool_new reg_value"

definition set_MIE :: "CSRValue \<Rightarrow> bool \<Rightarrow> CSRValue" where
  "set_MIE reg_value new_value = set_field FIELD_MIE bool_raw_bits reg_value new_value"

definition FIELD_SIE :: FieldProps where
  "FIELD_SIE = FieldProps_new 1 1"

definition get_SIE :: "CSRValue \<Rightarrow> bool" where
  "get_SIE reg_value = get_field FIELD_SIE bool_new reg_value"

definition set_SIE :: "CSRValue \<Rightarrow> bool \<Rightarrow> CSRValue" where
  "set_SIE reg_value new_value = set_field FIELD_SIE bool_raw_bits reg_value new_value"

definition FIELD_MNPP :: FieldProps where
  "FIELD_MNPP = FieldProps_new 11 2"

definition get_MNPP :: "CSRValue \<Rightarrow> MPPValue" where
  "get_MNPP reg_value = get_field FIELD_MNPP MPPValue_new reg_value"

definition set_MNPP :: "CSRValue \<Rightarrow> MPPValue \<Rightarrow> CSRValue" where
  "set_MNPP reg_value new_value = set_field FIELD_MNPP MPPValue_raw_bits reg_value new_value"

definition FIELD_MNPV :: FieldProps where
  "FIELD_MNPV = FieldProps_new 7 1"

definition get_MNPV :: "CSRValue \<Rightarrow> bool" where
  "get_MNPV reg_value = get_field FIELD_MNPV bool_new reg_value"

definition set_MNPV :: "CSRValue \<Rightarrow> bool \<Rightarrow> CSRValue" where
  "set_MNPV reg_value new_value = set_field FIELD_MNPV bool_raw_bits reg_value new_value"

definition FIELD_NMIE :: FieldProps where
  "FIELD_NMIE = FieldProps_new 3 1"

definition get_NMIE :: "CSRValue \<Rightarrow> bool" where
  "get_NMIE reg_value = get_field FIELD_NMIE bool_new reg_value"

definition set_NMIE :: "CSRValue \<Rightarrow> bool \<Rightarrow> CSRValue" where
  "set_NMIE reg_value new_value = set_field FIELD_NMIE bool_raw_bits reg_value new_value"

section \<open>Masks and WARL rules of the status registers\<close>

definition SSTATUS_FIELDS_MASK :: CSRValue where
  "SSTATUS_FIELDS_MASK =
     field_mask FIELD_SD OR field_mask FIELD_UXL OR field_mask FIELD_MXR OR field_mask FIELD_SUM
     OR field_mask FIELD_XS OR field_mask FIELD_FS OR field_mask FIELD_VS OR field_mask FIELD_SPP
     OR field_mask FIELD_UBE OR field_mask FIELD_SPIE OR field_mask FIELD_SIE"

definition MSTATUS_FIELDS_MASK :: CSRValue where
  "MSTATUS_FIELDS_MASK =
     SSTATUS_FIELDS_MASK OR field_mask FIELD_MBE OR field_mask FIELD_SBE OR field_mask FIELD_SXL
     OR field_mask FIELD_TSR OR field_mask FIELD_TW OR field_mask FIELD_TVM OR field_mask FIELD_MPRV
     OR field_mask FIELD_MPP OR field_mask FIELD_MPIE OR field_mask FIELD_MIE"

definition apply_warl_sstatus :: "CSRValue \<Rightarrow> CSRValue" where
  "apply_warl_sstatus mstatus =
     (let xs = get_XS mstatus;
          vs = get_VS mstatus;
          fs = get_FS mstatus;
          mstatus = set_SD mstatus (xs = Dirty \<or> fs = Dirty \<or> vs = Dirty)
      in set_UXL mstatus MXL64)"

definition apply_warl_mstatus :: "CSRValue \<Rightarrow> CSRValue" where
  "apply_warl_mstatus mstatus =
     (let mstatus = apply_warl_sstatus mstatus;
          mstatus = set_SXL mstatus MXL64;
          mpp = get_MPP mstatus
      in set_MPP mstatus mpp)"

definition apply_warl_mnstatus :: "CSRValue \<Rightarrow> CSRValue" where
  "apply_warl_mnstatus mnstatus =
     (let mnstatus = set_MNPV mnstatus False;
          mnstatus = set_NMIE mnstatus True;
          mnpp = get_MNPP mnstatus
      in set_MNPP mnstatus mnpp)"

definition sstatus_from_mstatus :: "CSRValue \<Rightarrow> CSRValue" where
  "sstatus_from_mstatus mstatus = mstatus AND SSTATUS_FIELDS_MASK"

section \<open>The \<open>satp\<close> register\<close>

definition SATP_MODE_OFFSET :: u64 where "SATP_MODE_OFFSET = 60"
definition MODE_BARE :: CSRValue where "MODE_BARE = 0"
definition MODE_SV39 :: CSRValue where "MODE_SV39 = 8"
definition MODE_SV48 :: CSRValue where "MODE_SV48 = 9"
definition MODE_SV57 :: CSRValue where "MODE_SV57 = 10"

definition SATP_DEFAULT_VALUE :: CSRValue where
  "SATP_DEFAULT_VALUE = shl64 MODE_BARE SATP_MODE_OFFSET"

datatype SvLength = Sv39 | Sv48 | Sv57

datatype TranslationAlgorithm = Bare | Sv SvLength

fun TranslationAlgorithm_enc :: "TranslationAlgorithm \<Rightarrow> CSRValue" where
  "TranslationAlgorithm_enc Bare = MODE_BARE"
| "TranslationAlgorithm_enc (Sv Sv39) = MODE_SV39"
| "TranslationAlgorithm_enc (Sv Sv48) = MODE_SV48"
| "TranslationAlgorithm_enc (Sv Sv57) = MODE_SV57"

definition TranslationAlgorithm_new :: "u64 \<Rightarrow> TranslationAlgorithm option" where
  "TranslationAlgorithm_new value =
     (let v = value AND 15 in
      if v = MODE_BARE then Some Bare
      else if v = MODE_SV39 then Some (Sv Sv39)
      else if v = MODE_SV48 then Some (Sv Sv48)
      else if v = MODE_SV57 then Some (Sv Sv57)
      else None)"

definition TranslationAlgorithm_raw_bits :: "TranslationAlgorithm option \<Rightarrow> u64" where
  "TranslationAlgorithm_raw_bits a =
     (case a of None \<Rightarrow> 0 | Some algorithm \<Rightarrow> TranslationAlgorithm_enc algorithm)"

definition FIELD_MODE :: FieldProps where
  "FIELD_MODE = FieldProps_new SATP_MODE_OFFSET 4"

definition get_MODE :: "CSRValue \<Rightarrow> TranslationAlgorithm option" where
  "get_MODE reg_value = get_field FIELD_MODE TranslationAlgorithm_new reg_value"

definition set_MODE :: "CSRValue \<Rightarrow> TranslationAlgorithm option \<Rightarrow> CSRValue" where
  "set_MODE reg_value new_value =
     set_field FIELD_MODE TranslationAlgorithm_raw_bits reg_value new_value"

definition FIELD_ASID :: FieldProps where
  "FIELD_ASID = FieldProps_new 44 16"

definition get_ASID :: "CSRValue \<Rightarrow> UnsignedValue" where
  "get_ASID reg_value = get_field FIELD_ASID UnsignedValue_new reg_value"

definition set_ASID :: "CSRValue \<Rightarrow> UnsignedValue \<Rightarrow> CSRValue" where
  "set_ASID reg_value new_value = set_field FIELD_ASID UnsignedValue_raw_bits reg_value new_value"

definition FIELD_satp_PPN :: FieldProps where
  "FIELD_satp_PPN = FieldProps_new 0 44"

definition get_satp_PPN :: "CSRValue \<Rightarrow> UnsignedValue" where
  "get_satp_PPN reg_value = get_field FIELD_satp_PPN UnsignedValue_new reg_value"

definition set_satp_PPN :: "CSRValue \<Rightarrow> UnsignedValue \<Rightarrow> CSRValue" where
  "set_satp_PPN reg_value new_value =
     set_field FIELD_satp_PPN UnsignedValue_raw_bits reg_value new_value"

section \<open>The contract of a register field\<close>

lemma ones_mask: "ones n = mask (unat n)" if "n \<le> 64"
proof (cases "n = 0")
  case False
  have "unat (64 - n) = 64 - unat n"
    using that by (simp add: unat_sub)
  moreover have "0 < unat n" "unat n \<le> 64"
    using False that by (simp_all add: unat_gt_0 word_le_nat_alt)
  ultimately show ?thesis
    using False that by (auto simp: ones_def saturating_sub_def shr64_def bit_simps intro!: bit_word_eqI)
qed (simp add: ones_def)

locale register_field =
  fixes p :: FieldProps and new :: "u64 \<Rightarrow> 'v" and raw_bits :: "'v \<Rightarrow> u64"
  assumes fits: "unat (field_offset p) + unat (field_width p) \<le> 64"
    and offset: "unat (field_offset p) < 64"
    and raw_width: "raw_bits v AND mask (unat (field_width p)) = raw_bits v"
    and new_raw: "new (raw_bits v) = v"
begin

lemma width: "field_width p \<le> 64"
  using fits by (simp add: word_le_nat_alt)

lemma bit_raw: "bit (raw_bits v) n \<Longrightarrow> n < unat (field_width p)"
  by (metis raw_width bit_and_iff bit_mask_iff)

lemma bit_field_mask:
  "bit (field_mask p) n \<longleftrightarrow>
     unat (field_offset p) \<le> n \<and> n < unat (field_offset p) + unat (field_width p)"
  using fits offset by (auto simp: field_mask_def ones_mask [OF width] shl64_def bit_simps)

lemma bit_set_field:
  "bit (set_field p raw_bits r v) n \<longleftrightarrow>
     (if unat (field_offset p) \<le> n \<and> n < unat (field_offset p) + unat (field_width p)
      then bit (raw_bits v) (n - unat (field_offset p)) else bit r n)"
  using fits offset bit_raw [of v "n - unat (field_offset p)"]
  by (auto simp: set_field_def Let_def ones_mask [OF width] shl64_def bit_simps
      dest: bit_imp_le_length)

lemma get_field_raw:
  assumes "\<And>i. i < unat (field_width p) \<Longrightarrow> bit r (unat (field_offset p) + i) = bit (raw_bits v) i"
  shows "get_field p new r = v"
proof -
  have "drop_bit (unat (field_offset p)) r AND mask (unat (field_width p)) = raw_bits v"
  proof (rule bit_word_eqI)
    fix n :: nat
    assume "n < LENGTH(64)"
    show "bit (drop_bit (unat (field_offset p)) r AND mask (unat (field_width p))) n = bit (raw_bits v) n"
      using assms [of n] bit_raw [of v n] fits by (auto simp: bit_simps)
  qed
  then show ?thesis
    using offset by (simp add: get_field_def ones_mask [OF width] shr64_def new_raw)
qed

lemma get_set: "get_field p new (set_field p raw_bits r v) = v"
  by (rule get_field_raw) (simp add: bit_set_field)

lemma set_set: "set_field p raw_bits (set_field p raw_bits r v) w = set_field p raw_bits r w"
  by (rule bit_word_eqI) (simp add: bit_set_field)

lemma get_field_cong:
  assumes "\<And>i. i < unat (field_width p) \<Longrightarrow>
    bit r (unat (field_offset p) + i) = bit s (unat (field_offset p) + i)"
  shows "get_field p new r = get_field p new s"
proof -
  have "drop_bit (unat (field_offset p)) r AND mask (unat (field_width p)) =
      drop_bit (unat (field_offset p)) s AND mask (unat (field_width p))"
    using assms by (intro bit_word_eqI) (auto simp: bit_simps)
  then show ?thesis
    using offset by (simp add: get_field_def ones_mask [OF width] shr64_def)
qed

end

lemma bool_field:
  assumes "unat (field_offset p) < 64" "field_width p = 1"
  shows "register_field p bool_new bool_raw_bits"
  using assms by unfold_locales (simp_all add: bool_new_def bool_raw_bits_def)

lemma MPPValue_field:
  assumes "unat (field_offset p) < 63" "field_width p = 2"
  shows "register_field p MPPValue_new MPPValue_raw_bits"
proof
  show "MPPValue_raw_bits v AND mask (unat (field_width p)) = MPPValue_raw_bits v"
    and "MPPValue_new (MPPValue_raw_bits v) = v" for v
    using assms(2) by (cases v; simp add: MPPValue_new_def mask_eq_exp_minus_1)+
qed (use assms in simp_all)

lemma SPPValue_field:
  assumes "unat (field_offset p) < 64" "field_width p = 1"
  shows "register_field p SPPValue_new SPPValue_raw_bits"
proof
  show "SPPValue_raw_bits v AND mask (unat (field_width p)) = SPPValue_raw_bits v"
    and "SPPValue_new (SPPValue_raw_bits v) = v" for v
    using assms(2) by (cases v; simp add: SPPValue_new_def mask_eq_exp_minus_1)+
qed (use assms in simp_all)

lemma XLenValue_field:
  assumes "unat (field_offset p) < 63" "field_width p = 2"
  shows "register_field p XLenValue_new XLenValue_raw_bits"
proof
  show "XLenValue_raw_bits v AND mask (unat (field_width p)) = XLenValue_raw_bits v"
    and "XLenValue_new (XLenValue_raw_bits v) = v" for v
    using assms(2) by (cases v; simp add: XLenValue_new_def mask_eq_exp_minus_1)+
qed (use assms in simp_all)

lemma ExtensionValue_field:
  assumes "unat (field_offset p) < 63" "field_width p = 2"
  shows "register_field p ExtensionValue_new ExtensionValue_raw_bits"
proof
  show "ExtensionValue_raw_bits v AND mask (unat (field_width p)) = ExtensionValue_raw_bits v"
    and "ExtensionValue_new (ExtensionValue_raw_bits v) = v" for v
    using assms(2) by (cases v; simp add: ExtensionValue_new_def mask_eq_exp_minus_1)+
qed (use assms in simp_all)

interpretation SD: register_field FIELD_SD bool_new bool_raw_bits
  by (rule bool_field) (simp_all add: FIELD_SD_def FieldProps_new_def)

interpretation MBE: register_field FIELD_MBE bool_new bool_raw_bits
  by (rule bool_field) (simp_all add: FIELD_MBE_def FieldProps_new_def)

interpretation SBE: register_field FIELD_SBE bool_new bool_raw_bits
  by (rule bool_field) (simp_all add: FIELD_SBE_def FieldProps_new_def)

interpretation SXL: register_field FIELD_SXL XLenValue_new XLenValue_raw_bits
  by (rule XLenValue_field) (simp_all add: FIELD_SXL_def FieldProps_new_def)

interpretation UXL: register_field FIELD_UXL XLenValue_new XLenValue_raw_bits
  by (rule XLenValue_field) (simp_all add: FIELD_UXL_def FieldProps_new_def)

interpretation TSR: register_field FIELD_TSR bool_new bool_raw_bits
  by (rule bool_field) (simp_all add: FIELD_TSR_def FieldProps_new_def)

interpretation TW: register_field FIELD_TW bool_new bool_raw_bits
  by (rule bool_field) (simp_all add: FIELD_TW_def FieldProps_new_def)

interpretation TVM: register_field FIELD_TVM bool_new bool_raw_bits
  by (rule bool_field) (simp_all add: FIELD_TVM_def FieldProps_new_def)

interpretation MXR: register_field FIELD_MXR bool_new bool_raw_bits
  by (rule bool_field) (simp_all add: FIELD_MXR_def FieldProps_new_def)

interpretation SUM: register_field FIELD_SUM bool_new bool_raw_bits
  by (rule bool_field) (simp_all add: FIELD_SUM_def FieldProps_new_def)

interpretation MPRV: register_field FIELD_MPRV bool_new bool_raw_bits
  by (rule bool_field) (simp_all add: FIELD_MPRV_def FieldProps_new_def)

interpretation XS: register_field FIELD_XS ExtensionValue_new ExtensionValue_raw_bits
  by (rule ExtensionValue_field) (simp_all add: FIELD_XS_def FieldProps_new_def)

interpretation FS: register_field FIELD_FS ExtensionValue_new ExtensionValue_raw_bits
  by (rule ExtensionValue_field) (simp_all add: FIELD_FS_def FieldProps_new_def)

interpretation MPP: register_field FIELD_MPP MPPValue_new MPPValue_raw_bits
  by (rule MPPValue_field) (simp_all add: FIELD_MPP_def FieldProps_new_def)

interpretation VS: register_field FIELD_VS ExtensionValue_new ExtensionValue_raw_bits
  by (rule ExtensionValue_field) (simp_all add: FIELD_VS_def FieldProps_new_def)

interpretation SPP: register_field FIELD_SPP SPPValue_new SPPValue_raw_bits
  by (rule SPPValue_field) (simp_all add: FIELD_SPP_def FieldProps_new_def)

interpretation MPIE: register_field FIELD_MPIE bool_new bool_raw_bits
  by (rule bool_field) (simp_all add: FIELD_MPIE_def FieldProps_new_def)

interpretation UBE: register_field FIELD_UBE bool_new bool_raw_bits
  by (rule bool_field) (simp_all add: FIELD_UBE_def FieldProps_new_def)

interpretation SPIE: register_field FIELD_SPIE bool_new bool_raw_bits
  by (rule bool_field) (simp_all add: FIELD_SPIE_def FieldProps_new_def)

interpretation MIE: register_field FIELD_MIE bool_new bool_raw_bits
  by (rule bool_field) (simp_all add: FIELD_MIE_def FieldProps_new_def)

interpretation SIE: register_field FIELD_SIE bool_new bool_raw_bits
  by (rule bool_field) (simp_all add: FIELD_SIE_def FieldProps_new_def)

interpretation MNPP: register_field FIELD_MNPP MPPValue_new MPPValue_raw_bits
  by (rule MPPValue_field) (simp_all add: FIELD_MNPP_def FieldProps_new_def)

interpretation MNPV: register_field FIELD_MNPV bool_new bool_raw_bits
  by (rule bool_field) (simp_all add: FIELD_MNPV_def FieldProps_new_def)

interpretation NMIE: register_field FIELD_NMIE bool_new bool_raw_bits
  by (rule bool_field) (simp_all add: FIELD_NMIE_def FieldProps_new_def)

section \<open>Fields bit by bit\<close>

text \<open>
  Every getter reads and every setter changes the bits of its field only.  The collection
  \<open>xstatus_bits\<close> turns a statement about the status registers into one about bits at fixed
  positions.
\<close>

named_theorems xstatus_bits \<open>getters and setters of status fields on single bits\<close>

lemma SPPValue_bit: "bit (SPPValue_raw_bits v) 0 \<longleftrightarrow> v = SPP_Supervisor"
  by (cases v) simp_all

lemma two_bit_range: "n < Suc (Suc k) \<and> k \<le> n \<longleftrightarrow> n = k \<or> n = Suc k" for n k :: nat
  by auto

lemma one_bit_field: "drop_bit k r AND mask 1 = of_bool (bit r k)" for r :: u64
  by (rule bit_word_eqI) (auto simp: bit_simps)

lemma two_bit_field:
  "drop_bit k r AND mask 2 = of_bool (bit r k) OR push_bit 1 (of_bool (bit r (Suc k)))" for r :: u64
  by (rule bit_word_eqI) (auto simp: bit_simps less_2_cases_iff)

lemma get_field_one:
  assumes "unat off < 64"
  shows "get_field \<lparr>field_offset = off, field_width = 1\<rparr> new r = new (of_bool (bit r (unat off)))"
  using assms one_bit_field [of "unat off" r] by (simp add: get_field_def ones_mask shr64_def)

lemma get_field_two:
  assumes "unat off < 64"
  shows "get_field \<lparr>field_offset = off, field_width = 2\<rparr> new r =
    new (of_bool (bit r (unat off)) OR push_bit 1 (of_bool (bit r (Suc (unat off)))))"
  using assms by (simp add: get_field_def ones_mask shr64_def two_bit_field)

lemma get_field_bool:
  "unat off < 64 \<Longrightarrow>
   get_field \<lparr>field_offset = off, field_width = 1\<rparr> bool_new r \<longleftrightarrow> bit r (unat off)"
  by (simp add: get_field_one bool_new_def)

lemma get_field_SPPValue:
  "unat off < 64 \<Longrightarrow> get_field \<lparr>field_offset = off, field_width = 1\<rparr> SPPValue_new r =
   (if bit r (unat off) then SPP_Supervisor else SPP_User)"
  by (simp add: get_field_one SPPValue_new_def)

lemma get_field_MPPValue:
  "unat off < 64 \<Longrightarrow> get_field \<lparr>field_offset = off, field_width = 2\<rparr> MPPValue_new r =
   (if bit r (Suc (unat off)) then if bit r (unat off) then MPP_Machine else MPP_User
    else if bit r (unat off) then MPP_Supervisor else MPP_User)"
  by (simp add: get_field_two MPPValue_new_def)

lemma get_field_XLenValue:
  "unat off < 64 \<Longrightarrow> get_field \<lparr>field_offset = off, field_width = 2\<rparr> XLenValue_new r =
   (if bit r (Suc (unat off)) then if bit r (unat off) then MXL128 else MXL64
    else if bit r (unat off) then MXL32 else MXL64)"
  by (simp add: get_field_two XLenValue_new_def)

lemma get_field_ExtensionValue:
  "unat off < 64 \<Longrightarrow> get_field \<lparr>field_offset = off, field_width = 2\<rparr> ExtensionValue_new r =
   (if bit r (Suc (unat off)) then if bit r (unat off) then Dirty else Clean
    else if bit r (unat off) then Initial else Off)"
  by (simp add: get_field_two ExtensionValue_new_def)

lemma bit_set_SD [xstatus_bits]:
  "bit (set_SD r v) n \<longleftrightarrow> (if n = 63 then v else bit r n)"
  unfolding set_SD_def SD.bit_set_field
  by (auto simp: FIELD_SD_def FieldProps_new_def bool_raw_bits_def SPPValue_bit)

lemma bit_set_MBE [xstatus_bits]:
  "bit (set_MBE r v) n \<longleftrightarrow> (if n = 37 then v else bit r n)"
  unfolding set_MBE_def MBE.bit_set_field
  by (auto simp: FIELD_MBE_def FieldProps_new_def bool_raw_bits_def SPPValue_bit)

lemma bit_set_SBE [xstatus_bits]:
  "bit (set_SBE r v) n \<longleftrightarrow> (if n = 36 then v else bit r n)"
  unfolding set_SBE_def SBE.bit_set_field
  by (auto simp: FIELD_SBE_def FieldProps_new_def bool_raw_bits_def SPPValue_bit)

lemma bit_set_SXL [xstatus_bits]:
  "bit (set_SXL r v) n \<longleftrightarrow>
     (if n = 34 then bit (XLenValue_raw_bits v) 0 else if n = 35 then bit (XLenValue_raw_bits v) 1 else bit r n)"
  unfolding set_SXL_def SXL.bit_set_field
  by (auto simp: FIELD_SXL_def FieldProps_new_def two_bit_range)

lemma bit_set_UXL [xstatus_bits]:
  "bit (set_UXL r v) n \<longleftrightarrow>
     (if n = 32 then bit (XLenValue_raw_bits v) 0 else if n = 33 then bit (XLenValue_raw_bits v) 1 else bit r n)"
  unfolding set_UXL_def UXL.bit_set_field
  by (auto simp: FIELD_UXL_def FieldProps_new_def two_bit_range)

lemma bit_set_TSR [xstatus_bits]:
  "bit (set_TSR r v) n \<longleftrightarrow> (if n = 22 then v else bit r n)"
  unfolding set_TSR_def TSR.bit_set_field
  by (auto simp: FIELD_TSR_def FieldProps_new_def bool_raw_bits_def SPPValue_bit)

lemma bit_set_TW [xstatus_bits]:
  "bit (set_TW r v) n \<longleftrightarrow> (if n = 21 then v else bit r n)"
  unfolding set_TW_def TW.bit_set_field
  by (auto simp: FIELD_TW_def FieldProps_new_def bool_raw_bits_def SPPValue_bit)

lemma bit_set_TVM [xstatus_bits]:
  "bit (set_TVM r v) n \<longleftrightarrow> (if n = 20 then v else bit r n)"
  unfolding set_TVM_def TVM.bit_set_field
  by (auto simp: FIELD_TVM_def FieldProps_new_def bool_raw_bits_def SPPValue_bit)

lemma bit_set_MXR [xstatus_bits]:
  "bit (set_MXR r v) n \<longleftrightarrow> (if n = 19 then v else bit r n)"
  unfolding set_MXR_def MXR.bit_set_field
  by (auto simp: FIELD_MXR_def FieldProps_new_def bool_raw_bits_def SPPValue_bit)

lemma bit_set_SUM [xstatus_bits]:
  "bit (set_SUM r v) n \<longleftrightarrow> (if n = 18 then v else bit r n)"
  unfolding set_SUM_def SUM.bit_set_field
  by (auto simp: FIELD_SUM_def FieldProps_new_def bool_raw_bits_def SPPValue_bit)

lemma bit_set_MPRV [xstatus_bits]:
  "bit (set_MPRV r v) n \<longleftrightarrow> (if n = 17 then v else bit r n)"
  unfolding set_MPRV_def MPRV.bit_set_field
  by (auto simp: FIELD_MPRV_def FieldProps_new_def bool_raw_bits_def SPPValue_bit)

lemma bit_set_XS [xstatus_bits]:
  "bit (set_XS r v) n \<longleftrightarrow>
     (if n = 15 then bit (ExtensionValue_raw_bits v) 0 else if n = 16 then bit (ExtensionValue_raw_bits v) 1 else bit r n)"
  unfolding set_XS_def XS.bit_set_field
  by (auto simp: FIELD_XS_def FieldProps_new_def two_bit_range)

lemma bit_set_FS [xstatus_bits]:
  "bit (set_FS r v) n \<longleftrightarrow>
     (if n = 13 then bit (ExtensionValue_raw_bits v) 0 else if n = 14 then bit (ExtensionValue_raw_bits v) 1 else bit r n)"
  unfolding set_FS_def FS.bit_set_field
  by (auto simp: FIELD_FS_def FieldProps_new_def two_bit_range)

lemma bit_set_MPP [xstatus_bits]:
  "bit (set_MPP r v) n \<longleftrightarrow>
     (if n = 11 then bit (MPPValue_raw_bits v) 0 else if n = 12 then bit (MPPValue_raw_bits v) 1 else bit r n)"
  unfolding set_MPP_def MPP.bit_set_field
  by (auto simp: FIELD_MPP_def FieldProps_new_def two_bit_range)

lemma bit_set_VS [xstatus_bits]:
  "bit (set_VS r v) n \<longleftrightarrow>
     (if n = 9 then bit (ExtensionValue_raw_bits v) 0 else if n = 10 then bit (ExtensionValue_raw_bits v) 1 else bit r n)"
  unfolding set_VS_def VS.bit_set_field
  by (auto simp: FIELD_VS_def FieldProps_new_def two_bit_range)

lemma bit_set_SPP [xstatus_bits]:
  "bit (set_SPP r v) n \<longleftrightarrow> (if n = 8 then v = SPP_Supervisor else bit r n)"
  unfolding set_SPP_def SPP.bit_set_field
  by (auto simp: FIELD_SPP_def FieldProps_new_def bool_raw_bits_def SPPValue_bit)

lemma bit_set_MPIE [xstatus_bits]:
  "bit (set_MPIE r v) n \<longleftrightarrow> (if n = 7 then v else bit r n)"
  unfolding set_MPIE_def MPIE.bit_set_field
  by (auto simp: FIELD_MPIE_def FieldProps_new_def bool_raw_bits_def SPPValue_bit)

lemma bit_set_UBE [xstatus_bits]:
  "bit (set_UBE r v) n \<longleftrightarrow> (if n = 6 then v else bit r n)"
  unfolding set_UBE_def UBE.bit_set_field
  by (auto simp: FIELD_UBE_def FieldProps_new_def bool_raw_bits_def SPPValue_bit)

lemma bit_set_SPIE [xstatus_bits]:
  "bit (set_SPIE r v) n \<longleftrightarrow> (if n = 5 then v else bit r n)"
  unfolding set_SPIE_def SPIE.bit_set_field
  by (auto simp: FIELD_SPIE_def FieldProps_new_def bool_raw_bits_def SPPValue_bit)

lemma bit_set_MIE [xstatus_bits]:
  "bit (set_MIE r v) n \<longleftrightarrow> (if n = 3 then v else bit r n)"
  unfolding set_MIE_def MIE.bit_set_field
  by (auto simp: FIELD_MIE_def FieldProps_new_def bool_raw_bits_def SPPValue_bit)

lemma bit_set_SIE [xstatus_bits]:
  "bit (set_SIE r v) n \<longleftrightarrow> (if n = 1 then v else bit r n)"
  unfolding set_SIE_def SIE.bit_set_field
  by (auto simp: FIELD_SIE_def FieldProps_new_def bool_raw_bits_def SPPValue_bit)

lemma bit_set_MNPP [xstatus_bits]:
  "bit (set_MNPP r v) n \<longleftrightarrow>
     (if n = 11 then bit (MPPValue_raw_bits v) 0 else if n = 12 then bit (MPPValue_raw_bits v) 1 else bit r n)"
  unfolding set_MNPP_def MNPP.bit_set_field
  by (auto simp: FIELD_MNPP_def FieldProps_new_def two_bit_range)

lemma bit_set_MNPV [xstatus_bits]:
  "bit (set_MNPV r v) n \<longleftrightarrow> (if n = 7 then v else bit r n)"
  unfolding set_MNPV_def MNPV.bit_set_field
  by (auto simp: FIELD_MNPV_def FieldProps_new_def bool_raw_bits_def SPPValue_bit)

lemma bit_set_NMIE [xstatus_bits]:
  "bit (set_NMIE r v) n \<longleftrightarrow> (if n = 3 then v else bit r n)"
  unfolding set_NMIE_def NMIE.bit_set_field
  by (auto simp: FIELD_NMIE_def FieldProps_new_def bool_raw_bits_def SPPValue_bit)

lemma get_SD_bits [xstatus_bits]: "get_SD r = bit r 63"
  by (simp add: get_SD_def FIELD_SD_def FieldProps_new_def get_field_bool)

lemma get_MBE_bits [xstatus_bits]: "get_MBE r = bit r 37"
  by (simp add: get_MBE_def FIELD_MBE_def FieldProps_new_def get_field_bool)

lemma get_SBE_bits [xstatus_bits]: "get_SBE r = bit r 36"
  by (simp add: get_SBE_def FIELD_SBE_def FieldProps_new_def get_field_bool)

lemma get_SXL_bits [xstatus_bits]:
  "get_SXL r =
     (if bit r 35 then if bit r 34 then MXL128 else MXL64 else if bit r 34 then MXL32 else MXL64)"
  by (simp add: get_SXL_def FIELD_SXL_def FieldProps_new_def get_field_XLenValue)

lemma get_UXL_bits [xstatus_bits]:
  "get_UXL r =
     (if bit r 33 then if bit r 32 then MXL128 else MXL64 else if bit r 32 then MXL32 else MXL64)"
  by (simp add: get_UXL_def FIELD_UXL_def FieldProps_new_def get_field_XLenValue)

lemma get_TSR_bits [xstatus_bits]: "get_TSR r = bit r 22"
  by (simp add: get_TSR_def FIELD_TSR_def FieldProps_new_def get_field_bool)

lemma get_TW_bits [xstatus_bits]: "get_TW r = bit r 21"
  by (simp add: get_TW_def FIELD_TW_def FieldProps_new_def get_field_bool)

lemma get_TVM_bits [xstatus_bits]: "get_TVM r = bit r 20"
  by (simp add: get_TVM_def FIELD_TVM_def FieldProps_new_def get_field_bool)

lemma get_MXR_bits [xstatus_bits]: "get_MXR r = bit r 19"
  by (simp add: get_MXR_def FIELD_MXR_def FieldProps_new_def get_field_bool)

lemma get_SUM_bits [xstatus_bits]: "get_SUM r = bit r 18"
  by (simp add: get_SUM_def FIELD_SUM_def FieldProps_new_def get_field_bool)

lemma get_MPRV_bits [xstatus_bits]: "get_MPRV r = bit r 17"
  by (simp add: get_MPRV_def FIELD_MPRV_def FieldProps_new_def get_field_bool)

lemma get_XS_bits [xstatus_bits]:
  "get_XS r =
     (if bit r 16 then if bit r 15 then Dirty else Clean else if bit r 15 then Initial else Off)"
  by (simp add: get_XS_def FIELD_XS_def FieldProps_new_def get_field_ExtensionValue)

lemma get_FS_bits [xstatus_bits]:
  "get_FS r =
     (if bit r 14 then if bit r 13 then Dirty else Clean else if bit r 13 then Initial else Off)"
  by (simp add: get_FS_def FIELD_FS_def FieldProps_new_def get_field_ExtensionValue)

lemma get_MPP_bits [xstatus_bits]:
  "get_MPP r =
     (if bit r 12 then if bit r 11 then MPP_Machine else MPP_User else if bit r 11 then MPP_Supervisor else MPP_User)"
  by (simp add: get_MPP_def FIELD_MPP_def FieldProps_new_def get_field_MPPValue)

lemma get_VS_bits [xstatus_bits]:
  "get_VS r =
     (if bit r 10 then if bit r 9 then Dirty else Clean else if bit r 9 then Initial else Off)"
  by (simp add: get_VS_def FIELD_VS_def FieldProps_new_def get_field_ExtensionValue)

lemma get_SPP_bits [xstatus_bits]: "get_SPP r = (if bit r 8 then SPP_Supervisor else SPP_User)"
  by (simp add: get_SPP_def FIELD_SPP_def FieldProps_new_def get_field_SPPValue)

lemma get_MPIE_bits [xstatus_bits]: "get_MPIE r = bit r 7"
  by (simp add: get_MPIE_def FIELD_MPIE_def FieldProps_new_def get_field_bool)

lemma get_UBE_bits [xstatus_bits]: "get_UBE r = bit r 6"
  by (simp add: get_UBE_def FIELD_UBE_def FieldProps_new_def get_field_bool)

lemma get_SPIE_bits [xstatus_bits]: "get_SPIE r = bit r 5"
  by (simp add: get_SPIE_def FIELD_SPIE_def FieldProps_new_def get_field_bool)

lemma get_MIE_bits [xstatus_bits]: "get_MIE r = bit r 3"
  by (simp add: get_MIE_def FIELD_MIE_def FieldProps_new_def get_field_bool)

lemma get_SIE_bits [xstatus_bits]: "get_SIE r = bit r 1"
  by (simp add: get_SIE_def FIELD_SIE_def FieldProps_new_def get_field_bool)

lemma get_MNPP_bits [xstatus_bits]:
  "get_MNPP r =
     (if bit r 12 then if bit r 11 then MPP_Machine else MPP_User else if bit r 11 then MPP_Supervisor else MPP_User)"
  by (simp add: get_MNPP_def FIELD_MNPP_def FieldProps_new_def get_field_MPPValue)

lemma get_MNPV_bits [xstatus_bits]: "get_MNPV r = bit r 7"
  by (simp add: get_MNPV_def FIELD_MNPV_def FieldProps_new_def get_field_bool)

lemma get_NMIE_bits [xstatus_bits]: "get_NMIE r = bit r 3"
  by (simp add: get_NMIE_def FIELD_NMIE_def FieldProps_new_def get_field_bool)

end
