(* ===== verification/RV_CSRegisters.thy ===== *)
theory RV_CSRegisters
  imports RV_Fields
begin

text \<open>
  The control and status registers (\<open>machine_state/csregisters.rs\<close>).  A \<open>CSRegister\<close> is
  represented by its \<open>usize\<close> discriminant, the CSR address; the list \<open>CSRegister_iter\<close> holds
  the addresses of all variants in declaration order, which is the order of the derived iterator.

  The bit access \<open>deleg_val.bit(i)\<close> comes from the crate \<open>twiddle\<close>; the record \<open>Twiddle\<close>
  stands for it and \<open>twiddle_ok\<close> states its documented behaviour.
\<close>

section \<open>The crate \<open>twiddle\<close>\<close>

text \<open>Ranges are given as in the source: the first bound is the higher bit.\<close>

record Twiddle =
  tw_bit :: "u64 \<Rightarrow> nat \<Rightarrow> bool"
  tw_set_bit :: "u64 \<Rightarrow> nat \<Rightarrow> bool \<Rightarrow> u64"
  tw_bits :: "u64 \<Rightarrow> nat \<Rightarrow> nat \<Rightarrow> u64"
  tw_replace :: "u64 \<Rightarrow> nat \<Rightarrow> nat \<Rightarrow> u64 \<Rightarrow> u64"

definition twiddle_ok :: "Twiddle \<Rightarrow> bool" where
  "twiddle_ok tw \<longleftrightarrow>
     (\<forall>x n. n < 64 \<longrightarrow> tw_bit tw x n = bit x n) \<and>
     (\<forall>x n b. n < 64 \<longrightarrow> tw_set_bit tw x n b = (if b then set_bit n x else unset_bit n x)) \<and>
     (\<forall>x hi lo. lo \<le> hi \<and> hi < 64 \<longrightarrow> tw_bits tw x hi lo = drop_bit lo x AND mask (hi - lo + 1)) \<and>
     (\<forall>x hi lo v. lo \<le> hi \<and> hi < 64 \<longrightarrow>
        tw_replace tw x hi lo v =
          (x AND NOT (push_bit lo (mask (hi - lo + 1)))) OR push_bit lo (v AND mask (hi - lo + 1)))"

definition std_twiddle :: Twiddle where
  "std_twiddle =
     \<lparr>tw_bit = bit,
      tw_set_bit = \<lambda>x n b. if b then set_bit n x else unset_bit n x,
      tw_bits = \<lambda>x hi lo. drop_bit lo x AND mask (hi - lo + 1),
      tw_replace = \<lambda>x hi lo v.
        (x AND NOT (push_bit lo (mask (hi - lo + 1)))) OR push_bit lo (v AND mask (hi - lo + 1))\<rparr>"

section \<open>Register addresses\<close>

type_synonym CSRegister = nat

abbreviation (input) csr_fflags :: CSRegister where "csr_fflags \<equiv> 0x001"
abbreviation (input) csr_frm :: CSRegister where "csr_frm \<equiv> 0x002"
abbreviation (input) csr_fcsr :: CSRegister where "csr_fcsr \<equiv> 0x003"
abbreviation (input) csr_cycle :: CSRegister where "csr_cycle \<equiv> 0xC00"
abbreviation (input) csr_time :: CSRegister where "csr_time \<equiv> 0xC01"
abbreviation (input) csr_instret :: CSRegister where "csr_instret \<equiv> 0xC02"
abbreviation (input) csr_sstatus :: CSRegister where "csr_sstatus \<equiv> 0x100"
abbreviation (input) csr_sie :: CSRegister where "csr_sie \<equiv> 0x104"
abbreviation (input) csr_stvec :: CSRegister where "csr_stvec \<equiv> 0x105"
abbreviation (input) csr_scounteren :: CSRegister where "csr_scounteren \<equiv> 0x106"
abbreviation (input) csr_senvcfg :: CSRegister where "csr_senvcfg \<equiv> 0x10A"
abbreviation (input) csr_sscratch :: CSRegister where "csr_sscratch \<equiv> 0x140"
abbreviation (input) csr_sepc :: CSRegister where "csr_sepc \<equiv> 0x141"
abbreviation (input) csr_scause :: CSRegister where "csr_scause \<equiv> 0x142"
abbreviation (input) csr_stval :: CSRegister where "csr_stval \<equiv> 0x143"
abbreviation (input) csr_sip :: CSRegister where "csr_sip \<equiv> 0x144"
abbreviation (input) csr_satp :: CSRegister where "csr_satp \<equiv> 0x180"
abbreviation (input) csr_scontext :: CSRegister where "csr_scontext \<equiv> 0x5A8"
abbreviation (input) csr_hstatus :: CSRegister where "csr_hstatus \<equiv> 0x600"
abbreviation (input) csr_hedeleg :: CSRegister where "csr_hedeleg \<equiv> 0x602"
abbreviation (input) csr_hideleg :: CSRegister where "csr_hideleg \<equiv> 0x603"
abbreviation (input) csr_hie :: CSRegister where "csr_hie \<equiv> 0x604"
abbreviation (input) csr_hcounteren :: CSRegister where "csr_hcounteren \<equiv> 0x606"
abbreviation (input) csr_hgeie :: CSRegister where "csr_hgeie \<equiv> 0x607"
abbreviation (input) csr_htval :: CSRegister where "csr_htval \<equiv> 0x643"
abbreviation (input) csr_hip :: CSRegister where "csr_hip \<equiv> 0x644"
abbreviation (input) csr_hvip :: CSRegister where "csr_hvip \<equiv> 0x645"
abbreviation (input) csr_htinst :: CSRegister where "csr_htinst \<equiv> 0x64A"
abbreviation (input) csr_hgeip :: CSRegister where "csr_hgeip \<equiv> 0xE12"
abbreviation (input) csr_henvcfg :: CSRegister where "csr_henvcfg \<equiv> 0x60A"
abbreviation (input) csr_hgatp :: CSRegister where "csr_hgatp \<equiv> 0x680"
abbreviation (input) csr_hcontext :: CSRegister where "csr_hcontext \<equiv> 0x6A8"
abbreviation (input) csr_htimedelta :: CSRegister where "csr_htimedelta \<equiv> 0x605"
abbreviation (input) csr_vsstatus :: CSRegister where "csr_vsstatus \<equiv> 0x200"
abbreviation (input) csr_vsie :: CSRegister where "csr_vsie \<equiv> 0x204"
abbreviation (input) csr_vstvec :: CSRegister where "csr_vstvec \<equiv> 0x205"
abbreviation (input) csr_vsscratch :: CSRegister where "csr_vsscratch \<equiv> 0x240"
abbreviation (input) csr_vsepc :: CSRegister where "csr_vsepc \<equiv> 0x241"
abbreviation (input) csr_vscause :: CSRegister where "csr_vscause \<equiv> 0x242"
abbreviation (input) csr_vstval :: CSRegister where "csr_vstval \<equiv> 0x243"
abbreviation (input) csr_vsip :: CSRegister where "csr_vsip \<equiv> 0x244"
abbreviation (input) csr_vsatp :: CSRegister where "csr_vsatp \<equiv> 0x280"
abbreviation (input) csr_mvendorid :: CSRegister where "csr_mvendorid \<equiv> 0xF11"
abbreviation (input) csr_marchid :: CSRegister where "csr_marchid \<equiv> 0xF12"
abbreviation (input) csr_mimpid :: CSRegister where "csr_mimpid \<equiv> 0xF13"
abbreviation (input) csr_mhartid :: CSRegister where "csr_mhartid \<equiv> 0xF14"
abbreviation (input) csr_mconfigptr :: CSRegister where "csr_mconfigptr \<equiv> 0xF15"
abbreviation (input) csr_mstatus :: CSRegister where "csr_mstatus \<equiv> 0x300"
abbreviation (input) csr_misa :: CSRegister where "csr_misa \<equiv> 0x301"
abbreviation (input) csr_medeleg :: CSRegister where "csr_medeleg \<equiv> 0x302"
abbreviation (input) csr_mideleg :: CSRegister where "csr_mideleg \<equiv> 0x303"
abbreviation (input) csr_mie :: CSRegister where "csr_mie \<equiv> 0x304"
abbreviation (input) csr_mtvec :: CSRegister where "csr_mtvec \<equiv> 0x305"
abbreviation (input) csr_mcounteren :: CSRegister where "csr_mcounteren \<equiv> 0x306"
abbreviation (input) csr_mscratch :: CSRegister where "csr_mscratch \<equiv> 0x340"
abbreviation (input) csr_mepc :: CSRegister where "csr_mepc \<equiv> 0x341"
abbreviation (input) csr_mcause :: CSRegister where "csr_mcause \<equiv> 0x342"
abbreviation (input) csr_mtval :: CSRegister where "csr_mtval \<equiv> 0x343"
abbreviation (input) csr_mip :: CSRegister where "csr_mip \<equiv> 0x344"
abbreviation (input) csr_mtinst :: CSRegister where "csr_mtinst \<equiv> 0x34A"
abbreviation (input) csr_mtval2 :: CSRegister where "csr_mtval2 \<equiv> 0x34B"
abbreviation (input) csr_menvcfg :: CSRegister where "csr_menvcfg \<equiv> 0x30A"
abbreviation (input) csr_mseccfg :: CSRegister where "csr_mseccfg \<equiv> 0x747"
abbreviation (input) csr_mnscratch :: CSRegister where "csr_mnscratch \<equiv> 0x740"
abbreviation (input) csr_mnepc :: CSRegister where "csr_mnepc \<equiv> 0x741"
abbreviation (input) csr_mncause :: CSRegister where "csr_mncause \<equiv> 0x742"
abbreviation (input) csr_mnstatus :: CSRegister where "csr_mnstatus \<equiv> 0x744"
abbreviation (input) csr_mcycle :: CSRegister where "csr_mcycle \<equiv> 0xB00"
abbreviation (input) csr_minstret :: CSRegister where "csr_minstret \<equiv> 0xB02"
abbreviation (input) csr_mcountinhibit :: CSRegister where "csr_mcountinhibit \<equiv> 0x320"
abbreviation (input) csr_tselect :: CSRegister where "csr_tselect \<equiv> 0x7A0"
abbreviation (input) csr_tdata1 :: CSRegister where "csr_tdata1 \<equiv> 0x7A1"
abbreviation (input) csr_tdata2 :: CSRegister where "csr_tdata2 \<equiv> 0x7A2"
abbreviation (input) csr_tdata3 :: CSRegister where "csr_tdata3 \<equiv> 0x7A3"
abbreviation (input) csr_tcontrol :: CSRegister where "csr_tcontrol \<equiv> 0x7A5"
abbreviation (input) csr_mcontext :: CSRegister where "csr_mcontext \<equiv> 0x7A8"
abbreviation (input) csr_dcsr :: CSRegister where "csr_dcsr \<equiv> 0x7B0"
abbreviation (input) csr_dpc :: CSRegister where "csr_dpc \<equiv> 0x7B1"
abbreviation (input) csr_dscratch0 :: CSRegister where "csr_dscratch0 \<equiv> 0x7B2"
abbreviation (input) csr_dscratch1 :: CSRegister where "csr_dscratch1 \<equiv> 0x7B3"

definition CSRs_floating_point :: "CSRegister list" where
  "CSRs_floating_point =
      [csr_fflags, csr_frm, csr_fcsr]"

definition CSRs_counters :: "CSRegister list" where
  "CSRs_counters =
      [csr_cycle, csr_time, csr_instret] @
      [0xC03..<0xC20]"

definition CSRs_supervisor :: "CSRegister list" where
  "CSRs_supervisor =
      [csr_sstatus, csr_sie, csr_stvec, csr_scounteren, csr_senvcfg, csr_sscratch, csr_sepc,
       csr_scause, csr_stval, csr_sip, csr_satp, csr_scontext]"

definition CSRs_hypervisor :: "CSRegister list" where
  "CSRs_hypervisor =
      [csr_hstatus, csr_hedeleg, csr_hideleg, csr_hie, csr_hcounteren, csr_hgeie, csr_htval,
       csr_hip, csr_hvip, csr_htinst, csr_hgeip, csr_henvcfg, csr_hgatp, csr_hcontext,
       csr_htimedelta, csr_vsstatus, csr_vsie, csr_vstvec, csr_vsscratch, csr_vsepc,
       csr_vscause, csr_vstval, csr_vsip, csr_vsatp]"

definition CSRs_machine :: "CSRegister list" where
  "CSRs_machine =
      [csr_mvendorid, csr_marchid, csr_mimpid, csr_mhartid, csr_mconfigptr, csr_mstatus,
       csr_misa, csr_medeleg, csr_mideleg, csr_mie, csr_mtvec, csr_mcounteren, csr_mscratch,
       csr_mepc, csr_mcause, csr_mtval, csr_mip, csr_mtinst, csr_mtval2, csr_menvcfg,
       csr_mseccfg]"

definition CSRs_memory_protection :: "CSRegister list" where
  "CSRs_memory_protection =
      [0x3A0, 0x3A2, 0x3A4, 0x3A6, 0x3A8, 0x3AA, 0x3AC, 0x3AE] @
      [0x3B0..<0x3F0]"

definition CSRs_nmi :: "CSRegister list" where
  "CSRs_nmi =
      [csr_mnscratch, csr_mnepc, csr_mncause, csr_mnstatus]"

definition CSRs_machine_counters :: "CSRegister list" where
  "CSRs_machine_counters =
      [csr_mcycle, csr_minstret] @
      [0xB03..<0xB20]"

definition CSRs_counter_setup :: "CSRegister list" where
  "CSRs_counter_setup =
      [csr_mcountinhibit] @
      [0x323..<0x340]"

definition CSRs_debug :: "CSRegister list" where
  "CSRs_debug =
      [csr_tselect, csr_tdata1, csr_tdata2, csr_tdata3, csr_tcontrol, csr_mcontext,
       csr_dcsr, csr_dpc, csr_dscratch0, csr_dscratch1]"

definition CSRegister_iter :: "CSRegister list" where
  "CSRegister_iter =
     CSRs_floating_point @ CSRs_counters @ CSRs_supervisor @ CSRs_hypervisor @ CSRs_machine @
     CSRs_memory_protection @ CSRs_nmi @ CSRs_machine_counters @ CSRs_counter_setup @ CSRs_debug"

definition try_parse_csregister :: "u32 \<Rightarrow> CSRegister option" where
  "try_parse_csregister r = (let n = unat r in if n \<in> set CSRegister_iter then Some n else None)"

section \<open>Access rights\<close>

datatype Privilege = Priv_Unprivileged | Priv_Supervisor | Priv_Hypervisor | Priv_Machine

primrec privilege_level :: "Privilege \<Rightarrow> nat" where
  "privilege_level Priv_Unprivileged = 0"
| "privilege_level Priv_Supervisor = 1"
| "privilege_level Priv_Hypervisor = 2"
| "privilege_level Priv_Machine = 3"

primrec mode_privilege :: "Mode \<Rightarrow> Privilege" where
  "mode_privilege User = Priv_Unprivileged"
| "mode_privilege Supervisor = Priv_Supervisor"
| "mode_privilege Machine = Priv_Machine"

text \<open>Inclusive ranges of addresses.\<close>

definition in_ranges :: "nat \<Rightarrow> (nat \<times> nat) list \<Rightarrow> bool" where
  "in_ranges n rs \<longleftrightarrow> list_ex (\<lambda>(a, b). a \<le> n \<and> n \<le> b) rs"

definition unprivileged_ranges :: "(nat \<times> nat) list" where
  "unprivileged_ranges =
     [(0x000, 0x0FF), (0x400, 0x4FF), (0x800, 0x8FF), (0xC00, 0xC7F), (0xC80, 0xCBF),
      (0xCC0, 0xCFF)]"

definition supervisor_ranges :: "(nat \<times> nat) list" where
  "supervisor_ranges =
     [(0x100, 0x1FF), (0x500, 0x57F), (0x580, 0x5BF), (0x5C0, 0x5FF), (0x900, 0x97F),
      (0x980, 0x9BF), (0x9C0, 0x9FF), (0xD00, 0xD7F), (0xD80, 0xDBF), (0xDC0, 0xDFF)]"

definition hypervisor_ranges :: "(nat \<times> nat) list" where
  "hypervisor_ranges =
     [(0x200, 0x2FF), (0x600, 0x67F), (0x680, 0x6BF), (0x6C0, 0x6FF), (0xA00, 0xA7F),
      (0xA80, 0xABF), (0xAC0, 0xAFF), (0xE00, 0xE7F), (0xE80, 0xEBF), (0xEC0, 0xEFF)]"

definition machine_ranges :: "(nat \<times> nat) list" where
  "machine_ranges =
     [(0x300, 0x3FF), (0x700, 0x77F), (0x780, 0x79F), (0x7A0, 0x7AF), (0x7B0, 0x7BF),
      (0x7C0, 0x7FF), (0xB00, 0xB7F), (0xB80, 0xBBF), (0xBC0, 0xBFF), (0xF00, 0xF7F),
      (0xF80, 0xFBF), (0xFC0, 0xFFF)]"

text \<open>\<open>None\<close> is the \<open>unreachable!\<close> branch.\<close>

definition csr_privilege :: "CSRegister \<Rightarrow> Privilege option" where
  "csr_privilege reg =
     (if in_ranges reg unprivileged_ranges then Some Priv_Unprivileged
      else if in_ranges reg supervisor_ranges then Some Priv_Supervisor
      else if in_ranges reg hypervisor_ranges then Some Priv_Hypervisor
      else if in_ranges reg machine_ranges then Some Priv_Machine
      else None)"

definition is_read_only :: "CSRegister \<Rightarrow> bool" where
  "is_read_only reg \<longleftrightarrow> drop_bit 10 reg AND 3 = 3"

definition check_privilege :: "CSRegister \<Rightarrow> Mode \<Rightarrow> (Exception, unit) result" where
  "check_privilege reg mode =
     (if privilege_level (mode_privilege mode) < privilege_level (the (csr_privilege reg))
      then Inl IllegalInstruction else Inr ())"

definition check_write :: "CSRegister \<Rightarrow> (Exception, unit) result" where
  "check_write reg = (if is_read_only reg then Inl IllegalInstruction else Inr ())"

section \<open>Field specifications of the registers\<close>

definition MXLEN :: u64 where "MXLEN = 64"
definition SXLEN :: u64 where "SXLEN = MXLEN"
definition MXL_ENCODING :: CSRValue where "MXL_ENCODING = 2"

definition WPRI_MASK_EMPTY :: CSRValue where "WPRI_MASK_EMPTY = -1"

definition WPRI_MASK_MSTATUS :: CSRValue where
  "WPRI_MASK_MSTATUS =
     NOT (shl64 (ones 1) 0 OR shl64 (ones 1) 2 OR shl64 (ones 1) 4 OR shl64 (ones 9) 23
          OR shl64 (ones 25) 38)"

definition WPRI_MASK_MENVCFG :: CSRValue where
  "WPRI_MASK_MENVCFG = NOT (shl64 (ones 3) 1 OR shl64 (ones 54) 8)"

definition WPRI_MASK_MSECCFG :: CSRValue where
  "WPRI_MASK_MSECCFG = NOT (shl64 (ones 5) 3 OR shl64 (ones (MXLEN - 10)) 10)"

definition WPRI_MASK_SSTATUS :: CSRValue where
  "WPRI_MASK_SSTATUS =
     NOT (shl64 (ones 1) 0 OR shl64 (ones 3) 2 OR shl64 (ones 1) 7 OR shl64 (ones 2) 11
          OR shl64 (ones 1) 17 OR shl64 (ones 12) 20 OR shl64 (ones 29) 34)"

definition WPRI_MASK_SENVCFG :: CSRValue where
  "WPRI_MASK_SENVCFG = NOT (shl64 (ones 3) 1 OR shl64 (ones (SXLEN - 8)) 8)"

definition WPRI_MASK_MNCAUSE :: CSRValue where
  "WPRI_MASK_MNCAUSE = NOT (shl64 (ones 1) (MXLEN - 1))"

definition WPRI_MASK_MNSTATUS :: CSRValue where
  "WPRI_MASK_MNSTATUS =
     NOT (shl64 (ones 3) 0 OR shl64 (ones 3) 4 OR shl64 (ones 3) 8 OR shl64 (ones (MXLEN - 13)) 13)"

definition wpri_mask :: "CSRegister \<Rightarrow> CSRValue" where
  "wpri_mask reg =
     (if reg = csr_mstatus then WPRI_MASK_MSTATUS
      else if reg = csr_menvcfg then WPRI_MASK_MENVCFG
      else if reg = csr_mseccfg then WPRI_MASK_MSECCFG
      else if reg = csr_sstatus then WPRI_MASK_SSTATUS
      else if reg = csr_senvcfg then WPRI_MASK_SENVCFG
      else if reg = csr_mncause then WPRI_MASK_MNCAUSE
      else if reg = csr_mnstatus then WPRI_MASK_MNSTATUS
      else WPRI_MASK_EMPTY)"

definition clear_wpri_fields :: "CSRegister \<Rightarrow> CSRValue \<Rightarrow> CSRValue" where
  "clear_wpri_fields reg new_value = new_value AND wpri_mask reg"

definition INTERRUPT_BIT :: CSRValue where "INTERRUPT_BIT = push_bit 63 1"

definition WLRL_MCAUSE_VALUES :: "CSRValue list" where
  "WLRL_MCAUSE_VALUES =
     [INTERRUPT_BIT OR 1, INTERRUPT_BIT OR 3, INTERRUPT_BIT OR 5, INTERRUPT_BIT OR 7,
      INTERRUPT_BIT OR 9, INTERRUPT_BIT OR 11,
      0, 1, 2, 3, 4, 5, 6, 7, 8, 9, 11, 12, 13, 15]"

definition WLRL_SCAUSE_VALUES :: "CSRValue list" where
  "WLRL_SCAUSE_VALUES =
     [INTERRUPT_BIT OR 1, INTERRUPT_BIT OR 5, INTERRUPT_BIT OR 9,
      0, 1, 2, 3, 4, 5, 6, 7, 8, 9, 12, 13, 15]"

definition legal_values :: "CSRegister \<Rightarrow> CSRValue list" where
  "legal_values reg =
     (if reg = csr_mcause then WLRL_MCAUSE_VALUES
      else if reg = csr_scause then WLRL_SCAUSE_VALUES
      else [])"

definition is_legal :: "CSRegister \<Rightarrow> CSRValue \<Rightarrow> bool" where
  "is_legal reg new_value \<longleftrightarrow>
     (let vs = legal_values reg in vs = [] \<or> new_value \<in> set vs)"

definition WARL_MISA_VALUE :: CSRValue where
  "WARL_MISA_VALUE =
     push_bit 62 MXL_ENCODING OR push_bit 0 1 OR push_bit 2 1 OR push_bit 3 1 OR push_bit 8 1
     OR push_bit 12 1 OR push_bit 18 1 OR push_bit 20 1"

definition WARL_MASK_MEDELEG :: CSRValue where
  "WARL_MASK_MEDELEG =
     NOT (shl64 (ones 1) 10 OR shl64 (ones 1) 11 OR shl64 (ones 1) 14
          OR shl64 (ones (MXLEN - 16)) 16)"

definition WARL_MASK_MIDELEG :: CSRValue where
  "WARL_MASK_MIDELEG =
     NOT (shl64 (ones 1) 0 OR shl64 (ones 1) 2 OR shl64 (ones 1) 4 OR shl64 (ones 1) 6
          OR shl64 (ones 1) 8 OR shl64 (ones 1) 10 OR shl64 (ones 4) 12
          OR shl64 (ones (MXLEN - 16)) 16)"

definition WARL_MASK_XTVEC :: CSRValue where
  "WARL_MASK_XTVEC = NOT (shl64 (ones 1) 1)"

definition WARL_MASK_MIP_MIE :: CSRValue where
  "WARL_MASK_MIP_MIE = MACHINE_BIT_MASK OR SUPERVISOR_BIT_MASK"

definition WARL_MASK_SIP_SIE :: CSRValue where
  "WARL_MASK_SIP_SIE = SUPERVISOR_BIT_MASK"

definition WARL_MASK_XEPC :: CSRValue where
  "WARL_MASK_XEPC = NOT 1"

definition FRM_SHIFT :: u64 where "FRM_SHIFT = 5"
definition FRM_MASK :: CSRValue where "FRM_MASK = shl64 7 FRM_SHIFT"
definition FFLAGS_MASK :: CSRValue where "FFLAGS_MASK = 0x1F"
definition FCSR_MASK :: CSRValue where "FCSR_MASK = FRM_MASK OR FFLAGS_MASK"

text \<open>The WARL rule of \<open>satp\<close>; \<open>None\<close> means that the write has no effect.\<close>

definition transform_warl_satp :: "CSRValue \<Rightarrow> CSRValue option" where
  "transform_warl_satp new_value =
     (case get_MODE new_value of
        None \<Rightarrow> None
      | Some satp_mode \<Rightarrow> Some (case satp_mode of Sv _ \<Rightarrow> new_value | Bare \<Rightarrow> SATP_DEFAULT_VALUE))"

definition transform_warl_fields :: "CSRegister \<Rightarrow> CSRValue \<Rightarrow> CSRValue option" where
  "transform_warl_fields reg new_value =
     (if reg = csr_misa then Some WARL_MISA_VALUE
      else if reg = csr_medeleg then Some (new_value AND WARL_MASK_MEDELEG)
      else if reg = csr_mideleg then Some (new_value AND WARL_MASK_MIDELEG)
      else if reg = csr_mtvec \<or> reg = csr_stvec then Some (new_value AND WARL_MASK_XTVEC)
      else if reg = csr_mip \<or> reg = csr_mie then Some (new_value AND WARL_MASK_MIP_MIE)
      else if reg = csr_sip \<or> reg = csr_sie then Some (new_value AND WARL_MASK_SIP_SIE)
      else if reg = csr_mepc \<or> reg = csr_sepc \<or> reg = csr_mnepc
        then Some (new_value AND WARL_MASK_XEPC)
      else if reg = csr_satp then transform_warl_satp new_value
      else if reg = csr_mstatus then Some (apply_warl_mstatus new_value)
      else if reg = csr_sstatus then Some (apply_warl_sstatus new_value)
      else if reg = csr_mnstatus then Some (apply_warl_mnstatus new_value)
      else Some new_value)"

definition make_value_writable :: "CSRegister \<Rightarrow> CSRValue \<Rightarrow> CSRValue option" where
  "make_value_writable reg value =
     (let value = clear_wpri_fields reg value in
      case transform_warl_fields reg value of
        None \<Rightarrow> None
      | Some value \<Rightarrow> if is_legal reg value then Some value else None)"

section \<open>Default values\<close>

definition default_mstatus :: CSRValue where
  "default_mstatus =
     (let mstatus = 0;
          mstatus = set_SIE mstatus False;
          mstatus = set_MIE mstatus False;
          mstatus = set_SPIE mstatus False;
          mstatus = set_MPIE mstatus False;
          mstatus = set_SPP mstatus SPP_Supervisor;
          mstatus = set_MPP mstatus MPP_Supervisor;
          mstatus = set_UBE mstatus False;
          mstatus = set_SBE mstatus False;
          mstatus = set_MBE mstatus False;
          mstatus = set_VS mstatus Initial;
          mstatus = set_FS mstatus Initial;
          mstatus = set_XS mstatus Initial;
          mstatus = set_SD mstatus False;
          mstatus = set_UXL mstatus MXL64;
          mstatus = set_SXL mstatus MXL64;
          mstatus = set_MPRV mstatus False;
          mstatus = set_SUM mstatus True;
          mstatus = set_MXR mstatus False;
          mstatus = set_TVM mstatus False;
          mstatus = set_TW mstatus False
      in set_TSR mstatus False)"

text \<open>All registers that the source lists with the value 0 share the last branch.\<close>

definition default_value :: "CSRegister \<Rightarrow> u64" where
  "default_value reg =
     (if reg = csr_mnstatus then apply_warl_mnstatus 0
      else if reg = csr_mncause then shl64 (ones 1) 31
      else if reg = csr_scounteren \<or> reg = csr_mcounteren then ones 32
      else if reg = csr_fcsr then 0 AND shl64 0 5
      else if reg = csr_misa then WARL_MISA_VALUE
      else if reg = csr_sstatus then sstatus_from_mstatus default_mstatus
      else if reg = csr_mstatus then default_mstatus
      else if reg = csr_satp then SATP_DEFAULT_VALUE
      else if reg = csr_medeleg then ones MXLEN
      else if reg = csr_mideleg then ones MXLEN
      else 0)"

section \<open>The register file\<close>

record CSRegisters =
  csr_registers :: "nat \<Rightarrow> CSRValue"

definition transform_write :: "CSRegisters \<Rightarrow> CSRegister \<Rightarrow> CSRValue \<Rightarrow> CSRegister \<times> CSRValue" where
  "transform_write c reg value =
     (if reg = csr_sstatus then
        let mstatus = csr_registers c csr_mstatus;
            sstatus_only = sstatus_from_mstatus value;
            mstatus_only = mstatus AND NOT SSTATUS_FIELDS_MASK
        in (csr_mstatus, sstatus_only OR mstatus_only)
      else if reg = csr_sip then
        let mip = csr_registers c csr_mip;
            sip_only = value AND WARL_MASK_SIP_SIE;
            mip_only = mip AND NOT WARL_MASK_SIP_SIE
        in (csr_mip, sip_only OR mip_only)
      else if reg = csr_sie then
        let mie = csr_registers c csr_mie;
            sie_only = value AND WARL_MASK_SIP_SIE;
            mie_only = mie AND NOT WARL_MASK_SIP_SIE
        in (csr_mie, sie_only OR mie_only)
      else if reg = csr_fcsr then (csr_fcsr, value AND FCSR_MASK)
      else if reg = csr_frm then
        let fcsr = csr_registers c csr_fcsr;
            fcsr = fcsr AND NOT FRM_MASK
        in (csr_fcsr, (shl64 value FRM_SHIFT AND FRM_MASK) OR fcsr)
      else if reg = csr_fflags then
        let fcsr = csr_registers c csr_fcsr;
            fcsr = fcsr AND NOT FFLAGS_MASK
        in (csr_fcsr, (value AND FFLAGS_MASK) OR fcsr)
      else (reg, value))"

definition shadowed :: "CSRegister \<Rightarrow> CSRegister" where
  "shadowed reg =
     (if reg = csr_sstatus then csr_mstatus
      else if reg = csr_sip then csr_mip
      else if reg = csr_sie then csr_mie
      else if reg = csr_fflags then csr_fcsr
      else if reg = csr_frm then csr_fcsr
      else reg)"

definition transform_read :: "CSRegisters \<Rightarrow> CSRegister \<Rightarrow> CSRValue option \<Rightarrow> CSRValue" where
  "transform_read c reg source_reg_value =
     (let source_reg_value =
            (case source_reg_value of Some v \<Rightarrow> v | None \<Rightarrow> csr_registers c (shadowed reg))
      in if reg = csr_sstatus then sstatus_from_mstatus source_reg_value
         else if reg = csr_sip then source_reg_value AND WARL_MASK_SIP_SIE
         else if reg = csr_sie then source_reg_value AND WARL_MASK_SIP_SIE
         else if reg = csr_fcsr then source_reg_value AND FCSR_MASK
         else if reg = csr_frm then shr64 (source_reg_value AND FRM_MASK) FRM_SHIFT
         else if reg = csr_fflags then source_reg_value AND FFLAGS_MASK
         else source_reg_value)"

definition csr_region_write :: "CSRegisters \<Rightarrow> nat \<Rightarrow> CSRValue \<Rightarrow> CSRegisters" where
  "csr_region_write c i v = c\<lparr>csr_registers := (csr_registers c)(i := v)\<rparr>"

definition csr_write :: "CSRegisters \<Rightarrow> CSRegister \<Rightarrow> CSRValue \<Rightarrow> CSRegisters" where
  "csr_write c reg value =
     (case make_value_writable reg value of
        Some value \<Rightarrow>
          (let (reg, value) = transform_write c reg value in csr_region_write c reg value)
      | None \<Rightarrow> c)"

definition csr_read :: "CSRegisters \<Rightarrow> CSRegister \<Rightarrow> CSRValue" where
  "csr_read c reg = transform_read c reg None"

definition csr_replace :: "CSRegisters \<Rightarrow> CSRegister \<Rightarrow> CSRValue \<Rightarrow> CSRValue \<times> CSRegisters" where
  "csr_replace c reg value =
     (case make_value_writable reg value of
        Some value \<Rightarrow>
          (let (upd_reg, value) = transform_write c reg value;
               old_value = csr_registers c upd_reg;
               c' = csr_region_write c upd_reg value
           in (transform_read c' reg (Some old_value), c'))
      | None \<Rightarrow> (csr_read c reg, c))"

definition csr_set_bits :: "CSRegisters \<Rightarrow> CSRegister \<Rightarrow> CSRValue \<Rightarrow> CSRValue \<times> CSRegisters" where
  "csr_set_bits c reg bits =
     (let old_value = csr_read c reg;
          new_value = old_value OR bits
      in (old_value, csr_write c reg new_value))"

definition csr_clear_bits :: "CSRegisters \<Rightarrow> CSRegister \<Rightarrow> CSRValue \<Rightarrow> CSRValue \<times> CSRegisters" where
  "csr_clear_bits c reg bits =
     (let old_value = csr_read c reg;
          new_value = old_value AND NOT bits
      in (old_value, csr_write c reg new_value))"

definition possible_interrupts :: "CSRegisters \<Rightarrow> Mode \<Rightarrow> CSRValue" where
  "possible_interrupts c current_mode =
     (let mstatus = csr_read c csr_mstatus;
          ie_machine = (if get_MIE mstatus then csr_read c csr_mie else 0);
          ie_supervisor = (if get_SIE mstatus then csr_read c csr_sie else 0)
      in case current_mode of
           User \<Rightarrow> SUPERVISOR_BIT_MASK OR MACHINE_BIT_MASK
         | Supervisor \<Rightarrow> ie_supervisor OR MACHINE_BIT_MASK
         | Machine \<Rightarrow> ie_machine)"

definition get_trap_mode ::
    "Twiddle \<Rightarrow> CSRegisters \<Rightarrow> 'tc TrapContext \<Rightarrow> 'tc \<Rightarrow> Mode \<Rightarrow> TrapMode" where
  "get_trap_mode tw c tc trap_source current_mode =
     (if mode_le current_mode Supervisor then
        let deleg = (case tc_kind tc of TK_Interrupt \<Rightarrow> csr_mideleg | TK_Exception \<Rightarrow> csr_medeleg);
            deleg_val = csr_read c deleg
        in if tw_bit tw deleg_val (unat (tc_exception_code tc trap_source))
           then TM_Supervisor else TM_Machine
      else TM_Machine)"

definition get_trap_handler ::
    "CSRegisters \<Rightarrow> 'tc TrapContext \<Rightarrow> 'tc \<Rightarrow> TrapMode \<Rightarrow> Address" where
  "get_trap_handler c tc trap_source trap_mode =
     (let xtvec = csr_read c (case trap_mode of TM_Supervisor \<Rightarrow> csr_stvec | TM_Machine \<Rightarrow> csr_mtvec)
      in tc_trap_handler_address tc trap_source xtvec)"

definition csr_reset :: "CSRegisters \<Rightarrow> CSRegisters" where
  "csr_reset c =
     (let c = c\<lparr>csr_registers := fold (\<lambda>i r. r(i := 0)) [0..<4096] (csr_registers c)\<rparr>
      in fold (\<lambda>reg c. csr_write c reg (default_value reg)) CSRegister_iter c)"

section \<open>The masks bit by bit\<close>

named_theorems csr_bits \<open>bits of the masks of the registers\<close>

lemma bit_shl_ones:
  assumes "unat off + unat w \<le> 64" "unat off < 64"
  shows "bit (shl64 (ones w) off) n \<longleftrightarrow> unat off \<le> n \<and> n < unat off + unat w"
proof -
  have "w \<le> 64"
    using assms by (simp add: word_le_nat_alt)
  then show ?thesis
    using assms by (auto simp: shl64_def ones_mask bit_simps)
qed

lemma bit_WPRI_MASK_MSTATUS [csr_bits]:
  "bit WPRI_MASK_MSTATUS n \<longleftrightarrow>
     n < 64 \<and> n \<noteq> 0 \<and> n \<noteq> 2 \<and> n \<noteq> 4 \<and> \<not> (23 \<le> n \<and> n < 32) \<and> \<not> (38 \<le> n \<and> n < 63)"
  unfolding WPRI_MASK_MSTATUS_def by (auto simp: bit_not_iff bit_and_iff bit_or_iff bit_shl_ones)

lemma bit_WPRI_MASK_SSTATUS [csr_bits]:
  "bit WPRI_MASK_SSTATUS n \<longleftrightarrow>
     n < 64 \<and> n \<noteq> 0 \<and> \<not> (2 \<le> n \<and> n < 5) \<and> n \<noteq> 7 \<and> n \<noteq> 11 \<and> n \<noteq> 12 \<and> n \<noteq> 17 \<and>
     \<not> (20 \<le> n \<and> n < 32) \<and> \<not> (34 \<le> n \<and> n < 63)"
  unfolding WPRI_MASK_SSTATUS_def by (auto simp: bit_not_iff bit_and_iff bit_or_iff bit_shl_ones)

lemma bit_WPRI_MASK_MNSTATUS [csr_bits]:
  "bit WPRI_MASK_MNSTATUS n \<longleftrightarrow> n = 3 \<or> n = 7 \<or> n = 11 \<or> n = 12"
  unfolding WPRI_MASK_MNSTATUS_def MXLEN_def by (auto simp: bit_not_iff bit_and_iff bit_or_iff bit_shl_ones)

lemma bit_SSTATUS_FIELDS_MASK [csr_bits]:
  "bit SSTATUS_FIELDS_MASK n \<longleftrightarrow>
     n = 63 \<or> n = 32 \<or> n = 33 \<or> n = 19 \<or> n = 18 \<or> (13 \<le> n \<and> n < 17) \<or> (8 \<le> n \<and> n < 11) \<or>
     n = 6 \<or> n = 5 \<or> n = 1"
  unfolding SSTATUS_FIELDS_MASK_def
    FIELD_SD_def FIELD_UXL_def FIELD_MXR_def FIELD_SUM_def FIELD_XS_def FIELD_FS_def FIELD_VS_def
    FIELD_SPP_def FIELD_UBE_def FIELD_SPIE_def FIELD_SIE_def FieldProps_new_def field_mask_def
  by (simp add: bit_or_iff bit_shl_ones) presburger

lemma bit_apply_warl_sstatus:
  "bit (apply_warl_sstatus v) n \<longleftrightarrow>
     (if n = 63 then bit v 15 \<and> bit v 16 \<or> bit v 13 \<and> bit v 14 \<or> bit v 9 \<and> bit v 10
      else if n = 33 then True else if n = 32 then False else bit v n)"
  by (auto simp: apply_warl_sstatus_def Let_def xstatus_bits)

lemma bit_apply_warl_mstatus:
  "bit (apply_warl_mstatus v) n \<longleftrightarrow>
     (if n = 12 then bit v 12 \<and> bit v 11 else if n = 35 then True else if n = 34 then False
      else bit (apply_warl_sstatus v) n)"
  by (auto simp: apply_warl_mstatus_def Let_def xstatus_bits bit_apply_warl_sstatus)

lemma bit_apply_warl_mnstatus:
  "bit (apply_warl_mnstatus v) n \<longleftrightarrow>
     (if n = 12 then bit v 12 \<and> bit v 11 else if n = 7 then False else if n = 3 then True
      else bit v n)"
  by (auto simp: apply_warl_mnstatus_def Let_def xstatus_bits)

section \<open>Legal values\<close>

text \<open>
  A value is legal for a register when the field specifications leave it unchanged.  The shadow
  registers have no storage of their own.
\<close>

definition csr_legal :: "CSRegister \<Rightarrow> CSRValue \<Rightarrow> bool" where
  "csr_legal reg v \<longleftrightarrow> make_value_writable reg v = Some v"

definition is_shadow :: "CSRegister \<Rightarrow> bool" where
  "is_shadow reg \<longleftrightarrow> shadowed reg \<noteq> reg"

definition csrs_legal :: "CSRegisters \<Rightarrow> bool" where
  "csrs_legal c \<longleftrightarrow>
     (\<forall>reg. reg \<in> set CSRegister_iter \<and> \<not> is_shadow reg \<longrightarrow> csr_legal reg (csr_registers c reg)) \<and>
     csr_registers c csr_fcsr AND FCSR_MASK = csr_registers c csr_fcsr"

lemma apply_warl_mstatus_wpri:
  "apply_warl_mstatus (v AND WPRI_MASK_MSTATUS) AND WPRI_MASK_MSTATUS =
   apply_warl_mstatus (v AND WPRI_MASK_MSTATUS)"
  by (rule bit_word_eqI)
    (simp add: bit_and_iff bit_apply_warl_mstatus bit_apply_warl_sstatus csr_bits)

lemma apply_warl_mstatus_idem [simp]: "apply_warl_mstatus (apply_warl_mstatus v) = apply_warl_mstatus v"
  by (rule bit_word_eqI) (simp add: bit_apply_warl_mstatus bit_apply_warl_sstatus)

lemma apply_warl_sstatus_wpri:
  "apply_warl_sstatus (v AND WPRI_MASK_SSTATUS) AND WPRI_MASK_SSTATUS =
   apply_warl_sstatus (v AND WPRI_MASK_SSTATUS)"
  by (rule bit_word_eqI) (simp add: bit_and_iff bit_apply_warl_sstatus csr_bits)

lemma apply_warl_sstatus_idem [simp]: "apply_warl_sstatus (apply_warl_sstatus v) = apply_warl_sstatus v"
  by (rule bit_word_eqI) (simp add: bit_apply_warl_sstatus)

lemma apply_warl_mnstatus_wpri:
  "apply_warl_mnstatus (v AND WPRI_MASK_MNSTATUS) AND WPRI_MASK_MNSTATUS =
   apply_warl_mnstatus (v AND WPRI_MASK_MNSTATUS)"
  by (rule bit_word_eqI) (simp add: bit_and_iff bit_apply_warl_mnstatus csr_bits)

lemma apply_warl_mnstatus_idem [simp]:
  "apply_warl_mnstatus (apply_warl_mnstatus v) = apply_warl_mnstatus v"
  by (rule bit_word_eqI) (simp add: bit_apply_warl_mnstatus)

lemma get_MODE_default [simp]: "get_MODE SATP_DEFAULT_VALUE = Some Bare"
  by (simp add: get_MODE_def SATP_DEFAULT_VALUE_def MODE_BARE_def get_field_def shl64_def shr64_def
      TranslationAlgorithm_new_def)

lemma transform_warl_satp_idem:
  "transform_warl_satp v = Some w \<Longrightarrow> transform_warl_satp w = Some w"
  by (auto simp: transform_warl_satp_def split: option.splits TranslationAlgorithm.splits)

lemmas writable_defs = make_value_writable_def clear_wpri_fields_def wpri_mask_def
  transform_warl_fields_def is_legal_def legal_values_def WPRI_MASK_EMPTY_def

lemma writable_mstatus:
  "make_value_writable csr_mstatus v = Some (apply_warl_mstatus (v AND WPRI_MASK_MSTATUS))"
  by (simp add: writable_defs)

lemma writable_sstatus:
  "make_value_writable csr_sstatus v = Some (apply_warl_sstatus (v AND WPRI_MASK_SSTATUS))"
  by (simp add: writable_defs)

lemma writable_mnstatus:
  "make_value_writable csr_mnstatus v = Some (apply_warl_mnstatus (v AND WPRI_MASK_MNSTATUS))"
  by (simp add: writable_defs)

lemma writable_satp: "make_value_writable csr_satp v = transform_warl_satp v"
  by (simp add: writable_defs split: option.split)

lemma make_value_writable_idem:
  assumes "make_value_writable reg v = Some w"
  shows "csr_legal reg w"
proof -
  consider "reg = csr_mstatus" | "reg = csr_sstatus" | "reg = csr_mnstatus" | "reg = csr_satp"
    | (other) "reg \<notin> {csr_mstatus, csr_sstatus, csr_mnstatus, csr_satp}"
    by blast
  then show ?thesis
  proof cases
    case other
    then show ?thesis
      using assms by (auto simp: csr_legal_def writable_defs Let_def and.assoc split: if_splits)
  qed (use assms in \<open>auto simp: csr_legal_def writable_mstatus writable_sstatus writable_mnstatus
      writable_satp apply_warl_mstatus_wpri apply_warl_sstatus_wpri apply_warl_mnstatus_wpri
      transform_warl_satp_idem\<close>)
qed

lemma csr_legal_mstatus:
  "csr_legal csr_mstatus m \<longleftrightarrow>
     (\<forall>n. bit m n \<longrightarrow> bit WPRI_MASK_MSTATUS n) \<and>
     (bit m 63 \<longleftrightarrow> bit m 15 \<and> bit m 16 \<or> bit m 13 \<and> bit m 14 \<or> bit m 9 \<and> bit m 10) \<and>
     bit m 33 \<and> \<not> bit m 32 \<and> bit m 35 \<and> \<not> bit m 34 \<and> (bit m 12 \<longrightarrow> bit m 11)"
  (is "?l \<longleftrightarrow> ?r")
proof
  assume ?l
  then have m: "m = apply_warl_mstatus (m AND WPRI_MASK_MSTATUS)"
    by (simp add: csr_legal_def writable_mstatus)
  have "bit m n \<longleftrightarrow> bit (apply_warl_mstatus (m AND WPRI_MASK_MSTATUS)) n" for n
    using m by simp
  note bits = this [unfolded bit_apply_warl_mstatus bit_apply_warl_sstatus]
  have "m AND WPRI_MASK_MSTATUS = m"
    using m apply_warl_mstatus_wpri [of m] by simp
  then have "\<forall>n. bit m n \<longrightarrow> bit WPRI_MASK_MSTATUS n"
    by (metis bit_and_iff)
  then show ?r
    using bits [of 63] bits [of 33] bits [of 32] bits [of 35] bits [of 34] bits [of 12]
    by (simp add: bit_and_iff csr_bits) blast
next
  assume r: ?r
  have "m AND WPRI_MASK_MSTATUS = m"
    by (rule bit_word_eqI) (use r in \<open>auto simp: bit_and_iff\<close>)
  moreover have "apply_warl_mstatus m = m"
    by (rule bit_word_eqI) (use r in \<open>auto simp: bit_apply_warl_mstatus bit_apply_warl_sstatus\<close>)
  ultimately show ?l
    by (simp add: csr_legal_def writable_mstatus)
qed

lemma sstatus_legal_bits:
  assumes "csr_legal csr_sstatus w"
  shows "bit w 63 \<longleftrightarrow> bit w 15 \<and> bit w 16 \<or> bit w 13 \<and> bit w 14 \<or> bit w 9 \<and> bit w 10"
    "bit w 33" "\<not> bit w 32"
proof -
  have w: "w = apply_warl_sstatus (w AND WPRI_MASK_SSTATUS)"
    using assms by (simp add: csr_legal_def writable_sstatus)
  have "bit w n \<longleftrightarrow> bit (apply_warl_sstatus (w AND WPRI_MASK_SSTATUS)) n" for n
    using w by simp
  note bits = this [unfolded bit_apply_warl_sstatus]
  show "bit w 63 \<longleftrightarrow> bit w 15 \<and> bit w 16 \<or> bit w 13 \<and> bit w 14 \<or> bit w 9 \<and> bit w 10"
    "bit w 33" "\<not> bit w 32"
    using bits [of 63] bits [of 33] bits [of 32] by (simp_all add: bit_and_iff csr_bits)
qed

text \<open>The merge of a legal shadow with a legal register is legal for the register.\<close>

lemma mstatus_merge_legal:
  assumes "csr_legal csr_mstatus m" "csr_legal csr_sstatus w"
  shows "csr_legal csr_mstatus (sstatus_from_mstatus w OR m AND NOT SSTATUS_FIELDS_MASK)"
proof -
  have "bit WPRI_MASK_MSTATUS n" if "bit SSTATUS_FIELDS_MASK n" for n
    using that by (auto simp: csr_bits)
  then show ?thesis
    using assms(1) sstatus_legal_bits [OF assms(2)]
    by (auto simp: csr_legal_mstatus sstatus_from_mstatus_def bit_and_iff bit_or_iff bit_not_iff
        bit_SSTATUS_FIELDS_MASK)
qed

lemma mask_merge: "m AND (a OR b) = m \<Longrightarrow> (w AND b OR m AND NOT b) AND (a OR b) = w AND b OR m AND NOT b"
  for m a b w :: "'a::len word"
proof -
  assume m: "m AND (a OR b) = m"
  have "bit m n \<Longrightarrow> bit a n \<or> bit b n" for n
    using m by (metis bit_and_iff bit_or_iff)
  then show ?thesis
    by (intro bit_word_eqI) (auto simp: bit_and_iff bit_or_iff bit_not_iff)
qed

lemma csr_legal_mip:
  "reg = csr_mip \<or> reg = csr_mie \<Longrightarrow> csr_legal reg m \<longleftrightarrow> m AND WARL_MASK_MIP_MIE = m"
  by (auto simp: csr_legal_def writable_defs Let_def)

lemma transform_write_fst: "fst (transform_write c reg w) = shadowed reg"
  by (simp add: transform_write_def shadowed_def Let_def)

lemma csr_write_alt:
  "csr_write c reg v =
     (case make_value_writable reg v of
        None \<Rightarrow> c
      | Some w \<Rightarrow> csr_region_write c (shadowed reg) (snd (transform_write c reg w)))"
  by (simp add: csr_write_def split_def Let_def transform_write_fst split: option.split)

lemma csr_write_other:
  "i \<noteq> shadowed reg \<Longrightarrow> csr_registers (csr_write c reg v) i = csr_registers c i"
  by (simp add: csr_write_alt csr_region_write_def split: option.split)

lemma iter_members:
  "{csr_mstatus, csr_mip, csr_mie, csr_fcsr, csr_satp, csr_mepc, csr_sepc, csr_mcause, csr_scause,
    csr_mtval, csr_stval, csr_mtvec, csr_stvec, csr_mideleg, csr_medeleg, csr_fflags, csr_frm}
   \<subseteq> set CSRegister_iter"
  by (simp add: CSRegister_iter_def CSRs_floating_point_def CSRs_supervisor_def CSRs_machine_def)

lemma csrs_legalD:
  "\<lbrakk>csrs_legal c; reg \<in> set CSRegister_iter; shadowed reg = reg\<rbrakk> \<Longrightarrow>
   csr_legal reg (csr_registers c reg)"
  by (auto simp: csrs_legal_def is_shadow_def)

lemma transform_write_legal:
  assumes "csrs_legal c" "csr_legal reg w"
  shows "csr_legal (shadowed reg) (snd (transform_write c reg w))"
proof -
  have m: "csr_legal csr_mstatus (csr_registers c csr_mstatus)"
    "csr_registers c csr_mip AND WARL_MASK_MIP_MIE = csr_registers c csr_mip"
    "csr_registers c csr_mie AND WARL_MASK_MIP_MIE = csr_registers c csr_mie"
    using csrs_legalD [OF assms(1), of csr_mstatus] csrs_legalD [OF assms(1), of csr_mip]
      csrs_legalD [OF assms(1), of csr_mie] iter_members
    by (simp_all add: shadowed_def csr_legal_mip)
  have fcsr: "csr_legal csr_fcsr v" for v
    by (simp add: csr_legal_def writable_defs)
  consider "reg = csr_sstatus" | "reg = csr_sip" | "reg = csr_sie" | "shadowed reg = csr_fcsr"
    | "shadowed reg = reg" "reg \<noteq> csr_fcsr"
    unfolding shadowed_def by argo
  then show ?thesis
  proof cases
    case 1
    then show ?thesis
      using mstatus_merge_legal [OF m(1)] assms(2) by (simp add: transform_write_def shadowed_def)
  next
    case 5
    then have "transform_write c reg w = (reg, w)"
      by (auto simp: transform_write_def shadowed_def split: if_splits)
    then show ?thesis
      using 5 assms(2) by simp
  qed (use m mask_merge fcsr in \<open>auto simp: transform_write_def shadowed_def csr_legal_mip
      WARL_MASK_MIP_MIE_def WARL_MASK_SIP_SIE_def\<close>)
qed

lemma mask_merge_fcsr:
  "\<lbrakk>m AND (a OR b) = m; w AND (a OR b) = w\<rbrakk> \<Longrightarrow> (w OR m AND NOT d) AND (a OR b) = w OR m AND NOT d"
  for m a b w d :: "'a::len word"
  by (metis (no_types, opaque_lifting) and.assoc and.commute bit.conj_disj_distrib2)

lemma transform_write_fcsr:
  assumes "csr_registers c csr_fcsr AND FCSR_MASK = csr_registers c csr_fcsr" "shadowed reg = csr_fcsr"
  shows "snd (transform_write c reg w) AND FCSR_MASK = snd (transform_write c reg w)"
proof -
  have r: "reg = csr_fcsr \<or> reg = csr_frm \<or> reg = csr_fflags"
    using assms(2) by (auto simp: shadowed_def split: if_splits)
  have "(x AND FRM_MASK) AND FCSR_MASK = x AND FRM_MASK"
    "(x AND FFLAGS_MASK) AND FCSR_MASK = x AND FFLAGS_MASK" for x
    by (simp_all add: FCSR_MASK_def FRM_MASK_def FFLAGS_MASK_def FRM_SHIFT_def shl64_def and.assoc)
  then show ?thesis
    using r assms(1) mask_merge_fcsr [of "csr_registers c csr_fcsr" FRM_MASK FFLAGS_MASK]
    by (auto simp: transform_write_def FCSR_MASK_def and.assoc)
qed

lemma csr_write_fcsr:
  assumes "csr_registers c csr_fcsr AND FCSR_MASK = csr_registers c csr_fcsr"
  shows "csr_registers (csr_write c reg v) csr_fcsr AND FCSR_MASK =
    csr_registers (csr_write c reg v) csr_fcsr"
  using assms transform_write_fcsr [OF assms]
  by (auto simp: csr_write_alt csr_region_write_def split: option.split)

lemma csr_write_legal:
  assumes "csrs_legal c"
  shows "csrs_legal (csr_write c reg v)"
proof (cases "make_value_writable reg v")
  case None
  then show ?thesis
    using assms by (simp add: csr_write_def)
next
  case (Some w)
  then have "csr_legal (shadowed reg) (snd (transform_write c reg w))"
    using assms by (intro transform_write_legal make_value_writable_idem)
  moreover have "csr_registers (csr_write c reg v) =
      (csr_registers c)(shadowed reg := snd (transform_write c reg w))"
    by (simp add: csr_write_alt Some csr_region_write_def)
  ultimately show ?thesis
    using assms csr_write_fcsr [of c reg v] by (auto simp: csrs_legal_def)
qed

lemma csr_replace_snd: "snd (csr_replace c reg v) = csr_write c reg v"
  by (simp add: csr_replace_def csr_write_def split_def Let_def split: option.split)

lemma csr_replace_fst: "fst (csr_replace c reg v) = csr_read c reg"
  by (auto simp: csr_replace_def csr_read_def split_def Let_def transform_write_fst transform_read_def
      split: option.split)

lemma csr_set_bits_snd: "snd (csr_set_bits c reg v) = csr_write c reg (csr_read c reg OR v)"
  by (simp add: csr_set_bits_def Let_def)

lemma csr_clear_bits_snd: "snd (csr_clear_bits c reg v) = csr_write c reg (csr_read c reg AND NOT v)"
  by (simp add: csr_clear_bits_def Let_def)

section \<open>Reset\<close>

text \<open>
  The reset writes each register once, a shadow always before the register it shadows; so the last
  write to a storage cell is that of its own register.
\<close>

fun shadow_order :: "CSRegister list \<Rightarrow> CSRegister list \<Rightarrow> bool" where
  "shadow_order done [] \<longleftrightarrow> True"
| "shadow_order done (r # rs) \<longleftrightarrow>
     (shadowed r = r \<or> shadowed r \<notin> set done) \<and> shadow_order (r # done) rs"

lemma shadow_order_noshadow: "\<forall>r\<in>set rs. shadowed r = r \<Longrightarrow> shadow_order done rs"
  by (induction rs arbitrary: "done") auto

lemma shadow_order_append:
  "shadow_order done (xs @ ys) \<longleftrightarrow> shadow_order done xs \<and> shadow_order (rev xs @ done) ys"
  by (induction xs arbitrary: "done") auto

lemma shadow_order_iter: "shadow_order [] CSRegister_iter"
proof -
  let ?rest = "CSRs_hypervisor @ CSRs_machine @ CSRs_memory_protection @ CSRs_nmi @
    CSRs_machine_counters @ CSRs_counter_setup @ CSRs_debug"
  have "\<forall>r\<in>set ?rest. shadowed r = r"
    by (auto simp: CSRs_hypervisor_def CSRs_machine_def CSRs_memory_protection_def CSRs_nmi_def
        CSRs_machine_counters_def CSRs_counter_setup_def CSRs_debug_def shadowed_def)
  then have "shadow_order (rev (CSRs_floating_point @ CSRs_counters @ CSRs_supervisor)) ?rest"
    by (rule shadow_order_noshadow)
  moreover have "shadow_order [] (CSRs_floating_point @ CSRs_counters @ CSRs_supervisor)"
    by (simp add: CSRs_floating_point_def CSRs_counters_def CSRs_supervisor_def shadowed_def
        upt_rec_numeral)
  ultimately show ?thesis
    by (simp add: CSRegister_iter_def shadow_order_append)
qed

definition reset_value :: "CSRegister \<Rightarrow> CSRValue" where
  "reset_value reg = the (make_value_writable reg (default_value reg))"

lemma writable_total:
  "reg \<notin> {csr_mcause, csr_scause, csr_satp} \<Longrightarrow> make_value_writable reg v \<noteq> None"
  by (auto simp: writable_defs Let_def)

lemma default_writable: "make_value_writable reg (default_value reg) = Some (reset_value reg)"
proof (cases "reg \<in> {csr_mcause, csr_scause, csr_satp}")
  case True
  then show ?thesis
    by (auto simp: reset_value_def default_value_def writable_satp transform_warl_satp_def)
      (simp_all add: writable_defs WLRL_MCAUSE_VALUES_def WLRL_SCAUSE_VALUES_def)
next
  case False
  then show ?thesis
    using writable_total [of reg "default_value reg"] by (auto simp: reset_value_def)
qed

lemma reset_value_fcsr: "reset_value csr_fcsr = 0"
  by (simp add: reset_value_def default_value_def writable_defs)

lemma csr_write_default:
  assumes "shadowed reg = reg"
  shows "csr_registers (csr_write c reg (default_value reg)) reg = reset_value reg"
proof -
  have "snd (transform_write c reg (reset_value reg)) = reset_value reg"
    using assms by (auto simp: transform_write_def shadowed_def reset_value_fcsr split: if_splits)
  then show ?thesis
    by (simp add: csr_write_alt default_writable csr_region_write_def assms)
qed

lemma reset_fold:
  assumes "shadow_order done rs"
    and "\<forall>r\<in>set done. shadowed r = r \<longrightarrow> csr_registers c r = reset_value r"
  shows "\<forall>r\<in>set done \<union> set rs. shadowed r = r \<longrightarrow>
    csr_registers (fold (\<lambda>reg c. csr_write c reg (default_value reg)) rs c) r = reset_value r"
  using assms
proof (induction rs arbitrary: "done" c)
  case (Cons x xs)
  let ?c = "csr_write c x (default_value x)"
  have "csr_registers ?c r = reset_value r" if "r \<in> set (x # done)" "shadowed r = r" for r
  proof (cases "r = shadowed x")
    case True
    with that Cons.prems(1) have "r = x"
      by auto
    then show ?thesis
      using csr_write_default that(2) by simp
  next
    case False
    then show ?thesis
      using Cons.prems(2) that by (auto simp: csr_write_other)
  qed
  then show ?case
    using Cons.IH [of "x # done" ?c] Cons.prems(1) by auto
qed simp

lemma csr_reset_value:
  "\<lbrakk>reg \<in> set CSRegister_iter; shadowed reg = reg\<rbrakk> \<Longrightarrow>
   csr_registers (csr_reset c) reg = reset_value reg"
  using reset_fold [OF shadow_order_iter] by (simp add: csr_reset_def)

lemma csr_reset_legal: "csrs_legal (csr_reset c)"
proof -
  have "csr_legal reg (reset_value reg)" for reg
    using default_writable by (rule make_value_writable_idem)
  then show ?thesis
    using iter_members
    by (auto simp: csrs_legal_def is_shadow_def csr_reset_value shadowed_def reset_value_fcsr)
qed

text \<open>Two register files with equal cells stay equal under the same writes.\<close>

lemma csr_write_agree:
  assumes "\<forall>i<4096. csr_registers c i = csr_registers c' i"
  shows "\<forall>i<4096. csr_registers (csr_write c reg v) i = csr_registers (csr_write c' reg v) i"
proof -
  have "csr_registers c i = csr_registers c' i" if "i \<in> {csr_mstatus, csr_mip, csr_mie, csr_fcsr}" for i
    using assms that by auto
  then have "transform_write c reg w = transform_write c' reg w" for w
    by (simp add: transform_write_def)
  then show ?thesis
    using assms by (simp add: csr_write_alt csr_region_write_def split: option.split)
qed

lemma csr_reset_agree:
  "\<forall>i<4096. csr_registers (csr_reset c) i = csr_registers (csr_reset c') i"
proof -
  have "\<forall>i<4096. csr_registers (fold (\<lambda>reg c. csr_write c reg (default_value reg)) rs c) i =
      csr_registers (fold (\<lambda>reg c. csr_write c reg (default_value reg)) rs c') i"
    if "\<forall>i<4096. csr_registers c i = csr_registers c' i" for rs and c c' :: CSRegisters
    using that by (induction rs arbitrary: c c') (simp_all add: csr_write_agree)
  then show ?thesis
    unfolding csr_reset_def Let_def by (simp add: fold_zero_upd)
qed

section \<open>Reading back what was written\<close>

lemma sstatus_legal_view: "csr_legal csr_sstatus w \<Longrightarrow> w AND SSTATUS_FIELDS_MASK = w"
proof -
  assume "csr_legal csr_sstatus w"
  then have w: "w = apply_warl_sstatus (w AND WPRI_MASK_SSTATUS)"
    by (simp add: csr_legal_def writable_sstatus)
  have "bit SSTATUS_FIELDS_MASK n" if "bit w n" for n
  proof -
    have "bit (apply_warl_sstatus (w AND WPRI_MASK_SSTATUS)) n"
      using that w by simp
    then show ?thesis
      by (clarsimp simp: bit_apply_warl_sstatus bit_and_iff csr_bits split: if_splits) presburger
  qed
  then show ?thesis
    by (intro bit_word_eqI) (auto simp: bit_and_iff)
qed

lemma sip_legal_view:
  "reg = csr_sip \<or> reg = csr_sie \<Longrightarrow> csr_legal reg w \<Longrightarrow> w AND WARL_MASK_SIP_SIE = w"
  by (auto simp: csr_legal_def writable_defs Let_def)

lemma and_merge_view: "(w AND b OR m AND NOT b) AND b = w AND b" for w m b :: "'a::len word"
  by (rule bit_word_eqI) (auto simp: bit_simps)

lemma and_merge_view_id: "w AND b = w \<Longrightarrow> (w OR m AND NOT b) AND b = w" for w m b :: "'a::len word"
  using and_merge_view [of w b m] by simp

lemma and_merge_rest: "(w AND b OR m AND NOT b) AND NOT b = m AND NOT b" for w m b :: "'a::len word"
  by (rule bit_word_eqI) (auto simp: bit_simps)

text \<open>The part of a written value that the floating point views return.\<close>

definition fcsr_view :: "CSRegister \<Rightarrow> CSRValue \<Rightarrow> CSRValue" where
  "fcsr_view reg w =
     (if reg = csr_frm then w AND 7 else if reg = csr_fflags then w AND 0x1F
      else if reg = csr_fcsr then w AND 0xFF else w)"

lemma frm_shift: "shr64 (shl64 w FRM_SHIFT AND FRM_MASK) FRM_SHIFT = w AND 7"
proof -
  have f: "FRM_MASK = push_bit 5 (mask 3)" and s: "(7 :: u64) = mask 3"
    by (simp_all add: FRM_MASK_def FRM_SHIFT_def shl64_def mask_eq_exp_minus_1)
  have b: "bit FRM_MASK n \<longleftrightarrow> 5 \<le> n \<and> n < 8" for n
    unfolding f bit_push_bit_iff bit_mask_iff by auto
  have "shr64 (shl64 w FRM_SHIFT AND FRM_MASK) FRM_SHIFT = drop_bit 5 (push_bit 5 w AND FRM_MASK)"
    by (simp add: FRM_SHIFT_def shl64_def shr64_def)
  also have "\<dots> = w AND 7"
    unfolding s by (rule bit_word_eqI)
      (auto simp: b bit_and_iff bit_push_bit_iff bit_drop_bit_eq bit_mask_iff)
  finally show ?thesis .
qed

lemma transform_read_write:
  assumes "csr_legal reg w"
  shows "transform_read c' reg (Some (snd (transform_write c reg w))) = fcsr_view reg w"
proof -
  have F: "FFLAGS_MASK = 0x1F" "FCSR_MASK = 0xFF"
    by (simp_all add: FFLAGS_MASK_def FCSR_MASK_def FRM_MASK_def FRM_SHIFT_def shl64_def)
  consider "reg = csr_sstatus" | "reg = csr_sip" | "reg = csr_sie" | "reg = csr_fcsr"
    | "reg = csr_frm" | "reg = csr_fflags"
    | (other) "reg \<notin> {csr_sstatus, csr_sip, csr_sie, csr_fcsr, csr_frm, csr_fflags}"
    by blast
  then show ?thesis
  proof cases
    case 1
    then show ?thesis
      using sstatus_legal_view assms and_merge_view [of w SSTATUS_FIELDS_MASK]
      by (simp add: transform_read_def transform_write_def sstatus_from_mstatus_def fcsr_view_def)
  next
    case 5
    then show ?thesis
      using and_merge_view [of "shl64 w FRM_SHIFT" FRM_MASK] frm_shift [of w]
      by (simp add: transform_read_def transform_write_def fcsr_view_def)
  next
    case 6
    then show ?thesis
      using and_merge_view [of w FFLAGS_MASK]
      by (simp add: transform_read_def transform_write_def fcsr_view_def F(1) [symmetric])
  qed (use sip_legal_view [of reg w] assms and_merge_view_id in
      \<open>auto simp: transform_read_def transform_write_def fcsr_view_def F and.assoc\<close>)
qed

lemma csr_read_write_same:
  "csr_read (csr_write c reg v) reg =
     (case make_value_writable reg v of None \<Rightarrow> csr_read c reg | Some w \<Rightarrow> fcsr_view reg w)"
proof (cases "make_value_writable reg v")
  case (Some w)
  have "csr_read (csr_region_write c (shadowed reg) x) reg = transform_read c reg (Some x)" for x
    by (simp add: csr_read_def transform_read_def csr_region_write_def)
  then show ?thesis
    using transform_read_write [OF make_value_writable_idem [OF Some]] Some
    by (simp add: csr_write_alt)
qed (simp add: csr_write_def)

lemma csr_read_write_other:
  "shadowed reg' \<noteq> shadowed reg \<Longrightarrow> csr_read (csr_write c reg v) reg' = csr_read c reg'"
  by (simp add: csr_read_def transform_read_def csr_write_other)

lemma csr_write_rest:
  assumes "reg = csr_sstatus \<and> msk = SSTATUS_FIELDS_MASK \<or>
    (reg = csr_sip \<or> reg = csr_sie) \<and> msk = WARL_MASK_SIP_SIE \<or>
    reg = csr_frm \<and> msk = FRM_MASK \<or> reg = csr_fflags \<and> msk = FFLAGS_MASK"
  shows "csr_registers (csr_write c reg v) (shadowed reg) AND NOT msk =
    csr_registers c (shadowed reg) AND NOT msk"
  using assms
  by (elim disjE conjE)
    (simp_all add: csr_write_alt csr_region_write_def transform_write_def shadowed_def
      sstatus_from_mstatus_def and_merge_rest split: option.split)

text \<open>The ranges are those of the address bits 9 and 8.\<close>

definition privilege_of_bits :: "nat \<Rightarrow> Privilege" where
  "privilege_of_bits k =
     (if k mod 4 = 0 then Priv_Unprivileged else if k mod 4 = 1 then Priv_Supervisor
      else if k mod 4 = 2 then Priv_Hypervisor else Priv_Machine)"

lemmas privilege_ranges = csr_privilege_def in_ranges_def unprivileged_ranges_def
  supervisor_ranges_def hypervisor_ranges_def machine_ranges_def

lemma csr_privilege_bits:
  assumes "reg < 0x1000"
  shows "csr_privilege reg = Some (privilege_of_bits (reg div 0x100))"
proof -
  obtain k r where reg: "reg = 0x100 * k + r" and "r < 0x100" and "reg div 0x100 = k"
    by (metis mult_div_mod_eq mod_less_divisor zero_less_numeral)
  have "k < 16"
    using assms \<open>reg div 0x100 = k\<close> by simp
  then have "k = 0 \<or> k = 1 \<or> k = 2 \<or> k = 3 \<or> k = 4 \<or> k = 5 \<or> k = 6 \<or> k = 7 \<or>
      k = 8 \<or> k = 9 \<or> k = 10 \<or> k = 11 \<or> k = 12 \<or> k = 13 \<or> k = 14 \<or> k = 15"
    by presburger
  then show ?thesis
    unfolding \<open>reg div 0x100 = k\<close> using \<open>r < 0x100\<close> unfolding reg
    by (elim disjE; hypsubst; simp add: privilege_ranges privilege_of_bits_def; linarith?)
qed

lemma CSRegister_iter_bound: "reg \<in> set CSRegister_iter \<Longrightarrow> reg < 0x1000"
  by (auto simp: CSRegister_iter_def CSRs_floating_point_def CSRs_counters_def CSRs_supervisor_def
      CSRs_hypervisor_def CSRs_machine_def CSRs_memory_protection_def CSRs_nmi_def
      CSRs_machine_counters_def CSRs_counter_setup_def CSRs_debug_def)

section \<open>Properties\<close>



text \<open>
  C21: Reading a CSR back returns the written value as adjusted by the field specifications, the old
  value if the write was refused, and for the floating point views the bits of the view; a read
  of a register that shares no storage is unaffected.  Replacing returns the old value.
\<close>

theorem csr_read_back:
  "csr_read (csr_write c reg v) reg =
     (case make_value_writable reg v of None \<Rightarrow> csr_read c reg | Some w \<Rightarrow> fcsr_view reg w) \<and>
   (shadowed reg' \<noteq> shadowed reg \<longrightarrow> csr_read (csr_write c reg v) reg' = csr_read c reg') \<and>
   csr_replace c reg v = (csr_read c reg, csr_write c reg v)"
  using csr_replace_fst [of c reg v] csr_replace_snd [of c reg v]
  by (simp add: csr_read_write_same csr_read_write_other prod_eq_iff)

theorem csr_read_back_witness:
  "csr_read (csr_write (csr_reset \<lparr>csr_registers = \<lambda>_. 7\<rparr>) csr_mepc 0x1235) csr_mepc = 0x1234 \<and>
   csr_read (csr_write (csr_reset \<lparr>csr_registers = \<lambda>_. 7\<rparr>) csr_mepc 0x1235) csr_sepc =
   csr_read (csr_reset \<lparr>csr_registers = \<lambda>_. 7\<rparr>) csr_sepc"
proof -
  have "shadowed csr_sepc \<noteq> shadowed csr_mepc"
    by (simp add: shadowed_def)
  moreover have "make_value_writable csr_mepc 0x1235 = Some 0x1234"
    by (simp add: writable_defs WARL_MASK_XEPC_def)
  ultimately show ?thesis
    using csr_read_back [of "csr_reset \<lparr>csr_registers = \<lambda>_. 7\<rparr>" csr_mepc "0x1235" csr_sepc]
    by (simp add: fcsr_view_def)
qed

text \<open>
  Supervisor code cannot reach machine state through a shadow register: a write to
  \<open>sstatus\<close> keeps every bit of \<open>mstatus\<close> outside the supervisor fields, writes to
  \<open>sip\<close> and \<open>sie\<close> keep the machine interrupt bits, and \<open>frm\<close> and \<open>fflags\<close> keep
  each other.
\<close>

theorem csr_shadow_isolation:
  "csr_read (csr_write c csr_sstatus v) csr_mstatus AND NOT SSTATUS_FIELDS_MASK =
     csr_read c csr_mstatus AND NOT SSTATUS_FIELDS_MASK \<and>
   csr_read (csr_write c csr_sip v) csr_mip AND NOT SUPERVISOR_BIT_MASK =
     csr_read c csr_mip AND NOT SUPERVISOR_BIT_MASK \<and>
   csr_read (csr_write c csr_sie v) csr_mie AND NOT SUPERVISOR_BIT_MASK =
     csr_read c csr_mie AND NOT SUPERVISOR_BIT_MASK \<and>
   csr_read (csr_write c csr_frm v) csr_fflags = csr_read c csr_fflags \<and>
   csr_read (csr_write c csr_fflags v) csr_frm = csr_read c csr_frm"
proof -
  have F: "x AND FFLAGS_MASK = (x AND NOT FRM_MASK) AND FFLAGS_MASK"
    "x AND FRM_MASK = (x AND NOT FFLAGS_MASK) AND FRM_MASK" for x
    by (simp_all add: FFLAGS_MASK_def FRM_MASK_def FRM_SHIFT_def shl64_def and.assoc)
  have "csr_registers (csr_write c csr_frm v) csr_fcsr AND NOT FRM_MASK =
      csr_registers c csr_fcsr AND NOT FRM_MASK"
    "csr_registers (csr_write c csr_fflags v) csr_fcsr AND NOT FFLAGS_MASK =
      csr_registers c csr_fcsr AND NOT FFLAGS_MASK"
    using csr_write_rest [of csr_frm FRM_MASK c v] csr_write_rest [of csr_fflags FFLAGS_MASK c v]
    by (simp_all add: shadowed_def)
  then have "csr_registers (csr_write c csr_frm v) csr_fcsr AND FFLAGS_MASK =
      csr_registers c csr_fcsr AND FFLAGS_MASK"
    "csr_registers (csr_write c csr_fflags v) csr_fcsr AND FRM_MASK =
      csr_registers c csr_fcsr AND FRM_MASK"
    by (metis F)+
  then show ?thesis
    using csr_write_rest [of csr_sstatus SSTATUS_FIELDS_MASK c v]
      csr_write_rest [of csr_sip WARL_MASK_SIP_SIE c v] csr_write_rest [of csr_sie WARL_MASK_SIP_SIE c v]
    by (simp add: csr_read_def transform_read_def shadowed_def WARL_MASK_SIP_SIE_def)
qed

text \<open>
  A reset is deterministic: whatever the registers held before, all 4096 cells have the same
  contents after it, every register that owns its cell holds its default value as adjusted by the
  field specifications, and no default value is refused.
\<close>

theorem csr_reset_deterministic:
  "(\<forall>i. i < 4096 \<longrightarrow> csr_registers (csr_reset c) i = csr_registers (csr_reset c') i) \<and>
   (\<forall>reg. reg \<in> set CSRegister_iter \<longrightarrow> shadowed reg = reg \<longrightarrow>
      make_value_writable reg (default_value reg) = Some (csr_registers (csr_reset c) reg))"
  by (simp add: csr_reset_agree csr_reset_value default_writable)

theorem csr_reset_deterministic_witness:
  "csr_registers (csr_reset \<lparr>csr_registers = \<lambda>_. 7\<rparr>) csr_misa = WARL_MISA_VALUE \<and>
   csr_registers (csr_reset \<lparr>csr_registers = \<lambda>_. 7\<rparr>) csr_misa =
   csr_registers (csr_reset \<lparr>csr_registers = \<lambda>i. of_nat i\<rparr>) csr_misa"
proof -
  have "csr_misa \<in> set CSRegister_iter" "shadowed csr_misa = csr_misa"
    by (simp_all add: CSRegister_iter_def CSRs_machine_def shadowed_def)
  moreover have "make_value_writable csr_misa (default_value csr_misa) = Some WARL_MISA_VALUE"
    by (simp add: writable_defs default_value_def)
  ultimately show ?thesis
    using csr_reset_deterministic [of "\<lparr>csr_registers = \<lambda>_. 7\<rparr>" "\<lparr>csr_registers = \<lambda>i. of_nat i\<rparr>"]
    by force
qed

end
