(* ===== verification/RV_Instruction.thy ===== *)
theory RV_Instruction
  imports RV_CSRegisters
begin

text \<open>
  The instruction set (\<open>parser/instruction.rs\<close>): the argument structures, with field names prefixed
  by the format, the rounding modes of \<open>interpreter/float.rs\<close>, the 133 instructions and their
  width in bytes.
\<close>

section \<open>Rounding modes\<close>

datatype RoundingMode = RNE | RTZ | RDN | RUP | RMM

definition rounding_try_from :: "CSRValue \<Rightarrow> (Exception, RoundingMode) result" where
  "rounding_try_from value =
     (if value = 0 then Inr RNE
      else if value = 1 then Inr RTZ
      else if value = 2 then Inr RDN
      else if value = 3 then Inr RUP
      else if value = 4 then Inr RMM
      else Inl IllegalInstruction)"

datatype InstrRoundingMode = Dynamic | Static RoundingMode

definition from_rm :: "u32 \<Rightarrow> InstrRoundingMode option" where
  "from_rm rm =
     (if rm = 7 then Some Dynamic
      else (case rounding_try_from (ucast rm) of Inl _ \<Rightarrow> None | Inr r \<Rightarrow> Some (Static r)))"

section \<open>Arguments\<close>

record RTypeArgs =
  rt_rd :: XRegister
  rt_rs1 :: XRegister
  rt_rs2 :: XRegister

record ITypeArgs =
  it_rd :: XRegister
  it_rs1 :: XRegister
  it_imm :: i64

record SBTypeArgs =
  sb_rs1 :: XRegister
  sb_rs2 :: XRegister
  sb_imm :: i64

record UJTypeArgs =
  uj_rd :: XRegister
  uj_imm :: i64

record CsrArgs =
  csr_rd :: XRegister
  csr_rs1 :: XRegister
  csr_csr :: CSRegister

record CsriArgs =
  csri_rd :: XRegister
  csri_imm :: i64
  csri_csr :: CSRegister

record FenceSet =
  fs_i :: bool
  fs_o :: bool
  fs_r :: bool
  fs_w :: bool

record FenceArgs =
  fence_pred :: FenceSet
  fence_succ :: FenceSet

record FRegToXRegArgs =
  fx_rd :: XRegister
  fx_rs1 :: FRegister

record XRegToFRegArgs =
  xf_rd :: FRegister
  xf_rs1 :: XRegister

record FCmpArgs =
  fcmp_rs1 :: FRegister
  fcmp_rs2 :: FRegister
  fcmp_rd :: XRegister

record FRArgs =
  fr_rs1 :: FRegister
  fr_rs2 :: FRegister
  fr_rd :: FRegister

record FR1ArgWithRounding =
  fr1_rs1 :: FRegister
  fr1_rm :: InstrRoundingMode
  fr1_rd :: FRegister

record FR2ArgsWithRounding =
  fr2_rs1 :: FRegister
  fr2_rs2 :: FRegister
  fr2_rm :: InstrRoundingMode
  fr2_rd :: FRegister

record FR3ArgsWithRounding =
  fr3_rs1 :: FRegister
  fr3_rs2 :: FRegister
  fr3_rs3 :: FRegister
  fr3_rm :: InstrRoundingMode
  fr3_rd :: FRegister

record FStoreArgs =
  fst_rs1 :: XRegister
  fst_rs2 :: FRegister
  fst_imm :: i64

record FLoadArgs =
  fld_rs1 :: XRegister
  fld_rd :: FRegister
  fld_imm :: i64

record AmoArgs =
  amo_rd :: XRegister
  amo_rs1 :: XRegister
  amo_rs2 :: XRegister
  amo_aq :: bool
  amo_rl :: bool

section \<open>Instructions\<close>

text \<open>\<open>SFenceVma\<close> carries \<open>asid\<close> and then \<open>vaddr\<close>.\<close>

datatype (plugins only:) Instr =
    Add RTypeArgs | Sub RTypeArgs | Xor RTypeArgs | Or RTypeArgs | And RTypeArgs | Sll RTypeArgs
  | Srl RTypeArgs | Sra RTypeArgs | Slt RTypeArgs | Sltu RTypeArgs | Addw RTypeArgs
  | Subw RTypeArgs | Sllw RTypeArgs | Srlw RTypeArgs | Sraw RTypeArgs | Addi ITypeArgs
  | Addiw ITypeArgs | Xori ITypeArgs | Ori ITypeArgs | Andi ITypeArgs | Slli ITypeArgs
  | Srli ITypeArgs | Srai ITypeArgs | Slliw ITypeArgs | Srliw ITypeArgs | Sraiw ITypeArgs
  | Slti ITypeArgs | Sltiu ITypeArgs | Lb ITypeArgs | Lh ITypeArgs | Lw ITypeArgs | Lbu ITypeArgs
  | Lhu ITypeArgs | Lwu ITypeArgs | Ld ITypeArgs | Fence FenceArgs | FenceTso FenceArgs | Ecall
  | Ebreak | Sb SBTypeArgs | Sh SBTypeArgs | Sw SBTypeArgs | Sd SBTypeArgs | Beq SBTypeArgs
  | Bne SBTypeArgs | Blt SBTypeArgs | Bge SBTypeArgs | Bltu SBTypeArgs | Bgeu SBTypeArgs
  | Lui UJTypeArgs | Auipc UJTypeArgs | Jal UJTypeArgs | Jalr ITypeArgs | Amoswapw AmoArgs
  | Amoaddw AmoArgs | Amoxorw AmoArgs | Amoandw AmoArgs | Amoorw AmoArgs | Amominw AmoArgs
  | Amomaxw AmoArgs | Amominuw AmoArgs | Amomaxuw AmoArgs | Rem RTypeArgs | Remu RTypeArgs
  | Remw RTypeArgs | Remuw RTypeArgs | Div RTypeArgs | Divu RTypeArgs | Divw RTypeArgs
  | Divuw RTypeArgs | Mul RTypeArgs | Mulh RTypeArgs | Mulhsu RTypeArgs | Mulhu RTypeArgs
  | Mulw RTypeArgs | FclassS FRegToXRegArgs | Feqs FCmpArgs | Fles FCmpArgs | Flts FCmpArgs
  | Fadds FR2ArgsWithRounding | Fsubs FR2ArgsWithRounding | Fmuls FR2ArgsWithRounding
  | Fdivs FR2ArgsWithRounding | Fsqrts FR1ArgWithRounding | Fmins FRArgs | Fmaxs FRArgs
  | Fmadds FR3ArgsWithRounding | Fmsubs FR3ArgsWithRounding | Fnmsubs FR3ArgsWithRounding
  | Fnmadds FR3ArgsWithRounding | Flw FLoadArgs | Fsw FStoreArgs | Fsgnjs FRArgs | Fsgnjns FRArgs
  | Fsgnjxs FRArgs | FmvXW FRegToXRegArgs | FmvWX XRegToFRegArgs | FclassD FRegToXRegArgs
  | Feqd FCmpArgs | Fled FCmpArgs | Fltd FCmpArgs | Faddd FR2ArgsWithRounding
  | Fsubd FR2ArgsWithRounding | Fmuld FR2ArgsWithRounding | Fdivd FR2ArgsWithRounding
  | Fsqrtd FR1ArgWithRounding | Fmind FRArgs | Fmaxd FRArgs | Fmaddd FR3ArgsWithRounding
  | Fmsubd FR3ArgsWithRounding | Fnmsubd FR3ArgsWithRounding | Fnmaddd FR3ArgsWithRounding
  | Fld FLoadArgs | Fsd FStoreArgs | Fsgnjd FRArgs | Fsgnjnd FRArgs | Fsgnjxd FRArgs
  | FmvXD FRegToXRegArgs | FmvDX XRegToFRegArgs | Csrrw CsrArgs | Csrrs CsrArgs | Csrrc CsrArgs
  | Csrrwi CsriArgs | Csrrsi CsriArgs | Csrrci CsriArgs | FenceI | Mret | Sret | Mnret | Wfi
  | SFenceVma XRegister XRegister | Unknown u32 | UnknownCompressed u16

primrec instr_width :: "Instr \<Rightarrow> u64" where
  "instr_width (Add args) = 4"
| "instr_width (Sub args) = 4"
| "instr_width (Xor args) = 4"
| "instr_width (Or args) = 4"
| "instr_width (And args) = 4"
| "instr_width (Sll args) = 4"
| "instr_width (Srl args) = 4"
| "instr_width (Sra args) = 4"
| "instr_width (Slt args) = 4"
| "instr_width (Sltu args) = 4"
| "instr_width (Addw args) = 4"
| "instr_width (Subw args) = 4"
| "instr_width (Sllw args) = 4"
| "instr_width (Srlw args) = 4"
| "instr_width (Sraw args) = 4"
| "instr_width (Addi args) = 4"
| "instr_width (Addiw args) = 4"
| "instr_width (Xori args) = 4"
| "instr_width (Ori args) = 4"
| "instr_width (Andi args) = 4"
| "instr_width (Slli args) = 4"
| "instr_width (Srli args) = 4"
| "instr_width (Srai args) = 4"
| "instr_width (Slliw args) = 4"
| "instr_width (Srliw args) = 4"
| "instr_width (Sraiw args) = 4"
| "instr_width (Slti args) = 4"
| "instr_width (Sltiu args) = 4"
| "instr_width (Lb args) = 4"
| "instr_width (Lh args) = 4"
| "instr_width (Lw args) = 4"
| "instr_width (Lbu args) = 4"
| "instr_width (Lhu args) = 4"
| "instr_width (Lwu args) = 4"
| "instr_width (Ld args) = 4"
| "instr_width (Fence args) = 4"
| "instr_width (FenceTso args) = 4"
| "instr_width Ecall = 4"
| "instr_width Ebreak = 4"
| "instr_width (Sb args) = 4"
| "instr_width (Sh args) = 4"
| "instr_width (Sw args) = 4"
| "instr_width (Sd args) = 4"
| "instr_width (Beq args) = 4"
| "instr_width (Bne args) = 4"
| "instr_width (Blt args) = 4"
| "instr_width (Bge args) = 4"
| "instr_width (Bltu args) = 4"
| "instr_width (Bgeu args) = 4"
| "instr_width (Lui args) = 4"
| "instr_width (Auipc args) = 4"
| "instr_width (Jal args) = 4"
| "instr_width (Jalr args) = 4"
| "instr_width (Amoswapw args) = 4"
| "instr_width (Amoaddw args) = 4"
| "instr_width (Amoxorw args) = 4"
| "instr_width (Amoandw args) = 4"
| "instr_width (Amoorw args) = 4"
| "instr_width (Amominw args) = 4"
| "instr_width (Amomaxw args) = 4"
| "instr_width (Amominuw args) = 4"
| "instr_width (Amomaxuw args) = 4"
| "instr_width (Rem args) = 4"
| "instr_width (Remu args) = 4"
| "instr_width (Remw args) = 4"
| "instr_width (Remuw args) = 4"
| "instr_width (Div args) = 4"
| "instr_width (Divu args) = 4"
| "instr_width (Divw args) = 4"
| "instr_width (Divuw args) = 4"
| "instr_width (Mul args) = 4"
| "instr_width (Mulh args) = 4"
| "instr_width (Mulhsu args) = 4"
| "instr_width (Mulhu args) = 4"
| "instr_width (Mulw args) = 4"
| "instr_width (FclassS args) = 4"
| "instr_width (Feqs args) = 4"
| "instr_width (Fles args) = 4"
| "instr_width (Flts args) = 4"
| "instr_width (Fadds args) = 4"
| "instr_width (Fsubs args) = 4"
| "instr_width (Fmuls args) = 4"
| "instr_width (Fdivs args) = 4"
| "instr_width (Fsqrts args) = 4"
| "instr_width (Fmins args) = 4"
| "instr_width (Fmaxs args) = 4"
| "instr_width (Fmadds args) = 4"
| "instr_width (Fmsubs args) = 4"
| "instr_width (Fnmsubs args) = 4"
| "instr_width (Fnmadds args) = 4"
| "instr_width (Flw args) = 4"
| "instr_width (Fsw args) = 4"
| "instr_width (Fsgnjs args) = 4"
| "instr_width (Fsgnjns args) = 4"
| "instr_width (Fsgnjxs args) = 4"
| "instr_width (FmvXW args) = 4"
| "instr_width (FmvWX args) = 4"
| "instr_width (FclassD args) = 4"
| "instr_width (Feqd args) = 4"
| "instr_width (Fled args) = 4"
| "instr_width (Fltd args) = 4"
| "instr_width (Faddd args) = 4"
| "instr_width (Fsubd args) = 4"
| "instr_width (Fmuld args) = 4"
| "instr_width (Fdivd args) = 4"
| "instr_width (Fsqrtd args) = 4"
| "instr_width (Fmind args) = 4"
| "instr_width (Fmaxd args) = 4"
| "instr_width (Fmaddd args) = 4"
| "instr_width (Fmsubd args) = 4"
| "instr_width (Fnmsubd args) = 4"
| "instr_width (Fnmaddd args) = 4"
| "instr_width (Fld args) = 4"
| "instr_width (Fsd args) = 4"
| "instr_width (Fsgnjd args) = 4"
| "instr_width (Fsgnjnd args) = 4"
| "instr_width (Fsgnjxd args) = 4"
| "instr_width (FmvXD args) = 4"
| "instr_width (FmvDX args) = 4"
| "instr_width (Csrrw args) = 4"
| "instr_width (Csrrs args) = 4"
| "instr_width (Csrrc args) = 4"
| "instr_width (Csrrwi args) = 4"
| "instr_width (Csrrsi args) = 4"
| "instr_width (Csrrci args) = 4"
| "instr_width FenceI = 4"
| "instr_width Mret = 4"
| "instr_width Sret = 4"
| "instr_width Mnret = 4"
| "instr_width Wfi = 4"
| "instr_width (SFenceVma asid vaddr) = 4"
| "instr_width (Unknown instr) = 4"
| "instr_width (UnknownCompressed instr) = 2"

end
