(* ===== verification/RV_Parser.thy ===== *)
theory RV_Parser
  imports RV_Instruction
begin

text \<open>
  The decoder (\<open>parser.rs\<close>): extraction of the fields and immediates of a 32-bit instruction word, the
  decoding of uncompressed instructions with one definition per major opcode, and the iteration over
  a block of bytes.  Extractors carry the prefix \<open>instr_\<close>.
\<close>

section \<open>Fields\<close>

definition bits :: "u32 \<Rightarrow> nat \<Rightarrow> nat \<Rightarrow> u32" where
  "bits bytes pos n = drop_bit pos bytes AND drop_bit (32 - n) (NOT 0)"

definition instr_bit :: "u32 \<Rightarrow> nat \<Rightarrow> bool" where
  "instr_bit bytes pos \<longleftrightarrow> bytes AND push_bit pos 1 \<noteq> 0"

definition instr_opcode :: "u32 \<Rightarrow> u32" where "instr_opcode instr = bits instr 0 7"
definition instr_funct3 :: "u32 \<Rightarrow> u32" where "instr_funct3 instr = bits instr 12 3"
definition instr_funct5 :: "u32 \<Rightarrow> u32" where "instr_funct5 instr = bits instr 27 5"
definition instr_funct7 :: "u32 \<Rightarrow> u32" where "instr_funct7 instr = bits instr 25 7"

text \<open>
  Register numbers are five bits wide, so that the panic of \<open>parse_xregister\<close> is never reached
  (lemma \<open>register_field_total\<close>).
\<close>

definition instr_rd :: "u32 \<Rightarrow> XRegister" where "instr_rd instr = the (parse_xregister (bits instr 7 5))"
definition instr_rd_f :: "u32 \<Rightarrow> FRegister" where "instr_rd_f instr = the (parse_fregister (bits instr 7 5))"
definition instr_rs1_bits :: "u32 \<Rightarrow> u32" where "instr_rs1_bits instr = bits instr 15 5"
definition instr_rs1 :: "u32 \<Rightarrow> XRegister" where "instr_rs1 instr = the (parse_xregister (instr_rs1_bits instr))"
definition instr_rs1_f :: "u32 \<Rightarrow> FRegister" where "instr_rs1_f instr = the (parse_fregister (instr_rs1_bits instr))"
definition instr_rs2_bits :: "u32 \<Rightarrow> u32" where "instr_rs2_bits instr = bits instr 20 5"
definition instr_rs2 :: "u32 \<Rightarrow> XRegister" where "instr_rs2 instr = the (parse_xregister (instr_rs2_bits instr))"
definition instr_rs2_f :: "u32 \<Rightarrow> FRegister" where "instr_rs2_f instr = the (parse_fregister (instr_rs2_bits instr))"
definition instr_rs3_bits :: "u32 \<Rightarrow> u32" where "instr_rs3_bits = instr_funct5"
definition instr_rs3_f :: "u32 \<Rightarrow> FRegister" where "instr_rs3_f instr = the (parse_fregister (instr_rs3_bits instr))"
definition instr_imm_11_6 :: "u32 \<Rightarrow> u32" where "instr_imm_11_6 instr = push_bit 1 (bits instr 26 6)"
definition instr_fm :: "u32 \<Rightarrow> u32" where "instr_fm instr = bits instr 28 4"
definition instr_rm :: "u32 \<Rightarrow> u32" where "instr_rm = instr_funct3"
definition instr_fmt :: "u32 \<Rightarrow> u32" where "instr_fmt instr = bits instr 25 2"
definition instr_width_field :: "u32 \<Rightarrow> u32" where "instr_width_field instr = bits instr 12 3"

definition instr_csr :: "u32 \<Rightarrow> CSRegister option" where
  "instr_csr instr = try_parse_csregister (bits instr 20 12)"

section \<open>Immediates\<close>

definition i_imm :: "u32 \<Rightarrow> i64" where
  "i_imm instr = scast (signed_drop_bit 20 (instr AND 0xFFF00000))"

definition s_imm :: "u32 \<Rightarrow> i64" where
  "s_imm instr =
     (let instr_31_25 = instr AND 0xFE000000;
          instr_11_7 = instr AND 0x00000F80
      in scast (signed_drop_bit 20 instr_31_25 OR signed_drop_bit 7 instr_11_7))"

definition b_imm :: "u32 \<Rightarrow> i64" where
  "b_imm instr =
     (let instr_31 = instr AND 0x80000000;
          instr_7 = instr AND 0x00000080;
          instr_30_25 = instr AND 0x7E000000;
          instr_11_8 = instr AND 0x00000F00
      in scast (((signed_drop_bit 19 instr_31 OR push_bit 4 instr_7) OR
           signed_drop_bit 20 instr_30_25) OR signed_drop_bit 7 instr_11_8))"

definition u_imm :: "u32 \<Rightarrow> i64" where
  "u_imm instr = scast (instr AND 0xFFFFF000)"

definition j_imm :: "u32 \<Rightarrow> i64" where
  "j_imm instr =
     (let instr_31 = instr AND 0x80000000;
          instr_19_12 = instr AND 0x000FF000;
          instr_20 = instr AND 0x00100000;
          instr_30_21 = instr AND 0x7FE00000
      in scast (((signed_drop_bit 11 instr_31 OR instr_19_12) OR
           signed_drop_bit 9 instr_20) OR signed_drop_bit 20 instr_30_21))"

definition fl_imm :: "u32 \<Rightarrow> i64" where "fl_imm = i_imm"
definition fs_imm :: "u32 \<Rightarrow> i64" where "fs_imm = s_imm"

section \<open>Construction of instructions\<close>

definition r_instr :: "(RTypeArgs \<Rightarrow> Instr) \<Rightarrow> u32 \<Rightarrow> Instr" where
  "r_instr enum_variant instr =
     enum_variant \<lparr>rt_rd = instr_rd instr, rt_rs1 = instr_rs1 instr, rt_rs2 = instr_rs2 instr\<rparr>"

definition i_instr :: "(ITypeArgs \<Rightarrow> Instr) \<Rightarrow> u32 \<Rightarrow> Instr" where
  "i_instr enum_variant instr =
     enum_variant \<lparr>it_rd = instr_rd instr, it_rs1 = instr_rs1 instr, it_imm = i_imm instr\<rparr>"

definition s_instr :: "(SBTypeArgs \<Rightarrow> Instr) \<Rightarrow> u32 \<Rightarrow> Instr" where
  "s_instr enum_variant instr =
     enum_variant \<lparr>sb_rs1 = instr_rs1 instr, sb_rs2 = instr_rs2 instr, sb_imm = s_imm instr\<rparr>"

definition b_instr :: "(SBTypeArgs \<Rightarrow> Instr) \<Rightarrow> u32 \<Rightarrow> Instr" where
  "b_instr enum_variant instr =
     enum_variant \<lparr>sb_rs1 = instr_rs1 instr, sb_rs2 = instr_rs2 instr, sb_imm = b_imm instr\<rparr>"

definition u_instr :: "(UJTypeArgs \<Rightarrow> Instr) \<Rightarrow> u32 \<Rightarrow> Instr" where
  "u_instr enum_variant instr = enum_variant \<lparr>uj_rd = instr_rd instr, uj_imm = u_imm instr\<rparr>"

definition j_instr :: "(UJTypeArgs \<Rightarrow> Instr) \<Rightarrow> u32 \<Rightarrow> Instr" where
  "j_instr enum_variant instr = enum_variant \<lparr>uj_rd = instr_rd instr, uj_imm = j_imm instr\<rparr>"

definition fl_instr :: "(FLoadArgs \<Rightarrow> Instr) \<Rightarrow> u32 \<Rightarrow> Instr" where
  "fl_instr enum_variant instr =
     enum_variant \<lparr>fld_rs1 = instr_rs1 instr, fld_rd = instr_rd_f instr, fld_imm = fl_imm instr\<rparr>"

definition fs_instr :: "(FStoreArgs \<Rightarrow> Instr) \<Rightarrow> u32 \<Rightarrow> Instr" where
  "fs_instr enum_variant instr =
     enum_variant \<lparr>fst_rs1 = instr_rs1 instr, fst_rs2 = instr_rs2_f instr, fst_imm = fs_imm instr\<rparr>"

definition f_cmp_instr :: "(FCmpArgs \<Rightarrow> Instr) \<Rightarrow> u32 \<Rightarrow> u32 \<Rightarrow> Instr" where
  "f_cmp_instr enum_variant instr rs2_bits =
     enum_variant \<lparr>fcmp_rs1 = instr_rs1_f instr, fcmp_rs2 = the (parse_fregister rs2_bits),
                   fcmp_rd = instr_rd instr\<rparr>"

definition f_r_instr :: "(FRArgs \<Rightarrow> Instr) \<Rightarrow> u32 \<Rightarrow> u32 \<Rightarrow> Instr" where
  "f_r_instr enum_variant instr rs2_bits =
     enum_variant \<lparr>fr_rs1 = instr_rs1_f instr, fr_rs2 = the (parse_fregister rs2_bits),
                   fr_rd = instr_rd_f instr\<rparr>"

definition f_r_rm_1_instr :: "(FR1ArgWithRounding \<Rightarrow> Instr) \<Rightarrow> u32 \<Rightarrow> u32 \<Rightarrow> Instr" where
  "f_r_rm_1_instr enum_variant instr rm =
     (case from_rm rm of
        Some rounding \<Rightarrow>
          enum_variant \<lparr>fr1_rs1 = instr_rs1_f instr, fr1_rm = rounding, fr1_rd = instr_rd_f instr\<rparr>
      | None \<Rightarrow> Unknown instr)"

definition f_r_rm_2_instr :: "(FR2ArgsWithRounding \<Rightarrow> Instr) \<Rightarrow> u32 \<Rightarrow> u32 \<Rightarrow> u32 \<Rightarrow> Instr" where
  "f_r_rm_2_instr enum_variant instr rs2_bits rm =
     (case from_rm rm of
        Some rounding \<Rightarrow>
          enum_variant \<lparr>fr2_rs1 = instr_rs1_f instr, fr2_rs2 = the (parse_fregister rs2_bits),
                        fr2_rm = rounding, fr2_rd = instr_rd_f instr\<rparr>
      | None \<Rightarrow> Unknown instr)"

definition f_r_rm_3_instr :: "(FR3ArgsWithRounding \<Rightarrow> Instr) \<Rightarrow> u32 \<Rightarrow> Instr" where
  "f_r_rm_3_instr enum_variant instr =
     (case from_rm (instr_rm instr) of
        Some rounding \<Rightarrow>
          enum_variant \<lparr>fr3_rs1 = instr_rs1_f instr, fr3_rs2 = instr_rs2_f instr,
                        fr3_rs3 = instr_rs3_f instr, fr3_rm = rounding, fr3_rd = instr_rd_f instr\<rparr>
      | None \<Rightarrow> Unknown instr)"

definition fence_instr :: "(FenceArgs \<Rightarrow> Instr) \<Rightarrow> u32 \<Rightarrow> Instr" where
  "fence_instr enum_variant instr =
     enum_variant
       \<lparr>fence_pred = \<lparr>fs_i = instr_bit instr 27, fs_o = instr_bit instr 26,
                      fs_r = instr_bit instr 25, fs_w = instr_bit instr 24\<rparr>,
        fence_succ = \<lparr>fs_i = instr_bit instr 23, fs_o = instr_bit instr 22,
                      fs_r = instr_bit instr 21, fs_w = instr_bit instr 20\<rparr>\<rparr>"

definition amo_instr :: "(AmoArgs \<Rightarrow> Instr) \<Rightarrow> u32 \<Rightarrow> Instr" where
  "amo_instr enum_variant instr =
     enum_variant \<lparr>amo_rd = instr_rd instr, amo_rs1 = instr_rs1 instr, amo_rs2 = instr_rs2 instr,
                   amo_aq = instr_bit instr 26, amo_rl = instr_bit instr 25\<rparr>"

definition csr_instr :: "(CsrArgs \<Rightarrow> Instr) \<Rightarrow> u32 \<Rightarrow> Instr" where
  "csr_instr enum_variant instr =
     (case instr_csr instr of
        Some csr \<Rightarrow> enum_variant \<lparr>csr_rd = instr_rd instr, csr_rs1 = instr_rs1 instr, csr_csr = csr\<rparr>
      | None \<Rightarrow> Unknown instr)"

definition csri_instr :: "(CsriArgs \<Rightarrow> Instr) \<Rightarrow> u32 \<Rightarrow> Instr" where
  "csri_instr enum_variant instr =
     (case instr_csr instr of
        Some csr \<Rightarrow> enum_variant \<lparr>csri_rd = instr_rd instr, csri_imm = ucast (bits instr 15 5), csri_csr = csr\<rparr>
      | None \<Rightarrow> Unknown instr)"

section \<open>Opcodes and function codes\<close>

abbreviation (input) OP_ARITH :: u32 where "OP_ARITH \<equiv> 51"
abbreviation (input) OP_ARITH_W :: u32 where "OP_ARITH_W \<equiv> 59"
abbreviation (input) OP_ARITH_I :: u32 where "OP_ARITH_I \<equiv> 19"
abbreviation (input) OP_LOAD :: u32 where "OP_LOAD \<equiv> 3"
abbreviation (input) OP_ARITH_IW :: u32 where "OP_ARITH_IW \<equiv> 27"
abbreviation (input) OP_SYNCH :: u32 where "OP_SYNCH \<equiv> 15"
abbreviation (input) OP_SYS :: u32 where "OP_SYS \<equiv> 115"
abbreviation (input) OP_STORE :: u32 where "OP_STORE \<equiv> 35"
abbreviation (input) OP_BRANCH :: u32 where "OP_BRANCH \<equiv> 99"
abbreviation (input) OP_LUI :: u32 where "OP_LUI \<equiv> 55"
abbreviation (input) OP_AUIPC :: u32 where "OP_AUIPC \<equiv> 23"
abbreviation (input) OP_JAL :: u32 where "OP_JAL \<equiv> 111"
abbreviation (input) OP_JALR :: u32 where "OP_JALR \<equiv> 103"
abbreviation (input) OP_FP :: u32 where "OP_FP \<equiv> 83"
abbreviation (input) OP_FP_LOAD :: u32 where "OP_FP_LOAD \<equiv> 7"
abbreviation (input) OP_FMADD :: u32 where "OP_FMADD \<equiv> 67"
abbreviation (input) OP_FMSUB :: u32 where "OP_FMSUB \<equiv> 71"
abbreviation (input) OP_FNMSUB :: u32 where "OP_FNMSUB \<equiv> 75"
abbreviation (input) OP_FNMADD :: u32 where "OP_FNMADD \<equiv> 79"
abbreviation (input) OP_FP_STORE :: u32 where "OP_FP_STORE \<equiv> 39"
abbreviation (input) OP_AMO :: u32 where "OP_AMO \<equiv> 47"
abbreviation (input) F3_0 :: u32 where "F3_0 \<equiv> 0"
abbreviation (input) F3_1 :: u32 where "F3_1 \<equiv> 1"
abbreviation (input) F3_2 :: u32 where "F3_2 \<equiv> 2"
abbreviation (input) F3_3 :: u32 where "F3_3 \<equiv> 3"
abbreviation (input) F3_4 :: u32 where "F3_4 \<equiv> 4"
abbreviation (input) F3_5 :: u32 where "F3_5 \<equiv> 5"
abbreviation (input) F3_6 :: u32 where "F3_6 \<equiv> 6"
abbreviation (input) F3_7 :: u32 where "F3_7 \<equiv> 7"
abbreviation (input) F5_0 :: u32 where "F5_0 \<equiv> 0"
abbreviation (input) F5_1 :: u32 where "F5_1 \<equiv> 1"
abbreviation (input) F5_2 :: u32 where "F5_2 \<equiv> 2"
abbreviation (input) F5_3 :: u32 where "F5_3 \<equiv> 3"
abbreviation (input) F5_4 :: u32 where "F5_4 \<equiv> 4"
abbreviation (input) F5_5 :: u32 where "F5_5 \<equiv> 5"
abbreviation (input) F5_8 :: u32 where "F5_8 \<equiv> 8"
abbreviation (input) F5_11 :: u32 where "F5_11 \<equiv> 11"
abbreviation (input) F5_12 :: u32 where "F5_12 \<equiv> 12"
abbreviation (input) F5_16 :: u32 where "F5_16 \<equiv> 16"
abbreviation (input) F5_20 :: u32 where "F5_20 \<equiv> 20"
abbreviation (input) F5_24 :: u32 where "F5_24 \<equiv> 24"
abbreviation (input) F5_28 :: u32 where "F5_28 \<equiv> 28"
abbreviation (input) F5_30 :: u32 where "F5_30 \<equiv> 30"
abbreviation (input) F7_0 :: u32 where "F7_0 \<equiv> 0"
abbreviation (input) F7_1 :: u32 where "F7_1 \<equiv> 1"
abbreviation (input) F7_9 :: u32 where "F7_9 \<equiv> 9"
abbreviation (input) F7_8 :: u32 where "F7_8 \<equiv> 8"
abbreviation (input) F7_20 :: u32 where "F7_20 \<equiv> 32"
abbreviation (input) F7_24 :: u32 where "F7_24 \<equiv> 24"
abbreviation (input) F7_56 :: u32 where "F7_56 \<equiv> 56"
abbreviation (input) FMT_S :: u32 where "FMT_S \<equiv> 0"
abbreviation (input) FMT_D :: u32 where "FMT_D \<equiv> 1"
abbreviation (input) WIDTH_W :: u32 where "WIDTH_W \<equiv> 2"
abbreviation (input) WIDTH_D :: u32 where "WIDTH_D \<equiv> 3"
abbreviation (input) RM_0 :: u32 where "RM_0 \<equiv> 0"
abbreviation (input) RM_1 :: u32 where "RM_1 \<equiv> 1"
abbreviation (input) RM_2 :: u32 where "RM_2 \<equiv> 2"
abbreviation (input) RM_EQ :: u32 where "RM_EQ \<equiv> RM_2"
abbreviation (input) RM_LT :: u32 where "RM_LT \<equiv> RM_1"
abbreviation (input) RM_LE :: u32 where "RM_LE \<equiv> RM_0"
abbreviation (input) RM_MIN :: u32 where "RM_MIN \<equiv> RM_0"
abbreviation (input) RM_MAX :: u32 where "RM_MAX \<equiv> RM_1"
abbreviation (input) RS1_0 :: u32 where "RS1_0 \<equiv> 0"
abbreviation (input) RS2_0 :: u32 where "RS2_0 \<equiv> 0"
abbreviation (input) RS2_1 :: u32 where "RS2_1 \<equiv> 1"
abbreviation (input) RS2_2 :: u32 where "RS2_2 \<equiv> 2"
abbreviation (input) RS2_5 :: u32 where "RS2_5 \<equiv> 5"
abbreviation (input) FM_0 :: u32 where "FM_0 \<equiv> 0"
abbreviation (input) FM_8 :: u32 where "FM_8 \<equiv> 8"

section \<open>Decoding\<close>

definition parse_arith :: "u32 \<Rightarrow> Instr" where
  "parse_arith instr =
     (if instr_funct3 instr = F3_0 then
        (if instr_funct7 instr = F7_0 then r_instr Add instr
         else if instr_funct7 instr = F7_1 then r_instr Mul instr
         else if instr_funct7 instr = F7_20 then r_instr Sub instr
         else Unknown instr)
      else if instr_funct3 instr = F3_4 then
        (if instr_funct7 instr = F7_0 then r_instr Xor instr
         else if instr_funct7 instr = F7_1 then r_instr Div instr
         else Unknown instr)
      else if instr_funct3 instr = F3_6 then
        (if instr_funct7 instr = F7_0 then r_instr Or instr
         else if instr_funct7 instr = F7_1 then r_instr Rem instr
         else Unknown instr)
      else if instr_funct3 instr = F3_7 then
        (if instr_funct7 instr = F7_0 then r_instr And instr
         else if instr_funct7 instr = F7_1 then r_instr Remu instr
         else Unknown instr)
      else if instr_funct3 instr = F3_1 then
        (if instr_funct7 instr = F7_0 then r_instr Sll instr
         else if instr_funct7 instr = F7_1 then r_instr Mulh instr
         else Unknown instr)
      else if instr_funct3 instr = F3_5 then
        (if instr_funct7 instr = F7_0 then r_instr Srl instr
         else if instr_funct7 instr = F7_1 then r_instr Divu instr
         else if instr_funct7 instr = F7_20 then r_instr Sra instr
         else Unknown instr)
      else if instr_funct3 instr = F3_2 then
        (if instr_funct7 instr = F7_0 then r_instr Slt instr
         else if instr_funct7 instr = F7_1 then r_instr Mulhsu instr
         else Unknown instr)
      else if instr_funct3 instr = F3_3 then
        (if instr_funct7 instr = F7_0 then r_instr Sltu instr
         else if instr_funct7 instr = F7_1 then r_instr Mulhu instr
         else Unknown instr)
      else Unknown instr)"

definition parse_arith_w :: "u32 \<Rightarrow> Instr" where
  "parse_arith_w instr =
     (if instr_funct3 instr = F3_0 then
        (if instr_funct7 instr = F7_0 then r_instr Addw instr
         else if instr_funct7 instr = F7_1 then r_instr Mulw instr
         else if instr_funct7 instr = F7_20 then r_instr Subw instr
         else Unknown instr)
      else if instr_funct3 instr = F3_1 then r_instr Sllw instr
      else if instr_funct3 instr = F3_4 then
        (if instr_funct7 instr = F7_1 then r_instr Divw instr
         else Unknown instr)
      else if instr_funct3 instr = F3_5 then
        (if instr_funct7 instr = F7_0 then r_instr Srlw instr
         else if instr_funct7 instr = F7_1 then r_instr Divuw instr
         else if instr_funct7 instr = F7_20 then r_instr Sraw instr
         else Unknown instr)
      else if instr_funct3 instr = F3_6 then
        (if instr_funct7 instr = F7_1 then r_instr Remw instr
         else Unknown instr)
      else if instr_funct3 instr = F3_7 then
        (if instr_funct7 instr = F7_1 then r_instr Remuw instr
         else Unknown instr)
      else Unknown instr)"

definition parse_arith_i :: "u32 \<Rightarrow> Instr" where
  "parse_arith_i instr =
     (if instr_funct3 instr = F3_0 then i_instr Addi instr
      else if instr_funct3 instr = F3_4 then i_instr Xori instr
      else if instr_funct3 instr = F3_6 then i_instr Ori instr
      else if instr_funct3 instr = F3_7 then i_instr Andi instr
      else if instr_funct3 instr = F3_1 then
        (if instr_imm_11_6 instr = F7_0 then i_instr Slli instr
         else Unknown instr)
      else if instr_funct3 instr = F3_5 then
        (if instr_imm_11_6 instr = F7_0 then i_instr Srli instr
         else if instr_imm_11_6 instr = F7_20 then i_instr Srai instr
         else Unknown instr)
      else if instr_funct3 instr = F3_2 then i_instr Slti instr
      else if instr_funct3 instr = F3_3 then i_instr Sltiu instr
      else Unknown instr)"

definition parse_load :: "u32 \<Rightarrow> Instr" where
  "parse_load instr =
     (if instr_funct3 instr = F3_0 then i_instr Lb instr
      else if instr_funct3 instr = F3_1 then i_instr Lh instr
      else if instr_funct3 instr = F3_2 then i_instr Lw instr
      else if instr_funct3 instr = F3_3 then i_instr Ld instr
      else if instr_funct3 instr = F3_4 then i_instr Lbu instr
      else if instr_funct3 instr = F3_5 then i_instr Lhu instr
      else if instr_funct3 instr = F3_6 then i_instr Lwu instr
      else Unknown instr)"

definition parse_arith_iw :: "u32 \<Rightarrow> Instr" where
  "parse_arith_iw instr =
     (if instr_funct3 instr = F3_0 then i_instr Addiw instr
      else if instr_funct3 instr = F3_1 then
        (if instr_imm_11_6 instr = F7_0 then i_instr Slliw instr
         else Unknown instr)
      else if instr_funct3 instr = F3_5 then
        (if instr_imm_11_6 instr = F7_0 then i_instr Srliw instr
         else if instr_imm_11_6 instr = F7_20 then i_instr Sraiw instr
         else Unknown instr)
      else Unknown instr)"

definition parse_synch :: "u32 \<Rightarrow> Instr" where
  "parse_synch instr =
     (if instr_funct3 instr = F3_0 then
        (if instr_fm instr = FM_0 then fence_instr Fence instr
         else if instr_fm instr = FM_8 then fence_instr FenceTso instr
         else Unknown instr)
      else if instr_funct3 instr = F3_1 then FenceI
      else Unknown instr)"

definition parse_sys :: "u32 \<Rightarrow> Instr" where
  "parse_sys instr =
     (if instr_funct3 instr = F3_0 then
        (if instr_funct7 instr = F7_0 then
           (if instr_rs1_bits instr = RS1_0 \<and> instr_rs2_bits instr = RS2_0 then Ecall
            else if instr_rs1_bits instr = RS1_0 \<and> instr_rs2_bits instr = RS2_1 then Ebreak
            else Unknown instr)
         else if instr_funct7 instr = F7_9 then SFenceVma (instr_rs2 instr) (instr_rs1 instr)
         else if instr_funct7 instr = F7_8 then
           (if instr_rs1_bits instr = RS1_0 \<and> instr_rs2_bits instr = RS2_2 then Sret
            else if instr_rs1_bits instr = RS1_0 \<and> instr_rs2_bits instr = RS2_5 then Wfi
            else Unknown instr)
         else if instr_funct7 instr = F7_24 then
           (if instr_rs1_bits instr = RS1_0 \<and> instr_rs2_bits instr = RS2_2 then Mret
            else Unknown instr)
         else if instr_funct7 instr = F7_56 then
           (if instr_rs1_bits instr = RS1_0 \<and> instr_rs2_bits instr = RS2_2 then Mnret
            else Unknown instr)
         else Unknown instr)
      else if instr_funct3 instr = F3_1 then csr_instr Csrrw instr
      else if instr_funct3 instr = F3_2 then csr_instr Csrrs instr
      else if instr_funct3 instr = F3_3 then csr_instr Csrrc instr
      else if instr_funct3 instr = F3_5 then csri_instr Csrrwi instr
      else if instr_funct3 instr = F3_6 then csri_instr Csrrsi instr
      else if instr_funct3 instr = F3_7 then csri_instr Csrrci instr
      else Unknown instr)"

definition parse_amo :: "u32 \<Rightarrow> Instr" where
  "parse_amo instr =
     (if instr_funct3 instr = F3_2 then
        (if instr_funct5 instr = F5_1 then amo_instr Amoswapw instr
         else if instr_funct5 instr = F5_0 then amo_instr Amoaddw instr
         else if instr_funct5 instr = F5_4 then amo_instr Amoxorw instr
         else if instr_funct5 instr = F5_12 then amo_instr Amoandw instr
         else if instr_funct5 instr = F5_8 then amo_instr Amoorw instr
         else if instr_funct5 instr = F5_16 then amo_instr Amominw instr
         else if instr_funct5 instr = F5_20 then amo_instr Amomaxw instr
         else if instr_funct5 instr = F5_24 then amo_instr Amominuw instr
         else if instr_funct5 instr = F5_28 then amo_instr Amomaxuw instr
         else Unknown instr)
      else Unknown instr)"

definition parse_store :: "u32 \<Rightarrow> Instr" where
  "parse_store instr =
     (if instr_funct3 instr = F3_0 then s_instr Sb instr
      else if instr_funct3 instr = F3_1 then s_instr Sh instr
      else if instr_funct3 instr = F3_2 then s_instr Sw instr
      else if instr_funct3 instr = F3_3 then s_instr Sd instr
      else Unknown instr)"

definition parse_branch :: "u32 \<Rightarrow> Instr" where
  "parse_branch instr =
     (if instr_funct3 instr = F3_0 then b_instr Beq instr
      else if instr_funct3 instr = F3_1 then b_instr Bne instr
      else if instr_funct3 instr = F3_4 then b_instr Blt instr
      else if instr_funct3 instr = F3_5 then b_instr Bge instr
      else if instr_funct3 instr = F3_6 then b_instr Bltu instr
      else if instr_funct3 instr = F3_7 then b_instr Bgeu instr
      else Unknown instr)"

definition parse_fp_s :: "u32 \<Rightarrow> Instr" where
  "parse_fp_s instr =
     (let funct5 = instr_funct5 instr; rounding = instr_rm instr; rs2_bits = instr_rs2_bits instr in
      if funct5 = F5_0 then f_r_rm_2_instr Fadds instr rs2_bits rounding
      else if funct5 = F5_1 then f_r_rm_2_instr Fsubs instr rs2_bits rounding
      else if funct5 = F5_2 then f_r_rm_2_instr Fmuls instr rs2_bits rounding
      else if funct5 = F5_3 then f_r_rm_2_instr Fdivs instr rs2_bits rounding
      else if funct5 = F5_4 \<and> rounding = RM_0 then f_r_instr Fsgnjs instr rs2_bits
      else if funct5 = F5_4 \<and> rounding = RM_1 then f_r_instr Fsgnjns instr rs2_bits
      else if funct5 = F5_4 \<and> rounding = RM_2 then f_r_instr Fsgnjxs instr rs2_bits
      else if funct5 = F5_5 \<and> rounding = RM_MIN then f_r_instr Fmins instr rs2_bits
      else if funct5 = F5_5 \<and> rounding = RM_MAX then f_r_instr Fmaxs instr rs2_bits
      else if funct5 = F5_11 \<and> rs2_bits = RS2_0 then f_r_rm_1_instr Fsqrts instr rounding
      else if funct5 = F5_20 \<and> rounding = RM_EQ then f_cmp_instr Feqs instr rs2_bits
      else if funct5 = F5_20 \<and> rounding = RM_LE then f_cmp_instr Fles instr rs2_bits
      else if funct5 = F5_20 \<and> rounding = RM_LT then f_cmp_instr Flts instr rs2_bits
      else if funct5 = F5_28 \<and> rounding = RM_0 \<and> rs2_bits = RS2_0 then
        FmvXW \<lparr>fx_rd = instr_rd instr, fx_rs1 = instr_rs1_f instr\<rparr>
      else if funct5 = F5_28 \<and> rounding = RM_1 \<and> rs2_bits = RS2_0 then
        FclassS \<lparr>fx_rd = instr_rd instr, fx_rs1 = instr_rs1_f instr\<rparr>
      else if funct5 = F5_30 \<and> rounding = RM_0 \<and> rs2_bits = RS2_0 then
        FmvWX \<lparr>xf_rd = instr_rd_f instr, xf_rs1 = instr_rs1 instr\<rparr>
      else Unknown instr)"

definition parse_fp_d :: "u32 \<Rightarrow> Instr" where
  "parse_fp_d instr =
     (let funct5 = instr_funct5 instr; rounding = instr_rm instr; rs2_bits = instr_rs2_bits instr in
      if funct5 = F5_0 then f_r_rm_2_instr Faddd instr rs2_bits rounding
      else if funct5 = F5_1 then f_r_rm_2_instr Fsubd instr rs2_bits rounding
      else if funct5 = F5_2 then f_r_rm_2_instr Fmuld instr rs2_bits rounding
      else if funct5 = F5_3 then f_r_rm_2_instr Fdivd instr rs2_bits rounding
      else if funct5 = F5_4 \<and> rounding = RM_0 then f_r_instr Fsgnjd instr rs2_bits
      else if funct5 = F5_4 \<and> rounding = RM_1 then f_r_instr Fsgnjnd instr rs2_bits
      else if funct5 = F5_4 \<and> rounding = RM_2 then f_r_instr Fsgnjxd instr rs2_bits
      else if funct5 = F5_5 \<and> rounding = RM_MIN then f_r_instr Fmind instr rs2_bits
      else if funct5 = F5_5 \<and> rounding = RM_MAX then f_r_instr Fmaxd instr rs2_bits
      else if funct5 = F5_11 \<and> rs2_bits = RS2_0 then f_r_rm_1_instr Fsqrtd instr rounding
      else if funct5 = F5_20 \<and> rounding = RM_EQ then f_cmp_instr Feqd instr rs2_bits
      else if funct5 = F5_20 \<and> rounding = RM_LE then f_cmp_instr Fled instr rs2_bits
      else if funct5 = F5_20 \<and> rounding = RM_LT then f_cmp_instr Fltd instr rs2_bits
      else if funct5 = F5_28 \<and> rounding = RM_0 \<and> rs2_bits = RS2_0 then
        FmvXD \<lparr>fx_rd = instr_rd instr, fx_rs1 = instr_rs1_f instr\<rparr>
      else if funct5 = F5_28 \<and> rounding = RM_1 \<and> rs2_bits = RS2_0 then
        FclassD \<lparr>fx_rd = instr_rd instr, fx_rs1 = instr_rs1_f instr\<rparr>
      else if funct5 = F5_30 \<and> rounding = RM_0 \<and> rs2_bits = RS2_0 then
        FmvDX \<lparr>xf_rd = instr_rd_f instr, xf_rs1 = instr_rs1 instr\<rparr>
      else Unknown instr)"

definition parse_fp :: "u32 \<Rightarrow> Instr" where
  "parse_fp instr =
     (if instr_fmt instr = FMT_S then parse_fp_s instr
      else if instr_fmt instr = FMT_D then parse_fp_d instr
      else Unknown instr)"

definition parse_fmadd :: "u32 \<Rightarrow> Instr" where
  "parse_fmadd instr =
     (if instr_fmt instr = FMT_S then f_r_rm_3_instr Fmadds instr
      else if instr_fmt instr = FMT_D then f_r_rm_3_instr Fmaddd instr
      else Unknown instr)"

definition parse_fmsub :: "u32 \<Rightarrow> Instr" where
  "parse_fmsub instr =
     (if instr_fmt instr = FMT_S then f_r_rm_3_instr Fmsubs instr
      else if instr_fmt instr = FMT_D then f_r_rm_3_instr Fmsubd instr
      else Unknown instr)"

definition parse_fnmsub :: "u32 \<Rightarrow> Instr" where
  "parse_fnmsub instr =
     (if instr_fmt instr = FMT_S then f_r_rm_3_instr Fnmsubs instr
      else if instr_fmt instr = FMT_D then f_r_rm_3_instr Fnmsubd instr
      else Unknown instr)"

definition parse_fnmadd :: "u32 \<Rightarrow> Instr" where
  "parse_fnmadd instr =
     (if instr_fmt instr = FMT_S then f_r_rm_3_instr Fnmadds instr
      else if instr_fmt instr = FMT_D then f_r_rm_3_instr Fnmaddd instr
      else Unknown instr)"

definition parse_fp_load :: "u32 \<Rightarrow> Instr" where
  "parse_fp_load instr =
     (if instr_width_field instr = WIDTH_W then fl_instr Flw instr
      else if instr_width_field instr = WIDTH_D then fl_instr Fld instr
      else Unknown instr)"

definition parse_fp_store :: "u32 \<Rightarrow> Instr" where
  "parse_fp_store instr =
     (if instr_width_field instr = WIDTH_W then fs_instr Fsw instr
      else if instr_width_field instr = WIDTH_D then fs_instr Fsd instr
      else Unknown instr)"

definition parse_jalr :: "u32 \<Rightarrow> Instr" where
  "parse_jalr instr =
     (if instr_funct3 instr = F3_0 then i_instr Jalr instr
      else Unknown instr)"

definition parse_uncompressed_instruction :: "u32 \<Rightarrow> Instr" where
  "parse_uncompressed_instruction instr =
     (let opcode = instr_opcode instr in
      if opcode = OP_ARITH then parse_arith instr
      else if opcode = OP_ARITH_W then parse_arith_w instr
      else if opcode = OP_ARITH_I then parse_arith_i instr
      else if opcode = OP_LOAD then parse_load instr
      else if opcode = OP_ARITH_IW then parse_arith_iw instr
      else if opcode = OP_SYNCH then parse_synch instr
      else if opcode = OP_SYS then parse_sys instr
      else if opcode = OP_AMO then parse_amo instr
      else if opcode = OP_STORE then parse_store instr
      else if opcode = OP_BRANCH then parse_branch instr
      else if opcode = OP_LUI then u_instr Lui instr
      else if opcode = OP_AUIPC then u_instr Auipc instr
      else if opcode = OP_FP then parse_fp instr
      else if opcode = OP_FMADD then parse_fmadd instr
      else if opcode = OP_FMSUB then parse_fmsub instr
      else if opcode = OP_FNMSUB then parse_fnmsub instr
      else if opcode = OP_FNMADD then parse_fnmadd instr
      else if opcode = OP_FP_LOAD then parse_fp_load instr
      else if opcode = OP_FP_STORE then parse_fp_store instr
      else if opcode = OP_JAL then j_instr Jal instr
      else if opcode = OP_JALR then parse_jalr instr
      else Unknown instr)"

definition parse_compressed_instruction :: "u16 \<Rightarrow> Instr" where
  "parse_compressed_instruction bytes = UnknownCompressed bytes"

definition parse :: "u16 \<Rightarrow> (unit \<Rightarrow> ('e, u16) result) \<Rightarrow> ('e, Instr) result" where
  "parse bytes more_bytes =
     (if bytes AND 3 \<noteq> 3 then Inr (parse_compressed_instruction bytes)
      else (case more_bytes () of
              Inl e \<Rightarrow> Inl e
            | Inr upper \<Rightarrow>
                (let combined = push_bit 16 (ucast upper) OR (ucast bytes :: u32)
                 in Inr (parse_uncompressed_instruction combined))))"

text \<open>
  The iterators of \<open>parse_block\<close> as functions on the remaining list; an iterator that returns
  \<open>None\<close> ends the collection.
\<close>

fun u16_iter_from_u8_iter :: "u8 list \<Rightarrow> u16 list" where
  "u16_iter_from_u8_iter (lower # upper # iter) =
     from_le_bytes [lower, upper] # u16_iter_from_u8_iter iter"
| "u16_iter_from_u8_iter _ = []"

fun instr_iter_from_u16_iter :: "u16 list \<Rightarrow> Instr list" where
  "instr_iter_from_u16_iter [] = []"
| "instr_iter_from_u16_iter [bytes] =
     (case parse bytes (\<lambda>_. Inl ()) of Inl _ \<Rightarrow> [] | Inr i \<Rightarrow> [i])"
| "instr_iter_from_u16_iter (bytes # upper # iter) =
     (case parse bytes (\<lambda>_. Inr upper) of
        Inl (_ :: unit) \<Rightarrow> []
      | Inr i \<Rightarrow>
          i # instr_iter_from_u16_iter (if bytes AND 3 \<noteq> 3 then upper # iter else iter))"

definition parse_block :: "u8 list \<Rightarrow> Instr list" where
  "parse_block bytes = instr_iter_from_u16_iter (u16_iter_from_u8_iter bytes)"

definition parse_segment :: "u8 list \<Rightarrow> nat \<Rightarrow> nat \<Rightarrow> Instr list option" where
  "parse_segment contents range_start range_end =
     (if range_start \<le> range_end \<and> range_end \<le> length contents
      then Some (parse_block (take (range_end - range_start) (drop range_start contents)))
      else None)"

section \<open>Fields of a word\<close>

lemma bits_eq: "n \<le> 32 \<Longrightarrow> bits w pos n = take_bit n (drop_bit pos w)"
  by (rule bit_word_eqI)
     (auto simp: bits_def bit_and_iff bit_drop_bit_eq bit_not_iff bit_take_bit_iff bit_mask_iff dest: bit_imp_le_length)

lemma instr_bit_eq: "instr_bit w n \<longleftrightarrow> bit w n"
  by (simp add: instr_bit_def bit_iff_and_push_bit_not_eq_0)

lemma bit_bits: "n \<le> 32 \<Longrightarrow> bit (bits w pos n) k \<longleftrightarrow> k < n \<and> bit w (pos + k)"
  by (auto simp: bits_eq bit_take_bit_iff bit_drop_bit_eq)

lemma bits_5: "unat (bits w pos 5) < 32"
proof -
  have "bits w pos 5 = drop_bit pos w AND mask 5"
    by (simp only: bits_eq take_bit_eq_mask)
  moreover have "unat (drop_bit pos w AND mask 5) < 2 ^ 5"
    by (rule unat_AND_mask_less)
  ultimately show ?thesis by simp
qed

lemma parse_register_range:
  "\<forall>n \<in> set [0..<32]. parse_xregister (of_nat n) \<noteq> None \<and> parse_fregister (of_nat n) \<noteq> None"
  by code_simp

lemma register_field_total:
  "\<exists>r. parse_xregister (bits w pos 5) = Some r" "\<exists>r. parse_fregister (bits w pos 5) = Some r"
proof -
  have "unat (bits w pos 5) \<in> set [0..<32]" using bits_5 [of w pos] by simp
  from bspec [OF parse_register_range this]
  show "\<exists>r. parse_xregister (bits w pos 5) = Some r" "\<exists>r. parse_fregister (bits w pos 5) = Some r"
    by simp_all
qed

end
