(* ===== verification/RV_Encoding.thy ===== *)
theory RV_Encoding
  imports RV_Parser
begin

text \<open>
  The specification of the decoder: an encoder written from the instruction formats of the
  unprivileged specification (types R, I, S, B, U, J), the side conditions under which an
  instruction has an encoding (ranges and alignment of immediates, known control registers), and
  the theorem that the decoder inverts the encoder, for single words and for blocks of code.
\<close>

section \<open>Formats\<close>

definition r_word :: "u32 \<Rightarrow> u32 \<Rightarrow> u32 \<Rightarrow> u32 \<Rightarrow> u32 \<Rightarrow> u32 \<Rightarrow> u32" where
  "r_word fn7 rs2 rs1 fn3 rd opcode =
     ((((take_bit 7 opcode OR push_bit 7 (take_bit 5 rd)) OR push_bit 12 (take_bit 3 fn3)) OR
       push_bit 15 (take_bit 5 rs1)) OR push_bit 20 (take_bit 5 rs2)) OR push_bit 25 (take_bit 7 fn7)"

definition imm_bits :: "i64 \<Rightarrow> nat \<Rightarrow> nat \<Rightarrow> u32" where
  "imm_bits imm pos n = take_bit n (drop_bit pos (ucast imm))"

definition i_word :: "i64 \<Rightarrow> u32 \<Rightarrow> u32 \<Rightarrow> u32 \<Rightarrow> u32 \<Rightarrow> u32" where
  "i_word imm rs1 fn3 rd opcode = r_word (imm_bits imm 5 7) (imm_bits imm 0 5) rs1 fn3 rd opcode"

definition s_word :: "i64 \<Rightarrow> u32 \<Rightarrow> u32 \<Rightarrow> u32 \<Rightarrow> u32 \<Rightarrow> u32" where
  "s_word imm rs2 rs1 fn3 opcode = r_word (imm_bits imm 5 7) rs2 rs1 fn3 (imm_bits imm 0 5) opcode"

definition b_word :: "i64 \<Rightarrow> u32 \<Rightarrow> u32 \<Rightarrow> u32 \<Rightarrow> u32 \<Rightarrow> u32" where
  "b_word imm rs2 rs1 fn3 opcode =
     r_word (imm_bits imm 5 6 OR push_bit 6 (imm_bits imm 12 1)) rs2 rs1 fn3
       (push_bit 1 (imm_bits imm 1 4) OR imm_bits imm 11 1) opcode"

definition u_word :: "i64 \<Rightarrow> u32 \<Rightarrow> u32 \<Rightarrow> u32" where
  "u_word imm rd opcode =
     r_word (imm_bits imm 25 7) (imm_bits imm 20 5) (imm_bits imm 15 5) (imm_bits imm 12 3) rd opcode"

definition j_word :: "i64 \<Rightarrow> u32 \<Rightarrow> u32 \<Rightarrow> u32" where
  "j_word imm rd opcode =
     r_word (imm_bits imm 5 6 OR push_bit 6 (imm_bits imm 20 1))
       (push_bit 1 (imm_bits imm 1 4) OR imm_bits imm 11 1)
       (imm_bits imm 15 5) (imm_bits imm 12 3) rd opcode"

definition csr_word :: "CSRegister \<Rightarrow> u32 \<Rightarrow> u32 \<Rightarrow> u32 \<Rightarrow> u32" where
  "csr_word csr rs1 fn3 rd = r_word (drop_bit 5 (of_nat csr)) (of_nat csr) rs1 fn3 rd 115"

definition xi :: "XRegister \<Rightarrow> u32" where "xi r = (if r = x0 then 0 else of_nat (Suc (x_index r)))"
definition fi :: "FRegister \<Rightarrow> u32" where "fi r = of_nat (f_index r)"

primrec rm_bits :: "InstrRoundingMode \<Rightarrow> u32" where
  "rm_bits Dynamic = 7"
| "rm_bits (Static r) = (case r of RNE \<Rightarrow> 0 | RTZ \<Rightarrow> 1 | RDN \<Rightarrow> 2 | RUP \<Rightarrow> 3 | RMM \<Rightarrow> 4)"

definition flag :: "bool \<Rightarrow> nat \<Rightarrow> u32" where
  "flag b n = (if b then push_bit n 1 else 0)"

definition amo_funct7 :: "u32 \<Rightarrow> bool \<Rightarrow> bool \<Rightarrow> u32" where
  "amo_funct7 fn5 aq rl = (push_bit 2 fn5 OR flag aq 1) OR flag rl 0"

definition fma_funct7 :: "u32 \<Rightarrow> u32 \<Rightarrow> u32" where
  "fma_funct7 rs3 fmt = push_bit 2 rs3 OR fmt"

definition fence_funct7 :: "u32 \<Rightarrow> FenceSet \<Rightarrow> u32" where
  "fence_funct7 fm pred = ((push_bit 3 fm OR flag (fs_i pred) 2) OR flag (fs_o pred) 1) OR flag (fs_r pred) 0"

definition fence_rs2 :: "FenceSet \<Rightarrow> FenceSet \<Rightarrow> u32" where
  "fence_rs2 pred succ =
     (((flag (fs_w pred) 4 OR flag (fs_i succ) 3) OR flag (fs_o succ) 2) OR flag (fs_r succ) 1) OR
     flag (fs_w succ) 0"

text \<open>A signed immediate of \<open>n\<close> bits; a shift immediate with the function code in its upper bits.\<close>

definition fits :: "nat \<Rightarrow> i64 \<Rightarrow> bool" where
  "fits n imm \<longleftrightarrow> - (2 ^ (n - 1)) \<le> sint imm \<and> sint imm < 2 ^ (n - 1)"

definition shamt :: "i64 \<Rightarrow> i64 \<Rightarrow> bool" where
  "shamt code imm \<longleftrightarrow> imm AND NOT (mask 6) = code"

section \<open>Encoding\<close>

primrec encode :: "Instr \<Rightarrow> u32" where
  "encode (Add args) = r_word 0 (xi (rt_rs2 args)) (xi (rt_rs1 args)) 0 (xi (rt_rd args)) 51"
| "encode (Sub args) = r_word 32 (xi (rt_rs2 args)) (xi (rt_rs1 args)) 0 (xi (rt_rd args)) 51"
| "encode (Xor args) = r_word 0 (xi (rt_rs2 args)) (xi (rt_rs1 args)) 4 (xi (rt_rd args)) 51"
| "encode (Or args) = r_word 0 (xi (rt_rs2 args)) (xi (rt_rs1 args)) 6 (xi (rt_rd args)) 51"
| "encode (And args) = r_word 0 (xi (rt_rs2 args)) (xi (rt_rs1 args)) 7 (xi (rt_rd args)) 51"
| "encode (Sll args) = r_word 0 (xi (rt_rs2 args)) (xi (rt_rs1 args)) 1 (xi (rt_rd args)) 51"
| "encode (Srl args) = r_word 0 (xi (rt_rs2 args)) (xi (rt_rs1 args)) 5 (xi (rt_rd args)) 51"
| "encode (Sra args) = r_word 32 (xi (rt_rs2 args)) (xi (rt_rs1 args)) 5 (xi (rt_rd args)) 51"
| "encode (Slt args) = r_word 0 (xi (rt_rs2 args)) (xi (rt_rs1 args)) 2 (xi (rt_rd args)) 51"
| "encode (Sltu args) = r_word 0 (xi (rt_rs2 args)) (xi (rt_rs1 args)) 3 (xi (rt_rd args)) 51"
| "encode (Addw args) = r_word 0 (xi (rt_rs2 args)) (xi (rt_rs1 args)) 0 (xi (rt_rd args)) 59"
| "encode (Subw args) = r_word 32 (xi (rt_rs2 args)) (xi (rt_rs1 args)) 0 (xi (rt_rd args)) 59"
| "encode (Sllw args) = r_word 0 (xi (rt_rs2 args)) (xi (rt_rs1 args)) 1 (xi (rt_rd args)) 59"
| "encode (Srlw args) = r_word 0 (xi (rt_rs2 args)) (xi (rt_rs1 args)) 5 (xi (rt_rd args)) 59"
| "encode (Sraw args) = r_word 32 (xi (rt_rs2 args)) (xi (rt_rs1 args)) 5 (xi (rt_rd args)) 59"
| "encode (Addi args) = i_word (it_imm args) (xi (it_rs1 args)) 0 (xi (it_rd args)) 19"
| "encode (Addiw args) = i_word (it_imm args) (xi (it_rs1 args)) 0 (xi (it_rd args)) 27"
| "encode (Xori args) = i_word (it_imm args) (xi (it_rs1 args)) 4 (xi (it_rd args)) 19"
| "encode (Ori args) = i_word (it_imm args) (xi (it_rs1 args)) 6 (xi (it_rd args)) 19"
| "encode (Andi args) = i_word (it_imm args) (xi (it_rs1 args)) 7 (xi (it_rd args)) 19"
| "encode (Slli args) = i_word (it_imm args) (xi (it_rs1 args)) 1 (xi (it_rd args)) 19"
| "encode (Srli args) = i_word (it_imm args) (xi (it_rs1 args)) 5 (xi (it_rd args)) 19"
| "encode (Srai args) = i_word (it_imm args) (xi (it_rs1 args)) 5 (xi (it_rd args)) 19"
| "encode (Slliw args) = i_word (it_imm args) (xi (it_rs1 args)) 1 (xi (it_rd args)) 27"
| "encode (Srliw args) = i_word (it_imm args) (xi (it_rs1 args)) 5 (xi (it_rd args)) 27"
| "encode (Sraiw args) = i_word (it_imm args) (xi (it_rs1 args)) 5 (xi (it_rd args)) 27"
| "encode (Slti args) = i_word (it_imm args) (xi (it_rs1 args)) 2 (xi (it_rd args)) 19"
| "encode (Sltiu args) = i_word (it_imm args) (xi (it_rs1 args)) 3 (xi (it_rd args)) 19"
| "encode (Lb args) = i_word (it_imm args) (xi (it_rs1 args)) 0 (xi (it_rd args)) 3"
| "encode (Lh args) = i_word (it_imm args) (xi (it_rs1 args)) 1 (xi (it_rd args)) 3"
| "encode (Lw args) = i_word (it_imm args) (xi (it_rs1 args)) 2 (xi (it_rd args)) 3"
| "encode (Lbu args) = i_word (it_imm args) (xi (it_rs1 args)) 4 (xi (it_rd args)) 3"
| "encode (Lhu args) = i_word (it_imm args) (xi (it_rs1 args)) 5 (xi (it_rd args)) 3"
| "encode (Lwu args) = i_word (it_imm args) (xi (it_rs1 args)) 6 (xi (it_rd args)) 3"
| "encode (Ld args) = i_word (it_imm args) (xi (it_rs1 args)) 3 (xi (it_rd args)) 3"
| "encode (Fence args) = r_word (fence_funct7 0 (fence_pred args)) (fence_rs2 (fence_pred args) (fence_succ args)) 0 0 0 15"
| "encode (FenceTso args) = r_word (fence_funct7 8 (fence_pred args)) (fence_rs2 (fence_pred args) (fence_succ args)) 0 0 0 15"
| "encode Ecall = r_word 0 0 0 0 0 115"
| "encode Ebreak = r_word 0 1 0 0 0 115"
| "encode (Sb args) = s_word (sb_imm args) (xi (sb_rs2 args)) (xi (sb_rs1 args)) 0 35"
| "encode (Sh args) = s_word (sb_imm args) (xi (sb_rs2 args)) (xi (sb_rs1 args)) 1 35"
| "encode (Sw args) = s_word (sb_imm args) (xi (sb_rs2 args)) (xi (sb_rs1 args)) 2 35"
| "encode (Sd args) = s_word (sb_imm args) (xi (sb_rs2 args)) (xi (sb_rs1 args)) 3 35"
| "encode (Beq args) = b_word (sb_imm args) (xi (sb_rs2 args)) (xi (sb_rs1 args)) 0 99"
| "encode (Bne args) = b_word (sb_imm args) (xi (sb_rs2 args)) (xi (sb_rs1 args)) 1 99"
| "encode (Blt args) = b_word (sb_imm args) (xi (sb_rs2 args)) (xi (sb_rs1 args)) 4 99"
| "encode (Bge args) = b_word (sb_imm args) (xi (sb_rs2 args)) (xi (sb_rs1 args)) 5 99"
| "encode (Bltu args) = b_word (sb_imm args) (xi (sb_rs2 args)) (xi (sb_rs1 args)) 6 99"
| "encode (Bgeu args) = b_word (sb_imm args) (xi (sb_rs2 args)) (xi (sb_rs1 args)) 7 99"
| "encode (Lui args) = u_word (uj_imm args) (xi (uj_rd args)) 55"
| "encode (Auipc args) = u_word (uj_imm args) (xi (uj_rd args)) 23"
| "encode (Jal args) = j_word (uj_imm args) (xi (uj_rd args)) 111"
| "encode (Jalr args) = i_word (it_imm args) (xi (it_rs1 args)) 0 (xi (it_rd args)) 103"
| "encode (Amoswapw args) = r_word (amo_funct7 1 (amo_aq args) (amo_rl args)) (xi (amo_rs2 args)) (xi (amo_rs1 args)) 2 (xi (amo_rd args)) 47"
| "encode (Amoaddw args) = r_word (amo_funct7 0 (amo_aq args) (amo_rl args)) (xi (amo_rs2 args)) (xi (amo_rs1 args)) 2 (xi (amo_rd args)) 47"
| "encode (Amoxorw args) = r_word (amo_funct7 4 (amo_aq args) (amo_rl args)) (xi (amo_rs2 args)) (xi (amo_rs1 args)) 2 (xi (amo_rd args)) 47"
| "encode (Amoandw args) = r_word (amo_funct7 12 (amo_aq args) (amo_rl args)) (xi (amo_rs2 args)) (xi (amo_rs1 args)) 2 (xi (amo_rd args)) 47"
| "encode (Amoorw args) = r_word (amo_funct7 8 (amo_aq args) (amo_rl args)) (xi (amo_rs2 args)) (xi (amo_rs1 args)) 2 (xi (amo_rd args)) 47"
| "encode (Amominw args) = r_word (amo_funct7 16 (amo_aq args) (amo_rl args)) (xi (amo_rs2 args)) (xi (amo_rs1 args)) 2 (xi (amo_rd args)) 47"
| "encode (Amomaxw args) = r_word (amo_funct7 20 (amo_aq args) (amo_rl args)) (xi (amo_rs2 args)) (xi (amo_rs1 args)) 2 (xi (amo_rd args)) 47"
| "encode (Amominuw args) = r_word (amo_funct7 24 (amo_aq args) (amo_rl args)) (xi (amo_rs2 args)) (xi (amo_rs1 args)) 2 (xi (amo_rd args)) 47"
| "encode (Amomaxuw args) = r_word (amo_funct7 28 (amo_aq args) (amo_rl args)) (xi (amo_rs2 args)) (xi (amo_rs1 args)) 2 (xi (amo_rd args)) 47"
| "encode (Rem args) = r_word 1 (xi (rt_rs2 args)) (xi (rt_rs1 args)) 6 (xi (rt_rd args)) 51"
| "encode (Remu args) = r_word 1 (xi (rt_rs2 args)) (xi (rt_rs1 args)) 7 (xi (rt_rd args)) 51"
| "encode (Remw args) = r_word 1 (xi (rt_rs2 args)) (xi (rt_rs1 args)) 6 (xi (rt_rd args)) 59"
| "encode (Remuw args) = r_word 1 (xi (rt_rs2 args)) (xi (rt_rs1 args)) 7 (xi (rt_rd args)) 59"
| "encode (Div args) = r_word 1 (xi (rt_rs2 args)) (xi (rt_rs1 args)) 4 (xi (rt_rd args)) 51"
| "encode (Divu args) = r_word 1 (xi (rt_rs2 args)) (xi (rt_rs1 args)) 5 (xi (rt_rd args)) 51"
| "encode (Divw args) = r_word 1 (xi (rt_rs2 args)) (xi (rt_rs1 args)) 4 (xi (rt_rd args)) 59"
| "encode (Divuw args) = r_word 1 (xi (rt_rs2 args)) (xi (rt_rs1 args)) 5 (xi (rt_rd args)) 59"
| "encode (Mul args) = r_word 1 (xi (rt_rs2 args)) (xi (rt_rs1 args)) 0 (xi (rt_rd args)) 51"
| "encode (Mulh args) = r_word 1 (xi (rt_rs2 args)) (xi (rt_rs1 args)) 1 (xi (rt_rd args)) 51"
| "encode (Mulhsu args) = r_word 1 (xi (rt_rs2 args)) (xi (rt_rs1 args)) 2 (xi (rt_rd args)) 51"
| "encode (Mulhu args) = r_word 1 (xi (rt_rs2 args)) (xi (rt_rs1 args)) 3 (xi (rt_rd args)) 51"
| "encode (Mulw args) = r_word 1 (xi (rt_rs2 args)) (xi (rt_rs1 args)) 0 (xi (rt_rd args)) 59"
| "encode (FclassS args) = r_word 112 0 (fi (fx_rs1 args)) 1 (xi (fx_rd args)) 83"
| "encode (Feqs args) = r_word 80 (fi (fcmp_rs2 args)) (fi (fcmp_rs1 args)) 2 (xi (fcmp_rd args)) 83"
| "encode (Fles args) = r_word 80 (fi (fcmp_rs2 args)) (fi (fcmp_rs1 args)) 0 (xi (fcmp_rd args)) 83"
| "encode (Flts args) = r_word 80 (fi (fcmp_rs2 args)) (fi (fcmp_rs1 args)) 1 (xi (fcmp_rd args)) 83"
| "encode (Fadds args) = r_word 0 (fi (fr2_rs2 args)) (fi (fr2_rs1 args)) (rm_bits (fr2_rm args)) (fi (fr2_rd args)) 83"
| "encode (Fsubs args) = r_word 4 (fi (fr2_rs2 args)) (fi (fr2_rs1 args)) (rm_bits (fr2_rm args)) (fi (fr2_rd args)) 83"
| "encode (Fmuls args) = r_word 8 (fi (fr2_rs2 args)) (fi (fr2_rs1 args)) (rm_bits (fr2_rm args)) (fi (fr2_rd args)) 83"
| "encode (Fdivs args) = r_word 12 (fi (fr2_rs2 args)) (fi (fr2_rs1 args)) (rm_bits (fr2_rm args)) (fi (fr2_rd args)) 83"
| "encode (Fsqrts args) = r_word 44 0 (fi (fr1_rs1 args)) (rm_bits (fr1_rm args)) (fi (fr1_rd args)) 83"
| "encode (Fmins args) = r_word 20 (fi (fr_rs2 args)) (fi (fr_rs1 args)) 0 (fi (fr_rd args)) 83"
| "encode (Fmaxs args) = r_word 20 (fi (fr_rs2 args)) (fi (fr_rs1 args)) 1 (fi (fr_rd args)) 83"
| "encode (Fmadds args) = r_word (fma_funct7 (fi (fr3_rs3 args)) 0) (fi (fr3_rs2 args)) (fi (fr3_rs1 args)) (rm_bits (fr3_rm args)) (fi (fr3_rd args)) 67"
| "encode (Fmsubs args) = r_word (fma_funct7 (fi (fr3_rs3 args)) 0) (fi (fr3_rs2 args)) (fi (fr3_rs1 args)) (rm_bits (fr3_rm args)) (fi (fr3_rd args)) 71"
| "encode (Fnmsubs args) = r_word (fma_funct7 (fi (fr3_rs3 args)) 0) (fi (fr3_rs2 args)) (fi (fr3_rs1 args)) (rm_bits (fr3_rm args)) (fi (fr3_rd args)) 75"
| "encode (Fnmadds args) = r_word (fma_funct7 (fi (fr3_rs3 args)) 0) (fi (fr3_rs2 args)) (fi (fr3_rs1 args)) (rm_bits (fr3_rm args)) (fi (fr3_rd args)) 79"
| "encode (Flw args) = i_word (fld_imm args) (xi (fld_rs1 args)) 2 (fi (fld_rd args)) 7"
| "encode (Fsw args) = s_word (fst_imm args) (fi (fst_rs2 args)) (xi (fst_rs1 args)) 2 39"
| "encode (Fsgnjs args) = r_word 16 (fi (fr_rs2 args)) (fi (fr_rs1 args)) 0 (fi (fr_rd args)) 83"
| "encode (Fsgnjns args) = r_word 16 (fi (fr_rs2 args)) (fi (fr_rs1 args)) 1 (fi (fr_rd args)) 83"
| "encode (Fsgnjxs args) = r_word 16 (fi (fr_rs2 args)) (fi (fr_rs1 args)) 2 (fi (fr_rd args)) 83"
| "encode (FmvXW args) = r_word 112 0 (fi (fx_rs1 args)) 0 (xi (fx_rd args)) 83"
| "encode (FmvWX args) = r_word 120 0 (xi (xf_rs1 args)) 0 (fi (xf_rd args)) 83"
| "encode (FclassD args) = r_word 113 0 (fi (fx_rs1 args)) 1 (xi (fx_rd args)) 83"
| "encode (Feqd args) = r_word 81 (fi (fcmp_rs2 args)) (fi (fcmp_rs1 args)) 2 (xi (fcmp_rd args)) 83"
| "encode (Fled args) = r_word 81 (fi (fcmp_rs2 args)) (fi (fcmp_rs1 args)) 0 (xi (fcmp_rd args)) 83"
| "encode (Fltd args) = r_word 81 (fi (fcmp_rs2 args)) (fi (fcmp_rs1 args)) 1 (xi (fcmp_rd args)) 83"
| "encode (Faddd args) = r_word 1 (fi (fr2_rs2 args)) (fi (fr2_rs1 args)) (rm_bits (fr2_rm args)) (fi (fr2_rd args)) 83"
| "encode (Fsubd args) = r_word 5 (fi (fr2_rs2 args)) (fi (fr2_rs1 args)) (rm_bits (fr2_rm args)) (fi (fr2_rd args)) 83"
| "encode (Fmuld args) = r_word 9 (fi (fr2_rs2 args)) (fi (fr2_rs1 args)) (rm_bits (fr2_rm args)) (fi (fr2_rd args)) 83"
| "encode (Fdivd args) = r_word 13 (fi (fr2_rs2 args)) (fi (fr2_rs1 args)) (rm_bits (fr2_rm args)) (fi (fr2_rd args)) 83"
| "encode (Fsqrtd args) = r_word 45 0 (fi (fr1_rs1 args)) (rm_bits (fr1_rm args)) (fi (fr1_rd args)) 83"
| "encode (Fmind args) = r_word 21 (fi (fr_rs2 args)) (fi (fr_rs1 args)) 0 (fi (fr_rd args)) 83"
| "encode (Fmaxd args) = r_word 21 (fi (fr_rs2 args)) (fi (fr_rs1 args)) 1 (fi (fr_rd args)) 83"
| "encode (Fmaddd args) = r_word (fma_funct7 (fi (fr3_rs3 args)) 1) (fi (fr3_rs2 args)) (fi (fr3_rs1 args)) (rm_bits (fr3_rm args)) (fi (fr3_rd args)) 67"
| "encode (Fmsubd args) = r_word (fma_funct7 (fi (fr3_rs3 args)) 1) (fi (fr3_rs2 args)) (fi (fr3_rs1 args)) (rm_bits (fr3_rm args)) (fi (fr3_rd args)) 71"
| "encode (Fnmsubd args) = r_word (fma_funct7 (fi (fr3_rs3 args)) 1) (fi (fr3_rs2 args)) (fi (fr3_rs1 args)) (rm_bits (fr3_rm args)) (fi (fr3_rd args)) 75"
| "encode (Fnmaddd args) = r_word (fma_funct7 (fi (fr3_rs3 args)) 1) (fi (fr3_rs2 args)) (fi (fr3_rs1 args)) (rm_bits (fr3_rm args)) (fi (fr3_rd args)) 79"
| "encode (Fld args) = i_word (fld_imm args) (xi (fld_rs1 args)) 3 (fi (fld_rd args)) 7"
| "encode (Fsd args) = s_word (fst_imm args) (fi (fst_rs2 args)) (xi (fst_rs1 args)) 3 39"
| "encode (Fsgnjd args) = r_word 17 (fi (fr_rs2 args)) (fi (fr_rs1 args)) 0 (fi (fr_rd args)) 83"
| "encode (Fsgnjnd args) = r_word 17 (fi (fr_rs2 args)) (fi (fr_rs1 args)) 1 (fi (fr_rd args)) 83"
| "encode (Fsgnjxd args) = r_word 17 (fi (fr_rs2 args)) (fi (fr_rs1 args)) 2 (fi (fr_rd args)) 83"
| "encode (FmvXD args) = r_word 113 0 (fi (fx_rs1 args)) 0 (xi (fx_rd args)) 83"
| "encode (FmvDX args) = r_word 121 0 (xi (xf_rs1 args)) 0 (fi (xf_rd args)) 83"
| "encode (Csrrw args) = csr_word (csr_csr args) (xi (csr_rs1 args)) 1 (xi (csr_rd args))"
| "encode (Csrrs args) = csr_word (csr_csr args) (xi (csr_rs1 args)) 2 (xi (csr_rd args))"
| "encode (Csrrc args) = csr_word (csr_csr args) (xi (csr_rs1 args)) 3 (xi (csr_rd args))"
| "encode (Csrrwi args) = csr_word (csri_csr args) (ucast (csri_imm args)) 5 (xi (csri_rd args))"
| "encode (Csrrsi args) = csr_word (csri_csr args) (ucast (csri_imm args)) 6 (xi (csri_rd args))"
| "encode (Csrrci args) = csr_word (csri_csr args) (ucast (csri_imm args)) 7 (xi (csri_rd args))"
| "encode FenceI = r_word 0 0 0 1 0 15"
| "encode Mret = r_word 24 2 0 0 0 115"
| "encode Sret = r_word 8 2 0 0 0 115"
| "encode Mnret = r_word 56 2 0 0 0 115"
| "encode Wfi = r_word 8 5 0 0 0 115"
| "encode (SFenceVma asid vaddr) = r_word 9 (xi asid) (xi vaddr) 0 0 115"
| "encode (Unknown instr) = instr"
| "encode (UnknownCompressed instr) = ucast instr"

primrec encodable :: "Instr \<Rightarrow> bool" where
  "encodable (Add args) \<longleftrightarrow> True"
| "encodable (Sub args) \<longleftrightarrow> True"
| "encodable (Xor args) \<longleftrightarrow> True"
| "encodable (Or args) \<longleftrightarrow> True"
| "encodable (And args) \<longleftrightarrow> True"
| "encodable (Sll args) \<longleftrightarrow> True"
| "encodable (Srl args) \<longleftrightarrow> True"
| "encodable (Sra args) \<longleftrightarrow> True"
| "encodable (Slt args) \<longleftrightarrow> True"
| "encodable (Sltu args) \<longleftrightarrow> True"
| "encodable (Addw args) \<longleftrightarrow> True"
| "encodable (Subw args) \<longleftrightarrow> True"
| "encodable (Sllw args) \<longleftrightarrow> True"
| "encodable (Srlw args) \<longleftrightarrow> True"
| "encodable (Sraw args) \<longleftrightarrow> True"
| "encodable (Addi args) \<longleftrightarrow> fits 12 (it_imm args)"
| "encodable (Addiw args) \<longleftrightarrow> fits 12 (it_imm args)"
| "encodable (Xori args) \<longleftrightarrow> fits 12 (it_imm args)"
| "encodable (Ori args) \<longleftrightarrow> fits 12 (it_imm args)"
| "encodable (Andi args) \<longleftrightarrow> fits 12 (it_imm args)"
| "encodable (Slli args) \<longleftrightarrow> shamt 0 (it_imm args)"
| "encodable (Srli args) \<longleftrightarrow> shamt 0 (it_imm args)"
| "encodable (Srai args) \<longleftrightarrow> shamt 0x400 (it_imm args)"
| "encodable (Slliw args) \<longleftrightarrow> shamt 0 (it_imm args)"
| "encodable (Srliw args) \<longleftrightarrow> shamt 0 (it_imm args)"
| "encodable (Sraiw args) \<longleftrightarrow> shamt 0x400 (it_imm args)"
| "encodable (Slti args) \<longleftrightarrow> fits 12 (it_imm args)"
| "encodable (Sltiu args) \<longleftrightarrow> fits 12 (it_imm args)"
| "encodable (Lb args) \<longleftrightarrow> fits 12 (it_imm args)"
| "encodable (Lh args) \<longleftrightarrow> fits 12 (it_imm args)"
| "encodable (Lw args) \<longleftrightarrow> fits 12 (it_imm args)"
| "encodable (Lbu args) \<longleftrightarrow> fits 12 (it_imm args)"
| "encodable (Lhu args) \<longleftrightarrow> fits 12 (it_imm args)"
| "encodable (Lwu args) \<longleftrightarrow> fits 12 (it_imm args)"
| "encodable (Ld args) \<longleftrightarrow> fits 12 (it_imm args)"
| "encodable (Fence args) \<longleftrightarrow> True"
| "encodable (FenceTso args) \<longleftrightarrow> True"
| "encodable Ecall \<longleftrightarrow> True"
| "encodable Ebreak \<longleftrightarrow> True"
| "encodable (Sb args) \<longleftrightarrow> fits 12 (sb_imm args)"
| "encodable (Sh args) \<longleftrightarrow> fits 12 (sb_imm args)"
| "encodable (Sw args) \<longleftrightarrow> fits 12 (sb_imm args)"
| "encodable (Sd args) \<longleftrightarrow> fits 12 (sb_imm args)"
| "encodable (Beq args) \<longleftrightarrow> fits 13 (sb_imm args) \<and> even (sb_imm args)"
| "encodable (Bne args) \<longleftrightarrow> fits 13 (sb_imm args) \<and> even (sb_imm args)"
| "encodable (Blt args) \<longleftrightarrow> fits 13 (sb_imm args) \<and> even (sb_imm args)"
| "encodable (Bge args) \<longleftrightarrow> fits 13 (sb_imm args) \<and> even (sb_imm args)"
| "encodable (Bltu args) \<longleftrightarrow> fits 13 (sb_imm args) \<and> even (sb_imm args)"
| "encodable (Bgeu args) \<longleftrightarrow> fits 13 (sb_imm args) \<and> even (sb_imm args)"
| "encodable (Lui args) \<longleftrightarrow> fits 32 (uj_imm args) \<and> take_bit 12 (uj_imm args) = 0"
| "encodable (Auipc args) \<longleftrightarrow> fits 32 (uj_imm args) \<and> take_bit 12 (uj_imm args) = 0"
| "encodable (Jal args) \<longleftrightarrow> fits 21 (uj_imm args) \<and> even (uj_imm args)"
| "encodable (Jalr args) \<longleftrightarrow> fits 12 (it_imm args)"
| "encodable (Amoswapw args) \<longleftrightarrow> True"
| "encodable (Amoaddw args) \<longleftrightarrow> True"
| "encodable (Amoxorw args) \<longleftrightarrow> True"
| "encodable (Amoandw args) \<longleftrightarrow> True"
| "encodable (Amoorw args) \<longleftrightarrow> True"
| "encodable (Amominw args) \<longleftrightarrow> True"
| "encodable (Amomaxw args) \<longleftrightarrow> True"
| "encodable (Amominuw args) \<longleftrightarrow> True"
| "encodable (Amomaxuw args) \<longleftrightarrow> True"
| "encodable (Rem args) \<longleftrightarrow> True"
| "encodable (Remu args) \<longleftrightarrow> True"
| "encodable (Remw args) \<longleftrightarrow> True"
| "encodable (Remuw args) \<longleftrightarrow> True"
| "encodable (Div args) \<longleftrightarrow> True"
| "encodable (Divu args) \<longleftrightarrow> True"
| "encodable (Divw args) \<longleftrightarrow> True"
| "encodable (Divuw args) \<longleftrightarrow> True"
| "encodable (Mul args) \<longleftrightarrow> True"
| "encodable (Mulh args) \<longleftrightarrow> True"
| "encodable (Mulhsu args) \<longleftrightarrow> True"
| "encodable (Mulhu args) \<longleftrightarrow> True"
| "encodable (Mulw args) \<longleftrightarrow> True"
| "encodable (FclassS args) \<longleftrightarrow> True"
| "encodable (Feqs args) \<longleftrightarrow> True"
| "encodable (Fles args) \<longleftrightarrow> True"
| "encodable (Flts args) \<longleftrightarrow> True"
| "encodable (Fadds args) \<longleftrightarrow> True"
| "encodable (Fsubs args) \<longleftrightarrow> True"
| "encodable (Fmuls args) \<longleftrightarrow> True"
| "encodable (Fdivs args) \<longleftrightarrow> True"
| "encodable (Fsqrts args) \<longleftrightarrow> True"
| "encodable (Fmins args) \<longleftrightarrow> True"
| "encodable (Fmaxs args) \<longleftrightarrow> True"
| "encodable (Fmadds args) \<longleftrightarrow> True"
| "encodable (Fmsubs args) \<longleftrightarrow> True"
| "encodable (Fnmsubs args) \<longleftrightarrow> True"
| "encodable (Fnmadds args) \<longleftrightarrow> True"
| "encodable (Flw args) \<longleftrightarrow> fits 12 (fld_imm args)"
| "encodable (Fsw args) \<longleftrightarrow> fits 12 (fst_imm args)"
| "encodable (Fsgnjs args) \<longleftrightarrow> True"
| "encodable (Fsgnjns args) \<longleftrightarrow> True"
| "encodable (Fsgnjxs args) \<longleftrightarrow> True"
| "encodable (FmvXW args) \<longleftrightarrow> True"
| "encodable (FmvWX args) \<longleftrightarrow> True"
| "encodable (FclassD args) \<longleftrightarrow> True"
| "encodable (Feqd args) \<longleftrightarrow> True"
| "encodable (Fled args) \<longleftrightarrow> True"
| "encodable (Fltd args) \<longleftrightarrow> True"
| "encodable (Faddd args) \<longleftrightarrow> True"
| "encodable (Fsubd args) \<longleftrightarrow> True"
| "encodable (Fmuld args) \<longleftrightarrow> True"
| "encodable (Fdivd args) \<longleftrightarrow> True"
| "encodable (Fsqrtd args) \<longleftrightarrow> True"
| "encodable (Fmind args) \<longleftrightarrow> True"
| "encodable (Fmaxd args) \<longleftrightarrow> True"
| "encodable (Fmaddd args) \<longleftrightarrow> True"
| "encodable (Fmsubd args) \<longleftrightarrow> True"
| "encodable (Fnmsubd args) \<longleftrightarrow> True"
| "encodable (Fnmaddd args) \<longleftrightarrow> True"
| "encodable (Fld args) \<longleftrightarrow> fits 12 (fld_imm args)"
| "encodable (Fsd args) \<longleftrightarrow> fits 12 (fst_imm args)"
| "encodable (Fsgnjd args) \<longleftrightarrow> True"
| "encodable (Fsgnjnd args) \<longleftrightarrow> True"
| "encodable (Fsgnjxd args) \<longleftrightarrow> True"
| "encodable (FmvXD args) \<longleftrightarrow> True"
| "encodable (FmvDX args) \<longleftrightarrow> True"
| "encodable (Csrrw args) \<longleftrightarrow> csr_csr args \<in> set CSRegister_iter"
| "encodable (Csrrs args) \<longleftrightarrow> csr_csr args \<in> set CSRegister_iter"
| "encodable (Csrrc args) \<longleftrightarrow> csr_csr args \<in> set CSRegister_iter"
| "encodable (Csrrwi args) \<longleftrightarrow> csri_csr args \<in> set CSRegister_iter \<and> csri_imm args < 32"
| "encodable (Csrrsi args) \<longleftrightarrow> csri_csr args \<in> set CSRegister_iter \<and> csri_imm args < 32"
| "encodable (Csrrci args) \<longleftrightarrow> csri_csr args \<in> set CSRegister_iter \<and> csri_imm args < 32"
| "encodable FenceI \<longleftrightarrow> True"
| "encodable Mret \<longleftrightarrow> True"
| "encodable Sret \<longleftrightarrow> True"
| "encodable Mnret \<longleftrightarrow> True"
| "encodable Wfi \<longleftrightarrow> True"
| "encodable (SFenceVma asid vaddr) \<longleftrightarrow> True"
| "encodable (Unknown instr) \<longleftrightarrow> False"
| "encodable (UnknownCompressed instr) \<longleftrightarrow> False"

section \<open>Fields of an encoded word\<close>

lemma bit_r_word:
  "bit (r_word fn7 rs2 rs1 fn3 rd opc) k \<longleftrightarrow>
     (if k < 7 then bit opc k else if k < 12 then bit rd (k - 7) else if k < 15 then bit fn3 (k - 12)
      else if k < 20 then bit rs1 (k - 15) else if k < 25 then bit rs2 (k - 20)
      else k < 32 \<and> bit fn7 (k - 25))"
  by (auto simp: r_word_def bit_or_iff bit_push_bit_iff bit_take_bit_iff)

lemma bits_r_word:
  "bits (r_word fn7 rs2 rs1 fn3 rd opc) 0 7 = take_bit 7 opc"
  "bits (r_word fn7 rs2 rs1 fn3 rd opc) 7 5 = take_bit 5 rd"
  "bits (r_word fn7 rs2 rs1 fn3 rd opc) 12 3 = take_bit 3 fn3"
  "bits (r_word fn7 rs2 rs1 fn3 rd opc) 15 5 = take_bit 5 rs1"
  "bits (r_word fn7 rs2 rs1 fn3 rd opc) 20 5 = take_bit 5 rs2"
  "bits (r_word fn7 rs2 rs1 fn3 rd opc) 25 7 = take_bit 7 fn7"
  "bits (r_word fn7 rs2 rs1 fn3 rd opc) 27 5 = take_bit 5 (drop_bit 2 fn7)"
  "bits (r_word fn7 rs2 rs1 fn3 rd opc) 26 6 = take_bit 6 (drop_bit 1 fn7)"
  "bits (r_word fn7 rs2 rs1 fn3 rd opc) 28 4 = take_bit 4 (drop_bit 3 fn7)"
  "bits (r_word fn7 rs2 rs1 fn3 rd opc) 25 2 = take_bit 2 fn7"
  "bits (r_word fn7 rs2 rs1 fn3 rd opc) 20 12 = take_bit 5 rs2 OR push_bit 5 (take_bit 7 fn7)"
  by (rule bit_word_eqI;
      auto simp: bit_bits bit_r_word bit_take_bit_iff bit_drop_bit_eq bit_or_iff bit_push_bit_iff)+

lemma instr_bit_r_word:
  "instr_bit (r_word fn7 rs2 rs1 fn3 rd opc) k \<longleftrightarrow> bit (r_word fn7 rs2 rs1 fn3 rd opc) k"
  by (rule instr_bit_eq)

lemma parse_xi [simp]: "parse_xregister (take_bit 5 (xi r)) = Some r"
  by (cases r) (simp_all add: xi_def parse_xregister_def)

lemma parse_fi [simp]: "parse_fregister (take_bit 5 (fi r)) = Some r"
  by (cases r) (simp_all add: fi_def parse_fregister_def)

lemma from_rm_bits [simp]: "from_rm (take_bit 3 (rm_bits m)) = Some m"
proof (cases m)
  case (Static r)
  then show ?thesis by (cases r) (simp_all add: from_rm_def rounding_try_from_def)
qed (simp add: from_rm_def)

section \<open>Immediates of an encoded word\<close>

lemma bit_imm_bits: "bit (imm_bits imm pos n) k \<longleftrightarrow> k < n \<and> pos + k < 32 \<and> bit imm (pos + k)"
  by (auto simp: imm_bits_def bit_take_bit_iff bit_drop_bit_eq bit_unsigned_iff)

lemma fits_bit:
  assumes "fits n imm" "0 < n" "n \<le> 64" "n - 1 \<le> k" "k < 64"
  shows "bit imm k \<longleftrightarrow> bit imm (n - 1)"
proof -
  have "signed_take_bit (n - 1) (sint imm) = sint imm"
    using assms(1) by (simp add: fits_def signed_take_bit_int_eq_self_iff)
  then have "bit (sint imm) k = bit (sint imm) (min k (n - 1))"
    using bit_signed_take_bit_iff [of "n - 1" "sint imm" k] by (simp add: min.commute)
  then show ?thesis
    using assms by (simp add: bit_sint_iff min_def not_le)
qed

lemma mask_constants:
  "(0xFFF00000 :: u32) = push_bit 20 (mask 12)" "(0xFE000000 :: u32) = push_bit 25 (mask 7)"
  "(0x00000F80 :: u32) = push_bit 7 (mask 5)" "(0x80000000 :: u32) = push_bit 31 (mask 1)"
  "(0x00000080 :: u32) = push_bit 7 (mask 1)" "(0x7E000000 :: u32) = push_bit 25 (mask 6)"
  "(0x00000F00 :: u32) = push_bit 8 (mask 4)" "(0xFFFFF000 :: u32) = push_bit 12 (mask 20)"
  "(0x000FF000 :: u32) = push_bit 12 (mask 8)" "(0x00100000 :: u32) = push_bit 20 (mask 1)"
  "(0x7FE00000 :: u32) = push_bit 21 (mask 10)"
  by (simp_all add: mask_eq_exp_minus_1)

lemma bit_field: "bit (w AND push_bit pos (mask n) :: u32) k \<longleftrightarrow> pos \<le> k \<and> k < pos + n \<and> bit w k"
  by (auto simp: bit_and_iff bit_push_bit_iff bit_mask_iff dest: bit_imp_le_length)

lemmas imm_simps = bit_signed_iff bit_signed_drop_bit_iff bit_field bit_or_iff bit_push_bit_iff

lemma bit_i_imm: "bit (i_imm w) k \<longleftrightarrow> k < 64 \<and> bit w (min 31 (20 + k))"
  unfolding i_imm_def mask_constants by (cases "k = 11") (auto simp: imm_simps min_def)

lemma bit_s_imm: "bit (s_imm w) k \<longleftrightarrow> k < 64 \<and> bit w (if k < 5 then 7 + k else min 31 (20 + k))"
  unfolding s_imm_def mask_constants Let_def by (cases "k = 11") (auto simp: imm_simps min_def)

lemma bit_b_imm:
  "bit (b_imm w) k \<longleftrightarrow> k < 64 \<and> k \<noteq> 0 \<and>
     bit w (if k < 5 then 7 + k else if k < 11 then 20 + k else if k = 11 then 7 else 31)"
  unfolding b_imm_def mask_constants Let_def imm_simps by (cases "k = 11"; cases "k = 12") (auto simp: imm_simps min_def)

lemma bit_u_imm: "bit (u_imm w) k \<longleftrightarrow> k < 64 \<and> 12 \<le> k \<and> bit w (min 31 k)"
  unfolding u_imm_def mask_constants by (auto simp: imm_simps min_def)

lemma bit_j_imm:
  "bit (j_imm w) k \<longleftrightarrow> k < 64 \<and> k \<noteq> 0 \<and>
     bit w (if k < 11 then 20 + k else if k = 11 then 20 else if k < 20 then k else 31)"
  unfolding j_imm_def mask_constants Let_def imm_simps by (cases "k = 11"; cases "k = 20") (auto simp: imm_simps min_def)

text \<open>Sign extension from position \<open>n\<close>, the form in which the range of an immediate is used.\<close>

definition sext_from :: "nat \<Rightarrow> i64 \<Rightarrow> bool" where
  "sext_from n imm \<longleftrightarrow> (\<forall>k. n \<le> k \<longrightarrow> k < 64 \<longrightarrow> bit imm k = bit imm n)"

lemma fits_sext: "fits n imm \<Longrightarrow> 0 < n \<Longrightarrow> n \<le> 64 \<Longrightarrow> sext_from (n - 1) imm"
  unfolding sext_from_def by (intro allI impI fits_bit)

lemma sext_fromD: "sext_from n imm \<Longrightarrow> k < 64 \<Longrightarrow> n \<le> k \<Longrightarrow> bit imm k = bit imm n"
  unfolding sext_from_def by blast

lemma shamt_bit: "shamt code imm \<Longrightarrow> 6 \<le> k \<Longrightarrow> k < 64 \<Longrightarrow> bit imm k = bit code k"
  by (auto simp: shamt_def bit_and_iff bit_not_iff bit_mask_iff)

lemma bit_single:
  "bit (0x400 :: int) k \<longleftrightarrow> k = 10" "bit (0x20 :: int) k \<longleftrightarrow> k = 5"
proof -
  have "(0x400 :: int) = push_bit 10 1" "(0x20 :: int) = push_bit 5 1" by simp_all
  then show "bit (0x400 :: int) k \<longleftrightarrow> k = 10" "bit (0x20 :: int) k \<longleftrightarrow> k = 5"
    by (simp_all only: bit_push_bit_iff bit_1_iff) auto
qed

lemma shamt_sext:
  assumes "shamt code imm" "code = 0 \<or> code = 0x400"
  shows "sext_from 11 imm"
  unfolding sext_from_def
proof (intro allI impI)
  fix k :: nat assume "11 \<le> k" "k < 64"
  with shamt_bit [OF assms(1), of k] shamt_bit [OF assms(1), of 11] assms(2)
  show "bit imm k = bit imm 11" by (auto simp: bit_single)
qed

lemma i_imm_i_word: "sext_from 11 imm \<Longrightarrow> i_imm (i_word imm rs1 fn3 rd opc) = imm"
proof (rule bit_word_eqI)
  fix k assume "sext_from 11 imm" "k < LENGTH(64)"
  then have "sext_from 11 imm" "k < 64" by simp_all
  from sext_fromD [OF this] this(2) show "bit (i_imm (i_word imm rs1 fn3 rd opc)) k = bit imm k"
    by (auto simp: bit_i_imm i_word_def bit_r_word bit_imm_bits min_def)
qed

lemma s_imm_s_word: "sext_from 11 imm \<Longrightarrow> s_imm (s_word imm rs2 rs1 fn3 opc) = imm"
proof (rule bit_word_eqI)
  fix k assume "sext_from 11 imm" "k < LENGTH(64)"
  then have "sext_from 11 imm" "k < 64" by simp_all
  from sext_fromD [OF this] this(2) show "bit (s_imm (s_word imm rs2 rs1 fn3 opc)) k = bit imm k"
    by (auto simp: bit_s_imm s_word_def bit_r_word bit_imm_bits min_def)
qed

lemma b_imm_b_word:
  assumes "sext_from 12 imm" "even imm"
  shows "b_imm (b_word imm rs2 rs1 fn3 opc) = imm"
proof (rule bit_word_eqI)
  fix k assume "k < LENGTH(64)"
  then have k: "k < 64" by simp
  then show "bit (b_imm (b_word imm rs2 rs1 fn3 opc)) k = bit imm k"
    using sext_fromD [OF assms(1) k] assms(2)
    unfolding bit_b_imm b_word_def bit_r_word bit_or_iff bit_push_bit_iff bit_imm_bits
    by (cases "k = 0"; cases "k = 11") (auto simp: bit_0)
qed

lemma u_imm_u_word:
  assumes "sext_from 31 imm" "take_bit 12 imm = 0"
  shows "u_imm (u_word imm rd opc) = imm"
proof (rule bit_word_eqI)
  fix k assume "k < LENGTH(64)"
  then have k: "k < 64" by simp
  have "\<not> bit imm k" if "k < 12"
    using arg_cong [OF assms(2), of "\<lambda>w. bit w k"] that by (simp add: bit_take_bit_iff)
  with k sext_fromD [OF assms(1) k] show "bit (u_imm (u_word imm rd opc)) k = bit imm k"
    by (auto simp: bit_u_imm u_word_def bit_r_word bit_imm_bits min_def)
qed

lemma j_imm_j_word:
  assumes "sext_from 20 imm" "even imm"
  shows "j_imm (j_word imm rd opc) = imm"
proof (rule bit_word_eqI)
  fix k assume "k < LENGTH(64)"
  then have k: "k < 64" by simp
  then show "bit (j_imm (j_word imm rd opc)) k = bit imm k"
    using sext_fromD [OF assms(1) k] assms(2)
    unfolding bit_j_imm j_word_def bit_r_word bit_or_iff bit_push_bit_iff bit_imm_bits
    by (cases "k = 0"; cases "k = 11") (auto simp: bit_0)
qed

lemma shift_code:
  "shamt 0 imm \<Longrightarrow> push_bit 1 (take_bit 6 (drop_bit 1 (imm_bits imm 5 7))) = 0"
  "shamt 0x400 imm \<Longrightarrow> push_bit 1 (take_bit 6 (drop_bit 1 (imm_bits imm 5 7))) = 0x20"
proof -
  have b: "bit (push_bit 1 (take_bit 6 (drop_bit 1 (imm_bits imm 5 7)))) k \<longleftrightarrow>
    1 \<le> k \<and> k < 7 \<and> bit imm (5 + k)" for k
    unfolding bit_push_bit_iff bit_take_bit_iff bit_drop_bit_eq o_def bit_imm_bits by auto
  show "shamt 0 imm \<Longrightarrow> push_bit 1 (take_bit 6 (drop_bit 1 (imm_bits imm 5 7))) = 0"
    by (rule bit_word_eqI) (simp only: b, auto simp: shamt_bit)
  show "shamt 0x400 imm \<Longrightarrow> push_bit 1 (take_bit 6 (drop_bit 1 (imm_bits imm 5 7))) = 0x20"
    by (rule bit_word_eqI) (simp only: b, auto simp: shamt_bit bit_single)
qed

lemma csr_bits_csr_word:
  assumes "csr \<in> set CSRegister_iter"
  shows "instr_csr (csr_word csr rs1 fn3 rd) = Some csr"
proof -
  have lt: "csr < 4096" using CSRegister_iter_bound assms by blast
  have "bits (csr_word csr rs1 fn3 rd) 20 12 = take_bit 12 (of_nat csr)"
    unfolding csr_word_def bits_r_word
    by (rule bit_word_eqI) (auto simp: bit_or_iff bit_push_bit_iff bit_take_bit_iff bit_drop_bit_eq)
  moreover have "unat (take_bit 12 (of_nat csr :: u32)) = csr"
    using lt by (simp add: unsigned_take_bit_eq unsigned_of_nat take_bit_nat_eq_self)
  ultimately show ?thesis
    using assms by (simp add: instr_csr_def try_parse_csregister_def Let_def)
qed

section \<open>Decoding of an encoded word\<close>

lemmas extractor_defs =
  instr_opcode_def instr_funct3_def instr_funct5_def instr_funct7_def instr_rd_def instr_rd_f_def
  instr_rs1_bits_def instr_rs1_def instr_rs1_f_def instr_rs2_bits_def instr_rs2_def instr_rs2_f_def
  instr_rs3_bits_def instr_rs3_f_def instr_imm_11_6_def instr_fm_def instr_rm_def instr_fmt_def
  instr_width_field_def

lemma r_word_fields:
  "instr_opcode (r_word fn7 rs2 rs1 fn3 rd opc) = take_bit 7 opc"
  "instr_funct3 (r_word fn7 rs2 rs1 fn3 rd opc) = take_bit 3 fn3"
  "instr_funct5 (r_word fn7 rs2 rs1 fn3 rd opc) = take_bit 5 (drop_bit 2 fn7)"
  "instr_funct7 (r_word fn7 rs2 rs1 fn3 rd opc) = take_bit 7 fn7"
  "instr_rd (r_word fn7 rs2 rs1 fn3 rd opc) = the (parse_xregister (take_bit 5 rd))"
  "instr_rd_f (r_word fn7 rs2 rs1 fn3 rd opc) = the (parse_fregister (take_bit 5 rd))"
  "instr_rs1_bits (r_word fn7 rs2 rs1 fn3 rd opc) = take_bit 5 rs1"
  "instr_rs1 (r_word fn7 rs2 rs1 fn3 rd opc) = the (parse_xregister (take_bit 5 rs1))"
  "instr_rs1_f (r_word fn7 rs2 rs1 fn3 rd opc) = the (parse_fregister (take_bit 5 rs1))"
  "instr_rs2_bits (r_word fn7 rs2 rs1 fn3 rd opc) = take_bit 5 rs2"
  "instr_rs2 (r_word fn7 rs2 rs1 fn3 rd opc) = the (parse_xregister (take_bit 5 rs2))"
  "instr_rs2_f (r_word fn7 rs2 rs1 fn3 rd opc) = the (parse_fregister (take_bit 5 rs2))"
  "instr_rs3_f (r_word fn7 rs2 rs1 fn3 rd opc) = the (parse_fregister (take_bit 5 (drop_bit 2 fn7)))"
  "instr_fm (r_word fn7 rs2 rs1 fn3 rd opc) = take_bit 4 (drop_bit 3 fn7)"
  "instr_rm (r_word fn7 rs2 rs1 fn3 rd opc) = take_bit 3 fn3"
  "instr_fmt (r_word fn7 rs2 rs1 fn3 rd opc) = take_bit 2 fn7"
  by (simp_all only: extractor_defs bits_r_word)

lemma i_word_fields:
  "instr_opcode (i_word imm rs1 fn3 rd opc) = take_bit 7 opc"
  "instr_funct3 (i_word imm rs1 fn3 rd opc) = take_bit 3 fn3"
  "instr_width_field (i_word imm rs1 fn3 rd opc) = take_bit 3 fn3"
  "instr_rd (i_word imm rs1 fn3 rd opc) = the (parse_xregister (take_bit 5 rd))"
  "instr_rd_f (i_word imm rs1 fn3 rd opc) = the (parse_fregister (take_bit 5 rd))"
  "instr_rs1 (i_word imm rs1 fn3 rd opc) = the (parse_xregister (take_bit 5 rs1))"
  "shamt 0 imm \<Longrightarrow> instr_imm_11_6 (i_word imm rs1 fn3 rd opc) = 0"
  "shamt 0x400 imm \<Longrightarrow> instr_imm_11_6 (i_word imm rs1 fn3 rd opc) = 0x20"
  by (simp_all only: extractor_defs i_word_def bits_r_word shift_code)

lemma s_word_fields:
  "instr_opcode (s_word imm rs2 rs1 fn3 opc) = take_bit 7 opc"
  "instr_funct3 (s_word imm rs2 rs1 fn3 opc) = take_bit 3 fn3"
  "instr_width_field (s_word imm rs2 rs1 fn3 opc) = take_bit 3 fn3"
  "instr_rs1 (s_word imm rs2 rs1 fn3 opc) = the (parse_xregister (take_bit 5 rs1))"
  "instr_rs2 (s_word imm rs2 rs1 fn3 opc) = the (parse_xregister (take_bit 5 rs2))"
  "instr_rs2_f (s_word imm rs2 rs1 fn3 opc) = the (parse_fregister (take_bit 5 rs2))"
  "instr_opcode (b_word imm rs2 rs1 fn3 opc) = take_bit 7 opc"
  "instr_funct3 (b_word imm rs2 rs1 fn3 opc) = take_bit 3 fn3"
  "instr_rs1 (b_word imm rs2 rs1 fn3 opc) = the (parse_xregister (take_bit 5 rs1))"
  "instr_rs2 (b_word imm rs2 rs1 fn3 opc) = the (parse_xregister (take_bit 5 rs2))"
  by (simp_all only: extractor_defs s_word_def b_word_def bits_r_word)

lemma u_word_fields:
  "instr_opcode (u_word imm rd opc) = take_bit 7 opc"
  "instr_rd (u_word imm rd opc) = the (parse_xregister (take_bit 5 rd))"
  "instr_opcode (j_word imm rd opc) = take_bit 7 opc"
  "instr_rd (j_word imm rd opc) = the (parse_xregister (take_bit 5 rd))"
  by (simp_all only: extractor_defs u_word_def j_word_def bits_r_word)

lemma csr_word_fields:
  "instr_opcode (csr_word csr rs1 fn3 rd) = 115"
  "instr_funct3 (csr_word csr rs1 fn3 rd) = take_bit 3 fn3"
  "instr_rd (csr_word csr rs1 fn3 rd) = the (parse_xregister (take_bit 5 rd))"
  "instr_rs1 (csr_word csr rs1 fn3 rd) = the (parse_xregister (take_bit 5 rs1))"
  "bits (csr_word csr rs1 fn3 rd) 15 5 = take_bit 5 rs1"
  by (simp_all add: csr_word_def extractor_defs bits_r_word)

lemma bit_flag: "bit (flag b n) k \<longleftrightarrow> b \<and> n < 32 \<and> k = n"
proof -
  have "bit (push_bit n 1 :: u32) k \<longleftrightarrow> n < 32 \<and> k = n"
    unfolding bit_push_bit_iff bit_1_iff by (auto simp: possible_bit_def)
  then show ?thesis by (simp add: flag_def)
qed

lemma funct7_parts:
  "take_bit 5 (drop_bit 2 (amo_funct7 fn5 aq rl)) = take_bit 5 fn5"
  "take_bit 5 (drop_bit 2 (fma_funct7 rs3 0)) = take_bit 5 rs3"
  "take_bit 5 (drop_bit 2 (fma_funct7 rs3 1)) = take_bit 5 rs3"
  "take_bit 2 (fma_funct7 rs3 0) = 0" "take_bit 2 (fma_funct7 rs3 1) = 1"
  "take_bit 4 (drop_bit 3 (fence_funct7 fm pred)) = take_bit 4 fm"
  by (rule bit_word_eqI;
      simp only: amo_funct7_def fma_funct7_def fence_funct7_def bit_or_iff bit_push_bit_iff
        bit_take_bit_iff bit_drop_bit_eq o_def bit_flag bit_1_iff bit_0_eq bot_fun_def bot_bool_def;
      auto)+

lemma fence_bits:
  assumes "w = r_word (fence_funct7 fm pred) (fence_rs2 pred succ) rs1 fn3 rd opc"
  shows "instr_bit w 27 = fs_i pred" "instr_bit w 26 = fs_o pred" "instr_bit w 25 = fs_r pred"
    "instr_bit w 24 = fs_w pred" "instr_bit w 23 = fs_i succ" "instr_bit w 22 = fs_o succ"
    "instr_bit w 21 = fs_r succ" "instr_bit w 20 = fs_w succ"
  unfolding assms instr_bit_eq bit_r_word fence_funct7_def fence_rs2_def bit_or_iff bit_push_bit_iff bit_flag
  by auto

lemma amo_bits:
  assumes "w = r_word (amo_funct7 fn5 aq rl) rs2 rs1 fn3 rd opc"
  shows "instr_bit w 26 = aq" "instr_bit w 25 = rl"
  unfolding assms instr_bit_eq bit_r_word amo_funct7_def bit_or_iff bit_push_bit_iff bit_flag
  by auto

lemma csr_imm_bits: "imm < 32 \<Longrightarrow> ucast (take_bit 5 (ucast (imm :: i64) :: u32)) = imm"
proof -
  assume "imm < 32"
  then have "imm < 2 ^ 5" by simp
  then have "bit imm k \<Longrightarrow> k < 5" for k by (rule bit_less_pow)
  then show ?thesis
    by (intro bit_word_eqI) (fastforce simp: bit_unsigned_iff bit_take_bit_iff)
qed

lemmas encode_fields = r_word_fields i_word_fields s_word_fields u_word_fields csr_word_fields
  funct7_parts fence_bits [OF refl] amo_bits [OF refl] csr_bits_csr_word csr_imm_bits
  i_imm_i_word s_imm_s_word b_imm_b_word u_imm_u_word j_imm_j_word shamt_sext

lemmas imm_ranges = fits_sext [of 12, simplified] fits_sext [of 13, simplified]
  fits_sext [of 21, simplified] fits_sext [of 32, simplified]

lemmas construct_defs = r_instr_def i_instr_def s_instr_def b_instr_def u_instr_def j_instr_def
  fl_instr_def fs_instr_def f_cmp_instr_def f_r_instr_def f_r_rm_1_instr_def f_r_rm_2_instr_def
  f_r_rm_3_instr_def fence_instr_def amo_instr_def csr_instr_def csri_instr_def fl_imm_def fs_imm_def

lemmas arm_defs = parse_arith_def parse_arith_w_def parse_arith_i_def parse_load_def
  parse_arith_iw_def parse_synch_def parse_sys_def parse_amo_def parse_store_def parse_branch_def
  parse_fp_s_def parse_fp_d_def parse_fp_def parse_fmadd_def parse_fmsub_def parse_fnmsub_def
  parse_fnmadd_def parse_fp_load_def parse_fp_store_def parse_jalr_def

lemma decode_encode:
  assumes "encodable i"
  shows "parse_uncompressed_instruction (encode i) = i"
  using assms
  by (cases i; simp add: parse_uncompressed_instruction_def Let_def encode_fields arm_defs
      construct_defs imm_ranges)

lemma encode_low_bits:
  assumes "encodable i"
  shows "ucast (encode i) AND (3 :: u16) = 3"
proof -
  have three: "(3 :: u16) = mask 2" by (simp add: mask_eq_exp_minus_1)
  have *: "ucast w AND (3 :: u16) = 3" if "take_bit 2 (instr_opcode w) = 3" for w
  proof -
    have "ucast w AND (3 :: u16) = ucast (take_bit 2 (instr_opcode w))"
      unfolding instr_opcode_def three
      by (rule bit_word_eqI)
         (auto simp: bit_and_iff bit_unsigned_iff bit_bits bit_take_bit_iff bit_mask_iff)
    then show ?thesis using that by simp
  qed
  show ?thesis
    using assms by (intro *) (cases i; simp add: encode_fields)
qed

lemma width_constructed:
  "(\<And>a. instr_width (C1 a) = 4) \<Longrightarrow> instr_width (r_instr C1 w) = 4"
  "(\<And>a. instr_width (C2 a) = 4) \<Longrightarrow> instr_width (i_instr C2 w) = 4"
  "(\<And>a. instr_width (C3 a) = 4) \<Longrightarrow> instr_width (s_instr C3 w) = 4"
  "(\<And>a. instr_width (C3 a) = 4) \<Longrightarrow> instr_width (b_instr C3 w) = 4"
  "(\<And>a. instr_width (C4 a) = 4) \<Longrightarrow> instr_width (u_instr C4 w) = 4"
  "(\<And>a. instr_width (C4 a) = 4) \<Longrightarrow> instr_width (j_instr C4 w) = 4"
  "(\<And>a. instr_width (C5 a) = 4) \<Longrightarrow> instr_width (fl_instr C5 w) = 4"
  "(\<And>a. instr_width (C6 a) = 4) \<Longrightarrow> instr_width (fs_instr C6 w) = 4"
  "(\<And>a. instr_width (C7 a) = 4) \<Longrightarrow> instr_width (f_cmp_instr C7 w r) = 4"
  "(\<And>a. instr_width (C8 a) = 4) \<Longrightarrow> instr_width (f_r_instr C8 w r) = 4"
  "(\<And>a. instr_width (C9 a) = 4) \<Longrightarrow> instr_width (f_r_rm_1_instr C9 w r) = 4"
  "(\<And>a. instr_width (C10 a) = 4) \<Longrightarrow> instr_width (f_r_rm_2_instr C10 w r m) = 4"
  "(\<And>a. instr_width (C11 a) = 4) \<Longrightarrow> instr_width (f_r_rm_3_instr C11 w) = 4"
  "(\<And>a. instr_width (C12 a) = 4) \<Longrightarrow> instr_width (fence_instr C12 w) = 4"
  "(\<And>a. instr_width (C13 a) = 4) \<Longrightarrow> instr_width (amo_instr C13 w) = 4"
  "(\<And>a. instr_width (C14 a) = 4) \<Longrightarrow> instr_width (csr_instr C14 w) = 4"
  "(\<And>a. instr_width (C15 a) = 4) \<Longrightarrow> instr_width (csri_instr C15 w) = 4"
  by (simp_all add: construct_defs split: option.split)

lemma width_arms:
  "instr_width (parse_arith w) = 4"
  "instr_width (parse_arith_w w) = 4"
  "instr_width (parse_arith_i w) = 4"
  "instr_width (parse_load w) = 4"
  "instr_width (parse_arith_iw w) = 4"
  "instr_width (parse_synch w) = 4"
  "instr_width (parse_sys w) = 4"
  "instr_width (parse_amo w) = 4"
  "instr_width (parse_store w) = 4"
  "instr_width (parse_branch w) = 4"
  "instr_width (parse_fp_s w) = 4"
  "instr_width (parse_fp_d w) = 4"
  "instr_width (parse_fmadd w) = 4"
  "instr_width (parse_fmsub w) = 4"
  "instr_width (parse_fnmsub w) = 4"
  "instr_width (parse_fnmadd w) = 4"
  "instr_width (parse_fp_load w) = 4"
  "instr_width (parse_fp_store w) = 4"
  "instr_width (parse_jalr w) = 4"
  by (simp_all only: arm_defs Let_def if_distrib [of instr_width] width_constructed instr_width.simps if_cancel)

lemma width_uncompressed: "instr_width (parse_uncompressed_instruction w) = 4"
  by (simp only: parse_uncompressed_instruction_def Let_def if_distrib [of instr_width] width_arms
      width_constructed instr_width.simps parse_fp_def if_cancel)

section \<open>The properties\<close>

text \<open>
  C3: The decoder inverts the encoder: every instruction other than the two unknown ones, with any
  registers, an immediate in the range of its format and a known control register, is recovered
  from its 32-bit encoding.
\<close>

theorem parse_encode:
  assumes "encodable i"
  shows "parse_uncompressed_instruction (encode i) = i"
  using assms by (rule decode_encode)

theorem parse_encode_witness:
  "encode (Beq \<lparr>sb_rs1 = x5, sb_rs2 = x31, sb_imm = -4096\<rparr>) = 0x81F28063 \<and>
   parse_uncompressed_instruction 0x81F28063 = Beq \<lparr>sb_rs1 = x5, sb_rs2 = x31, sb_imm = -4096\<rparr>"
proof -
  have e: "encode (Beq \<lparr>sb_rs1 = x5, sb_rs2 = x31, sb_imm = -4096\<rparr>) = 0x81F28063"
    by (simp add: b_word_def r_word_def imm_bits_def xi_def)
  then show ?thesis
    using parse_encode [of "Beq \<lparr>sb_rs1 = x5, sb_rs2 = x31, sb_imm = -4096\<rparr>"] by (simp add: fits_def)
qed

text \<open>
  C31: The width reported for a decoded instruction is the number of bytes the decoder consumed: two
  when the low bits of the first half word announce a compressed instruction, in which case the
  second half word is not requested, and four otherwise; decoding fails only if reading the second
  half word fails.
\<close>

theorem parse_width:
  "(bytes AND 3 \<noteq> 3 \<longrightarrow> (\<exists>i. parse bytes more_bytes = Inr i \<and> instr_width i = 2)) \<and>
   (bytes AND 3 = 3 \<longrightarrow>
      (\<forall>e. more_bytes () = Inl e \<longrightarrow> parse bytes more_bytes = Inl e) \<and>
      (\<forall>upper. more_bytes () = Inr upper \<longrightarrow>
         (\<exists>i. parse bytes more_bytes = Inr i \<and> instr_width i = 4)))"
  by (auto simp: parse_def parse_compressed_instruction_def width_uncompressed Let_def)

theorem parse_width_witness:
  "\<exists>i. parse (0x0001 :: u16) (\<lambda>_. Inl OutOfBounds) = Inr i \<and> instr_width i = 2"
  using parse_width [of "0x0001" "\<lambda>_. Inl OutOfBounds"] by simp

definition assemble :: "Instr list \<Rightarrow> u8 list" where
  "assemble is = concat (map (\<lambda>i. to_le_bytes (encode i)) is)"

lemma halves_of_word:
  "push_bit 16 (ucast (ucast (drop_bit 16 w) :: u16)) OR ucast (ucast (w :: u32) :: u16) = w"
proof (rule bit_word_eqI)
  fix n assume "n < LENGTH(32)"
  then show "bit (push_bit 16 (ucast (ucast (drop_bit 16 w) :: u16)) OR ucast (ucast w :: u16) :: u32) n = bit w n"
    by (cases "n < 16") (auto simp: bit_or_iff bit_push_bit_iff bit_unsigned_iff bit_drop_bit_eq)
qed

lemma u16_iter_word:
  "u16_iter_from_u8_iter (to_le_bytes (w :: u32) @ bs) =
     ucast w # ucast (drop_bit 16 w) # u16_iter_from_u8_iter bs"
proof -
  have "to_le_bytes w = [ucast w, ucast (drop_bit 8 w), ucast (drop_bit 16 w), ucast (drop_bit 24 w)]"
    by (simp add: to_le_bytes_def upt_rec [of 0] upt_rec [of "Suc 0"] numeral_2_eq_2 [symmetric])
  moreover have "from_le_bytes [ucast x :: u8, ucast (drop_bit 8 x)] = (ucast x :: u16)" for x :: u32
  proof (rule bit_word_eqI)
    fix n assume "n < LENGTH(16)"
    then show "bit (from_le_bytes [ucast x :: u8, ucast (drop_bit 8 x)] :: u16) n = bit (ucast x :: u16) n"
      by (cases "n < 8") (auto simp: bit_or_iff bit_push_bit_iff bit_unsigned_iff bit_drop_bit_eq)
  qed
  from this [of w] this [of "drop_bit 16 w"]
  have "from_le_bytes [ucast w :: u8, ucast (drop_bit 8 w)] = (ucast w :: u16)"
    "from_le_bytes [ucast (drop_bit 16 w) :: u8, ucast (drop_bit 24 w)] = (ucast (drop_bit 16 w) :: u16)"
    by (simp_all only: drop_bit_drop_bit) simp_all
  ultimately show ?thesis by (simp del: from_le_bytes_Cons)
qed

text \<open>
  C32: Disassembly inverts assembly: decoding the bytes of a sequence of encoded instructions, in
  little-endian order, yields the sequence.
\<close>

theorem parse_block_assemble:
  assumes "list_all encodable is"
  shows "parse_block (assemble is) = is"
  using assms
proof (induction "is")
  case Nil
  then show ?case by (simp add: parse_block_def assemble_def)
next
  case (Cons i "is")
  then have e: "encodable i" "parse_block (assemble is) = is" by simp_all
  have "parse (ucast (encode i)) (\<lambda>_. Inr (ucast (drop_bit 16 (encode i)))) = (Inr i :: (unit, Instr) result)"
    using encode_low_bits [OF e(1)] decode_encode [OF e(1)] by (simp add: parse_def halves_of_word)
  with e encode_low_bits [OF e(1)] show ?case
    by (simp add: parse_block_def assemble_def u16_iter_word)
qed

theorem parse_block_assemble_witness:
  "parse_block (assemble [Ecall, Addi \<lparr>it_rd = x1, it_rs1 = x2, it_imm = -5\<rparr>]) =
   [Ecall, Addi \<lparr>it_rd = x1, it_rs1 = x2, it_imm = -5\<rparr>]"
  using parse_block_assemble [of "[Ecall, Addi \<lparr>it_rd = x1, it_rs1 = x2, it_imm = -5\<rparr>]"]
  by (simp add: fits_def)

end
