(* ===== verification/RV_Hart.thy ===== *)
theory RV_Hart
  imports RV_CSRegisters
begin

text \<open>
  The hart (\<open>machine_state/hart_state.rs\<close>): its registers, mode and program counter, trap
  entry, trap return (\<open>interpreter/rv64priv.rs\<close>) and the CSR instructions
  (\<open>interpreter/rv64zicsr.rs\<close>).

  An operation that checks before it changes anything returns either the exception or the new
  state.  Trap entry returns an option, where \<open>None\<close> is the \<open>unreachable!\<close> of the source.
\<close>

section \<open>State, reset and trap entry\<close>

record HartState =
  h_xregisters :: XRegisters
  h_fregisters :: FRegisters
  h_csregisters :: CSRegisters
  h_mode :: Mode
  h_pc :: Address

definition hart_reset :: "HartState \<Rightarrow> Address \<Rightarrow> HartState" where
  "hart_reset h pc =
     h\<lparr>h_xregisters := xreset (h_xregisters h),
       h_fregisters := freset (h_fregisters h),
       h_csregisters := csr_reset (h_csregisters h),
       h_mode := Machine,
       h_pc := pc\<rparr>"

definition spp_of_mode :: "Mode \<Rightarrow> SPPValue option" where
  "spp_of_mode current_mode =
     (case current_mode of
        User \<Rightarrow> Some SPP_User
      | Supervisor \<Rightarrow> Some SPP_Supervisor
      | Machine \<Rightarrow> None)"

definition mpp_of_mode :: "Mode \<Rightarrow> MPPValue" where
  "mpp_of_mode current_mode =
     (case current_mode of
        User \<Rightarrow> MPP_User
      | Supervisor \<Rightarrow> MPP_Supervisor
      | Machine \<Rightarrow> MPP_Machine)"

definition trap_mstatus :: "TrapMode \<Rightarrow> Mode \<Rightarrow> CSRValue \<Rightarrow> CSRValue option" where
  "trap_mstatus trap_mode current_mode mstatus =
     (case trap_mode of
        TM_Supervisor \<Rightarrow>
          (let interrupts_enabled = get_SIE mstatus;
               mstatus = set_SPIE mstatus interrupts_enabled;
               mstatus = set_SIE mstatus False
           in map_option (set_SPP mstatus) (spp_of_mode current_mode))
      | TM_Machine \<Rightarrow>
          (let interrupts_enabled = get_MIE mstatus;
               mstatus = set_MPIE mstatus interrupts_enabled;
               mstatus = set_MIE mstatus False
           in Some (set_MPP mstatus (mpp_of_mode current_mode))))"

definition trap_registers :: "TrapMode \<Rightarrow> CSRegister \<times> CSRegister \<times> CSRegister \<times> CSRegister" where
  "trap_registers trap_mode =
     (case trap_mode of
        TM_Supervisor \<Rightarrow> (csr_stvec, csr_sepc, csr_scause, csr_stval)
      | TM_Machine \<Rightarrow> (csr_mtvec, csr_mepc, csr_mcause, csr_mtval))"

definition take_trap_from_mode ::
    "Twiddle \<Rightarrow> 'tc TrapContext \<Rightarrow> HartState \<Rightarrow> 'tc \<Rightarrow> Mode \<Rightarrow> Address \<Rightarrow> (Address \<times> HartState) option"
where
  "take_trap_from_mode tw tc h trap_source current_mode return_pc =
     (let trap_mode = get_trap_mode tw (h_csregisters h) tc trap_source current_mode;
          (xtvec_reg, xepc_reg, xcause_reg, xtval_reg) = trap_registers trap_mode;
          c = csr_write (h_csregisters h) xepc_reg return_pc;
          c = csr_write c xcause_reg (tc_xcause tc trap_source);
          c = csr_write c xtval_reg (tc_xtval tc trap_source);
          mstatus = csr_read c csr_mstatus
      in case trap_mstatus trap_mode current_mode mstatus of
           None \<Rightarrow> None
         | Some mstatus \<Rightarrow>
             (let c = csr_write c csr_mstatus mstatus;
                  h = h\<lparr>h_csregisters := c, h_mode := as_mode trap_mode\<rparr>
              in Some (tc_trap_handler_address tc trap_source (csr_read c xtvec_reg), h)))"

definition take_trap ::
    "Twiddle \<Rightarrow> 'tc TrapContext \<Rightarrow> HartState \<Rightarrow> 'tc \<Rightarrow> Address \<Rightarrow> (Address \<times> HartState) option" where
  "take_trap tw tc h trap_source return_pc =
     take_trap_from_mode tw tc h trap_source (h_mode h) return_pc"

section \<open>Trap return\<close>

definition run_mret :: "HartState \<Rightarrow> (Exception, Address \<times> HartState) result" where
  "run_mret h =
     (case h_mode h of
        User \<Rightarrow> Inl IllegalInstruction
      | Supervisor \<Rightarrow> Inl IllegalInstruction
      | Machine \<Rightarrow>
          (let mstatus = csr_read (h_csregisters h) csr_mstatus;
               prev_privilege = get_MPP mstatus;
               prev_mie = get_MPIE mstatus;
               mstatus = set_MIE mstatus prev_mie;
               mstatus = set_MPIE mstatus True;
               mstatus = set_MPP mstatus MPP_User;
               mstatus = (if prev_privilege \<noteq> MPP_Machine then set_MPRV mstatus False else mstatus);
               c = csr_write (h_csregisters h) csr_mstatus mstatus;
               mode = (case prev_privilege of
                         MPP_User \<Rightarrow> User | MPP_Supervisor \<Rightarrow> Supervisor | MPP_Machine \<Rightarrow> Machine)
           in Inr (csr_read c csr_mepc, h\<lparr>h_csregisters := c, h_mode := mode\<rparr>)))"

definition run_sret :: "HartState \<Rightarrow> (Exception, Address \<times> HartState) result" where
  "run_sret h =
     (if h_mode h = User then Inl IllegalInstruction
      else
        let mstatus = csr_read (h_csregisters h) csr_mstatus in
        if get_TSR mstatus then Inl IllegalInstruction
        else
          let prev_privilege = get_SPP mstatus;
              prev_sie = get_SPIE mstatus;
              mstatus = set_SIE mstatus prev_sie;
              mstatus = set_SPIE mstatus True;
              mstatus = set_SPP mstatus SPP_User;
              mstatus = set_MPRV mstatus False;
              c = csr_write (h_csregisters h) csr_mstatus mstatus;
              mode = (case prev_privilege of SPP_User \<Rightarrow> User | SPP_Supervisor \<Rightarrow> Supervisor)
          in Inr (csr_read c csr_sepc, h\<lparr>h_csregisters := c, h_mode := mode\<rparr>))"

section \<open>CSR instructions\<close>

definition hart_csr_replace :: "HartState \<Rightarrow> CSRegister \<Rightarrow> XValue \<Rightarrow> XRegister \<Rightarrow> (Exception, HartState) result" where
  "hart_csr_replace h csr value rd =
     (case check_privilege csr (h_mode h) of Inl e \<Rightarrow> Inl e | Inr _ \<Rightarrow>
      case check_write csr of Inl e \<Rightarrow> Inl e | Inr _ \<Rightarrow>
        if is_zero rd then Inr (h\<lparr>h_csregisters := csr_write (h_csregisters h) csr value\<rparr>)
        else
          let (old, c) = csr_replace (h_csregisters h) csr value
          in Inr (h\<lparr>h_csregisters := c, h_xregisters := xwrite (h_xregisters h) rd old\<rparr>))"

definition run_csrrw :: "HartState \<Rightarrow> CSRegister \<Rightarrow> XRegister \<Rightarrow> XRegister \<Rightarrow> (Exception, HartState) result" where
  "run_csrrw h csr rs1 rd = hart_csr_replace h csr (xread (h_xregisters h) rs1) rd"

definition run_csrrwi :: "HartState \<Rightarrow> CSRegister \<Rightarrow> XValue \<Rightarrow> XRegister \<Rightarrow> (Exception, HartState) result" where
  "run_csrrwi h csr imm rd = hart_csr_replace h csr (imm AND 0x1F) rd"

text \<open>The common part of the four instructions that set or clear bits; \<open>upd\<close> is the update.\<close>

definition hart_csr_update ::
    "(CSRegisters \<Rightarrow> CSRegister \<Rightarrow> CSRValue \<Rightarrow> CSRValue \<times> CSRegisters) \<Rightarrow> HartState \<Rightarrow> CSRegister \<Rightarrow>
     bool \<Rightarrow> CSRValue \<Rightarrow> XRegister \<Rightarrow> (Exception, HartState) result" where
  "hart_csr_update upd h csr no_write value rd =
     (case check_privilege csr (h_mode h) of Inl e \<Rightarrow> Inl e | Inr _ \<Rightarrow>
      if no_write then
        let old = csr_read (h_csregisters h) csr
        in Inr (h\<lparr>h_xregisters := xwrite (h_xregisters h) rd old\<rparr>)
      else
        case check_write csr of Inl e \<Rightarrow> Inl e | Inr _ \<Rightarrow>
          let (old, c) = upd (h_csregisters h) csr value
          in Inr (h\<lparr>h_csregisters := c, h_xregisters := xwrite (h_xregisters h) rd old\<rparr>))"

definition run_csrrs :: "HartState \<Rightarrow> CSRegister \<Rightarrow> XRegister \<Rightarrow> XRegister \<Rightarrow> (Exception, HartState) result" where
  "run_csrrs h csr rs1 rd =
     hart_csr_update csr_set_bits h csr (is_zero rs1) (xread (h_xregisters h) rs1) rd"

definition run_csrrsi :: "HartState \<Rightarrow> CSRegister \<Rightarrow> XValue \<Rightarrow> XRegister \<Rightarrow> (Exception, HartState) result" where
  "run_csrrsi h csr imm rd =
     (let imm = imm AND 0x1F in hart_csr_update csr_set_bits h csr (imm = 0) imm rd)"

definition run_csrrc :: "HartState \<Rightarrow> CSRegister \<Rightarrow> XRegister \<Rightarrow> XRegister \<Rightarrow> (Exception, HartState) result" where
  "run_csrrc h csr rs1 rd =
     hart_csr_update csr_clear_bits h csr (is_zero rs1) (xread (h_xregisters h) rs1) rd"

definition run_csrrci :: "HartState \<Rightarrow> CSRegister \<Rightarrow> XValue \<Rightarrow> XRegister \<Rightarrow> (Exception, HartState) result" where
  "run_csrrci h csr imm rd =
     (let imm = imm AND 0x1F in hart_csr_update csr_clear_bits h csr (imm = 0) imm rd)"

section \<open>Trap entry never panics\<close>

lemma get_trap_mode_supervisor:
  "get_trap_mode tw c tc t m = TM_Supervisor \<Longrightarrow> m = User \<or> m = Supervisor"
  by (cases m) (auto simp: get_trap_mode_def)

lemma trap_mstatus_total:
  "trap_mstatus (get_trap_mode tw c tc t m) m v \<noteq> None"
proof (cases "get_trap_mode tw c tc t m")
  case TM_Supervisor
  then show ?thesis
    using get_trap_mode_supervisor [OF TM_Supervisor]
    by (auto simp: trap_mstatus_def spp_of_mode_def Let_def)
qed (simp add: trap_mstatus_def Let_def)

text \<open>The registers that trap entry writes, as a function of the target.\<close>

abbreviation trap_epc :: "TrapMode \<Rightarrow> CSRegister" where
  "trap_epc tm \<equiv> fst (snd (trap_registers tm))"

abbreviation trap_cause :: "TrapMode \<Rightarrow> CSRegister" where
  "trap_cause tm \<equiv> fst (snd (snd (trap_registers tm)))"

abbreviation trap_tval :: "TrapMode \<Rightarrow> CSRegister" where
  "trap_tval tm \<equiv> snd (snd (snd (trap_registers tm)))"

definition trap_csrs ::
    "'tc TrapContext \<Rightarrow> CSRegisters \<Rightarrow> 'tc \<Rightarrow> TrapMode \<Rightarrow> Mode \<Rightarrow> Address \<Rightarrow> CSRegisters" where
  "trap_csrs tc c t tm m return_pc =
     (let c = csr_write (csr_write (csr_write c (trap_epc tm) return_pc) (trap_cause tm) (tc_xcause tc t))
                (trap_tval tm) (tc_xtval tc t)
      in csr_write c csr_mstatus (the (trap_mstatus tm m (csr_read c csr_mstatus))))"

lemma take_trap_eq:
  assumes "tm = get_trap_mode tw (h_csregisters h) tc t (h_mode h)"
    and "c = trap_csrs tc (h_csregisters h) t tm (h_mode h) return_pc"
  shows "take_trap tw tc h t return_pc =
    Some (tc_trap_handler_address tc t (csr_read c (fst (trap_registers tm))),
          h\<lparr>h_csregisters := c, h_mode := as_mode tm\<rparr>)"
  using trap_mstatus_total [of tw "h_csregisters h" tc t "h_mode h"] assms
  by (auto simp: take_trap_def take_trap_from_mode_def Let_def split_def trap_csrs_def
      split: option.split)

section \<open>The status register under trap entry and return\<close>

lemma csr_read_mstatus: "csr_read c csr_mstatus = csr_registers c csr_mstatus"
  by (simp add: csr_read_def transform_read_def shadowed_def)

lemma csr_write_legal_value:
  assumes "csr_legal reg v" "shadowed reg = reg" "reg \<noteq> csr_fcsr"
  shows "csr_registers (csr_write c reg v) reg = v"
  using assms by (auto simp: csr_write_alt csr_legal_def csr_region_write_def transform_write_def
      shadowed_def split: if_splits)

lemma mstatus_legal_transfer:
  assumes "csr_legal csr_mstatus v"
    and "\<And>n. n \<notin> {1, 3, 5, 7, 8, 17} \<Longrightarrow> n \<notin> {11, 12} \<Longrightarrow> bit w n = bit v n"
    and "bit w 12 \<Longrightarrow> bit w 11"
  shows "csr_legal csr_mstatus w"
proof -
  have "bit WPRI_MASK_MSTATUS n" if "bit w n" for n
  proof (cases "n \<in> {1, 3, 5, 7, 8, 17} \<union> {11, 12}")
    case True
    then show ?thesis
      by (auto simp: bit_WPRI_MASK_MSTATUS)
  next
    case False
    then show ?thesis
      using assms(1,2) that by (simp add: csr_legal_mstatus)
  qed
  then show ?thesis
    using assms by (simp add: csr_legal_mstatus)
qed

lemma MPPValue_raw_valid: "bit (MPPValue_raw_bits v) 1 \<Longrightarrow> bit (MPPValue_raw_bits v) 0"
  by (cases v) simp_all

lemma trap_mstatus_legal:
  assumes "csr_legal csr_mstatus v" "trap_mstatus tm m v = Some w"
  shows "csr_legal csr_mstatus w"
  using assms(1)
proof (rule mstatus_legal_transfer)
  show "bit w n = bit v n" if "n \<notin> {1, 3, 5, 7, 8, 17}" "n \<notin> {11, 12}" for n
    using assms(2) that
    by (cases tm) (auto simp: trap_mstatus_def Let_def xstatus_bits)
  show "bit w 11" if "bit w 12"
    using assms(2) that csr_legal_mstatus [THEN iffD1, OF assms(1)] MPPValue_raw_valid
    by (cases tm) (auto simp: trap_mstatus_def Let_def xstatus_bits)
qed

lemma trap_registers_simps [simp]:
  "trap_registers TM_Supervisor = (csr_stvec, csr_sepc, csr_scause, csr_stval)"
  "trap_registers TM_Machine = (csr_mtvec, csr_mepc, csr_mcause, csr_mtval)"
  by (simp_all add: trap_registers_def)

lemma trap_pre_mstatus:
  "csr_registers (csr_write (csr_write (csr_write c (trap_epc tm) a) (trap_cause tm) b)
     (trap_tval tm) d) csr_mstatus = csr_registers c csr_mstatus"
  by (cases tm) (simp_all add: csr_write_other shadowed_def)

lemma trap_csrs_legal: "csrs_legal c \<Longrightarrow> csrs_legal (trap_csrs tc c t tm m pc)"
  by (simp add: trap_csrs_def Let_def csr_write_legal)

lemma mstatus_legal: "csrs_legal c \<Longrightarrow> csr_legal csr_mstatus (csr_registers c csr_mstatus)"
  using csrs_legalD [of c csr_mstatus] iter_members by (simp add: shadowed_def)

lemma trap_csrs_mstatus:
  assumes "csrs_legal c" "trap_mstatus tm m (csr_registers c csr_mstatus) = Some w"
  shows "csr_registers (trap_csrs tc c t tm m pc) csr_mstatus = w"
proof -
  have "csr_legal csr_mstatus w"
    using trap_mstatus_legal mstatus_legal assms by blast
  then show ?thesis
    using assms(2) unfolding trap_csrs_def Let_def
    by (subst csr_write_legal_value) (simp_all add: csr_read_mstatus trap_pre_mstatus shadowed_def)
qed

lemma trap_csrs_other:
  assumes "reg \<notin> {trap_epc tm, trap_cause tm, trap_tval tm, csr_mstatus}"
  shows "csr_registers (trap_csrs tc c t tm m pc) reg = csr_registers c reg"
  using assms by (cases tm) (auto simp: trap_csrs_def Let_def csr_write_other shadowed_def)

lemma trap_csrs_epc:
  "csr_registers (trap_csrs tc c t tm m pc) (trap_epc tm) = pc AND NOT 1"
proof (cases tm)
  case TM_Supervisor
  then show ?thesis
    by (simp add: trap_csrs_def Let_def csr_write_other shadowed_def)
      (simp add: csr_write_alt writable_defs shadowed_def transform_write_def csr_region_write_def
        WARL_MASK_XEPC_def)
next
  case TM_Machine
  then show ?thesis
    by (simp add: trap_csrs_def Let_def csr_write_other shadowed_def)
      (simp add: csr_write_alt writable_defs shadowed_def transform_write_def csr_region_write_def
        WARL_MASK_XEPC_def)
qed

lemma trap_csrs_cause:
  "csr_registers (trap_csrs tc c t tm m pc) (trap_cause tm) =
     (if tc_xcause tc t \<in> set (legal_values (trap_cause tm)) then tc_xcause tc t
      else csr_registers c (trap_cause tm))"
proof (cases tm)
  case TM_Supervisor
  then show ?thesis
    by (simp add: trap_csrs_def Let_def csr_write_other shadowed_def)
      (simp add: csr_write_alt writable_defs shadowed_def transform_write_def csr_region_write_def
        csr_write_other WLRL_SCAUSE_VALUES_def)
next
  case TM_Machine
  then show ?thesis
    by (simp add: trap_csrs_def Let_def csr_write_other shadowed_def)
      (simp add: csr_write_alt writable_defs shadowed_def transform_write_def csr_region_write_def
        csr_write_other WLRL_MCAUSE_VALUES_def)
qed

lemma trap_csrs_tval:
  "csr_registers (trap_csrs tc c t tm m pc) (trap_tval tm) = tc_xtval tc t"
  by (cases tm)
    (simp_all add: trap_csrs_def Let_def csr_write_other shadowed_def,
      simp_all add: csr_write_alt writable_defs shadowed_def transform_write_def
      csr_region_write_def)

lemma csr_read_plain:
  "reg \<notin> {csr_sstatus, csr_sip, csr_sie, csr_fcsr, csr_frm, csr_fflags} \<Longrightarrow>
   csr_read c reg = csr_registers c reg"
  by (auto simp: csr_read_def transform_read_def shadowed_def)

lemma trap_csrs_xtvec:
  "csr_read (trap_csrs tc c t tm m pc) (fst (trap_registers tm)) = csr_read c (fst (trap_registers tm))"
  by (cases tm) (simp_all add: csr_read_plain trap_csrs_other)

lemma trap_mode_escalates:
  "mode_le m (as_mode (get_trap_mode tw c tc t m))"
  using get_trap_mode_supervisor [of tw c tc t m]
  by (cases "get_trap_mode tw c tc t m") auto

text \<open>The interrupt-enable stack after trap entry.\<close>

definition status_stacked :: "TrapMode \<Rightarrow> Mode \<Rightarrow> CSRValue \<Rightarrow> CSRValue \<Rightarrow> bool" where
  "status_stacked tm m old new \<longleftrightarrow>
     (case tm of
        TM_Supervisor \<Rightarrow>
          get_SPIE new = get_SIE old \<and> \<not> get_SIE new \<and> Some (get_SPP new) = spp_of_mode m \<and>
          (\<forall>n. n \<notin> {1, 5, 8} \<longrightarrow> bit new n = bit old n)
      | TM_Machine \<Rightarrow>
          get_MPIE new = get_MIE old \<and> \<not> get_MIE new \<and> get_MPP new = mpp_of_mode m \<and>
          (\<forall>n. n \<notin> {3, 7, 11, 12} \<longrightarrow> bit new n = bit old n))"

lemma trap_mstatus_stacked:
  "trap_mstatus tm m v = Some w \<Longrightarrow> status_stacked tm m v w"
  by (cases tm; cases m)
    (auto simp: trap_mstatus_def status_stacked_def Let_def spp_of_mode_def mpp_of_mode_def xstatus_bits)

section \<open>Properties of traps\<close>

text \<open>
  C6: Taking a trap never panics and never lowers the privilege.  It records the return address with
  bit 0 cleared and the trap value, stacks the interrupt-enable bit and the mode of the interrupted
  code in the status register of the target mode, jumps to the configured handler, keeps the CSRs
  legal and changes nothing else.
\<close>

theorem take_trap_correct:
  assumes tm_def: "tm = get_trap_mode tw (h_csregisters h) tc t (h_mode h)"
    and legal: "csrs_legal (h_csregisters h)"
  shows "\<exists>handler h'. take_trap tw tc h t pc = Some (handler, h') \<and>
    handler = get_trap_handler (h_csregisters h) tc t tm \<and>
    h_mode h' = as_mode tm \<and> mode_le (h_mode h) (h_mode h') \<and>
    csrs_legal (h_csregisters h') \<and>
    csr_read (h_csregisters h') (trap_epc tm) = pc AND NOT 1 \<and>
    csr_read (h_csregisters h') (trap_tval tm) = tc_xtval tc t \<and>
    status_stacked tm (h_mode h) (csr_read (h_csregisters h) csr_mstatus)
      (csr_read (h_csregisters h') csr_mstatus) \<and>
    (\<forall>reg. reg \<notin> {trap_epc tm, trap_cause tm, trap_tval tm, csr_mstatus} \<longrightarrow>
       csr_registers (h_csregisters h') reg = csr_registers (h_csregisters h) reg) \<and>
    h_xregisters h' = h_xregisters h \<and> h_fregisters h' = h_fregisters h \<and> h_pc h' = h_pc h"
proof -
  let ?c = "h_csregisters h"
  let ?c' = "trap_csrs tc ?c t tm (h_mode h) pc"
  obtain w where w: "trap_mstatus tm (h_mode h) (csr_registers ?c csr_mstatus) = Some w"
    using trap_mstatus_total [of tw ?c tc t "h_mode h"] unfolding tm_def by blast
  have "status_stacked tm (h_mode h) (csr_read ?c csr_mstatus) (csr_read ?c' csr_mstatus)"
    using trap_mstatus_stacked [OF w] trap_csrs_mstatus [OF legal w, of tc t pc]
    by (simp add: csr_read_mstatus)
  moreover have "csr_read ?c' (trap_epc tm) = pc AND NOT 1" "csr_read ?c' (trap_tval tm) = tc_xtval tc t"
    using trap_csrs_epc [of tc ?c t tm "h_mode h" pc] trap_csrs_tval [of tc ?c t tm "h_mode h" pc]
    by (cases tm; simp add: csr_read_plain)+
  moreover have "tc_trap_handler_address tc t (csr_read ?c' (fst (trap_registers tm))) =
      get_trap_handler ?c tc t tm"
    unfolding trap_csrs_xtvec by (cases tm) (simp_all add: get_trap_handler_def)
  ultimately show ?thesis
    using take_trap_eq [OF tm_def refl, of pc] trap_csrs_legal [OF legal, of tc t tm "h_mode h" pc]
      trap_mode_escalates [of "h_mode h" tw ?c tc t]
    by (simp add: tm_def [symmetric] trap_csrs_other)
qed

definition example_hart :: HartState where
  "example_hart =
     \<lparr>h_xregisters = \<lparr>xr_registers = \<lambda>_. 0\<rparr>, h_fregisters = \<lparr>fr_registers = \<lambda>_. 0\<rparr>,
      h_csregisters = csr_reset \<lparr>csr_registers = \<lambda>_. 0\<rparr>, h_mode = User, h_pc = 0x1001\<rparr>"

lemma reset_medeleg: "csr_read (csr_reset c) csr_medeleg = 0xB3FF"
proof -
  have "csr_registers (csr_reset c) csr_medeleg = reset_value csr_medeleg"
    by (rule csr_reset_value) (simp_all add: CSRegister_iter_def CSRs_machine_def shadowed_def)
  then show ?thesis
    by (simp add: csr_read_plain reset_value_def writable_defs default_value_def WARL_MASK_MEDELEG_def
        MXLEN_def ones_mask shl64_def mask_eq_exp_minus_1)
qed

lemma reset_mstatus_TSR: "\<not> get_TSR (csr_read (csr_reset c) csr_mstatus)"
proof -
  have "csr_registers (csr_reset c) csr_mstatus = reset_value csr_mstatus"
    using iter_members by (intro csr_reset_value) (simp_all add: shadowed_def)
  then show ?thesis
    by (simp add: csr_read_plain reset_value_def writable_mstatus default_value_def default_mstatus_def
        Let_def xstatus_bits bit_apply_warl_mstatus bit_apply_warl_sstatus bit_and_iff)
qed

lemma example_trap_mode:
  "get_trap_mode std_twiddle (h_csregisters example_hart) exception_context EnvCallFromUMode
     (h_mode example_hart) = TM_Supervisor"
  by (simp add: get_trap_mode_def example_hart_def exception_context_def reset_medeleg
      std_twiddle_def)

theorem take_trap_correct_witness:
  "\<exists>handler h'. take_trap std_twiddle exception_context example_hart EnvCallFromUMode 0x1001 =
     Some (handler, h') \<and> h_mode h' = Supervisor \<and> csr_read (h_csregisters h') csr_sepc = 0x1000"
  using take_trap_correct [OF example_trap_mode [symmetric], of "0x1001"]
  by (auto simp: example_hart_def csr_reset_legal)

definition mret_mstatus :: "CSRValue \<Rightarrow> CSRValue" where
  "mret_mstatus w = (let m = set_MPP (set_MPIE (set_MIE w (get_MPIE w)) True) MPP_User
    in if get_MPP w \<noteq> MPP_Machine then set_MPRV m False else m)"

definition sret_mstatus :: "CSRValue \<Rightarrow> CSRValue" where
  "sret_mstatus w = set_MPRV (set_SPP (set_SPIE (set_SIE w (get_SPIE w)) True) SPP_User) False"

lemma mret_mstatus_legal:
  "csr_legal csr_mstatus w \<Longrightarrow> csr_legal csr_mstatus (mret_mstatus w)"
  by (erule mstatus_legal_transfer) (auto simp: mret_mstatus_def xstatus_bits Let_def split: if_splits)

lemma sret_mstatus_legal:
  "csr_legal csr_mstatus w \<Longrightarrow> csr_legal csr_mstatus (sret_mstatus w)"
  by (rule mstatus_legal_transfer, assumption)
    (auto simp: sret_mstatus_def xstatus_bits csr_legal_mstatus)

lemma run_mret_eq:
  assumes "h_mode h = Machine" "csr_registers (h_csregisters h) csr_mstatus = w"
    and "mpp_of_mode m = get_MPP w"
  shows "run_mret h =
    Inr (csr_registers (h_csregisters h) csr_mepc,
         h\<lparr>h_csregisters := csr_write (h_csregisters h) csr_mstatus (mret_mstatus w), h_mode := m\<rparr>)"
proof -
  have "(case get_MPP w of MPP_User \<Rightarrow> User | MPP_Supervisor \<Rightarrow> Supervisor | MPP_Machine \<Rightarrow> Machine) = m"
    using assms(3) [symmetric] by (cases m) (simp_all add: mpp_of_mode_def)
  then show ?thesis
    using assms(1,2) by (simp add: run_mret_def csr_read_plain mret_mstatus_def Let_def csr_write_other
        shadowed_def)
qed

lemma run_sret_eq:
  assumes "h_mode h = Supervisor" "csr_registers (h_csregisters h) csr_mstatus = w"
    and "spp_of_mode m = Some (get_SPP w)"
  shows "run_sret h =
    (if get_TSR w then Inl IllegalInstruction
     else Inr (csr_registers (h_csregisters h) csr_sepc,
         h\<lparr>h_csregisters := csr_write (h_csregisters h) csr_mstatus (sret_mstatus w), h_mode := m\<rparr>))"
proof -
  have "(case get_SPP w of SPP_User \<Rightarrow> User | SPP_Supervisor \<Rightarrow> Supervisor) = m"
    using assms(3) by (cases m) (auto simp: spp_of_mode_def)
  then show ?thesis
    using assms(1,2) by (simp add: run_sret_def csr_read_plain sret_mstatus_def Let_def csr_write_other
        shadowed_def)
qed

text \<open>
  C8: After a trap into machine mode, \<open>mret\<close> returns to the interrupted instruction: the program
  counter (bit 0 cleared), the mode and the machine interrupt-enable bit are those from before the
  trap.  \<open>mret\<close> is illegal in the other modes.
\<close>

theorem trap_mret_round_trip:
  assumes "csrs_legal (h_csregisters h)"
    and "get_trap_mode tw (h_csregisters h) tc t (h_mode h) = TM_Machine"
    and "take_trap tw tc h t pc = Some (handler, h1)"
  shows "\<exists>h2. run_mret h1 = Inr (pc AND NOT 1, h2) \<and> h_mode h2 = h_mode h \<and>
    csrs_legal (h_csregisters h2) \<and>
    get_MIE (csr_read (h_csregisters h2) csr_mstatus) = get_MIE (csr_read (h_csregisters h) csr_mstatus) \<and>
    (\<forall>h'. h_mode h' \<noteq> Machine \<longrightarrow> run_mret h' = Inl IllegalInstruction)"
proof -
  let ?c = "h_csregisters h"
  let ?c1 = "trap_csrs tc ?c t TM_Machine (h_mode h) pc"
  have h1: "h1 = h\<lparr>h_csregisters := ?c1, h_mode := Machine\<rparr>"
    using take_trap_eq [OF assms(2) [symmetric] refl, of pc] assms(3) by simp
  obtain w where w: "trap_mstatus TM_Machine (h_mode h) (csr_registers ?c csr_mstatus) = Some w"
    by (simp add: trap_mstatus_def Let_def)
  have w1: "csr_registers ?c1 csr_mstatus = w"
    by (rule trap_csrs_mstatus [OF assms(1) w])
  have legal: "csr_legal csr_mstatus w"
    using trap_mstatus_legal [OF mstatus_legal [OF assms(1)] w] .
  have stacked: "get_MPIE w = get_MIE (csr_registers ?c csr_mstatus)" "get_MPP w = mpp_of_mode (h_mode h)"
    using trap_mstatus_stacked [OF w] by (simp_all add: status_stacked_def)
  have "csr_registers (csr_write ?c1 csr_mstatus (mret_mstatus w)) csr_mstatus = mret_mstatus w"
    by (rule csr_write_legal_value [OF mret_mstatus_legal [OF legal]]) (simp_all add: shadowed_def)
  moreover have "get_MIE (mret_mstatus w) = get_MPIE w"
    by (simp add: mret_mstatus_def xstatus_bits Let_def)
  moreover have "csr_registers ?c1 csr_mepc = pc AND NOT 1"
    using trap_csrs_epc [of tc ?c t TM_Machine "h_mode h" pc] by simp
  moreover have "run_mret h1 = Inr (csr_registers ?c1 csr_mepc,
      h\<lparr>h_csregisters := csr_write ?c1 csr_mstatus (mret_mstatus w), h_mode := h_mode h\<rparr>)"
    using run_mret_eq [of h1 w "h_mode h"] w1 stacked(2) by (simp add: h1)
  ultimately show ?thesis
    using stacked csr_write_legal [OF trap_csrs_legal [OF assms(1)]]
    by (auto simp: csr_read_plain run_mret_def split: Mode.split)
qed

theorem trap_mret_round_trip_witness:
  "\<exists>handler h1 h2.
     take_trap std_twiddle exception_context (example_hart\<lparr>h_mode := Machine\<rparr>) Breakpoint 0x80000004 =
       Some (handler, h1) \<and>
     run_mret h1 = Inr (0x80000004, h2) \<and> h_mode h2 = Machine"
proof -
  let ?h = "example_hart\<lparr>h_mode := Machine\<rparr>"
  have m: "get_trap_mode std_twiddle (h_csregisters ?h) exception_context Breakpoint (h_mode ?h) = TM_Machine"
    by (simp add: get_trap_mode_def)
  obtain handler h1 where
    t: "take_trap std_twiddle exception_context ?h Breakpoint 0x80000004 = Some (handler, h1)"
    using take_trap_eq [OF m [symmetric] refl, of "0x80000004"] by blast
  have "csrs_legal (h_csregisters ?h)"
    by (simp add: example_hart_def csr_reset_legal)
  from trap_mret_round_trip [OF this m t] t show ?thesis
    by auto
qed



lemma deleg_legal:
  assumes "csrs_legal c"
  shows "csr_registers c csr_medeleg AND WARL_MASK_MEDELEG = csr_registers c csr_medeleg"
  using csrs_legalD [OF assms, of csr_medeleg] iter_members
  by (simp add: shadowed_def csr_legal_def writable_defs)

lemma csr_read_medeleg: "csr_read c csr_medeleg = csr_registers c csr_medeleg"
  by (simp add: csr_read_plain)

lemma medeleg_env_call_M:
  assumes "csrs_legal c"
  shows "\<not> bit (csr_read c csr_medeleg) 11"
proof -
  have "\<not> bit WARL_MASK_MEDELEG 11"
    unfolding WARL_MASK_MEDELEG_def MXLEN_def
    by (simp add: bit_not_iff bit_and_iff bit_or_iff bit_shl_ones)
  then show ?thesis
    using deleg_legal [OF assms] by (metis bit_and_iff csr_read_medeleg)
qed

text \<open>
  C24: When an exception is taken, the cause register of the target mode afterwards holds the code of
  this very exception: the machine cause register accepts every code, and the only code that the
  supervisor cause register refuses, an environment call from machine mode, is never delegated.
\<close>

theorem exception_cause_recorded:
  assumes "twiddle_ok tw" "csrs_legal (h_csregisters h)"
    and "take_trap tw exception_context h e pc = Some (handler, h')"
    and "tm = get_trap_mode tw (h_csregisters h) exception_context e (h_mode h)"
  shows "csr_read (h_csregisters h') (trap_cause tm) = exc_exception_code e"
proof -
  let ?c = "h_csregisters h"
  have h': "h_csregisters h' = trap_csrs exception_context ?c e tm (h_mode h) pc"
    using take_trap_eq [OF assms(4) refl, of pc] assms(3) by auto
  have "exc_exception_code e \<in> set (legal_values (trap_cause tm))"
  proof (cases tm)
    case TM_Machine
    then show ?thesis
      by (cases e) (simp_all add: legal_values_def WLRL_MCAUSE_VALUES_def)
  next
    case TM_Supervisor
    have "e \<noteq> EnvCallFromMMode"
    proof
      assume "e = EnvCallFromMMode"
      then have "tw_bit tw (csr_read ?c csr_medeleg) 11"
        using assms(4) TM_Supervisor
        by (auto simp: get_trap_mode_def exception_context_def Let_def split: if_splits)
      then show False
        using assms(1) medeleg_env_call_M [OF assms(2)] by (simp add: twiddle_ok_def)
    qed
    then show ?thesis
      using TM_Supervisor by (cases e) (simp_all add: legal_values_def WLRL_SCAUSE_VALUES_def)
  qed
  then have "csr_registers (h_csregisters h') (trap_cause tm) = exc_exception_code e"
    using trap_csrs_cause [of exception_context ?c e tm "h_mode h" pc]
    by (simp add: h' exception_context_def)
  then show ?thesis
    by (cases tm) (simp_all add: csr_read_plain)
qed

lemma std_twiddle_ok: "twiddle_ok std_twiddle"
  by (simp add: twiddle_ok_def std_twiddle_def)

theorem exception_cause_recorded_witness:
  "\<exists>handler h'.
     take_trap std_twiddle exception_context example_hart EnvCallFromUMode 0x1000 = Some (handler, h') \<and>
     csr_read (h_csregisters h') csr_scause = 8"
proof -
  obtain handler h1 where
    t: "take_trap std_twiddle exception_context example_hart EnvCallFromUMode 0x1000 = Some (handler, h1)"
    using take_trap_eq [OF example_trap_mode [symmetric] refl, of "0x1000"] by blast
  have "csrs_legal (h_csregisters example_hart)"
    by (simp add: example_hart_def csr_reset_legal)
  from exception_cause_recorded [OF std_twiddle_ok this t example_trap_mode [symmetric]] t
  show ?thesis
    by auto
qed

text \<open>
  C25: A machine-level interrupt that is delegated to supervisor mode leaves \<open>scause\<close> as it was:
  the delegation register accepts the bits 3, 7 and 11, but the cause register refuses these
  codes, so the supervisor handler sees the cause of an earlier trap.
\<close>

theorem delegated_machine_interrupt_cause:
  assumes "i \<in> {MachineSoftware, MachineTimer, MachineExternal}"
    and "get_trap_mode tw (h_csregisters h) interrupt_context i (h_mode h) = TM_Supervisor"
    and "take_trap tw interrupt_context h i pc = Some (handler, h')"
  shows "h_mode h' = Supervisor \<and>
    csr_read (h_csregisters h') csr_scause = csr_read (h_csregisters h) csr_scause \<and>
    make_value_writable csr_mideleg (push_bit (unat (exception_code_const i)) 1) =
      Some (push_bit (unat (exception_code_const i)) 1)"
proof -
  let ?c = "h_csregisters h"
  have h': "h_csregisters h' = trap_csrs interrupt_context ?c i TM_Supervisor (h_mode h) pc"
    "h_mode h' = Supervisor"
    using take_trap_eq [OF assms(2) [symmetric] refl, of pc] assms(3) by auto
  have "int_xcause i \<notin> set (legal_values csr_scause)"
    using assms(1) by (auto simp: legal_values_def WLRL_SCAUSE_VALUES_def int_xcause_def INTERRUPT_BIT_def)
  then have "csr_registers (h_csregisters h') csr_scause = csr_registers ?c csr_scause"
    using trap_csrs_cause [of interrupt_context ?c i TM_Supervisor "h_mode h" pc]
    by (simp add: h' interrupt_context_def)
  moreover have "make_value_writable csr_mideleg (push_bit (unat (exception_code_const i)) 1) =
      Some (push_bit (unat (exception_code_const i)) 1)"
    using assms(1) by (auto simp: writable_defs WARL_MASK_MIDELEG_def MXLEN_def ones_mask shl64_def
        mask_eq_exp_minus_1)
  ultimately show ?thesis
    by (simp add: h'(2) csr_read_plain)
qed

lemma reset_mideleg: "csr_read (csr_reset c) csr_mideleg = 0xAAA"
proof -
  have "csr_registers (csr_reset c) csr_mideleg = reset_value csr_mideleg"
    by (rule csr_reset_value) (simp_all add: CSRegister_iter_def CSRs_machine_def shadowed_def)
  then show ?thesis
    by (simp add: csr_read_plain reset_value_def writable_defs default_value_def WARL_MASK_MIDELEG_def
        MXLEN_def ones_mask shl64_def mask_eq_exp_minus_1)
qed

theorem delegated_machine_interrupt_cause_witness:
  "\<exists>handler h'. take_trap std_twiddle interrupt_context example_hart MachineTimer 0x1000 = Some (handler, h') \<and>
     csr_read (h_csregisters h') csr_scause = csr_read (h_csregisters example_hart) csr_scause"
proof -
  have m: "get_trap_mode std_twiddle (h_csregisters example_hart) interrupt_context MachineTimer
      (h_mode example_hart) = TM_Supervisor"
    by (simp add: get_trap_mode_def example_hart_def interrupt_context_def reset_mideleg std_twiddle_def)
  obtain handler h' where
    t: "take_trap std_twiddle interrupt_context example_hart MachineTimer 0x1000 = Some (handler, h')"
    using take_trap_eq [OF m [symmetric] refl, of "0x1000"] by blast
  from delegated_machine_interrupt_cause [OF _ m t] t show ?thesis
    by auto
qed

section \<open>Properties of the CSR instructions\<close>

definition csr_denied :: "Mode \<Rightarrow> CSRegister \<Rightarrow> bool" where
  "csr_denied m reg \<longleftrightarrow>
     privilege_level (mode_privilege m) < privilege_level (privilege_of_bits (reg div 0x100))"

lemma check_privilege_iff:
  assumes "reg \<in> set CSRegister_iter"
  shows "check_privilege reg m = (if csr_denied m reg then Inl IllegalInstruction else Inr ())"
  using csr_privilege_bits [OF CSRegister_iter_bound [OF assms]]
  by (simp add: check_privilege_def csr_denied_def)

lemma hart_csr_replace_eq:
  assumes "reg \<in> set CSRegister_iter"
  shows "hart_csr_replace h reg v rd =
    (if csr_denied (h_mode h) reg \<or> is_read_only reg then Inl IllegalInstruction
     else Inr (h\<lparr>h_csregisters := csr_write (h_csregisters h) reg v,
       h_xregisters := xwrite (h_xregisters h) rd (csr_read (h_csregisters h) reg)\<rparr>))"
proof -
  have "csr_replace c reg v = (csr_read c reg, csr_write c reg v)" for c
    using csr_replace_fst [of c reg v] csr_replace_snd [of c reg v] by (simp add: prod_eq_iff)
  then show ?thesis
    by (simp add: hart_csr_replace_def check_privilege_iff [OF assms] check_write_def xwrite_def)
qed

lemma hart_csr_update_eq:
  assumes "reg \<in> set CSRegister_iter" "\<And>c. fst (upd c reg v) = csr_read c reg"
  shows "hart_csr_update upd h reg no_write v rd =
    (if csr_denied (h_mode h) reg \<or> \<not> no_write \<and> is_read_only reg then Inl IllegalInstruction
     else Inr (h\<lparr>h_csregisters := (if no_write then h_csregisters h else snd (upd (h_csregisters h) reg v)),
       h_xregisters := xwrite (h_xregisters h) rd (csr_read (h_csregisters h) reg)\<rparr>))"
  using assms(2) by (simp add: hart_csr_update_def check_privilege_iff [OF assms(1)] check_write_def
      split_def Let_def)

lemma csr_set_bits_fst: "fst (csr_set_bits c reg v) = csr_read c reg"
  by (simp add: csr_set_bits_def Let_def)

lemma csr_clear_bits_fst: "fst (csr_clear_bits c reg v) = csr_read c reg"
  by (simp add: csr_clear_bits_def Let_def)

text \<open>
  The CSR instructions as one function: what is written, if anything, and whether the access is
  an error.
\<close>

lemmas zicsr_defs = run_csrrw_def run_csrrwi_def run_csrrs_def run_csrrsi_def run_csrrc_def
  run_csrrci_def Let_def

definition csr_step :: "HartState \<Rightarrow> CSRegister \<Rightarrow> bool \<Rightarrow> CSRValue \<Rightarrow> XRegister \<Rightarrow> (Exception, HartState) result" where
  "csr_step h reg no_write v rd =
     (if csr_denied (h_mode h) reg \<or> \<not> no_write \<and> is_read_only reg then Inl IllegalInstruction
      else Inr (h\<lparr>h_csregisters := (if no_write then h_csregisters h else csr_write (h_csregisters h) reg v),
        h_xregisters := xwrite (h_xregisters h) rd (csr_read (h_csregisters h) reg)\<rparr>))"

lemma zicsr_csr_step:
  assumes "reg \<in> set CSRegister_iter"
  shows "run_csrrw h reg rs1 rd = csr_step h reg False (xread (h_xregisters h) rs1) rd"
    "run_csrrwi h reg imm rd = csr_step h reg False (imm AND 0x1F) rd"
    "run_csrrs h reg rs1 rd = csr_step h reg (is_zero rs1)
       (csr_read (h_csregisters h) reg OR xread (h_xregisters h) rs1) rd"
    "run_csrrsi h reg imm rd = csr_step h reg (imm AND 0x1F = 0)
       (csr_read (h_csregisters h) reg OR (imm AND 0x1F)) rd"
    "run_csrrc h reg rs1 rd = csr_step h reg (is_zero rs1)
       (csr_read (h_csregisters h) reg AND NOT (xread (h_xregisters h) rs1)) rd"
    "run_csrrci h reg imm rd = csr_step h reg (imm AND 0x1F = 0)
       (csr_read (h_csregisters h) reg AND NOT (imm AND 0x1F)) rd"
  by (simp_all add: zicsr_defs csr_step_def hart_csr_replace_eq [OF assms]
      hart_csr_update_eq [OF assms] csr_set_bits_fst csr_set_bits_snd csr_clear_bits_fst
      csr_clear_bits_snd)

lemma is_read_only_div: "is_read_only reg \<longleftrightarrow> reg div 0x400 mod 4 = 3"
proof -
  have "drop_bit 10 reg AND 3 = drop_bit 10 reg AND mask 2"
    by (simp add: mask_eq_exp_minus_1)
  also have "\<dots> = reg div 0x400 mod 4"
    by (simp add: take_bit_eq_mask [symmetric] take_bit_eq_mod drop_bit_eq_div)
  finally show ?thesis
    by (simp add: is_read_only_def)
qed

lemma user_writable:
  assumes "reg \<in> set CSRegister_iter" "\<not> csr_denied User reg" "\<not> is_read_only reg"
  shows "reg \<in> {csr_fflags, csr_frm, csr_fcsr}"
proof -
  have u: "reg div 0x100 mod 4 = 0" "reg div 0x400 mod 4 \<noteq> 3"
    using assms(2,3) by (auto simp: csr_denied_def privilege_of_bits_def is_read_only_div split: if_splits)
  have "reg div 0x400 = 3" if "reg \<in> {0xC03..<0xC20}"
    using that by (intro div_nat_eqI) simp_all
  moreover have "reg div 0x100 = 3" if "reg \<in> {0x3B0..<0x3F0} \<union> {0x323..<0x340}"
    using that by (intro div_nat_eqI) auto
  moreover have "reg div 0x100 = 11" if "reg \<in> {0xB03..<0xB20}"
    using that by (intro div_nat_eqI) auto
  ultimately have "reg \<notin> {0xC03..<0xC20}" "reg \<notin> {0x3B0..<0x3F0}" "reg \<notin> {0xB03..<0xB20}"
    "reg \<notin> {0x323..<0x340}"
    using u by auto
  moreover let ?X = "set (CSRs_supervisor @ CSRs_hypervisor @ CSRs_machine @ CSRs_nmi @ CSRs_debug) \<union>
      {csr_cycle, csr_time, csr_instret, csr_mcycle, csr_minstret, csr_mcountinhibit,
       0x3A0, 0x3A2, 0x3A4, 0x3A6, 0x3A8, 0x3AA, 0x3AC, 0x3AE}"
  have X: "\<forall>r\<in>?X. r div 0x100 mod 4 \<noteq> 0 \<or> r div 0x400 mod 4 = 3"
    by (simp add: CSRs_supervisor_def CSRs_hypervisor_def CSRs_machine_def CSRs_nmi_def CSRs_debug_def)
  have "reg \<notin> ?X"
  proof
    assume "reg \<in> ?X"
    from bspec [OF X this] u show False by simp
  qed
  ultimately show ?thesis
    using assms(1) by (auto simp: CSRegister_iter_def CSRs_floating_point_def CSRs_counters_def
      CSRs_memory_protection_def CSRs_machine_counters_def CSRs_counter_setup_def
      simp del: upt_rec_numeral)
qed

lemma fcsr_not_denied: "\<not> csr_denied m csr_fcsr"
  by (simp add: csr_denied_def privilege_of_bits_def)

lemma csr_denied_shadowed:
  assumes "\<not> csr_denied m reg" "csr_denied m i" "i = shadowed reg"
  shows "reg = csr_sstatus \<or> reg = csr_sip \<or> reg = csr_sie"
proof -
  have "shadowed reg \<noteq> reg" "shadowed reg \<noteq> csr_fcsr"
    using assms fcsr_not_denied by metis+
  then show ?thesis
    by (auto simp: shadowed_def split: if_splits)
qed

text \<open>
  C26: The six CSR instructions raise an illegal-instruction exception exactly when the mode lacks
  the privilege encoded in bits 9 and 8 of the address, or when a read-only register would be
  written; \<open>CSRRS\<close> and \<open>CSRRC\<close> with \<open>x0\<close> or a zero immediate do not write.  Otherwise
  \<open>rd\<close> receives the old value, the register is updated through the write rules, and mode, program
  counter and floating point registers are unchanged.
\<close>

theorem csr_instructions_correct:
  assumes "reg \<in> set CSRegister_iter"
  shows "run_csrrw h reg rs1 rd = csr_step h reg False (xread (h_xregisters h) rs1) rd \<and>
    run_csrrwi h reg imm rd = csr_step h reg False (imm AND 0x1F) rd \<and>
    run_csrrs h reg rs1 rd = csr_step h reg (is_zero rs1)
       (csr_read (h_csregisters h) reg OR xread (h_xregisters h) rs1) rd \<and>
    run_csrrsi h reg imm rd = csr_step h reg (imm AND 0x1F = 0)
       (csr_read (h_csregisters h) reg OR (imm AND 0x1F)) rd \<and>
    run_csrrc h reg rs1 rd = csr_step h reg (is_zero rs1)
       (csr_read (h_csregisters h) reg AND NOT (xread (h_xregisters h) rs1)) rd \<and>
    run_csrrci h reg imm rd = csr_step h reg (imm AND 0x1F = 0)
       (csr_read (h_csregisters h) reg AND NOT (imm AND 0x1F)) rd"
  using zicsr_csr_step [OF assms] by simp

theorem csr_instructions_correct_witness:
  "run_csrrw example_hart csr_mstatus x1 x2 = Inl IllegalInstruction \<and>
   run_csrrs example_hart csr_cycle x0 x2 =
     Inr (example_hart\<lparr>h_xregisters := xwrite (h_xregisters example_hart) x2
       (csr_read (h_csregisters example_hart) csr_cycle)\<rparr>)"
proof -
  have "csr_mstatus \<in> set CSRegister_iter" "csr_cycle \<in> set CSRegister_iter"
    by (simp_all add: CSRegister_iter_def CSRs_machine_def CSRs_counters_def)
  from csr_instructions_correct [OF this(1), of example_hart x1 x2]
    csr_instructions_correct [OF this(2), of example_hart x0 x2]
  show ?thesis
    by (simp add: csr_step_def csr_denied_def privilege_of_bits_def example_hart_def is_zero_def)
qed



end
