(* ===== verification/RV_Translation.thy ===== *)
theory RV_Translation
  imports RV_Hart
begin

text \<open>
  The machine state and the translation of virtual addresses
  (\<open>machine_state/address_translation.rs\<close> with \<open>virtual_address.rs\<close>,
  \<open>physical_address.rs\<close> and \<open>pte.rs\<close>).  The loop over the levels of the page table counts
  down from \<open>LEVELS - 1\<close>, so it is a recursion on the level.

  The specification is the relation \<open>walks_to\<close>, a page walk in the vocabulary of the privileged
  architecture, and a closed form of the physical address; the translation refines it.
\<close>

record MachineState =
  ms_hart :: HartState
  ms_bus :: Bus

section \<open>Addresses and page table entries\<close>

definition PAGE_OFFSET_WIDTH :: nat where "PAGE_OFFSET_WIDTH = 12"
definition PAGE_SIZE :: u64 where "PAGE_SIZE = push_bit PAGE_OFFSET_WIDTH 1"

datatype AccessType = AT_Instruction | AT_Load | AT_Store

primrec access_exception :: "AccessType \<Rightarrow> Address \<Rightarrow> Exception" where
  "access_exception AT_Instruction addr = InstructionPageFault addr"
| "access_exception AT_Load addr = LoadPageFault addr"
| "access_exception AT_Store addr = StoreAMOPageFault addr"

record SvConstants =
  sv_levels :: nat
  sv_pte_size :: u64

primrec algorithm_constants :: "SvLength \<Rightarrow> SvConstants" where
  "algorithm_constants Sv39 = \<lparr>sv_levels = 3, sv_pte_size = 8\<rparr>"
| "algorithm_constants Sv48 = \<lparr>sv_levels = 4, sv_pte_size = 8\<rparr>"
| "algorithm_constants Sv57 = \<lparr>sv_levels = 5, sv_pte_size = 8\<rparr>"

text \<open>Ranges as \<open>end..=start\<close>, with the higher bit first.\<close>

definition get_raw_vpn_i_range :: "SvLength \<Rightarrow> nat \<Rightarrow> (nat \<times> nat) option" where
  "get_raw_vpn_i_range sv_length index =
     (if index = 0 then Some (8, 0)
      else if index = 1 then Some (17, 9)
      else if index = 2 then Some (26, 18)
      else if index = 3 \<and> (sv_length = Sv48 \<or> sv_length = Sv57) then Some (35, 27)
      else if index = 4 \<and> sv_length = Sv57 then Some (44, 36)
      else None)"

definition get_VPN_IDX :: "Twiddle \<Rightarrow> Address \<Rightarrow> SvLength \<Rightarrow> nat \<Rightarrow> CSRValue option" where
  "get_VPN_IDX tw v_addr sv_length index =
     (case get_raw_vpn_i_range sv_length index of
        None \<Rightarrow> None
      | Some (range_start, range_end) \<Rightarrow>
          Some (tw_bits tw v_addr (range_start + PAGE_OFFSET_WIDTH) (range_end + PAGE_OFFSET_WIDTH)))"

definition get_raw_ppn_i_range :: "SvLength \<Rightarrow> nat \<Rightarrow> (nat \<times> nat) option" where
  "get_raw_ppn_i_range sv_length index =
     (if index = 0 then Some (8, 0)
      else if index = 1 then Some (17, 9)
      else if index = 2 \<and> sv_length = Sv39 then Some (43, 18)
      else if index = 2 then Some (26, 18)
      else if index = 3 \<and> sv_length = Sv48 then Some (43, 27)
      else if index = 3 \<and> sv_length = Sv57 then Some (35, 27)
      else if index = 4 \<and> sv_length = Sv57 then Some (43, 36)
      else None)"

definition get_PPN_IDX :: "Twiddle \<Rightarrow> Address \<Rightarrow> SvLength \<Rightarrow> nat \<Rightarrow> Address option" where
  "get_PPN_IDX tw p_addr sv_length index =
     (case get_raw_ppn_i_range sv_length index of
        None \<Rightarrow> None
      | Some (range_start, range_end) \<Rightarrow>
          Some (tw_bits tw p_addr (range_start + PAGE_OFFSET_WIDTH) (range_end + PAGE_OFFSET_WIDTH)))"

definition set_PPN_IDX :: "Twiddle \<Rightarrow> Address \<Rightarrow> SvLength \<Rightarrow> nat \<Rightarrow> Address \<Rightarrow> Address option" where
  "set_PPN_IDX tw p_addr sv_length index ppn_value =
     (case get_raw_ppn_i_range sv_length index of
        None \<Rightarrow> None
      | Some (range_start, range_end) \<Rightarrow>
          Some (tw_replace tw p_addr (range_start + PAGE_OFFSET_WIDTH)
                 (range_end + PAGE_OFFSET_WIDTH) ppn_value))"

definition FIELD_PAGE_OFFSET :: FieldProps where
  "FIELD_PAGE_OFFSET = FieldProps_new 0 (of_nat PAGE_OFFSET_WIDTH)"

definition get_PAGE_OFFSET :: "Address \<Rightarrow> UnsignedValue" where
  "get_PAGE_OFFSET v_addr = get_field FIELD_PAGE_OFFSET UnsignedValue_new v_addr"

definition set_PAGE_OFFSET :: "Address \<Rightarrow> UnsignedValue \<Rightarrow> Address" where
  "set_PAGE_OFFSET p_addr v = set_field FIELD_PAGE_OFFSET UnsignedValue_raw_bits p_addr v"

definition get_FLAG_V :: "u64 \<Rightarrow> bool" where
  "get_FLAG_V pte = get_field (FieldProps_new 0 1) bool_new pte"

definition get_FLAG_R :: "u64 \<Rightarrow> bool" where
  "get_FLAG_R pte = get_field (FieldProps_new 1 1) bool_new pte"

definition get_FLAG_W :: "u64 \<Rightarrow> bool" where
  "get_FLAG_W pte = get_field (FieldProps_new 2 1) bool_new pte"

definition get_FLAG_X :: "u64 \<Rightarrow> bool" where
  "get_FLAG_X pte = get_field (FieldProps_new 3 1) bool_new pte"

definition get_FLAG_A :: "u64 \<Rightarrow> bool" where
  "get_FLAG_A pte = get_field (FieldProps_new 6 1) bool_new pte"

definition get_FLAG_D :: "u64 \<Rightarrow> bool" where
  "get_FLAG_D pte = get_field (FieldProps_new 7 1) bool_new pte"

text \<open>\<open>PPNField\<close> wraps the raw bits of the field.\<close>

type_synonym PPNField = u64

definition get_pte_PPN :: "u64 \<Rightarrow> PPNField" where
  "get_pte_PPN pte = get_field (FieldProps_new 10 44) (\<lambda>value. value) pte"

definition get_ppn_i :: "Twiddle \<Rightarrow> PPNField \<Rightarrow> SvLength \<Rightarrow> nat \<Rightarrow> CSRValue option" where
  "get_ppn_i tw raw_bits sv_length index =
     (case get_raw_ppn_i_range sv_length index of
        None \<Rightarrow> None
      | Some (range_start, range_end) \<Rightarrow> Some (tw_bits tw raw_bits range_start range_end))"

section \<open>Translation\<close>

text \<open>Steps 2 to 4: the walk returns the level and the leaf entry.\<close>

fun sv_walk ::
    "Twiddle \<Rightarrow> Bus \<Rightarrow> Address \<Rightarrow> SvLength \<Rightarrow> AccessType \<Rightarrow> nat \<Rightarrow> Address \<Rightarrow> (Exception, nat \<times> u64) result"
where
  "sv_walk tw bus v_addr sv_length access_type i a =
     (case get_VPN_IDX tw v_addr sv_length i of
        None \<Rightarrow> Inl (access_exception access_type v_addr)
      | Some vpn_i \<Rightarrow>
          (let addr = a + vpn_i * sv_pte_size (algorithm_constants sv_length) in
           case bus_read bus addr of
             Inl _ \<Rightarrow> Inl (LoadAccessFault addr)
           | Inr pte \<Rightarrow>
               (let pte_v = get_FLAG_V pte;
                    pte_r = get_FLAG_R pte;
                    pte_w = get_FLAG_W pte;
                    pte_x = get_FLAG_X pte
                in if \<not> pte_v \<or> (\<not> pte_r \<and> pte_w) then Inl (access_exception access_type v_addr)
                   else if pte_r \<or> pte_x then Inr (i, pte)
                   else case i of
                          0 \<Rightarrow> Inl (access_exception access_type v_addr)
                        | Suc j \<Rightarrow>
                            sv_walk tw bus v_addr sv_length access_type j (get_pte_PPN pte * PAGE_SIZE))))"

declare sv_walk.simps [simp del]

text \<open>Step 8 assembles the physical address from parts given by \<open>f\<close>.\<close>

fun set_PPNs ::
    "Twiddle \<Rightarrow> SvLength \<Rightarrow> (nat \<Rightarrow> CSRValue option) \<Rightarrow> nat list \<Rightarrow> Address \<Rightarrow> Address option" where
  "set_PPNs tw sv_length f [] pa = Some pa"
| "set_PPNs tw sv_length f (idx # idxs) pa =
     (case f idx of
        None \<Rightarrow> None
      | Some v \<Rightarrow>
          (case set_PPN_IDX tw pa sv_length idx v of
             None \<Rightarrow> None
           | Some pa \<Rightarrow> set_PPNs tw sv_length f idxs pa))"

definition assemble_p_addr ::
    "Twiddle \<Rightarrow> Address \<Rightarrow> SvLength \<Rightarrow> nat \<Rightarrow> PPNField \<Rightarrow> Address option" where
  "assemble_p_addr tw v_addr sv_length i pte_ppn =
     (let va_page_offset = get_PAGE_OFFSET v_addr;
          levels = sv_levels (algorithm_constants sv_length);
          pa = set_PAGE_OFFSET 0 va_page_offset
      in case set_PPNs tw sv_length (get_VPN_IDX tw v_addr sv_length) [0..<i] pa of
           None \<Rightarrow> None
         | Some pa \<Rightarrow> set_PPNs tw sv_length (get_ppn_i tw pte_ppn sv_length) [i..<levels] pa)"

definition sv_translate_impl ::
    "Twiddle \<Rightarrow> Bus \<Rightarrow> Address \<Rightarrow> CSRValue \<Rightarrow> SvLength \<Rightarrow> AccessType \<Rightarrow> (Exception, Address) result" where
  "sv_translate_impl tw bus v_addr satp sv_length access_type =
     (let levels = sv_levels (algorithm_constants sv_length);
          i = levels - 1;
          a = get_satp_PPN satp * PAGE_SIZE
      in case sv_walk tw bus v_addr sv_length access_type i a of
           Inl e \<Rightarrow> Inl e
         | Inr (i, pte) \<Rightarrow>
             (let pte_ppn = get_pte_PPN pte in
              if list_ex (\<lambda>idx. get_ppn_i tw pte_ppn sv_length idx \<noteq> Some 0) (rev [0..<i])
              then Inl (access_exception access_type v_addr)
              else
                let pte_a = get_FLAG_A pte;
                    pte_d = get_FLAG_D pte
                in if \<not> pte_a \<or> (access_type = AT_Store \<and> \<not> pte_d)
                   then Inl (access_exception access_type v_addr)
                   else case assemble_p_addr tw v_addr sv_length i pte_ppn of
                          None \<Rightarrow> Inl (access_exception access_type v_addr)
                        | Some p_addr \<Rightarrow> Inr p_addr))"

definition translate :: "Twiddle \<Rightarrow> MachineState \<Rightarrow> Address \<Rightarrow> AccessType \<Rightarrow> (Exception, Address) result" where
  "translate tw m v_addr access_type =
     (if h_mode (ms_hart m) = Machine then Inr v_addr
      else
        let satp = csr_read (h_csregisters (ms_hart m)) csr_satp;
            mode = get_MODE satp
        in case mode of
             None \<Rightarrow> Inr v_addr
           | Some Bare \<Rightarrow> Inr v_addr
           | Some (Sv sv_length) \<Rightarrow>
               map_err (\<lambda>_. access_exception access_type v_addr)
                 (sv_translate_impl tw (ms_bus m) v_addr satp sv_length access_type))"

section \<open>Specification: the page walk\<close>

definition vpn :: "Address \<Rightarrow> nat \<Rightarrow> u64" where
  "vpn va i = drop_bit (12 + 9 * i) va AND mask 9"

definition pte_ppn :: "u64 \<Rightarrow> u64" where
  "pte_ppn pte = drop_bit 10 pte AND mask 44"

text \<open>
  \<open>walks_to bus va i a j leaf\<close>: from the table at \<open>a\<close> on level \<open>i\<close>, following pointer
  entries, the walk for \<open>va\<close> ends at level \<open>j\<close> with the leaf entry \<open>leaf\<close>.
\<close>

inductive walks_to :: "Bus \<Rightarrow> Address \<Rightarrow> nat \<Rightarrow> Address \<Rightarrow> nat \<Rightarrow> u64 \<Rightarrow> bool" for bus va where
  leaf: "\<lbrakk>bus_read bus (a + vpn va i * 8) = Inr pte; bit pte 0; bit pte 1 \<or> bit pte 3;
     bit pte 2 \<longrightarrow> bit pte 1\<rbrakk> \<Longrightarrow> walks_to bus va i a i pte"
| pointer: "\<lbrakk>bus_read bus (a + vpn va (Suc i) * 8) = Inr pte; bit pte 0;
     \<not> bit pte 1; \<not> bit pte 2; \<not> bit pte 3;
     walks_to bus va i (pte_ppn pte * 4096) j leaf\<rbrakk> \<Longrightarrow> walks_to bus va (Suc i) a j leaf"

inductive_cases walks_to_0E: "walks_to bus va 0 a j leaf"
inductive_cases walks_to_SucE: "walks_to bus va (Suc i) a j leaf"

definition leaf_address :: "Address \<Rightarrow> nat \<Rightarrow> u64 \<Rightarrow> Address" where
  "leaf_address va i ppn = (va AND mask (12 + 9 * i)) OR push_bit 12 (ppn AND NOT (mask (9 * i)))"

lemma walks_to_level: "walks_to bus va i a j leaf \<Longrightarrow> j \<le> i"
  by (induction rule: walks_to.induct) auto

lemma walks_to_det:
  "\<lbrakk>walks_to bus va i a j leaf; walks_to bus va i a j' leaf'\<rbrakk> \<Longrightarrow> j' = j \<and> leaf' = leaf"
proof (induction arbitrary: j' leaf' rule: walks_to.induct)
  case (leaf a i pte)
  then show ?case
    by (auto elim: walks_to.cases)
next
  case (pointer a i pte j leaf)
  from pointer.prems pointer.hyps show ?case
    by (auto elim!: walks_to_SucE dest: pointer.IH)
qed

section \<open>Refinement\<close>

abbreviation levels :: "SvLength \<Rightarrow> nat" where
  "levels sv \<equiv> sv_levels (algorithm_constants sv)"

lemma levels_le: "levels sv \<le> 5"
  by (cases sv) simp_all

lemma pte_size [simp]: "sv_pte_size (algorithm_constants sv) = 8"
  by (cases sv) simp_all

lemma level_cases:
  assumes "i < levels sv"
  obtains "i = 0" | "i = 1" | "i = 2" | "i = 3" "sv = Sv48 \<or> sv = Sv57" | "i = 4" "sv = Sv57"
  using assms by (cases sv) (simp_all, linarith+)

lemma twiddle_bits:
  "\<lbrakk>twiddle_ok tw; lo \<le> hi; hi < 64\<rbrakk> \<Longrightarrow> tw_bits tw x hi lo = drop_bit lo x AND mask (hi - lo + 1)"
  by (simp add: twiddle_ok_def)

lemma get_VPN_IDX_spec:
  assumes "twiddle_ok tw" "i < levels sv"
  shows "get_VPN_IDX tw va sv i = Some (vpn va i)"
  using assms(2) by (cases rule: level_cases)
    (auto simp: get_VPN_IDX_def get_raw_vpn_i_range_def PAGE_OFFSET_WIDTH_def vpn_def
      twiddle_bits [OF assms(1)])

lemma pte_flags:
  "get_FLAG_V pte = bit pte 0" "get_FLAG_R pte = bit pte 1" "get_FLAG_W pte = bit pte 2"
  "get_FLAG_X pte = bit pte 3" "get_FLAG_A pte = bit pte 6" "get_FLAG_D pte = bit pte 7"
  by (simp_all add: get_FLAG_V_def get_FLAG_R_def get_FLAG_W_def get_FLAG_X_def get_FLAG_A_def
      get_FLAG_D_def FieldProps_new_def get_field_bool)

lemma get_pte_PPN_spec: "get_pte_PPN pte = pte_ppn pte"
  by (simp add: get_pte_PPN_def pte_ppn_def get_field_def FieldProps_new_def shr64_def ones_mask)

lemma PAGE_SIZE_eq: "PAGE_SIZE = 4096"
  by (simp add: PAGE_SIZE_def PAGE_OFFSET_WIDTH_def)

lemma sv_walk_iff:
  assumes "twiddle_ok tw"
  shows "i < levels sv \<Longrightarrow>
    sv_walk tw bus va sv access_type i a = Inr (j, pte) \<longleftrightarrow> walks_to bus va i a j pte"
proof (induction i arbitrary: a)
  case 0
  show ?case
    unfolding sv_walk.simps [of tw bus va sv access_type 0]
    by (auto simp: get_VPN_IDX_spec [OF assms 0] Let_def pte_flags split: sum.splits
        elim!: walks_to_0E intro: walks_to.leaf)
next
  case (Suc i)
  have i: "i < levels sv"
    using Suc.prems by simp
  show ?case
    unfolding sv_walk.simps [of tw bus va sv access_type "Suc i"]
    by (auto simp: get_VPN_IDX_spec [OF assms Suc.prems] Let_def pte_flags get_pte_PPN_spec
        PAGE_SIZE_eq Suc.IH [OF i] split: sum.splits elim!: walks_to_SucE
        intro: walks_to.leaf walks_to.pointer)
qed

text \<open>The assembled address bit by bit.\<close>

lemma bit_tw_replace:
  assumes "twiddle_ok tw" "lo \<le> hi" "hi < 64"
  shows "bit (tw_replace tw x hi lo v) n \<longleftrightarrow> (if lo \<le> n \<and> n \<le> hi then bit v (n - lo) else bit x n)"
  using assms by (auto simp: twiddle_ok_def bit_and_iff bit_or_iff bit_not_iff bit_push_bit_iff
      bit_mask_iff dest: bit_imp_le_length)

lemma bit_tw_bits:
  assumes "twiddle_ok tw" "lo \<le> hi" "hi < 64"
  shows "bit (tw_bits tw x hi lo) n \<longleftrightarrow> n \<le> hi - lo \<and> bit x (lo + n)"
  using assms by (auto simp: twiddle_bits bit_simps dest: bit_imp_le_length)

lemma bit_page_offset: "bit (set_PAGE_OFFSET 0 (get_PAGE_OFFSET va)) n \<longleftrightarrow> n < 12 \<and> bit va n"
  by (auto simp: set_PAGE_OFFSET_def get_PAGE_OFFSET_def FIELD_PAGE_OFFSET_def FieldProps_new_def
      PAGE_OFFSET_WIDTH_def set_field_def get_field_def UnsignedValue_new_def
      UnsignedValue_raw_bits_def ones_mask shl64_def shr64_def bit_simps)

lemma bit_leaf_address:
  assumes "ppn AND mask 44 = ppn"
  shows "bit (leaf_address va i ppn) n \<longleftrightarrow>
    (if n < 12 + 9 * i then bit va n else n < 56 \<and> bit ppn (n - 12))"
proof -
  have "bit ppn k \<Longrightarrow> k < 44" for k
    using assms by (metis bit_and_iff bit_mask_iff)
  from this [of "n - 12"] show ?thesis
    by (auto simp: leaf_address_def bit_simps dest: bit_imp_le_length)
qed

definition ppn_range :: "SvLength \<Rightarrow> nat \<Rightarrow> nat \<times> nat" where
  "ppn_range sv i = (if Suc i = levels sv then (43, 9 * i) else (9 * i + 8, 9 * i))"

lemma get_raw_ppn_i_range_spec:
  "i < levels sv \<Longrightarrow> get_raw_ppn_i_range sv i = Some (ppn_range sv i)"
  by (cases rule: level_cases, assumption) (cases sv; simp add: get_raw_ppn_i_range_def ppn_range_def)+

lemma set_PPN_IDX_spec:
  assumes "twiddle_ok tw" "i < levels sv"
  shows "\<exists>pa'. set_PPN_IDX tw pa sv i v = Some pa' \<and>
    (\<forall>n. bit pa' n \<longleftrightarrow>
      (if 12 + 9 * i \<le> n \<and> n \<le> 12 + fst (ppn_range sv i) then bit v (n - (12 + 9 * i)) else bit pa n))"
proof -
  have r: "snd (ppn_range sv i) = 9 * i" "9 * i \<le> fst (ppn_range sv i)" "fst (ppn_range sv i) \<le> 43"
    using assms(2) levels_le [of sv] by (auto simp: ppn_range_def)
  then show ?thesis
    using assms by (auto simp: set_PPN_IDX_def get_raw_ppn_i_range_spec split_def PAGE_OFFSET_WIDTH_def
        bit_tw_replace add.commute)
qed

text \<open>Writing the parts of the levels \<open>i\<close> to \<open>k - 1\<close> in order.\<close>

lemma set_PPNs_spec:
  assumes "twiddle_ok tw" "k \<le> levels sv"
    and "\<And>idx. \<lbrakk>i \<le> idx; idx < k\<rbrakk> \<Longrightarrow> \<exists>v. f idx = Some v \<and>
      (\<forall>n. 9 * idx \<le> n \<and> n \<le> fst (ppn_range sv idx) \<longrightarrow> bit v (n - 9 * idx) = bit src (12 + n))"
  shows "\<exists>pa'. set_PPNs tw sv f [i..<k] pa = Some pa' \<and>
    (\<forall>n. bit pa' n \<longleftrightarrow>
      (if 12 + 9 * i \<le> n \<and> i < k \<and> n \<le> 12 + fst (ppn_range sv (k - 1)) then bit src n else bit pa n))"
  using assms(3)
proof (induction "k - i" arbitrary: i pa)
  case 0
  then show ?case by auto
next
  case (Suc d)
  then have ik: "i < k"
    by simp
  obtain v where v: "f i = Some v"
    "\<And>n. \<lbrakk>9 * i \<le> n; n \<le> fst (ppn_range sv i)\<rbrakk> \<Longrightarrow> bit v (n - 9 * i) = bit src (12 + n)"
    using Suc.prems [of i] ik by auto
  obtain pa1 where pa1: "set_PPN_IDX tw pa sv i v = Some pa1"
    "\<And>n. bit pa1 n \<longleftrightarrow>
      (if 12 + 9 * i \<le> n \<and> n \<le> 12 + fst (ppn_range sv i) then bit v (n - (12 + 9 * i)) else bit pa n)"
    using set_PPN_IDX_spec [OF assms(1), of i sv pa v] ik assms(2) by auto
  have "\<exists>pa'. set_PPNs tw sv f [Suc i..<k] pa1 = Some pa' \<and>
    (\<forall>n. bit pa' n \<longleftrightarrow>
      (if 12 + 9 * Suc i \<le> n \<and> Suc i < k \<and> n \<le> 12 + fst (ppn_range sv (k - 1)) then bit src n else bit pa1 n))"
    using Suc.hyps(2) Suc.prems by (intro Suc.hyps(1)) auto
  then obtain pa' where pa': "set_PPNs tw sv f [Suc i..<k] pa1 = Some pa'"
    "\<And>n. bit pa' n \<longleftrightarrow>
      (if 12 + 9 * Suc i \<le> n \<and> Suc i < k \<and> n \<le> 12 + fst (ppn_range sv (k - 1)) then bit src n else bit pa1 n)"
    by auto
  have low: "bit pa1 n = bit src n" if "12 + 9 * i \<le> n" "n \<le> 12 + fst (ppn_range sv i)" for n
    using pa1(2) [of n] v(2) [of "n - 12"] that by (simp add: algebra_simps)
  have edge: "fst (ppn_range sv i) = 9 * i + 8" if "Suc i < k"
    using that assms(2) by (simp add: ppn_range_def)
  have top: "9 * i + 8 \<le> fst (ppn_range sv (k - 1))" if "Suc i < k"
    using that assms(2) levels_le [of sv] by (auto simp: ppn_range_def)
  have last: "k - 1 = i" if "\<not> Suc i < k"
    using that ik by simp
  have "bit pa' n \<longleftrightarrow> (if 12 + 9 * i \<le> n \<and> i < k \<and> n \<le> 12 + fst (ppn_range sv (k - 1))
      then bit src n else bit pa n)" for n
    using pa'(2) [of n] pa1(2) [of n] low [of n] edge top last ik by (cases "Suc i < k") auto
  moreover have "set_PPNs tw sv f [i..<k] pa = Some pa'"
    using ik v(1) pa1(1) pa'(1) by (simp add: upt_conv_Cons)
  ultimately show ?case
    by blast
qed

lemma assemble_p_addr_spec:
  assumes "twiddle_ok tw" "i < levels sv" "ppn AND mask 44 = ppn"
  shows "assemble_p_addr tw va sv i ppn = Some (leaf_address va i ppn)"
proof -
  let ?pa0 = "set_PAGE_OFFSET 0 (get_PAGE_OFFSET va)"
  have r: "9 * idx \<le> fst (ppn_range sv idx)" "fst (ppn_range sv idx) \<le> 43" if "idx < levels sv" for idx
    using that levels_le [of sv] by (auto simp: ppn_range_def)
  have "\<exists>v. get_VPN_IDX tw va sv idx = Some v \<and>
      (\<forall>n. 9 * idx \<le> n \<and> n \<le> fst (ppn_range sv idx) \<longrightarrow> bit v (n - 9 * idx) = bit va (12 + n))"
    if "0 \<le> idx" "idx < i" for idx
    using that assms(2) by (auto simp: get_VPN_IDX_spec [OF assms(1)] vpn_def bit_simps ppn_range_def)
  then obtain pa1 where pa1: "set_PPNs tw sv (get_VPN_IDX tw va sv) [0..<i] ?pa0 = Some pa1"
    "\<And>n. bit pa1 n \<longleftrightarrow> (if 12 \<le> n \<and> 0 < i \<and> n \<le> 12 + fst (ppn_range sv (i - 1)) then bit va n
      else bit ?pa0 n)"
    using set_PPNs_spec [OF assms(1), of i sv 0 "get_VPN_IDX tw va sv" va ?pa0] assms(2) by auto
  have low: "bit pa1 n \<longleftrightarrow> n < 12 + 9 * i \<and> bit va n" for n
    using pa1(2) [of n] assms(2) by (cases "i = 0") (auto simp: bit_page_offset ppn_range_def)
  have "\<exists>v. get_ppn_i tw ppn sv idx = Some v \<and>
      (\<forall>n. 9 * idx \<le> n \<and> n \<le> fst (ppn_range sv idx) \<longrightarrow>
        bit v (n - 9 * idx) = bit (push_bit 12 ppn) (12 + n))"
    if "i \<le> idx" "idx < levels sv" for idx
    using that r [of idx] by (auto simp: get_ppn_i_def get_raw_ppn_i_range_spec split_def
        bit_tw_bits [OF assms(1)] ppn_range_def bit_push_bit_iff)
  then obtain pa2 where pa2: "set_PPNs tw sv (get_ppn_i tw ppn sv) [i..<levels sv] pa1 = Some pa2"
    "\<And>n. bit pa2 n \<longleftrightarrow> (if 12 + 9 * i \<le> n \<and> i < levels sv \<and>
        n \<le> 12 + fst (ppn_range sv (levels sv - 1)) then bit (push_bit 12 ppn) n else bit pa1 n)"
    using set_PPNs_spec [OF assms(1), of "levels sv" sv i "get_ppn_i tw ppn sv" "push_bit 12 ppn" pa1]
    by auto
  have "fst (ppn_range sv (levels sv - 1)) = 43"
    using assms(2) by (simp add: ppn_range_def)
  then have "bit pa2 n \<longleftrightarrow> bit (leaf_address va i ppn) n" for n
    using pa2(2) [of n] assms(2) by (auto simp: bit_leaf_address [OF assms(3)] low bit_push_bit_iff)
  then have "pa2 = leaf_address va i ppn"
    by (simp add: bit_eq_iff)
  then show ?thesis
    using pa1(1) pa2(1) by (simp add: assemble_p_addr_def Let_def)
qed

lemma aligned_superpage:
  assumes "twiddle_ok tw" "i < levels sv"
  shows "list_ex (\<lambda>idx. get_ppn_i tw ppn sv idx \<noteq> Some 0) (rev [0..<i]) \<longleftrightarrow> ppn AND mask (9 * i) \<noteq> 0"
proof -
  have part: "get_ppn_i tw ppn sv idx = Some (drop_bit (9 * idx) ppn AND mask 9)" if "idx < i" for idx
    using that assms(2) levels_le [of sv]
    by (auto simp: get_ppn_i_def get_raw_ppn_i_range_spec twiddle_bits [OF assms(1)] ppn_range_def)
  have "ppn AND mask (9 * i) = 0 \<longleftrightarrow> (\<forall>idx<i. drop_bit (9 * idx) ppn AND mask 9 = 0)"
  proof
    assume "ppn AND mask (9 * i) = 0"
    then have "\<not> bit (ppn AND mask (9 * i)) n" for n
      by simp
    then have z: "\<not> bit ppn n" if "n < 9 * i" for n
      using that bit_imp_le_length [of ppn n] by (auto simp: bit_and_iff bit_mask_iff)
    show "\<forall>idx<i. drop_bit (9 * idx) ppn AND mask 9 = 0"
    proof (intro allI impI bit_word_eqI)
      fix idx n
      assume "idx < i"
      then show "bit (drop_bit (9 * idx) ppn AND mask 9) n = bit (0 :: u64) n"
        using z [of "9 * idx + n"] by (auto simp: bit_and_iff bit_mask_iff bit_drop_bit_eq)
    qed
  next
    assume z: "\<forall>idx<i. drop_bit (9 * idx) ppn AND mask 9 = 0"
    have "\<not> bit ppn n" if "n < 9 * i" for n
    proof -
      have "n div 9 < i"
        using that by (simp add: div_less_iff_less_mult)
      then have "\<not> bit (drop_bit (9 * (n div 9)) ppn AND mask 9) (n mod 9)"
        using z by simp
      moreover have "9 * (n div 9) + n mod 9 = n" "n mod 9 < 9"
        by simp_all
      ultimately show ?thesis
        by (auto simp: bit_and_iff bit_mask_iff bit_drop_bit_eq)
    qed
    then show "ppn AND mask (9 * i) = 0"
      by (intro bit_word_eqI) (auto simp: bit_and_iff bit_mask_iff)
  qed
  then show ?thesis
    using part by (auto simp: list_ex_iff)
qed

lemma pte_ppn_44: "pte_ppn pte AND mask 44 = pte_ppn pte"
  by (simp add: pte_ppn_def)

lemma get_satp_PPN_spec: "get_satp_PPN satp = satp AND mask 44"
  by (simp add: get_satp_PPN_def FIELD_satp_PPN_def FieldProps_new_def get_field_def
      UnsignedValue_new_def shr64_def ones_mask)

lemma sv_translate_impl_iff:
  assumes tw: "twiddle_ok tw" and k: "Suc k = levels sv"
  shows "sv_translate_impl tw bus va satp sv access_type = Inr pa \<longleftrightarrow>
    (\<exists>i leaf. walks_to bus va k ((satp AND mask 44) * 4096) i leaf \<and>
       pte_ppn leaf AND mask (9 * i) = 0 \<and> bit leaf 6 \<and> (access_type = AT_Store \<longrightarrow> bit leaf 7) \<and>
       pa = leaf_address va i (pte_ppn leaf))"
proof -
  let ?root = "(satp AND mask 44) * 4096"
  have t: "k < levels sv" "levels sv - 1 = k"
    using k by simp_all
  note walk = sv_walk_iff [OF tw t(1), of bus va access_type ?root]
  show ?thesis
  proof (cases "sv_walk tw bus va sv access_type k ?root")
    case (Inl e)
    then have "\<not> walks_to bus va k ?root i leaf" for i leaf
      using walk [of i leaf] by simp
    then show ?thesis
      using Inl t(2) by (simp add: sv_translate_impl_def Let_def get_satp_PPN_spec PAGE_SIZE_eq)
  next
    case (Inr r)
    obtain i leaf where r: "r = (i, leaf)"
      by (cases r)
    then have w: "walks_to bus va k ?root i leaf"
      using walk [of i leaf] Inr by simp
    then have i: "i < levels sv"
      using walks_to_level t(1) by fastforce
    have "walks_to bus va k ?root j leaf' \<longleftrightarrow> j = i \<and> leaf' = leaf" for j leaf'
      using walks_to_det [OF w] w by blast
    then show ?thesis
      using Inr r t(2) assemble_p_addr_spec [OF tw i pte_ppn_44] aligned_superpage [OF tw i]
      by (auto simp: sv_translate_impl_def Let_def get_satp_PPN_spec PAGE_SIZE_eq get_pte_PPN_spec
          pte_flags)
  qed
qed

lemma translate_Sv:
  assumes "h_mode (ms_hart m) \<noteq> Machine"
    and "get_MODE (csr_read (h_csregisters (ms_hart m)) csr_satp) = Some (Sv sv)"
  shows "translate tw m va access_type = Inr pa \<longleftrightarrow>
    sv_translate_impl tw (ms_bus m) va (csr_read (h_csregisters (ms_hart m)) csr_satp) sv access_type = Inr pa"
  using assms by (auto simp: translate_def map_err_def split: sum.split)

lemma translate_leaf:
  assumes "twiddle_ok tw" "h_mode (ms_hart m) \<noteq> Machine"
    and "get_MODE (csr_read (h_csregisters (ms_hart m)) csr_satp) = Some (Sv sv)"
    and "translate tw m va access_type = Inr pa"
  shows "\<exists>i ppn. i < levels sv \<and> ppn AND mask 44 = ppn \<and> pa = leaf_address va i ppn"
proof -
  have top: "Suc (levels sv - 1) = levels sv"
    by (cases sv) simp_all
  have "sv_translate_impl tw (ms_bus m) va (csr_read (h_csregisters (ms_hart m)) csr_satp) sv access_type
      = Inr pa"
    using assms(4) unfolding translate_Sv [OF assms(2,3)] .
  then show ?thesis
    using sv_translate_impl_iff [OF assms(1) top] walks_to_level pte_ppn_44 top
    by (metis le_imp_less_Suc)
qed

section \<open>Properties\<close>


text \<open>An Sv39 table at the start of main memory whose first entry maps a gigapage onto itself.\<close>

definition example_vm :: MachineState where
  "example_vm =
     \<lparr>ms_hart = example_hart\<lparr>h_mode := Supervisor,
        h_csregisters := csr_write (h_csregisters example_hart) csr_satp 0x8000000000080000\<rparr>,
      ms_bus = \<lparr>bus_devices = \<lparr>dev_placeholder = 0\<rparr>,
        bus_memory = \<lparr>mm_BYTES = 4096, mm_data = \<lambda>i. if i = 0 then 0xC3 else if i = 3 then 0x20 else 0\<rparr>\<rparr>\<rparr>"

lemma example_vm_MODE: "get_MODE 0x8000000000080000 = Some (Sv Sv39)"
  by (simp add: get_MODE_def FIELD_MODE_def SATP_MODE_OFFSET_def FieldProps_new_def get_field_def
      shr64_def ones_mask mask_eq_exp_minus_1 TranslationAlgorithm_new_def MODE_BARE_def MODE_SV39_def)

lemma example_vm_satp:
  "csr_read (h_csregisters (ms_hart example_vm)) csr_satp = 0x8000000000080000"
  by (simp add: example_vm_def csr_read_write_same writable_satp transform_warl_satp_def
      example_vm_MODE fcsr_view_def)

lemma example_vm_walk:
  "walks_to (ms_bus example_vm) 0x1234 2 0x80000000 2 0x200000C3"
proof (rule walks_to.leaf)
  have "data_read (mm_data (bus_memory (ms_bus example_vm))) 0 8 = [0xC3, 0, 0, 0x20, 0, 0, 0, 0]"
    by (simp add: data_read_def example_vm_def upt_rec [of 0] upt_rec [of "Suc 0"]
        numeral_2_eq_2 [symmetric])
  then show "bus_read (ms_bus example_vm) (0x80000000 + vpn 0x1234 2 * 8) = Inr (0x200000C3 :: u64)"
    by (simp add: bus_eval example_vm_def vpn_def)
qed simp_all

lemma example_vm_leaf: "leaf_address 0x1234 2 (pte_ppn 0x200000C3) = 0x80001234"
  by (simp add: leaf_address_def pte_ppn_def mask_eq_exp_minus_1)

lemma example_vm_spec:
  "\<exists>i leaf. walks_to (ms_bus example_vm) 0x1234 2
       ((csr_read (h_csregisters (ms_hart example_vm)) csr_satp AND mask 44) * 4096) i leaf \<and>
     pte_ppn leaf AND mask (9 * i) = 0 \<and> bit leaf 6 \<and> (AT_Load = AT_Store \<longrightarrow> bit leaf 7) \<and>
     0x80001234 = leaf_address 0x1234 i (pte_ppn leaf)"
  using example_vm_walk example_vm_leaf
  by (intro exI [of _ 2] exI [of _ "0x200000C3"])
    (simp add: example_vm_satp pte_ppn_def mask_eq_exp_minus_1)


text \<open>
  A failed translation raises exactly the page fault of the access type, with the virtual address
  of the access; and there is no translation in machine mode or when \<open>satp\<close> selects no
  supported scheme.
\<close>

theorem translate_faults:
  "(translate tw m va access_type = Inl e \<longrightarrow> e = access_exception access_type va) \<and>
   (h_mode (ms_hart m) = Machine \<or>
    get_MODE (csr_read (h_csregisters (ms_hart m)) csr_satp) \<in> {None, Some Bare} \<longrightarrow>
    translate tw m va access_type = Inr va)"
  by (auto simp: translate_def map_err_def Let_def split: option.splits TranslationAlgorithm.splits
      sum.splits if_splits)

theorem translate_faults_witness:
  "translate std_twiddle (example_vm\<lparr>ms_hart := (ms_hart example_vm)\<lparr>h_mode := Machine\<rparr>\<rparr>) 0x1234 AT_Store =
     Inr 0x1234"
  using translate_faults [of std_twiddle
      "example_vm\<lparr>ms_hart := (ms_hart example_vm)\<lparr>h_mode := Machine\<rparr>\<rparr>" "0x1234" AT_Store] by simp

text \<open>
  Translation keeps the page offset: for every scheme the low 12 bits of the physical address are
  those of the virtual address, and a translated address has at most 56 bits.
\<close>

theorem translate_page_offset:
  assumes "twiddle_ok tw" "translate tw m va access_type = Inr pa"
  shows "pa AND mask 12 = va AND mask 12 \<and> (pa = va \<or> pa AND mask 56 = pa)"
proof (cases "h_mode (ms_hart m) = Machine")
  case True
  then show ?thesis
    using assms(2) by (simp add: translate_def)
next
  case False
  show ?thesis
  proof (cases "get_MODE (csr_read (h_csregisters (ms_hart m)) csr_satp)")
    case None
    then show ?thesis
      using assms(2) False by (simp add: translate_def)
  next
    case (Some alg)
    show ?thesis
    proof (cases alg)
      case Bare
      then show ?thesis
        using assms(2) False Some by (simp add: translate_def)
    next
      case (Sv sv)
      then obtain i ppn where "i < levels sv" "ppn AND mask 44 = ppn" "pa = leaf_address va i ppn"
        using translate_leaf [OF assms(1) False _ assms(2)] Some by metis
      then show ?thesis
        using levels_le [of sv] by (auto intro!: bit_word_eqI simp: bit_and_iff bit_mask_iff
            bit_leaf_address)
    qed
  qed
qed

theorem translate_page_offset_witness:
  "\<exists>pa. translate std_twiddle example_vm 0x1234 AT_Load = Inr pa \<and> pa AND mask 12 = 0x234"
proof -
  have m: "h_mode (ms_hart example_vm) \<noteq> Machine"
    and g: "get_MODE (csr_read (h_csregisters (ms_hart example_vm)) csr_satp) = Some (Sv Sv39)"
    by (simp_all add: example_vm_satp example_vm_MODE) (simp add: example_vm_def)
  have "sv_translate_impl std_twiddle (ms_bus example_vm) 0x1234
      (csr_read (h_csregisters (ms_hart example_vm)) csr_satp) Sv39 AT_Load = Inr 0x80001234"
    using sv_translate_impl_iff [OF std_twiddle_ok, of 2 Sv39] example_vm_spec by simp
  then have t: "translate std_twiddle example_vm 0x1234 AT_Load = Inr 0x80001234"
    unfolding translate_Sv [OF m g] .
  from translate_page_offset [OF std_twiddle_ok t] t show ?thesis
    by (simp add: mask_eq_exp_minus_1)
qed

end
