(* ===== verification/RV_Integer.thy ===== *)
theory RV_Integer
  imports RV_Hart "HOL-Library.Signed_Division"
begin

text \<open>
  The instructions of the base integer set and of the M extension that work on registers only
  (\<open>interpreter/rv32i.rs\<close>, \<open>rv64i.rs\<close>, \<open>rv32m.rs\<close>, \<open>rv64m.rs\<close>).  Immediates are
  sign-extended 64-bit patterns.  The lemmas relate the results to arithmetic on the integers.
\<close>

section \<open>Base integer instructions on 64 bits\<close>

definition run_addi :: "XRegisters \<Rightarrow> i64 \<Rightarrow> XRegister \<Rightarrow> XRegister \<Rightarrow> XRegisters" where
  "run_addi s imm rs1 rd = xwrite s rd (xread s rs1 + imm)"

definition run_add :: "XRegisters \<Rightarrow> XRegister \<Rightarrow> XRegister \<Rightarrow> XRegister \<Rightarrow> XRegisters" where
  "run_add s rs1 rs2 rd = xwrite s rd (xread s rs1 + xread s rs2)"

definition run_sub :: "XRegisters \<Rightarrow> XRegister \<Rightarrow> XRegister \<Rightarrow> XRegister \<Rightarrow> XRegisters" where
  "run_sub s rs1 rs2 rd = xwrite s rd (xread s rs1 - xread s rs2)"

definition run_lui :: "XRegisters \<Rightarrow> i64 \<Rightarrow> XRegister \<Rightarrow> XRegisters" where
  "run_lui s imm rd = xwrite s rd imm"

definition run_andi :: "XRegisters \<Rightarrow> i64 \<Rightarrow> XRegister \<Rightarrow> XRegister \<Rightarrow> XRegisters" where
  "run_andi s imm rs1 rd = xwrite s rd (xread s rs1 AND imm)"

definition run_ori :: "XRegisters \<Rightarrow> i64 \<Rightarrow> XRegister \<Rightarrow> XRegister \<Rightarrow> XRegisters" where
  "run_ori s imm rs1 rd = xwrite s rd (xread s rs1 OR imm)"

definition run_xori :: "XRegisters \<Rightarrow> i64 \<Rightarrow> XRegister \<Rightarrow> XRegister \<Rightarrow> XRegisters" where
  "run_xori s imm rs1 rd = xwrite s rd (xread s rs1 XOR imm)"

definition run_and :: "XRegisters \<Rightarrow> XRegister \<Rightarrow> XRegister \<Rightarrow> XRegister \<Rightarrow> XRegisters" where
  "run_and s rs1 rs2 rd = xwrite s rd (xread s rs1 AND xread s rs2)"

definition run_or :: "XRegisters \<Rightarrow> XRegister \<Rightarrow> XRegister \<Rightarrow> XRegister \<Rightarrow> XRegisters" where
  "run_or s rs1 rs2 rd = xwrite s rd (xread s rs1 OR xread s rs2)"

definition run_xor :: "XRegisters \<Rightarrow> XRegister \<Rightarrow> XRegister \<Rightarrow> XRegister \<Rightarrow> XRegisters" where
  "run_xor s rs1 rs2 rd = xwrite s rd (xread s rs1 XOR xread s rs2)"

definition run_slti :: "XRegisters \<Rightarrow> i64 \<Rightarrow> XRegister \<Rightarrow> XRegister \<Rightarrow> XRegisters" where
  "run_slti s imm rs1 rd = xwrite s rd (if sint (xread s rs1) < sint imm then 1 else 0)"

definition run_sltiu :: "XRegisters \<Rightarrow> i64 \<Rightarrow> XRegister \<Rightarrow> XRegister \<Rightarrow> XRegisters" where
  "run_sltiu s imm rs1 rd = xwrite s rd (if xread s rs1 < imm then 1 else 0)"

definition run_slt :: "XRegisters \<Rightarrow> XRegister \<Rightarrow> XRegister \<Rightarrow> XRegister \<Rightarrow> XRegisters" where
  "run_slt s rs1 rs2 rd = xwrite s rd (if sint (xread s rs1) < sint (xread s rs2) then 1 else 0)"

definition run_sltu :: "XRegisters \<Rightarrow> XRegister \<Rightarrow> XRegister \<Rightarrow> XRegister \<Rightarrow> XRegisters" where
  "run_sltu s rs1 rs2 rd = xwrite s rd (if xread s rs1 < xread s rs2 then 1 else 0)"

section \<open>Word instructions and shifts\<close>

definition run_addiw :: "XRegisters \<Rightarrow> i64 \<Rightarrow> XRegister \<Rightarrow> XRegister \<Rightarrow> XRegisters" where
  "run_addiw s imm rs1 rd = xwrite s rd (sext32 (xread s rs1 + imm))"

definition run_addw :: "XRegisters \<Rightarrow> XRegister \<Rightarrow> XRegister \<Rightarrow> XRegister \<Rightarrow> XRegisters" where
  "run_addw s rs1 rs2 rd = xwrite s rd (sext32 (xread s rs1 + xread s rs2))"

definition run_subw :: "XRegisters \<Rightarrow> XRegister \<Rightarrow> XRegister \<Rightarrow> XRegister \<Rightarrow> XRegisters" where
  "run_subw s rs1 rs2 rd = xwrite s rd (sext32 (xread s rs1 - xread s rs2))"

definition run_slli :: "XRegisters \<Rightarrow> i64 \<Rightarrow> XRegister \<Rightarrow> XRegister \<Rightarrow> XRegisters" where
  "run_slli s imm rs1 rd = xwrite s rd (shl64 (xread s rs1) imm)"

definition run_srli :: "XRegisters \<Rightarrow> i64 \<Rightarrow> XRegister \<Rightarrow> XRegister \<Rightarrow> XRegisters" where
  "run_srli s imm rs1 rd = xwrite s rd (shr64 (xread s rs1) imm)"

definition run_srai :: "XRegisters \<Rightarrow> i64 \<Rightarrow> XRegister \<Rightarrow> XRegister \<Rightarrow> XRegisters" where
  "run_srai s imm rs1 rd = 
     (let sh_amt = imm AND 0x3F in xwrite s rd (sar64 (xread s rs1) sh_amt))"

definition run_slliw :: "XRegisters \<Rightarrow> i64 \<Rightarrow> XRegister \<Rightarrow> XRegister \<Rightarrow> XRegisters" where
  "run_slliw s imm rs1 rd = xwrite s rd (sext32 (shl64 (xread s rs1) imm))"

definition run_srliw :: "XRegisters \<Rightarrow> i64 \<Rightarrow> XRegister \<Rightarrow> XRegister \<Rightarrow> XRegisters" where
  "run_srliw s imm rs1 rd = xwrite s rd (scast (shr32 (ucast (xread s rs1)) imm))"

definition run_sraiw :: "XRegisters \<Rightarrow> i64 \<Rightarrow> XRegister \<Rightarrow> XRegister \<Rightarrow> XRegisters" where
  "run_sraiw s imm rs1 rd = 
     (let sh_amt = imm AND 0x1F in xwrite s rd (scast (sar32 (ucast (xread s rs1)) sh_amt)))"

definition run_sll :: "XRegisters \<Rightarrow> XRegister \<Rightarrow> XRegister \<Rightarrow> XRegister \<Rightarrow> XRegisters" where
  "run_sll s rs1 rs2 rd = 
     (let sh_amt = xread s rs2 AND 0x3F in xwrite s rd (shl64 (xread s rs1) sh_amt))"

definition run_srl :: "XRegisters \<Rightarrow> XRegister \<Rightarrow> XRegister \<Rightarrow> XRegister \<Rightarrow> XRegisters" where
  "run_srl s rs1 rs2 rd = 
     (let sh_amt = xread s rs2 AND 0x3F in xwrite s rd (shr64 (xread s rs1) sh_amt))"

definition run_sra :: "XRegisters \<Rightarrow> XRegister \<Rightarrow> XRegister \<Rightarrow> XRegister \<Rightarrow> XRegisters" where
  "run_sra s rs1 rs2 rd = 
     (let sh_amt = xread s rs2 AND 0x3F in xwrite s rd (sar64 (xread s rs1) sh_amt))"

definition run_sllw :: "XRegisters \<Rightarrow> XRegister \<Rightarrow> XRegister \<Rightarrow> XRegister \<Rightarrow> XRegisters" where
  "run_sllw s rs1 rs2 rd = 
     (let sh_amt = xread s rs2 AND 0x1F in xwrite s rd (sext32 (shl64 (xread s rs1) sh_amt)))"

definition run_srlw :: "XRegisters \<Rightarrow> XRegister \<Rightarrow> XRegister \<Rightarrow> XRegister \<Rightarrow> XRegisters" where
  "run_srlw s rs1 rs2 rd = 
     (let sh_amt = xread s rs2 AND 0x1F
      in xwrite s rd (scast (shr32 (ucast (xread s rs1)) sh_amt)))"

definition run_sraw :: "XRegisters \<Rightarrow> XRegister \<Rightarrow> XRegister \<Rightarrow> XRegister \<Rightarrow> XRegisters" where
  "run_sraw s rs1 rs2 rd = 
     (let sh_amt = xread s rs2 AND 0x1F
      in xwrite s rd (scast (sar32 (ucast (xread s rs1)) sh_amt)))"

section \<open>Multiplication and division on 64 bits\<close>

definition i64_MIN :: u64 where "i64_MIN = 0x8000000000000000"
definition i32_MIN :: u32 where "i32_MIN = 0x80000000"

definition run_rem :: "XRegisters \<Rightarrow> XRegister \<Rightarrow> XRegister \<Rightarrow> XRegister \<Rightarrow> XRegisters" where
  "run_rem s rs1 rs2 rd = 
     (let rval1 = xread s rs1;
          rval2 = xread s rs2;
          result = (if rval2 = 0 then rval1
                    else if rval2 = -1 \<and> rval1 = i64_MIN then 0
                    else word_of_int (sint rval1 smod sint rval2))
      in xwrite s rd result)"

definition run_remu :: "XRegisters \<Rightarrow> XRegister \<Rightarrow> XRegister \<Rightarrow> XRegister \<Rightarrow> XRegisters" where
  "run_remu s rs1 rs2 rd = 
     (let rval1 = xread s rs1;
          rval2 = xread s rs2
      in xwrite s rd (if rval2 = 0 then rval1 else rval1 mod rval2))"

definition run_div :: "XRegisters \<Rightarrow> XRegister \<Rightarrow> XRegister \<Rightarrow> XRegister \<Rightarrow> XRegisters" where
  "run_div s rs1 rs2 rd = 
     (let rval1 = xread s rs1;
          rval2 = xread s rs2;
          result = (if rval2 = 0 then -1
                    else if rval2 = -1 \<and> rval1 = i64_MIN then i64_MIN
                    else word_of_int (sint rval1 sdiv sint rval2))
      in xwrite s rd result)"

definition run_divu :: "XRegisters \<Rightarrow> XRegister \<Rightarrow> XRegister \<Rightarrow> XRegister \<Rightarrow> XRegisters" where
  "run_divu s rs1 rs2 rd = 
     (let rval1 = xread s rs1;
          rval2 = xread s rs2
      in xwrite s rd (if rval2 = 0 then -1 else rval1 div rval2))"

definition run_mul :: "XRegisters \<Rightarrow> XRegister \<Rightarrow> XRegister \<Rightarrow> XRegister \<Rightarrow> XRegisters" where
  "run_mul s rs1 rs2 rd = xwrite s rd (xread s rs1 * xread s rs2)"

definition run_mulh :: "XRegisters \<Rightarrow> XRegister \<Rightarrow> XRegister \<Rightarrow> XRegister \<Rightarrow> XRegisters" where
  "run_mulh s rs1 rs2 rd = 
     (let rval1 = scast (xread s rs1) :: u128;
          rval2 = scast (xread s rs2) :: u128;
          result = rval1 * rval2
      in xwrite s rd (ucast (signed_drop_bit 64 result)))"

definition run_mulhsu :: "XRegisters \<Rightarrow> XRegister \<Rightarrow> XRegister \<Rightarrow> XRegister \<Rightarrow> XRegisters" where
  "run_mulhsu s rs1 rs2 rd = 
     (let rval1 = scast (xread s rs1) :: u128;
          rval2 = ucast (xread s rs2) :: u128;
          result = rval1 * rval2
      in xwrite s rd (ucast (drop_bit 64 result)))"

definition run_mulhu :: "XRegisters \<Rightarrow> XRegister \<Rightarrow> XRegister \<Rightarrow> XRegister \<Rightarrow> XRegisters" where
  "run_mulhu s rs1 rs2 rd = 
     (let rval1 = ucast (xread s rs1) :: u128;
          rval2 = ucast (xread s rs2) :: u128;
          result = rval1 * rval2
      in xwrite s rd (ucast (drop_bit 64 result)))"

section \<open>Multiplication and division on 32 bits\<close>

definition run_remw :: "XRegisters \<Rightarrow> XRegister \<Rightarrow> XRegister \<Rightarrow> XRegister \<Rightarrow> XRegisters" where
  "run_remw s rs1 rs2 rd = 
     (let rval1 = ucast (xread s rs1) :: u32;
          rval2 = ucast (xread s rs2) :: u32;
          result = (if rval2 = 0 then rval1
                    else if rval2 = -1 \<and> rval1 = i32_MIN then 0
                    else word_of_int (sint rval1 smod sint rval2))
      in xwrite s rd (scast result))"

definition run_remuw :: "XRegisters \<Rightarrow> XRegister \<Rightarrow> XRegister \<Rightarrow> XRegister \<Rightarrow> XRegisters" where
  "run_remuw s rs1 rs2 rd = 
     (let rval1 = ucast (xread s rs1) :: u32;
          rval2 = ucast (xread s rs2) :: u32;
          result = (if rval2 = 0 then rval1 else rval1 mod rval2)
      in xwrite s rd (scast result))"

definition run_divw :: "XRegisters \<Rightarrow> XRegister \<Rightarrow> XRegister \<Rightarrow> XRegister \<Rightarrow> XRegisters" where
  "run_divw s rs1 rs2 rd = 
     (let rval1 = ucast (xread s rs1) :: u32;
          rval2 = ucast (xread s rs2) :: u32;
          result = (if rval2 = 0 then -1
                    else if rval2 = -1 \<and> rval1 = i32_MIN then i32_MIN
                    else word_of_int (sint rval1 sdiv sint rval2))
      in xwrite s rd (scast result))"

definition run_divuw :: "XRegisters \<Rightarrow> XRegister \<Rightarrow> XRegister \<Rightarrow> XRegister \<Rightarrow> XRegisters" where
  "run_divuw s rs1 rs2 rd = 
     (let rval1 = ucast (xread s rs1) :: u32;
          rval2 = ucast (xread s rs2) :: u32;
          result = (if rval2 = 0 then -1 else rval1 div rval2)
      in xwrite s rd (scast result))"

definition run_mulw :: "XRegisters \<Rightarrow> XRegister \<Rightarrow> XRegister \<Rightarrow> XRegister \<Rightarrow> XRegisters" where
  "run_mulw s rs1 rs2 rd = 
     (let rval1 = ucast (xread s rs1) :: u32;
          rval2 = ucast (xread s rs2) :: u32
      in xwrite s rd (scast (rval1 * rval2)))"

section \<open>Control transfer\<close>

text \<open>
  These read the program counter of the hart, not the address the instruction was fetched from.
\<close>

definition run_auipc :: "HartState \<Rightarrow> i64 \<Rightarrow> XRegister \<Rightarrow> HartState" where
  "run_auipc h imm rd = h\<lparr>h_xregisters := xwrite (h_xregisters h) rd (h_pc h + imm)\<rparr>"

definition run_ebreak :: "HartState \<Rightarrow> Exception" where
  "run_ebreak h = Breakpoint"

definition run_ecall :: "HartState \<Rightarrow> Exception" where
  "run_ecall h =
     (case h_mode h of
        User \<Rightarrow> EnvCallFromUMode
      | Supervisor \<Rightarrow> EnvCallFromSMode
      | Machine \<Rightarrow> EnvCallFromMMode)"

definition run_jalr_impl :: "u64 \<Rightarrow> HartState \<Rightarrow> i64 \<Rightarrow> XRegister \<Rightarrow> XRegister \<Rightarrow> Address \<times> HartState" where
  "run_jalr_impl INSTR_WIDTH h imm rs1 rd =
     (let return_address = h_pc h + INSTR_WIDTH;
          target_address = (xread (h_xregisters h) rs1 + imm) AND NOT 1
      in (target_address, h\<lparr>h_xregisters := xwrite (h_xregisters h) rd return_address\<rparr>))"

definition run_jalr :: "HartState \<Rightarrow> i64 \<Rightarrow> XRegister \<Rightarrow> XRegister \<Rightarrow> Address \<times> HartState" where
  "run_jalr h imm rs1 rd = run_jalr_impl 4 h imm rs1 rd"

definition run_jal_impl :: "u64 \<Rightarrow> HartState \<Rightarrow> i64 \<Rightarrow> XRegister \<Rightarrow> Address \<times> HartState" where
  "run_jal_impl INSTR_WIDTH h imm rd =
     (let current_pc = h_pc h;
          return_address = current_pc + INSTR_WIDTH
      in (current_pc + imm, h\<lparr>h_xregisters := xwrite (h_xregisters h) rd return_address\<rparr>))"

definition run_jal :: "HartState \<Rightarrow> i64 \<Rightarrow> XRegister \<Rightarrow> Address \<times> HartState" where
  "run_jal h imm rd = run_jal_impl 4 h imm rd"

definition run_beq_impl :: "u64 \<Rightarrow> HartState \<Rightarrow> i64 \<Rightarrow> XRegister \<Rightarrow> XRegister \<Rightarrow> Address" where
  "run_beq_impl INSTR_WIDTH h imm rs1 rs2 =
     (let current_pc = h_pc h
      in if xread (h_xregisters h) rs1 = xread (h_xregisters h) rs2
         then current_pc + imm else current_pc + INSTR_WIDTH)"

definition run_beq :: "HartState \<Rightarrow> i64 \<Rightarrow> XRegister \<Rightarrow> XRegister \<Rightarrow> Address" where
  "run_beq h imm rs1 rs2 = run_beq_impl 4 h imm rs1 rs2"

definition run_bne_impl :: "u64 \<Rightarrow> HartState \<Rightarrow> i64 \<Rightarrow> XRegister \<Rightarrow> XRegister \<Rightarrow> Address" where
  "run_bne_impl INSTR_WIDTH h imm rs1 rs2 =
     (let current_pc = h_pc h
      in if xread (h_xregisters h) rs1 \<noteq> xread (h_xregisters h) rs2
         then current_pc + imm else current_pc + INSTR_WIDTH)"

definition run_bne :: "HartState \<Rightarrow> i64 \<Rightarrow> XRegister \<Rightarrow> XRegister \<Rightarrow> Address" where
  "run_bne h imm rs1 rs2 = run_bne_impl 4 h imm rs1 rs2"

definition run_bge :: "HartState \<Rightarrow> i64 \<Rightarrow> XRegister \<Rightarrow> XRegister \<Rightarrow> Address" where
  "run_bge h imm rs1 rs2 =
     (let current_pc = h_pc h;
          lhs = sint (xread (h_xregisters h) rs1);
          rhs = sint (xread (h_xregisters h) rs2)
      in if lhs \<ge> rhs then current_pc + imm else current_pc + 4)"

definition run_bgeu :: "HartState \<Rightarrow> i64 \<Rightarrow> XRegister \<Rightarrow> XRegister \<Rightarrow> Address" where
  "run_bgeu h imm rs1 rs2 =
     (let current_pc = h_pc h;
          lhs = xread (h_xregisters h) rs1;
          rhs = xread (h_xregisters h) rs2
      in if lhs \<ge> rhs then current_pc + imm else current_pc + 4)"

definition run_blt :: "HartState \<Rightarrow> i64 \<Rightarrow> XRegister \<Rightarrow> XRegister \<Rightarrow> Address" where
  "run_blt h imm rs1 rs2 =
     (let current_pc = h_pc h;
          lhs = sint (xread (h_xregisters h) rs1);
          rhs = sint (xread (h_xregisters h) rs2)
      in if lhs < rhs then current_pc + imm else current_pc + 4)"

definition run_bltu :: "HartState \<Rightarrow> i64 \<Rightarrow> XRegister \<Rightarrow> XRegister \<Rightarrow> Address" where
  "run_bltu h imm rs1 rs2 =
     (let current_pc = h_pc h;
          lhs = xread (h_xregisters h) rs1;
          rhs = xread (h_xregisters h) rs2
      in if lhs < rhs then current_pc + imm else current_pc + 4)"

section \<open>Arithmetic of the results\<close>

lemma sdiv_smod_word:
  fixes a b :: "'a :: len word"
  shows "b * word_of_int (sint a sdiv sint b) + word_of_int (sint a smod sint b) = a"
proof -
  have "b * word_of_int (sint a sdiv sint b) + word_of_int (sint a smod sint b) =
        word_of_int (sint b * (sint a sdiv sint b) + sint a smod sint b)"
    by simp
  then show ?thesis by (simp add: mult_sdiv_smod_eq)
qed

lemma sint_word_of_int_range:
  fixes k :: int
  assumes "- (2 ^ (LENGTH('a) - 1)) \<le> k" "k < 2 ^ (LENGTH('a) - 1)"
  shows "sint (word_of_int k :: 'a :: len word) = k"
  using assms by (simp add: sint_sbintrunc' signed_take_bit_int_eq_self_iff)

lemma sint_eq_iff:
  fixes a b :: "'a :: len word"
  shows "sint a = sint b \<longleftrightarrow> a = b"
  by (auto intro: signed_word_eqI)

lemma sint_bounds:
  fixes a :: "'a :: len word"
  shows "- (2 ^ (LENGTH('a) - 1)) \<le> sint a" "sint a < 2 ^ (LENGTH('a) - 1)"
  using sint_greater_eq [of a] sint_less [of a] by simp_all

lemma sint_smod_word:
  fixes a b :: "'a :: len word"
  assumes "b \<noteq> 0"
  shows "sint (word_of_int (sint a smod sint b) :: 'a word) = sint a smod sint b"
proof -
  have "sint b \<noteq> 0" using assms by (simp add: signed_eq_0_iff)
  then have "\<bar>sint a smod sint b\<bar> < \<bar>sint b\<bar>"
    using smod_int_range [of "sint b" "sint a"] by auto
  moreover have "\<bar>sint b\<bar> \<le> 2 ^ (LENGTH('a) - 1)"
    using sint_bounds [of b] by simp
  ultimately show ?thesis by (intro sint_word_of_int_range) linarith+
qed

lemma smod_1: "(k :: int) smod 1 = 0"
  by (simp add: smod_int_alt_def)

lemma smod_sign:
  fixes k l :: int
  assumes "l \<noteq> 0"
  shows "\<bar>k smod l\<bar> < \<bar>l\<bar> \<and> (k smod l = 0 \<or> sgn (k smod l) = sgn k)"
proof -
  have "\<bar>k smod l\<bar> < \<bar>l\<bar>" using smod_int_range [of l k] assms by auto
  moreover have "\<bar>k\<bar> mod \<bar>l\<bar> = 0 \<or> 0 < \<bar>k\<bar> mod \<bar>l\<bar>"
    using assms pos_mod_sign [of "\<bar>l\<bar>" "\<bar>k\<bar>"] by linarith
  ultimately show ?thesis
    by (auto simp: smod_int_alt_def sgn_mult sgn_1_pos)
qed

lemma sdiv_in_range:
  fixes k l m :: int
  assumes "- m \<le> k" "k < m" "l \<noteq> 0" "\<not> (k = - m \<and> l = -1)"
  shows "- m \<le> k sdiv l \<and> k sdiv l < m"
proof (cases "\<bar>l\<bar> = 1")
  case True
  then consider "l = 1" | "l = -1" by linarith
  then show ?thesis using assms by cases auto
next
  case False
  with assms(3) have "2 \<le> \<bar>l\<bar>" by linarith
  moreover have "0 < m" using assms(1,2) by linarith
  moreover have "\<bar>k\<bar> \<le> m" using assms(1,2) by linarith
  ultimately have "\<bar>k\<bar> div \<bar>l\<bar> < m"
    by (smt (verit) int_div_less_self pos_imp_zdiv_neg_iff zdiv_mono1 div_pos_pos_trivial)
  moreover have "\<bar>k sdiv l\<bar> \<le> \<bar>k\<bar> div \<bar>l\<bar>"
    using assms(3) by (simp add: signed_divide_int_def abs_mult abs_sgn_eq pos_imp_zdiv_nonneg_iff)
  ultimately show ?thesis by linarith
qed

lemma sint_sdiv_word:
  fixes a b :: "'a :: len word"
  assumes "b \<noteq> 0" "\<not> (sint a = - (2 ^ (LENGTH('a) - 1)) \<and> b = -1)"
  shows "sint (word_of_int (sint a sdiv sint b) :: 'a word) = sint a sdiv sint b"
proof -
  have "sint b \<noteq> 0" using assms(1) by (simp add: signed_eq_0_iff)
  moreover have "sint b = -1 \<longleftrightarrow> b = -1"
    by (simp add: sint_eq_iff [of b "-1", simplified])
  ultimately show ?thesis
    using sdiv_in_range [of "2 ^ (LENGTH('a) - 1)" "sint a" "sint b"] sint_bounds [of a] assms(2)
    by (intro sint_word_of_int_range) auto
qed

lemma high_word:
  fixes k :: int
  shows "ucast (drop_bit 64 (word_of_int k :: u128)) = (word_of_int (k div 2 ^ 64) :: u64)"
    and "ucast (signed_drop_bit 64 (word_of_int k :: u128)) = (word_of_int (k div 2 ^ 64) :: u64)"
  unfolding drop_bit_eq_div [symmetric]
  by (rule bit_word_eqI; simp add: bit_unsigned_iff bit_drop_bit_eq bit_signed_drop_bit_iff
        bit_word_of_int_iff ac_simps)+

lemma product_bounds:
  fixes x y A B :: int
  assumes "- A \<le> x" "x \<le> A" "- B \<le> y" "y \<le> B"
  shows "- (A * B) \<le> x * y \<and> x * y \<le> A * B"
proof -
  have "\<bar>x * y\<bar> \<le> A * B"
    unfolding abs_mult using assms by (intro mult_mono) auto
  then show ?thesis by linarith
qed

lemma sint_high_word:
  fixes k :: int
  assumes "- (2 ^ 127) \<le> k" "k < 2 ^ 127"
  shows "sint (word_of_int (k div 2 ^ 64) :: u64) = k div 2 ^ 64"
proof (rule sint_word_of_int_range)
  have "(- (2 ^ 63) * 2 ^ 64) div 2 ^ 64 \<le> k div (2 ^ 64 :: int)"
    using assms by (intro zdiv_mono1) simp_all
  then show "- (2 ^ (LENGTH(64) - 1)) \<le> k div 2 ^ 64" by simp
  have "k < 2 ^ 63 * (2 ^ 64 :: int)" using assms by simp
  then have "k div 2 ^ 64 < (2 ^ 63 :: int)"
    by (simp add: div_less_iff_less_mult)
  then show "k div 2 ^ 64 < 2 ^ (LENGTH(64) - 1)" by simp
qed

lemma product_u:
  fixes x y :: int
  assumes "- (2 ^ 63) \<le> x" "x \<le> 2 ^ 63" "0 \<le> y" "y < 2 ^ 64"
  shows "- (2 ^ 127) \<le> x * y \<and> x * y < 2 ^ 127"
proof -
  have "- (2 ^ 63 * (2 ^ 64 - 1)) \<le> x * y \<and> x * y \<le> 2 ^ 63 * (2 ^ 64 - 1 :: int)"
    using assms by (intro product_bounds) auto
  then show ?thesis by simp
qed

lemma uint_high_word:
  fixes x y :: int
  assumes "0 \<le> x" "x < 2 ^ 64" "0 \<le> y" "y < 2 ^ 64"
  shows "uint (word_of_int (x * y div 2 ^ 64) :: u64) = x * y div 2 ^ 64"
proof -
  have "x * y \<le> 2 ^ 64 * (2 ^ 64 - 1)" using assms by (intro mult_mono) auto
  then have "x * y < 2 ^ 64 * (2 ^ 64 :: int)" by simp
  then have "x * y div 2 ^ 64 < (2 ^ 64 :: int)" by (simp add: div_less_iff_less_mult)
  moreover have "0 \<le> x * y div 2 ^ 64" using assms by (simp add: pos_imp_zdiv_nonneg_iff)
  ultimately show ?thesis by (simp add: uint_word_of_int)
qed

lemma split_product:
  fixes k :: int
  shows "k = k div 2 ^ 64 * 2 ^ 64 + uint (word_of_int k :: u64)"
  by (simp add: uint_word_of_int take_bit_eq_mod)

lemma wide_product:
  fixes a b :: u64
  shows "(scast a :: u128) * scast b = word_of_int (sint a * sint b)"
    and "(scast a :: u128) * ucast b = word_of_int (sint a * uint b)"
    and "(ucast a :: u128) * ucast b = word_of_int (uint a * uint b)"
  by simp_all

lemma unat_and_mod:
  fixes x :: "'a :: len word"
  shows "unat (x AND mask n) = unat x mod 2 ^ n"
proof -
  have "unat (x AND mask n) = take_bit n (unat x)"
    unfolding take_bit_eq_mask [of n x, symmetric] by (rule unsigned_take_bit_eq)
  then show ?thesis by (simp only: take_bit_eq_mod)
qed

lemma unat_and_3F: "unat (x AND 0x3F :: u64) = unat x mod 64"
  using unat_and_mod [of x 6] by (simp add: mask_eq_exp_minus_1)

lemma unat_and_1F: "unat (x AND 0x1F :: u64) = unat (ucast x :: u32) mod 32"
  using unat_and_mod [of x 5] by (simp add: mask_eq_exp_minus_1 unsigned_ucast_eq take_bit_eq_mod
      mod_mod_cancel)

lemma low_half_add: "(ucast (x + y :: u64) :: u32) = ucast x + ucast y"
proof -
  have "(ucast (x + y :: u64) :: u32) = word_of_int (uint x + uint y)"
    by (rule word_uint_eqI)
       (simp add: unsigned_ucast_eq uint_word_ariths uint_word_of_int take_bit_eq_mod mod_mod_cancel mod_add_eq)
  then show ?thesis by simp
qed

lemma low_half_sub: "(ucast (x - y :: u64) :: u32) = ucast x - ucast y"
  by (metis add_diff_cancel diff_add_cancel low_half_add)

lemma low_half_push: "(ucast (push_bit n (x :: u64)) :: u32) = push_bit n (ucast x)"
  by (rule bit_word_eqI) (auto simp: bit_unsigned_iff bit_push_bit_iff)

lemma uint_push_bit_64: "uint (push_bit k (a :: u64)) = uint a * 2 ^ k mod 2 ^ 64"
  by (simp only: unsigned_push_bit_eq) (simp add: take_bit_eq_mod push_bit_eq_mult)

lemma uint_drop_bit_64: "uint (drop_bit k (a :: u64)) = uint a div 2 ^ k"
  by (metis bintr_uint drop_bit_eq_div order_refl unsigned_drop_bit_eq)

lemma sint_drop_bit_64: "sint (signed_drop_bit k (a :: u64)) = sint a div 2 ^ k"
  by (simp add: sint_signed_drop_bit_eq drop_bit_eq_div)

definition example_xregs :: XRegisters where
  "example_xregs = \<lparr>xr_registers = (\<lambda>_. 0)(x_index x1 := -7, x_index x2 := 2)\<rparr>"

lemma example_xregs_read [simp]:
  "xread example_xregs x1 = -7" "xread example_xregs x2 = 2"
  by (simp_all add: example_xregs_def xread_def is_zero_def)

lemma example_division:
  "xread (run_div example_xregs x1 x2 x3) x3 = -3"
  "xread (run_rem example_xregs x1 x2 x3) x3 = -1"
  by (simp_all add: run_div_def run_rem_def is_zero_def Let_def signed_divide_int_def smod_int_alt_def)

section \<open>The properties\<close>

text \<open>
  C27: \<open>run_div\<close> and \<open>run_rem\<close> implement signed division with truncation on every operand: the
  quotient and the remainder rebuild the dividend, also for a zero divisor (quotient \<open>-1\<close>,
  remainder the dividend) and for the one overflowing case; otherwise the quotient read as a signed
  integer is the exact truncated quotient, and the remainder is smaller than the divisor and has
  the sign of the dividend.
\<close>

theorem div_rem_signed:
  assumes "rd \<noteq> x0"
    and "a = xread s rs1" and "b = xread s rs2"
    and "q = xread (run_div s rs1 rs2 rd) rd" and "r = xread (run_rem s rs1 rs2 rd) rd"
  shows "b * q + r = a \<and>
         (b = 0 \<longrightarrow> q = -1 \<and> r = a) \<and>
         (b \<noteq> 0 \<longrightarrow> \<bar>sint r\<bar> < \<bar>sint b\<bar> \<and> (r = 0 \<or> sgn (sint r) = sgn (sint a))) \<and>
         (b \<noteq> 0 \<longrightarrow> \<not> (a = i64_MIN \<and> b = -1) \<longrightarrow> sint q = sint a sdiv sint b)"
proof -
  have min: "sint i64_MIN = - (2 ^ 63)" by (simp add: i64_MIN_def)
  have sneq: "sint a = - (2 ^ 63) \<longleftrightarrow> a = i64_MIN"
    unfolding min [symmetric] by (rule sint_eq_iff)
  have q: "q = (if b = 0 then -1 else word_of_int (sint a sdiv sint b))"
    using assms(1) by (auto simp: assms(2-) run_div_def i64_MIN_def Let_def is_zero_def)
  have r: "r = word_of_int (sint a smod sint b)"
    using assms(1) by (auto simp: assms(2-) run_rem_def i64_MIN_def is_zero_def Let_def smod_1)
  have bz: "b \<noteq> 0 \<Longrightarrow> sint b \<noteq> 0" by (simp add: signed_eq_0_iff)
  have "b * q + r = a" using sdiv_smod_word [of b a] by (simp add: q r)
  moreover have "b \<noteq> 0 \<Longrightarrow> \<bar>sint r\<bar> < \<bar>sint b\<bar> \<and> (r = 0 \<or> sgn (sint r) = sgn (sint a))"
    using smod_sign [OF bz, of "sint a"] by (auto simp: r sint_smod_word)
  moreover have "b \<noteq> 0 \<Longrightarrow> \<not> (a = i64_MIN \<and> b = -1) \<Longrightarrow> sint q = sint a sdiv sint b"
    using sint_sdiv_word [of b a] sneq by (simp add: q)
  ultimately show ?thesis by (simp add: q r)
qed

theorem div_rem_signed_witness:
  "xread (run_div example_xregs x1 x2 x3) x3 = -3 \<and> xread (run_rem example_xregs x1 x2 x3) x3 = -1 \<and>
   sint (-3 :: u64) = -7 sdiv 2"
  using div_rem_signed [of x3 "-7" example_xregs x1 2 x2 "-3" "-1"]
  by (simp add: example_division i64_MIN_def)

text \<open>
  C28: The four multiplication instructions agree on the full 128-bit product: \<open>run_mulh\<close>,
  \<open>run_mulhsu\<close> and \<open>run_mulhu\<close>, together with the low half computed by \<open>run_mul\<close>, are the exact
  signed, signed-unsigned and unsigned products of the operands.
\<close>

theorem mul_full_product:
  assumes "rd \<noteq> x0"
    and "a = xread s rs1" and "b = xread s rs2"
    and "lo = uint (xread (run_mul s rs1 rs2 rd) rd)"
  shows "sint a * sint b = sint (xread (run_mulh s rs1 rs2 rd) rd) * 2 ^ 64 + lo \<and>
         sint a * uint b = sint (xread (run_mulhsu s rs1 rs2 rd) rd) * 2 ^ 64 + lo \<and>
         uint a * uint b = uint (xread (run_mulhu s rs1 rs2 rd) rd) * 2 ^ 64 + lo"
proof -
  have sa: "- (2 ^ 63) \<le> sint a" "sint a \<le> 2 ^ 63" and sb: "- (2 ^ 63) \<le> sint b" "sint b \<le> 2 ^ 63"
    using sint_bounds [of a] sint_bounds [of b] by simp_all
  have ua: "0 \<le> uint a" "uint a < 2 ^ 64" and ub: "0 \<le> uint b" "uint b < 2 ^ 64"
    using uint_bounded [of a] uint_bounded [of b] by simp_all
  have "xread (run_mulh s rs1 rs2 rd) rd = word_of_int (sint a * sint b div 2 ^ 64)"
    unfolding run_mulh_def Let_def wide_product high_word
    using assms(1) by (simp add: assms(2,3) is_zero_def)
  moreover have "xread (run_mulhsu s rs1 rs2 rd) rd = word_of_int (sint a * uint b div 2 ^ 64)"
    unfolding run_mulhsu_def Let_def wide_product high_word
    using assms(1) by (simp add: assms(2,3) is_zero_def)
  moreover have "xread (run_mulhu s rs1 rs2 rd) rd = word_of_int (uint a * uint b div 2 ^ 64)"
    unfolding run_mulhu_def Let_def wide_product high_word
    using assms(1) by (simp add: assms(2,3) is_zero_def)
  moreover have "lo = uint (word_of_int (sint a * sint b) :: u64)"
    "lo = uint (word_of_int (sint a * uint b) :: u64)" "lo = uint (word_of_int (uint a * uint b) :: u64)"
    using assms(1) by (simp_all add: assms(2-4) run_mul_def is_zero_def)
  moreover have "sint (word_of_int (sint a * sint b div 2 ^ 64) :: u64) = sint a * sint b div 2 ^ 64"
    using product_bounds [OF sa sb] by (intro sint_high_word) simp_all
  moreover have "sint (word_of_int (sint a * uint b div 2 ^ 64) :: u64) = sint a * uint b div 2 ^ 64"
    by (rule sint_high_word) (use product_u [OF sa ub] in simp_all)
  moreover have "uint (word_of_int (uint a * uint b div 2 ^ 64) :: u64) = uint a * uint b div 2 ^ 64"
    by (rule uint_high_word [OF ua ub])
  ultimately show ?thesis using split_product by metis
qed

theorem mul_full_product_witness:
  "sint (-7 :: u64) * uint (2 :: u64) =
   sint (xread (run_mulhsu example_xregs x1 x2 x3) x3) * 2 ^ 64 +
   uint (xread (run_mul example_xregs x1 x2 x3) x3)"
  using mul_full_product [of x3 "-7" example_xregs x1 2 x2, OF _ _ _ refl] by simp

text \<open>
  The word instructions compute on the low halves of their operands and sign-extend: although
  \<open>addiw\<close>, \<open>addw\<close>, \<open>subw\<close>, \<open>slliw\<close> and \<open>sllw\<close> are coded as 64-bit operations followed by a
  truncation, their results are the sign extensions of the 32-bit operations, and so is the product
  of \<open>mulw\<close>; the upper halves of the operands are irrelevant.
\<close>

theorem word_instructions_32bit:
  assumes "rd \<noteq> x0"
    and "a = (ucast (xread s rs1) :: u32)" and "b = (ucast (xread s rs2) :: u32)"
  shows "xread (run_addw s rs1 rs2 rd) rd = scast (a + b) \<and>
         xread (run_subw s rs1 rs2 rd) rd = scast (a - b) \<and>
         xread (run_mulw s rs1 rs2 rd) rd = scast (a * b) \<and>
         xread (run_addiw s imm rs1 rd) rd = scast (a + ucast imm) \<and>
         xread (run_sllw s rs1 rs2 rd) rd = scast (push_bit (unat b mod 32) a) \<and>
         xread (run_srlw s rs1 rs2 rd) rd = scast (drop_bit (unat b mod 32) a) \<and>
         xread (run_sraw s rs1 rs2 rd) rd = scast (signed_drop_bit (unat b mod 32) a) \<and>
         xread (run_slliw s imm rs1 rd) rd = scast (push_bit (unat imm mod 64) a)"
proof -
  have b: "unat (xread s rs2 AND 0x1F) = unat b mod 32"
    by (simp add: assms(3) unat_and_1F)
  have "xread (run_addw s rs1 rs2 rd) rd = scast (a + b)"
    "xread (run_subw s rs1 rs2 rd) rd = scast (a - b)"
    "xread (run_mulw s rs1 rs2 rd) rd = scast (a * b)"
    "xread (run_addiw s imm rs1 rd) rd = scast (a + ucast imm)"
    using assms(1) by (simp_all add: assms(2,3) run_addw_def run_subw_def run_mulw_def run_addiw_def
        sext32_def is_zero_def low_half_add low_half_sub Let_def)
  moreover have "xread (run_sllw s rs1 rs2 rd) rd = scast (push_bit (unat b mod 32) a)"
    "xread (run_slliw s imm rs1 rd) rd = scast (push_bit (unat imm mod 64) a)"
    using assms(1) by (simp_all add: b assms(2) run_sllw_def run_slliw_def sext32_def shl64_def
        is_zero_def low_half_push Let_def)
  moreover have "xread (run_srlw s rs1 rs2 rd) rd = scast (drop_bit (unat b mod 32) a)"
    "xread (run_sraw s rs1 rs2 rd) rd = scast (signed_drop_bit (unat b mod 32) a)"
    using assms(1) by (simp_all add: b assms(2) run_srlw_def run_sraw_def shr32_def sar32_def
        is_zero_def Let_def)
  ultimately show ?thesis by blast
qed

theorem word_instructions_32bit_witness:
  "xread (run_addw example_xregs x1 x2 x3) x3 = -5 \<and>
   xread (run_sraw example_xregs x1 x2 x3) x3 = -2"
  using word_instructions_32bit [of x3 "-7" example_xregs x1 2 x2 5]
  by simp

text \<open>
  The 64-bit shifts are multiplication and division by powers of two: the shift distance is the
  low six bits of the operand, a left shift multiplies modulo \<open>2^64\<close>, a logical right shift is the
  unsigned quotient and an arithmetic right shift the signed quotient rounded down; the immediate
  forms agree with the register forms.
\<close>

theorem shift_instructions_arith:
  assumes "rd \<noteq> x0"
    and "a = xread s rs1" and "k = unat (xread s rs2) mod 64"
  shows "uint (xread (run_sll s rs1 rs2 rd) rd) = uint a * 2 ^ k mod 2 ^ 64 \<and>
         uint (xread (run_srl s rs1 rs2 rd) rd) = uint a div 2 ^ k \<and>
         sint (xread (run_sra s rs1 rs2 rd) rd) = sint a div 2 ^ k \<and>
         run_slli s (xread s rs2) rs1 rd = run_sll s rs1 rs2 rd \<and>
         run_srli s (xread s rs2) rs1 rd = run_srl s rs1 rs2 rd \<and>
         run_srai s (xread s rs2) rs1 rd = run_sra s rs1 rs2 rd"
proof -
  have k: "unat (xread s rs2 AND 0x3F) = k" by (simp add: assms(3) unat_and_3F)
  have km: "k mod 64 = k" by (simp add: assms(3))
  have "xread (run_sll s rs1 rs2 rd) rd = push_bit k a" "xread (run_srl s rs1 rs2 rd) rd = drop_bit k a"
    "xread (run_sra s rs1 rs2 rd) rd = signed_drop_bit k a"
    using assms(1) by (simp_all add: k km assms(2) run_sll_def run_srl_def run_sra_def shl64_def
        shr64_def sar64_def is_zero_def Let_def)
  moreover have "run_slli s (xread s rs2) rs1 rd = run_sll s rs1 rs2 rd"
    "run_srli s (xread s rs2) rs1 rd = run_srl s rs1 rs2 rd"
    "run_srai s (xread s rs2) rs1 rd = run_sra s rs1 rs2 rd"
    by (simp_all add: k km run_slli_def run_sll_def run_srli_def run_srl_def run_srai_def run_sra_def
        shl64_def shr64_def sar64_def assms(3) [symmetric] Let_def)
  ultimately show ?thesis by (simp add: uint_push_bit_64 uint_drop_bit_64 sint_drop_bit_64)
qed

theorem shift_instructions_arith_witness:
  "sint (xread (run_sra example_xregs x1 x2 x3) x3) = -2 \<and>
   uint (xread (run_srl example_xregs x1 x2 x3) x3) = (2 ^ 64 - 7) div 4"
  using shift_instructions_arith [of x3 "-7" example_xregs x1 2 x2] by simp

end
