(* ===== verification/RV_LoadStore.thy ===== *)
theory RV_LoadStore
  imports RV_Translation RV_Integer
begin

text \<open>
  The instructions that access memory: the generic accesses of \<open>interpreter/common_memory.rs\<close>, the
  loads and stores of \<open>rv64i.rs\<close>, the atomic memory operations of \<open>rv32a.rs\<close> and the memory
  fence of \<open>rv64priv.rs\<close>.  Loads and stores raise before they change the state, so they return
  the new state or the exception; an atomic operation changes its destination register before its
  store may fail, so it returns the outcome together with the state.
\<close>

section \<open>Generic accesses\<close>

definition read_from_address ::
    "Twiddle \<Rightarrow> MachineState \<Rightarrow> u64 \<Rightarrow> (Exception, 'a::len word) result" where
  "read_from_address tw m address =
     (case translate tw m address AT_Load of
        Inl e \<Rightarrow> Inl e
      | Inr address \<Rightarrow> map_err (\<lambda>_. LoadAccessFault address) (bus_read (ms_bus m) address))"

definition read_from_bus ::
    "Twiddle \<Rightarrow> MachineState \<Rightarrow> i64 \<Rightarrow> XRegister \<Rightarrow> (Exception, 'a::len word) result" where
  "read_from_bus tw m imm rs1 =
     (let address = xread (h_xregisters (ms_hart m)) rs1 + imm in read_from_address tw m address)"

definition write_to_address ::
    "Twiddle \<Rightarrow> MachineState \<Rightarrow> u64 \<Rightarrow> 'a::len word \<Rightarrow> (Exception, MachineState) result" where
  "write_to_address tw m address value =
     (case translate tw m address AT_Store of
        Inl e \<Rightarrow> Inl e
      | Inr address \<Rightarrow>
          map_result (\<lambda>b. m\<lparr>ms_bus := b\<rparr>)
            (map_err (\<lambda>_. StoreAccessFault address) (bus_write (ms_bus m) address value)))"

definition write_to_bus ::
    "Twiddle \<Rightarrow> MachineState \<Rightarrow> i64 \<Rightarrow> XRegister \<Rightarrow> 'a::len word \<Rightarrow> (Exception, MachineState) result" where
  "write_to_bus tw m imm rs1 value =
     (let address = xread (h_xregisters (ms_hart m)) rs1 + imm in write_to_address tw m address value)"

definition write_xreg :: "MachineState \<Rightarrow> XRegister \<Rightarrow> XValue \<Rightarrow> MachineState" where
  "write_xreg m rd v =
     m\<lparr>ms_hart := (ms_hart m)\<lparr>h_xregisters := xwrite (h_xregisters (ms_hart m)) rd v\<rparr>\<rparr>"

section \<open>Loads and stores\<close>

definition run_ld ::
    "Twiddle \<Rightarrow> MachineState \<Rightarrow> i64 \<Rightarrow> XRegister \<Rightarrow> XRegister \<Rightarrow> (Exception, MachineState) result" where
  "run_ld tw m imm rs1 rd =
     map_result (\<lambda>value :: u64. write_xreg m rd value) (read_from_bus tw m imm rs1)"

definition run_lw ::
    "Twiddle \<Rightarrow> MachineState \<Rightarrow> i64 \<Rightarrow> XRegister \<Rightarrow> XRegister \<Rightarrow> (Exception, MachineState) result" where
  "run_lw tw m imm rs1 rd =
     map_result (\<lambda>value :: u32. write_xreg m rd (scast value)) (read_from_bus tw m imm rs1)"

definition run_lh ::
    "Twiddle \<Rightarrow> MachineState \<Rightarrow> i64 \<Rightarrow> XRegister \<Rightarrow> XRegister \<Rightarrow> (Exception, MachineState) result" where
  "run_lh tw m imm rs1 rd =
     map_result (\<lambda>value :: u16. write_xreg m rd (scast value)) (read_from_bus tw m imm rs1)"

definition run_lb ::
    "Twiddle \<Rightarrow> MachineState \<Rightarrow> i64 \<Rightarrow> XRegister \<Rightarrow> XRegister \<Rightarrow> (Exception, MachineState) result" where
  "run_lb tw m imm rs1 rd =
     map_result (\<lambda>value :: u8. write_xreg m rd (scast value)) (read_from_bus tw m imm rs1)"

definition run_lwu ::
    "Twiddle \<Rightarrow> MachineState \<Rightarrow> i64 \<Rightarrow> XRegister \<Rightarrow> XRegister \<Rightarrow> (Exception, MachineState) result" where
  "run_lwu tw m imm rs1 rd =
     map_result (\<lambda>value :: u32. write_xreg m rd (ucast value)) (read_from_bus tw m imm rs1)"

definition run_lhu ::
    "Twiddle \<Rightarrow> MachineState \<Rightarrow> i64 \<Rightarrow> XRegister \<Rightarrow> XRegister \<Rightarrow> (Exception, MachineState) result" where
  "run_lhu tw m imm rs1 rd =
     map_result (\<lambda>value :: u16. write_xreg m rd (ucast value)) (read_from_bus tw m imm rs1)"

definition run_lbu ::
    "Twiddle \<Rightarrow> MachineState \<Rightarrow> i64 \<Rightarrow> XRegister \<Rightarrow> XRegister \<Rightarrow> (Exception, MachineState) result" where
  "run_lbu tw m imm rs1 rd =
     map_result (\<lambda>value :: u8. write_xreg m rd (ucast value)) (read_from_bus tw m imm rs1)"

definition run_sd ::
    "Twiddle \<Rightarrow> MachineState \<Rightarrow> i64 \<Rightarrow> XRegister \<Rightarrow> XRegister \<Rightarrow> (Exception, MachineState) result" where
  "run_sd tw m imm rs1 rs2 =
     (let value = xread (h_xregisters (ms_hart m)) rs2 in write_to_bus tw m imm rs1 value)"

definition run_sw ::
    "Twiddle \<Rightarrow> MachineState \<Rightarrow> i64 \<Rightarrow> XRegister \<Rightarrow> XRegister \<Rightarrow> (Exception, MachineState) result" where
  "run_sw tw m imm rs1 rs2 =
     (let value = xread (h_xregisters (ms_hart m)) rs2 in write_to_bus tw m imm rs1 (ucast value :: u32))"

definition run_sh ::
    "Twiddle \<Rightarrow> MachineState \<Rightarrow> i64 \<Rightarrow> XRegister \<Rightarrow> XRegister \<Rightarrow> (Exception, MachineState) result" where
  "run_sh tw m imm rs1 rs2 =
     (let value = xread (h_xregisters (ms_hart m)) rs2 in write_to_bus tw m imm rs1 (ucast value :: u16))"

definition run_sb ::
    "Twiddle \<Rightarrow> MachineState \<Rightarrow> i64 \<Rightarrow> XRegister \<Rightarrow> XRegister \<Rightarrow> (Exception, MachineState) result" where
  "run_sb tw m imm rs1 rs2 =
     (let value = xread (h_xregisters (ms_hart m)) rs2 in write_to_bus tw m imm rs1 (ucast value :: u8))"

section \<open>Fences\<close>

definition sfence_vma :: "MachineState \<Rightarrow> XRegister \<Rightarrow> XRegister \<Rightarrow> (Exception, unit) result" where
  "sfence_vma m asid vaddr =
     (let mode = h_mode (ms_hart m);
          mstatus = csr_read (h_csregisters (ms_hart m)) csr_mstatus;
          tvm = get_TVM mstatus
      in if tvm \<and> mode = Supervisor then Inl IllegalInstruction else Inr ())"

definition run_fence :: "MachineState \<Rightarrow> MachineState" where
  "run_fence m = m"

definition run_fencei :: "MachineState \<Rightarrow> MachineState" where
  "run_fencei m = m"

definition run_wfi :: "MachineState \<Rightarrow> MachineState" where
  "run_wfi m = m"

section \<open>Atomic memory operations\<close>

definition run_amo_w ::
    "Twiddle \<Rightarrow> MachineState \<Rightarrow> XRegister \<Rightarrow> XRegister \<Rightarrow> XRegister \<Rightarrow> (u32 \<Rightarrow> u32 \<Rightarrow> u32) \<Rightarrow>
     (Exception, unit) result \<times> MachineState" where
  "run_amo_w tw m rs1 rs2 rd f =
     (let address_rs1 = xread (h_xregisters (ms_hart m)) rs1 in
      case read_from_address tw m address_rs1 of
        Inl e \<Rightarrow> (Inl e, m)
      | Inr (value_rs1 :: u32) \<Rightarrow>
          (let value_rs2 = ucast (xread (h_xregisters (ms_hart m)) rs2) :: u32;
               value = scast (f value_rs1 value_rs2) :: u64;
               m1 = write_xreg m rd (scast value_rs1)
           in case write_to_address tw m1 address_rs1 value of
                Inl e \<Rightarrow> (Inl e, m1)
              | Inr m2 \<Rightarrow> (Inr (), m2)))"

definition run_amoswapw ::
    "Twiddle \<Rightarrow> MachineState \<Rightarrow> XRegister \<Rightarrow> XRegister \<Rightarrow> XRegister \<Rightarrow> bool \<Rightarrow> bool \<Rightarrow>
     (Exception, unit) result \<times> MachineState" where
  "run_amoswapw tw m rs1 rs2 rd rl aq =
     run_amo_w tw m rs1 rs2 rd (\<lambda>value_rs1 value_rs2. value_rs2)"

definition run_amoaddw ::
    "Twiddle \<Rightarrow> MachineState \<Rightarrow> XRegister \<Rightarrow> XRegister \<Rightarrow> XRegister \<Rightarrow> bool \<Rightarrow> bool \<Rightarrow>
     (Exception, unit) result \<times> MachineState" where
  "run_amoaddw tw m rs1 rs2 rd rl aq =
     run_amo_w tw m rs1 rs2 rd (\<lambda>value_rs1 value_rs2. value_rs1 + value_rs2)"

definition run_amoxorw ::
    "Twiddle \<Rightarrow> MachineState \<Rightarrow> XRegister \<Rightarrow> XRegister \<Rightarrow> XRegister \<Rightarrow> bool \<Rightarrow> bool \<Rightarrow>
     (Exception, unit) result \<times> MachineState" where
  "run_amoxorw tw m rs1 rs2 rd rl aq =
     run_amo_w tw m rs1 rs2 rd (\<lambda>value_rs1 value_rs2. value_rs1 XOR value_rs2)"

definition run_amoandw ::
    "Twiddle \<Rightarrow> MachineState \<Rightarrow> XRegister \<Rightarrow> XRegister \<Rightarrow> XRegister \<Rightarrow> bool \<Rightarrow> bool \<Rightarrow>
     (Exception, unit) result \<times> MachineState" where
  "run_amoandw tw m rs1 rs2 rd rl aq =
     run_amo_w tw m rs1 rs2 rd (\<lambda>value_rs1 value_rs2. value_rs1 AND value_rs2)"

definition run_amoorw ::
    "Twiddle \<Rightarrow> MachineState \<Rightarrow> XRegister \<Rightarrow> XRegister \<Rightarrow> XRegister \<Rightarrow> bool \<Rightarrow> bool \<Rightarrow>
     (Exception, unit) result \<times> MachineState" where
  "run_amoorw tw m rs1 rs2 rd rl aq =
     run_amo_w tw m rs1 rs2 rd (\<lambda>value_rs1 value_rs2. value_rs1 OR value_rs2)"

definition run_amominw ::
    "Twiddle \<Rightarrow> MachineState \<Rightarrow> XRegister \<Rightarrow> XRegister \<Rightarrow> XRegister \<Rightarrow> bool \<Rightarrow> bool \<Rightarrow>
     (Exception, unit) result \<times> MachineState" where
  "run_amominw tw m rs1 rs2 rd rl aq =
     run_amo_w tw m rs1 rs2 rd (\<lambda>value_rs1 value_rs2. if sint value_rs1 \<le> sint value_rs2 then value_rs1 else value_rs2)"

definition run_amomaxw ::
    "Twiddle \<Rightarrow> MachineState \<Rightarrow> XRegister \<Rightarrow> XRegister \<Rightarrow> XRegister \<Rightarrow> bool \<Rightarrow> bool \<Rightarrow>
     (Exception, unit) result \<times> MachineState" where
  "run_amomaxw tw m rs1 rs2 rd rl aq =
     run_amo_w tw m rs1 rs2 rd (\<lambda>value_rs1 value_rs2. if sint value_rs1 \<le> sint value_rs2 then value_rs2 else value_rs1)"

definition run_amominuw ::
    "Twiddle \<Rightarrow> MachineState \<Rightarrow> XRegister \<Rightarrow> XRegister \<Rightarrow> XRegister \<Rightarrow> bool \<Rightarrow> bool \<Rightarrow>
     (Exception, unit) result \<times> MachineState" where
  "run_amominuw tw m rs1 rs2 rd rl aq =
     run_amo_w tw m rs1 rs2 rd (\<lambda>value_rs1 value_rs2. min value_rs1 value_rs2)"

definition run_amomaxuw ::
    "Twiddle \<Rightarrow> MachineState \<Rightarrow> XRegister \<Rightarrow> XRegister \<Rightarrow> XRegister \<Rightarrow> bool \<Rightarrow> bool \<Rightarrow>
     (Exception, unit) result \<times> MachineState" where
  "run_amomaxuw tw m rs1 rs2 rd rl aq =
     run_amo_w tw m rs1 rs2 rd (\<lambda>value_rs1 value_rs2. max value_rs1 value_rs2)"

section \<open>Facts about the generic accesses\<close>

lemma write_xreg_simps [simp]:
  "ms_bus (write_xreg m rd v) = ms_bus m"
  "h_mode (ms_hart (write_xreg m rd v)) = h_mode (ms_hart m)"
  "h_csregisters (ms_hart (write_xreg m rd v)) = h_csregisters (ms_hart m)"
  "h_fregisters (ms_hart (write_xreg m rd v)) = h_fregisters (ms_hart m)"
  "h_pc (ms_hart (write_xreg m rd v)) = h_pc (ms_hart m)"
  "h_xregisters (ms_hart (write_xreg m rd v)) = xwrite (h_xregisters (ms_hart m)) rd v"
  by (simp_all add: write_xreg_def)

lemma translate_write_xreg [simp]: "translate tw (write_xreg m rd v) a k = translate tw m a k"
  by (simp add: translate_def)

lemma translate_machine_mode: "h_mode (ms_hart m) = Machine \<Longrightarrow> translate tw m a k = Inr a"
  by (simp add: translate_def)

text \<open>
  The effect of an access, once the address is translated, in terms of the bytes on the bus.
\<close>

lemma read_from_address_spec:
  assumes "bus_ok (ms_bus m)" "8 dvd LENGTH('a)" "LENGTH('a) \<le> 2 ^ 32"
  shows "(read_from_address tw m va :: (Exception, 'a::len word) result) =
    (case translate tw m va AT_Load of
       Inl e \<Rightarrow> Inl e
     | Inr a \<Rightarrow>
         if mapped (bus_view (ms_bus m)) (unat a) (size_of TYPE('a))
         then Inr (from_le_bytes (view_bytes (bus_view (ms_bus m)) (unat a) (size_of TYPE('a))))
         else Inl (LoadAccessFault a))"
  by (auto simp: read_from_address_def bus_read_spec [OF assms] map_err_def split: sum.splits)

lemma write_to_address_cases:
  fixes v :: "'a::len word"
  assumes "bus_ok (ms_bus m)" "8 dvd LENGTH('a)" "LENGTH('a) \<le> 2 ^ 32"
  shows "case translate tw m va AT_Store of
       Inl e \<Rightarrow> write_to_address tw m va v = Inl e
     | Inr a \<Rightarrow>
         if mapped (bus_view (ms_bus m)) (unat a) (size_of TYPE('a))
         then \<exists>b. write_to_address tw m va v = Inr (m\<lparr>ms_bus := b\<rparr>) \<and> bus_ok b \<and>
                bus_view b = view_write (bus_view (ms_bus m)) (unat a) (to_le_bytes v) \<and>
                bus_write (ms_bus m) a v = Inr b
         else write_to_address tw m va v = Inl (StoreAccessFault a)"
proof (cases "translate tw m va AT_Store")
  case (Inr a)
  with bus_write_spec [OF assms, of a v] show ?thesis
    by (auto simp: write_to_address_def map_err_def split: sum.splits if_splits)
qed (simp add: write_to_address_def)

lemma access_sizes [simp]:
  "8 dvd LENGTH(8)" "LENGTH(8) \<le> 2 ^ 32" "8 dvd LENGTH(16)" "LENGTH(16) \<le> 2 ^ 32"
  "8 dvd LENGTH(32)" "LENGTH(32) \<le> 2 ^ 32" "8 dvd LENGTH(64)" "LENGTH(64) \<le> 2 ^ 32"
  by simp_all

lemma store_then_read:
  fixes v :: "'a::len word"
  assumes "bus_ok (ms_bus m)" "8 dvd LENGTH('a)" "LENGTH('a) \<le> 2 ^ 32"
    and "h_mode (ms_hart m) = Machine"
    and "write_to_bus tw m imm rs1 v = Inr m'"
  shows "read_from_bus tw m' imm rs1 = Inr v \<and> ms_hart m' = ms_hart m \<and> bus_ok (ms_bus m')"
proof -
  let ?a = "xread (h_xregisters (ms_hart m)) rs1 + imm"
  have w: "write_to_address tw m ?a v = Inr m'"
    using assms(5) by (simp add: write_to_bus_def Let_def)
  with write_to_address_cases [OF assms(1-3), of tw ?a v] assms(4) obtain b where
    b: "m' = m\<lparr>ms_bus := b\<rparr>" "bus_ok b" "bus_write (ms_bus m) ?a v = Inr b"
    by (auto simp: translate_machine_mode split: if_splits)
  have "bus_read b ?a = Inr v"
    using addressable.read_after_write [OF bus_addressable [OF assms(2,3)] assms(1) TrueI b(3)] .
  with b assms(4) show ?thesis
    by (simp add: read_from_bus_def read_from_address_def translate_machine_mode map_err_def Let_def)
qed

section \<open>The properties\<close>

text \<open>
  C10: In machine mode, where addresses are physical, a load that follows a store of the same width
  through the same address returns the stored bits: the double word itself, and the low word, half
  word or byte of the stored register extended with its sign by the signed loads and with zeros by
  the unsigned ones.
\<close>

theorem load_after_store:
  assumes "bus_ok (ms_bus m)" and "h_mode (ms_hart m) = Machine"
    and "v = xread (h_xregisters (ms_hart m)) rs2"
  shows "(\<forall>m'. run_sd tw m imm rs1 rs2 = Inr m' \<longrightarrow>
            run_ld tw m' imm rs1 rd = Inr (write_xreg m' rd v)) \<and>
         (\<forall>m'. run_sw tw m imm rs1 rs2 = Inr m' \<longrightarrow>
            run_lw tw m' imm rs1 rd = Inr (write_xreg m' rd (scast (ucast v :: u32))) \<and>
            run_lwu tw m' imm rs1 rd = Inr (write_xreg m' rd (ucast (ucast v :: u32)))) \<and>
         (\<forall>m'. run_sh tw m imm rs1 rs2 = Inr m' \<longrightarrow>
            run_lh tw m' imm rs1 rd = Inr (write_xreg m' rd (scast (ucast v :: u16))) \<and>
            run_lhu tw m' imm rs1 rd = Inr (write_xreg m' rd (ucast (ucast v :: u16)))) \<and>
         (\<forall>m'. run_sb tw m imm rs1 rs2 = Inr m' \<longrightarrow>
            run_lb tw m' imm rs1 rd = Inr (write_xreg m' rd (scast (ucast v :: u8))) \<and>
            run_lbu tw m' imm rs1 rd = Inr (write_xreg m' rd (ucast (ucast v :: u8))))"
proof (intro conjI allI impI)
  note rd = store_then_read [OF assms(1) _ _ assms(2), THEN conjunct1]
  show "run_ld tw m' imm rs1 rd = Inr (write_xreg m' rd v)" if "run_sd tw m imm rs1 rs2 = Inr m'" for m'
    using that unfolding run_sd_def run_ld_def Let_def assms(3) by (simp add: rd)
  fix m'
  {
    assume "run_sw tw m imm rs1 rs2 = Inr m'"
    then have r: "read_from_bus tw m' imm rs1 = Inr (ucast v :: u32)"
      unfolding run_sw_def Let_def assms(3) by (intro rd) simp_all
    show "run_lw tw m' imm rs1 rd = Inr (write_xreg m' rd (scast (ucast v :: u32)))"
      "run_lwu tw m' imm rs1 rd = Inr (write_xreg m' rd (ucast (ucast v :: u32)))"
      unfolding run_lw_def run_lwu_def r by simp_all
  next
    assume "run_sh tw m imm rs1 rs2 = Inr m'"
    then have r: "read_from_bus tw m' imm rs1 = Inr (ucast v :: u16)"
      unfolding run_sh_def Let_def assms(3) by (intro rd) simp_all
    show "run_lh tw m' imm rs1 rd = Inr (write_xreg m' rd (scast (ucast v :: u16)))"
      "run_lhu tw m' imm rs1 rd = Inr (write_xreg m' rd (ucast (ucast v :: u16)))"
      unfolding run_lh_def run_lhu_def r by simp_all
  next
    assume "run_sb tw m imm rs1 rs2 = Inr m'"
    then have r: "read_from_bus tw m' imm rs1 = Inr (ucast v :: u8)"
      unfolding run_sb_def Let_def assms(3) by (intro rd) simp_all
    show "run_lb tw m' imm rs1 rd = Inr (write_xreg m' rd (scast (ucast v :: u8)))"
      "run_lbu tw m' imm rs1 rd = Inr (write_xreg m' rd (ucast (ucast v :: u8)))"
      unfolding run_lb_def run_lbu_def r by simp_all
  }
qed

definition example_machine :: MachineState where
  "example_machine =
     \<lparr>ms_hart = \<lparr>h_xregisters = \<lparr>xr_registers = (\<lambda>_. 0)(x_index x1 := 0x80000010, x_index x2 := 0x12345678F0E1D2C3)\<rparr>,
                 h_fregisters = \<lparr>fr_registers = \<lambda>_. 0\<rparr>, h_csregisters = \<lparr>csr_registers = \<lambda>_. 0\<rparr>,
                 h_mode = Machine, h_pc = 0x80000000\<rparr>,
      ms_bus = example_bus\<rparr>"

lemma example_machine_simps [simp]:
  "bus_ok (ms_bus example_machine)" "bus_BYTES (ms_bus example_machine) = 1024"
  "h_mode (ms_hart example_machine) = Machine"
  "xread (h_xregisters (ms_hart example_machine)) x1 = 0x80000010"
  "xread (h_xregisters (ms_hart example_machine)) x2 = 0x12345678F0E1D2C3"
  by (simp_all add: example_machine_def xread_def is_zero_def example_bus_def bus_ok_def memory_ok_def)

lemma store_succeeds:
  fixes v :: "'a::len word"
  assumes "bus_ok (ms_bus m)" "8 dvd LENGTH('a)" "LENGTH('a) \<le> 2 ^ 32"
    and "h_mode (ms_hart m) = Machine" "a = xread (h_xregisters (ms_hart m)) rs1 + imm"
    and "2 ^ 31 \<le> unat a" "unat a + LENGTH('a) div 8 \<le> 2 ^ 31 + bus_BYTES (ms_bus m)"
  shows "\<exists>m'. write_to_bus tw m imm rs1 v = Inr m'"
  using write_to_address_cases [OF assms(1-3), of tw a v] assms(4-) elem_size_pos [OF assms(2)]
  by (auto simp: write_to_bus_def translate_machine_mode bus_mapped_iff)

theorem load_after_store_witness:
  "\<exists>m'. run_sw std_twiddle example_machine 4 x1 x2 = Inr m' \<and>
     run_lw std_twiddle m' 4 x1 x3 = Inr (write_xreg m' x3 (- 0x0F1E2D3D)) \<and>
     run_lwu std_twiddle m' 4 x1 x3 = Inr (write_xreg m' x3 0xF0E1D2C3)"
proof -
  obtain m' where m': "run_sw std_twiddle example_machine 4 x1 x2 = Inr m'"
    using store_succeeds [of example_machine "0x80000014" x1 4 std_twiddle "0x12345678F0E1D2C3 :: u32"]
    by (auto simp: run_sw_def)
  then show ?thesis
    using load_after_store [of example_machine "0x12345678F0E1D2C3" x2 std_twiddle 4 x1 x3]
    by simp
qed

definition in_main_memory :: "Bus \<Rightarrow> Address \<Rightarrow> nat \<Rightarrow> bool" where
  "in_main_memory b pa n \<longleftrightarrow> 2 ^ 31 \<le> unat pa \<and> unat pa + n \<le> 2 ^ 31 + bus_BYTES b"

lemma in_main_memory_mapped: "0 < n \<Longrightarrow> in_main_memory b pa n \<longleftrightarrow> mapped (bus_view b) (unat pa) n"
  by (simp add: in_main_memory_def bus_mapped_iff)

lemma load_fault_iff:
  assumes "bus_ok (ms_bus m)" "8 dvd LENGTH('a)" "LENGTH('a) \<le> 2 ^ 32"
    and "va = xread (h_xregisters (ms_hart m)) rs1 + imm"
  shows "(read_from_bus tw m imm rs1 :: (Exception, 'a::len word) result) = Inl e \<longleftrightarrow>
     translate tw m va AT_Load = Inl e \<or>
     (\<exists>pa. translate tw m va AT_Load = Inr pa \<and> \<not> in_main_memory (ms_bus m) pa (LENGTH('a) div 8) \<and>
           e = LoadAccessFault pa)"
  using elem_size_pos [OF assms(2)]
  by (auto simp: read_from_bus_def assms(4) read_from_address_spec [OF assms(1-3)] Let_def
      in_main_memory_mapped split: sum.splits)

lemma store_fault_iff:
  fixes v :: "'a::len word"
  assumes "bus_ok (ms_bus m)" "8 dvd LENGTH('a)" "LENGTH('a) \<le> 2 ^ 32"
    and "va = xread (h_xregisters (ms_hart m)) rs1 + imm"
  shows "write_to_bus tw m imm rs1 v = Inl e \<longleftrightarrow>
     translate tw m va AT_Store = Inl e \<or>
     (\<exists>pa. translate tw m va AT_Store = Inr pa \<and> \<not> in_main_memory (ms_bus m) pa (LENGTH('a) div 8) \<and>
           e = StoreAccessFault pa)"
  using elem_size_pos [OF assms(2)] write_to_address_cases [OF assms(1-3), of tw va v]
  by (auto simp: write_to_bus_def assms(4) Let_def in_main_memory_mapped split: sum.splits if_splits)

lemma map_result_Inl_iff: "map_result f r = Inl e \<longleftrightarrow> r = Inl e"
  by (cases r) simp_all

text \<open>
  C29: A load faults in exactly two ways and a store likewise: the translation of its address
  raises an exception, or the translated range is not wholly inside main memory, in which case the
  access fault carries the translated address.  The condition depends on the width of the access.
\<close>

theorem load_store_faults:
  assumes "bus_ok (ms_bus m)" and "va = xread (h_xregisters (ms_hart m)) rs1 + imm"
    and "load = (\<lambda>n. translate tw m va AT_Load = Inl e \<or>
           (\<exists>pa. translate tw m va AT_Load = Inr pa \<and> \<not> in_main_memory (ms_bus m) pa n \<and>
                 e = LoadAccessFault pa))"
    and "store = (\<lambda>n. translate tw m va AT_Store = Inl e \<or>
           (\<exists>pa. translate tw m va AT_Store = Inr pa \<and> \<not> in_main_memory (ms_bus m) pa n \<and>
                 e = StoreAccessFault pa))"
  shows "(run_ld tw m imm rs1 rd = Inl e \<longleftrightarrow> load 8) \<and> (run_lw tw m imm rs1 rd = Inl e \<longleftrightarrow> load 4) \<and>
         (run_lh tw m imm rs1 rd = Inl e \<longleftrightarrow> load 2) \<and> (run_lb tw m imm rs1 rd = Inl e \<longleftrightarrow> load 1) \<and>
         (run_lwu tw m imm rs1 rd = Inl e \<longleftrightarrow> load 4) \<and> (run_lhu tw m imm rs1 rd = Inl e \<longleftrightarrow> load 2) \<and>
         (run_lbu tw m imm rs1 rd = Inl e \<longleftrightarrow> load 1) \<and>
         (run_sd tw m imm rs1 rs2 = Inl e \<longleftrightarrow> store 8) \<and> (run_sw tw m imm rs1 rs2 = Inl e \<longleftrightarrow> store 4) \<and>
         (run_sh tw m imm rs1 rs2 = Inl e \<longleftrightarrow> store 2) \<and> (run_sb tw m imm rs1 rs2 = Inl e \<longleftrightarrow> store 1)"
  by (simp add: assms(3,4) run_ld_def run_lw_def run_lh_def run_lb_def run_lwu_def run_lhu_def
      run_lbu_def run_sd_def run_sw_def run_sh_def run_sb_def Let_def map_result_Inl_iff
      load_fault_iff [OF assms(1) _ _ assms(2)] store_fault_iff [OF assms(1) _ _ assms(2)])

theorem load_store_faults_witness:
  "run_lw std_twiddle example_machine 0x3F0 x1 x3 = Inl (LoadAccessFault 0x80000400) \<and>
   run_sd std_twiddle example_machine 0x3EC x1 x2 = Inl (StoreAccessFault 0x800003FC)"
  using load_store_faults [of example_machine "0x80000400" x1 "0x3F0" _ std_twiddle
      "LoadAccessFault 0x80000400" _ x3 x2, OF _ _ refl refl]
    load_store_faults [of example_machine "0x800003FC" x1 "0x3EC" _ std_twiddle
      "StoreAccessFault 0x800003FC" _ x3 x2, OF _ _ refl refl]
  by (simp add: translate_machine_mode in_main_memory_def)

section \<open>Atomic operations\<close>

definition sign_fill :: "u32 \<Rightarrow> u32" where
  "sign_fill w = (if bit w 31 then -1 else 0)"

lemma to_le_bytes_scast:
  "to_le_bytes (scast (w :: u32) :: u64) = to_le_bytes w @ to_le_bytes (sign_fill w)"
proof (rule nth_equalityI)
  fix i assume "i < length (to_le_bytes (scast w :: u64))"
  then have i: "i < 8" by simp
  show "to_le_bytes (scast w :: u64) ! i = (to_le_bytes w @ to_le_bytes (sign_fill w)) ! i"
  proof (rule bit_word_eqI)
    fix n assume "n < LENGTH(8)"
    then have "i < 4 \<Longrightarrow> min 31 (8 * i + n) = 8 * i + n" "\<not> i < 4 \<Longrightarrow> min 31 (8 * i + n) = 31"
      by simp_all
    with i \<open>n < LENGTH(8)\<close>
    show "bit (to_le_bytes (scast w :: u64) ! i) n = bit ((to_le_bytes w @ to_le_bytes (sign_fill w)) ! i) n"
      by (auto simp: nth_append nth_to_le_bytes bit_unsigned_iff bit_drop_bit_eq bit_signed_iff
          sign_fill_def)
  qed
qed simp

lemma bus_words_after_store:
  assumes "bus_ok b" "bus_view b = view_write vw (unat a) (to_le_bytes (w1 :: u32) @ to_le_bytes (w2 :: u32))"
    and "mapped (bus_view b) (unat a) 8"
  shows "bus_read b a = Inr w1 \<and> bus_read b (a + 4) = Inr w2"
proof -
  have "unat a + 8 \<le> 2 ^ 31 + bus_BYTES b"
    using assms(3) by (simp add: bus_mapped_iff)
  moreover have "bus_BYTES b < 2 ^ 63" by (rule bus_BYTES_bound) (rule assms(1))
  ultimately have a4: "unat (a + 4) = unat a + 4"
    using unat_add_of_nat [of a 4] by simp
  have m: "mapped (bus_view b) (unat a) 4" "mapped (bus_view b) (unat a + 4) 4"
    using assms(3) by (auto simp: bus_mapped_iff)
  have "view_bytes (bus_view b) (unat a) 4 = to_le_bytes w1"
    unfolding assms(2) view_write_append
    using view_bytes_write_same [of vw "unat a" "to_le_bytes w1"]
    by (subst view_bytes_write_other) (simp_all add: disjoint_ranges_def)
  moreover have "view_bytes (bus_view b) (unat a + 4) 4 = to_le_bytes w2"
    unfolding assms(2) view_write_append
    using view_bytes_write_same [of _ "unat a + 4" "to_le_bytes w2"] by simp
  ultimately show ?thesis
    using m by (simp add: bus32.read_spec [OF assms(1) TrueI] a4 from_to_le_bytes)
qed

lemma run_amo_w_machine:
  assumes "h_mode (ms_hart m) = Machine" "a = xread (h_xregisters (ms_hart m)) rs1"
    and "bus_read (ms_bus m) a = Inr (old :: u32)"
    and "new = f old (ucast (xread (h_xregisters (ms_hart m)) rs2))"
  shows "run_amo_w tw m rs1 rs2 rd f =
    (case bus_write (ms_bus m) a (scast new :: u64) of
       Inl _ \<Rightarrow> (Inl (StoreAccessFault a), write_xreg m rd (scast old))
     | Inr b \<Rightarrow> (Inr (), (write_xreg m rd (scast old))\<lparr>ms_bus := b\<rparr>))"
  using assms
  by (simp add: run_amo_w_def read_from_address_def write_to_address_def translate_machine_mode
      map_err_def Let_def split: sum.splits)

text \<open>
  C30: What a 32-bit atomic operation does to memory.  In machine mode, with eight bytes of memory at
  the address, it loads the old word into the destination and stores the combined word, and it
  also overwrites the following word with the sign extension of the result: the store has the width
  of a double word.
\<close>

theorem amo_w_effect:
  assumes "bus_ok (ms_bus m)" and "h_mode (ms_hart m) = Machine"
    and "a = xread (h_xregisters (ms_hart m)) rs1" and "in_main_memory (ms_bus m) a 8"
    and "bus_read (ms_bus m) a = Inr (old :: u32)"
    and "new = f old (ucast (xread (h_xregisters (ms_hart m)) rs2))"
  shows "\<exists>m'. run_amo_w tw m rs1 rs2 rd f = (Inr (), m') \<and>
           h_xregisters (ms_hart m') = xwrite (h_xregisters (ms_hart m)) rd (scast old) \<and>
           bus_read (ms_bus m') a = Inr new \<and>
           bus_read (ms_bus m') (a + 4) = Inr (sign_fill new)"
proof -
  have mp: "mapped (bus_view (ms_bus m)) (unat a) 8"
    using assms(4) by (simp add: in_main_memory_mapped)
  with bus_write_spec [where 'a = 64, OF assms(1), of a "scast new"] obtain b where
    b: "bus_write (ms_bus m) a (scast new :: u64) = Inr b" "bus_ok b"
       "bus_view b = view_write (bus_view (ms_bus m)) (unat a) (to_le_bytes new @ to_le_bytes (sign_fill new))"
    by (auto simp: to_le_bytes_scast)
  have "mapped (bus_view b) (unat a) 8"
    using bus64.write_mapped_same [OF assms(1) TrueI b(1)] mp by simp
  from bus_words_after_store [OF b(2,3) this] show ?thesis
    by (simp add: run_amo_w_machine [where f = f, OF assms(2,3,5,6)] b(1))
qed

theorem amo_w_effect_witness:
  "\<exists>m'. run_amoaddw std_twiddle example_machine x1 x2 x3 False False = (Inr (), m') \<and>
     bus_read (ms_bus m') 0x80000010 = Inr (0xF0E1D2C3 :: u32) \<and>
     bus_read (ms_bus m') 0x80000014 = Inr (-1 :: u32)"
proof -
  have r: "bus_read (ms_bus example_machine) 0x80000010 = Inr (0 :: u32)"
    by (simp add: example_machine_def example_bus_def bus_eval data_read_def)
  have s: "sign_fill 0xF0E1D2C3 = -1" by (simp add: sign_fill_def)
  show ?thesis
    using amo_w_effect [of example_machine "0x80000010" x1 0 "0xF0E1D2C3" "\<lambda>x y. x + y" x2 std_twiddle x3] r s
    by (auto simp: run_amoaddw_def in_main_memory_def)
qed

text \<open>
  An atomic operation on the last word of main memory raises a store access fault although the
  word can be loaded, and the destination register has been overwritten when the fault is raised.
\<close>

theorem amo_w_last_word:
  assumes "bus_ok (ms_bus m)" and "h_mode (ms_hart m) = Machine"
    and "a = xread (h_xregisters (ms_hart m)) rs1" and "4 \<le> bus_BYTES (ms_bus m)"
    and "unat a + 4 = 2 ^ 31 + bus_BYTES (ms_bus m)"
  shows "\<exists>old :: u32. bus_read (ms_bus m) a = Inr old \<and>
           run_amo_w tw m rs1 rs2 rd f = (Inl (StoreAccessFault a), write_xreg m rd (scast old))"
proof -
  have "mapped (bus_view (ms_bus m)) (unat a) 4" "\<not> mapped (bus_view (ms_bus m)) (unat a) 8"
    using assms(4,5) by (simp_all add: bus_mapped_iff)
  then obtain old :: u32 where old: "bus_read (ms_bus m) a = Inr old"
    and w: "bus_write (ms_bus m) a (v :: u64) = Inl OutOfBounds" for v
    using bus32.read_spec [OF assms(1) TrueI, of a] bus64.write_err [OF assms(1) TrueI, of a] by auto
  show ?thesis
    using run_amo_w_machine [OF assms(2,3) old refl, of tw rs2 rd f] by (simp add: old w)
qed

definition example_last_word :: MachineState where
  "example_last_word = write_xreg example_machine x1 0x800003FC"

lemma example_last_word_simps [simp]:
  "bus_ok (ms_bus example_last_word)" "bus_BYTES (ms_bus example_last_word) = 1024"
  "h_mode (ms_hart example_last_word) = Machine"
  "xread (h_xregisters (ms_hart example_last_word)) x1 = 0x800003FC"
  by (simp_all add: example_last_word_def is_zero_def)

theorem amo_w_last_word_witness:
  "\<exists>old. run_amoswapw std_twiddle example_last_word x1 x2 x3 False False =
     (Inl (StoreAccessFault 0x800003FC), write_xreg example_last_word x3 old)"
  using amo_w_last_word [of example_last_word "0x800003FC" x1 std_twiddle x2 x3 "\<lambda>_ y. y"]
  by (auto simp: run_amoswapw_def)

end
