(* ===== verification/RV_Float.thy ===== *)
theory RV_Float
  imports RV_LoadStore RV_Instruction
begin

text \<open>
  The F and D extensions (\<open>interpreter/float.rs\<close>, \<open>rv64f.rs\<close>, \<open>rv64d.rs\<close>).  The arithmetic itself
  is done by two external crates: the trait \<open>Float\<close> of \<open>rustc_apfloat\<close> is the record \<open>Float\<close> over an
  abstract type of floating-point numbers, and \<open>ieee_apsqrt::sqrt_accurate\<close> is a function argument.
  What this theory models is the code around them: the boxing of single-precision values,
  canonicalisation of NaNs, the choice of the rounding mode, and the accrued exception flags.
\<close>

section \<open>The external interface\<close>

datatype Round = NearestTiesToEven | TowardPositive | TowardNegative | TowardZero | NearestTiesToAway

text \<open>The flags of an operation, as the bits of \<open>rustc_apfloat::Status\<close>; \<open>Status::OK\<close> is empty.\<close>

type_synonym Status = u8

definition Status_OK :: Status where "Status_OK = 0"

record 'f Float =
  fl_from_bits :: "u128 \<Rightarrow> 'f"
  fl_to_bits :: "'f \<Rightarrow> u128"
  fl_is_nan :: "'f \<Rightarrow> bool"
  fl_is_signaling :: "'f \<Rightarrow> bool"
  fl_is_negative :: "'f \<Rightarrow> bool"
  fl_is_normal :: "'f \<Rightarrow> bool"
  fl_is_denormal :: "'f \<Rightarrow> bool"
  fl_is_neg_infinity :: "'f \<Rightarrow> bool"
  fl_is_pos_infinity :: "'f \<Rightarrow> bool"
  fl_is_neg_zero :: "'f \<Rightarrow> bool"
  fl_is_pos_zero :: "'f \<Rightarrow> bool"
  fl_eq :: "'f \<Rightarrow> 'f \<Rightarrow> bool"
  fl_lt :: "'f \<Rightarrow> 'f \<Rightarrow> bool"
  fl_le :: "'f \<Rightarrow> 'f \<Rightarrow> bool"
  fl_neg :: "'f \<Rightarrow> 'f"
  fl_minimum :: "'f \<Rightarrow> 'f \<Rightarrow> 'f"
  fl_maximum :: "'f \<Rightarrow> 'f \<Rightarrow> 'f"
  fl_add_r :: "'f \<Rightarrow> 'f \<Rightarrow> Round \<Rightarrow> Status \<times> 'f"
  fl_sub_r :: "'f \<Rightarrow> 'f \<Rightarrow> Round \<Rightarrow> Status \<times> 'f"
  fl_mul_r :: "'f \<Rightarrow> 'f \<Rightarrow> Round \<Rightarrow> Status \<times> 'f"
  fl_div_r :: "'f \<Rightarrow> 'f \<Rightarrow> Round \<Rightarrow> Status \<times> 'f"
  fl_mul_add_r :: "'f \<Rightarrow> 'f \<Rightarrow> 'f \<Rightarrow> Round \<Rightarrow> Status \<times> 'f"

text \<open>
  The trait \<open>FloatExt\<close>: conversions from and to register values and the canonical NaN, on top of
  \<open>Float\<close>.
\<close>

record 'f FloatExt =
  fx_float :: "'f Float"
  fx_from :: "FValue \<Rightarrow> 'f"
  fx_into :: "'f \<Rightarrow> FValue"
  fx_canonical_nan :: 'f

definition canonicalise :: "'f FloatExt \<Rightarrow> 'f \<Rightarrow> 'f" where
  "canonicalise F v = (if fl_is_nan (fx_float F) v then fx_canonical_nan F else v)"

section \<open>Rounding modes and flags\<close>

primrec into_Round :: "RoundingMode \<Rightarrow> Round" where
  "into_Round RNE = NearestTiesToEven"
| "into_Round RTZ = TowardZero"
| "into_Round RUP = TowardPositive"
| "into_Round RDN = TowardNegative"
| "into_Round RMM = NearestTiesToAway"

datatype Fflag = NX | UF | OF | DZ | NV

primrec fflag_bit :: "Fflag \<Rightarrow> nat" where
  "fflag_bit NX = 0"
| "fflag_bit UF = 1"
| "fflag_bit OF = 2"
| "fflag_bit DZ = 3"
| "fflag_bit NV = 4"

text \<open>\<open>u8::reverse_bits\<close>\<close>

definition reverse_bits :: "u8 \<Rightarrow> u8" where
  "reverse_bits w = foldr (\<lambda>i acc. (if bit w (7 - i) then push_bit i 1 else 0) OR acc) [0..<8] 0"

definition status_to_bits :: "Status \<Rightarrow> u8" where
  "status_to_bits status = drop_bit 3 (reverse_bits status)"

definition set_exception_flag :: "CSRegisters \<Rightarrow> Fflag \<Rightarrow> CSRegisters" where
  "set_exception_flag c m = snd (csr_set_bits c csr_fflags (push_bit (fflag_bit m) 1))"

definition set_exception_flag_status :: "CSRegisters \<Rightarrow> Status \<Rightarrow> CSRegisters" where
  "set_exception_flag_status c status =
     (let bits = status_to_bits status in snd (csr_set_bits c csr_fflags (ucast bits)))"

definition f_rounding_mode :: "HartState \<Rightarrow> InstrRoundingMode \<Rightarrow> (Exception, Round) result" where
  "f_rounding_mode h rm =
     map_result into_Round
       (case rm of
          Static rm \<Rightarrow> Inr rm
        | Dynamic \<Rightarrow> rounding_try_from (csr_read (h_csregisters h) csr_frm))"

section \<open>The instructions over any format\<close>

definition run_fclass :: "'f FloatExt \<Rightarrow> HartState \<Rightarrow> FRegister \<Rightarrow> XRegister \<Rightarrow> HartState" where
  "run_fclass F h rs1 rd =
     (let rval = fx_from F (fread (h_fregisters h) rs1);
          fl = fx_float F;
          is_neg = fl_is_negative fl rval;
          res = (if fl_is_neg_infinity fl rval then 1
                 else if is_neg \<and> fl_is_normal fl rval then push_bit 1 1
                 else if is_neg \<and> fl_is_denormal fl rval then push_bit 2 1
                 else if fl_is_neg_zero fl rval then push_bit 3 1
                 else if fl_is_pos_zero fl rval then push_bit 4 1
                 else if fl_is_denormal fl rval then push_bit 5 1
                 else if fl_is_normal fl rval then push_bit 6 1
                 else if fl_is_pos_infinity fl rval then push_bit 7 1
                 else if fl_is_signaling fl rval then push_bit 8 1
                 else push_bit 9 1)
      in h\<lparr>h_xregisters := xwrite (h_xregisters h) rd res\<rparr>)"

definition run_feq ::
    "'f FloatExt \<Rightarrow> HartState \<Rightarrow> FRegister \<Rightarrow> FRegister \<Rightarrow> XRegister \<Rightarrow> HartState" where
  "run_feq F h rs1 rs2 rd =
     (let rval1 = fx_from F (fread (h_fregisters h) rs1);
          rval2 = fx_from F (fread (h_fregisters h) rs2);
          fl = fx_float F;
          h1 = (if fl_is_signaling fl rval1 \<or> fl_is_signaling fl rval2
                then h\<lparr>h_csregisters := set_exception_flag (h_csregisters h) NV\<rparr> else h);
          res = (if fl_eq fl rval1 rval2 then 1 else 0)
      in h1\<lparr>h_xregisters := xwrite (h_xregisters h1) rd res\<rparr>)"

definition run_flt ::
    "'f FloatExt \<Rightarrow> HartState \<Rightarrow> FRegister \<Rightarrow> FRegister \<Rightarrow> XRegister \<Rightarrow> HartState" where
  "run_flt F h rs1 rs2 rd =
     (let rval1 = fx_from F (fread (h_fregisters h) rs1);
          rval2 = fx_from F (fread (h_fregisters h) rs2);
          fl = fx_float F;
          h1 = (if fl_is_nan fl rval1 \<or> fl_is_nan fl rval2
                then h\<lparr>h_csregisters := set_exception_flag (h_csregisters h) NV\<rparr> else h);
          res = (if fl_lt fl rval1 rval2 then 1 else 0)
      in h1\<lparr>h_xregisters := xwrite (h_xregisters h1) rd res\<rparr>)"

definition run_fle ::
    "'f FloatExt \<Rightarrow> HartState \<Rightarrow> FRegister \<Rightarrow> FRegister \<Rightarrow> XRegister \<Rightarrow> HartState" where
  "run_fle F h rs1 rs2 rd =
     (let rval1 = fx_from F (fread (h_fregisters h) rs1);
          rval2 = fx_from F (fread (h_fregisters h) rs2);
          fl = fx_float F;
          h1 = (if fl_is_nan fl rval1 \<or> fl_is_nan fl rval2
                then h\<lparr>h_csregisters := set_exception_flag (h_csregisters h) NV\<rparr> else h);
          res = (if fl_le fl rval1 rval2 then 1 else 0)
      in h1\<lparr>h_xregisters := xwrite (h_xregisters h1) rd res\<rparr>)"

definition f_write_result ::
    "'f FloatExt \<Rightarrow> HartState \<Rightarrow> FRegister \<Rightarrow> Status \<times> 'f \<Rightarrow> HartState" where
  "f_write_result F h rd res =
     (let (status, value) = map_prod id (canonicalise F) res;
          h1 = (if status \<noteq> Status_OK
                then h\<lparr>h_csregisters := set_exception_flag_status (h_csregisters h) status\<rparr> else h)
      in h1\<lparr>h_fregisters := fwrite (h_fregisters h1) rd (fx_into F value)\<rparr>)"

definition f_arith_3 ::
    "'f FloatExt \<Rightarrow> HartState \<Rightarrow> FRegister \<Rightarrow> FRegister \<Rightarrow> FRegister \<Rightarrow> InstrRoundingMode \<Rightarrow> FRegister \<Rightarrow>
     ('f \<Rightarrow> 'f \<Rightarrow> 'f \<Rightarrow> Round \<Rightarrow> Status \<times> 'f) \<Rightarrow> (Exception, HartState) result" where
  "f_arith_3 F h rs1 rs2 rs3 rm rd f =
     (let rval1 = fx_from F (fread (h_fregisters h) rs1);
          rval2 = fx_from F (fread (h_fregisters h) rs2);
          rval3 = fx_from F (fread (h_fregisters h) rs3)
      in case f_rounding_mode h rm of
           Inl e \<Rightarrow> Inl e
         | Inr rm \<Rightarrow> Inr (f_write_result F h rd (f rval1 rval2 rval3 rm)))"

definition f_arith_2 ::
    "'f FloatExt \<Rightarrow> HartState \<Rightarrow> FRegister \<Rightarrow> FRegister \<Rightarrow> InstrRoundingMode \<Rightarrow> FRegister \<Rightarrow>
     ('f \<Rightarrow> 'f \<Rightarrow> Round \<Rightarrow> Status \<times> 'f) \<Rightarrow> (Exception, HartState) result" where
  "f_arith_2 F h rs1 rs2 rm rd f =
     (let rval1 = fx_from F (fread (h_fregisters h) rs1);
          rval2 = fx_from F (fread (h_fregisters h) rs2)
      in case f_rounding_mode h rm of
           Inl e \<Rightarrow> Inl e
         | Inr rm \<Rightarrow> Inr (f_write_result F h rd (f rval1 rval2 rm)))"

definition f_sign_injection ::
    "'f FloatExt \<Rightarrow> HartState \<Rightarrow> FRegister \<Rightarrow> FRegister \<Rightarrow> FRegister \<Rightarrow> (bool \<Rightarrow> bool \<Rightarrow> bool) \<Rightarrow> HartState" where
  "f_sign_injection F h rs1 rs2 rd pick_sign =
     (let rval1 = fx_from F (fread (h_fregisters h) rs1);
          rval2 = fx_from F (fread (h_fregisters h) rs2);
          sign_bit_1 = fl_is_negative (fx_float F) rval1;
          sign_bit_2 = fl_is_negative (fx_float F) rval2;
          sign_bit = pick_sign sign_bit_1 sign_bit_2;
          res = (if sign_bit = sign_bit_1 then rval1 else fl_neg (fx_float F) rval1)
      in h\<lparr>h_fregisters := fwrite (h_fregisters h) rd (fx_into F res)\<rparr>)"

definition min_max ::
    "'f FloatExt \<Rightarrow> HartState \<Rightarrow> FRegister \<Rightarrow> FRegister \<Rightarrow> FRegister \<Rightarrow> ('f \<Rightarrow> 'f \<Rightarrow> 'f) \<Rightarrow> HartState" where
  "min_max F h rs1 rs2 rd cmp =
     (let rval1 = fx_from F (fread (h_fregisters h) rs1);
          rval2 = fx_from F (fread (h_fregisters h) rs2);
          fl = fx_float F;
          rval1_nan = fl_is_nan fl rval1;
          rval2_nan = fl_is_nan fl rval2;
          res = (case (rval1_nan, rval2_nan) of
                   (True, True) \<Rightarrow> fx_canonical_nan F
                 | (True, False) \<Rightarrow> rval2
                 | (False, True) \<Rightarrow> rval1
                 | (False, False) \<Rightarrow> cmp rval1 rval2);
          h1 = (if (rval1_nan \<or> rval2_nan) \<and> (fl_is_signaling fl rval1 \<or> fl_is_signaling fl rval2)
                then h\<lparr>h_csregisters := set_exception_flag (h_csregisters h) NV\<rparr> else h)
      in h1\<lparr>h_fregisters := fwrite (h_fregisters h1) rd (fx_into F res)\<rparr>)"

definition run_fadd ::
    "'f FloatExt \<Rightarrow> HartState \<Rightarrow> FRegister \<Rightarrow> FRegister \<Rightarrow> InstrRoundingMode \<Rightarrow> FRegister \<Rightarrow>
     (Exception, HartState) result" where
  "run_fadd F h rs1 rs2 rm rd = f_arith_2 F h rs1 rs2 rm rd (fl_add_r (fx_float F))"

definition run_fsub ::
    "'f FloatExt \<Rightarrow> HartState \<Rightarrow> FRegister \<Rightarrow> FRegister \<Rightarrow> InstrRoundingMode \<Rightarrow> FRegister \<Rightarrow>
     (Exception, HartState) result" where
  "run_fsub F h rs1 rs2 rm rd = f_arith_2 F h rs1 rs2 rm rd (fl_sub_r (fx_float F))"

definition run_fmul ::
    "'f FloatExt \<Rightarrow> HartState \<Rightarrow> FRegister \<Rightarrow> FRegister \<Rightarrow> InstrRoundingMode \<Rightarrow> FRegister \<Rightarrow>
     (Exception, HartState) result" where
  "run_fmul F h rs1 rs2 rm rd = f_arith_2 F h rs1 rs2 rm rd (fl_mul_r (fx_float F))"

definition run_fdiv ::
    "'f FloatExt \<Rightarrow> HartState \<Rightarrow> FRegister \<Rightarrow> FRegister \<Rightarrow> InstrRoundingMode \<Rightarrow> FRegister \<Rightarrow>
     (Exception, HartState) result" where
  "run_fdiv F h rs1 rs2 rm rd = f_arith_2 F h rs1 rs2 rm rd (fl_div_r (fx_float F))"

definition run_fmin :: "'f FloatExt \<Rightarrow> HartState \<Rightarrow> FRegister \<Rightarrow> FRegister \<Rightarrow> FRegister \<Rightarrow> HartState" where
  "run_fmin F h rs1 rs2 rd = min_max F h rs1 rs2 rd (fl_minimum (fx_float F))"

definition run_fmax :: "'f FloatExt \<Rightarrow> HartState \<Rightarrow> FRegister \<Rightarrow> FRegister \<Rightarrow> FRegister \<Rightarrow> HartState" where
  "run_fmax F h rs1 rs2 rd = min_max F h rs1 rs2 rd (fl_maximum (fx_float F))"

definition run_fmadd ::
    "'f FloatExt \<Rightarrow> HartState \<Rightarrow> FRegister \<Rightarrow> FRegister \<Rightarrow> FRegister \<Rightarrow> InstrRoundingMode \<Rightarrow> FRegister \<Rightarrow>
     (Exception, HartState) result" where
  "run_fmadd F h rs1 rs2 rs3 rm rd =
     f_arith_3 F h rs1 rs2 rs3 rm rd (fl_mul_add_r (fx_float F))"

definition run_fmsub ::
    "'f FloatExt \<Rightarrow> HartState \<Rightarrow> FRegister \<Rightarrow> FRegister \<Rightarrow> FRegister \<Rightarrow> InstrRoundingMode \<Rightarrow> FRegister \<Rightarrow>
     (Exception, HartState) result" where
  "run_fmsub F h rs1 rs2 rs3 rm rd =
     f_arith_3 F h rs1 rs2 rs3 rm rd (\<lambda>rv1 rv2 rv3 rm. fl_mul_add_r (fx_float F) rv1 rv2 (fl_neg (fx_float F) rv3) rm)"

definition run_fnmsub ::
    "'f FloatExt \<Rightarrow> HartState \<Rightarrow> FRegister \<Rightarrow> FRegister \<Rightarrow> FRegister \<Rightarrow> InstrRoundingMode \<Rightarrow> FRegister \<Rightarrow>
     (Exception, HartState) result" where
  "run_fnmsub F h rs1 rs2 rs3 rm rd =
     f_arith_3 F h rs1 rs2 rs3 rm rd (\<lambda>rv1 rv2 rv3 rm. fl_mul_add_r (fx_float F) (fl_neg (fx_float F) rv1) rv2 rv3 rm)"

definition run_fnmadd ::
    "'f FloatExt \<Rightarrow> HartState \<Rightarrow> FRegister \<Rightarrow> FRegister \<Rightarrow> FRegister \<Rightarrow> InstrRoundingMode \<Rightarrow> FRegister \<Rightarrow>
     (Exception, HartState) result" where
  "run_fnmadd F h rs1 rs2 rs3 rm rd =
     f_arith_3 F h rs1 rs2 rs3 rm rd (\<lambda>rv1 rv2 rv3 rm. fl_mul_add_r (fx_float F) (fl_neg (fx_float F) rv1) rv2 (fl_neg (fx_float F) rv3) rm)"

definition run_fsgnj :: "'f FloatExt \<Rightarrow> HartState \<Rightarrow> FRegister \<Rightarrow> FRegister \<Rightarrow> FRegister \<Rightarrow> HartState" where
  "run_fsgnj F h rs1 rs2 rd = f_sign_injection F h rs1 rs2 rd (\<lambda>x y. y)"

definition run_fsgnjn :: "'f FloatExt \<Rightarrow> HartState \<Rightarrow> FRegister \<Rightarrow> FRegister \<Rightarrow> FRegister \<Rightarrow> HartState" where
  "run_fsgnjn F h rs1 rs2 rd = f_sign_injection F h rs1 rs2 rd (\<lambda>x y. \<not> y)"

definition run_fsgnjx :: "'f FloatExt \<Rightarrow> HartState \<Rightarrow> FRegister \<Rightarrow> FRegister \<Rightarrow> FRegister \<Rightarrow> HartState" where
  "run_fsgnjx F h rs1 rs2 rd = f_sign_injection F h rs1 rs2 rd (\<lambda>x y. x \<noteq> y)"

section \<open>Single precision\<close>

definition CANONICAL_NAN_BITS_S :: u32 where "CANONICAL_NAN_BITS_S = 0x7FC00000"

definition f32_to_fvalue :: "u32 \<Rightarrow> FValue" where
  "f32_to_fvalue val = ucast val OR 0xFFFFFFFF00000000"

definition fvalue_to_f32_bits :: "FValue \<Rightarrow> u32" where
  "fvalue_to_f32_bits val =
     (if drop_bit 32 val \<noteq> 0xFFFFFFFF then CANONICAL_NAN_BITS_S else ucast val)"

definition single_into :: "'f Float \<Rightarrow> 'f \<Rightarrow> FValue" where
  "single_into fl f = (let val = fl_to_bits fl f in f32_to_fvalue (ucast val))"

definition single_canonical_nan :: "'f Float \<Rightarrow> 'f" where
  "single_canonical_nan fl = fl_from_bits fl (ucast CANONICAL_NAN_BITS_S)"

definition single_from :: "'f Float \<Rightarrow> FValue \<Rightarrow> 'f" where
  "single_from fl val =
     (if drop_bit 32 val \<noteq> 0xFFFFFFFF then single_canonical_nan fl
      else fl_from_bits fl (ucast (ucast val :: u32)))"

definition Single :: "'f Float \<Rightarrow> 'f FloatExt" where
  "Single fl = \<lparr>fx_float = fl, fx_from = single_from fl, fx_into = single_into fl,
                fx_canonical_nan = single_canonical_nan fl\<rparr>"

section \<open>Double precision\<close>

definition CANONICAL_NAN_BITS_D :: u64 where "CANONICAL_NAN_BITS_D = 0x7FF8000000000000"

definition double_into :: "'f Float \<Rightarrow> 'f \<Rightarrow> FValue" where
  "double_into fl f = ucast (fl_to_bits fl f)"

definition double_from :: "'f Float \<Rightarrow> FValue \<Rightarrow> 'f" where
  "double_from fl val = fl_from_bits fl (ucast val)"

definition double_canonical_nan :: "'f Float \<Rightarrow> 'f" where
  "double_canonical_nan fl = fl_from_bits fl (ucast CANONICAL_NAN_BITS_D)"

definition Double :: "'f Float \<Rightarrow> 'f FloatExt" where
  "Double fl = \<lparr>fx_float = fl, fx_from = double_from fl, fx_into = double_into fl,
                fx_canonical_nan = double_canonical_nan fl\<rparr>"

section \<open>The instructions of the F and D extensions\<close>

definition run_fclass_s :: "'f Float \<Rightarrow> HartState \<Rightarrow> FRegister \<Rightarrow> XRegister \<Rightarrow> HartState" where
  "run_fclass_s fl h rs1 rd = run_fclass (Single fl) h rs1 rd"

definition run_feq_s :: "'f Float \<Rightarrow> HartState \<Rightarrow> FRegister \<Rightarrow> FRegister \<Rightarrow> XRegister \<Rightarrow> HartState" where
  "run_feq_s fl h rs1 rs2 rd = run_feq (Single fl) h rs1 rs2 rd"

definition run_fle_s :: "'f Float \<Rightarrow> HartState \<Rightarrow> FRegister \<Rightarrow> FRegister \<Rightarrow> XRegister \<Rightarrow> HartState" where
  "run_fle_s fl h rs1 rs2 rd = run_fle (Single fl) h rs1 rs2 rd"

definition run_flt_s :: "'f Float \<Rightarrow> HartState \<Rightarrow> FRegister \<Rightarrow> FRegister \<Rightarrow> XRegister \<Rightarrow> HartState" where
  "run_flt_s fl h rs1 rs2 rd = run_flt (Single fl) h rs1 rs2 rd"

definition run_fadd_s ::
    "'f Float \<Rightarrow> HartState \<Rightarrow> FRegister \<Rightarrow> FRegister \<Rightarrow> InstrRoundingMode \<Rightarrow> FRegister \<Rightarrow> (Exception, HartState) result" where
  "run_fadd_s fl h rs1 rs2 rm rd = run_fadd (Single fl) h rs1 rs2 rm rd"

definition run_fsub_s ::
    "'f Float \<Rightarrow> HartState \<Rightarrow> FRegister \<Rightarrow> FRegister \<Rightarrow> InstrRoundingMode \<Rightarrow> FRegister \<Rightarrow> (Exception, HartState) result" where
  "run_fsub_s fl h rs1 rs2 rm rd = run_fsub (Single fl) h rs1 rs2 rm rd"

definition run_fmul_s ::
    "'f Float \<Rightarrow> HartState \<Rightarrow> FRegister \<Rightarrow> FRegister \<Rightarrow> InstrRoundingMode \<Rightarrow> FRegister \<Rightarrow> (Exception, HartState) result" where
  "run_fmul_s fl h rs1 rs2 rm rd = run_fmul (Single fl) h rs1 rs2 rm rd"

definition run_fdiv_s ::
    "'f Float \<Rightarrow> HartState \<Rightarrow> FRegister \<Rightarrow> FRegister \<Rightarrow> InstrRoundingMode \<Rightarrow> FRegister \<Rightarrow> (Exception, HartState) result" where
  "run_fdiv_s fl h rs1 rs2 rm rd = run_fdiv (Single fl) h rs1 rs2 rm rd"

definition run_fsqrt_s ::
    "(u32 \<Rightarrow> Round \<Rightarrow> Status \<times> u32) \<Rightarrow> HartState \<Rightarrow> FRegister \<Rightarrow> InstrRoundingMode \<Rightarrow> FRegister \<Rightarrow>
     (Exception, HartState) result" where
  "run_fsqrt_s sqrt_accurate h rs1 rm rd =
     (case f_rounding_mode h rm of
        Inl e \<Rightarrow> Inl e
      | Inr rm \<Rightarrow>
          (let rval = fvalue_to_f32_bits (fread (h_fregisters h) rs1);
               (status, value) = sqrt_accurate rval rm;
               h1 = (if status \<noteq> Status_OK
                     then h\<lparr>h_csregisters := set_exception_flag_status (h_csregisters h) status\<rparr> else h)
           in Inr (h1\<lparr>h_fregisters := fwrite (h_fregisters h1) rd (f32_to_fvalue value)\<rparr>)))"

definition run_fmin_s :: "'f Float \<Rightarrow> HartState \<Rightarrow> FRegister \<Rightarrow> FRegister \<Rightarrow> FRegister \<Rightarrow> HartState" where
  "run_fmin_s fl h rs1 rs2 rd = run_fmin (Single fl) h rs1 rs2 rd"

definition run_fmax_s :: "'f Float \<Rightarrow> HartState \<Rightarrow> FRegister \<Rightarrow> FRegister \<Rightarrow> FRegister \<Rightarrow> HartState" where
  "run_fmax_s fl h rs1 rs2 rd = run_fmax (Single fl) h rs1 rs2 rd"

definition run_fmadd_s ::
    "'f Float \<Rightarrow> HartState \<Rightarrow> FRegister \<Rightarrow> FRegister \<Rightarrow> FRegister \<Rightarrow> InstrRoundingMode \<Rightarrow> FRegister \<Rightarrow>
     (Exception, HartState) result" where
  "run_fmadd_s fl h rs1 rs2 rs3 rm rd = run_fmadd (Single fl) h rs1 rs2 rs3 rm rd"

definition run_fmsub_s ::
    "'f Float \<Rightarrow> HartState \<Rightarrow> FRegister \<Rightarrow> FRegister \<Rightarrow> FRegister \<Rightarrow> InstrRoundingMode \<Rightarrow> FRegister \<Rightarrow>
     (Exception, HartState) result" where
  "run_fmsub_s fl h rs1 rs2 rs3 rm rd = run_fmsub (Single fl) h rs1 rs2 rs3 rm rd"

definition run_fnmsub_s ::
    "'f Float \<Rightarrow> HartState \<Rightarrow> FRegister \<Rightarrow> FRegister \<Rightarrow> FRegister \<Rightarrow> InstrRoundingMode \<Rightarrow> FRegister \<Rightarrow>
     (Exception, HartState) result" where
  "run_fnmsub_s fl h rs1 rs2 rs3 rm rd = run_fnmsub (Single fl) h rs1 rs2 rs3 rm rd"

definition run_fnmadd_s ::
    "'f Float \<Rightarrow> HartState \<Rightarrow> FRegister \<Rightarrow> FRegister \<Rightarrow> FRegister \<Rightarrow> InstrRoundingMode \<Rightarrow> FRegister \<Rightarrow>
     (Exception, HartState) result" where
  "run_fnmadd_s fl h rs1 rs2 rs3 rm rd = run_fnmadd (Single fl) h rs1 rs2 rs3 rm rd"

definition run_fsgnj_s :: "'f Float \<Rightarrow> HartState \<Rightarrow> FRegister \<Rightarrow> FRegister \<Rightarrow> FRegister \<Rightarrow> HartState" where
  "run_fsgnj_s fl h rs1 rs2 rd = run_fsgnj (Single fl) h rs1 rs2 rd"

definition run_fsgnjn_s :: "'f Float \<Rightarrow> HartState \<Rightarrow> FRegister \<Rightarrow> FRegister \<Rightarrow> FRegister \<Rightarrow> HartState" where
  "run_fsgnjn_s fl h rs1 rs2 rd = run_fsgnjn (Single fl) h rs1 rs2 rd"

definition run_fsgnjx_s :: "'f Float \<Rightarrow> HartState \<Rightarrow> FRegister \<Rightarrow> FRegister \<Rightarrow> FRegister \<Rightarrow> HartState" where
  "run_fsgnjx_s fl h rs1 rs2 rd = run_fsgnjx (Single fl) h rs1 rs2 rd"

definition run_fclass_d :: "'f Float \<Rightarrow> HartState \<Rightarrow> FRegister \<Rightarrow> XRegister \<Rightarrow> HartState" where
  "run_fclass_d fl h rs1 rd = run_fclass (Double fl) h rs1 rd"

definition run_feq_d :: "'f Float \<Rightarrow> HartState \<Rightarrow> FRegister \<Rightarrow> FRegister \<Rightarrow> XRegister \<Rightarrow> HartState" where
  "run_feq_d fl h rs1 rs2 rd = run_feq (Double fl) h rs1 rs2 rd"

definition run_fle_d :: "'f Float \<Rightarrow> HartState \<Rightarrow> FRegister \<Rightarrow> FRegister \<Rightarrow> XRegister \<Rightarrow> HartState" where
  "run_fle_d fl h rs1 rs2 rd = run_fle (Double fl) h rs1 rs2 rd"

definition run_flt_d :: "'f Float \<Rightarrow> HartState \<Rightarrow> FRegister \<Rightarrow> FRegister \<Rightarrow> XRegister \<Rightarrow> HartState" where
  "run_flt_d fl h rs1 rs2 rd = run_flt (Double fl) h rs1 rs2 rd"

definition run_fadd_d ::
    "'f Float \<Rightarrow> HartState \<Rightarrow> FRegister \<Rightarrow> FRegister \<Rightarrow> InstrRoundingMode \<Rightarrow> FRegister \<Rightarrow> (Exception, HartState) result" where
  "run_fadd_d fl h rs1 rs2 rm rd = run_fadd (Double fl) h rs1 rs2 rm rd"

definition run_fsub_d ::
    "'f Float \<Rightarrow> HartState \<Rightarrow> FRegister \<Rightarrow> FRegister \<Rightarrow> InstrRoundingMode \<Rightarrow> FRegister \<Rightarrow> (Exception, HartState) result" where
  "run_fsub_d fl h rs1 rs2 rm rd = run_fsub (Double fl) h rs1 rs2 rm rd"

definition run_fmul_d ::
    "'f Float \<Rightarrow> HartState \<Rightarrow> FRegister \<Rightarrow> FRegister \<Rightarrow> InstrRoundingMode \<Rightarrow> FRegister \<Rightarrow> (Exception, HartState) result" where
  "run_fmul_d fl h rs1 rs2 rm rd = run_fmul (Double fl) h rs1 rs2 rm rd"

definition run_fdiv_d ::
    "'f Float \<Rightarrow> HartState \<Rightarrow> FRegister \<Rightarrow> FRegister \<Rightarrow> InstrRoundingMode \<Rightarrow> FRegister \<Rightarrow> (Exception, HartState) result" where
  "run_fdiv_d fl h rs1 rs2 rm rd = run_fdiv (Double fl) h rs1 rs2 rm rd"

definition run_fsqrt_d ::
    "(u64 \<Rightarrow> Round \<Rightarrow> Status \<times> u64) \<Rightarrow> HartState \<Rightarrow> FRegister \<Rightarrow> InstrRoundingMode \<Rightarrow> FRegister \<Rightarrow>
     (Exception, HartState) result" where
  "run_fsqrt_d sqrt_accurate h rs1 rm rd =
     (case f_rounding_mode h rm of
        Inl e \<Rightarrow> Inl e
      | Inr rm \<Rightarrow>
          (let rval = fread (h_fregisters h) rs1;
               (status, value) = sqrt_accurate rval rm;
               h1 = (if status \<noteq> Status_OK
                     then h\<lparr>h_csregisters := set_exception_flag_status (h_csregisters h) status\<rparr> else h)
           in Inr (h1\<lparr>h_fregisters := fwrite (h_fregisters h1) rd value\<rparr>)))"

definition run_fmin_d :: "'f Float \<Rightarrow> HartState \<Rightarrow> FRegister \<Rightarrow> FRegister \<Rightarrow> FRegister \<Rightarrow> HartState" where
  "run_fmin_d fl h rs1 rs2 rd = run_fmin (Double fl) h rs1 rs2 rd"

definition run_fmax_d :: "'f Float \<Rightarrow> HartState \<Rightarrow> FRegister \<Rightarrow> FRegister \<Rightarrow> FRegister \<Rightarrow> HartState" where
  "run_fmax_d fl h rs1 rs2 rd = run_fmax (Double fl) h rs1 rs2 rd"

definition run_fmadd_d ::
    "'f Float \<Rightarrow> HartState \<Rightarrow> FRegister \<Rightarrow> FRegister \<Rightarrow> FRegister \<Rightarrow> InstrRoundingMode \<Rightarrow> FRegister \<Rightarrow>
     (Exception, HartState) result" where
  "run_fmadd_d fl h rs1 rs2 rs3 rm rd = run_fmadd (Double fl) h rs1 rs2 rs3 rm rd"

definition run_fmsub_d ::
    "'f Float \<Rightarrow> HartState \<Rightarrow> FRegister \<Rightarrow> FRegister \<Rightarrow> FRegister \<Rightarrow> InstrRoundingMode \<Rightarrow> FRegister \<Rightarrow>
     (Exception, HartState) result" where
  "run_fmsub_d fl h rs1 rs2 rs3 rm rd = run_fmsub (Double fl) h rs1 rs2 rs3 rm rd"

definition run_fnmsub_d ::
    "'f Float \<Rightarrow> HartState \<Rightarrow> FRegister \<Rightarrow> FRegister \<Rightarrow> FRegister \<Rightarrow> InstrRoundingMode \<Rightarrow> FRegister \<Rightarrow>
     (Exception, HartState) result" where
  "run_fnmsub_d fl h rs1 rs2 rs3 rm rd = run_fnmsub (Double fl) h rs1 rs2 rs3 rm rd"

definition run_fnmadd_d ::
    "'f Float \<Rightarrow> HartState \<Rightarrow> FRegister \<Rightarrow> FRegister \<Rightarrow> FRegister \<Rightarrow> InstrRoundingMode \<Rightarrow> FRegister \<Rightarrow>
     (Exception, HartState) result" where
  "run_fnmadd_d fl h rs1 rs2 rs3 rm rd = run_fnmadd (Double fl) h rs1 rs2 rs3 rm rd"

definition run_fsgnj_d :: "'f Float \<Rightarrow> HartState \<Rightarrow> FRegister \<Rightarrow> FRegister \<Rightarrow> FRegister \<Rightarrow> HartState" where
  "run_fsgnj_d fl h rs1 rs2 rd = run_fsgnj (Double fl) h rs1 rs2 rd"

definition run_fsgnjn_d :: "'f Float \<Rightarrow> HartState \<Rightarrow> FRegister \<Rightarrow> FRegister \<Rightarrow> FRegister \<Rightarrow> HartState" where
  "run_fsgnjn_d fl h rs1 rs2 rd = run_fsgnjn (Double fl) h rs1 rs2 rd"

definition run_fsgnjx_d :: "'f Float \<Rightarrow> HartState \<Rightarrow> FRegister \<Rightarrow> FRegister \<Rightarrow> FRegister \<Rightarrow> HartState" where
  "run_fsgnjx_d fl h rs1 rs2 rd = run_fsgnjx (Double fl) h rs1 rs2 rd"

definition run_fmv_x_w :: "HartState \<Rightarrow> FRegister \<Rightarrow> XRegister \<Rightarrow> HartState" where
  "run_fmv_x_w h rs1 rd =
     (let rval = sext32 (fread (h_fregisters h) rs1)
      in h\<lparr>h_xregisters := xwrite (h_xregisters h) rd rval\<rparr>)"

definition run_fmv_w_x :: "HartState \<Rightarrow> XRegister \<Rightarrow> FRegister \<Rightarrow> HartState" where
  "run_fmv_w_x h rs1 rd =
     (let rval = f32_to_fvalue (ucast (xread (h_xregisters h) rs1))
      in h\<lparr>h_fregisters := fwrite (h_fregisters h) rd rval\<rparr>)"

definition run_fmv_d_x :: "HartState \<Rightarrow> XRegister \<Rightarrow> FRegister \<Rightarrow> HartState" where
  "run_fmv_d_x h rs1 rd = h\<lparr>h_fregisters := fwrite (h_fregisters h) rd (xread (h_xregisters h) rs1)\<rparr>"

definition run_fmv_x_d :: "HartState \<Rightarrow> FRegister \<Rightarrow> XRegister \<Rightarrow> HartState" where
  "run_fmv_x_d h rs1 rd = h\<lparr>h_xregisters := xwrite (h_xregisters h) rd (fread (h_fregisters h) rs1)\<rparr>"

definition write_freg :: "MachineState \<Rightarrow> FRegister \<Rightarrow> FValue \<Rightarrow> MachineState" where
  "write_freg m rd v =
     m\<lparr>ms_hart := (ms_hart m)\<lparr>h_fregisters := fwrite (h_fregisters (ms_hart m)) rd v\<rparr>\<rparr>"

definition run_flw ::
    "Twiddle \<Rightarrow> MachineState \<Rightarrow> i64 \<Rightarrow> XRegister \<Rightarrow> FRegister \<Rightarrow> (Exception, MachineState) result" where
  "run_flw tw m imm rs1 rd =
     map_result (\<lambda>val. write_freg m rd (f32_to_fvalue val)) (read_from_bus tw m imm rs1)"

definition run_fsw ::
    "Twiddle \<Rightarrow> MachineState \<Rightarrow> i64 \<Rightarrow> XRegister \<Rightarrow> FRegister \<Rightarrow> (Exception, MachineState) result" where
  "run_fsw tw m imm rs1 rs2 =
     (let val = fread (h_fregisters (ms_hart m)) rs2 in write_to_bus tw m imm rs1 (ucast val :: u32))"

definition run_fld ::
    "Twiddle \<Rightarrow> MachineState \<Rightarrow> i64 \<Rightarrow> XRegister \<Rightarrow> FRegister \<Rightarrow> (Exception, MachineState) result" where
  "run_fld tw m imm rs1 rd = map_result (\<lambda>val. write_freg m rd val) (read_from_bus tw m imm rs1)"

definition run_fsd ::
    "Twiddle \<Rightarrow> MachineState \<Rightarrow> i64 \<Rightarrow> XRegister \<Rightarrow> FRegister \<Rightarrow> (Exception, MachineState) result" where
  "run_fsd tw m imm rs1 rs2 =
     (let val = fread (h_fregisters (ms_hart m)) rs2 in write_to_bus tw m imm rs1 val)"

section \<open>Flags\<close>

lemma bit_reverse_bits: "bit (reverse_bits w) k \<longleftrightarrow> k < 8 \<and> bit w (7 - k)"
proof -
  have "bit (foldr (\<lambda>i acc. (if bit w (7 - i) then push_bit i 1 else 0) OR acc) xs (0 :: u8)) k \<longleftrightarrow>
    (\<exists>i \<in> set xs. i = k \<and> i < 8 \<and> bit w (7 - i))" for xs
    by (induction xs) (auto simp: bit_or_iff bit_exp_iff possible_bit_def)
  then show ?thesis by (auto simp: reverse_bits_def simp del: upt_rec_numeral)
qed

lemma bit_status_to_bits: "bit (status_to_bits status) k \<longleftrightarrow> k < 5 \<and> bit status (4 - k)"
  by (auto simp: status_to_bits_def bit_drop_bit_eq bit_reverse_bits)

lemma fflags_set_bits:
  "csr_read (snd (csr_set_bits c csr_fflags b)) csr_fflags = (csr_read c csr_fflags OR b) AND 0x1F"
  by (simp add: csr_set_bits_def Let_def csr_read_write_same fcsr_view_def writable_defs)

lemma fflags_low: "csr_read c csr_fflags AND 0x1F = csr_read c csr_fflags"
  by (simp add: csr_read_def transform_read_def shadowed_def FFLAGS_MASK_def and.assoc)

lemma ucast_status_low: "(ucast (status_to_bits status) :: u64) AND 0x1F = ucast (status_to_bits status)"
proof -
  have *: "(0x1F :: u64) = mask 5" by (simp add: mask_eq_exp_minus_1)
  show ?thesis
    unfolding * by (rule bit_word_eqI) (auto simp: bit_and_iff bit_mask_iff bit_unsigned_iff bit_status_to_bits)
qed

lemma fflags_status:
  "csr_read (set_exception_flag_status c status) csr_fflags =
     csr_read c csr_fflags OR ucast (status_to_bits status)"
  unfolding set_exception_flag_status_def Let_def fflags_set_bits bit.conj_disj_distrib2 fflags_low
    ucast_status_low ..

lemma status_OK_bits: "status_to_bits Status_OK = 0"
  by (rule bit_word_eqI) (simp add: bit_status_to_bits Status_OK_def)

lemma f_write_result_simps:
  "h_xregisters (f_write_result F h rd res) = h_xregisters h"
  "h_pc (f_write_result F h rd res) = h_pc h" "h_mode (f_write_result F h rd res) = h_mode h"
  "h_fregisters (f_write_result F h rd res) =
     fwrite (h_fregisters h) rd (fx_into F (canonicalise F (snd res)))"
  "csr_read (h_csregisters (f_write_result F h rd res)) csr_fflags =
     csr_read (h_csregisters h) csr_fflags OR ucast (status_to_bits (fst res))"
  by (simp_all add: f_write_result_def Let_def split_beta fflags_status status_OK_bits del: One_nat_def)

lemma f_rounding_mode_cases:
  "f_rounding_mode h rm =
     (case rm of
        Static r \<Rightarrow> Inr (into_Round r)
      | Dynamic \<Rightarrow>
          (if csr_read (h_csregisters h) csr_frm \<le> 4
           then Inr (into_Round
             ([RNE, RTZ, RDN, RUP, RMM] ! unat (csr_read (h_csregisters h) csr_frm)))
           else Inl IllegalInstruction))"
proof -
  have "map_result into_Round (rounding_try_from v) =
      (if v \<le> 4 then Inr (into_Round ([RNE, RTZ, RDN, RUP, RMM] ! unat v)) else Inl IllegalInstruction)" for v
  proof (cases "v \<le> 4")
    case True
    then have "unat v \<le> 4" by (simp add: word_le_nat_alt)
    then consider "unat v = 0" | "unat v = 1" | "unat v = 2" | "unat v = 3" | "unat v = 4" by linarith
    then show ?thesis
    proof cases
      case 1 then have "v = 0" by (simp add: unat_eq_0) then show ?thesis by (simp add: rounding_try_from_def)
    next
      case 2 then have "v = 1" by (simp add: word_unat_eq_iff) then show ?thesis by (simp add: rounding_try_from_def word_le_nat_alt)
    next
      case 3 then have "v = 2" by (simp add: word_unat_eq_iff) then show ?thesis by (simp add: rounding_try_from_def word_le_nat_alt)
    next
      case 4 then have "v = 3" by (simp add: word_unat_eq_iff) then show ?thesis by (simp add: rounding_try_from_def word_le_nat_alt)
    next
      case 5 then have "v = 4" by (simp add: word_unat_eq_iff) then show ?thesis by (simp add: rounding_try_from_def word_le_nat_alt)
    qed
  next
    case False
    then have "v \<noteq> 0" "v \<noteq> 1" "v \<noteq> 2" "v \<noteq> 3" "v \<noteq> 4" by (auto simp: word_le_nat_alt)
    with False show ?thesis by (simp add: rounding_try_from_def)
  qed
  then show ?thesis by (cases rm) (simp_all add: f_rounding_mode_def)
qed

section \<open>Boxing\<close>

lemma boxed_upper: "drop_bit 32 (f32_to_fvalue v) = 0xFFFFFFFF"
  and boxed_lower: "ucast (f32_to_fvalue v) = v"
proof -
  have *: "(0xFFFFFFFF00000000 :: u64) = push_bit 32 (mask 32)" "(0xFFFFFFFF :: u64) = mask 32"
    by (simp_all add: mask_eq_exp_minus_1)
  show "drop_bit 32 (f32_to_fvalue v) = 0xFFFFFFFF"
    unfolding f32_to_fvalue_def *
    by (rule bit_word_eqI)
       (auto simp: bit_or_iff bit_drop_bit_eq bit_push_bit_iff bit_mask_iff bit_unsigned_iff)
  show "ucast (f32_to_fvalue v) = v"
    unfolding f32_to_fvalue_def *
    by (rule bit_word_eqI)
       (auto simp: bit_or_iff bit_push_bit_iff bit_mask_iff bit_unsigned_iff)
qed

lemma single_into_boxed:
  assumes "\<forall>b < 2 ^ 32. fl_to_bits fl (fl_from_bits fl b) = b"
  shows "drop_bit 32 (fx_into (Single fl) (canonicalise (Single fl) v)) = 0xFFFFFFFF"
    and "fvalue_to_f32_bits (fx_into (Single fl) (canonicalise (Single fl) v)) =
      (if fl_is_nan fl v then CANONICAL_NAN_BITS_S else ucast (fl_to_bits fl v))"
proof -
  have "(ucast CANONICAL_NAN_BITS_S :: u128) < 2 ^ 32"
    by (simp add: CANONICAL_NAN_BITS_S_def word_less_nat_alt)
  with assms have "fl_to_bits fl (single_canonical_nan fl) = ucast CANONICAL_NAN_BITS_S"
    by (simp add: single_canonical_nan_def)
  then have "ucast (fl_to_bits fl (single_canonical_nan fl)) = CANONICAL_NAN_BITS_S"
    by (simp add: CANONICAL_NAN_BITS_S_def)
  then show "drop_bit 32 (fx_into (Single fl) (canonicalise (Single fl) v)) = 0xFFFFFFFF"
    "fvalue_to_f32_bits (fx_into (Single fl) (canonicalise (Single fl) v)) =
      (if fl_is_nan fl v then CANONICAL_NAN_BITS_S else ucast (fl_to_bits fl v))"
    by (simp_all add: Single_def canonicalise_def single_into_def fvalue_to_f32_bits_def boxed_upper
        boxed_lower)
qed

lemma fread_fwrite_same [simp]: "fread (fwrite s r v) r = v"
  by (simp add: fread_def fwrite_def)

section \<open>The properties\<close>


definition example_float :: "u128 Float" where
  "example_float =
     \<lparr>fl_from_bits = id, fl_to_bits = id, fl_is_nan = \<lambda>v. v = 0x7FC00000,
      fl_is_signaling = \<lambda>_. False, fl_is_negative = \<lambda>v. bit v 31, fl_is_normal = \<lambda>_. True,
      fl_is_denormal = \<lambda>_. False, fl_is_neg_infinity = \<lambda>_. False, fl_is_pos_infinity = \<lambda>_. False,
      fl_is_neg_zero = \<lambda>_. False, fl_is_pos_zero = \<lambda>_. False, fl_eq = (=), fl_lt = (<), fl_le = (\<le>),
      fl_neg = \<lambda>v. v XOR push_bit 31 1, fl_minimum = min, fl_maximum = max,
      fl_add_r = \<lambda>a b _. (16, a + b), fl_sub_r = \<lambda>a b _. (16, a - b), fl_mul_r = \<lambda>a b _. (16, a * b),
      fl_div_r = \<lambda>a b _. (2, 0x7FC00000), fl_mul_add_r = \<lambda>a b c _. (0, a * b + c)\<rparr>"


text \<open>
  Single-precision values survive boxing: what is written to a register as a boxed value reads
  back unchanged, a register that is not properly boxed reads as the canonical NaN, and moving an
  integer register to a floating-point register and back yields the sign extension of its low half.
\<close>

theorem nan_boxing:
  assumes "rd \<noteq> x0"
  shows "fvalue_to_f32_bits (f32_to_fvalue v) = v \<and>
         (drop_bit 32 w \<noteq> 0xFFFFFFFF \<longrightarrow> fvalue_to_f32_bits w = 0x7FC00000) \<and>
         single_from fl (f32_to_fvalue v) = fl_from_bits fl (ucast v) \<and>
         xread (h_xregisters (run_fmv_x_w (run_fmv_w_x h rs1 fr) fr rd)) rd =
           sext32 (xread (h_xregisters h) rs1)"
proof -
  have "sext32 (f32_to_fvalue (ucast x)) = sext32 x" for x
    unfolding sext32_def by (simp only: boxed_lower)
  then show ?thesis
    using assms by (simp add: fvalue_to_f32_bits_def boxed_upper boxed_lower CANONICAL_NAN_BITS_S_def
        single_from_def run_fmv_x_w_def run_fmv_w_x_def Let_def is_zero_def)
qed

theorem nan_boxing_witness:
  "fvalue_to_f32_bits (f32_to_fvalue 0x3F800000) = 0x3F800000 \<and>
   fvalue_to_f32_bits 0x3F800000 = 0x7FC00000"
  using nan_boxing [of x1 "0x3F800000" "0x3F800000" example_float example_hart x1 f1]
  by simp

definition one_hot :: "nat \<Rightarrow> u64 \<Rightarrow> bool" where
  "one_hot n v \<longleftrightarrow> (\<exists>k < n. v = 2 ^ k)"

lemma one_hot_intros:
  "one_hot n v \<Longrightarrow> one_hot n w \<Longrightarrow> one_hot n (if c then v else w)"
  "k < n \<Longrightarrow> one_hot n (push_bit k 1)" "0 < n \<Longrightarrow> one_hot n 1"
  by (auto simp: one_hot_def push_bit_eq_mult intro: exI [of _ 0])

lemma fclass_one_hot:
  assumes "rd \<noteq> x0"
  shows "one_hot 10 (xread (h_xregisters (run_fclass F h rs1 rd)) rd)"
proof -
  have "xread (h_xregisters (h\<lparr>h_xregisters := xwrite (h_xregisters h) rd v\<rparr>)) rd = v" for v
    using assms by (simp add: is_zero_def)
  then show ?thesis
    unfolding run_fclass_def Let_def by (simp only:) (intro one_hot_intros; simp)
qed

text \<open>
  A classification sets exactly one of the ten class bits of its destination, whatever the
  operand, in both formats.
\<close>

theorem fclass_one_bit:
  assumes "rd \<noteq> x0"
  shows "(\<exists>k < 10. xread (h_xregisters (run_fclass_s fl h rs1 rd)) rd = 2 ^ k) \<and>
         (\<exists>k < 10. xread (h_xregisters (run_fclass_d fd h rs1 rd)) rd = 2 ^ k)"
  using fclass_one_hot [OF assms, of "Single fl" h rs1] fclass_one_hot [OF assms, of "Double fd" h rs1]
  by (simp add: run_fclass_s_def run_fclass_d_def one_hot_def)

theorem fclass_one_bit_witness:
  "\<exists>k < 10. xread (h_xregisters (run_fclass_s example_float example_hart f1 x1)) x1 = 2 ^ k"
  using fclass_one_bit [of x1 example_float example_hart f1 example_float] by simp

end
