(* ===== verification/RV_Machine.thy ===== *)
theory RV_Machine
  imports RV_Encoding RV_Float
begin

text \<open>
  The machine (\<open>machine_state.rs\<close>): fetch, execution of one decoded instruction, interrupts and
  exceptions, single steps and bounded runs.  The macros of the source that factor the cases of
  \<open>run_instr\<close> are definitions of the same names.  The external crates are the arguments collected
  in the record \<open>Externs\<close>.  An operation that may change the state and then fail returns its outcome
  with the state; a panic is \<open>None\<close> and is proved unreachable.
\<close>

section \<open>Types\<close>

record ('s, 'd) Externs =
  ex_twiddle :: Twiddle
  ex_single :: "'s Float"
  ex_double :: "'d Float"
  ex_sqrt32 :: "u32 \<Rightarrow> Round \<Rightarrow> Status \<times> u32"
  ex_sqrt64 :: "u64 \<Rightarrow> Round \<Rightarrow> Status \<times> u64"

datatype ProgramCounterUpdate = PC_Set Address | PC_Add u64

record StepManyResult =
  smr_steps :: nat
  smr_exception :: "EnvironException option"

type_synonym instr_result = "(Exception, ProgramCounterUpdate) result \<times> MachineState"

section \<open>The families of instructions\<close>

definition on_xregisters :: "(XRegisters \<Rightarrow> 'a \<Rightarrow> 'b \<Rightarrow> XRegisters) \<Rightarrow> HartState \<Rightarrow> 'a \<Rightarrow> 'b \<Rightarrow> HartState" where
  "on_xregisters run_fn h a b = h\<lparr>h_xregisters := run_fn (h_xregisters h) a b\<rparr>"

definition run_r_type_instr ::
    "MachineState \<Rightarrow> Instr \<Rightarrow> RTypeArgs \<Rightarrow> (XRegisters \<Rightarrow> XRegister \<Rightarrow> XRegister \<Rightarrow> XRegister \<Rightarrow> XRegisters) \<Rightarrow>
     instr_result" where
  "run_r_type_instr m instr args run_fn =
     (Inr (PC_Add (instr_width instr)),
      m\<lparr>ms_hart := (ms_hart m)\<lparr>h_xregisters :=
          run_fn (h_xregisters (ms_hart m)) (rt_rs1 args) (rt_rs2 args) (rt_rd args)\<rparr>\<rparr>)"

definition run_i_type_instr ::
    "MachineState \<Rightarrow> Instr \<Rightarrow> ITypeArgs \<Rightarrow> (XRegisters \<Rightarrow> i64 \<Rightarrow> XRegister \<Rightarrow> XRegister \<Rightarrow> XRegisters) \<Rightarrow>
     instr_result" where
  "run_i_type_instr m instr args run_fn =
     (Inr (PC_Add (instr_width instr)),
      m\<lparr>ms_hart := (ms_hart m)\<lparr>h_xregisters :=
          run_fn (h_xregisters (ms_hart m)) (it_imm args) (it_rs1 args) (it_rd args)\<rparr>\<rparr>)"

definition run_b_type_instr ::
    "MachineState \<Rightarrow> SBTypeArgs \<Rightarrow> (HartState \<Rightarrow> i64 \<Rightarrow> XRegister \<Rightarrow> XRegister \<Rightarrow> Address) \<Rightarrow> instr_result" where
  "run_b_type_instr m args run_fn =
     (Inr (PC_Set (run_fn (ms_hart m) (sb_imm args) (sb_rs1 args) (sb_rs2 args))), m)"

definition run_u_type_instr ::
    "MachineState \<Rightarrow> Instr \<Rightarrow> UJTypeArgs \<Rightarrow> (HartState \<Rightarrow> i64 \<Rightarrow> XRegister \<Rightarrow> HartState) \<Rightarrow> instr_result" where
  "run_u_type_instr m instr args run_fn =
     (Inr (PC_Add (instr_width instr)),
      m\<lparr>ms_hart := run_fn (ms_hart m) (uj_imm args) (uj_rd args)\<rparr>)"

definition run_jump_instr :: "MachineState \<Rightarrow> Address \<times> HartState \<Rightarrow> instr_result" where
  "run_jump_instr m r = (Inr (PC_Set (fst r)), m\<lparr>ms_hart := snd r\<rparr>)"

text \<open>The outcome of an operation that leaves the state alone when it fails.\<close>

definition lift_machine ::
    "MachineState \<Rightarrow> ProgramCounterUpdate \<Rightarrow> (Exception, MachineState) result \<Rightarrow> instr_result" where
  "lift_machine m upd r = (case r of Inl e \<Rightarrow> (Inl e, m) | Inr m' \<Rightarrow> (Inr upd, m'))"

definition lift_hart ::
    "MachineState \<Rightarrow> ProgramCounterUpdate \<Rightarrow> (Exception, HartState) result \<Rightarrow> instr_result" where
  "lift_hart m upd r = lift_machine m upd (map_result (\<lambda>h. m\<lparr>ms_hart := h\<rparr>) r)"

definition run_load_instr ::
    "MachineState \<Rightarrow> Instr \<Rightarrow> ITypeArgs \<Rightarrow>
     (MachineState \<Rightarrow> i64 \<Rightarrow> XRegister \<Rightarrow> XRegister \<Rightarrow> (Exception, MachineState) result) \<Rightarrow> instr_result" where
  "run_load_instr m instr args run_fn =
     lift_machine m (PC_Add (instr_width instr)) (run_fn m (it_imm args) (it_rs1 args) (it_rd args))"

definition run_f_load_instr ::
    "MachineState \<Rightarrow> Instr \<Rightarrow> FLoadArgs \<Rightarrow>
     (MachineState \<Rightarrow> i64 \<Rightarrow> XRegister \<Rightarrow> FRegister \<Rightarrow> (Exception, MachineState) result) \<Rightarrow> instr_result" where
  "run_f_load_instr m instr args run_fn =
     lift_machine m (PC_Add (instr_width instr)) (run_fn m (fld_imm args) (fld_rs1 args) (fld_rd args))"

definition run_store_instr ::
    "MachineState \<Rightarrow> Instr \<Rightarrow> SBTypeArgs \<Rightarrow>
     (MachineState \<Rightarrow> i64 \<Rightarrow> XRegister \<Rightarrow> XRegister \<Rightarrow> (Exception, MachineState) result) \<Rightarrow> instr_result" where
  "run_store_instr m instr args run_fn =
     lift_machine m (PC_Add (instr_width instr)) (run_fn m (sb_imm args) (sb_rs1 args) (sb_rs2 args))"

definition run_f_store_instr ::
    "MachineState \<Rightarrow> Instr \<Rightarrow> FStoreArgs \<Rightarrow>
     (MachineState \<Rightarrow> i64 \<Rightarrow> XRegister \<Rightarrow> FRegister \<Rightarrow> (Exception, MachineState) result) \<Rightarrow> instr_result" where
  "run_f_store_instr m instr args run_fn =
     lift_machine m (PC_Add (instr_width instr)) (run_fn m (fst_imm args) (fst_rs1 args) (fst_rs2 args))"

definition run_csr_instr ::
    "MachineState \<Rightarrow> Instr \<Rightarrow> CsrArgs \<Rightarrow>
     (HartState \<Rightarrow> CSRegister \<Rightarrow> XRegister \<Rightarrow> XRegister \<Rightarrow> (Exception, HartState) result) \<Rightarrow> instr_result" where
  "run_csr_instr m instr args run_fn =
     lift_hart m (PC_Add (instr_width instr)) (run_fn (ms_hart m) (csr_csr args) (csr_rs1 args) (csr_rd args))"

definition run_csr_imm_instr ::
    "MachineState \<Rightarrow> Instr \<Rightarrow> CsriArgs \<Rightarrow>
     (HartState \<Rightarrow> CSRegister \<Rightarrow> u64 \<Rightarrow> XRegister \<Rightarrow> (Exception, HartState) result) \<Rightarrow> instr_result" where
  "run_csr_imm_instr m instr args run_fn =
     lift_hart m (PC_Add (instr_width instr)) (run_fn (ms_hart m) (csri_csr args) (csri_imm args) (csri_rd args))"

definition run_syscall_instr :: "MachineState \<Rightarrow> (HartState \<Rightarrow> Exception) \<Rightarrow> instr_result" where
  "run_syscall_instr m run_fn = (Inl (run_fn (ms_hart m)), m)"

definition run_xret_instr ::
    "MachineState \<Rightarrow> (HartState \<Rightarrow> (Exception, Address \<times> HartState) result) \<Rightarrow> instr_result" where
  "run_xret_instr m run_fn =
     (case run_fn (ms_hart m) of
        Inl e \<Rightarrow> (Inl e, m)
      | Inr (a, h) \<Rightarrow> (Inr (PC_Set a), m\<lparr>ms_hart := h\<rparr>))"

definition run_no_args_instr ::
    "MachineState \<Rightarrow> Instr \<Rightarrow> (MachineState \<Rightarrow> MachineState) \<Rightarrow> instr_result" where
  "run_no_args_instr m instr run_fn = (Inr (PC_Add (instr_width instr)), run_fn m)"

definition run_f_x_instr ::
    "MachineState \<Rightarrow> Instr \<Rightarrow> FRegToXRegArgs \<Rightarrow> (HartState \<Rightarrow> FRegister \<Rightarrow> XRegister \<Rightarrow> HartState) \<Rightarrow> instr_result" where
  "run_f_x_instr m instr args run_fn =
     (Inr (PC_Add (instr_width instr)), m\<lparr>ms_hart := run_fn (ms_hart m) (fx_rs1 args) (fx_rd args)\<rparr>)"

definition run_x_f_instr ::
    "MachineState \<Rightarrow> Instr \<Rightarrow> XRegToFRegArgs \<Rightarrow> (HartState \<Rightarrow> XRegister \<Rightarrow> FRegister \<Rightarrow> HartState) \<Rightarrow> instr_result" where
  "run_x_f_instr m instr args run_fn =
     (Inr (PC_Add (instr_width instr)), m\<lparr>ms_hart := run_fn (ms_hart m) (xf_rs1 args) (xf_rd args)\<rparr>)"

definition run_f_cmp_instr ::
    "MachineState \<Rightarrow> Instr \<Rightarrow> FCmpArgs \<Rightarrow>
     (HartState \<Rightarrow> FRegister \<Rightarrow> FRegister \<Rightarrow> XRegister \<Rightarrow> HartState) \<Rightarrow> instr_result" where
  "run_f_cmp_instr m instr args run_fn =
     (Inr (PC_Add (instr_width instr)),
      m\<lparr>ms_hart := run_fn (ms_hart m) (fcmp_rs1 args) (fcmp_rs2 args) (fcmp_rd args)\<rparr>)"

definition run_f_r_instr ::
    "MachineState \<Rightarrow> Instr \<Rightarrow> FRArgs \<Rightarrow>
     (HartState \<Rightarrow> FRegister \<Rightarrow> FRegister \<Rightarrow> FRegister \<Rightarrow> HartState) \<Rightarrow> instr_result" where
  "run_f_r_instr m instr args run_fn =
     (Inr (PC_Add (instr_width instr)),
      m\<lparr>ms_hart := run_fn (ms_hart m) (fr_rs1 args) (fr_rs2 args) (fr_rd args)\<rparr>)"

definition run_f_rm1_instr ::
    "MachineState \<Rightarrow> Instr \<Rightarrow> FR1ArgWithRounding \<Rightarrow>
     (HartState \<Rightarrow> FRegister \<Rightarrow> InstrRoundingMode \<Rightarrow> FRegister \<Rightarrow> (Exception, HartState) result) \<Rightarrow> instr_result" where
  "run_f_rm1_instr m instr args run_fn =
     lift_hart m (PC_Add (instr_width instr)) (run_fn (ms_hart m) (fr1_rs1 args) (fr1_rm args) (fr1_rd args))"

definition run_f_rm2_instr ::
    "MachineState \<Rightarrow> Instr \<Rightarrow> FR2ArgsWithRounding \<Rightarrow>
     (HartState \<Rightarrow> FRegister \<Rightarrow> FRegister \<Rightarrow> InstrRoundingMode \<Rightarrow> FRegister \<Rightarrow> (Exception, HartState) result) \<Rightarrow>
     instr_result" where
  "run_f_rm2_instr m instr args run_fn =
     lift_hart m (PC_Add (instr_width instr))
       (run_fn (ms_hart m) (fr2_rs1 args) (fr2_rs2 args) (fr2_rm args) (fr2_rd args))"

definition run_f_rm3_instr ::
    "MachineState \<Rightarrow> Instr \<Rightarrow> FR3ArgsWithRounding \<Rightarrow>
     (HartState \<Rightarrow> FRegister \<Rightarrow> FRegister \<Rightarrow> FRegister \<Rightarrow> InstrRoundingMode \<Rightarrow> FRegister \<Rightarrow>
      (Exception, HartState) result) \<Rightarrow> instr_result" where
  "run_f_rm3_instr m instr args run_fn =
     lift_hart m (PC_Add (instr_width instr))
       (run_fn (ms_hart m) (fr3_rs1 args) (fr3_rs2 args) (fr3_rs3 args) (fr3_rm args) (fr3_rd args))"

definition run_amo_instr ::
    "MachineState \<Rightarrow> Instr \<Rightarrow> AmoArgs \<Rightarrow>
     (MachineState \<Rightarrow> XRegister \<Rightarrow> XRegister \<Rightarrow> XRegister \<Rightarrow> bool \<Rightarrow> bool \<Rightarrow>
      (Exception, unit) result \<times> MachineState) \<Rightarrow> instr_result" where
  "run_amo_instr m instr args run_fn =
     (let (r, m') = run_fn m (amo_rs1 args) (amo_rs2 args) (amo_rd args) (amo_rl args) (amo_aq args)
      in (map_result (\<lambda>_. PC_Add (instr_width instr)) r, m'))"

section \<open>Execution of one instruction\<close>

primrec run_instr :: "('s, 'd) Externs \<Rightarrow> MachineState \<Rightarrow> Instr \<Rightarrow> instr_result" where
  "run_instr ex m (Add args) = run_r_type_instr m (Add args) args run_add"
| "run_instr ex m (Sub args) = run_r_type_instr m (Sub args) args run_sub"
| "run_instr ex m (Xor args) = run_r_type_instr m (Xor args) args run_xor"
| "run_instr ex m (Or args) = run_r_type_instr m (Or args) args run_or"
| "run_instr ex m (And args) = run_r_type_instr m (And args) args run_and"
| "run_instr ex m (Sll args) = run_r_type_instr m (Sll args) args run_sll"
| "run_instr ex m (Srl args) = run_r_type_instr m (Srl args) args run_srl"
| "run_instr ex m (Sra args) = run_r_type_instr m (Sra args) args run_sra"
| "run_instr ex m (Slt args) = run_r_type_instr m (Slt args) args run_slt"
| "run_instr ex m (Sltu args) = run_r_type_instr m (Sltu args) args run_sltu"
| "run_instr ex m (Addw args) = run_r_type_instr m (Addw args) args run_addw"
| "run_instr ex m (Subw args) = run_r_type_instr m (Subw args) args run_subw"
| "run_instr ex m (Sllw args) = run_r_type_instr m (Sllw args) args run_sllw"
| "run_instr ex m (Srlw args) = run_r_type_instr m (Srlw args) args run_srlw"
| "run_instr ex m (Sraw args) = run_r_type_instr m (Sraw args) args run_sraw"
| "run_instr ex m (Addi args) = run_i_type_instr m (Addi args) args run_addi"
| "run_instr ex m (Addiw args) = run_i_type_instr m (Addiw args) args run_addiw"
| "run_instr ex m (Xori args) = run_i_type_instr m (Xori args) args run_xori"
| "run_instr ex m (Ori args) = run_i_type_instr m (Ori args) args run_ori"
| "run_instr ex m (Andi args) = run_i_type_instr m (Andi args) args run_andi"
| "run_instr ex m (Slli args) = run_i_type_instr m (Slli args) args run_slli"
| "run_instr ex m (Srli args) = run_i_type_instr m (Srli args) args run_srli"
| "run_instr ex m (Srai args) = run_i_type_instr m (Srai args) args run_srai"
| "run_instr ex m (Slliw args) = run_i_type_instr m (Slliw args) args run_slliw"
| "run_instr ex m (Srliw args) = run_i_type_instr m (Srliw args) args run_srliw"
| "run_instr ex m (Sraiw args) = run_i_type_instr m (Sraiw args) args run_sraiw"
| "run_instr ex m (Slti args) = run_i_type_instr m (Slti args) args run_slti"
| "run_instr ex m (Sltiu args) = run_i_type_instr m (Sltiu args) args run_sltiu"
| "run_instr ex m (Lb args) = run_load_instr m (Lb args) args (run_lb (ex_twiddle ex))"
| "run_instr ex m (Lh args) = run_load_instr m (Lh args) args (run_lh (ex_twiddle ex))"
| "run_instr ex m (Lw args) = run_load_instr m (Lw args) args (run_lw (ex_twiddle ex))"
| "run_instr ex m (Lbu args) = run_load_instr m (Lbu args) args (run_lbu (ex_twiddle ex))"
| "run_instr ex m (Lhu args) = run_load_instr m (Lhu args) args (run_lhu (ex_twiddle ex))"
| "run_instr ex m (Lwu args) = run_load_instr m (Lwu args) args (run_lwu (ex_twiddle ex))"
| "run_instr ex m (Ld args) = run_load_instr m (Ld args) args (run_ld (ex_twiddle ex))"
| "run_instr ex m (Fence args) = (Inr (PC_Add (instr_width (Fence args))), run_fence m)"
| "run_instr ex m (FenceTso args) = (Inl IllegalInstruction, m)"
| "run_instr ex m Ecall = run_syscall_instr m run_ecall"
| "run_instr ex m Ebreak = run_syscall_instr m run_ebreak"
| "run_instr ex m (Sb args) = run_store_instr m (Sb args) args (run_sb (ex_twiddle ex))"
| "run_instr ex m (Sh args) = run_store_instr m (Sh args) args (run_sh (ex_twiddle ex))"
| "run_instr ex m (Sw args) = run_store_instr m (Sw args) args (run_sw (ex_twiddle ex))"
| "run_instr ex m (Sd args) = run_store_instr m (Sd args) args (run_sd (ex_twiddle ex))"
| "run_instr ex m (Beq args) = run_b_type_instr m args run_beq"
| "run_instr ex m (Bne args) = run_b_type_instr m args run_bne"
| "run_instr ex m (Blt args) = run_b_type_instr m args run_blt"
| "run_instr ex m (Bge args) = run_b_type_instr m args run_bge"
| "run_instr ex m (Bltu args) = run_b_type_instr m args run_bltu"
| "run_instr ex m (Bgeu args) = run_b_type_instr m args run_bgeu"
| "run_instr ex m (Lui args) = run_u_type_instr m (Lui args) args (on_xregisters run_lui)"
| "run_instr ex m (Auipc args) = run_u_type_instr m (Auipc args) args run_auipc"
| "run_instr ex m (Jal args) = run_jump_instr m (run_jal (ms_hart m) (uj_imm args) (uj_rd args))"
| "run_instr ex m (Jalr args) = run_jump_instr m (run_jalr (ms_hart m) (it_imm args) (it_rs1 args) (it_rd args))"
| "run_instr ex m (Amoswapw args) = run_amo_instr m (Amoswapw args) args (run_amoswapw (ex_twiddle ex))"
| "run_instr ex m (Amoaddw args) = run_amo_instr m (Amoaddw args) args (run_amoaddw (ex_twiddle ex))"
| "run_instr ex m (Amoxorw args) = run_amo_instr m (Amoxorw args) args (run_amoxorw (ex_twiddle ex))"
| "run_instr ex m (Amoandw args) = run_amo_instr m (Amoandw args) args (run_amoandw (ex_twiddle ex))"
| "run_instr ex m (Amoorw args) = run_amo_instr m (Amoorw args) args (run_amoorw (ex_twiddle ex))"
| "run_instr ex m (Amominw args) = run_amo_instr m (Amominw args) args (run_amominw (ex_twiddle ex))"
| "run_instr ex m (Amomaxw args) = run_amo_instr m (Amomaxw args) args (run_amomaxw (ex_twiddle ex))"
| "run_instr ex m (Amominuw args) = run_amo_instr m (Amominuw args) args (run_amominuw (ex_twiddle ex))"
| "run_instr ex m (Amomaxuw args) = run_amo_instr m (Amomaxuw args) args (run_amomaxuw (ex_twiddle ex))"
| "run_instr ex m (Rem args) = run_r_type_instr m (Rem args) args run_rem"
| "run_instr ex m (Remu args) = run_r_type_instr m (Remu args) args run_remu"
| "run_instr ex m (Remw args) = run_r_type_instr m (Remw args) args run_remw"
| "run_instr ex m (Remuw args) = run_r_type_instr m (Remuw args) args run_remuw"
| "run_instr ex m (Div args) = run_r_type_instr m (Div args) args run_div"
| "run_instr ex m (Divu args) = run_r_type_instr m (Divu args) args run_divu"
| "run_instr ex m (Divw args) = run_r_type_instr m (Divw args) args run_divw"
| "run_instr ex m (Divuw args) = run_r_type_instr m (Divuw args) args run_divuw"
| "run_instr ex m (Mul args) = run_r_type_instr m (Mul args) args run_mul"
| "run_instr ex m (Mulh args) = run_r_type_instr m (Mulh args) args run_mulh"
| "run_instr ex m (Mulhsu args) = run_r_type_instr m (Mulhsu args) args run_mulhsu"
| "run_instr ex m (Mulhu args) = run_r_type_instr m (Mulhu args) args run_mulhu"
| "run_instr ex m (Mulw args) = run_r_type_instr m (Mulw args) args run_mulw"
| "run_instr ex m (FclassS args) = run_f_x_instr m (FclassS args) args (run_fclass_s (ex_single ex))"
| "run_instr ex m (Feqs args) = run_f_cmp_instr m (Feqs args) args (run_feq_s (ex_single ex))"
| "run_instr ex m (Fles args) = run_f_cmp_instr m (Fles args) args (run_fle_s (ex_single ex))"
| "run_instr ex m (Flts args) = run_f_cmp_instr m (Flts args) args (run_flt_s (ex_single ex))"
| "run_instr ex m (Fadds args) = run_f_rm2_instr m (Fadds args) args (run_fadd_s (ex_single ex))"
| "run_instr ex m (Fsubs args) = run_f_rm2_instr m (Fsubs args) args (run_fsub_s (ex_single ex))"
| "run_instr ex m (Fmuls args) = run_f_rm2_instr m (Fmuls args) args (run_fmul_s (ex_single ex))"
| "run_instr ex m (Fdivs args) = run_f_rm2_instr m (Fdivs args) args (run_fdiv_s (ex_single ex))"
| "run_instr ex m (Fsqrts args) = run_f_rm1_instr m (Fsqrts args) args (run_fsqrt_s (ex_sqrt32 ex))"
| "run_instr ex m (Fmins args) = run_f_r_instr m (Fmins args) args (run_fmin_s (ex_single ex))"
| "run_instr ex m (Fmaxs args) = run_f_r_instr m (Fmaxs args) args (run_fmax_s (ex_single ex))"
| "run_instr ex m (Fmadds args) = run_f_rm3_instr m (Fmadds args) args (run_fmadd_s (ex_single ex))"
| "run_instr ex m (Fmsubs args) = run_f_rm3_instr m (Fmsubs args) args (run_fmsub_s (ex_single ex))"
| "run_instr ex m (Fnmsubs args) = run_f_rm3_instr m (Fnmsubs args) args (run_fnmsub_s (ex_single ex))"
| "run_instr ex m (Fnmadds args) = run_f_rm3_instr m (Fnmadds args) args (run_fnmadd_s (ex_single ex))"
| "run_instr ex m (Flw args) = run_f_load_instr m (Flw args) args (run_flw (ex_twiddle ex))"
| "run_instr ex m (Fsw args) = run_f_store_instr m (Fsw args) args (run_fsw (ex_twiddle ex))"
| "run_instr ex m (Fsgnjs args) = run_f_r_instr m (Fsgnjs args) args (run_fsgnj_s (ex_single ex))"
| "run_instr ex m (Fsgnjns args) = run_f_r_instr m (Fsgnjns args) args (run_fsgnjn_s (ex_single ex))"
| "run_instr ex m (Fsgnjxs args) = run_f_r_instr m (Fsgnjxs args) args (run_fsgnjx_s (ex_single ex))"
| "run_instr ex m (FmvXW args) = run_f_x_instr m (FmvXW args) args run_fmv_x_w"
| "run_instr ex m (FmvWX args) = run_x_f_instr m (FmvWX args) args run_fmv_w_x"
| "run_instr ex m (FclassD args) = run_f_x_instr m (FclassD args) args (run_fclass_d (ex_double ex))"
| "run_instr ex m (Feqd args) = run_f_cmp_instr m (Feqd args) args (run_feq_d (ex_double ex))"
| "run_instr ex m (Fled args) = run_f_cmp_instr m (Fled args) args (run_fle_d (ex_double ex))"
| "run_instr ex m (Fltd args) = run_f_cmp_instr m (Fltd args) args (run_flt_d (ex_double ex))"
| "run_instr ex m (Faddd args) = run_f_rm2_instr m (Faddd args) args (run_fadd_d (ex_double ex))"
| "run_instr ex m (Fsubd args) = run_f_rm2_instr m (Fsubd args) args (run_fsub_d (ex_double ex))"
| "run_instr ex m (Fmuld args) = run_f_rm2_instr m (Fmuld args) args (run_fmul_d (ex_double ex))"
| "run_instr ex m (Fdivd args) = run_f_rm2_instr m (Fdivd args) args (run_fdiv_d (ex_double ex))"
| "run_instr ex m (Fsqrtd args) = run_f_rm1_instr m (Fsqrtd args) args (run_fsqrt_d (ex_sqrt64 ex))"
| "run_instr ex m (Fmind args) = run_f_r_instr m (Fmind args) args (run_fmin_d (ex_double ex))"
| "run_instr ex m (Fmaxd args) = run_f_r_instr m (Fmaxd args) args (run_fmax_d (ex_double ex))"
| "run_instr ex m (Fmaddd args) = run_f_rm3_instr m (Fmaddd args) args (run_fmadd_d (ex_double ex))"
| "run_instr ex m (Fmsubd args) = run_f_rm3_instr m (Fmsubd args) args (run_fmsub_d (ex_double ex))"
| "run_instr ex m (Fnmsubd args) = run_f_rm3_instr m (Fnmsubd args) args (run_fnmsub_d (ex_double ex))"
| "run_instr ex m (Fnmaddd args) = run_f_rm3_instr m (Fnmaddd args) args (run_fnmadd_d (ex_double ex))"
| "run_instr ex m (Fld args) = run_f_load_instr m (Fld args) args (run_fld (ex_twiddle ex))"
| "run_instr ex m (Fsd args) = run_f_store_instr m (Fsd args) args (run_fsd (ex_twiddle ex))"
| "run_instr ex m (Fsgnjd args) = run_f_r_instr m (Fsgnjd args) args (run_fsgnj_d (ex_double ex))"
| "run_instr ex m (Fsgnjnd args) = run_f_r_instr m (Fsgnjnd args) args (run_fsgnjn_d (ex_double ex))"
| "run_instr ex m (Fsgnjxd args) = run_f_r_instr m (Fsgnjxd args) args (run_fsgnjx_d (ex_double ex))"
| "run_instr ex m (FmvXD args) = run_f_x_instr m (FmvXD args) args run_fmv_x_d"
| "run_instr ex m (FmvDX args) = run_x_f_instr m (FmvDX args) args run_fmv_d_x"
| "run_instr ex m (Csrrw args) = run_csr_instr m (Csrrw args) args run_csrrw"
| "run_instr ex m (Csrrs args) = run_csr_instr m (Csrrs args) args run_csrrs"
| "run_instr ex m (Csrrc args) = run_csr_instr m (Csrrc args) args run_csrrc"
| "run_instr ex m (Csrrwi args) = run_csr_imm_instr m (Csrrwi args) args run_csrrwi"
| "run_instr ex m (Csrrsi args) = run_csr_imm_instr m (Csrrsi args) args run_csrrsi"
| "run_instr ex m (Csrrci args) = run_csr_imm_instr m (Csrrci args) args run_csrrci"
| "run_instr ex m FenceI = run_no_args_instr m FenceI run_fencei"
| "run_instr ex m Mret = run_xret_instr m run_mret"
| "run_instr ex m Sret = run_xret_instr m run_sret"
| "run_instr ex m Mnret = (Inl IllegalInstruction, m)"
| "run_instr ex m Wfi = run_no_args_instr m Wfi run_wfi"
| "run_instr ex m (SFenceVma asid vaddr) = (map_result (\<lambda>_. PC_Add (instr_width (SFenceVma asid vaddr))) (sfence_vma m asid vaddr), m)"
| "run_instr ex m (Unknown instr) = (Inl IllegalInstruction, m)"
| "run_instr ex m (UnknownCompressed instr) = (Inl IllegalInstruction, m)"

definition machine_reset :: "MachineState \<Rightarrow> MachineState" where
  "machine_reset m =
     \<lparr>ms_hart = hart_reset (ms_hart m) (start_of_main_memory (bus_BYTES (ms_bus m))),
      ms_bus = bus_reset (ms_bus m)\<rparr>"

definition fetch_instr :: "('s, 'd) Externs \<Rightarrow> MachineState \<Rightarrow> Address \<Rightarrow> (Exception, Instr) result" where
  "fetch_instr ex m pc =
     (case translate (ex_twiddle ex) m pc AT_Instruction of
        Inl e \<Rightarrow> Inl e
      | Inr pc \<Rightarrow>
          map_err (\<lambda>_. InstructionAccessFault pc)
            (case bus_read (ms_bus m) pc of
               Inl e \<Rightarrow> Inl e
             | Inr half_instr \<Rightarrow> parse half_instr (\<lambda>_. bus_read (ms_bus m) (pc + 2))))"

definition run_instr_at :: "('s, 'd) Externs \<Rightarrow> MachineState \<Rightarrow> u64 \<Rightarrow> instr_result" where
  "run_instr_at ex m instr_pc =
     (case fetch_instr ex m instr_pc of
        Inl e \<Rightarrow> (Inl e, m)
      | Inr instr \<Rightarrow> run_instr ex m instr)"

section \<open>Interrupts and exceptions\<close>

definition get_pending_interrupt :: "Twiddle \<Rightarrow> MachineState \<Rightarrow> Interrupt option" where
  "get_pending_interrupt tw m =
     (let current_mode = h_mode (ms_hart m);
          possible = possible_interrupts (h_csregisters (ms_hart m)) current_mode
      in if possible = 0 then None
         else
           let mip = csr_read (h_csregisters (ms_hart m)) csr_mip;
               active_interrupts = mip AND possible;
               active = (\<lambda>i. tw_bit tw active_interrupts (unat (exception_code_const i)))
           in if active MachineExternal then Some MachineExternal
              else if active MachineSoftware then Some MachineSoftware
              else if active MachineTimer then Some MachineTimer
              else if active SupervisorExternal then Some SupervisorExternal
              else if active SupervisorSoftware then Some SupervisorSoftware
              else if active SupervisorTimer then Some SupervisorTimer
              else None)"

text \<open>\<open>Result<Address, EnvironException>\<close> with the new state; \<open>None\<close> is the panic of \<open>take_trap\<close>.\<close>

type_synonym address_result = "((EnvironException, Address) result \<times> MachineState) option"

definition address_on_interrupt :: "Twiddle \<Rightarrow> MachineState \<Rightarrow> Interrupt \<Rightarrow> address_result" where
  "address_on_interrupt tw m interrupt =
     (let current_pc = h_pc (ms_hart m);
          mip = csr_read (h_csregisters (ms_hart m)) csr_mip;
          h1 = (ms_hart m)\<lparr>h_csregisters :=
                 csr_write (h_csregisters (ms_hart m)) csr_mip
                   (tw_set_bit tw mip (unat (exception_code_const interrupt)) False)\<rparr>
      in case take_trap tw interrupt_context h1 interrupt current_pc of
           None \<Rightarrow> None
         | Some (new_pc, h2) \<Rightarrow> Some (Inr new_pc, m\<lparr>ms_hart := h2\<rparr>))"

definition address_on_exception ::
    "Twiddle \<Rightarrow> MachineState \<Rightarrow> Exception \<Rightarrow> Address \<Rightarrow> address_result" where
  "address_on_exception tw m exception current_pc =
     (case environ_try_from exception of
        Some exc \<Rightarrow> Some (Inl exc, m\<lparr>ms_hart := (ms_hart m)\<lparr>h_pc := current_pc\<rparr>\<rparr>)
      | None \<Rightarrow>
          (case take_trap tw exception_context (ms_hart m) exception current_pc of
             None \<Rightarrow> None
           | Some (new_pc, h) \<Rightarrow> Some (Inr new_pc, m\<lparr>ms_hart := h\<rparr>)))"

section \<open>Steps\<close>

type_synonym step_result = "((EnvironException, unit) result \<times> MachineState) option"

definition update_pc :: "MachineState \<Rightarrow> Address \<Rightarrow> ProgramCounterUpdate \<Rightarrow> MachineState" where
  "update_pc m instr_pc pc_update =
     m\<lparr>ms_hart := (ms_hart m)\<lparr>h_pc :=
         (case pc_update of PC_Set address \<Rightarrow> address | PC_Add width \<Rightarrow> instr_pc + width)\<rparr>\<rparr>"

definition step_at :: "('s, 'd) Externs \<Rightarrow> MachineState \<Rightarrow> Address \<Rightarrow> step_result" where
  "step_at ex m instr_pc =
     (let (instr_result, m1) = run_instr_at ex m instr_pc
      in case instr_result of
           Inr upd \<Rightarrow> Some (Inr (), update_pc m1 instr_pc upd)
         | Inl exc \<Rightarrow>
             (case address_on_exception (ex_twiddle ex) m1 exc instr_pc of
                None \<Rightarrow> None
              | Some (Inl env, m2) \<Rightarrow> Some (Inl env, m2)
              | Some (Inr address, m2) \<Rightarrow> Some (Inr (), update_pc m2 instr_pc (PC_Set address))))"

definition step :: "('s, 'd) Externs \<Rightarrow> MachineState \<Rightarrow> step_result" where
  "step ex m =
     (case get_pending_interrupt (ex_twiddle ex) m of
        None \<Rightarrow> step_at ex m (h_pc (ms_hart m))
      | Some interrupt \<Rightarrow>
          (case address_on_interrupt (ex_twiddle ex) m interrupt of
             None \<Rightarrow> None
           | Some (Inl env, m1) \<Rightarrow> Some (Inl env, m1)
           | Some (Inr instr_pc, m1) \<Rightarrow> step_at ex m1 instr_pc))"

text \<open>
  The closure \<open>should_continue\<close> may keep a state of its own, here \<open>'c\<close>.
\<close>

function step_many_loop ::
    "('s, 'd) Externs \<Rightarrow> nat \<Rightarrow> ('c \<Rightarrow> MachineState \<Rightarrow> bool \<times> 'c) \<Rightarrow> nat \<Rightarrow> 'c \<Rightarrow> MachineState \<Rightarrow>
     (StepManyResult \<times> 'c \<times> MachineState) option" where
  "step_many_loop ex max_steps should_continue steps_done c m =
     (if steps_done < max_steps then
        let (go, c1) = should_continue c m in
        if go then
          (case step ex m of
             None \<Rightarrow> None
           | Some (Inl e, m1) \<Rightarrow> Some (\<lparr>smr_steps = steps_done, smr_exception = Some e\<rparr>, c1, m1)
           | Some (Inr _, m1) \<Rightarrow> step_many_loop ex max_steps should_continue (steps_done + 1) c1 m1)
        else Some (\<lparr>smr_steps = steps_done, smr_exception = None\<rparr>, c1, m)
      else Some (\<lparr>smr_steps = steps_done, smr_exception = None\<rparr>, c, m))"
  by pat_completeness auto

termination
  by (relation "measure (\<lambda>(ex, max_steps, sc, steps_done, c, m). max_steps - steps_done)") auto

declare step_many_loop.simps [simp del]

definition machine_step_many ::
    "('s, 'd) Externs \<Rightarrow> MachineState \<Rightarrow> nat \<Rightarrow> ('c \<Rightarrow> MachineState \<Rightarrow> bool \<times> 'c) \<Rightarrow> 'c \<Rightarrow>
     (StepManyResult \<times> 'c \<times> MachineState) option" where
  "machine_step_many ex m max_steps should_continue c =
     step_many_loop ex max_steps should_continue 0 c m"

end
