(* ===== verification/RV_Execution.thy ===== *)
theory RV_Execution
  imports RV_Machine
begin

text \<open>
  Execution of the machine: what a single instruction, a step and a bounded run may change.
  The frame of every instruction is established family by family and gives the invariant of the
  machine, the confinement of user mode and the totality of steps and runs.
\<close>

section \<open>What one instruction may change\<close>

definition machine_ok :: "MachineState \<Rightarrow> bool" where
  "machine_ok m \<longleftrightarrow> csrs_legal (h_csregisters (ms_hart m)) \<and> bus_ok (ms_bus m)"

text \<open>
  The frame of every instruction: the size of the memory, the invariant, and in user mode the mode
  and every control register but \<open>fcsr\<close>.
\<close>

definition hart_frame :: "HartState \<Rightarrow> HartState \<Rightarrow> bool" where
  "hart_frame h h' \<longleftrightarrow>
     (csrs_legal (h_csregisters h) \<longrightarrow> csrs_legal (h_csregisters h')) \<and>
     (h_mode h = User \<longrightarrow> h_mode h' = User \<and>
        (\<forall>i. i \<noteq> csr_fcsr \<longrightarrow> csr_registers (h_csregisters h') i = csr_registers (h_csregisters h) i))"

definition frame :: "MachineState \<Rightarrow> MachineState \<Rightarrow> bool" where
  "frame m m' \<longleftrightarrow> hart_frame (ms_hart m) (ms_hart m') \<and>
     bus_BYTES (ms_bus m') = bus_BYTES (ms_bus m) \<and> (bus_ok (ms_bus m) \<longrightarrow> bus_ok (ms_bus m'))"

named_theorems frames

lemma hart_frame_same [frames]:
  "h_csregisters h' = h_csregisters h \<Longrightarrow> h_mode h' = h_mode h \<Longrightarrow> hart_frame h h'"
  by (simp add: hart_frame_def)

lemma frame_refl [simp]: "frame m m"
  by (simp add: frame_def hart_frame_def)

lemma frame_hart: "hart_frame (ms_hart m) h \<Longrightarrow> frame m (m\<lparr>ms_hart := h\<rparr>)"
  by (simp add: frame_def)

lemma bus_write_keeps:
  assumes "bus_write b a v = Inr b'"
  shows "bus_BYTES b' = bus_BYTES b \<and> (bus_ok b \<longrightarrow> bus_ok b')"
  using assms
  by (auto simp: bus_write_def memory_write_def devices_write_def bus_ok_def memory_ok_def map_result_def
      split: prod.splits AddressSpace.splits if_splits sum.splits)

lemma frame_write_to_address: "write_to_address tw m a v = Inr m' \<Longrightarrow> frame m m'"
  by (auto simp: write_to_address_def map_err_def frame_def hart_frame_def dest: bus_write_keeps
      split: sum.splits)

lemma frame_write_to_bus: "write_to_bus tw m imm rs1 v = Inr m' \<Longrightarrow> frame m m'"
  by (auto simp: write_to_bus_def Let_def frame_write_to_address)

lemma frame_write_xreg: "frame m (write_xreg m rd v)"
  by (simp add: write_xreg_def frame_hart hart_frame_same)

lemma frame_write_freg: "frame m (write_freg m rd v)"
  by (simp add: write_freg_def frame_hart hart_frame_same)

lemma frame_trans:
  assumes "frame m m1" "frame m1 m2"
  shows "frame m m2"
  using assms by (auto simp: frame_def hart_frame_def)

lemma hart_frame_fflags:
  assumes "h_mode h' = h_mode h"
    and "h_csregisters h' = h_csregisters h \<or> (\<exists>v. h_csregisters h' = csr_write (h_csregisters h) csr_fflags v)"
  shows "hart_frame h h'"
  using assms by (auto simp: hart_frame_def csr_write_legal csr_write_other shadowed_def)

lemma set_exception_flag_write:
  "\<exists>v. set_exception_flag c f = csr_write c csr_fflags v"
  "\<exists>v. set_exception_flag_status c st = csr_write c csr_fflags v"
  by (auto simp: set_exception_flag_def set_exception_flag_status_def csr_set_bits_snd Let_def)

lemma hart_frame_float [frames]:
  "hart_frame h (run_fclass F h rs1 xd)"
  "hart_frame h (run_feq F h rs1 rs2 xd)" "hart_frame h (run_flt F h rs1 rs2 xd)"
  "hart_frame h (run_fle F h rs1 rs2 xd)"
  "hart_frame h (f_write_result F h rd res)"
  "hart_frame h (f_sign_injection F h rs1 rs2 rd pick)"
  "hart_frame h (min_max F h rs1 rs2 rd cmp)"
  by (rule hart_frame_fflags;
      simp add: run_fclass_def run_feq_def run_flt_def run_fle_def f_write_result_def
        f_sign_injection_def min_max_def Let_def split_beta set_exception_flag_write del: One_nat_def)+

lemma hart_frame_arith [frames]:
  "f_arith_2 F h rs1 rs2 rm rd f = Inr h' \<Longrightarrow> hart_frame h h'"
  "f_arith_3 F h rs1 rs2 rs3 rm rd g = Inr h' \<Longrightarrow> hart_frame h h'"
  by (auto simp: f_arith_2_def f_arith_3_def Let_def hart_frame_float split: sum.splits)

lemma hart_frame_sqrt [frames]:
  "run_fsqrt_s sq32 h rs1 rm rd = Inr h' \<Longrightarrow> hart_frame h h'"
  "run_fsqrt_d sq64 h rs1 rm rd = Inr h' \<Longrightarrow> hart_frame h h'"
  unfolding run_fsqrt_s_def run_fsqrt_d_def Let_def split_beta
  using set_exception_flag_write(2) [of "h_csregisters h"]
  by (auto intro!: hart_frame_fflags simp del: One_nat_def split: sum.splits if_splits)

lemma hart_frame_csr_step:
  assumes "reg \<in> set CSRegister_iter" "csr_step h reg no_write v rd = Inr h'"
  shows "hart_frame h h'"
proof -
  have "shadowed reg = csr_fcsr" if "h_mode h = User" "\<not> no_write"
    using user_writable [OF assms(1)] assms(2) that by (auto simp: csr_step_def shadowed_def split: if_splits)
  then show ?thesis
    using assms(2) by (auto simp: csr_step_def hart_frame_def csr_write_legal csr_write_other split: if_splits)
qed

lemma hart_frame_xret [frames]:
  "run_mret h = Inr (a, h') \<Longrightarrow> hart_frame h h'" "run_sret h = Inr (a, h') \<Longrightarrow> hart_frame h h'"
  by (auto simp: run_mret_def run_sret_def hart_frame_def Let_def csr_write_legal split: Mode.splits if_splits)

text \<open>The control register of a CSR instruction is one of the enumeration.\<close>

definition instr_csr_ok :: "Instr \<Rightarrow> bool" where
  "instr_csr_ok i \<longleftrightarrow>
     (\<forall>args. i \<in> {Csrrw args, Csrrs args, Csrrc args} \<longrightarrow> csr_csr args \<in> set CSRegister_iter) \<and>
     (\<forall>args. i \<in> {Csrrwi args, Csrrsi args, Csrrci args} \<longrightarrow> csri_csr args \<in> set CSRegister_iter)"

lemma frame_lift_machine: "(\<And>m'. r = Inr m' \<Longrightarrow> frame m m') \<Longrightarrow> frame m (snd (lift_machine m upd r))"
  by (cases r) (simp_all add: lift_machine_def)

lemma frame_lift_hart: "(\<And>h. r = Inr h \<Longrightarrow> hart_frame (ms_hart m) h) \<Longrightarrow> frame m (snd (lift_hart m upd r))"
  unfolding lift_hart_def by (rule frame_lift_machine) (cases r; auto simp: frame_hart)

lemma frame_amo: "run_amo_w tw m rs1 rs2 rd f = (r, m') \<Longrightarrow> frame m m'"
  by (auto simp: run_amo_w_def Let_def frame_write_xreg split: sum.splits
      intro: frame_trans [OF frame_write_xreg frame_write_to_address])

lemma frame_memory:
  "run_lb tw m imm rs1 rd = Inr m' \<Longrightarrow> frame m m'" "run_lh tw m imm rs1 rd = Inr m' \<Longrightarrow> frame m m'"
  "run_lw tw m imm rs1 rd = Inr m' \<Longrightarrow> frame m m'" "run_ld tw m imm rs1 rd = Inr m' \<Longrightarrow> frame m m'"
  "run_lbu tw m imm rs1 rd = Inr m' \<Longrightarrow> frame m m'" "run_lhu tw m imm rs1 rd = Inr m' \<Longrightarrow> frame m m'"
  "run_lwu tw m imm rs1 rd = Inr m' \<Longrightarrow> frame m m'"
  "run_flw tw m imm rs1 fd = Inr m' \<Longrightarrow> frame m m'" "run_fld tw m imm rs1 fd = Inr m' \<Longrightarrow> frame m m'"
  "run_sb tw m imm rs1 rs2 = Inr m' \<Longrightarrow> frame m m'" "run_sh tw m imm rs1 rs2 = Inr m' \<Longrightarrow> frame m m'"
  "run_sw tw m imm rs1 rs2 = Inr m' \<Longrightarrow> frame m m'" "run_sd tw m imm rs1 rs2 = Inr m' \<Longrightarrow> frame m m'"
  "run_fsw tw m imm rs1 fs = Inr m' \<Longrightarrow> frame m m'" "run_fsd tw m imm rs1 fs = Inr m' \<Longrightarrow> frame m m'"
  unfolding run_lb_def run_lh_def run_lw_def run_ld_def run_lbu_def run_lhu_def run_lwu_def run_flw_def
    run_fld_def run_sb_def run_sh_def run_sw_def run_sd_def run_fsw_def run_fsd_def Let_def
  by (auto simp: map_result_def frame_write_xreg frame_write_freg frame_write_to_bus split: sum.splits)

lemmas family_defs = run_r_type_instr_def run_i_type_instr_def run_b_type_instr_def
  run_u_type_instr_def run_jump_instr_def run_syscall_instr_def run_no_args_instr_def
  run_f_x_instr_def run_x_f_instr_def run_f_cmp_instr_def run_f_r_instr_def

lemma frame_families:
  "frame m (snd (run_r_type_instr m i ra rf))"
  "frame m (snd (run_i_type_instr m i ia if'))"
  "frame m (snd (run_b_type_instr m ba bf))"
  "frame m (snd (run_syscall_instr m sf))"
  "(\<And>h a b. hart_frame h (uf h a b)) \<Longrightarrow> frame m (snd (run_u_type_instr m i ua uf))"
  "(\<And>h a b. hart_frame h (xf h a b)) \<Longrightarrow> frame m (snd (run_f_x_instr m i xa xf))"
  "(\<And>h a b. hart_frame h (ff h a b)) \<Longrightarrow> frame m (snd (run_x_f_instr m i fa ff))"
  "(\<And>h a b c. hart_frame h (cf h a b c)) \<Longrightarrow> frame m (snd (run_f_cmp_instr m i ca cf))"
  "(\<And>h a b c. hart_frame h (frf h a b c)) \<Longrightarrow> frame m (snd (run_f_r_instr m i fra frf))"
  by (simp_all add: family_defs frame_hart hart_frame_same)

lemmas float_instr_defs = run_fadd_def run_fsub_def run_fmul_def run_fdiv_def run_fmin_def run_fmax_def
  run_fmadd_def run_fmsub_def run_fnmsub_def run_fnmadd_def run_fsgnj_def run_fsgnjn_def run_fsgnjx_def

lemma frame_lifted:
  "(\<And>h. f1' (ms_hart m) (fr1_rs1 a1) (fr1_rm a1) (fr1_rd a1) = Inr h \<Longrightarrow> hart_frame (ms_hart m) h) \<Longrightarrow>
     frame m (snd (run_f_rm1_instr m i a1 f1'))"
  "(\<And>h. f2' (ms_hart m) (fr2_rs1 a2) (fr2_rs2 a2) (fr2_rm a2) (fr2_rd a2) = Inr h \<Longrightarrow> hart_frame (ms_hart m) h) \<Longrightarrow>
     frame m (snd (run_f_rm2_instr m i a2 f2'))"
  "(\<And>h. f3' (ms_hart m) (fr3_rs1 a3) (fr3_rs2 a3) (fr3_rs3 a3) (fr3_rm a3) (fr3_rd a3) = Inr h \<Longrightarrow>
      hart_frame (ms_hart m) h) \<Longrightarrow> frame m (snd (run_f_rm3_instr m i a3 f3'))"
  "(\<And>m'. lf m (it_imm la) (it_rs1 la) (it_rd la) = Inr m' \<Longrightarrow> frame m m') \<Longrightarrow>
     frame m (snd (run_load_instr m i la lf))"
  "(\<And>m'. flf m (fld_imm fa) (fld_rs1 fa) (fld_rd fa) = Inr m' \<Longrightarrow> frame m m') \<Longrightarrow>
     frame m (snd (run_f_load_instr m i fa flf))"
  "(\<And>m'. sf m (sb_imm sa) (sb_rs1 sa) (sb_rs2 sa) = Inr m' \<Longrightarrow> frame m m') \<Longrightarrow>
     frame m (snd (run_store_instr m i sa sf))"
  "(\<And>m'. fsf m (fst_imm fsa) (fst_rs1 fsa) (fst_rs2 fsa) = Inr m' \<Longrightarrow> frame m m') \<Longrightarrow>
     frame m (snd (run_f_store_instr m i fsa fsf))"
  "(\<And>h. cf (ms_hart m) (csr_csr ca) (csr_rs1 ca) (csr_rd ca) = Inr h \<Longrightarrow> hart_frame (ms_hart m) h) \<Longrightarrow>
     frame m (snd (run_csr_instr m i ca cf))"
  "(\<And>h. cif (ms_hart m) (csri_csr cia) (csri_imm cia) (csri_rd cia) = Inr h \<Longrightarrow> hart_frame (ms_hart m) h) \<Longrightarrow>
     frame m (snd (run_csr_imm_instr m i cia cif))"
  "(\<And>r m'. af m (amo_rs1 aa) (amo_rs2 aa) (amo_rd aa) (amo_rl aa) (amo_aq aa) = (r, m') \<Longrightarrow> frame m m') \<Longrightarrow>
     frame m (snd (run_amo_instr m i aa af))"
  "(\<And>a h. xf (ms_hart m) = Inr (a, h) \<Longrightarrow> hart_frame (ms_hart m) h) \<Longrightarrow> frame m (snd (run_xret_instr m xf))"
  unfolding run_f_rm1_instr_def run_f_rm2_instr_def run_f_rm3_instr_def run_load_instr_def
    run_f_load_instr_def run_store_instr_def run_f_store_instr_def run_csr_instr_def
    run_csr_imm_instr_def run_amo_instr_def run_xret_instr_def
  by (auto intro!: frame_lift_hart frame_lift_machine frame_hart split: prod.split sum.split)

lemma hart_frame_instrs [frames]:
  "hart_frame h (run_fclass_s fl h rs1 xd)" "hart_frame h (run_fclass_d fl h rs1 xd)"
  "hart_frame h (run_feq_s fl h rs1 rs2 xd)" "hart_frame h (run_feq_d fl h rs1 rs2 xd)"
  "hart_frame h (run_flt_s fl h rs1 rs2 xd)" "hart_frame h (run_flt_d fl h rs1 rs2 xd)"
  "hart_frame h (run_fle_s fl h rs1 rs2 xd)" "hart_frame h (run_fle_d fl h rs1 rs2 xd)"
  "hart_frame h (run_fmin_s fl h rs1 rs2 rd)" "hart_frame h (run_fmin_d fl h rs1 rs2 rd)"
  "hart_frame h (run_fmax_s fl h rs1 rs2 rd)" "hart_frame h (run_fmax_d fl h rs1 rs2 rd)"
  "hart_frame h (run_fsgnj_s fl h rs1 rs2 rd)" "hart_frame h (run_fsgnj_d fl h rs1 rs2 rd)"
  "hart_frame h (run_fsgnjn_s fl h rs1 rs2 rd)" "hart_frame h (run_fsgnjn_d fl h rs1 rs2 rd)"
  "hart_frame h (run_fsgnjx_s fl h rs1 rs2 rd)" "hart_frame h (run_fsgnjx_d fl h rs1 rs2 rd)"
  "hart_frame h (run_fmv_x_w h rs1 xd)" "hart_frame h (run_fmv_x_d h rs1 xd)"
  "hart_frame h (run_fmv_w_x h xs rd)" "hart_frame h (run_fmv_d_x h xs rd)"
  "hart_frame h (run_auipc h imm xd)" "hart_frame h (on_xregisters run_lui h imm xd)"
  "hart_frame h (snd (run_jal h imm xd))" "hart_frame h (snd (run_jalr h imm xs xd))"
  by (simp_all add: run_fclass_s_def run_fclass_d_def run_feq_s_def run_feq_d_def run_flt_s_def
      run_flt_d_def run_fle_s_def run_fle_d_def run_fmin_s_def run_fmin_d_def run_fmax_s_def
      run_fmax_d_def run_fsgnj_s_def run_fsgnj_d_def run_fsgnjn_s_def run_fsgnjn_d_def
      run_fsgnjx_s_def run_fsgnjx_d_def float_instr_defs hart_frame_float)
     (simp_all add: hart_frame_same run_fmv_x_w_def run_fmv_x_d_def run_fmv_w_x_def run_fmv_d_x_def
      run_auipc_def on_xregisters_def run_jal_def run_jalr_def run_jal_impl_def run_jalr_impl_def Let_def)

lemma hart_frame_rm_instrs [frames]:
  "run_fadd_s fl h rs1 rs2 rm rd = Inr h' \<Longrightarrow> hart_frame h h'" "run_fadd_d fl h rs1 rs2 rm rd = Inr h' \<Longrightarrow> hart_frame h h'"
  "run_fsub_s fl h rs1 rs2 rm rd = Inr h' \<Longrightarrow> hart_frame h h'" "run_fsub_d fl h rs1 rs2 rm rd = Inr h' \<Longrightarrow> hart_frame h h'"
  "run_fmul_s fl h rs1 rs2 rm rd = Inr h' \<Longrightarrow> hart_frame h h'" "run_fmul_d fl h rs1 rs2 rm rd = Inr h' \<Longrightarrow> hart_frame h h'"
  "run_fdiv_s fl h rs1 rs2 rm rd = Inr h' \<Longrightarrow> hart_frame h h'" "run_fdiv_d fl h rs1 rs2 rm rd = Inr h' \<Longrightarrow> hart_frame h h'"
  "run_fmadd_s fl h rs1 rs2 rs3 rm rd = Inr h' \<Longrightarrow> hart_frame h h'" "run_fmadd_d fl h rs1 rs2 rs3 rm rd = Inr h' \<Longrightarrow> hart_frame h h'"
  "run_fmsub_s fl h rs1 rs2 rs3 rm rd = Inr h' \<Longrightarrow> hart_frame h h'" "run_fmsub_d fl h rs1 rs2 rs3 rm rd = Inr h' \<Longrightarrow> hart_frame h h'"
  "run_fnmsub_s fl h rs1 rs2 rs3 rm rd = Inr h' \<Longrightarrow> hart_frame h h'" "run_fnmsub_d fl h rs1 rs2 rs3 rm rd = Inr h' \<Longrightarrow> hart_frame h h'"
  "run_fnmadd_s fl h rs1 rs2 rs3 rm rd = Inr h' \<Longrightarrow> hart_frame h h'" "run_fnmadd_d fl h rs1 rs2 rs3 rm rd = Inr h' \<Longrightarrow> hart_frame h h'"
  unfolding run_fadd_s_def run_fadd_d_def run_fsub_s_def run_fsub_d_def run_fmul_s_def run_fmul_d_def
    run_fdiv_s_def run_fdiv_d_def run_fmadd_s_def run_fmadd_d_def run_fmsub_s_def run_fmsub_d_def
    run_fnmsub_s_def run_fnmsub_d_def run_fnmadd_s_def run_fnmadd_d_def float_instr_defs
  by (erule hart_frame_arith)+

lemma frame_amo_instrs:
  "run_amoswapw tw m rs1 rs2 rd rl aq = (r, m') \<Longrightarrow> frame m m'" "run_amoaddw tw m rs1 rs2 rd rl aq = (r, m') \<Longrightarrow> frame m m'"
  "run_amoxorw tw m rs1 rs2 rd rl aq = (r, m') \<Longrightarrow> frame m m'" "run_amoandw tw m rs1 rs2 rd rl aq = (r, m') \<Longrightarrow> frame m m'"
  "run_amoorw tw m rs1 rs2 rd rl aq = (r, m') \<Longrightarrow> frame m m'" "run_amominw tw m rs1 rs2 rd rl aq = (r, m') \<Longrightarrow> frame m m'"
  "run_amomaxw tw m rs1 rs2 rd rl aq = (r, m') \<Longrightarrow> frame m m'" "run_amominuw tw m rs1 rs2 rd rl aq = (r, m') \<Longrightarrow> frame m m'"
  "run_amomaxuw tw m rs1 rs2 rd rl aq = (r, m') \<Longrightarrow> frame m m'"
  unfolding run_amoswapw_def run_amoaddw_def run_amoxorw_def run_amoandw_def run_amoorw_def run_amominw_def
    run_amomaxw_def run_amominuw_def run_amomaxuw_def
  by (erule frame_amo)+

lemma hart_frame_csr_instrs:
  assumes "reg \<in> set CSRegister_iter"
  shows "run_csrrw h reg rs1 rd = Inr h' \<Longrightarrow> hart_frame h h'" "run_csrrs h reg rs1 rd = Inr h' \<Longrightarrow> hart_frame h h'"
    "run_csrrc h reg rs1 rd = Inr h' \<Longrightarrow> hart_frame h h'" "run_csrrwi h reg imm rd = Inr h' \<Longrightarrow> hart_frame h h'"
    "run_csrrsi h reg imm rd = Inr h' \<Longrightarrow> hart_frame h h'" "run_csrrci h reg imm rd = Inr h' \<Longrightarrow> hart_frame h h'"
  unfolding zicsr_csr_step [OF assms] by (erule hart_frame_csr_step [OF assms])+

lemma run_instr_frame: "instr_csr_ok i \<Longrightarrow> frame m (snd (run_instr ex m i))"
  by (cases i; simp only: run_instr.simps;
      (rule frame_families frame_lifted)?;
      (simp add: frame_refl run_fence_def run_fencei_def run_wfi_def run_no_args_instr_def
        run_jump_instr_def frame_hart hart_frame_instrs | erule hart_frame_rm_instrs hart_frame_sqrt
        frame_memory frame_amo_instrs hart_frame_xret
       | simp add: instr_csr_ok_def hart_frame_csr_instrs)?)


lemma instr_csr_ok_if: "instr_csr_ok (if b then i else j) = (if b then instr_csr_ok i else instr_csr_ok j)"
  by simp

lemma not_csr_ok:
  "\<nexists>args. i = Csrrw args \<or> i = Csrrs args \<or> i = Csrrc args \<Longrightarrow>
   \<nexists>args. i = Csrrwi args \<or> i = Csrrsi args \<or> i = Csrrci args \<Longrightarrow> instr_csr_ok i"
  by (auto simp: instr_csr_ok_def)

lemmas builders = r_instr_def i_instr_def s_instr_def b_instr_def u_instr_def j_instr_def fl_instr_def
  fs_instr_def f_cmp_instr_def f_r_instr_def f_r_rm_1_instr_def f_r_rm_2_instr_def f_r_rm_3_instr_def
  fence_instr_def amo_instr_def csr_instr_def csri_instr_def

lemma instr_csr_SomeD: "instr_csr w = Some r \<Longrightarrow> r \<in> set CSRegister_iter"
  by (auto simp: instr_csr_def try_parse_csregister_def Let_def split: if_splits)

lemma parse_sys_csr_ok: "instr_csr_ok (parse_sys w)"
  unfolding parse_sys_def builders
  by (simp only: instr_csr_ok_if if_cancel split: option.split) (auto simp: instr_csr_ok_def dest: instr_csr_SomeD)

lemma parse_groups_csr_ok:
  "instr_csr_ok (parse_arith w)" "instr_csr_ok (parse_arith_w w)" "instr_csr_ok (parse_arith_i w)"
  "instr_csr_ok (parse_load w)" "instr_csr_ok (parse_arith_iw w)" "instr_csr_ok (parse_synch w)"
  "instr_csr_ok (parse_amo w)" "instr_csr_ok (parse_store w)" "instr_csr_ok (parse_branch w)"
  unfolding parse_arith_def parse_arith_w_def parse_arith_i_def parse_load_def parse_arith_iw_def
    parse_synch_def parse_amo_def parse_store_def parse_branch_def builders
  by (simp_all only: instr_csr_ok_if) (simp_all add: not_csr_ok)

lemma parse_float_csr_ok:
  "instr_csr_ok (parse_fp_s w)" "instr_csr_ok (parse_fp_d w)" "instr_csr_ok (parse_fmadd w)"
  "instr_csr_ok (parse_fmsub w)" "instr_csr_ok (parse_fnmsub w)" "instr_csr_ok (parse_fnmadd w)"
  "instr_csr_ok (parse_fp_load w)" "instr_csr_ok (parse_fp_store w)" "instr_csr_ok (parse_jalr w)"
  unfolding parse_fp_s_def parse_fp_d_def parse_fmadd_def parse_fmsub_def parse_fnmsub_def
    parse_fnmadd_def parse_fp_load_def parse_fp_store_def parse_jalr_def builders Let_def
  by (simp_all only: instr_csr_ok_if split: option.split) (simp_all add: not_csr_ok)

lemma parse_csr_ok: "parse h more_bytes = Inr i \<Longrightarrow> instr_csr_ok i"
proof -
  have "instr_csr_ok (parse_uncompressed_instruction w)" for w
    by (simp add: parse_uncompressed_instruction_def parse_fp_def Let_def instr_csr_ok_if
        parse_groups_csr_ok parse_float_csr_ok parse_sys_csr_ok)
       (simp add: builders not_csr_ok)
  then show "parse h more_bytes = Inr i \<Longrightarrow> instr_csr_ok i"
    by (auto simp: parse_def parse_compressed_instruction_def not_csr_ok Let_def split: if_splits sum.splits)
qed

lemma fetch_instr_csr_ok: "fetch_instr ex m pc = Inr i \<Longrightarrow> instr_csr_ok i"
  by (auto simp: fetch_instr_def map_err_def dest: parse_csr_ok split: sum.splits)

lemma run_instr_at_frame: "frame m (snd (run_instr_at ex m pc))"
  by (simp add: run_instr_at_def run_instr_frame fetch_instr_csr_ok split: sum.split)

section \<open>Traps\<close>

lemma take_trap_ok:
  "\<exists>a h'. take_trap tw tc h t pc = Some (a, h') \<and> (csrs_legal (h_csregisters h) \<longrightarrow> csrs_legal (h_csregisters h'))"
  by (simp add: take_trap_eq [OF refl refl] trap_csrs_legal)


lemma address_on_interrupt_eq:
  "\<exists>a m'. address_on_interrupt tw m i = Some (Inr a, m') \<and> ms_bus m' = ms_bus m \<and>
     (csrs_legal (h_csregisters (ms_hart m)) \<longrightarrow> csrs_legal (h_csregisters (ms_hart m')))"
  by (simp add: address_on_interrupt_def Let_def take_trap_eq [OF refl refl] trap_csrs_legal csr_write_legal)

lemma address_on_exception_eq:
  "\<exists>r m'. address_on_exception tw m e pc = Some (r, m') \<and> ms_bus m' = ms_bus m \<and>
     (csrs_legal (h_csregisters (ms_hart m)) \<longrightarrow> csrs_legal (h_csregisters (ms_hart m')))"
  by (simp add: address_on_exception_def take_trap_eq [OF refl refl] trap_csrs_legal split: option.split)

lemma update_pc_simps [simp]:
  "ms_bus (update_pc m pc u) = ms_bus m"
  "h_csregisters (ms_hart (update_pc m pc u)) = h_csregisters (ms_hart m)"
  "h_xregisters (ms_hart (update_pc m pc u)) = h_xregisters (ms_hart m)"
  "h_fregisters (ms_hart (update_pc m pc u)) = h_fregisters (ms_hart m)"
  "h_mode (ms_hart (update_pc m pc u)) = h_mode (ms_hart m)"
  by (simp_all add: update_pc_def)

text \<open>The size of the memory and the invariant survive.\<close>

definition keeps :: "MachineState \<Rightarrow> MachineState \<Rightarrow> bool" where
  "keeps m m' \<longleftrightarrow> bus_BYTES (ms_bus m') = bus_BYTES (ms_bus m) \<and> (machine_ok m \<longrightarrow> machine_ok m')"

lemma frame_keeps: "frame m m' \<Longrightarrow> keeps m m'"
  by (auto simp: frame_def hart_frame_def keeps_def machine_ok_def)

lemma keeps_trans: "keeps m m1 \<Longrightarrow> keeps m1 m2 \<Longrightarrow> keeps m m2"
  by (simp add: keeps_def)

lemma keeps_bus:
  "ms_bus m' = ms_bus m \<Longrightarrow> csrs_legal (h_csregisters (ms_hart m)) \<longrightarrow> csrs_legal (h_csregisters (ms_hart m')) \<Longrightarrow>
   keeps m m'"
  by (simp add: keeps_def machine_ok_def)

lemma step_at_total: "\<exists>r m'. step_at ex m pc = Some (r, m') \<and> keeps m m'"
proof -
  obtain r m1 where run: "run_instr_at ex m pc = (r, m1)" by force
  have k1: "keeps m m1"
    using run_instr_at_frame [of m ex pc] by (simp add: run frame_keeps)
  show ?thesis
  proof (cases r)
    case (Inr u)
    have "keeps m1 (update_pc m1 pc u)" by (simp add: keeps_bus)
    then show ?thesis using k1 keeps_trans by (fastforce simp: step_at_def run Inr)
  next
    case (Inl e)
    obtain r2 m2 where ex2: "address_on_exception (ex_twiddle ex) m1 e pc = Some (r2, m2)" "keeps m1 m2"
      using address_on_exception_eq keeps_bus by metis
    have "keeps m2 (update_pc m2 pc u)" for u by (simp add: keeps_bus)
    then show ?thesis using k1 ex2 keeps_trans by (cases r2) (fastforce simp: step_at_def run Inl)+
  qed
qed

lemma step_total: "\<exists>r m'. step ex m = Some (r, m') \<and> keeps m m'"
proof (cases "get_pending_interrupt (ex_twiddle ex) m")
  case None
  then show ?thesis using step_at_total by (simp add: step_def)
next
  case (Some i)
  obtain a m1 where "address_on_interrupt (ex_twiddle ex) m i = Some (Inr a, m1)" "keeps m m1"
    using address_on_interrupt_eq keeps_bus by metis
  then show ?thesis
    using step_at_total [of ex m1 a] keeps_trans by (fastforce simp: step_def Some)
qed


section \<open>Reachable states\<close>

text \<open>The states that the machine passes through, whatever the outcome of the single steps.\<close>

inductive reachable :: "('s, 'd) Externs \<Rightarrow> MachineState \<Rightarrow> MachineState \<Rightarrow> bool" for ex m0 where
  start: "reachable ex m0 m0"
| next_state: "reachable ex m0 m \<Longrightarrow> step ex m = Some (r, m') \<Longrightarrow> reachable ex m0 m'"

text \<open>\<open>n\<close> steps without an environment exception.\<close>

inductive machine_steps :: "('s, 'd) Externs \<Rightarrow> nat \<Rightarrow> MachineState \<Rightarrow> MachineState \<Rightarrow> bool" for ex where
  none: "machine_steps ex 0 m m"
| more_steps: "step ex m = Some (Inr (), m1) \<Longrightarrow> machine_steps ex n m1 m2 \<Longrightarrow> machine_steps ex (Suc n) m m2"

inductive_cases machine_steps_0E: "machine_steps ex 0 m m'"
inductive_cases machine_steps_SucE: "machine_steps ex (Suc n) m m'"

lemma step_keeps: "step ex m = Some (r, m') \<Longrightarrow> keeps m m'"
  using step_total [of ex m] by auto

lemma reachable_keeps: "reachable ex m0 m \<Longrightarrow> keeps m0 m"
  by (induction rule: reachable.induct) (auto simp: keeps_def dest: step_keeps)

lemma machine_reset_ok:
  "bus_ok (ms_bus m) \<Longrightarrow> machine_ok (machine_reset m)"
  "bus_BYTES (ms_bus (machine_reset m)) = bus_BYTES (ms_bus m)"
  by (simp_all add: machine_ok_def machine_reset_def hart_reset_def csr_reset_legal bus_ok_def bus_reset_def
      memory_ok_def memory_reset_def)

text \<open>
  C1: Every state that a machine reaches from a reset has legal control registers and an intact
  memory of the original size, and no reachable state is stuck: the next step always has an outcome,
  so none of the panics of the trap handling is ever hit.
\<close>
theorem machine_invariant:
  assumes "bus_ok (ms_bus m0)" "reachable ex (machine_reset m0) m"
  shows "machine_ok m \<and> bus_BYTES (ms_bus m) = bus_BYTES (ms_bus m0) \<and> (\<exists>r m'. step ex m = Some (r, m'))"
  using reachable_keeps [OF assms(2)] machine_reset_ok [of m0] assms(1) step_total [of ex m]
  by (auto simp: keeps_def)

definition example_externs :: "(u128, u128) Externs" where
  "example_externs = \<lparr>ex_twiddle = std_twiddle, ex_single = example_float, ex_double = example_float,
     ex_sqrt32 = (\<lambda>x r. (Status_OK, x)), ex_sqrt64 = (\<lambda>x r. (Status_OK, x))\<rparr>"

theorem machine_invariant_witness:
  "machine_ok (snd (the (step example_externs (machine_reset example_machine))))"
proof -
  obtain r m' where s: "step example_externs (machine_reset example_machine) = Some (r, m')"
    using step_total by blast
  have "reachable example_externs (machine_reset example_machine) m'"
    by (rule reachable.next_state [OF reachable.start s])
  then show ?thesis
    using machine_invariant [of example_machine example_externs m'] by (simp add: s)
qed

section \<open>Bounded runs\<close>

lemma step_many_loop_spec:
  "\<exists>res c' m' m1. step_many_loop ex k sc d c m = Some (res, c', m') \<and>
     (d \<le> k \<longrightarrow> d \<le> smr_steps res \<and> smr_steps res \<le> k \<and> machine_steps ex (smr_steps res - d) m m1 \<and>
     (case smr_exception res of
        None \<Rightarrow> m' = m1 \<and> (smr_steps res < k \<longrightarrow> (\<exists>c1. sc c1 m' = (False, c')))
      | Some e \<Rightarrow> smr_steps res < k \<and> step ex m1 = Some (Inl e, m')))"
proof (induction ex k sc d c m rule: step_many_loop.induct)
  case (1 ex k sc d c m)
  obtain go c1 where sc: "sc c m = (go, c1)" by force
  obtain r m1 where st: "step ex m = Some (r, m1)" using step_total by blast
  consider "k \<le> d" | "d < k" "\<not> go" | e where "d < k" go "r = Inl e" | "d < k" go "r = Inr ()"
    by (cases r) force+
  then show ?case
  proof cases
    case 1
    then show ?thesis by (auto simp: step_many_loop.simps [of ex k] intro: machine_steps.none)
  next
    case 2
    then show ?thesis
      using sc by (auto simp: step_many_loop.simps [of ex k] intro: machine_steps.none)
  next
    case 3
    then show ?thesis by (auto simp: step_many_loop.simps [of ex k] sc st intro: machine_steps.none)
  next
    case 4
    then obtain res c' m' m2 where IH: "step_many_loop ex k sc (d + 1) c1 m1 = Some (res, c', m')"
      "d + 1 \<le> smr_steps res" "smr_steps res \<le> k" "machine_steps ex (smr_steps res - (d + 1)) m1 m2"
      "case smr_exception res of
         None \<Rightarrow> m' = m2 \<and> (smr_steps res < k \<longrightarrow> (\<exists>c1. sc c1 m' = (False, c')))
       | Some e \<Rightarrow> smr_steps res < k \<and> step ex m2 = Some (Inl e, m')"
      using "1.IH" [OF 4(1) refl sc [symmetric] 4(2) st refl 4(3)] by auto
    have "machine_steps ex (smr_steps res - d) m m2"
      using machine_steps.more_steps [OF st [unfolded 4(3)] IH(4)] IH(2) by (simp add: Suc_diff_Suc)
    then show ?thesis
      using IH 4 by (auto simp: step_many_loop.simps [of ex k] sc st)
  qed
qed


text \<open>
  C19: A bounded run always returns, after at most the given number of steps.  It has made exactly the
  reported number of successful steps, and it stops early only because of an environment exception in
  the following step, which is reported with the state it left, or because the caller asked it to.
\<close>
theorem step_many_spec:
  "\<exists>res c' m' m1. machine_step_many ex m k should_continue c = Some (res, c', m') \<and>
     smr_steps res \<le> k \<and> machine_steps ex (smr_steps res) m m1 \<and>
     (case smr_exception res of
        None \<Rightarrow> m' = m1 \<and> (smr_steps res = k \<or> (\<exists>c1. should_continue c1 m' = (False, c')))
      | Some e \<Rightarrow> smr_steps res < k \<and> step ex m1 = Some (Inl e, m'))"
proof -
  obtain res c' m' m1 where *: "step_many_loop ex k should_continue 0 c m = Some (res, c', m')"
    "smr_steps res \<le> k" "machine_steps ex (smr_steps res) m m1"
    "case smr_exception res of
       None \<Rightarrow> m' = m1 \<and> (smr_steps res < k \<longrightarrow> (\<exists>c1. should_continue c1 m' = (False, c')))
     | Some e \<Rightarrow> smr_steps res < k \<and> step ex m1 = Some (Inl e, m')"
    using step_many_loop_spec [of ex k should_continue 0 c m] by auto
  then have "smr_exception res = None \<Longrightarrow>
      m' = m1 \<and> (smr_steps res = k \<or> (\<exists>c1. should_continue c1 m' = (False, c')))"
    by auto
  with * show ?thesis
    unfolding machine_step_many_def by (cases "smr_exception res") (fastforce, fastforce)
qed

text \<open>Runs that the caller does not stop.\<close>

abbreviation run_for :: "('s, 'd) Externs \<Rightarrow> MachineState \<Rightarrow> nat \<Rightarrow> (StepManyResult \<times> unit \<times> MachineState) option" where
  "run_for ex m k \<equiv> machine_step_many ex m k (\<lambda>c m. (True, c)) ()"

lemma step_many_loop_shift:
  "step_many_loop ex (d + k) sc d c m =
     map_option (\<lambda>(res, s). (res\<lparr>smr_steps := d + smr_steps res\<rparr>, s)) (step_many_loop ex k sc 0 c m)"
proof -
  have "step_many_loop ex k sc e c m =
      map_option (\<lambda>(res, s). (res\<lparr>smr_steps := e + smr_steps res\<rparr>, s)) (step_many_loop ex (k - e) sc 0 c m)"
    if "e \<le> k" for k e
    using that
  proof (induction "k - e" arbitrary: k e c m rule: less_induct)
    case (less k e)
    show ?case
    proof (cases "e < k")
      case False
      then show ?thesis by (simp add: step_many_loop.simps [of _ k] step_many_loop.simps [of _ 0])
    next
      case True
      have 1: "step_many_loop ex k sc (Suc e) c m =
          map_option (\<lambda>(res, s). (res\<lparr>smr_steps := Suc e + smr_steps res\<rparr>, s))
            (step_many_loop ex (k - Suc e) sc 0 c m)" for c m
        using True by (intro less) simp_all
      have 2: "step_many_loop ex (k - e) sc (Suc 0) c m =
          map_option (\<lambda>(res, s). (res\<lparr>smr_steps := Suc 0 + smr_steps res\<rparr>, s))
            (step_many_loop ex (k - Suc e) sc 0 c m)" for c m
        using True less(1) [of "k - e" "Suc 0"] by (simp add: diff_diff_left)
      obtain go c1 where sc: "sc c m = (go, c1)" by force
      obtain r m1 where st: "step ex m = Some (r, m1)" using step_total by blast
      show ?thesis
        unfolding step_many_loop.simps [of _ k _ e] step_many_loop.simps [of _ "k - e" _ 0]
        using True by (cases r) (simp_all add: sc st 1 2 option.map_comp o_def split_beta, simp add: case_prod_unfold)
    qed
  qed
  from this [of d "d + k"] show ?thesis by simp
qed


lemma step_many_loop_split:
  "d \<le> j \<Longrightarrow> j \<le> k \<Longrightarrow>
   step_many_loop ex k (\<lambda>c m. (True, c)) d c m =
     (case step_many_loop ex j (\<lambda>c m. (True, c)) d c m of
        None \<Rightarrow> None
      | Some (res, c1, m1) \<Rightarrow>
          if smr_exception res = None then step_many_loop ex k (\<lambda>c m. (True, c)) j c1 m1
          else Some (res, c1, m1))"
proof (induction "j - d" arbitrary: d m)
  case 0
  then show ?case by (simp add: step_many_loop.simps [of _ d])
next
  case (Suc n)
  then have IH: "step_many_loop ex k (\<lambda>c m. (True, c)) (Suc d) c m =
     (case step_many_loop ex j (\<lambda>c m. (True, c)) (Suc d) c m of
        None \<Rightarrow> None
      | Some (res, c1, m1) \<Rightarrow>
          if smr_exception res = None then step_many_loop ex k (\<lambda>c m. (True, c)) j c1 m1
          else Some (res, c1, m1))" for m
    by simp
  obtain r m1 where st: "step ex m = Some (r, m1)" using step_total by blast
  from Suc(2,4) have "d < j" "d < k" by linarith+
  with IH show ?case
    unfolding step_many_loop.simps [of ex k _ d] step_many_loop.simps [of ex j _ d]
    by (cases r) (simp_all add: st)
qed

text \<open>
  Runs compose: running \<open>a + b\<close> steps is the same as running \<open>a\<close> steps and, unless an environment
  exception ended that run, another \<open>b\<close> from the state it left, with the step counts added.
\<close>
theorem step_many_compose:
  "run_for ex m (a + b) =
     (case run_for ex m a of
        None \<Rightarrow> None
      | Some (res, _, m1) \<Rightarrow>
          if smr_exception res = None
          then map_option (\<lambda>(res', s). (res'\<lparr>smr_steps := a + smr_steps res'\<rparr>, s)) (run_for ex m1 b)
          else Some (res, (), m1))"
  unfolding machine_step_many_def
  by (subst step_many_loop_split [of 0 a]) (auto simp: step_many_loop_shift split: option.split)




section \<open>Environment calls\<close>

text \<open>Outcomes that the machine handles itself, without the execution environment.\<close>

definition internal :: "(Exception, 'a) result \<Rightarrow> bool" where
  "internal r \<longleftrightarrow> (\<forall>e. r = Inl e \<longrightarrow> environ_try_from e = None)"

lemma internal_simps [simp]:
  "internal (Inr x)" "internal (Inl IllegalInstruction)" "internal (Inl Breakpoint)"
  "internal (map_result f r) = internal r"
  by (simp_all add: internal_def map_result_def split: sum.split)

lemma internal_translate: "internal (translate tw m a k)"
  by (cases k) (auto simp: internal_def translate_def map_err_def Let_def split: option.splits
      TranslationAlgorithm.splits sum.splits if_splits)

lemma internal_bus:
  "internal (read_from_address tw m a)" "internal (write_to_address tw m a v)"
  "internal (read_from_bus tw m imm rs1)" "internal (write_to_bus tw m imm rs1 v)"
  using internal_translate
  by (auto simp: internal_def read_from_address_def write_to_address_def read_from_bus_def write_to_bus_def
      map_err_def Let_def split: sum.splits; metis)+

lemma internal_memory:
  "internal (run_lb tw m imm rs1 rd)" "internal (run_lh tw m imm rs1 rd)"
  "internal (run_lw tw m imm rs1 rd)" "internal (run_ld tw m imm rs1 rd)"
  "internal (run_lbu tw m imm rs1 rd)" "internal (run_lhu tw m imm rs1 rd)"
  "internal (run_lwu tw m imm rs1 rd)" "internal (run_flw tw m imm rs1 fd)"
  "internal (run_fld tw m imm rs1 fd)" "internal (run_sb tw m imm rs1 rs2)"
  "internal (run_sh tw m imm rs1 rs2)" "internal (run_sw tw m imm rs1 rs2)"
  "internal (run_sd tw m imm rs1 rs2)" "internal (run_fsw tw m imm rs1 fs)"
  "internal (run_fsd tw m imm rs1 fs)"
  by (simp_all add: run_lb_def run_lh_def run_lw_def run_ld_def run_lbu_def run_lhu_def run_lwu_def
      run_flw_def run_fld_def run_sb_def run_sh_def run_sw_def run_sd_def run_fsw_def run_fsd_def
      Let_def internal_bus)

lemma internal_amo: "internal (fst (run_amo_w tw m rs1 rs2 rd f))"
  using internal_bus(1) [where 'a = 32, of tw m] internal_bus(2) [of tw _ _ "_ :: u64"]
  by (auto simp: run_amo_w_def Let_def internal_def split: sum.splits)

lemma internal_amo_instrs:
  "internal (fst (run_amoswapw tw m rs1 rs2 rd rl aq))" "internal (fst (run_amoaddw tw m rs1 rs2 rd rl aq))"
  "internal (fst (run_amoxorw tw m rs1 rs2 rd rl aq))" "internal (fst (run_amoandw tw m rs1 rs2 rd rl aq))"
  "internal (fst (run_amoorw tw m rs1 rs2 rd rl aq))" "internal (fst (run_amominw tw m rs1 rs2 rd rl aq))"
  "internal (fst (run_amomaxw tw m rs1 rs2 rd rl aq))" "internal (fst (run_amominuw tw m rs1 rs2 rd rl aq))"
  "internal (fst (run_amomaxuw tw m rs1 rs2 rd rl aq))"
  by (simp_all add: run_amoswapw_def run_amoaddw_def run_amoxorw_def run_amoandw_def run_amoorw_def
      run_amominw_def run_amomaxw_def run_amominuw_def run_amomaxuw_def internal_amo)

lemma internal_rounding: "internal (f_rounding_mode h rm)"
  by (auto simp: internal_def f_rounding_mode_def map_result_Inl_iff rounding_try_from_def
      split: InstrRoundingMode.splits if_splits)

lemma internal_arith:
  "internal (f_arith_2 F h rs1 rs2 rm rd f)" "internal (f_arith_3 F h rs1 rs2 rs3 rm rd g)"
  "internal (run_fsqrt_s sq32 h rs1 rm rd)" "internal (run_fsqrt_d sq64 h rs1 rm rd)"
  using internal_rounding [of h rm]
  by (auto simp: f_arith_2_def f_arith_3_def run_fsqrt_s_def run_fsqrt_d_def Let_def internal_def
      split_beta split: sum.splits)

lemma internal_rm_instrs:
  "internal (run_fadd_s fl h rs1 rs2 rm rd)" "internal (run_fadd_d fl h rs1 rs2 rm rd)"
  "internal (run_fsub_s fl h rs1 rs2 rm rd)" "internal (run_fsub_d fl h rs1 rs2 rm rd)"
  "internal (run_fmul_s fl h rs1 rs2 rm rd)" "internal (run_fmul_d fl h rs1 rs2 rm rd)"
  "internal (run_fdiv_s fl h rs1 rs2 rm rd)" "internal (run_fdiv_d fl h rs1 rs2 rm rd)"
  "internal (run_fmadd_s fl h rs1 rs2 rs3 rm rd)" "internal (run_fmadd_d fl h rs1 rs2 rs3 rm rd)"
  "internal (run_fmsub_s fl h rs1 rs2 rs3 rm rd)" "internal (run_fmsub_d fl h rs1 rs2 rs3 rm rd)"
  "internal (run_fnmsub_s fl h rs1 rs2 rs3 rm rd)" "internal (run_fnmsub_d fl h rs1 rs2 rs3 rm rd)"
  "internal (run_fnmadd_s fl h rs1 rs2 rs3 rm rd)" "internal (run_fnmadd_d fl h rs1 rs2 rs3 rm rd)"
  by (simp_all add: run_fadd_s_def run_fadd_d_def run_fsub_s_def run_fsub_d_def run_fmul_s_def run_fmul_d_def
    run_fdiv_s_def run_fdiv_d_def run_fmadd_s_def run_fmadd_d_def run_fmsub_s_def run_fmsub_d_def
    run_fnmsub_s_def run_fnmsub_d_def run_fnmadd_s_def run_fnmadd_d_def float_instr_defs internal_arith)

lemma internal_csr:
  "internal (hart_csr_replace h reg v rd)" "internal (hart_csr_update upd h reg nw v rd)"
  by (auto simp: hart_csr_replace_def hart_csr_update_def check_privilege_def check_write_def internal_def
      Let_def split_beta split: sum.splits if_splits)

lemma internal_csr_instrs:
  "internal (run_csrrw h reg rs1 rd)" "internal (run_csrrs h reg rs1 rd)" "internal (run_csrrc h reg rs1 rd)"
  "internal (run_csrrwi h reg imm rd)" "internal (run_csrrsi h reg imm rd)" "internal (run_csrrci h reg imm rd)"
  by (simp_all add: zicsr_defs Let_def internal_csr)

lemma internal_privileged:
  "internal (run_mret h)" "internal (run_sret h)" "internal (sfence_vma m asid vaddr)"
  by (auto simp: run_mret_def run_sret_def sfence_vma_def Let_def internal_def split: Mode.splits if_splits)

lemma internal_lifted [simp]:
  "internal (fst (lift_machine m upd r)) = internal r" "internal (fst (lift_hart m upd rh)) = internal rh"
  "internal (fst (run_xret_instr m xf)) = internal (xf (ms_hart m))"
  "internal (fst (run_amo_instr m i aa af)) =
     internal (fst (af m (amo_rs1 aa) (amo_rs2 aa) (amo_rd aa) (amo_rl aa) (amo_aq aa)))"
  by (auto simp: lift_hart_def lift_machine_def run_xret_instr_def run_amo_instr_def internal_def
      map_result_Inl_iff split: sum.splits prod.splits)

lemmas lifted_families = run_f_rm1_instr_def run_f_rm2_instr_def run_f_rm3_instr_def run_load_instr_def
    run_f_load_instr_def run_store_instr_def run_f_store_instr_def run_csr_instr_def run_csr_imm_instr_def

lemmas internal_instrs = internal_memory internal_amo_instrs internal_rm_instrs internal_csr_instrs
  internal_privileged internal_arith(3,4)

lemma run_instr_internal: "i \<noteq> Ecall \<Longrightarrow> internal (fst (run_instr ex m i))"
  by (cases i; simp only: run_instr.simps;
      simp add: family_defs lifted_families internal_instrs run_ebreak_def)


lemma fetch_instr_internal: "internal (fetch_instr ex m pc)"
  using internal_translate [of "ex_twiddle ex" m pc AT_Instruction]
  by (auto simp: fetch_instr_def internal_def map_err_def split: sum.splits)

lemma run_instr_at_env:
  assumes "run_instr_at ex m pc = (Inl e, m')" "environ_try_from e = Some env"
  shows "fetch_instr ex m pc = Inr Ecall \<and> m' = m \<and> e = run_ecall (ms_hart m)"
proof (cases "fetch_instr ex m pc")
  case (Inl e')
  then show ?thesis using assms fetch_instr_internal [of ex m pc] by (auto simp: run_instr_at_def internal_def)
next
  case (Inr i)
  have "i = Ecall"
    using assms run_instr_internal [of i ex m] by (auto simp: run_instr_at_def Inr internal_def)
  then show ?thesis
    using assms Inr by (auto simp: run_instr_at_def run_syscall_instr_def)
qed

text \<open>The environment call of a mode.\<close>

definition env_call_of :: "Mode \<Rightarrow> EnvironException" where
  "env_call_of md = (case md of User \<Rightarrow> EE_EnvCallFromUMode | Supervisor \<Rightarrow> EE_EnvCallFromSMode
     | Machine \<Rightarrow> EE_EnvCallFromMMode)"

lemma environ_run_ecall: "environ_try_from (run_ecall h) = Some (env_call_of (h_mode h))"
  by (simp add: run_ecall_def env_call_of_def split: Mode.split)

lemma step_at_env:
  "step_at ex m pc = Some (Inl env, m') \<longleftrightarrow>
   fetch_instr ex m pc = Inr Ecall \<and> env = env_call_of (h_mode (ms_hart m)) \<and>
   m' = m\<lparr>ms_hart := (ms_hart m)\<lparr>h_pc := pc\<rparr>\<rparr>"
proof
  assume "step_at ex m pc = Some (Inl env, m')"
  then obtain e m1 where r: "run_instr_at ex m pc = (Inl e, m1)"
    and a: "address_on_exception (ex_twiddle ex) m1 e pc = Some (Inl env, m')"
    by (auto simp: step_at_def split: prod.splits sum.splits option.splits)
  from a have env: "environ_try_from e = Some env" "m' = m1\<lparr>ms_hart := (ms_hart m1)\<lparr>h_pc := pc\<rparr>\<rparr>"
    by (auto simp: address_on_exception_def split: option.splits)
  from run_instr_at_env [OF r env(1)] env
  show "fetch_instr ex m pc = Inr Ecall \<and> env = env_call_of (h_mode (ms_hart m)) \<and>
      m' = m\<lparr>ms_hart := (ms_hart m)\<lparr>h_pc := pc\<rparr>\<rparr>"
    by (auto simp: environ_run_ecall)
next
  assume "fetch_instr ex m pc = Inr Ecall \<and> env = env_call_of (h_mode (ms_hart m)) \<and>
      m' = m\<lparr>ms_hart := (ms_hart m)\<lparr>h_pc := pc\<rparr>\<rparr>"
  then show "step_at ex m pc = Some (Inl env, m')"
    by (simp add: step_at_def run_instr_at_def run_syscall_instr_def address_on_exception_def environ_run_ecall)
qed


text \<open>Where a step starts: at the handler of the pending interrupt, if any.\<close>

definition step_entry :: "('s, 'd) Externs \<Rightarrow> MachineState \<Rightarrow> MachineState \<times> Address \<Rightarrow> bool" where
  "step_entry ex m entry \<longleftrightarrow>
     (case get_pending_interrupt (ex_twiddle ex) m of
        None \<Rightarrow> entry = (m, h_pc (ms_hart m))
      | Some i \<Rightarrow> address_on_interrupt (ex_twiddle ex) m i = Some (Inr (snd entry), fst entry))"

lemma step_entry_total: "\<exists>entry. step_entry ex m entry"
proof (cases "get_pending_interrupt (ex_twiddle ex) m")
  case (Some i)
  then show ?thesis
    using address_on_interrupt_eq [of "ex_twiddle ex" m i] by (auto simp: step_entry_def)
qed (simp add: step_entry_def)

lemma step_entry_unique: "step_entry ex m e1 \<Longrightarrow> step_entry ex m e2 \<Longrightarrow> e1 = e2"
  by (auto simp: step_entry_def prod_eq_iff split: option.splits)

lemma step_eq: "step_entry ex m (m1, pc) \<Longrightarrow> step ex m = step_at ex m1 pc"
  by (auto simp: step_entry_def step_def split: option.splits)

text \<open>
  C20: A step hands control to the execution environment exactly when the instruction it executes is
  an environment call.  The reported exception is that of the privilege mode in which the instruction
  runs, and apart from the program counter, which points to the call, the machine is as it was before
  the instruction.
\<close>
theorem environment_calls:
  "step ex m = Some (Inl env, m') \<longleftrightarrow>
     (\<exists>m1 pc. step_entry ex m (m1, pc) \<and> fetch_instr ex m1 pc = Inr Ecall \<and>
        env = env_call_of (h_mode (ms_hart m1)) \<and> m' = m1\<lparr>ms_hart := (ms_hart m1)\<lparr>h_pc := pc\<rparr>\<rparr>)"
proof -
  obtain m0 pc0 where entry: "step_entry ex m (m0, pc0)" using step_entry_total by force
  then have "step_entry ex m (m1, pc) \<longleftrightarrow> m1 = m0 \<and> pc = pc0" for m1 pc
    using step_entry_unique by blast
  then show ?thesis by (simp add: step_eq [OF entry] step_at_env)
qed

section \<open>User mode\<close>

lemma run_instr_at_user:
  assumes "h_mode (ms_hart m) = User" "run_instr_at ex m pc = (r, m1)"
  shows "h_mode (ms_hart m1) = User"
    "reg \<noteq> csr_fcsr \<Longrightarrow>
     csr_registers (h_csregisters (ms_hart m1)) reg = csr_registers (h_csregisters (ms_hart m)) reg"
  using run_instr_at_frame [of m ex pc] assms by (simp_all add: frame_def hart_frame_def)

text \<open>
  C2: User code is confined.  A step of user-mode code that no interrupt precedes either stays in user
  mode and leaves every control register except the floating-point status as it was, or takes an
  exception: it then continues at the handler that the trap vector prescribes, in the mode that the
  delegation register, untouched by user code, selects.
\<close>
theorem user_mode_confined:
  assumes "h_mode (ms_hart m) = User" "get_pending_interrupt (ex_twiddle ex) m = None"
    and "step ex m = Some (Inr (), m')" "c = h_csregisters (ms_hart m)"
  shows "(h_mode (ms_hart m') = User \<and>
           (\<forall>reg. reg \<noteq> csr_fcsr \<longrightarrow> csr_registers (h_csregisters (ms_hart m')) reg = csr_registers c reg)) \<or>
         (\<exists>e tm. tm = get_trap_mode (ex_twiddle ex) c exception_context e User \<and>
            h_mode (ms_hart m') = as_mode tm \<and>
            h_pc (ms_hart m') = tc_trap_handler_address exception_context e (csr_read c (fst (trap_registers tm))))"
proof -
  let ?pc = "h_pc (ms_hart m)"
  obtain r m1 where run: "run_instr_at ex m ?pc = (r, m1)" by force
  note user = run_instr_at_user [OF assms(1) run]
  have step: "step_at ex m ?pc = Some (Inr (), m')"
    using assms by (simp add: step_def)
  show ?thesis
  proof (cases r)
    case (Inr u)
    then show ?thesis using step user by (auto simp: step_at_def run assms(4))
  next
    case (Inl e)
    define tm where "tm = get_trap_mode (ex_twiddle ex) (h_csregisters (ms_hart m1)) exception_context e User"
    have "csr_read (h_csregisters (ms_hart m1)) reg = csr_read c reg"
      if "reg \<in> {csr_stvec, csr_mtvec, csr_medeleg, csr_mideleg}" for reg
      using that user(2) by (auto simp: csr_read_plain assms(4))
    then have tm: "tm = get_trap_mode (ex_twiddle ex) c exception_context e User"
      and tvec: "csr_read (h_csregisters (ms_hart m1)) (fst (trap_registers tm)) = csr_read c (fst (trap_registers tm))"
      by (auto simp: tm_def get_trap_mode_def trap_registers_def split: TrapMode.split TrapKind.split)
    have "h_mode (ms_hart m') = as_mode tm"
      "h_pc (ms_hart m') = tc_trap_handler_address exception_context e (csr_read c (fst (trap_registers tm)))"
      using step
      by (auto simp: step_at_def run Inl address_on_exception_def take_trap_eq [OF refl refl] tm_def [symmetric]
          user(1) trap_csrs_xtvec tvec update_pc_def split: option.splits)
    with tm show ?thesis by blast
  qed
qed


section \<open>Executing stored instructions\<close>

lemma bus_read_halves:
  assumes "bus_ok b" "bus_read b a = Inr (w :: u32)"
  shows "bus_read b a = Inr (ucast w :: u16)" "bus_read b (a + 2) = Inr (ucast (drop_bit 16 w) :: u16)"
proof -
  let ?byte = "\<lambda>i. the (bus_view b (unat a + i))"
  have m: "mapped (bus_view b) (unat a) 4"
    and w: "w = from_le_bytes (view_bytes (bus_view b) (unat a) 4)"
    using assms(2) by (auto simp: bus32.read_spec [OF assms(1) TrueI] split: if_splits)
  have "unat a + 4 \<le> 2 ^ 31 + bus_BYTES b"
    using m by (simp add: bus_mapped_iff)
  moreover have "bus_BYTES b < 2 ^ 63" by (rule bus_BYTES_bound) (rule assms(1))
  ultimately have a2: "unat (a + 2) = unat a + 2"
    using unat_add_of_nat [of a 2] by simp
  have m2: "mapped (bus_view b) (unat a) 2" "mapped (bus_view b) (unat a + 2) 2"
    using m by (auto simp: bus_mapped_iff)
  have v: "view_bytes (bus_view b) (unat a) 4 = map ?byte [0..<4]"
    "view_bytes (bus_view b) (unat a) 2 = map ?byte [0..<2]"
    "view_bytes (bus_view b) (unat a + 2) 2 = map (\<lambda>i. ?byte (2 + i)) [0..<2]"
    unfolding view_bytes_def by (simp_all add: add.assoc)
  have part: "from_le_bytes (map (\<lambda>i. ?byte (k + i)) [0..<2]) = (ucast (drop_bit (8 * k) w) :: u16)"
    if "k = 0 \<or> k = 2" for k
  proof (rule bit_word_eqI)
    fix n assume "n < LENGTH(16)"
    then have n: "n div 8 < 2" "n < 16" by simp_all
    have "(8 * k + n) div 8 = k + n div 8" "(8 * k + n) mod 8 = n mod 8" by simp_all
    with n that
    show "bit (from_le_bytes (map (\<lambda>i. ?byte (k + i)) [0..<2]) :: u16) n = bit (ucast (drop_bit (8 * k) w) :: u16) n"
      unfolding w v by (auto simp: bit_from_le_bytes bit_unsigned_iff bit_drop_bit_eq simp del: upt_rec_numeral)
  qed
  show "bus_read b a = Inr (ucast w :: u16)" "bus_read b (a + 2) = Inr (ucast (drop_bit 16 w) :: u16)"
    using m2 part [of 0] part [of 2]
    by (simp_all del: upt_rec_numeral add_2_eq_Suc add_2_eq_Suc' add: bus16.read_spec [OF assms(1) TrueI] a2 v)
qed

lemma fetch_encoded:
  assumes "bus_ok (ms_bus m)" "encodable i"
    and "translate (ex_twiddle ex) m pc AT_Instruction = Inr pa" "bus_read (ms_bus m) pa = Inr (encode i)"
  shows "fetch_instr ex m pc = Inr i"
  using bus_read_halves [OF assms(1,4)] encode_low_bits [OF assms(2)]
  by (simp add: fetch_instr_def assms(3) parse_def map_err_def Let_def halves_of_word decode_encode [OF assms(2)])

text \<open>
  C7: A stored instruction is executed: when the four bytes at the address to which the program counter
  translates are the encoding of an instruction and no interrupt is pending, a step runs this
  instruction.  If it succeeds, the program counter moves to the address it determines or to the next
  word; a fault that is not an environment call is taken as a trap for the address of the instruction.
\<close>
theorem stored_instruction_executes:
  assumes "bus_ok (ms_bus m)" "encodable i" "get_pending_interrupt (ex_twiddle ex) m = None"
    and "translate (ex_twiddle ex) m (h_pc (ms_hart m)) AT_Instruction = Inr pa"
    and "bus_read (ms_bus m) pa = Inr (encode i)"
  shows "step ex m =
    (case run_instr ex m i of
       (Inr (PC_Set a), m1) \<Rightarrow> Some (Inr (), m1\<lparr>ms_hart := (ms_hart m1)\<lparr>h_pc := a\<rparr>\<rparr>)
     | (Inr (PC_Add w), m1) \<Rightarrow> Some (Inr (), m1\<lparr>ms_hart := (ms_hart m1)\<lparr>h_pc := h_pc (ms_hart m) + w\<rparr>\<rparr>)
     | (Inl e, m1) \<Rightarrow>
         (case environ_try_from e of
            Some env \<Rightarrow> Some (Inl env, m1\<lparr>ms_hart := (ms_hart m1)\<lparr>h_pc := h_pc (ms_hart m)\<rparr>\<rparr>)
          | None \<Rightarrow>
              map_option (\<lambda>(a, h). (Inr (), m1\<lparr>ms_hart := h\<lparr>h_pc := a\<rparr>\<rparr>))
                (take_trap (ex_twiddle ex) exception_context (ms_hart m1) e (h_pc (ms_hart m)))))"
  using fetch_encoded [OF assms(1,2,4,5)]
  by (auto simp: step_def assms(3) step_at_def run_instr_at_def address_on_exception_def update_pc_def
      split: prod.split sum.split option.split ProgramCounterUpdate.split)


lemma no_pending_machine:
  "h_mode (ms_hart m) = Machine \<Longrightarrow> \<not> get_MIE (csr_read (h_csregisters (ms_hart m)) csr_mstatus) \<Longrightarrow>
   get_pending_interrupt tw m = None"
  by (simp add: get_pending_interrupt_def possible_interrupts_def Let_def)

definition example_addi :: Instr where
  "example_addi = Addi \<lparr>it_rd = x3, it_rs1 = x1, it_imm = 5\<rparr>"

lemma example_write:
  "\<exists>b. bus_write example_bus 0x80000000 (w :: u32) = Inr b \<and> bus_ok b \<and> bus_read b 0x80000000 = Inr w"
proof -
  have ok: "bus_ok example_bus" using example_machine_simps(1) by (simp add: example_machine_def)
  have "mapped (bus_view example_bus) (unat (0x80000000 :: u64)) 4"
    by (simp add: bus_mapped_iff example_bus_def)
  then obtain b where "bus_write example_bus 0x80000000 w = Inr b" "bus_ok b"
    using bus_write_spec [OF ok, where 'a = 32, of "0x80000000" w] by auto
  then show ?thesis
    using bus32.read_after_write [OF ok TrueI] by blast
qed

theorem stored_instruction_executes_witness:
  "\<exists>b m'. bus_write example_bus 0x80000000 (encode example_addi) = Inr b \<and>
     step example_externs (example_machine\<lparr>ms_bus := b\<rparr>) = Some (Inr (), m') \<and>
     xread (h_xregisters (ms_hart m')) x3 = 0x80000015 \<and> h_pc (ms_hart m') = 0x80000004"
proof -
  obtain b where b: "bus_write example_bus 0x80000000 (encode example_addi) = Inr b" "bus_ok b"
    and r: "bus_read b 0x80000000 = Inr (encode example_addi)"
    using example_write by blast
  let ?m = "example_machine\<lparr>ms_bus := b\<rparr>"
  have i: "encodable example_addi"
    by (simp add: example_addi_def fits_def)
  have p: "get_pending_interrupt (ex_twiddle example_externs) ?m = None"
    by (rule no_pending_machine) (simp_all add: example_machine_def csr_read_plain xstatus_bits)
  have t: "translate (ex_twiddle example_externs) ?m (h_pc (ms_hart ?m)) AT_Instruction = Inr 0x80000000"
    by (subst translate_machine_mode) (simp_all add: example_machine_def)
  have pc: "h_pc (ms_hart example_machine) = 0x80000000" by (simp add: example_machine_def)
  show ?thesis
    using stored_instruction_executes [OF _ i p t] b r
    by (simp add: example_addi_def run_i_type_instr_def run_addi_def is_zero_def pc)
qed

section \<open>Interrupts\<close>

definition interrupt_priority :: "Interrupt \<Rightarrow> nat" where
  "interrupt_priority i =
     (case i of MachineExternal \<Rightarrow> 0 | MachineSoftware \<Rightarrow> 1 | MachineTimer \<Rightarrow> 2
      | SupervisorExternal \<Rightarrow> 3 | SupervisorSoftware \<Rightarrow> 4 | SupervisorTimer \<Rightarrow> 5)"

definition interrupt_enabled :: "HartState \<Rightarrow> Interrupt \<Rightarrow> bool" where
  "interrupt_enabled h i =
     (let c = h_csregisters h; code = unat (exception_code_const i) in
      case h_mode h of
        User \<Rightarrow> True
      | Supervisor \<Rightarrow>
          i \<in> {MachineExternal, MachineSoftware, MachineTimer} \<or>
          (get_SIE (csr_read c csr_mstatus) \<and> bit (csr_read c csr_sie) code)
      | Machine \<Rightarrow> get_MIE (csr_read c csr_mstatus) \<and> bit (csr_read c csr_mie) code)"

lemma bit_possible_interrupts:
  "bit (possible_interrupts (h_csregisters h) (h_mode h)) (unat (exception_code_const i)) = interrupt_enabled h i"
  by (cases i; cases "h_mode h";
      simp add: possible_interrupts_def interrupt_enabled_def Let_def SUPERVISOR_BIT_MASK_eq MACHINE_BIT_MASK_eq
        bit_or_iff)

text \<open>
  C34: The interrupt that a step takes is the one of highest priority among those that are pending and
  enabled, and there is none only if no interrupt is.  In machine mode and, for supervisor interrupts, in
  supervisor mode an interrupt is enabled by the global bit of the mode together with its own enable bit;
  in user mode every pending interrupt counts as enabled, and in supervisor mode every machine interrupt,
  whatever \<open>mie\<close> says.
\<close>
theorem pending_interrupt_spec:
  assumes "twiddle_ok tw" "h = ms_hart m"
    and "active = (\<lambda>i. bit (csr_read (h_csregisters h) csr_mip) (unat (exception_code_const i)) \<and> interrupt_enabled h i)"
  shows "(get_pending_interrupt tw m = Some i \<longleftrightarrow>
            active i \<and> (\<forall>j. active j \<and> j \<noteq> i \<longrightarrow> interrupt_priority i < interrupt_priority j)) \<and>
         (get_pending_interrupt tw m = None \<longleftrightarrow> (\<forall>j. \<not> active j))"
proof -
  let ?p = "possible_interrupts (h_csregisters h) (h_mode h)"
  have code: "unat (exception_code_const j) < 64" for j
    by (cases j) simp_all
  have a: "tw_bit tw (csr_read (h_csregisters h) csr_mip AND ?p) (unat (exception_code_const j)) = active j" for j
    using assms(1) code [of j] by (simp add: twiddle_ok_def bit_and_iff bit_possible_interrupts assms(3))
  have z: "?p = 0 \<Longrightarrow> \<not> active j" for j
    using bit_possible_interrupts [of h j] by (simp add: assms(3))
  have all: "(\<forall>j. P j) \<longleftrightarrow> P MachineExternal \<and> P MachineSoftware \<and> P MachineTimer \<and> P SupervisorExternal \<and>
      P SupervisorSoftware \<and> P SupervisorTimer" for P
    by (metis Interrupt.exhaust)
  show ?thesis
    unfolding get_pending_interrupt_def Let_def assms(2) [symmetric] a all
    using z by (cases i) (auto simp: interrupt_priority_def)
qed


definition example_pending :: MachineState where
  "example_pending = example_machine\<lparr>ms_hart := (ms_hart example_machine)\<lparr>h_mode := User,
     h_csregisters := \<lparr>csr_registers = (\<lambda>_. 0)(csr_mip := 0x22)\<rparr>\<rparr>\<rparr>"

theorem pending_interrupt_spec_witness:
  "csr_read (h_csregisters (ms_hart example_pending)) csr_mie = 0 \<and>
   get_pending_interrupt std_twiddle example_pending = Some SupervisorSoftware"
proof -
  have u: "h_mode (ms_hart example_pending) = User" by (simp add: example_pending_def)
  have c: "csr_read (h_csregisters (ms_hart example_pending)) csr_mip = 0x22"
    "csr_read (h_csregisters (ms_hart example_pending)) csr_mie = 0"
    by (simp_all add: csr_read_plain example_pending_def)
  have "(bit (0x22 :: u64) (unat (exception_code_const j)) \<and> interrupt_enabled (ms_hart example_pending) j) \<and>
      j \<noteq> SupervisorSoftware \<longrightarrow> interrupt_priority SupervisorSoftware < interrupt_priority j" for j
    by (cases j) (simp_all add: interrupt_priority_def)
  then show ?thesis
    using pending_interrupt_spec [OF std_twiddle_ok refl refl, of example_pending SupervisorSoftware] c u
    by (simp add: interrupt_enabled_def)
qed

text \<open>
  C35: The first instruction after an interrupt is executed at the handler, but still sees the program
  counter of the interrupted code: \<open>auipc\<close> and \<open>jal\<close> as first instruction of a handler compute
  their address, and \<open>jal\<close> also its return address, relative to the interrupted instruction.
\<close>
theorem handler_sees_interrupted_pc:
  assumes "get_pending_interrupt (ex_twiddle ex) m = Some i" "pc = h_pc (ms_hart m)"
    and "address_on_interrupt (ex_twiddle ex) m i = Some (Inr handler, m1)"
    and "fetch_instr ex m1 handler = Inr instr" "uj_rd args \<noteq> x0"
  shows "(instr = Auipc args \<longrightarrow>
           (\<exists>m'. step ex m = Some (Inr (), m') \<and> h_pc (ms_hart m') = handler + 4 \<and>
                 xread (h_xregisters (ms_hart m')) (uj_rd args) = pc + uj_imm args)) \<and>
         (instr = Jal args \<longrightarrow>
           (\<exists>m'. step ex m = Some (Inr (), m') \<and> h_pc (ms_hart m') = pc + uj_imm args \<and>
                 xread (h_xregisters (ms_hart m')) (uj_rd args) = pc + 4))"
proof -
  have "h_pc (ms_hart m1) = pc"
    using assms(2,3) by (auto simp: address_on_interrupt_def Let_def take_trap_eq [OF refl refl])
  then show ?thesis
    using assms(1,3,4,5)
    by (auto simp: step_def step_at_def run_instr_at_def run_u_type_instr_def run_auipc_def run_jump_instr_def
        run_jal_def run_jal_impl_def update_pc_def Let_def is_zero_def)
qed


definition example_interrupted :: "Bus \<Rightarrow> MachineState" where
  "example_interrupted b =
     \<lparr>ms_hart = (ms_hart example_machine)\<lparr>h_pc := 0x80000100,
        h_csregisters := \<lparr>csr_registers = (\<lambda>_. 0)(csr_mstatus := 8, csr_mie := 8, csr_mip := 8, csr_mtvec := 0x80000000)\<rparr>\<rparr>,
      ms_bus = b\<rparr>"

lemma example_interrupted_pending: "get_pending_interrupt std_twiddle (example_interrupted b) = Some MachineSoftware"
  by (simp add: get_pending_interrupt_def example_interrupted_def example_machine_def possible_interrupts_def Let_def
      csr_read_plain xstatus_bits std_twiddle_def)

lemma trap_mode_from_machine: "get_trap_mode tw c tc t Machine = TM_Machine"
  using get_trap_mode_supervisor [of tw c tc t Machine]
  by (cases "get_trap_mode tw c tc t Machine") simp_all

theorem handler_sees_interrupted_pc_witness:
  "\<exists>b m'. bus_write example_bus 0x80000000 (encode (Auipc \<lparr>uj_rd = x3, uj_imm = 0\<rparr>)) = Inr b \<and>
     step example_externs (example_interrupted b) = Some (Inr (), m') \<and>
     h_pc (ms_hart m') = 0x80000004 \<and> xread (h_xregisters (ms_hart m')) x3 = 0x80000100"
proof -
  let ?i = "Auipc \<lparr>uj_rd = x3, uj_imm = 0\<rparr>"
  obtain b where b: "bus_write example_bus 0x80000000 (encode ?i) = Inr b" "bus_ok b"
    "bus_read b 0x80000000 = Inr (encode ?i)"
    using example_write by blast
  let ?m = "example_interrupted b"
  have p: "get_pending_interrupt (ex_twiddle example_externs) ?m = Some MachineSoftware"
    using example_interrupted_pending by (simp add: example_externs_def)
  obtain m1 where a: "address_on_interrupt (ex_twiddle example_externs) ?m MachineSoftware = Some (Inr 0x80000000, m1)"
    and m1: "h_mode (ms_hart m1) = Machine" "ms_bus m1 = b"
    by (auto simp: address_on_interrupt_def Let_def take_trap_eq [OF refl refl] trap_mode_from_machine
        example_interrupted_def example_machine_def trap_csrs_xtvec [where tm = TM_Machine, simplified]
        interrupt_context_def int_trap_handler_address_def csr_read_plain csr_write_other shadowed_def)
  have "fetch_instr example_externs m1 0x80000000 = Inr ?i"
    using b m1 by (intro fetch_encoded [of _ _ _ _ "0x80000000"])
      (simp_all add: translate_machine_mode fits_def)
  from handler_sees_interrupted_pc [OF p refl a this, of "\<lparr>uj_rd = x3, uj_imm = 0\<rparr>"] b(1)
  show ?thesis by (auto simp: example_interrupted_def)
qed

definition example_user :: MachineState where
  "example_user = example_machine\<lparr>ms_hart := (ms_hart example_machine)\<lparr>h_mode := User\<rparr>\<rparr>"


lemma example_user_fetch: "fetch_instr ex example_user 0x80000000 = Inr (UnknownCompressed 0)"
proof -
  have "translate (ex_twiddle ex) example_user 0x80000000 AT_Instruction = Inr 0x80000000"
    by (simp add: translate_def example_user_def example_machine_def csr_read_plain get_MODE_def get_field_def
        FIELD_MODE_def TranslationAlgorithm_new_def shr64_def FieldProps_new_def ones_mask MODE_BARE_def)
  moreover have "bus_read example_bus 0x80000000 = Inr (0 :: u16)"
    by (simp add: bus_eval example_bus_def data_read_def)
  ultimately show ?thesis
    by (simp add: fetch_instr_def example_user_def example_machine_def map_err_def parse_def
        parse_compressed_instruction_def)
qed

theorem user_mode_confined_witness:
  "\<exists>m'. step example_externs example_user = Some (Inr (), m') \<and>
     (h_mode (ms_hart m') = User \<and>
      (\<forall>reg. reg \<noteq> csr_fcsr \<longrightarrow> csr_registers (h_csregisters (ms_hart m')) reg = 0) \<or>
      (\<exists>e tm. h_mode (ms_hart m') = as_mode tm \<and>
         h_pc (ms_hart m') = tc_trap_handler_address exception_context e 0))"
proof -
  let ?m = example_user
  have p: "get_pending_interrupt (ex_twiddle example_externs) ?m = None"
    by (simp add: get_pending_interrupt_def example_externs_def example_user_def example_machine_def
        csr_read_plain std_twiddle_def Let_def)
  obtain r m' where s: "step example_externs ?m = Some (r, m')"
    using step_total by blast
  moreover have "step example_externs ?m = step_at example_externs ?m 0x80000000"
    by (simp add: step_def p) (simp add: example_user_def example_machine_def)
  ultimately have "r = Inr ()"
    by (cases r) (auto simp: step_at_env example_user_fetch)
  moreover have "csr_read (h_csregisters (ms_hart ?m)) (fst (trap_registers tm)) = 0" for tm
    by (cases tm) (simp_all add: csr_read_plain example_user_def example_machine_def)
  ultimately show ?thesis
    using user_mode_confined [OF _ p _ refl, of m'] s
    by (auto simp: example_user_def example_machine_def)
qed

end
