(* ===== verification/RV_Program.thy ===== *)
theory RV_Program
  imports RV_Bus
begin

text \<open>
  Programs and their loading (\<open>program.rs\<close> and the crate \<open>kernel_loader\<close>): the byte segments of a
  program, writing into them, and the loader for executable and relocatable ELF files.

  A \<open>BTreeMap\<close> is the list of its entries in the order of the keys.  Of the crate goblin the loader
  uses the parsed file, the file range of a program header and a few constants; they are the
  parameter \<open>Goblin\<close>.  A panic is \<open>None\<close>; otherwise the value of the source's \<open>Result\<close> is returned.
\<close>

section \<open>Ordered maps\<close>

fun btree_insert :: "'k::linorder \<Rightarrow> 'v \<Rightarrow> ('k \<times> 'v) list \<Rightarrow> ('k \<times> 'v) list" where
  "btree_insert k v [] = [(k, v)]"
| "btree_insert k v (e # es) =
     (if k = fst e then (k, v) # es
      else if k < fst e then (k, v) # e # es
      else e # btree_insert k v es)"

text \<open>\<open>append\<close> moves the entries of another map into this one.\<close>

definition btree_append :: "('k::linorder \<times> 'v) list \<Rightarrow> ('k \<times> 'v) list \<Rightarrow> ('k \<times> 'v) list" where
  "btree_append m other = fold (\<lambda>(k, v) m. btree_insert k v m) other m"

section \<open>Programs\<close>

type_synonym segments = "(Address \<times> u8 list) list"

record Program =
  pr_entrypoint :: Address
  pr_segments :: segments

datatype LoadError = LE_Write Address | LE_Goblin

type_synonym 'a loaded = "(LoadError, 'a) result option"

text \<open>\<open>Vec::resize\<close>.\<close>

definition vec_resize :: "u8 list \<Rightarrow> nat \<Rightarrow> u8 \<Rightarrow> u8 list" where
  "vec_resize bs n v = take n bs @ replicate (n - length bs) v"

definition shrink_previous :: "segments \<Rightarrow> Address \<Rightarrow> segments" where
  "shrink_previous segs paddr =
     (case filter (\<lambda>(k, _). k < paddr) segs of
        [] \<Rightarrow> segs
      | before \<Rightarrow>
          (let (prev_paddr, prev_bytes) = last before in
           if unat paddr < usize_add (unat prev_paddr) (length prev_bytes)
           then btree_insert prev_paddr (vec_resize prev_bytes (unat (paddr - prev_paddr)) 0) segs
           else segs))"

text \<open>
  The loop over the following chunks; \<open>split_at\<close> panics when its index is beyond the end.
\<close>

fun split_chunks :: "Address list \<Rightarrow> Address \<Rightarrow> u8 list \<Rightarrow> segments \<Rightarrow> (Address \<times> u8 list \<times> segments) option" where
  "split_chunks [] paddr bytes new_segments = Some (paddr, bytes, new_segments)"
| "split_chunks (next_paddr # keys) paddr bytes new_segments =
     (let nonoverlapping_len = unat (next_paddr - paddr) in
      if length bytes < nonoverlapping_len then None
      else
        let nonoverlapping = take nonoverlapping_len bytes;
            overlapping = drop nonoverlapping_len bytes;
            new_segments = (if nonoverlapping \<noteq> [] then btree_insert paddr nonoverlapping new_segments
                            else new_segments)
        in split_chunks keys next_paddr overlapping new_segments)"

text \<open>\<open>range(paddr..paddr_after)\<close> panics when its bounds are out of order.\<close>

definition write_bytes :: "Program \<Rightarrow> Address \<Rightarrow> u8 list \<Rightarrow> Program loaded" where
  "write_bytes p paddr bytes =
     (if bytes = [] then Some (Inr p)
      else
        let segs = shrink_previous (pr_segments p) paddr;
            paddr_after = paddr + of_nat (length bytes)
        in if paddr_after < paddr then None
           else case split_chunks (map fst (filter (\<lambda>(k, _). paddr \<le> k \<and> k < paddr_after) segs)) paddr bytes [] of
                  None \<Rightarrow> None
                | Some (paddr, bytes, new_segments) \<Rightarrow>
                    (let segs = btree_append segs new_segments in
                     if bytes = [] then Some (Inr (p\<lparr>pr_segments := segs\<rparr>))
                     else case map_of segs paddr of
                            Some chunk \<Rightarrow>
                              if length bytes \<le> length chunk
                              then Some (Inr (p\<lparr>pr_segments :=
                                     btree_insert paddr (bytes @ drop (length bytes) chunk) segs\<rparr>))
                              else Some (Inr (p\<lparr>pr_segments := btree_insert paddr bytes segs\<rparr>))
                          | None \<Rightarrow> Some (Inr (p\<lparr>pr_segments := btree_insert paddr bytes segs\<rparr>))))"

section \<open>The loader\<close>

text \<open>What the loader uses of a parsed file.\<close>

record ProgramHeader =
  p_type :: u32
  p_offset :: u64
  p_vaddr :: u64
  p_paddr :: u64
  p_filesz :: u64
  p_memsz :: u64

record Reloc =
  r_offset :: u64
  r_addend :: "i64 option"
  r_type :: u32

record Elf =
  elf_e_type :: u16
  elf_e_entry :: u64
  elf_entry :: u64
  elf_program_headers :: "ProgramHeader list"
  elf_dynrelas :: "Reloc list"

record Goblin =
  gb_parse :: "u8 list \<Rightarrow> Elf option"
  gb_file_range :: "ProgramHeader \<Rightarrow> nat \<times> nat"
  gb_PT_LOAD :: u32
  gb_ET_EXEC :: u16
  gb_ET_DYN :: u16
  gb_R_RISCV_RELATIVE :: u32

record LoadResult =
  lr_entry :: u64
  lr_last_written :: u64

text \<open>The trait \<open>Memory\<close> is the operation \<open>write_bytes\<close> of an implementation, here \<open>write\<close>.\<close>

type_synonym 'm writer = "'m \<Rightarrow> Address \<Rightarrow> u8 list \<Rightarrow> 'm loaded"

definition set_zero :: "'m writer \<Rightarrow> 'm \<Rightarrow> Address \<Rightarrow> u64 \<Rightarrow> 'm loaded" where
  "set_zero write mem paddr len = write mem paddr (replicate (unat len) 0)"

definition bind_loaded :: "'a loaded \<Rightarrow> ('a \<Rightarrow> 'b loaded) \<Rightarrow> 'b loaded" where
  "bind_loaded r f =
     (case r of None \<Rightarrow> None | Some (Inl e) \<Rightarrow> Some (Inl e) | Some (Inr x) \<Rightarrow> f x)"

text \<open>Indexing a slice by a range.\<close>

definition slice_range :: "u8 list \<Rightarrow> nat \<times> nat \<Rightarrow> u8 list option" where
  "slice_range contents r =
     (if fst r \<le> snd r \<and> snd r \<le> length contents
      then Some (take (snd r - fst r) (drop (fst r) contents)) else None)"

text \<open>The body of the loops over the loadable segments, with the address the segment goes to.\<close>

definition load_segment ::
    "Goblin \<Rightarrow> 'm writer \<Rightarrow> u8 list \<Rightarrow> Address \<Rightarrow> ProgramHeader \<Rightarrow> 'm \<Rightarrow> 'm loaded" where
  "load_segment gb write contents dest segment mem =
     (case slice_range contents (gb_file_range gb segment) of
        None \<Rightarrow> None
      | Some bytes \<Rightarrow>
          bind_loaded (write mem dest bytes) (\<lambda>mem.
            if p_filesz segment < p_memsz segment
            then let first_zero = dest + p_filesz segment;
                     num_zeroes = p_memsz segment - p_filesz segment
                 in set_zero write mem first_zero num_zeroes
            else Some (Inr mem)))"

primrec load_segments ::
    "Goblin \<Rightarrow> 'm writer \<Rightarrow> u8 list \<Rightarrow> (ProgramHeader \<Rightarrow> Address) \<Rightarrow> ProgramHeader list \<Rightarrow> u64 \<Rightarrow> 'm \<Rightarrow>
     ('m \<times> u64) loaded" where
  "load_segments gb write contents dest [] last_written mem = Some (Inr (mem, last_written))"
| "load_segments gb write contents dest (segment # segs) last_written mem =
     bind_loaded (load_segment gb write contents (dest segment) segment mem) (\<lambda>mem.
       load_segments gb write contents dest segs (dest segment + p_memsz segment) mem)"

definition load_elf_nonreloc ::
    "Goblin \<Rightarrow> 'm writer \<Rightarrow> 'm \<Rightarrow> Elf \<Rightarrow> u8 list \<Rightarrow> (LoadResult \<times> 'm) loaded" where
  "load_elf_nonreloc gb write mem elf contents =
     (let loadable_segments = filter (\<lambda>header. p_type header = gb_PT_LOAD gb) (elf_program_headers elf)
      in bind_loaded (load_segments gb write contents p_paddr loadable_segments 0 mem) (\<lambda>(mem, last_written).
           Some (Inr (\<lparr>lr_entry = elf_entry elf, lr_last_written = last_written\<rparr>, mem))))"

definition mem_size :: "Goblin \<Rightarrow> ProgramHeader list \<Rightarrow> u64" where
  "mem_size gb phs =
     (let phs = filter (\<lambda>ph. p_type ph = gb_PT_LOAD gb) phs
      in if phs = [] then 0
         else Max (set (map (\<lambda>ph. p_vaddr ph + p_memsz ph) phs)) - Min (set (map p_vaddr phs)))"

text \<open>A relocation of an unsupported kind panics.\<close>

primrec apply_relocations ::
    "Goblin \<Rightarrow> 'm writer \<Rightarrow> u64 \<Rightarrow> Reloc list \<Rightarrow> 'm \<Rightarrow> 'm loaded" where
  "apply_relocations gb write start [] mem = Some (Inr mem)"
| "apply_relocations gb write start (r # rs) mem =
     (if r_type r = gb_R_RISCV_RELATIVE gb
      then let relocated = to_le_bytes (start + (case r_addend r of None \<Rightarrow> 0 | Some addend \<Rightarrow> addend))
           in bind_loaded (write mem (start + r_offset r) relocated) (apply_relocations gb write start rs)
      else None)"

definition load_elf_reloc ::
    "Goblin \<Rightarrow> 'm writer \<Rightarrow> 'm \<Rightarrow> u64 \<Rightarrow> Elf \<Rightarrow> u8 list \<Rightarrow> (LoadResult \<times> 'm) loaded" where
  "load_elf_reloc gb write mem start elf contents =
     (let loadable_segments = filter (\<lambda>header. p_type header = gb_PT_LOAD gb) (elf_program_headers elf)
      in bind_loaded (load_segments gb write contents (\<lambda>segment. start + p_vaddr segment)
             loadable_segments start mem) (\<lambda>(mem, last_written).
           bind_loaded (apply_relocations gb write start (elf_dynrelas elf) mem) (\<lambda>mem.
             Some (Inr (\<lparr>lr_entry = elf_e_entry elf + start, lr_last_written = last_written\<rparr>, mem)))))"

definition load_elf ::
    "Goblin \<Rightarrow> 'm writer \<Rightarrow> 'm \<Rightarrow> u64 \<Rightarrow> u8 list \<Rightarrow> (LoadResult \<times> 'm) loaded" where
  "load_elf gb write mem start contents =
     (case gb_parse gb contents of
        None \<Rightarrow> Some (Inl LE_Goblin)
      | Some elf \<Rightarrow>
          if elf_e_type elf = gb_ET_EXEC gb then load_elf_nonreloc gb write mem elf contents
          else if elf_e_type elf = gb_ET_DYN gb then load_elf_reloc gb write mem start elf contents
          else None)"

definition from_elf :: "Goblin \<Rightarrow> nat \<Rightarrow> u8 list \<Rightarrow> Program loaded" where
  "from_elf gb BYTES elf =
     (let start_if_reloc = start_of_main_memory BYTES;
          myself = \<lparr>pr_entrypoint = start_if_reloc, pr_segments = []\<rparr>
      in bind_loaded (load_elf gb write_bytes myself start_if_reloc elf) (\<lambda>(res, myself).
           Some (Inr (myself\<lparr>pr_entrypoint := lr_entry res\<rparr>))))"

definition from_raw :: "nat \<Rightarrow> u8 list \<Rightarrow> Program" where
  "from_raw BYTES code =
     (let entrypoint = start_of_main_memory BYTES
      in \<lparr>pr_entrypoint = entrypoint, pr_segments = [(entrypoint, code)]\<rparr>)"

text \<open>The implementation of \<open>Memory\<close> for a cursor over a vector: seek, then write, extending with zeros.\<close>

definition cursor_write_bytes :: "u8 list writer" where
  "cursor_write_bytes buf paddr bytes =
     (if bytes = [] then Some (Inr buf)
      else Some (Inr (take (unat paddr) buf @ replicate (unat paddr - length buf) 0 @ bytes @
                      drop (unat paddr + length bytes) buf)))"


section \<open>The bytes of a program\<close>

fun seg_view :: "segments \<Rightarrow> byte_view" where
  "seg_view [] = (\<lambda>_. None)"
| "seg_view ((k, bs) # segs) = view_write (seg_view segs) (unat k) bs"

text \<open>The invariant stated in the source: the chunks do not overlap.\<close>

fun segs_ok :: "nat \<Rightarrow> segments \<Rightarrow> bool" where
  "segs_ok lo [] \<longleftrightarrow> True"
| "segs_ok lo ((k, bs) # segs) \<longleftrightarrow>
     lo \<le> unat k \<and> bs \<noteq> [] \<and> unat k + length bs < 2 ^ 64 \<and> segs_ok (unat k + length bs) segs"

definition program_ok :: "Program \<Rightarrow> bool" where
  "program_ok p \<longleftrightarrow> segs_ok 0 (pr_segments p)"

abbreviation program_view :: "Program \<Rightarrow> byte_view" where
  "program_view p \<equiv> seg_view (pr_segments p)"

lemma segs_ok_mono: "segs_ok lo segs \<Longrightarrow> lo' \<le> lo \<Longrightarrow> segs_ok lo' segs"
  by (cases segs) auto

lemma segs_ok_keys: "segs_ok lo segs \<Longrightarrow> (k, bs) \<in> set segs \<Longrightarrow> lo \<le> unat k \<and> bs \<noteq> [] \<and> unat k + length bs < 2 ^ 64"
  by (induction lo segs rule: segs_ok.induct) fastforce+

lemma segs_ok_later:
  assumes "segs_ok lo ((k, bs) # segs)" "(k', bs') \<in> set segs"
  shows "unat k + length bs \<le> unat k'" "k < k'"
proof -
  show *: "unat k + length bs \<le> unat k'"
    using segs_ok_keys [OF _ assms(2)] assms(1) by auto
  have "0 < length bs" using assms(1) by simp
  with * show "k < k'" unfolding word_less_nat_alt by linarith
qed

lemma segs_ok_append:
  "segs_ok lo (xs @ ys) \<longleftrightarrow> segs_ok lo xs \<and> segs_ok (if xs = [] then lo else unat (fst (last xs)) + length (snd (last xs))) ys"
  by (induction lo xs rule: segs_ok.induct) auto

section \<open>Shrinking the previous chunk\<close>

lemma filter_below_empty:
  "segs_ok lo segs \<Longrightarrow> unat p \<le> lo \<Longrightarrow> filter (\<lambda>(k, _). k < p) segs = []"
  by (auto simp: filter_empty_conv word_less_nat_alt dest: segs_ok_keys)

definition cut :: "Address \<Rightarrow> Address \<times> u8 list \<Rightarrow> Address \<times> u8 list" where
  "cut p = (\<lambda>(k, c). (k, if k < p then take (unat p - unat k) c else c))"

lemma cut_id: "segs_ok lo segs \<Longrightarrow> unat p \<le> lo \<Longrightarrow> map (cut p) segs = segs"
  by (auto simp: cut_def word_less_nat_alt intro!: map_idI dest: segs_ok_keys)

lemma shrink_previous_cut: "segs_ok lo segs \<Longrightarrow> shrink_previous segs p = map (cut p) segs"
proof (induction lo segs rule: segs_ok.induct)
  case (2 lo k c segs)
  show ?case
  proof (cases "k < p")
    case False
    then have "filter (\<lambda>(k, _). k < p) ((k, c) # segs) = []"
      using segs_ok_later [OF 2(2)] by (auto simp: filter_empty_conv) force
    moreover have "map (cut p) segs = segs"
      using False 2(2) by (intro cut_id [of "unat k + length c"]) (auto simp: word_less_nat_alt)
    ultimately show ?thesis
      using False by (simp add: shrink_previous_def cut_def)
  next
    case True
    note k_later = segs_ok_later [OF 2(2)]
    show ?thesis
    proof (cases "filter (\<lambda>(k, _). k < p) segs")
      case Nil
      then have "map (cut p) segs = segs"
        by (auto simp: cut_def filter_empty_conv intro!: map_idI)
      moreover have "unat (p - k) = unat p - unat k"
        using True by (simp add: unat_sub word_less_nat_alt word_le_nat_alt)
      ultimately show ?thesis
        using True Nil 2(2) by (auto simp: shrink_previous_def cut_def vec_resize_def usize_add_small)
    next
      case (Cons e es)
      let ?l = "last (e # es)"
      have "?l \<in> set (filter (\<lambda>(k, _). k < p) segs)"
        unfolding Cons by (rule last_in_set) simp
      then have l: "?l \<in> set segs" "fst ?l < p"
        unfolding set_filter by (simp_all only: mem_Collect_eq case_prod_beta)
      then have kl: "unat k + length c \<le> unat (fst ?l)" "k < fst ?l"
        using k_later [of "fst ?l" "snd ?l"] by simp_all
      have "cut p (k, c) = (k, c)"
        using True kl l(2) by (simp add: cut_def word_less_nat_alt)
      moreover have "shrink_previous ((k, c) # segs) p = (k, c) # shrink_previous segs p"
        using True Cons kl by (cases ?l) (auto simp: shrink_previous_def last_ConsR simp del: last.simps)
      ultimately show ?thesis
        using 2 by simp
    qed
  qed
qed (simp add: shrink_previous_def)


section \<open>Placing the bytes\<close>

lemma btree_insert_last: "\<forall>(q, _) \<in> set N. q < p \<Longrightarrow> btree_insert p v N = N @ [(p, v)]"
  by (induction N) (auto simp: case_prod_beta)

lemma btree_insert_skip:
  "\<forall>(q, _) \<in> set xs. q < p \<Longrightarrow> btree_insert p v (xs @ ys) = xs @ btree_insert p v ys"
  by (induction xs) (auto simp: case_prod_beta)

lemma btree_append_skip:
  "\<forall>(q, _) \<in> set xs. \<forall>(p, _) \<in> set N. q < p \<Longrightarrow> btree_append (xs @ ys) N = xs @ btree_append ys N"
proof (induction N arbitrary: ys)
  case (Cons e N)
  then show ?case
    by (cases e) (auto simp: btree_append_def btree_insert_skip case_prod_beta)
qed (simp add: btree_append_def)

lemma map_of_skip: "\<forall>(q, _) \<in> set xs. q < (p :: 'k::linorder) \<Longrightarrow> (map_of ys ++ map_of xs) p = map_of ys p"
  by (induction xs) auto

text \<open>The last step of a write: the remaining bytes go to one address.\<close>

definition commit :: "segments \<Rightarrow> Address \<Rightarrow> u8 list \<Rightarrow> segments" where
  "commit segs p bs =
     btree_insert p (bs @ drop (length bs) (case map_of segs p of None \<Rightarrow> [] | Some chunk \<Rightarrow> chunk)) segs"

lemma commit_skip: "\<forall>(q, _) \<in> set xs. q < p \<Longrightarrow> commit (xs @ ys) p bs = xs @ commit ys p bs"
  by (simp add: commit_def map_of_skip btree_insert_skip)

text \<open>The new chunks where the bytes meet the chunk \<open>c\<close> at \<open>k\<close> and the chunks after it.\<close>

fun place_at :: "Address \<Rightarrow> u8 list \<Rightarrow> u8 list \<Rightarrow> segments \<Rightarrow> segments" where
  "place_at k c bs [] = [(k, bs @ drop (length bs) c)]"
| "place_at k c bs ((k2, c2) # mid) =
     (k, take (unat k2 - unat k) bs) # place_at k2 c2 (drop (unat k2 - unat k) bs) mid"

fun place :: "Address \<Rightarrow> u8 list \<Rightarrow> segments \<Rightarrow> segments" where
  "place p bs [] = [(p, bs)]"
| "place p bs ((k, c) # mid) =
     (if p = k then place_at k c bs mid
      else (p, take (unat k - unat p) bs) # place_at k c (drop (unat k - unat p) bs) mid)"

lemma split_place_at:
  assumes "segs_ok (unat k + length c) (mid @ post)" "c \<noteq> []" "bs \<noteq> []"
    and "\<forall>(q, _) \<in> set mid. unat q < unat k + length bs" "\<forall>(q, _) \<in> set N. q < k"
  shows "\<exists>p' bs' N'. split_chunks (map fst mid) k bs N = Some (p', bs', N @ N') \<and> bs' \<noteq> [] \<and> k \<le> p' \<and>
           (\<forall>(q, _) \<in> set N'. k \<le> q) \<and>
           commit (btree_append ((k, c) # mid @ post) N') p' bs' = place_at k c bs mid @ post"
  using assms
proof (induction mid arbitrary: k c bs N)
  case Nil
  then show ?case by (intro exI [of _ k] exI [of _ bs] exI [of _ "[]"]) (simp add: btree_append_def commit_def)
next
  case (Cons e mid)
  obtain k2 c2 where e: "e = (k2, c2)" by force
  let ?n = "unat k2 - unat k"
  have k2: "unat k + length c \<le> unat k2" "c2 \<noteq> []" and ok: "segs_ok (unat k2 + length c2) (mid @ post)"
    using Cons(2) by (auto simp: e)
  have "0 < length c" using Cons(3) by simp
  with k2(1) have lt: "unat k < unat k2" "k < k2" unfolding word_less_nat_alt by linarith+
  have n: "unat (k2 - k) = ?n"
    using lt by (simp add: unat_sub word_le_nat_alt)
  have len: "?n < length bs" using Cons(5) lt by (auto simp: e)
  define bs2 where "bs2 = drop ?n bs"
  have bs: "take ?n bs \<noteq> []" "bs2 \<noteq> []" using len lt by (auto simp: bs2_def)
  let ?N = "N @ [(k, take ?n bs)]"
  have ins: "btree_insert k (take ?n bs) N = ?N"
    using Cons(6) by (rule btree_insert_last)
  have "\<forall>(q, _) \<in> set mid. unat q < unat k2 + length bs2" "\<forall>(q, _) \<in> set ?N. q < k2"
    using Cons(5,6) len lt by (fastforce simp: bs2_def)+
  from Cons(1) [OF ok k2(2) bs(2) this] obtain p' bs' N' where IH:
    "split_chunks (map fst mid) k2 bs2 ?N = Some (p', bs', ?N @ N')" "bs' \<noteq> []" "k2 \<le> p'"
    "\<forall>(q, _) \<in> set N'. k2 \<le> q"
    "commit (btree_append ((k2, c2) # mid @ post) N') p' bs' = place_at k2 c2 bs2 mid @ post"
    by blast
  have "btree_append ((k, c) # (k2, c2) # mid @ post) ((k, take ?n bs) # N') =
      (k, take ?n bs) # btree_append ((k2, c2) # mid @ post) N'"
    using btree_append_skip [of "[(k, take ?n bs)]" N' "(k2, c2) # mid @ post"] IH(4) lt(2)
    by (fastforce simp: btree_append_def)
  then have "commit (btree_append ((k, c) # (k2, c2) # mid @ post) ((k, take ?n bs) # N')) p' bs' =
      (k, take ?n bs) # place_at k2 c2 bs2 mid @ post"
    using commit_skip [of "[(k, take ?n bs)]" p'] IH(3,5) lt(2) by simp
  with IH lt n len ins bs show ?case
    by (intro exI [of _ p'] exI [of _ bs'] exI [of _ "(k, take ?n bs) # N'"])
       (auto simp: e bs2_def Let_def)
qed


lemma commit_front: "\<forall>(k, _) \<in> set segs. p < k \<Longrightarrow> commit segs p bs = (p, bs) # segs"
proof -
  assume "\<forall>(k, _) \<in> set segs. p < k"
  then have "map_of segs p = None" by (auto simp: map_of_eq_None_iff)
  with \<open>\<forall>(k, _) \<in> set segs. p < k\<close> show ?thesis by (cases segs) (auto simp: commit_def)
qed

lemma split_place:
  assumes "segs_ok (unat p) (mid @ post)" "bs \<noteq> []"
    and "\<forall>(q, _) \<in> set mid. unat q < unat p + length bs" "\<forall>(k, _) \<in> set post. p < k"
  shows "\<exists>p' bs' N'. split_chunks (map fst mid) p bs [] = Some (p', bs', N') \<and> bs' \<noteq> [] \<and> p \<le> p' \<and>
           (\<forall>(q, _) \<in> set N'. p \<le> q) \<and> commit (btree_append (mid @ post) N') p' bs' = place p bs mid @ post"
proof (cases mid)
  case Nil
  then show ?thesis using assms by (simp add: btree_append_def commit_front)
next
  case (Cons e m)
  obtain k c where e: "e = (k, c)" by force
  have k: "unat p \<le> unat k" "c \<noteq> []" "segs_ok (unat k + length c) (m @ post)"
    using assms(1) by (auto simp: Cons e)
  show ?thesis
  proof (cases "p = k")
    case True
    have "\<forall>(q, _) \<in> set m. unat q < unat k + length bs"
      using assms(3) by (simp add: Cons True)
    from split_place_at [OF k(3,2) assms(2) this, of "[]"] show ?thesis
      using True by (simp add: Cons e Let_def)
  next
    case False
    let ?n = "unat k - unat p"
    have lt: "unat p < unat k" "p < k"
      using False k(1) by (auto simp: word_less_nat_alt le_less word_unat_eq_iff)
    have n: "unat (k - p) = ?n" using lt by (simp add: unat_sub word_le_nat_alt)
    have len: "?n < length bs" using assms(3) lt by (auto simp: Cons e)
    define bs2 where "bs2 = drop ?n bs"
    have bs: "take ?n bs \<noteq> []" "bs2 \<noteq> []" using len lt by (auto simp: bs2_def)
    have "\<forall>(q, _) \<in> set m. unat q < unat k + length bs2" "\<forall>(q, _) \<in> set [(p, take ?n bs)]. q < k"
      using assms(3) len lt by (auto simp: bs2_def Cons)
    from split_place_at [OF k(3,2) bs(2) this] obtain p' bs' N' where IH:
      "split_chunks (map fst m) k bs2 [(p, take ?n bs)] = Some (p', bs', (p, take ?n bs) # N')" "bs' \<noteq> []" "k \<le> p'"
      "\<forall>(q, _) \<in> set N'. k \<le> q" "commit (btree_append ((k, c) # m @ post) N') p' bs' = place_at k c bs2 m @ post"
      by auto
    have "btree_append ((k, c) # m @ post) ((p, take ?n bs) # N') = (p, take ?n bs) # btree_append ((k, c) # m @ post) N'"
      using btree_append_skip [of "[(p, take ?n bs)]" N' "(k, c) # m @ post"] IH(4) lt(2)
      by (fastforce simp: btree_append_def)
    then have "commit (btree_append ((k, c) # m @ post) ((p, take ?n bs) # N')) p' bs' =
        (p, take ?n bs) # place_at k c bs2 m @ post"
      using commit_skip [of "[(p, take ?n bs)]" p'] IH(3,5) lt(2) by simp
    with IH lt n len bs show ?thesis
      by (auto simp: Cons e bs2_def Let_def)
  qed
qed

lemma segs_ok_from: "segs_ok 0 segs \<Longrightarrow> \<forall>(k, _) \<in> set segs. lo \<le> unat k \<Longrightarrow> segs_ok lo segs"
  by (cases segs) auto

lemma segs_split:
  assumes "segs_ok lo segs" "p \<le> q"
  shows "segs = filter (\<lambda>(k, _). k < p) segs @ filter (\<lambda>(k, _). p \<le> k \<and> k < q) segs @
                filter (\<lambda>(k, _). q \<le> k) segs"
  using assms(1)
proof (induction lo segs rule: segs_ok.induct)
  case (2 lo k c segs)
  have later: "\<And>k' c'. (k', c') \<in> set segs \<Longrightarrow> k < k'" by (rule segs_ok_later [OF 2(2)])
  have empty: "filter (\<lambda>(k, _). k < r) segs = []" if "r \<le> k" for r
    using later that by (fastforce simp: filter_empty_conv)
  consider "k < p" | "p \<le> k" "k < q" | "q \<le> k" by force
  then show ?case
  proof cases
    case 1
    then show ?thesis using 2 assms(2) by auto
  next
    case 2
    then show ?thesis using "2.IH" "2.prems" empty [of p] by auto
  next
    case 3
    moreover from this have "filter (\<lambda>(k, _). p \<le> k \<and> k < q) segs = []"
      using later by (fastforce simp: filter_empty_conv)
    ultimately show ?thesis using "2.IH" "2.prems" empty [of p] assms(2) by auto
  qed
qed simp

lemma filter_cut:
  "filter (\<lambda>(k, _). P k) (map (cut p) segs) = map (cut p) (filter (\<lambda>(k, _). P k) segs)"
  by (induction segs) (auto simp: cut_def)

lemma fst_cut [simp]: "fst (cut p e) = fst e"
  by (simp add: cut_def case_prod_beta)

lemma cut_above: "\<forall>(k, _) \<in> set segs. p \<le> k \<Longrightarrow> map (cut p) segs = segs"
  by (rule map_idI) (fastforce simp: cut_def)

definition before :: "Program \<Rightarrow> Address \<Rightarrow> segments" where
  "before p paddr = filter (\<lambda>(k, _). k < paddr) (pr_segments p)"

definition within :: "Program \<Rightarrow> Address \<Rightarrow> nat \<Rightarrow> segments" where
  "within p paddr n = filter (\<lambda>(k, _). paddr \<le> k \<and> k < paddr + of_nat n) (pr_segments p)"

definition after :: "Program \<Rightarrow> Address \<Rightarrow> nat \<Rightarrow> segments" where
  "after p paddr n = filter (\<lambda>(k, _). paddr + of_nat n \<le> k) (pr_segments p)"

lemma write_parts:
  assumes "program_ok p" "unat paddr + n < 2 ^ 64"
  shows "pr_segments p = before p paddr @ within p paddr n @ after p paddr n"
    and "segs_ok (unat paddr) (within p paddr n @ after p paddr n)"
    and "\<forall>(k, _) \<in> set (within p paddr n). unat k < unat paddr + n"
    and "\<forall>(k, _) \<in> set (after p paddr n). unat paddr + n \<le> unat k"
    and "\<forall>(k, _) \<in> set (before p paddr). k < paddr"
    and "paddr \<le> paddr + of_nat n"
proof -
  let ?q = "paddr + of_nat n" and ?mid = "within p paddr n" and ?post = "after p paddr n"
  have q: "unat ?q = unat paddr + n" using assms(2) by (rule unat_add_of_nat)
  then show le: "paddr \<le> ?q" by (simp add: word_le_nat_alt)
  have ok: "segs_ok 0 (pr_segments p)" using assms(1) by (simp add: program_ok_def)
  show split: "pr_segments p = before p paddr @ ?mid @ ?post"
    unfolding before_def within_def after_def by (rule segs_split [OF ok le])
  have "segs_ok 0 (?mid @ ?post)"
    using ok unfolding split segs_ok_append by (auto split: if_splits intro: segs_ok_mono)
  moreover have "\<forall>(k, _) \<in> set (?mid @ ?post). paddr \<le> k"
    using order_trans [OF le] by (auto simp: within_def after_def)
  ultimately show "segs_ok (unat paddr) (?mid @ ?post)"
    unfolding word_le_nat_alt by (rule segs_ok_from)
  show "\<forall>(k, _) \<in> set ?mid. unat k < unat paddr + n" "\<forall>(k, _) \<in> set ?post. unat paddr + n \<le> unat k"
    unfolding q [symmetric] word_less_nat_alt [symmetric] word_le_nat_alt [symmetric]
    by (auto simp: within_def after_def)
  show "\<forall>(k, _) \<in> set (before p paddr). k < paddr" by (auto simp: before_def)
qed

lemma write_bytes_place:
  assumes "program_ok p" "bytes \<noteq> []" "unat paddr + length bytes < 2 ^ 64"
  shows "write_bytes p paddr bytes = Some (Inr (p\<lparr>pr_segments :=
    map (cut paddr) (before p paddr) @ place paddr bytes (within p paddr (length bytes)) @
    after p paddr (length bytes)\<rparr>))"
proof -
  let ?segs = "pr_segments p" and ?n = "length bytes"
  let ?q = "paddr + of_nat ?n" and ?xs = "map (cut paddr) (before p paddr)"
  let ?mid = "within p paddr ?n" and ?post = "after p paddr ?n"
  note parts = write_parts [OF assms(1,3)]
  have ok: "segs_ok 0 ?segs" using assms(1) by (simp add: program_ok_def)
  have above: "map (cut paddr) ?mid = ?mid" "map (cut paddr) ?post = ?post"
    using parts(6) by (auto simp: within_def after_def intro!: cut_above)
  define S where "S = ?xs @ ?mid @ ?post"
  have shrunk: "shrink_previous ?segs paddr = S"
    unfolding shrink_previous_cut [OF ok] S_def by (subst parts(1)) (simp add: above)
  have keys: "map fst (filter (\<lambda>(k, _). paddr \<le> k \<and> k < ?q) S) = map fst ?mid"
    unfolding shrunk [symmetric] shrink_previous_cut [OF ok] filter_cut
    by (simp add: within_def comp_def)
  have xs: "\<forall>(q, _) \<in> set ?xs. q < paddr"
    by (auto simp: before_def cut_def)
  have post_keys: "\<forall>(k, _) \<in> set ?post. paddr < k"
  proof clarify
    fix k c assume "(k, c) \<in> set ?post"
    then have "unat paddr + ?n \<le> unat k" using parts(4) by auto
    moreover have "0 < ?n" using assms(2) by simp
    ultimately show "paddr < k" unfolding word_less_nat_alt by linarith
  qed
  obtain p' bs' N' where *: "split_chunks (map fst ?mid) paddr bytes [] = Some (p', bs', N')" "bs' \<noteq> []"
      "paddr \<le> p'" "\<forall>(q, _) \<in> set N'. paddr \<le> q"
      "commit (btree_append (?mid @ ?post) N') p' bs' = place paddr bytes ?mid @ ?post"
    using split_place [OF parts(2) assms(2) parts(3) post_keys] by blast
  have app: "btree_append S N' = ?xs @ btree_append (?mid @ ?post) N'"
    unfolding S_def using xs *(4) by (intro btree_append_skip) fastforce
  have "commit (btree_append S N') p' bs' = ?xs @ place paddr bytes ?mid @ ?post"
    unfolding app using xs *(3,5) by (subst commit_skip) fastforce+
  moreover have "write_bytes p paddr bytes = Some (Inr (p\<lparr>pr_segments := commit (btree_append S N') p' bs'\<rparr>))"
    using assms(2) parts(6) *(1,2)
    by (auto simp: write_bytes_def shrunk keys commit_def not_less Let_def split: option.split)
  ultimately show ?thesis by simp
qed


section \<open>The effect of a write\<close>

lemma seg_view_append: "seg_view (xs @ ys) = seg_view ys ++ seg_view xs"
proof (induction xs rule: seg_view.induct)
  case (2 k bs segs)
  then show ?case by (auto simp: view_write_def map_add_def fun_eq_iff)
qed simp

lemma seg_view_below: "segs_ok lo segs \<Longrightarrow> a < lo \<Longrightarrow> seg_view segs a = None"
  by (induction lo segs rule: segs_ok.induct) (auto simp: view_write_def)

lemma seg_view_Some: "seg_view segs a = Some b \<Longrightarrow> \<exists>(k, c) \<in> set segs. unat k \<le> a \<and> a < unat k + length c"
  by (induction segs rule: seg_view.induct) (auto simp: view_write_def split: if_splits)

lemma seg_view_end:
  "segs_ok lo (xs @ ys) \<Longrightarrow> (k, c) \<in> set xs \<Longrightarrow> a < unat k + length c \<Longrightarrow> seg_view ys a = None"
proof (induction lo xs rule: segs_ok.induct)
  case (2 lo k' c' xs)
  have "segs_ok (unat k' + length c') (xs @ ys)" using 2(2) by simp
  moreover from this have "a < unat k' + length c' \<Longrightarrow> seg_view ys a = None"
    using seg_view_below [of _ "xs @ ys" a] by (auto simp: seg_view_append map_add_None)
  ultimately show ?case using 2 by auto
qed simp

lemma place_at_view:
  assumes "segs_ok (unat k) ((k, c) # mid)" "bs \<noteq> []" "\<forall>(q, _) \<in> set mid. unat q < unat k + length bs"
  shows "seg_view (place_at k c bs mid) = view_write (seg_view ((k, c) # mid)) (unat k) bs"
  using assms
proof (induction mid arbitrary: k c bs)
  case Nil
  then show ?case by (auto simp: view_write_def fun_eq_iff nth_append)
next
  case (Cons e mid)
  obtain k2 c2 where e: "e = (k2, c2)" by force
  let ?n = "unat k2 - unat k"
  have k2: "unat k + length c \<le> unat k2" "segs_ok (unat k2) ((k2, c2) # mid)" "unat k2 < unat k + length bs"
    using Cons(2,4) by (auto simp: e)
  then have IH: "seg_view (place_at k2 c2 (drop ?n bs) mid) =
      view_write (seg_view ((k2, c2) # mid)) (unat k2) (drop ?n bs)"
    using Cons(4) by (intro Cons(1)) (auto simp: e)
  show ?case
    using k2 by (auto simp: e IH view_write_def fun_eq_iff)
qed

lemma place_view:
  assumes "segs_ok (unat p) mid" "bs \<noteq> []" "\<forall>(q, _) \<in> set mid. unat q < unat p + length bs"
  shows "seg_view (place p bs mid) = view_write (seg_view mid) (unat p) bs"
proof (cases mid)
  case (Cons e m)
  obtain k c where e: "e = (k, c)" by force
  have k: "segs_ok (unat k) ((k, c) # m)" "unat p \<le> unat k" "unat k < unat p + length bs"
    using assms(1,3) by (auto simp: Cons e)
  show ?thesis
  proof (cases "p = k")
    case True
    then show ?thesis using place_at_view [OF k(1) assms(2)] assms(3) by (auto simp: Cons e)
  next
    case False
    then have lt: "unat p < unat k" using k(2) by (auto simp: le_less word_unat_eq_iff)
    have "seg_view (place_at k c (drop (unat k - unat p) bs) m) =
        view_write (seg_view ((k, c) # m)) (unat k) (drop (unat k - unat p) bs)"
      using k(3) lt assms(3) by (intro place_at_view [OF k(1)]) (auto simp: Cons e)
    then show ?thesis
      using False lt k by (auto simp: Cons e view_write_def fun_eq_iff)
  qed
qed simp

lemma place_at_ok:
  assumes "segs_ok (unat k) ((k, c) # mid @ post)" "bs \<noteq> []" "\<forall>(q, _) \<in> set mid. unat q < unat k + length bs"
    and "unat k + length bs < 2 ^ 64" "\<forall>(q, _) \<in> set post. unat k + length bs \<le> unat q"
  shows "segs_ok (unat k) (place_at k c bs mid @ post)"
  using assms
proof (induction mid arbitrary: k c bs)
  case Nil
  then show ?case by (cases post) auto
next
  case (Cons e mid)
  obtain k2 c2 where e: "e = (k2, c2)" by force
  let ?n = "unat k2 - unat k"
  have "0 < length c" using Cons(2) by simp
  moreover have "unat k + length c \<le> unat k2" using Cons(2) by (simp add: e)
  ultimately have k_lt: "unat k < unat k2" by linarith
  have k2: "segs_ok (unat k2) ((k2, c2) # mid @ post)" "unat k2 < unat k + length bs"
    using Cons(2,4) by (auto simp: e)
  with k_lt have "segs_ok (unat k2) (place_at k2 c2 (drop ?n bs) mid @ post)"
    using Cons(4,5,6) by (intro Cons(1)) (auto simp: e)
  then show ?case using k2 k_lt Cons(3,5) by (simp add: e)
qed

lemma place_ok:
  assumes "segs_ok (unat p) (mid @ post)" "bs \<noteq> []" "\<forall>(q, _) \<in> set mid. unat q < unat p + length bs"
    and "unat p + length bs < 2 ^ 64" "\<forall>(q, _) \<in> set post. unat p + length bs \<le> unat q"
  shows "segs_ok (unat p) (place p bs mid @ post)"
proof (cases mid)
  case Nil
  then show ?thesis using assms by (cases post) auto
next
  case (Cons e m)
  obtain k c where e: "e = (k, c)" by force
  have k: "segs_ok (unat k) ((k, c) # m @ post)" "unat p \<le> unat k" "unat k < unat p + length bs"
    using assms(1,3) by (auto simp: Cons e)
  show ?thesis
  proof (cases "p = k")
    case True
    then show ?thesis using place_at_ok [OF k(1) assms(2)] assms(3-) by (auto simp: Cons e)
  next
    case False
    then have lt: "unat p < unat k" using k(2) by (auto simp: le_less word_unat_eq_iff)
    have "segs_ok (unat k) (place_at k c (drop (unat k - unat p) bs) m @ post)"
      using k(3) lt assms(3-) by (intro place_at_ok [OF k(1)]) (auto simp: Cons e)
    then show ?thesis
      using False lt k assms(2) by (simp add: Cons e)
  qed
qed

lemma cut_segs:
  assumes "segs_ok lo xs" "\<forall>(k, _) \<in> set xs. k < p"
  shows "seg_view (map (cut p) xs) a = (if a < unat p then seg_view xs a else None)"
    and "segs_ok lo (map (cut p) xs)"
  using assms
proof (induction lo xs rule: segs_ok.induct)
  case (2 lo k c xs)
  { case 1
    then show ?case using 2(1) by (auto simp: cut_def view_write_def word_less_nat_alt) }
  { case 2
    then show ?case using "2.IH"(2) by (auto simp: cut_def word_less_nat_alt intro: segs_ok_mono) }
qed simp_all


lemma cut_end:
  "\<forall>(k, _) \<in> set xs. k < p \<Longrightarrow> xs \<noteq> [] \<Longrightarrow>
   unat (fst (cut p (last xs))) + length (snd (cut p (last xs))) \<le> unat p"
  using last_in_set [of xs] by (fastforce simp: cut_def word_less_nat_alt)

text \<open>The bytes of a preceding chunk that a write cuts off beyond its end.\<close>

definition lost :: "Program \<Rightarrow> Address \<Rightarrow> nat \<Rightarrow> nat \<Rightarrow> bool" where
  "lost p paddr n a \<longleftrightarrow> 0 < n \<and> unat paddr + n \<le> a \<and>
     (\<exists>(k, c) \<in> set (pr_segments p). k < paddr \<and> a < unat k + length c)"

lemma write_bytes_effect:
  assumes "program_ok p" "unat paddr + length bytes < 2 ^ 64"
  shows "\<exists>p'. write_bytes p paddr bytes = Some (Inr p') \<and> program_ok p' \<and> pr_entrypoint p' = pr_entrypoint p \<and>
    program_view p' = (\<lambda>a. if lost p paddr (length bytes) a then None
                           else view_write (program_view p) (unat paddr) bytes a)"
proof (cases "bytes = []")
  case True
  then show ?thesis using assms(1) by (auto simp: write_bytes_def lost_def view_write_def fun_eq_iff)
next
  case False
  let ?n = "length bytes" and ?pre = "before p paddr"
  let ?mid = "within p paddr ?n" and ?post = "after p paddr ?n"
  note parts = write_parts [OF assms]
  define p' where "p' = p\<lparr>pr_segments := map (cut paddr) ?pre @ place paddr bytes ?mid @ ?post\<rparr>"
  have okp: "segs_ok 0 (?pre @ ?mid @ ?post)"
    using assms(1) parts(1) by (simp add: program_ok_def)
  then have pre: "segs_ok 0 ?pre" and mid: "segs_ok (unat paddr) ?mid"
    using parts(2) by (simp_all add: segs_ok_append)
  note cutv = cut_segs [OF pre parts(5)]
  have "segs_ok (unat paddr) (place paddr bytes ?mid @ ?post)"
    by (rule place_ok [OF parts(2) False parts(3) assms(2) parts(4)])
  then have "segs_ok 0 (map (cut paddr) ?pre @ place paddr bytes ?mid @ ?post)"
    using cutv(2) cut_end [OF parts(5)] by (auto simp: segs_ok_append last_map intro: segs_ok_mono)
  moreover have "program_view p' a = (if lost p paddr ?n a then None
      else view_write (program_view p) (unat paddr) bytes a)" for a
  proof -
    have old: "program_view p a = (seg_view (?mid @ ?post) ++ seg_view ?pre) a"
      by (subst parts(1)) (simp only: seg_view_append)
    have new: "program_view p' a = ((seg_view ?post ++ seg_view (place paddr bytes ?mid)) ++ seg_view (map (cut paddr) ?pre)) a"
      by (simp add: p'_def seg_view_append)
    have pl: "seg_view (place paddr bytes ?mid) = view_write (seg_view ?mid) (unat paddr) bytes"
      by (rule place_view [OF mid False parts(3)])
    have lost: "lost p paddr ?n a \<longleftrightarrow> unat paddr + ?n \<le> a \<and> (\<exists>(k, c) \<in> set ?pre. a < unat k + length c)"
      using False by (auto simp: lost_def before_def)
    consider "a < unat paddr" | "unat paddr \<le> a" "a < unat paddr + ?n" | "unat paddr + ?n \<le> a" by linarith
    then show ?thesis
    proof cases
      case 1
      then have "seg_view (?mid @ ?post) a = None" by (rule seg_view_below [OF parts(2)])
      then show ?thesis
        using 1 by (auto simp: old new pl cutv lost view_write_def seg_view_append map_add_def split: option.splits)
    next
      case 2
      then show ?thesis by (simp add: new pl cutv lost view_write_def map_add_def)
    next
      case 3
      have "(\<exists>(k, c) \<in> set ?pre. a < unat k + length c) \<Longrightarrow> seg_view (?mid @ ?post) a = None"
        using seg_view_end [OF okp] by auto
      moreover have "\<not> (\<exists>(k, c) \<in> set ?pre. a < unat k + length c) \<Longrightarrow> seg_view ?pre a = None"
        using seg_view_Some [of ?pre a] by (cases "seg_view ?pre a") auto
      ultimately show ?thesis
        using 3 by (auto simp: old new pl cutv lost view_write_def seg_view_append map_add_def split: option.splits)
    qed
  qed
  ultimately show ?thesis
    using write_bytes_place [OF assms(1) False assms(2)] by (auto simp: p'_def program_ok_def)
qed




section \<open>Loading into two memories\<close>

text \<open>Two runs of the loader have the same outcome, up to a relation of the values.\<close>

definition rel_loaded :: "('a \<Rightarrow> 'b \<Rightarrow> bool) \<Rightarrow> 'a loaded \<Rightarrow> 'b loaded \<Rightarrow> bool" where
  "rel_loaded R = rel_option (rel_sum (=) R)"

lemma rel_loaded_simps [simp]:
  "rel_loaded R None None" "rel_loaded R (Some (Inl e)) (Some (Inl e))"
  "rel_loaded R (Some (Inr x)) (Some (Inr y)) \<longleftrightarrow> R x y"
  by (simp_all add: rel_loaded_def)

lemma rel_loaded_bind:
  assumes "rel_loaded R r1 r2" "\<And>x y. R x y \<Longrightarrow> rel_loaded S (f x) (g y)"
  shows "rel_loaded S (bind_loaded r1 f) (bind_loaded r2 g)"
proof -
  consider "r1 = None" "r2 = None" | e where "r1 = Some (Inl e)" "r2 = Some (Inl e)"
    | x y where "r1 = Some (Inr x)" "r2 = Some (Inr y)" "R x y"
    using assms(1) by (auto simp: rel_loaded_def elim!: option.rel_cases rel_sum.cases)
  then show ?thesis
    using assms(2) by cases (simp_all add: bind_loaded_def)
qed

text \<open>The ranges a file asks to write stay within the address space.\<close>

definition segment_fits :: "Goblin \<Rightarrow> u8 list \<Rightarrow> Address \<Rightarrow> ProgramHeader \<Rightarrow> bool" where
  "segment_fits gb contents dest s \<longleftrightarrow>
     (let r = gb_file_range gb s in unat dest + (snd r - fst r) < 2 ^ 64) \<and>
     unat (dest + p_filesz s) + unat (p_memsz s - p_filesz s) < 2 ^ 64"

definition elf_fits :: "Goblin \<Rightarrow> u64 \<Rightarrow> u8 list \<Rightarrow> Elf \<Rightarrow> bool" where
  "elf_fits gb start contents elf \<longleftrightarrow>
     (let phs = filter (\<lambda>h. p_type h = gb_PT_LOAD gb) (elf_program_headers elf) in
      if elf_e_type elf = gb_ET_EXEC gb then list_all (\<lambda>s. segment_fits gb contents (p_paddr s) s) phs
      else list_all (\<lambda>s. segment_fits gb contents (start + p_vaddr s) s) phs \<and>
           list_all (\<lambda>r. unat (start + r_offset r) + 8 < 2 ^ 64) (elf_dynrelas elf))"

text \<open>
  Two implementations of the trait \<open>Memory\<close> such that what the first one holds is held by the second one
  too, and writes keep this.
\<close>

locale memory_pair =
  fixes write1 :: "'m writer" and ok1 :: "'m \<Rightarrow> bool" and view1 :: "'m \<Rightarrow> byte_view"
    and write2 :: "'n writer" and view2 :: "'n \<Rightarrow> byte_view"
  assumes write_agree:
    "ok1 m \<Longrightarrow> view1 m \<subseteq>\<^sub>m view2 n \<Longrightarrow> unat a + length bs < 2 ^ 64 \<Longrightarrow>
     rel_loaded (\<lambda>m n. ok1 m \<and> view1 m \<subseteq>\<^sub>m view2 n) (write1 m a bs) (write2 n a bs)"
begin

abbreviation agree :: "'m \<Rightarrow> 'n \<Rightarrow> bool" where
  "agree m n \<equiv> ok1 m \<and> view1 m \<subseteq>\<^sub>m view2 n"

lemma load_segment_agree:
  assumes "agree m n" "segment_fits gb contents dest s"
  shows "rel_loaded agree (load_segment gb write1 contents dest s m) (load_segment gb write2 contents dest s n)"
proof (cases "slice_range contents (gb_file_range gb s)")
  case (Some bytes)
  then have "unat dest + length bytes < 2 ^ 64"
    using assms(2) by (auto simp: segment_fits_def slice_range_def Let_def split: if_splits)
  then have "rel_loaded agree (write1 m dest bytes) (write2 n dest bytes)"
    using assms(1) by (intro write_agree) auto
  then show ?thesis
    unfolding load_segment_def Some option.case
    by (rule rel_loaded_bind) (use assms(2) in \<open>auto simp: set_zero_def segment_fits_def Let_def intro!: write_agree\<close>)
qed (simp add: load_segment_def)

lemma load_segments_agree:
  assumes "agree m n" "list_all (\<lambda>s. segment_fits gb contents (dest s) s) segs"
  shows "rel_loaded (\<lambda>(m, l1) (n, l2). agree m n \<and> l1 = l2)
    (load_segments gb write1 contents dest segs l m) (load_segments gb write2 contents dest segs l n)"
  using assms
proof (induction segs arbitrary: l m n)
  case (Cons s segs)
  then show ?case
    by (auto intro!: rel_loaded_bind [OF load_segment_agree])
qed simp

lemma apply_relocations_agree:
  assumes "agree m n" "list_all (\<lambda>r. unat (start + r_offset r) + 8 < 2 ^ 64) rs"
  shows "rel_loaded agree (apply_relocations gb write1 start rs m) (apply_relocations gb write2 start rs n)"
  using assms
proof (induction rs arbitrary: m n)
  case (Cons r rs)
  have "rel_loaded agree (write1 m (start + r_offset r) (to_le_bytes w)) (write2 n (start + r_offset r) (to_le_bytes w))"
    for w :: u64
    using Cons(2,3) by (intro write_agree) auto
  then show ?case
    using Cons by (auto intro!: rel_loaded_bind)
qed simp

lemma load_elf_agree:
  assumes "agree m n" "\<And>elf. gb_parse gb contents = Some elf \<Longrightarrow> elf_fits gb start contents elf"
  shows "rel_loaded (\<lambda>(r1, m) (r2, n). r1 = r2 \<and> agree m n)
    (load_elf gb write1 m start contents) (load_elf gb write2 n start contents)"
proof (cases "gb_parse gb contents")
  case (Some elf)
  then show ?thesis
    using assms unfolding load_elf_def load_elf_nonreloc_def load_elf_reloc_def elf_fits_def Let_def
    by (auto simp: Some intro!: rel_loaded_bind [OF load_segments_agree] rel_loaded_bind [OF apply_relocations_agree]
        split: if_splits)
qed (simp add: load_elf_def)

end

definition cursor_view :: "u8 list \<Rightarrow> byte_view" where
  "cursor_view buf a = (if a < length buf then Some (buf ! a) else None)"

lemma cursor_write_view:
  assumes "cursor_write_bytes buf paddr bytes = Some (Inr buf')"
  shows "view_write (cursor_view buf) (unat paddr) bytes \<subseteq>\<^sub>m cursor_view buf'"
  using assms
  by (auto simp: cursor_write_bytes_def cursor_view_def view_write_def map_le_def nth_append min_def
      split: if_splits)

interpretation program_cursor: memory_pair write_bytes program_ok program_view cursor_write_bytes cursor_view
proof
  fix p buf and a :: Address and bs :: "u8 list"
  assume ok: "program_ok p" and le: "program_view p \<subseteq>\<^sub>m cursor_view buf" and fits: "unat a + length bs < 2 ^ 64"
  obtain buf' where buf: "cursor_write_bytes buf a bs = Some (Inr buf')"
    by (cases "bs = []") (auto simp: cursor_write_bytes_def)
  have "view_write (program_view p) (unat a) bs \<subseteq>\<^sub>m view_write (cursor_view buf) (unat a) bs"
    using le by (auto simp: map_le_def view_write_def dom_def)
  also have "\<dots> \<subseteq>\<^sub>m cursor_view buf'" by (rule cursor_write_view [OF buf])
  finally have le': "view_write (program_view p) (unat a) bs \<subseteq>\<^sub>m cursor_view buf'" .
  obtain p' where p': "write_bytes p a bs = Some (Inr p')" "program_ok p'"
    "program_view p' = (\<lambda>i. if lost p a (length bs) i then None else view_write (program_view p) (unat a) bs i)"
    using write_bytes_effect [OF ok fits] by blast
  have "program_view p' \<subseteq>\<^sub>m view_write (program_view p) (unat a) bs"
    unfolding p'(3) by (auto simp: map_le_def)
  then show "rel_loaded (\<lambda>m n. program_ok m \<and> program_view m \<subseteq>\<^sub>m cursor_view n)
      (write_bytes p a bs) (cursor_write_bytes buf a bs)"
    using le' p'(2) by (auto simp: p'(1) buf intro: map_le_trans)
qed



definition example_header :: ProgramHeader where
  "example_header = \<lparr>p_type = 1, p_offset = 0, p_vaddr = 0x100, p_paddr = 0x100, p_filesz = 24, p_memsz = 32\<rparr>"

definition example_elf :: Elf where
  "example_elf = \<lparr>elf_e_type = 3, elf_e_entry = 0x100, elf_entry = 0x100,
     elf_program_headers = [example_header],
     elf_dynrelas = [\<lparr>r_offset = 0x108, r_addend = Some 0x100, r_type = 3\<rparr>]\<rparr>"

definition example_goblin :: Goblin where
  "example_goblin = \<lparr>gb_parse = \<lambda>c. if c = replicate 24 1 then Some example_elf else None,
     gb_file_range = \<lambda>h. (unat (p_offset h), unat (p_offset h) + unat (p_filesz h)),
     gb_PT_LOAD = 1, gb_ET_EXEC = 2, gb_ET_DYN = 3, gb_R_RISCV_RELATIVE = 3\<rparr>"


text \<open>
  The converse fails: a relocation inside a segment cuts the rest of the segment off.
\<close>

lemma relocation_loses_segment_tail:
  "\<exists>res p buf.
     load_elf example_goblin write_bytes \<lparr>pr_entrypoint = 0, pr_segments = []\<rparr> 0x1000 (replicate 24 1) = Some (Inr (res, p)) \<and>
     load_elf example_goblin cursor_write_bytes [] 0x1000 (replicate 24 1) = Some (Inr (res, buf)) \<and>
     program_view p 0x1110 = None \<and> cursor_view buf 0x1110 = Some 1"
proof -
  have "length (to_le_bytes (0x1100 :: u64)) \<noteq> 0" by simp
  then have ne: "to_le_bytes (0x1100 :: u64) \<noteq> []" by fastforce
  show ?thesis
    by (simp add: ne nth_append load_elf_def load_elf_reloc_def example_goblin_def example_elf_def example_header_def Let_def
      slice_range_def load_segment_def bind_loaded_def set_zero_def write_bytes_def shrink_previous_def
      cursor_write_bytes_def cursor_view_def usize_add_def vec_resize_def btree_append_def view_write_def
      word_less_nat_alt word_le_nat_alt)
qed

end
