(* ===== verification/RV_Boot.thy ===== *)
theory RV_Boot
  imports RV_Execution RV_Program
begin

text \<open>
  Booting the machine (\<open>MachineState::setup_boot\<close> of \<open>machine_state.rs\<close>).  The generation of the device
  tree in \<open>devicetree.rs\<close> consists of calls of the crate \<open>vm_fdt\<close>; it is the argument \<open>generate\<close>, a
  function of the size of the memory and the optional ramdisk.
\<close>

datatype 'e MachineError = AddressError OutOfBounds | DeviceTreeError 'e

record InitialRamDisk =
  ird_start :: u64
  ird_length :: u64

text \<open>The segments are written in the order of their addresses; a failure leaves those already written.\<close>

fun write_segments :: "Bus \<Rightarrow> segments \<Rightarrow> (OutOfBounds, unit) result \<times> Bus" where
  "write_segments bus [] = (Inr (), bus)"
| "write_segments bus ((addr, data) # segs) =
     (case bus_write_all bus addr data of
        Inl e \<Rightarrow> (Inl e, bus)
      | Inr bus \<Rightarrow> write_segments bus segs)"

definition initrd_address :: "nat \<Rightarrow> Program \<Rightarrow> Address" where
  "initrd_address BYTES program =
     (case map (\<lambda>(base, data). base + of_nat (length data)) (pr_segments program) of
        [] \<Rightarrow> start_of_main_memory BYTES
      | e # es \<Rightarrow> fold max es e)"

definition write_initrd ::
    "Bus \<Rightarrow> Address \<Rightarrow> u8 list option \<Rightarrow> (OutOfBounds, Address \<times> InitialRamDisk option \<times> Bus) result" where
  "write_initrd bus initrd_addr initrd =
     (case initrd of
        None \<Rightarrow> Inr (initrd_addr, None, bus)
      | Some initrd \<Rightarrow>
          map_result
            (\<lambda>bus. let length = of_nat (length initrd)
                   in (initrd_addr + length, Some \<lparr>ird_start = initrd_addr, ird_length = length\<rparr>, bus))
            (bus_write_all bus initrd_addr initrd))"

definition write_x :: "MachineState \<Rightarrow> XRegister \<Rightarrow> XValue \<Rightarrow> MachineState" where
  "write_x m r v = m\<lparr>ms_hart := (ms_hart m)\<lparr>h_xregisters := xwrite (h_xregisters (ms_hart m)) r v\<rparr>\<rparr>"

definition write_csr :: "MachineState \<Rightarrow> CSRegister \<Rightarrow> CSRValue \<Rightarrow> MachineState" where
  "write_csr m r v = m\<lparr>ms_hart := (ms_hart m)\<lparr>h_csregisters := csr_write (h_csregisters (ms_hart m)) r v\<rparr>\<rparr>"

definition setup_boot ::
    "(nat \<Rightarrow> InitialRamDisk option \<Rightarrow> ('e, u8 list) result) \<Rightarrow> MachineState \<Rightarrow> Program \<Rightarrow> u8 list option \<Rightarrow>
     Mode \<Rightarrow> ('e MachineError, unit) result \<times> MachineState" where
  "setup_boot generate m program initrd mode =
     (let m = m\<lparr>ms_hart := hart_reset (ms_hart m) (pr_entrypoint program)\<rparr>;
          (r, bus) = write_segments (ms_bus m) (pr_segments program);
          m = m\<lparr>ms_bus := bus\<rparr>
      in case r of
           Inl e \<Rightarrow> (Inl (AddressError e), m)
         | Inr _ \<Rightarrow>
             (let m = write_x m x10 0;
                  initrd_addr = initrd_address (bus_BYTES (ms_bus m)) program
              in case write_initrd (ms_bus m) initrd_addr initrd of
                   Inl e \<Rightarrow> (Inl (AddressError e), m)
                 | Inr (dtb_addr, ramdisk, bus) \<Rightarrow>
                     (let m = m\<lparr>ms_bus := bus\<rparr>
                      in case generate (bus_BYTES (ms_bus m)) ramdisk of
                           Inl e \<Rightarrow> (Inl (DeviceTreeError e), m)
                         | Inr fdt \<Rightarrow>
                             (case bus_write_all (ms_bus m) dtb_addr fdt of
                                Inl e \<Rightarrow> (Inl (AddressError e), m)
                              | Inr bus \<Rightarrow>
                                  (let m = m\<lparr>ms_bus := bus\<rparr>;
                                       m = write_x m x11 dtb_addr;
                                       m = m\<lparr>ms_hart := (ms_hart m)\<lparr>h_mode := mode\<rparr>\<rparr>;
                                       m = write_csr m csr_medeleg (-1);
                                       m = write_csr m csr_mideleg (-1)
                                   in (Inr (), m))))))"

section \<open>The memory after booting\<close>

lemma bytes_of_bytes: "concat (map to_le_bytes (bs :: u8 list)) = bs"
proof -
  have "to_le_bytes (b :: u8) = [b]" for b by (simp add: to_le_bytes_def)
  then show ?thesis by (induction bs) simp_all
qed

lemma bus_write_all_BYTES: "bus_write_all b a (bs :: 'a::len word list) = Inr b' \<Longrightarrow> bus_BYTES b' = bus_BYTES b"
  by (auto simp: bus_write_all_def Let_def memory_write_all_def devices_write_all_def map_result_def
      split: prod.splits if_splits AddressSpace.splits sum.splits)

lemma bus_write_bytes:
  assumes "bus_ok b" "bus_BYTES b < 2 ^ 62" "bs \<noteq> []" "2 ^ 31 \<le> unat a" "unat a + length bs \<le> 2 ^ 31 + bus_BYTES b"
  shows "\<exists>b'. bus_write_all b a (bs :: u8 list) = Inr b' \<and> bus_ok b' \<and> bus_BYTES b' = bus_BYTES b \<and>
           bus_view b' = view_write (bus_view b) (unat a) bs"
proof -
  have "0 < length bs" using assms(3) by simp
  moreover have "mapped (bus_view b) (unat a) (length bs)"
    using assms by (simp add: bus_mapped_iff)
  ultimately obtain b' where "bus_write_all b a bs = Inr b'" "bus_ok b'" "bus_view b' = view_write (bus_view b) (unat a) bs"
    using bus_write_all_spec [of b bs a] assms by (auto simp: bytes_of_bytes)
  then show ?thesis using bus_write_all_BYTES by blast
qed

lemma write_segments_effect:
  assumes "segs_ok lo segs" "bus_ok b" "bus_BYTES b < 2 ^ 62"
    and "\<forall>(k, c) \<in> set segs. 2 ^ 31 \<le> unat k \<and> unat k + length c \<le> 2 ^ 31 + bus_BYTES b"
  shows "\<exists>b'. write_segments b segs = (Inr (), b') \<and> bus_ok b' \<and> bus_BYTES b' = bus_BYTES b \<and>
           bus_view b' = bus_view b ++ seg_view segs"
  using assms
proof (induction lo segs arbitrary: b rule: segs_ok.induct)
  case (2 lo k c segs)
  obtain b1 where b1: "bus_write_all b k c = Inr b1" "bus_ok b1" "bus_BYTES b1 = bus_BYTES b"
    "bus_view b1 = view_write (bus_view b) (unat k) c"
    using bus_write_bytes [of b c k] 2 by auto
  obtain b' where b': "write_segments b1 segs = (Inr (), b')" "bus_ok b'" "bus_BYTES b' = bus_BYTES b1"
    "bus_view b' = bus_view b1 ++ seg_view segs"
    using "2.IH" [of b1] 2 b1 by auto
  have "seg_view segs a = None" if "a < unat k + length c" for a
    using 2(2) that by (intro seg_view_below) auto
  then have "bus_view b1 ++ seg_view segs = bus_view b ++ seg_view ((k, c) # segs)"
    unfolding b1(4) by (auto simp: fun_eq_iff map_add_def view_write_def split: option.split)
  then show ?case using b1 b' by simp
qed simp

lemma start_of_main_memory_eq: "unat (start_of_main_memory B) = 2 ^ 31"
  by (simp add: start_of_main_memory_def address_space_start_def DEVICES_unat)

lemma initrd_address_bounds:
  assumes "program_ok p"
  shows "(k, c) \<in> set (pr_segments p) \<Longrightarrow> unat k + length c \<le> unat (initrd_address B p)"
    and "\<forall>(k, c) \<in> set (pr_segments p). 2 ^ 31 \<le> unat k \<Longrightarrow> 2 ^ 31 \<le> unat (initrd_address B p)"
proof -
  let ?e = "\<lambda>(base, data). base + of_nat (length data) :: Address"
  have e: "unat (?e (k, c)) = unat k + length c" if "(k, c) \<in> set (pr_segments p)" for k c
    using segs_ok_keys [of 0, OF _ that] assms by (auto simp: program_ok_def intro: unat_add_of_nat)
  have m: "initrd_address B p =
      (if pr_segments p = [] then start_of_main_memory B else Max (?e ` set (pr_segments p)))"
    by (cases "pr_segments p") (simp_all add: initrd_address_def Max.set_eq_fold [symmetric])
  show 1: "unat k + length c \<le> unat (initrd_address B p)" if "(k, c) \<in> set (pr_segments p)" for k c
  proof -
    have "?e (k, c) \<in> ?e ` set (pr_segments p)" using that by (rule imageI)
    then have "?e (k, c) \<le> initrd_address B p"
      using that by (auto simp: m intro: Max_ge)
    then show ?thesis using e [OF that] by (simp add: word_le_nat_alt)
  qed
  show "2 ^ 31 \<le> unat (initrd_address B p)" if "\<forall>(k, c) \<in> set (pr_segments p). 2 ^ 31 \<le> unat k"
    using that 1 start_of_main_memory_eq [of B] by (cases "pr_segments p") (fastforce simp: m)+
qed


lemma write_initrd_effect:
  assumes "bus_ok b" "bus_BYTES b < 2 ^ 62" "initrd \<noteq> Some []" "rd = (case initrd of None \<Rightarrow> [] | Some rd \<Rightarrow> rd)"
    and "2 ^ 31 \<le> unat a" "unat a + length rd \<le> 2 ^ 31 + bus_BYTES b"
  shows "\<exists>b'. write_initrd b a initrd =
      Inr (a + of_nat (length rd), map_option (\<lambda>rd. \<lparr>ird_start = a, ird_length = of_nat (length rd)\<rparr>) initrd, b') \<and>
    bus_ok b' \<and> bus_BYTES b' = bus_BYTES b \<and> bus_view b' = view_write (bus_view b) (unat a) rd"
proof (cases initrd)
  case None
  then show ?thesis using assms by (auto simp: write_initrd_def view_write_def fun_eq_iff)
next
  case (Some rd')
  then show ?thesis using bus_write_bytes [of b rd a] assms by (auto simp: write_initrd_def Let_def)
qed

lemma write_csr_simps [simp]:
  "ms_bus (write_csr m r v) = ms_bus m" "h_mode (ms_hart (write_csr m r v)) = h_mode (ms_hart m)"
  "h_pc (ms_hart (write_csr m r v)) = h_pc (ms_hart m)"
  "h_xregisters (ms_hart (write_csr m r v)) = h_xregisters (ms_hart m)"
  "h_csregisters (ms_hart (write_csr m r v)) = csr_write (h_csregisters (ms_hart m)) r v"
  by (simp_all add: write_csr_def)

lemma write_x_simps [simp]:
  "ms_bus (write_x m r v) = ms_bus m" "h_mode (ms_hart (write_x m r v)) = h_mode (ms_hart m)"
  "h_pc (ms_hart (write_x m r v)) = h_pc (ms_hart m)"
  "h_xregisters (ms_hart (write_x m r v)) = xwrite (h_xregisters (ms_hart m)) r v"
  "h_csregisters (ms_hart (write_x m r v)) = h_csregisters (ms_hart m)"
  by (simp_all add: write_x_def)

lemma setup_boot_effect:
  assumes "bus_ok (ms_bus m)" "bus_BYTES (ms_bus m) < 2 ^ 62" "program_ok p"
    and "\<forall>(k, c) \<in> set (pr_segments p). 2 ^ 31 \<le> unat k"
    and "base = initrd_address (bus_BYTES (ms_bus m)) p"
    and "initrd \<noteq> Some []" "rd = (case initrd of None \<Rightarrow> [] | Some rd \<Rightarrow> rd)"
    and "generate (bus_BYTES (ms_bus m))
           (map_option (\<lambda>rd. \<lparr>ird_start = base, ird_length = of_nat (length rd)\<rparr>) initrd) = Inr fdt" "fdt \<noteq> []"
    and "unat base + length rd + length fdt \<le> 2 ^ 31 + bus_BYTES (ms_bus m)"
  shows "\<exists>m'. setup_boot generate m p initrd mode = (Inr (), m') \<and> machine_ok m' \<and>
    bus_BYTES (ms_bus m') = bus_BYTES (ms_bus m) \<and>
    h_pc (ms_hart m') = pr_entrypoint p \<and> h_mode (ms_hart m') = mode \<and>
    xread (h_xregisters (ms_hart m')) x10 = 0 \<and>
    xread (h_xregisters (ms_hart m')) x11 = base + of_nat (length rd) \<and>
    h_csregisters (ms_hart m') =
      csr_write (csr_write (csr_reset (h_csregisters (ms_hart m))) csr_medeleg (-1)) csr_mideleg (-1) \<and>
    bus_view (ms_bus m') = view_write (view_write (bus_view (ms_bus m) ++ program_view p) (unat base) rd)
                             (unat base + length rd) fdt"
proof -
  let ?b = "ms_bus m"
  have B: "2 ^ 31 + bus_BYTES ?b < 2 ^ 64"
    using assms(2) by simp
  have seg: "\<forall>(k, c) \<in> set (pr_segments p). 2 ^ 31 \<le> unat k \<and> unat k + length c \<le> 2 ^ 31 + bus_BYTES ?b"
    using assms(4,10) initrd_address_bounds(1) [OF assms(3), of _ _ "bus_BYTES ?b"] by (fastforce simp: assms(5))
  have base: "2 ^ 31 \<le> unat base"
    using initrd_address_bounds(2) [OF assms(3,4)] by (simp add: assms(5))
  obtain b1 where b1: "write_segments ?b (pr_segments p) = (Inr (), b1)" "bus_ok b1" "bus_BYTES b1 = bus_BYTES ?b"
    "bus_view b1 = bus_view ?b ++ program_view p"
    using write_segments_effect [OF _ assms(1,2) seg] assms(3) by (auto simp: program_ok_def)
  obtain b2 where b2: "write_initrd b1 base initrd =
      Inr (base + of_nat (length rd), map_option (\<lambda>rd. \<lparr>ird_start = base, ird_length = of_nat (length rd)\<rparr>) initrd, b2)"
    "bus_ok b2" "bus_BYTES b2 = bus_BYTES ?b" "bus_view b2 = view_write (bus_view b1) (unat base) rd"
    using write_initrd_effect [OF b1(2) _ assms(6,7) base] assms(2,10) b1(3) by auto
  have dtb: "unat (base + of_nat (length rd)) = unat base + length rd"
    using assms(10) B by (intro unat_add_of_nat) linarith
  obtain b3 where b3: "bus_write_all b2 (base + of_nat (length rd)) fdt = Inr b3" "bus_ok b3"
    "bus_BYTES b3 = bus_BYTES ?b" "bus_view b3 = view_write (bus_view b2) (unat base + length rd) fdt"
    using bus_write_bytes [of b2 fdt "base + of_nat (length rd)"] b2 assms(2,9,10) base by (auto simp: dtb)
  show ?thesis
    using b1 b2 b3 assms(5,8)
    by (simp add: setup_boot_def Let_def hart_reset_def machine_ok_def csr_write_legal csr_reset_legal is_zero_def)
qed


lemma boot_program_view:
  assumes "program_ok p" "unat (initrd_address B p) \<le> a1" "unat (initrd_address B p) \<le> a2"
  shows "program_view p \<subseteq>\<^sub>m view_write (view_write (vw ++ program_view p) a1 bs1) a2 bs2"
proof -
  have "a < unat (initrd_address B p)" if "program_view p a = Some b" for a b
    using seg_view_Some [OF that] initrd_address_bounds(1) [OF assms(1), of _ _ B] by fastforce
  then show ?thesis
    using assms(2,3) by (fastforce simp: map_le_def view_write_def dom_def)
qed

text \<open>
  C18: Booting installs the program: when program, ramdisk and device tree fit into the memory, booting
  succeeds with a machine that satisfies the invariant, in the requested mode and at the entry point.
  All bytes of the program are in memory, followed by the ramdisk and the device tree, and the two
  argument registers hold the hart number and the address of the device tree.
\<close>
theorem boot_installs:
  assumes "bus_ok (ms_bus m)" "bus_BYTES (ms_bus m) < 2 ^ 62" "program_ok p"
    and "\<forall>(k, c) \<in> set (pr_segments p). 2 ^ 31 \<le> unat k"
    and "base = initrd_address (bus_BYTES (ms_bus m)) p"
    and "initrd \<noteq> Some []" "rd = (case initrd of None \<Rightarrow> [] | Some rd \<Rightarrow> rd)"
    and "generate (bus_BYTES (ms_bus m))
           (map_option (\<lambda>rd. \<lparr>ird_start = base, ird_length = of_nat (length rd)\<rparr>) initrd) = Inr fdt" "fdt \<noteq> []"
    and "unat base + length rd + length fdt \<le> 2 ^ 31 + bus_BYTES (ms_bus m)"
  shows "\<exists>m'. setup_boot generate m p initrd mode = (Inr (), m') \<and> machine_ok m' \<and>
    h_pc (ms_hart m') = pr_entrypoint p \<and> h_mode (ms_hart m') = mode \<and>
    program_view p \<subseteq>\<^sub>m bus_view (ms_bus m') \<and>
    view_bytes (bus_view (ms_bus m')) (unat base) (length rd) = rd \<and>
    view_bytes (bus_view (ms_bus m')) (unat base + length rd) (length fdt) = fdt \<and>
    xread (h_xregisters (ms_hart m')) x10 = 0 \<and>
    xread (h_xregisters (ms_hart m')) x11 = base + of_nat (length rd)"
proof -
  obtain m' where m': "setup_boot generate m p initrd mode = (Inr (), m')" "machine_ok m'"
    "h_pc (ms_hart m') = pr_entrypoint p" "h_mode (ms_hart m') = mode"
    "xread (h_xregisters (ms_hart m')) x10 = 0" "xread (h_xregisters (ms_hart m')) x11 = base + of_nat (length rd)"
    "bus_view (ms_bus m') = view_write (view_write (bus_view (ms_bus m) ++ program_view p) (unat base) rd)
                              (unat base + length rd) fdt"
    using setup_boot_effect [where generate = generate and m = m and p = p and initrd = initrd, OF assms] by blast
  have "view_bytes (bus_view (ms_bus m')) (unat base) (length rd) = rd"
    unfolding m'(7) by (subst view_bytes_write_other) (auto simp: view_bytes_write_same disjoint_ranges_def)
  moreover have "program_view p \<subseteq>\<^sub>m bus_view (ms_bus m')"
    unfolding m'(7) by (rule boot_program_view [OF assms(3), where B = "bus_BYTES (ms_bus m)"]) (simp_all add: assms(5))
  ultimately show ?thesis
    using m' by (auto simp: view_bytes_write_same)
qed

text \<open>The magic number every flattened device tree starts with stands for the device tree.\<close>

definition example_fdt :: "nat \<Rightarrow> InitialRamDisk option \<Rightarrow> (unit, u8 list) result" where
  "example_fdt BYTES initrd = Inr [0xD0, 0x0D, 0xFE, 0xED]"

theorem boot_installs_witness:
  "\<exists>m'. setup_boot example_fdt example_machine \<lparr>pr_entrypoint = 0x80000004, pr_segments = [(0x80000000, [1, 2, 3, 4, 5])]\<rparr>
      (Some [6, 7, 8]) Supervisor = (Inr (), m') \<and>
    h_pc (ms_hart m') = 0x80000004 \<and> h_mode (ms_hart m') = Supervisor \<and>
    view_bytes (bus_view (ms_bus m')) 0x80000005 3 = [6, 7, 8] \<and>
    xread (h_xregisters (ms_hart m')) x11 = 0x80000008"
  using boot_installs [of example_machine "\<lparr>pr_entrypoint = 0x80000004, pr_segments = [(0x80000000, [1, 2, 3, 4, 5])]\<rparr>"
      "0x80000005" "Some [6, 7, 8]" "[6, 7, 8]" example_fdt "[0xD0, 0x0D, 0xFE, 0xED]" Supervisor]
  by (auto simp: example_fdt_def program_ok_def initrd_address_def numeral_3_eq_3)

section \<open>Running a raw program\<close>

lemma assemble_nth:
  "j < length is \<Longrightarrow> take 4 (drop (4 * j) (assemble is)) = to_le_bytes (encode (is ! j))"
proof (induction "is" arbitrary: j)
  case (Cons i "is")
  then show ?case by (cases j) (simp_all add: assemble_def)
qed simp

lemma length_assemble [simp]: "length (assemble is) = 4 * length is"
  by (induction "is") (simp_all add: assemble_def)

lemma from_raw_ok:
  assumes "code \<noteq> []" "length code < 2 ^ 63"
  shows "program_ok (from_raw B code)" "initrd_address B (from_raw B code) = start_of_main_memory B + of_nat (length code)"
    "program_view (from_raw B code) = view_write (\<lambda>_. None) (2 ^ 31) code"
  using assms by (simp_all add: program_ok_def from_raw_def Let_def start_of_main_memory_eq initrd_address_def)

lemma view_le_bytes:
  assumes "view_write (\<lambda>_. None) a code \<subseteq>\<^sub>m vw" "i + n \<le> length code"
  shows "mapped vw (a + i) n" "view_bytes vw (a + i) n = take n (drop i code)"
proof -
  have *: "vw (a + i + k) = Some (code ! (i + k))" if "k < n" for k
    using assms that by (auto simp: map_le_def view_write_def dom_def dest!: spec [of _ "a + i + k"] bspec [of _ _ "a + i + k"] split: if_splits)
  show "mapped vw (a + i) n" by (simp add: mapped_def *)
  show "view_bytes vw (a + i) n = take n (drop i code)"
    using assms(2) by (intro nth_equalityI) (simp_all add: view_bytes_def *)
qed


lemma reset_MIE: "\<not> get_MIE (csr_read (csr_reset c) csr_mstatus)"
proof -
  have "csr_registers (csr_reset c) csr_mstatus = apply_warl_mstatus (default_mstatus AND WPRI_MASK_MSTATUS)"
    by (subst csr_reset_value) (simp_all add: CSRegister_iter_def CSRs_machine_def shadowed_def reset_value_def default_value_def writable_defs)
  then show ?thesis
    by (simp add: csr_read_plain xstatus_bits bit_apply_warl_mstatus bit_apply_warl_sstatus default_mstatus_def bit_and_iff)
qed

lemma raw_fetch:
  assumes "bus_ok (ms_bus m)" "h_mode (ms_hart m) = Machine" "\<forall>i \<in> set is. encodable i" "j < length is"
    and "view_write (\<lambda>_. None) (2 ^ 31) (assemble is) \<subseteq>\<^sub>m bus_view (ms_bus m)"
    and "unat a = 2 ^ 31 + 4 * j"
  shows "fetch_instr ex m a = Inr (is ! j)"
proof (rule fetch_encoded [OF assms(1) _ translate_machine_mode])
  have "bus_read (ms_bus m) a = Inr (from_le_bytes (to_le_bytes (encode (is ! j))) :: u32)"
    using view_le_bytes [OF assms(5), of "4 * j" 4] assms(4)
    by (simp add: bus_read_spec [OF assms(1)] assms(6) assemble_nth)
  then show "bus_read (ms_bus m) a = Inr (encode (is ! j))"
    by (simp add: from_to_le_bytes)
qed (use assms in auto)

text \<open>
  C11: A raw program is ready to run after booting in machine mode: the hart is at its first
  instruction, no interrupt is pending, and the instruction fetched from each word of the program is
  the one it was assembled from.
\<close>
theorem boot_fetches_program:
  assumes "bus_ok (ms_bus m)" "bus_BYTES (ms_bus m) < 2 ^ 62" "is \<noteq> []" "\<forall>i \<in> set is. encodable i"
    and "generate (bus_BYTES (ms_bus m)) None = Inr fdt" "fdt \<noteq> []"
    and "4 * length is + length fdt \<le> bus_BYTES (ms_bus m)"
  shows "\<exists>m'. setup_boot generate m (from_raw (bus_BYTES (ms_bus m)) (assemble is)) None Machine = (Inr (), m') \<and>
    machine_ok m' \<and> get_pending_interrupt tw m' = None \<and>
    (\<forall>j < length is. fetch_instr ex m' (h_pc (ms_hart m') + 4 * of_nat j) = Inr (is ! j))"
proof -
  let ?B = "bus_BYTES (ms_bus m)"
  let ?p = "from_raw ?B (assemble is)"
  have a: "assemble is \<noteq> []" "length (assemble is) < 2 ^ 63"
    using assms(2,3,7) length_assemble [of "is"] by (fastforce, simp)
  have p: "\<forall>(k, c) \<in> set (pr_segments ?p). 2 ^ 31 \<le> unat k"
    by (simp add: from_raw_def Let_def start_of_main_memory_eq)
  have e: "pr_entrypoint ?p = start_of_main_memory ?B"
    by (simp add: from_raw_def Let_def)
  have base: "unat (initrd_address ?B ?p) = 2 ^ 31 + 4 * length is"
    unfolding from_raw_ok(2) [OF a] using a(2) by (subst unat_add_of_nat) (simp_all add: start_of_main_memory_eq)
  obtain m' where m': "setup_boot generate m ?p None Machine = (Inr (), m')" "machine_ok m'"
    "h_pc (ms_hart m') = start_of_main_memory ?B" "h_mode (ms_hart m') = Machine"
    "h_csregisters (ms_hart m') =
      csr_write (csr_write (csr_reset (h_csregisters (ms_hart m))) csr_medeleg (-1)) csr_mideleg (-1)"
    "bus_view (ms_bus m') = view_write (view_write (bus_view (ms_bus m) ++ program_view ?p)
       (unat (initrd_address ?B ?p)) []) (unat (initrd_address ?B ?p) + length ([] :: u8 list)) fdt"
    using setup_boot_effect [where generate = generate and m = m and p = ?p and initrd = None and fdt = fdt and mode = Machine,
        OF assms(1,2) from_raw_ok(1) [OF a] p refl, simplified option.simps, OF _ refl assms(5,6)] assms(7) e
    unfolding base by auto
  have v: "view_write (\<lambda>_. None) (2 ^ 31) (assemble is) \<subseteq>\<^sub>m bus_view (ms_bus m')"
    using boot_program_view [OF from_raw_ok(1) [OF a] order_refl le_add1]
    unfolding m'(6) from_raw_ok(3) [OF a] .
  have "fetch_instr ex m' (h_pc (ms_hart m') + 4 * of_nat j) = Inr (is ! j)" if "j < length is" for j
  proof (rule raw_fetch [OF _ m'(4) assms(4) that v])
    have "unat (start_of_main_memory ?B + of_nat (4 * j)) = 2 ^ 31 + 4 * j"
      using that a(2) by (subst unat_add_of_nat) (simp_all add: start_of_main_memory_eq)
    then show "unat (h_pc (ms_hart m') + 4 * of_nat j) = 2 ^ 31 + 4 * j"
      by (simp add: m'(3))
  qed (use m'(2) in \<open>simp add: machine_ok_def\<close>)
  moreover have "get_pending_interrupt tw m' = None"
    using m'(4) by (intro no_pending_machine)
      (simp_all add: m'(5) csr_read_write_other shadowed_def reset_MIE [simplified])
  ultimately show ?thesis
    using m' by blast
qed


theorem boot_fetches_program_witness:
  "\<exists>m'. setup_boot example_fdt example_machine (from_raw 1024 (assemble [example_addi, Ecall])) None Machine = (Inr (), m') \<and>
    fetch_instr example_externs m' (h_pc (ms_hart m')) = Inr example_addi \<and>
    fetch_instr example_externs m' (h_pc (ms_hart m') + 4) = Inr Ecall"
proof -
  have "\<forall>i \<in> set [example_addi, Ecall]. encodable i"
    by (simp add: example_addi_def fits_def)
  then obtain m' where m': "setup_boot example_fdt example_machine (from_raw 1024 (assemble [example_addi, Ecall])) None Machine =
      (Inr (), m')"
      "\<And>j. j < Suc (Suc 0) \<Longrightarrow> fetch_instr example_externs m' (h_pc (ms_hart m') + 4 * of_nat j) = Inr ([example_addi, Ecall] ! j)"
    using boot_fetches_program [of example_machine "[example_addi, Ecall]" example_fdt "[0xD0, 0x0D, 0xFE, 0xED]" std_twiddle
        example_externs] by (auto simp: example_fdt_def)
  show ?thesis
    using m'(1) m'(2) [of 0] m'(2) [of 1] by simp
qed

end
