(* ===== verification/RV_Pvm.thy ===== *)
theory RV_Pvm
  imports RV_Boot
begin

text \<open>
  The drivers of the machine: the execution environment (\<open>exec_env.rs\<close>) with the implementation for
  the test suite (\<open>exec_env/posix.rs\<close>), the interpreter of the sandbox (\<open>lib.rs\<close>) and the
  proof-generating virtual machine (\<open>pvm/src/state.rs\<close>).  The locale \<open>exec_env\<close> is the contract of the
  trait \<open>ExecutionEnvironmentState\<close>; the drivers are related to runs of single steps, each of which is a
  step of the machine followed by the treatment of its environment call.
\<close>

section \<open>Execution environments\<close>

datatype EcallOutcome = Fatal | Handled bool

text \<open>The methods of the trait \<open>ExecutionEnvironmentState\<close>.  A panic is \<open>None\<close>.\<close>

record 'e ExecEnv =
  ee_reset :: "'e \<Rightarrow> 'e"
  ee_handle_call :: "'e \<Rightarrow> MachineState \<Rightarrow> EnvironException \<Rightarrow> (EcallOutcome \<times> 'e \<times> MachineState) option"

record PosixState =
  ps_code :: u64
  ps_exited :: u8
  ps_exit_mode :: Mode

definition posix_exited :: "PosixState \<Rightarrow> bool" where
  "posix_exited s \<longleftrightarrow> ps_exited s > 0"

definition exit_code :: "PosixState \<Rightarrow> u64 option" where
  "exit_code s = (if posix_exited s then Some (ps_code s) else None)"

definition set_exit_mode :: "PosixState \<Rightarrow> Mode \<Rightarrow> PosixState" where
  "set_exit_mode s mode = s\<lparr>ps_exit_mode := mode\<rparr>"

definition posix_reset :: "PosixState \<Rightarrow> PosixState" where
  "posix_reset s = s\<lparr>ps_exited := 0, ps_code := 0, ps_exit_mode := Machine\<rparr>"

definition source_mode :: "EnvironException \<Rightarrow> Mode" where
  "source_mode env_exception =
     (case env_exception of
        EE_EnvCallFromUMode \<Rightarrow> User
      | EE_EnvCallFromSMode \<Rightarrow> Supervisor
      | EE_EnvCallFromMMode \<Rightarrow> Machine)"

text \<open>The closure \<open>handle_exit\<close>; the counter of exits saturates.\<close>

definition handle_exit :: "PosixState \<Rightarrow> u64 \<Rightarrow> EcallOutcome \<times> PosixState" where
  "handle_exit s code =
     (let exited = ps_exited s
      in (Handled False, s\<lparr>ps_exited := (if exited = - 1 then exited else exited + 1), ps_code := code\<rparr>))"

definition posix_handle_call ::
    "Twiddle \<Rightarrow> PosixState \<Rightarrow> MachineState \<Rightarrow> EnvironException \<Rightarrow> (EcallOutcome \<times> PosixState \<times> MachineState) option" where
  "posix_handle_call tw s machine env_exception =
     (if posix_exited s then Some (Fatal, s, machine)
      else
        let source_exception = as_exception env_exception;
            exit_mode = ps_exit_mode s
        in
        if source_mode env_exception \<noteq> exit_mode then
          let return_pc = h_pc (ms_hart machine) in
          case take_trap tw exception_context (ms_hart machine) source_exception return_pc of
            None \<Rightarrow> None
          | Some (new_pc, h) \<Rightarrow> Some (Handled True, s, machine\<lparr>ms_hart := h\<lparr>h_pc := new_pc\<rparr>\<rparr>)
        else
          let a7_val = xread (h_xregisters (ms_hart machine)) x17;
              a0_val = xread (h_xregisters (ms_hart machine)) x10
          in
          if a7_val = 93 \<and> a0_val = 0 \<or> a7_val = 0 \<and> a0_val = 1 then
            let (out, s) = handle_exit s 0 in Some (out, s, machine)
          else if a7_val = 93 \<or> a7_val = 0 then
            let (out, s) = handle_exit s a0_val in Some (out, s, machine)
          else Some (Fatal, s, machine))"

definition posix_env :: "Twiddle \<Rightarrow> PosixState ExecEnv" where
  "posix_env tw = \<lparr>ee_reset = posix_reset, ee_handle_call = posix_handle_call tw\<rparr>"

section \<open>Numbers of steps\<close>

definition usize_saturating_add :: "nat \<Rightarrow> nat \<Rightarrow> nat" where
  "usize_saturating_add a b = min (a + b) (2 ^ 64 - 1)"

text \<open>A bounded run raises an exception only after fewer steps than allowed.\<close>

lemma step_many_exception:
  "machine_step_many ex m k sc c = Some (res, c', m') \<Longrightarrow> smr_exception res = Some e \<Longrightarrow> smr_steps res < k"
  using step_many_loop_spec [of ex k sc 0 c m] by (auto simp: machine_step_many_def)

lemma usize_saturating_add_pos: "0 < b \<Longrightarrow> 0 < usize_saturating_add a b"
  by (simp add: usize_saturating_add_def)

lemma usize_saturating_add_eq: "a + b < 2 ^ 64 \<Longrightarrow> usize_saturating_add a b = a + b"
  by (simp add: usize_saturating_add_def)

section \<open>The proof-generating virtual machine\<close>

definition INITIAL_VERSION :: u64 where
  "INITIAL_VERSION = 0"

record 'e Pvm =
  pvm_version :: u64
  pvm_machine_state :: MachineState
  pvm_syscall_state :: 'e

definition pvm_reset :: "'e ExecEnv \<Rightarrow> 'e Pvm \<Rightarrow> 'e Pvm" where
  "pvm_reset env p =
     p\<lparr>pvm_version := INITIAL_VERSION,
       pvm_machine_state := machine_reset (pvm_machine_state p),
       pvm_syscall_state := ee_reset env (pvm_syscall_state p)\<rparr>"

text \<open>Fatal exceptions are not implemented: the method panics.\<close>

definition handle_exception :: "'e ExecEnv \<Rightarrow> 'e Pvm \<Rightarrow> EnvironException \<Rightarrow> (bool \<times> 'e Pvm) option" where
  "handle_exception env p exception =
     (case ee_handle_call env (pvm_syscall_state p) (pvm_machine_state p) exception of
        None \<Rightarrow> None
      | Some (Fatal, _) \<Rightarrow> None
      | Some (Handled continue_eval, s, m) \<Rightarrow>
          Some (continue_eval, p\<lparr>pvm_machine_state := m, pvm_syscall_state := s\<rparr>))"

definition pvm_step :: "('s, 'd) Externs \<Rightarrow> 'e ExecEnv \<Rightarrow> 'e Pvm \<Rightarrow> (bool \<times> 'e Pvm) option" where
  "pvm_step ex env p =
     (case step ex (pvm_machine_state p) of
        None \<Rightarrow> None
      | Some (Inl exc, m) \<Rightarrow> map_option (\<lambda>(_, p). (True, p)) (handle_exception env (p\<lparr>pvm_machine_state := m\<rparr>) exc)
      | Some (Inr _, m) \<Rightarrow> Some (True, p\<lparr>pvm_machine_state := m\<rparr>))"

function step_many_accum ::
    "('s, 'd) Externs \<Rightarrow> 'e ExecEnv \<Rightarrow> nat \<Rightarrow> nat \<Rightarrow> 'e Pvm \<Rightarrow> (nat \<times> 'e Pvm) option" where
  "step_many_accum ex env max_steps accum p =
     (case machine_step_many ex (pvm_machine_state p) max_steps (\<lambda>_ _. (True, ())) () of
        None \<Rightarrow> None
      | Some (res, _, m) \<Rightarrow>
          let p = p\<lparr>pvm_machine_state := m\<rparr>;
              total_steps = usize_saturating_add accum (smr_steps res)
          in case smr_exception res of
               None \<Rightarrow> Some (total_steps, p)
             | Some exc \<Rightarrow>
                 let total_steps = usize_saturating_add total_steps 1;
                     steps = usize_saturating_add (smr_steps res) 1
                 in case handle_exception env p exc of
                      None \<Rightarrow> None
                    | Some (True, p) \<Rightarrow> step_many_accum ex env (max_steps - steps) total_steps p
                    | Some (False, p) \<Rightarrow> Some (total_steps, p))"
  by pat_completeness auto

termination
proof (relation "measure (\<lambda>(ex, env, max_steps, accum, p). max_steps)", goal_cases)
  case (2 ex env max_steps accum p)
  then show ?case
    by (auto simp: usize_saturating_add_def dest!: step_many_exception)
qed simp

declare step_many_accum.simps [simp del]

definition pvm_step_many :: "('s, 'd) Externs \<Rightarrow> 'e ExecEnv \<Rightarrow> 'e Pvm \<Rightarrow> nat \<Rightarrow> (nat \<times> 'e Pvm) option" where
  "pvm_step_many ex env p max_steps = step_many_accum ex env max_steps 0 p"

section \<open>The interpreter\<close>

record Interpreter =
  in_posix_state :: PosixState
  in_machine_state :: MachineState

datatype InterpreterResult =
    Running nat
  | Exit nat nat
  | Exception EnvironException nat

datatype 'e InterpreterError = KernelLoadingError LoadError | InterpreterMachineError "'e MachineError"

text \<open>The states bound to the backend are the argument \<open>states\<close>.\<close>

definition interpreter_new ::
    "Goblin \<Rightarrow> (nat \<Rightarrow> InitialRamDisk option \<Rightarrow> ('e, u8 list) result) \<Rightarrow> PosixState \<times> MachineState \<Rightarrow> u8 list \<Rightarrow>
     u8 list option \<Rightarrow> Mode \<Rightarrow> ('e InterpreterError, Interpreter) result option" where
  "interpreter_new gb generate states program initrd mode =
     (let (posix_state, machine_state) = states;
          posix_state = set_exit_mode posix_state mode
      in case from_elf gb (bus_BYTES (ms_bus machine_state)) program of
           None \<Rightarrow> None
         | Some (Inl e) \<Rightarrow> Some (Inl (KernelLoadingError e))
         | Some (Inr elf_program) \<Rightarrow>
             (case setup_boot generate machine_state elf_program initrd Machine of
                (Inl e, _) \<Rightarrow> Some (Inl (InterpreterMachineError e))
              | (Inr _, machine_state) \<Rightarrow>
                  Some (Inr \<lparr>in_posix_state = posix_state, in_machine_state = machine_state\<rparr>)))"

function handle_step_result ::
    "('s, 'd) Externs \<Rightarrow> Interpreter \<Rightarrow> StepManyResult \<Rightarrow> nat \<Rightarrow> ('c \<Rightarrow> MachineState \<Rightarrow> bool \<times> 'c) \<Rightarrow> 'c \<Rightarrow>
     (InterpreterResult \<times> Interpreter) option"
  and run_accum ::
    "('s, 'd) Externs \<Rightarrow> Interpreter \<Rightarrow> nat \<Rightarrow> nat \<Rightarrow> ('c \<Rightarrow> MachineState \<Rightarrow> bool \<times> 'c) \<Rightarrow> 'c \<Rightarrow>
     (InterpreterResult \<times> Interpreter) option" where
  "handle_step_result ex i result max_steps should_continue c =
     (case smr_exception result of
        Some exc \<Rightarrow>
          (case posix_handle_call (ex_twiddle ex) (in_posix_state i) (in_machine_state i) exc of
             None \<Rightarrow> None
           | Some (Fatal, s, m) \<Rightarrow>
               Some (Exception exc (smr_steps result), i\<lparr>in_posix_state := s, in_machine_state := m\<rparr>)
           | Some (Handled continue_eval, s, m) \<Rightarrow>
               let i = i\<lparr>in_posix_state := s, in_machine_state := m\<rparr>;
                   steps = usize_saturating_add (smr_steps result) 1;
                   steps_left = max_steps - steps
               in case exit_code (in_posix_state i) of
                    Some code \<Rightarrow> Some (Exit (unat code) steps, i)
                  | None \<Rightarrow>
                      if continue_eval \<and> 0 < steps_left then run_accum ex i steps steps_left should_continue c
                      else Some (Running steps, i))
      | None \<Rightarrow> Some (Running (smr_steps result), i))"
| "run_accum ex i steps_done max_steps should_continue c =
     (case machine_step_many ex (in_machine_state i) max_steps should_continue c of
        None \<Rightarrow> None
      | Some (result, c, m) \<Rightarrow>
          handle_step_result ex (i\<lparr>in_machine_state := m\<rparr>)
            (result\<lparr>smr_steps := usize_saturating_add (smr_steps result) steps_done\<rparr>) max_steps should_continue c)"
  by pat_completeness auto

termination
  by (relation "measure (\<lambda>x. case x of Inl (ex, i, result, max_steps, f, c) \<Rightarrow> 2 * max_steps
      | Inr (ex, i, steps_done, max_steps, f, c) \<Rightarrow> 2 * max_steps + 1)")
    (auto simp: usize_saturating_add_def)

declare handle_step_result.simps [simp del] run_accum.simps [simp del]

definition interpreter_run :: "('s, 'd) Externs \<Rightarrow> Interpreter \<Rightarrow> nat \<Rightarrow> (InterpreterResult \<times> Interpreter) option" where
  "interpreter_run ex i max_steps = run_accum ex i 0 max_steps (\<lambda>_ _. (True, ())) ()"

definition interpreter_step_many ::
    "('s, 'd) Externs \<Rightarrow> Interpreter \<Rightarrow> nat \<Rightarrow> ('c \<Rightarrow> MachineState \<Rightarrow> bool \<times> 'c) \<Rightarrow> 'c \<Rightarrow>
     (InterpreterResult \<times> Interpreter) option" where
  "interpreter_step_many ex i max_steps should_continue c =
     (case machine_step_many ex (in_machine_state i) max_steps should_continue c of
        None \<Rightarrow> None
      | Some (result, c, m) \<Rightarrow>
          handle_step_result ex (i\<lparr>in_machine_state := m\<rparr>) result max_steps should_continue c)"

section \<open>Runs of single steps\<close>

text \<open>One step of the machine with the treatment of the environment call it may raise.\<close>

definition env_step ::
    "('s, 'd) Externs \<Rightarrow> 'e ExecEnv \<Rightarrow> 'e \<times> MachineState \<Rightarrow> (EcallOutcome \<times> 'e \<times> MachineState) option" where
  "env_step ex env s =
     (case step ex (snd s) of
        None \<Rightarrow> None
      | Some (Inr _, m) \<Rightarrow> Some (Handled True, fst s, m)
      | Some (Inl exc, m) \<Rightarrow> ee_handle_call env (fst s) m exc)"

text \<open>\<open>n\<close> steps after each of which evaluation may continue.\<close>

inductive env_steps :: "('s, 'd) Externs \<Rightarrow> 'e ExecEnv \<Rightarrow> nat \<Rightarrow> 'e \<times> MachineState \<Rightarrow> 'e \<times> MachineState \<Rightarrow> bool"
  for ex env where
  env_none: "env_steps ex env 0 s s"
| env_more: "env_step ex env s = Some (Handled True, s1) \<Longrightarrow> env_steps ex env n s1 s2 \<Longrightarrow> env_steps ex env (Suc n) s s2"

inductive_cases env_steps_0E: "env_steps ex env 0 s s'"
inductive_cases env_steps_SucE: "env_steps ex env (Suc n) s s'"

lemma env_steps_trans: "env_steps ex env a s s1 \<Longrightarrow> env_steps ex env b s1 s2 \<Longrightarrow> env_steps ex env (a + b) s s2"
  by (induction rule: env_steps.induct) (auto intro: env_steps.intros)

lemma env_steps_one: "env_step ex env s = Some (Handled True, s') \<Longrightarrow> env_steps ex env 1 s s'"
  by (metis One_nat_def env_steps.intros)

lemma env_steps_unique: "env_steps ex env n s s1 \<Longrightarrow> env_steps ex env n s s2 \<Longrightarrow> s1 = s2"
proof (induction arbitrary: s2 rule: env_steps.induct)
  case (env_more s s1 n s')
  from env_more.prems env_more.hyps(1) have "env_steps ex env n s1 s2"
    by (auto elim: env_steps_SucE)
  then show ?case by (rule env_more.IH)
qed (auto elim: env_steps_0E)

lemma machine_steps_env: "machine_steps ex n m m' \<Longrightarrow> env_steps ex env n (e, m) (e, m')"
  by (induction rule: machine_steps.induct) (auto intro!: env_steps.intros simp: env_step_def)

lemma env_step_exception:
  "step ex m = Some (Inl exc, m') \<Longrightarrow> env_step ex env (e, m) = ee_handle_call env e m' exc"
  by (simp add: env_step_def)

text \<open>A bounded run of the machine as a run of single steps.\<close>

lemma step_many_env:
  "\<exists>res c' m' m1. machine_step_many ex m k sc c = Some (res, c', m') \<and>
    smr_steps res \<le> k \<and> machine_steps ex (smr_steps res) m m1 \<and>
    env_steps ex env (smr_steps res) (e, m) (e, m1) \<and>
    (smr_exception res = None \<longrightarrow> m' = m1 \<and> (smr_steps res = k \<or> (\<exists>c1. sc c1 m' = (False, c')))) \<and>
    (\<forall>exc. smr_exception res = Some exc \<longrightarrow> smr_steps res < k \<and> step ex m1 = Some (Inl exc, m') \<and>
      env_step ex env (e, m1) = ee_handle_call env e m' exc)"
proof -
  obtain res c' m' m1 where *: "step_many_loop ex k sc 0 c m = Some (res, c', m')"
    "smr_steps res \<le> k" "machine_steps ex (smr_steps res) m m1"
    "case smr_exception res of
       None \<Rightarrow> m' = m1 \<and> (smr_steps res < k \<longrightarrow> (\<exists>c1. sc c1 m' = (False, c')))
     | Some e \<Rightarrow> smr_steps res < k \<and> step ex m1 = Some (Inl e, m')"
    using step_many_loop_spec [of ex k sc 0 c m] by auto
  have n: "smr_exception res = None \<longrightarrow> m' = m1 \<and> (smr_steps res = k \<or> (\<exists>c1. sc c1 m' = (False, c')))"
    using *(2,4) by auto
  have s: "\<forall>exc. smr_exception res = Some exc \<longrightarrow> smr_steps res < k \<and> step ex m1 = Some (Inl exc, m') \<and>
      env_step ex env (e, m1) = ee_handle_call env e m' exc"
    using *(4) by (auto simp: env_step_exception)
  show ?thesis
    unfolding machine_step_many_def
    by (rule exI [of _ res], rule exI [of _ c'], rule exI [of _ m'], rule exI [of _ m1])
      (intro conjI *(1,2,3) machine_steps_env [OF *(3)] n s)
qed

section \<open>The contract of an execution environment\<close>

text \<open>Treating a call never panics and keeps the invariant of the machine.\<close>

locale exec_env =
  fixes env :: "'e ExecEnv"
  assumes handle_call_keeps: "\<exists>out s' m'. ee_handle_call env s m exc = Some (out, s', m') \<and> keeps m m'"
begin

lemma env_step_total: "\<exists>out s' m'. env_step ex env (s, m) = Some (out, s', m') \<and> keeps m m'"
proof -
  obtain r m1 where st: "step ex m = Some (r, m1)" "keeps m m1"
    using step_total by blast
  show ?thesis
  proof (cases r)
    case (Inl exc)
    then show ?thesis
      using st handle_call_keeps [of s m1 exc] by (auto simp: env_step_def intro: keeps_trans)
  qed (use st in \<open>simp add: env_step_def\<close>)
qed

lemma env_steps_keeps: "env_steps ex env n s s' \<Longrightarrow> keeps (snd s) (snd s')"
proof (induction rule: env_steps.induct)
  case (env_more s s1 n s2)
  then show ?case
    using env_step_total [of ex "fst s" "snd s"] by (auto intro: keeps_trans)
qed (simp add: keeps_def)

end

lemma posix_handle_call_keeps:
  "\<exists>out s' m'. posix_handle_call tw s m exc = Some (out, s', m') \<and> keeps m m'"
proof -
  obtain a h where t: "take_trap tw exception_context (ms_hart m) (as_exception exc) (h_pc (ms_hart m)) = Some (a, h)"
    "csrs_legal (h_csregisters (ms_hart m)) \<longrightarrow> csrs_legal (h_csregisters h)"
    using take_trap_ok [of tw exception_context "ms_hart m" "as_exception exc" "h_pc (ms_hart m)"] by blast
  then have "keeps m (m\<lparr>ms_hart := h\<lparr>h_pc := a\<rparr>\<rparr>)" "keeps m m"
    by (simp_all add: keeps_bus)
  then show ?thesis
    by (auto simp: posix_handle_call_def Let_def handle_exit_def t(1))
qed

interpretation posix: exec_env "posix_env tw"
  by unfold_locales (simp add: posix_env_def posix_handle_call_keeps)

section \<open>The virtual machine as a run of single steps\<close>

abbreviation pvm_state :: "'e Pvm \<Rightarrow> 'e \<times> MachineState" where
  "pvm_state p \<equiv> (pvm_syscall_state p, pvm_machine_state p)"

text \<open>
  Outcomes of at most \<open>k\<close> steps from \<open>p\<close>, with \<open>a\<close> steps made before: all steps are made, a call asks to
  stop evaluation, or a call is fatal.
\<close>

inductive pvm_outcome ::
    "('s, 'd) Externs \<Rightarrow> 'e ExecEnv \<Rightarrow> nat \<Rightarrow> nat \<Rightarrow> 'e Pvm \<Rightarrow> (nat \<times> 'e Pvm) option \<Rightarrow> bool" for ex env where
  completed: "env_steps ex env k (pvm_state p) (pvm_state p') \<Longrightarrow> pvm_version p' = pvm_version p \<Longrightarrow>
     pvm_outcome ex env k a p (Some (a + k, p'))"
| stopped: "env_steps ex env j (pvm_state p) q \<Longrightarrow> env_step ex env q = Some (Handled False, pvm_state p') \<Longrightarrow>
     j < k \<Longrightarrow> pvm_version p' = pvm_version p \<Longrightarrow> pvm_outcome ex env k a p (Some (a + Suc j, p'))"
| panicked: "env_steps ex env j (pvm_state p) q \<Longrightarrow> (\<And>b s. env_step ex env q \<noteq> Some (Handled b, s)) \<Longrightarrow>
     j < k \<Longrightarrow> pvm_outcome ex env k a p None"

lemma pvm_outcome_more:
  assumes "pvm_outcome ex env (k - j) (a + j) p1 r" "env_steps ex env j (pvm_state p) (pvm_state p1)"
    and "j \<le> k" "pvm_version p1 = pvm_version p"
  shows "pvm_outcome ex env k a p r"
  using assms(1)
proof cases
  case (completed p')
  then show ?thesis
    using pvm_outcome.completed [OF env_steps_trans [OF assms(2) completed(2)], where a = a] assms(3,4) by simp
next
  case (stopped i q p')
  then show ?thesis
    using pvm_outcome.stopped [OF env_steps_trans [OF assms(2) stopped(2)] stopped(3), where k = k and a = a] assms(4) by (simp add: add.assoc)
next
  case (panicked i q)
  then show ?thesis
    using pvm_outcome.panicked [OF env_steps_trans [OF assms(2) panicked(2)] panicked(3), where k = k and a = a] by simp
qed

lemma step_many_accum_outcome:
  "a + k < 2 ^ 64 \<Longrightarrow> pvm_outcome ex env k a p (step_many_accum ex env k a p)"
proof (induction ex env k a p rule: step_many_accum.induct)
  case (1 ex env k a p)
  let ?s = "pvm_syscall_state p"
  obtain res c' m' m1 where r: "machine_step_many ex (pvm_machine_state p) k (\<lambda>_ _. (True, ())) () = Some (res, c', m')"
    "smr_steps res \<le> k" "env_steps ex env (smr_steps res) (?s, pvm_machine_state p) (?s, m1)"
    "smr_exception res = None \<Longrightarrow> m' = m1 \<and> (smr_steps res = k \<or> (\<exists>c1. (True, ()) = (False, c')))"
    "\<And>exc. smr_exception res = Some exc \<Longrightarrow> smr_steps res < k \<and> step ex m1 = Some (Inl exc, m') \<and>
      env_step ex env (?s, m1) = ee_handle_call env ?s m' exc"
    using step_many_env [of ex "pvm_machine_state p" k "\<lambda>_ _. (True, ())" "()" env ?s] by metis
  note eq = step_many_accum.simps [of ex env k a p]
  let ?p = "p\<lparr>pvm_machine_state := m'\<rparr>"
  show ?case
  proof (cases "smr_exception res")
    case None
    then show ?thesis
      using r pvm_outcome.completed [where k = k and p = p and p' = ?p and a = a] "1.prems" by (simp add: eq Let_def usize_saturating_add_eq)
  next
    case exc: (Some exc)
    note x = r(5) [OF exc]
    have n: "usize_saturating_add (usize_saturating_add a (smr_steps res)) 1 = a + Suc (smr_steps res)"
      "usize_saturating_add (smr_steps res) 1 = Suc (smr_steps res)"
      using x "1.prems" by (simp_all add: usize_saturating_add_eq)
    show ?thesis
    proof (cases "handle_exception env ?p exc")
      case None
      then have "env_step ex env (?s, m1) \<noteq> Some (Handled b, s)" for b s
        using x by (auto simp: handle_exception_def split: option.splits EcallOutcome.splits)
      from pvm_outcome.panicked [OF r(3) this] show ?thesis
        using x None by (simp add: eq r(1) Let_def exc)
    next
      case (Some bp)
      then obtain b p1 where h: "handle_exception env ?p exc = Some (b, p1)" by (cases bp) auto
      then have st: "env_step ex env (?s, m1) = Some (Handled b, (pvm_state p1))" and v: "pvm_version p1 = pvm_version p"
        using x by (auto simp: handle_exception_def split: option.splits EcallOutcome.splits)
      show ?thesis
      proof (cases b)
        case True
        have IH: "pvm_outcome ex env (k - Suc (smr_steps res)) (a + Suc (smr_steps res)) p1
            (step_many_accum ex env (k - Suc (smr_steps res)) (a + Suc (smr_steps res)) p1)"
          using "1.IH" [OF r(1) refl refl refl refl exc refl refl h refl eqTrueI [OF True]] x "1.prems" n
          by simp
        have "env_steps ex env (Suc (smr_steps res)) (pvm_state p) (pvm_state p1)"
          using env_steps_trans [OF r(3) env_steps_one] st True by simp
        from pvm_outcome_more [OF IH this _ v] show ?thesis
          using x h True n by (simp add: eq r(1) Let_def exc)
      next
        case False
        from pvm_outcome.stopped [OF r(3) _ _ v, where k = k and a = a] show ?thesis
          using x h n False st by (simp add: eq r(1) Let_def exc)
      qed
    qed
  qed
qed


section \<open>The interpreter as a run of single steps\<close>

abbreviation interpreter_state :: "Interpreter \<Rightarrow> PosixState \<times> MachineState" where
  "interpreter_state i \<equiv> (in_posix_state i, in_machine_state i)"

text \<open>
  Outcomes of at most \<open>k\<close> steps from \<open>i\<close>, with \<open>a\<close> steps made before.  A run without environment calls
  that its caller does not interrupt makes all steps.
\<close>

inductive interpreter_outcome ::
    "('s, 'd) Externs \<Rightarrow> ('c \<Rightarrow> MachineState \<Rightarrow> bool \<times> 'c) \<Rightarrow> nat \<Rightarrow> nat \<Rightarrow> Interpreter \<Rightarrow> InterpreterResult \<Rightarrow> Interpreter \<Rightarrow> bool"
  for ex sc where
  running: "env_steps ex (posix_env (ex_twiddle ex)) j (interpreter_state i) (interpreter_state i') \<Longrightarrow> j \<le> k \<Longrightarrow>
     ((\<forall>c m. fst (sc c m)) \<Longrightarrow> machine_steps ex j (in_machine_state i) (in_machine_state i') \<Longrightarrow> j = k) \<Longrightarrow>
     interpreter_outcome ex sc k a i (Running (a + j)) i'"
| exited: "env_steps ex (posix_env (ex_twiddle ex)) j (interpreter_state i) q \<Longrightarrow> j < k \<Longrightarrow>
     env_step ex (posix_env (ex_twiddle ex)) q = Some (Handled False, interpreter_state i') \<Longrightarrow>
     exit_code (in_posix_state i') = Some code \<Longrightarrow>
     interpreter_outcome ex sc k a i (Exit (unat code) (a + Suc j)) i'"
| excepted: "env_steps ex (posix_env (ex_twiddle ex)) j (interpreter_state i) q \<Longrightarrow> j < k \<Longrightarrow>
     step ex (snd q) = Some (Inl exc, m1) \<Longrightarrow>
     posix_handle_call (ex_twiddle ex) (fst q) m1 exc = Some (Fatal, interpreter_state i') \<Longrightarrow>
     interpreter_outcome ex sc k a i (Exception exc (a + j)) i'"

lemma machine_steps_next:
  "machine_steps ex j m m1 \<Longrightarrow> machine_steps ex n m m' \<Longrightarrow> j < n \<Longrightarrow> \<exists>m2. step ex m1 = Some (Inr (), m2)"
proof (induction arbitrary: n rule: machine_steps.induct)
  case (none m)
  then show ?case by (auto elim: machine_steps.cases)
next
  case (more_steps m m1 j m2)
  then show ?case by (cases n) (auto elim!: machine_steps_SucE)
qed

lemma interpreter_outcome_more:
  assumes "interpreter_outcome ex sc k' (a + j) i1 res i'" "j + k' \<le> k"
    and "env_steps ex (posix_env (ex_twiddle ex)) j (interpreter_state i) (interpreter_state i1)"
    and "\<And>n m'. j \<le> n \<Longrightarrow> \<not> machine_steps ex n (in_machine_state i) m'"
  shows "interpreter_outcome ex sc k a i res i'"
  using assms(1)
proof cases
  case (running l)
  then show ?thesis
    using interpreter_outcome.running [OF env_steps_trans [OF assms(3) running(2)], where k = k and a = a] assms(2,4)
    by (simp add: add.assoc)
next
  case (exited l q code)
  then show ?thesis
    using interpreter_outcome.exited [OF env_steps_trans [OF assms(3) exited(2)] _ exited(4,5), where k = k and a = a] assms(2)
    by (simp add: add.assoc)
next
  case (excepted l q exc m1)
  then show ?thesis
    using interpreter_outcome.excepted [OF env_steps_trans [OF assms(3) excepted(2)] _ excepted(4,5), where k = k and a = a] assms(2)
    by (simp add: add.assoc)
qed

lemma posix_handle_call_cases:
  assumes "posix_handle_call tw s m exc = Some (out, s', m')"
  obtains (fatal) "out = Fatal" "s' = s" "m' = m"
  | (trap) "out = Handled True" "s' = s" "exit_code s' = None"
  | (exits) code where "out = Handled False" "exit_code s' = Some code" "m' = m"
proof (cases "posix_exited s")
  case False
  then have "ps_exited s = 0" by (simp add: posix_exited_def word_gt_0)
  then show ?thesis
    using assms that False
    by (auto simp: posix_handle_call_def Let_def handle_exit_def exit_code_def posix_exited_def
        split: if_splits option.splits)
qed (use assms fatal in \<open>simp add: posix_handle_call_def\<close>)

lemma run_accum_outcome:
  fixes ex :: "('s, 'd) Externs"
  shows "d + k < 2 ^ 64 \<Longrightarrow> \<exists>res i'. run_accum ex i d k sc c = Some (res, i') \<and> interpreter_outcome ex sc k d i res i'"
proof (induction k arbitrary: d i c rule: less_induct)
  case (less k)
  let ?env = "posix_env (ex_twiddle ex)" and ?s = "in_posix_state i"
  obtain r c' m' m1 where r: "machine_step_many ex (in_machine_state i) k sc c = Some (r, c', m')"
    "smr_steps r \<le> k" "machine_steps ex (smr_steps r) (in_machine_state i) m1"
    "env_steps ex ?env (smr_steps r) (interpreter_state i) (?s, m1)"
    "smr_exception r = None \<Longrightarrow> m' = m1 \<and> (smr_steps r = k \<or> (\<exists>c1. sc c1 m' = (False, c')))"
    "\<And>exc. smr_exception r = Some exc \<Longrightarrow> smr_steps r < k \<and> step ex m1 = Some (Inl exc, m') \<and>
      env_step ex ?env (?s, m1) = posix_handle_call (ex_twiddle ex) ?s m' exc"
    using step_many_env [of ex "in_machine_state i" k sc c ?env ?s] unfolding posix_env_def ExecEnv.select_convs by metis
  have d: "usize_saturating_add (smr_steps r) d = d + smr_steps r"
    using less.prems r(2) by (simp add: usize_saturating_add_eq add.commute)
  note eq = run_accum.simps [of ex i d k sc c] handle_step_result.simps
  show ?case
  proof (cases "smr_exception r")
    case None
    have "(\<forall>c m. fst (sc c m)) \<Longrightarrow> smr_steps r = k"
      using r(5) [OF None] by (metis fst_conv)
    then have "interpreter_outcome ex sc k d i (Running (d + smr_steps r)) (i\<lparr>in_machine_state := m'\<rparr>)"
      using r(2,4) r(5) [OF None] by (intro interpreter_outcome.running) auto
    then show ?thesis
      by (simp add: eq r(1) d None)
  next
    case (Some exc)
    note x = r(6) [OF Some]
    have n: "usize_saturating_add (d + smr_steps r) 1 = d + Suc (smr_steps r)"
      using x less.prems by (simp add: usize_saturating_add_eq)
    obtain out s2 m2 where h: "posix_handle_call (ex_twiddle ex) ?s m' exc = Some (out, s2, m2)"
      using posix_handle_call_keeps by blast
    let ?i = "i\<lparr>in_posix_state := s2, in_machine_state := m2\<rparr>" and ?n = "d + Suc (smr_steps r)"
    note eqs = eq r(1) d Some h n n [unfolded One_nat_def] Let_def
    show ?thesis
      using h
    proof (cases rule: posix_handle_call_cases)
      case fatal
      then have "interpreter_outcome ex sc k d i (Exception exc (d + smr_steps r)) ?i"
        using x h by (intro interpreter_outcome.excepted [OF r(4)]) auto
      then show ?thesis
        by (simp add: eqs fatal)
    next
      case (exits code)
      then have "interpreter_outcome ex sc k d i (Exit (unat code) ?n) ?i"
        using x h by (intro interpreter_outcome.exited [OF r(4)]) auto
      then show ?thesis
        by (simp add: eqs exits)
    next
      case trap
      have steps: "env_steps ex ?env (Suc (smr_steps r)) (interpreter_state i) (interpreter_state ?i)"
        using env_steps_trans [OF r(4) env_steps_one, of "interpreter_state ?i"] x h trap by simp
      have no: "\<not> machine_steps ex n (in_machine_state i) m''" if "Suc (smr_steps r) \<le> n" for n m''
        using machine_steps_next [OF r(3), of n] x that by auto
      show ?thesis
      proof (cases "0 < k - ?n")
        case True
        then obtain res i' where IH: "run_accum ex ?i ?n (k - ?n) sc c' = Some (res, i')"
          "interpreter_outcome ex sc (k - ?n) ?n ?i res i'"
          using less.IH [of "k - ?n" ?n ?i c'] less.prems by auto
        have "interpreter_outcome ex sc k d i res i'"
          by (rule interpreter_outcome_more [OF IH(2) _ steps no]) (use True in auto)
        then show ?thesis
          using True IH(1) by (simp add: eqs trap(1,3))
      next
        case False
        have "interpreter_outcome ex sc k d i (Running ?n) ?i"
          by (rule interpreter_outcome.running [OF steps]) (use x no in auto)
        then show ?thesis
          using False by (simp add: eqs trap(1,3))
      qed
    qed
  qed
qed


section \<open>Properties of the drivers\<close>

lemma pvm_step_env:
  "pvm_step ex env p = Some (b, p') \<longleftrightarrow>
   b \<and> pvm_version p' = pvm_version p \<and> (\<exists>go. env_step ex env (pvm_state p) = Some (Handled go, pvm_state p'))"
  by (cases p; cases p')
    (auto simp: pvm_step_def env_step_def handle_exception_def split: option.splits sum.splits EcallOutcome.splits)


text \<open>
  C13: The interpreter always returns, after at most the allowed number of steps, in a state that is the
  result of the reported number of single steps.  It reports an exit with the exit code, or the
  call that could not be handled; a run without environment calls makes all steps that it was allowed.
  The invariant of the machine is kept.
\<close>
theorem interpreter_run_correct:
  assumes "k < 2 ^ 64"
  shows "\<exists>res i'. interpreter_run ex i k = Some (res, i') \<and> interpreter_outcome ex (\<lambda>_ _. (True, ())) k 0 i res i' \<and>
    keeps (in_machine_state i) (in_machine_state i')"
proof -
  obtain res i' where r: "run_accum ex i 0 k (\<lambda>_ _. (True, ())) () = Some (res, i')"
    "interpreter_outcome ex (\<lambda>_ _. (True, ())) k 0 i res i'"
    using run_accum_outcome [of 0 k ex i "\<lambda>_ _. (True, ())" "()"] assms by auto
  from r(2) have "keeps (in_machine_state i) (in_machine_state i')"
  proof cases
    case (running j)
    then show ?thesis using posix.env_steps_keeps by fastforce
  next
    case (exited j q code)
    then show ?thesis
      using posix.env_steps_keeps [OF exited(2)] posix.env_step_total [where tw = "ex_twiddle ex" and ex = ex and s = "fst q" and m = "snd q"]
      by (auto intro: keeps_trans)
  next
    case (excepted j q exc m1)
    then show ?thesis
      using posix.env_steps_keeps [OF excepted(2)] step_keeps [OF excepted(4)]
        posix_handle_call_keeps [of "ex_twiddle ex" "fst q" m1 exc]
      by (auto intro: keeps_trans)
  qed
  with r show ?thesis by (auto simp: interpreter_run_def)
qed

text \<open>
  C17: Exiting from the environment of the test suite: the exit code is set at most once, by an
  environment call from the configured mode with one of the two system call numbers, and ends the
  evaluation.  The code is zero for the two ways of reporting success and the first argument otherwise.
  After an exit no call is handled any more.
\<close>
theorem posix_exit_protocol:
  assumes "env_step ex (posix_env tw) (s, m) = Some (Handled go, s', m')"
  shows "(exit_code s \<noteq> None \<longrightarrow> s' = s \<and> step ex m = Some (Inr (), m')) \<and>
    (go \<longleftrightarrow> s' = s) \<and>
    (s' \<noteq> s \<longrightarrow> (\<exists>exc. step ex m = Some (Inl exc, m') \<and> source_mode exc = ps_exit_mode s \<and>
       (let a7 = xread (h_xregisters (ms_hart m')) x17; a0 = xread (h_xregisters (ms_hart m')) x10
        in (a7 = 93 \<or> a7 = 0) \<and>
           exit_code s' = Some (if a7 = 93 \<and> a0 = 0 \<or> a7 = 0 \<and> a0 = 1 then 0 else a0))))"
proof -
  obtain r m1 where st: "step ex m = Some (r, m1)"
    using step_total by blast
  have e: "\<not> posix_exited s \<Longrightarrow> ps_exited s = 0" by (simp add: posix_exited_def word_gt_0)
  have ne: "s\<lparr>ps_exited := 1, ps_code := x\<rparr> \<noteq> s" if "ps_exited s = 0" for x
    using that by (cases s) auto
  show ?thesis
    using assms st e
    by (cases r) (auto simp: env_step_def posix_env_def posix_handle_call_def handle_exit_def exit_code_def
      posix_exited_def Let_def ne split: if_splits option.splits dest: ne)
qed


section \<open>A program of environment calls\<close>

text \<open>A hart in machine mode at an environment call that is its own trap handler.\<close>

definition at_ecall :: "MachineState \<Rightarrow> bool" where
  "at_ecall m \<longleftrightarrow> machine_ok m \<and> h_mode (ms_hart m) = Machine \<and> h_pc (ms_hart m) = 0x80000000 \<and>
     bus_read (ms_bus m) 0x80000000 = Inr (encode Ecall) \<and>
     \<not> get_MIE (csr_registers (h_csregisters (ms_hart m)) csr_mstatus) \<and>
     csr_registers (h_csregisters (ms_hart m)) csr_mtvec = 0x80000000"

lemma at_ecall_step:
  assumes "at_ecall m"
  shows "step ex m = Some (Inl EE_EnvCallFromMMode, m)"
proof -
  have "get_pending_interrupt (ex_twiddle ex) m = None"
    using assms by (intro no_pending_machine) (simp_all add: at_ecall_def csr_read_plain)
  moreover have "fetch_instr ex m 0x80000000 = Inr Ecall"
    using assms by (intro fetch_encoded [of _ _ _ _ "0x80000000"]) (simp_all add: at_ecall_def machine_ok_def translate_machine_mode)
  ultimately show ?thesis
    using assms by (simp add: step_def step_at_env env_call_of_def at_ecall_def)
qed

lemma at_ecall_step_many:
  assumes "at_ecall m"
  shows "machine_step_many ex m (Suc k) (\<lambda>_ _. (True, ())) () =
    Some (\<lparr>smr_steps = 0, smr_exception = Some EE_EnvCallFromMMode\<rparr>, (), m)"
  by (simp add: machine_step_many_def step_many_loop.simps [of _ "Suc k"] at_ecall_step [OF assms])

lemma at_ecall_trap:
  assumes "at_ecall m" "\<not> posix_exited s" "ps_exit_mode s \<noteq> Machine"
  shows "\<exists>m'. posix_handle_call tw s m EE_EnvCallFromMMode = Some (Handled True, s, m') \<and> at_ecall m'"
proof -
  let ?c = "h_csregisters (ms_hart m)" and ?e = EnvCallFromMMode
  let ?c' = "trap_csrs exception_context ?c ?e TM_Machine Machine 0x80000000"
  let ?m = "m\<lparr>ms_hart := (ms_hart m)\<lparr>h_csregisters := ?c', h_mode := Machine, h_pc := 0x80000000\<rparr>\<rparr>"
  have legal: "csrs_legal ?c" using assms(1) by (simp add: at_ecall_def machine_ok_def)
  obtain w where w: "trap_mstatus TM_Machine Machine (csr_registers ?c csr_mstatus) = Some w"
    using trap_mstatus_total [of tw ?c exception_context ?e Machine] unfolding trap_mode_from_machine by blast
  have "\<not> get_MIE (csr_registers ?c' csr_mstatus)"
    using trap_csrs_mstatus [OF legal w, of exception_context ?e "0x80000000"] trap_mstatus_stacked [OF w]
    by (simp add: status_stacked_def)
  moreover have tvec: "csr_registers ?c' csr_mtvec = 0x80000000"
    using assms(1) by (subst trap_csrs_other) (simp_all add: at_ecall_def)
  ultimately have "at_ecall ?m"
    using assms(1) trap_csrs_legal [OF legal] by (simp add: at_ecall_def machine_ok_def)
  moreover have "take_trap tw exception_context (ms_hart m) ?e (h_pc (ms_hart m)) =
      Some (0x80000000, (ms_hart m)\<lparr>h_csregisters := ?c', h_mode := Machine\<rparr>)"
    using assms(1) tvec by (simp add: take_trap_eq [OF refl refl] trap_mode_from_machine at_ecall_def
        csr_read_plain exception_context_def exc_trap_handler_address_def)
  ultimately show ?thesis
    using assms(1-3) by (auto simp: posix_handle_call_def Let_def source_mode_def at_ecall_def)
qed

definition example_ecall :: "Bus \<Rightarrow> MachineState" where
  "example_ecall b =
     \<lparr>ms_hart = (ms_hart example_machine)\<lparr>
        h_xregisters := xwrite (xwrite \<lparr>xr_registers = \<lambda>_. 0\<rparr> x17 93) x10 7,
        h_csregisters := csr_write (csr_reset \<lparr>csr_registers = \<lambda>_. 0\<rparr>) csr_mtvec 0x80000000\<rparr>,
      ms_bus = b\<rparr>"

lemma example_at_ecall:
  "\<exists>b. bus_write example_bus 0x80000000 (encode Ecall) = Inr b \<and> at_ecall (example_ecall b)"
proof -
  obtain b where b: "bus_write example_bus 0x80000000 (encode Ecall) = Inr b" "bus_ok b"
    "bus_read b 0x80000000 = Inr (encode Ecall)"
    using example_write by blast
  have "csr_registers (csr_write (csr_reset \<lparr>csr_registers = \<lambda>_. 0\<rparr>) csr_mtvec 0x80000000) csr_mtvec = 0x80000000"
    by (subst csr_write_legal_value) (simp_all add: shadowed_def csr_legal_def writable_defs WARL_MASK_XTVEC_def shl64_def ones_mask mask_eq_exp_minus_1)
  then have "at_ecall (example_ecall b)"
    using b reset_MIE [of "\<lparr>csr_registers = \<lambda>_. 0\<rparr>"]
    by (simp add: at_ecall_def example_ecall_def example_machine_def machine_ok_def csr_write_legal csr_reset_legal
        csr_write_other shadowed_def csr_read_plain)
  with b show ?thesis by blast
qed


definition example_posix :: "Mode \<Rightarrow> PosixState" where
  "example_posix mode = set_exit_mode (posix_reset \<lparr>ps_code = 0, ps_exited = 0, ps_exit_mode = User\<rparr>) mode"

lemma example_posix_simps [simp]:
  "posix_exited (example_posix mode) = False" "ps_exit_mode (example_posix mode) = mode" "ps_exited (example_posix mode) = 0"
  by (simp_all add: example_posix_def posix_reset_def set_exit_mode_def posix_exited_def)

definition example_pvm :: "PosixState Pvm" where
  "example_pvm = \<lparr>pvm_version = INITIAL_VERSION, pvm_machine_state = example_machine, pvm_syscall_state = example_posix Machine\<rparr>"


theorem interpreter_run_correct_witness:
  "\<exists>res i'. interpreter_run example_externs \<lparr>in_posix_state = example_posix User, in_machine_state = example_machine\<rparr> 5 =
     Some (res, i') \<and> bus_BYTES (ms_bus (in_machine_state i')) = 1024"
  using interpreter_run_correct [of 5 example_externs "\<lparr>in_posix_state = example_posix User, in_machine_state = example_machine\<rparr>"]
  by (auto simp: keeps_def)

theorem posix_exit_protocol_witness:
  "\<exists>b s'. bus_write example_bus 0x80000000 (encode Ecall) = Inr b \<and>
     env_step example_externs (posix_env std_twiddle) (example_posix Machine, example_ecall b) =
       Some (Handled False, s', example_ecall b) \<and> exit_code s' = Some 7"
proof -
  obtain b where b: "bus_write example_bus 0x80000000 (encode Ecall) = Inr b" "at_ecall (example_ecall b)"
    using example_at_ecall by blast
  have x: "xread (h_xregisters (ms_hart (example_ecall b))) x17 = 93" "xread (h_xregisters (ms_hart (example_ecall b))) x10 = 7"
    by (simp_all add: example_ecall_def is_zero_def)
  let ?s = "(example_posix Machine)\<lparr>ps_exited := 1, ps_code := 7\<rparr>"
  have st: "env_step example_externs (posix_env std_twiddle) (example_posix Machine, example_ecall b) =
      Some (Handled False, ?s, example_ecall b)"
    by (simp add: env_step_def at_ecall_step [OF b(2)] posix_env_def posix_handle_call_def Let_def source_mode_def x
        handle_exit_def)
  from posix_exit_protocol [OF st] have "exit_code ?s = Some 7"
    by (auto simp: x)
  with b st show ?thesis by blast
qed

text \<open>
  Environment calls that are handled shorten a run of the interpreter: the steps made before are
  subtracted again from the steps that are left.  A program of environment calls makes four steps
  of ten in the interpreter, and all ten in the virtual machine.
\<close>

lemma run_accum_ecall:
  assumes "at_ecall m" "\<not> posix_exited s" "ps_exit_mode s \<noteq> Machine" "Suc d < 2 ^ 64"
  shows "\<exists>m'. at_ecall m' \<and>
    run_accum ex \<lparr>in_posix_state = s, in_machine_state = m\<rparr> d (Suc k) (\<lambda>_ _. (True, ())) () =
    (if d < k then run_accum ex \<lparr>in_posix_state = s, in_machine_state = m'\<rparr> (Suc d) (k - d) (\<lambda>_ _. (True, ())) ()
     else Some (Running (Suc d), \<lparr>in_posix_state = s, in_machine_state = m'\<rparr>))"
proof -
  obtain m' where m': "posix_handle_call (ex_twiddle ex) s m EE_EnvCallFromMMode = Some (Handled True, s, m')" "at_ecall m'"
    using at_ecall_trap [OF assms(1-3)] by blast
  have "usize_saturating_add 0 d = d" "usize_saturating_add d (Suc 0) = Suc d"
    using assms(4) by (simp_all add: usize_saturating_add_eq)
  then show ?thesis
    using m' assms(2)
    by (auto simp: run_accum.simps [of _ _ d] handle_step_result.simps at_ecall_step_many [OF assms(1)] Let_def exit_code_def)
qed

lemma at_ecall_env_steps:
  assumes "env_steps ex (posix_env tw) n q q'" "at_ecall (snd q)" "\<not> posix_exited (fst q)" "ps_exit_mode (fst q) \<noteq> Machine"
  shows "fst q' = fst q \<and> at_ecall (snd q')"
  using assms
proof (induction rule: env_steps.induct)
  case (env_more q q1 n q2)
  then show ?case
    using at_ecall_trap [OF env_more.prems, of tw]
    by (cases q; cases q1) (auto simp: env_step_def at_ecall_step posix_env_def)
qed simp

lemma at_ecall_env_step:
  "\<lbrakk>at_ecall m; \<not> posix_exited s; ps_exit_mode s \<noteq> Machine\<rbrakk> \<Longrightarrow>
   \<exists>m'. env_step ex (posix_env tw) (s, m) = Some (Handled True, s, m')"
  using at_ecall_trap [of m s tw] by (auto simp: env_step_def at_ecall_step posix_env_def)

lemma interpreter_run_short:
  assumes "at_ecall m" "\<not> posix_exited s" "ps_exit_mode s \<noteq> Machine"
  shows "\<exists>m1. interpreter_run ex \<lparr>in_posix_state = s, in_machine_state = m\<rparr> 10 =
    Some (Running 4, \<lparr>in_posix_state = s, in_machine_state = m1\<rparr>)"
proof -
  note step = run_accum_ecall [where ex = ex, OF _ assms(2,3)]
  obtain m1 where 1: "at_ecall m1" "interpreter_run ex \<lparr>in_posix_state = s, in_machine_state = m\<rparr> 10 =
      run_accum ex \<lparr>in_posix_state = s, in_machine_state = m1\<rparr> 1 9 (\<lambda>_ _. (True, ())) ()"
    using step [OF assms(1), of 0 9] by (auto simp: interpreter_run_def)
  obtain m2 where 2: "at_ecall m2" "run_accum ex \<lparr>in_posix_state = s, in_machine_state = m1\<rparr> 1 9 (\<lambda>_ _. (True, ())) () =
      run_accum ex \<lparr>in_posix_state = s, in_machine_state = m2\<rparr> 2 7 (\<lambda>_ _. (True, ())) ()"
    using step [OF 1(1), of 1 8] by (auto simp flip: numeral_2_eq_2)
  obtain m3 where 3: "at_ecall m3" "run_accum ex \<lparr>in_posix_state = s, in_machine_state = m2\<rparr> 2 7 (\<lambda>_ _. (True, ())) () =
      run_accum ex \<lparr>in_posix_state = s, in_machine_state = m3\<rparr> 3 4 (\<lambda>_ _. (True, ())) ()"
    using step [OF 2(1), of 2 6] by auto
  show ?thesis
    using step [OF 3(1), of 3 3] 1(2) 2(2) 3(2) by auto
qed

lemma pvm_run_full:
  assumes "at_ecall m" "\<not> posix_exited s" "ps_exit_mode s \<noteq> Machine"
  shows "\<exists>p'. pvm_step_many ex (posix_env tw) \<lparr>pvm_version = v, pvm_machine_state = m, pvm_syscall_state = s\<rparr> 10 = Some (10, p')"
proof -
  let ?p = "\<lparr>pvm_version = v, pvm_machine_state = m, pvm_syscall_state = s\<rparr>"
  have go: "\<exists>q'. env_step ex (posix_env tw) q = Some (Handled True, q')" if "env_steps ex (posix_env tw) j (s, m) q" for j q
    using at_ecall_env_steps [OF that] assms at_ecall_env_step [of "snd q" s ex tw] by auto
  have "pvm_outcome ex (posix_env tw) 10 0 ?p (pvm_step_many ex (posix_env tw) ?p 10)"
    unfolding pvm_step_many_def by (rule step_many_accum_outcome) simp
  then show ?thesis
  proof cases
    case (panicked j q)
    then show ?thesis using go [of j q] by fastforce
  qed (auto dest: go)
qed

end
