(* ===== verification/MIR_Prelude.thy ===== *)
theory MIR_Prelude
  imports RV_Prelude
begin

text \<open>
  What the theories of the Michelson interpreter (\<open>contrib/mir\<close>) share: Rust strings as the
  lists of their bytes, big-endian lengths, and sequencing of fallible computations.

  A Rust \<open>String\<close> is its UTF-8 byte sequence, a \<open>string\<close> of HOL (a list of 8-bit characters).
  \<open>BigInt\<close> and \<open>BigUint\<close> (\<open>num_bigint\<close>) are the integers and the naturals.
\<close>

named_theorems mir_defs \<open>definitions of the non-recursive operations of MIR\<close>

type_synonym bytes = "u8 list"

section \<open>Strings and bytes\<close>

definition as_bytes :: "string \<Rightarrow> bytes" where
  "as_bytes s = map (\<lambda>c. word_of_nat (of_char c)) s"

definition from_utf8_unchecked :: "bytes \<Rightarrow> string" where
  "from_utf8_unchecked bs = map (\<lambda>b. char_of (unat b)) bs"

lemma unat_word_of_char [simp]: "unat (word_of_nat (of_char c) :: u8) = of_char c"
  by (simp add: unat_of_nat take_bit_nat_def)

lemma unat_u8_mod_256 [simp]: "unat (b :: u8) mod 256 = unat b"
  using unsigned_less [of b, where ?'a = nat] by simp

lemma from_utf8_as_bytes [simp]: "from_utf8_unchecked (as_bytes s) = s"
  by (induction s) (auto simp: from_utf8_unchecked_def as_bytes_def)

lemma as_bytes_from_utf8 [simp]: "as_bytes (from_utf8_unchecked bs) = bs"
  by (induction bs) (auto simp: from_utf8_unchecked_def as_bytes_def)

lemma length_as_bytes [simp]: "length (as_bytes s) = length s"
  by (simp add: as_bytes_def)

lemma as_bytes_inject [simp]: "as_bytes s = as_bytes t \<longleftrightarrow> s = t"
  by (metis from_utf8_as_bytes)

section \<open>Big-endian numbers\<close>

definition to_be_bytes :: "'a::len word \<Rightarrow> bytes" where
  "to_be_bytes w = rev (to_le_bytes w)"

definition from_be_bytes :: "bytes \<Rightarrow> 'a::len word" where
  "from_be_bytes bs = from_le_bytes (rev bs)"

lemma length_to_be_bytes [simp]: "length (to_be_bytes (w :: 'a::len word)) = LENGTH('a) div 8"
  by (simp add: to_be_bytes_def)

lemma from_to_be_bytes_u32 [simp]: "from_be_bytes (to_be_bytes (w :: u32)) = w"
  by (simp add: from_be_bytes_def to_be_bytes_def from_to_le_bytes)

section \<open>Outcomes\<close>

text \<open>
  A call returns, fails with an error, or panics.  \<open>Unreachable\<close> stands for the panics that only
  an ill-typed program could reach: \<open>unreachable_state\<close>, \<open>irrefutable_match!\<close>, an access outside
  the stack and the \<open>expect\<close>s of the interpreter.
\<close>

datatype PanicReason =
    Unreachable
  | GasExhausted \<comment> \<open>``Access to gas after exhaustion''\<close>
  | Incomparable \<comment> \<open>comparison of incomparable values\<close>
  | CapacityOverflow \<comment> \<open>allocation of a vector of wrapped-around length\<close>
  | CharBoundary \<comment> \<open>a string sliced inside a character\<close>
  | SliceBounds \<comment> \<open>a byte slice out of range\<close>
  | StackBounds \<comment> \<open>``out of bounds stack access'' in the type checker\<close>
  | StoragePanic \<comment> \<open>``Non-existent big map by id''\<close>
  | UnwrapFailed

datatype ('e, 'a) outcome = Ok 'a | Err 'e | Panic PanicReason

definition bind_outcome :: "('e, 'a) outcome \<Rightarrow> ('a \<Rightarrow> ('e, 'b) outcome) \<Rightarrow> ('e, 'b) outcome" where
  "bind_outcome m k = (case m of Ok x \<Rightarrow> k x | Err e \<Rightarrow> Err e | Panic p \<Rightarrow> Panic p)"

definition map_outcome :: "('a \<Rightarrow> 'b) \<Rightarrow> ('e, 'a) outcome \<Rightarrow> ('e, 'b) outcome" where
  "map_outcome f m = bind_outcome m (\<lambda>x. Ok (f x))"

definition map_err_outcome :: "('e \<Rightarrow> 'f) \<Rightarrow> ('e, 'a) outcome \<Rightarrow> ('f, 'a) outcome" where
  "map_err_outcome f m = (case m of Ok x \<Rightarrow> Ok x | Err e \<Rightarrow> Err (f e) | Panic p \<Rightarrow> Panic p)"

definition ok_or :: "'a option \<Rightarrow> 'e \<Rightarrow> ('e, 'a) outcome" where
  "ok_or x e = (case x of Some a \<Rightarrow> Ok a | None \<Rightarrow> Err e)"

lemma bind_outcome_simps [simp]:
  "bind_outcome (Ok x) k = k x"
  "bind_outcome (Err e) k = Err e"
  "bind_outcome (Panic p) k = Panic p"
  by (simp_all add: bind_outcome_def)

lemma map_outcome_simps [simp]:
  "map_outcome f (Ok x) = Ok (f x)"
  "map_outcome f (Err e) = Err e"
  "map_outcome f (Panic p) = Panic p"
  by (simp_all add: map_outcome_def)

lemma map_err_outcome_simps [simp]:
  "map_err_outcome f (Ok x) = Ok x"
  "map_err_outcome f (Err e) = Err (f e)"
  "map_err_outcome f (Panic p) = Panic p"
  by (simp_all add: map_err_outcome_def)

lemma ok_or_simps [simp]: "ok_or (Some x) e = Ok x" "ok_or None e = Err e"
  by (simp_all add: ok_or_def)

lemma bind_outcome_cong [fundef_cong]:
  "m = m' \<Longrightarrow> (\<And>x. m' = Ok x \<Longrightarrow> k x = k' x) \<Longrightarrow> bind_outcome m k = bind_outcome m' k'"
  by (cases m') simp_all

lemma bind_outcome_Ok:
  "bind_outcome m k = Ok y \<longleftrightarrow> (\<exists>x. m = Ok x \<and> k x = Ok y)"
  by (cases m) simp_all

lemma bind_outcome_Panic:
  "bind_outcome m k = Panic p \<longleftrightarrow> m = Panic p \<or> (\<exists>x. m = Ok x \<and> k x = Panic p)"
  by (cases m) simp_all

lemma map_outcome_Ok: "map_outcome f m = Ok y \<longleftrightarrow> (\<exists>x. m = Ok x \<and> y = f x)"
  by (cases m) auto

lemma map_outcome_Panic: "map_outcome f m = Panic p \<longleftrightarrow> m = Panic p"
  by (cases m) auto

lemma map_err_outcome_Ok: "map_err_outcome f m = Ok y \<longleftrightarrow> m = Ok y"
  by (cases m) auto

lemma map_err_outcome_Panic: "map_err_outcome f m = Panic p \<longleftrightarrow> m = Panic p"
  by (cases m) auto

section \<open>Character boundaries\<close>

text \<open>
  \<open>str::is_char_boundary\<close> for an index within the string: a byte of the form \<open>10xxxxxx\<close> continues
  a character.
\<close>

definition is_char_boundary :: "string \<Rightarrow> nat \<Rightarrow> bool" where
  "is_char_boundary s i \<longleftrightarrow>
     i = 0 \<or> i = length s \<or>
     (i < length s \<and> (of_char (s ! i) < (128 :: nat) \<or> of_char (s ! i) \<ge> (192 :: nat)))"

text \<open>\<open>&data[0..n]\<close>, which panics outside the string and inside a character.\<close>

definition str_prefix :: "nat \<Rightarrow> string \<Rightarrow> ('e, string) outcome" where
  "str_prefix n s = (if is_char_boundary s n then Ok (take n s) else Panic CharBoundary)"

lemma str_prefix_cases:
  "str_prefix n s \<noteq> Err e" "str_prefix n s = Panic p \<Longrightarrow> p = CharBoundary"
  by (auto simp: str_prefix_def split: if_splits)

end
