(* ===== verification/MIR_Micheline.thy ===== *)
theory MIR_Micheline
  imports MIR_Prelude
begin

text \<open>
  Micheline, the untyped syntax of Michelson (\<open>contrib/mir/src/lexer.rs\<close>, \<open>ast/micheline.rs\<close>,
  \<open>ast/annotations.rs\<close>): the primitives in the order of the source, which is the order of their
  binary codes, annotations, and the Micheline trees.  Trees are values, so the arena that
  owns the children in the source has no counterpart.
\<close>

section \<open>Primitives\<close>

text \<open>
  The macro \<open>defprim!\<close> makes an enum whose variants are read and printed as their names.  Here a
  primitive is its name, and \<open>prims\<close> lists the variants in the order of the declaration.  The enum
  is \<open>repr(u8)\<close>, so the discriminant of a primitive is its position in that list.
\<close>

type_synonym Prim = string

definition prims :: "Prim list" where
  "prims = [
    ''parameter'', ''storage'', ''code'', ''False'', ''Elt'', ''Left'', ''None'', ''Pair'',
    ''Right'', ''Some'', ''True'', ''Unit'', ''PACK'', ''UNPACK'', ''BLAKE2B'', ''SHA256'',
    ''SHA512'', ''ABS'', ''ADD'', ''AMOUNT'', ''AND'', ''BALANCE'', ''CAR'', ''CDR'',
    ''CHECK_SIGNATURE'', ''COMPARE'', ''CONCAT'', ''CONS'', ''CREATE_ACCOUNT'',
    ''CREATE_CONTRACT'', ''IMPLICIT_ACCOUNT'', ''DIP'', ''DROP'', ''DUP'', ''EDIV'',
    ''EMPTY_MAP'', ''EMPTY_SET'', ''EQ'', ''EXEC'', ''FAILWITH'', ''GE'', ''GET'', ''GT'',
    ''HASH_KEY'', ''IF'', ''IF_CONS'', ''IF_LEFT'', ''IF_NONE'', ''INT'', ''LAMBDA'', ''LE'',
    ''LEFT'', ''LOOP'', ''LSL'', ''LSR'', ''LT'', ''MAP'', ''MEM'', ''MUL'', ''NEG'', ''NEQ'',
    ''NIL'', ''NONE'', ''NOT'', ''NOW'', ''OR'', ''PAIR'', ''PUSH'', ''RIGHT'', ''SIZE'',
    ''SOME'', ''SOURCE'', ''SENDER'', ''SELF'', ''STEPS_TO_QUOTA'', ''SUB'', ''SWAP'',
    ''TRANSFER_TOKENS'', ''SET_DELEGATE'', ''UNIT'', ''UPDATE'', ''XOR'', ''ITER'',
    ''LOOP_LEFT'', ''ADDRESS'', ''CONTRACT'', ''ISNAT'', ''CAST'', ''RENAME'', ''bool'',
    ''contract'', ''int'', ''key'', ''key_hash'', ''lambda'', ''list'', ''map'', ''big_map'',
    ''nat'', ''option'', ''or'', ''pair'', ''set'', ''signature'', ''string'', ''bytes'',
    ''mumav'', ''timestamp'', ''unit'', ''operation'', ''address'', ''SLICE'', ''DIG'',
    ''DUG'', ''EMPTY_BIG_MAP'', ''APPLY'', ''chain_id'', ''CHAIN_ID'', ''LEVEL'',
    ''SELF_ADDRESS'', ''never'', ''NEVER'', ''UNPAIR'', ''VOTING_POWER'',
    ''TOTAL_VOTING_POWER'', ''KECCAK'', ''SHA3'', ''PAIRING_CHECK'', ''bls12_381_g1'',
    ''bls12_381_g2'', ''bls12_381_fr'', ''sapling_state'', ''sapling_transaction_deprecated'',
    ''SAPLING_EMPTY_STATE'', ''SAPLING_VERIFY_UPDATE'', ''ticket'', ''TICKET_DEPRECATED'',
    ''READ_TICKET'', ''SPLIT_TICKET'', ''JOIN_TICKETS'', ''GET_AND_UPDATE'', ''chest'',
    ''chest_key'', ''OPEN_CHEST'', ''VIEW'', ''view'', ''constant'', ''SUB_MUMAV'',
    ''tx_rollup_l2_address'', ''MIN_BLOCK_TIME'', ''sapling_transaction'', ''EMIT'',
    ''Lambda_rec'', ''LAMBDA_REC'', ''TICKET'', ''BYTES'', ''NAT'', ''Transfer_tokens'',
    ''Set_delegate'', ''Create_contract'', ''Emit'']"

definition prim_COUNT :: nat where
  "prim_COUNT = length prims"

definition prim_as_u8 :: "Prim \<Rightarrow> u8" where
  "prim_as_u8 p = word_of_nat (length (takeWhile (\<lambda>q. q \<noteq> p) prims))"

definition prim_transmute :: "u8 \<Rightarrow> Prim" where
  "prim_transmute b = prims ! unat b"

definition prim_encode :: "Prim \<Rightarrow> bytes \<Rightarrow> bytes" where
  "prim_encode p out = out @ [prim_as_u8 p]"

section \<open>Annotations\<close>

datatype Annotation =
    Special string
  | Field string
  | Variable string
  | Type_ann string

type_synonym Annotations = "Annotation list"

abbreviation NO_ANNS :: Annotations where
  "NO_ANNS \<equiv> []"

datatype AnnotationError = TooManyFieldAnns string

text \<open>The loop of \<open>get_single_field_ann\<close>, with the field annotation found so far.\<close>

fun get_single_field_ann_from ::
  "string option \<Rightarrow> Annotations \<Rightarrow> (AnnotationError, string option) result" where
  "get_single_field_ann_from res [] = Inr res"
| "get_single_field_ann_from res (Field s # anns) =
     (if res = None then get_single_field_ann_from (Some s) anns else Inl (TooManyFieldAnns s))"
| "get_single_field_ann_from res (_ # anns) = get_single_field_ann_from res anns"

definition get_single_field_ann :: "Annotations \<Rightarrow> (AnnotationError, string option) result" where
  "get_single_field_ann anns = get_single_field_ann_from None anns"

text \<open>\<open>try_ann_from_str\<close>; the outer \<open>None\<close> is the out-of-bounds access on the empty string.\<close>

fun try_ann_from_str :: "string \<Rightarrow> Annotation option option" where
  "try_ann_from_str s =
     (if s = ''@%'' \<or> s = ''@%%'' \<or> s = ''%@'' then Some (Some (Special s))
      else case s of
        [] \<Rightarrow> None
      | c # cs \<Rightarrow>
          Some (if c = CHR ''@'' then Some (Variable cs)
                else if c = CHR ''%'' then Some (Field cs)
                else if c = CHR '':'' then Some (Type_ann cs)
                else None))"

section \<open>Micheline\<close>

datatype Micheline =
    Mich_Int int
  | Mich_String string
  | Mich_Bytes bytes
  | App Prim "Micheline list" Annotations
  | Seq "Micheline list"

definition prim0 :: "Prim \<Rightarrow> Micheline" where
  "prim0 p = App p [] NO_ANNS"

definition prim1 :: "Prim \<Rightarrow> Micheline \<Rightarrow> Micheline" where
  "prim1 p arg = App p [arg] NO_ANNS"

definition prim2 :: "Prim \<Rightarrow> Micheline \<Rightarrow> Micheline \<Rightarrow> Micheline" where
  "prim2 p arg1 arg2 = App p [arg1, arg2] NO_ANNS"

definition prim3 :: "Prim \<Rightarrow> Micheline \<Rightarrow> Micheline \<Rightarrow> Micheline \<Rightarrow> Micheline" where
  "prim3 p arg1 arg2 arg3 = App p [arg1, arg2, arg3] NO_ANNS"

section \<open>Codes of primitives\<close>

lemma prim_COUNT_eq: "prim_COUNT = 161"
  by (simp add: prim_COUNT_def prims_def)

lemma takeWhile_neq_nth:
  assumes "x \<in> set xs"
  shows "length (takeWhile (\<lambda>y. y \<noteq> x) xs) < length xs"
    and "xs ! length (takeWhile (\<lambda>y. y \<noteq> x) xs) = x"
  using assms by (induction xs) auto

lemma unat_prim_as_u8:
  assumes "p \<in> set prims"
  shows "unat (prim_as_u8 p) = length (takeWhile (\<lambda>q. q \<noteq> p) prims)"
  using takeWhile_neq_nth(1) [OF assms] prim_COUNT_eq
  by (simp add: prim_as_u8_def unat_of_nat take_bit_nat_def prim_COUNT_def)

lemma prim_as_u8_less: "p \<in> set prims \<Longrightarrow> unat (prim_as_u8 p) < prim_COUNT"
  using takeWhile_neq_nth(1) [of p prims] by (simp add: unat_prim_as_u8 prim_COUNT_def)

lemma prim_transmute_as_u8 [simp]: "p \<in> set prims \<Longrightarrow> prim_transmute (prim_as_u8 p) = p"
  using takeWhile_neq_nth(2) [of p prims] by (simp add: prim_transmute_def unat_prim_as_u8)

lemma prim_transmute_in_prims: "unat b < prim_COUNT \<Longrightarrow> prim_transmute b \<in> set prims"
  by (simp add: prim_transmute_def prim_COUNT_def)

end
