(* ===== verification/MIR_Ast.thy ===== *)
theory MIR_Ast
  imports MIR_Micheline
begin

text \<open>
  The typed representation of Michelson (\<open>contrib/mir/src/ast.rs\<close> and \<open>ast/\<close>): types, values,
  closures, operations and instructions, the addresses and keys with their byte representations,
  the conversion of types and values back to Micheline, and the order of comparable values.

  A \<open>BTreeSet\<close> is the ascending list of its elements and a \<open>BTreeMap\<close> the list of its bindings
  in ascending order of the keys.  Indices of type \<open>u16\<close> are naturals (the type checker bounds
  them by 1023), a \<open>u128\<close> counter is a 128-bit word, and an amount of \<open>mumav\<close>, an \<open>i64\<close>, is an
  integer whose arithmetic is checked or wrapped where the source does so.  The elements of the
  BLS12-381 groups, opaque in the package \<open>blst\<close>, are represented by their byte strings.
\<close>

section \<open>Types\<close>

datatype Type =
    T_Nat | T_Int | T_Bool | T_Mumav | T_String | T_Unit | T_Never | T_Pair Type Type
    | T_Option Type | T_List Type | T_Operation | T_Set Type | T_Map Type Type
    | T_BigMap Type Type | T_Or Type Type | T_Contract Type | T_Address | T_ChainId | T_Bytes
    | T_Key | T_Signature | T_KeyHash | T_Lambda Type Type | T_Ticket Type | T_Timestamp
    | T_Bls12381Fr | T_Bls12381G1 | T_Bls12381G2

fun size_for_gas :: "Type \<Rightarrow> nat" where
  "size_for_gas (T_Pair l r) = 1 + size_for_gas l + size_for_gas r"
| "size_for_gas (T_Or l r) = 1 + size_for_gas l + size_for_gas r"
| "size_for_gas (T_Map k v) = 1 + size_for_gas k + size_for_gas v"
| "size_for_gas (T_BigMap k v) = 1 + size_for_gas k + size_for_gas v"
| "size_for_gas (T_Lambda a b) = 1 + size_for_gas a + size_for_gas b"
| "size_for_gas (T_Option x) = 1 + size_for_gas x"
| "size_for_gas (T_List x) = 1 + size_for_gas x"
| "size_for_gas (T_Set x) = 1 + size_for_gas x"
| "size_for_gas (T_Contract x) = 1 + size_for_gas x"
| "size_for_gas (T_Ticket x) = 1 + size_for_gas x"
| "size_for_gas _ = 1"

section \<open>Addresses, keys and signatures\<close>

text \<open>The hashes and keys of the package \<open>mavryk_crypto_rs\<close> wrap byte vectors.\<close>

datatype KeyHash = Tz1 bytes | Tz2 bytes | Tz3 bytes | Mv4 bytes

datatype AddressHash = Implicit KeyHash | Kt1 bytes | Sr1 bytes

type_synonym Entrypoint = string

datatype Address = Address (address_hash: AddressHash) (address_entrypoint: Entrypoint)

datatype Key = Key_Ed25519 bytes | Key_Secp256k1 bytes | Key_P256 bytes | Key_Bls bytes

datatype Signature =
    Sig_Ed25519 bytes | Sig_Secp256k1 bytes | Sig_P256 bytes | Sig_Bls bytes | Sig_Generic bytes

type_synonym ChainId = bytes

section \<open>Overloads of instructions\<close>

datatype Add_ovl =
    Add_IntInt | Add_NatNat | Add_IntNat | Add_NatInt | Add_MumavMumav | Add_Bls12381G1
    | Add_Bls12381G2 | Add_Bls12381Fr | Add_TimestampInt | Add_IntTimestamp
datatype Sub_ovl =
    Sub_NatNat | Sub_NatInt | Sub_IntNat | Sub_IntInt | Sub_TimestampInt | Sub_TimestampTimestamp
datatype And_ovl = And_Bool | And_NatNat | And_IntNat | And_Bytes
datatype Or_ovl = Or_Bool | Or_Nat | Or_Bytes
datatype Xor_ovl = Xor_Bool | Xor_Nat | Xor_Bytes
datatype Not_ovl = Not_Bool | Not_Nat | Not_Int | Not_Bytes
datatype Mem_ovl = Mem_Set | Mem_Map | Mem_BigMap
datatype Mul_ovl =
    Mul_NatNat | Mul_NatInt | Mul_IntNat | Mul_IntInt | Mul_MumavNat | Mul_NatMumav
    | Mul_Bls12381G1Bls12381Fr | Mul_Bls12381G2Bls12381Fr | Mul_Bls12381FrBls12381Fr
    | Mul_NatBls12381Fr | Mul_IntBls12381Fr | Mul_Bls12381FrNat | Mul_Bls12381FrInt
datatype EDiv_ovl =
    EDiv_NatNat | EDiv_NatInt | EDiv_IntNat | EDiv_IntInt | EDiv_MumavNat | EDiv_MumavMumav
datatype Neg_ovl = Neg_Nat | Neg_Int | Neg_Bls12381G1 | Neg_Bls12381G2 | Neg_Bls12381Fr
datatype Lsl_ovl = Lsl_Nat | Lsl_Bytes
datatype Lsr_ovl = Lsr_Nat | Lsr_Bytes
datatype Get_ovl = Get_Map | Get_BigMap
datatype Update_ovl = Update_Set | Update_Map | Update_BigMap
datatype GetAndUpdate_ovl = GetAndUpdate_Map | GetAndUpdate_BigMap
datatype Size_ovl = Size_String | Size_Bytes | Size_List | Size_Set | Size_Map
datatype Iter_ovl = Iter_List | Iter_Set | Iter_Map
datatype Slice_ovl = Slice_String | Slice_Bytes
datatype Concat_ovl =
    Concat_TwoStrings | Concat_TwoBytes | Concat_ListOfStrings | Concat_ListOfBytes
datatype Int_ovl = Int_Nat | Int_Bls12381Fr | Int_Bytes
datatype Bytes_ovl = Bytes_Int | Bytes_Nat
datatype Map_ovl = Map_List | Map_Option | Map_Map

section \<open>Instructions and values\<close>

text \<open>
  The instructions that carry neither code nor values form three types of their own: arithmetic,
  logic and comparison; the stack and data structures; tickets, cryptography and the chain.
\<close>

datatype (plugins only:) ArithInstruction =
    I_Add Add_ovl | I_Sub Sub_ovl | I_Mul Mul_ovl | I_EDiv EDiv_ovl | I_Neg Neg_ovl
    | I_Lsl Lsl_ovl | I_Lsr Lsr_ovl | I_SubMumav | I_And And_ovl | I_Or Or_ovl | I_Xor Xor_ovl
    | I_Not Not_ovl | I_Gt | I_Ge | I_Eq | I_Neq | I_Lt | I_Le | I_Abs | I_IsNat | I_Int Int_ovl
    | I_Nat | I_Bytes Bytes_ovl | I_Compare

datatype (plugins only:) DataInstruction =
    I_Drop "nat option" | I_Dup "nat option" | I_Dig nat | I_Dug nat | I_Swap | I_Failwith Type
    | I_Never | I_Unit | I_Car | I_Cdr | I_Pair | I_PairN nat | I_ISome | I_None | I_Nil
    | I_EmptySet | I_EmptyBigMap Type Type | I_Mem Mem_ovl | I_Get Get_ovl | I_GetN nat
    | I_Update Update_ovl | I_GetAndUpdate GetAndUpdate_ovl | I_Concat Concat_ovl
    | I_Size Size_ovl | I_UpdateN nat | I_Unpair | I_UnpairN nat | I_Cons | I_Pack
    | I_Unpack Type | I_Slice Slice_ovl | I_Left | I_Right | I_Apply Type

datatype (plugins only:) ChainInstruction =
    I_Amount | I_ChainId | I_ISelf Entrypoint | I_CheckSignature | I_TransferTokens
    | I_SetDelegate | I_Address | I_HashKey | I_Ticket | I_ReadTicket | I_SplitTicket
    | I_JoinTickets | I_Blake2b | I_Keccak | I_Sha256 | I_Sha3 | I_Sha512 | I_Balance
    | I_Contract Type Entrypoint | I_Level | I_MinBlockTime | I_SelfAddress | I_Sender
    | I_Source | I_Now | I_ImplicitAccount | I_VotingPower | I_TotalVotingPower
    | I_Emit "string option" "Type + Micheline" | I_PairingCheck

text \<open>
  A \<open>BigMap\<close> is its identifier, overlay, key type and value type; an \<open>OperationInfo\<close> is the
  operation with its counter; a \<open>Ticket\<close> is the ticketer, the content and the amount.
\<close>

datatype (plugins only: size) TypedValue =
    V_Int int | V_Nat nat | V_Mumav int | V_Bool bool | V_String string | V_Unit
  | V_Pair TypedValue TypedValue
  | V_Option "TypedValue option"
  | V_List "TypedValue list"
  | V_Set "TypedValue list"
  | V_Map "(TypedValue \<times> TypedValue) list"
  | V_BigMap "int option" "(TypedValue \<times> TypedValue option) list" Type Type
  | V_Or "TypedValue + TypedValue"
  | V_Address Address | V_ChainId ChainId | V_Contract Address | V_Bytes bytes | V_Key Key
  | V_Signature Signature
  | V_Lambda Closure
  | V_KeyHash KeyHash
  | V_Operation Operation u128
  | V_Ticket AddressHash TypedValue nat
  | V_Timestamp int | V_Bls12381Fr bytes | V_Bls12381G1 bytes | V_Bls12381G2 bytes
and Closure =
    C_Lambda Lambda
  | C_Apply Type TypedValue Closure
and Lambda =
    L_Lambda Micheline "Instruction list"
  | L_LambdaRec Type Type Micheline "Instruction list"
and Operation =
    TransferTokens TypedValue Address int
  | SetDelegate "KeyHash option"
  | Emit "string option" TypedValue "Type + Micheline"
  | CreateContract "KeyHash option" int TypedValue ContractScript Micheline
and ContractScript = ContractScript Type Type Instruction
and Instruction =
    I_Arith ArithInstruction | I_Data DataInstruction | I_Chain ChainInstruction
  | I_Dip "nat option" "Instruction list"
  | I_If "Instruction list" "Instruction list"
  | I_IfNone "Instruction list" "Instruction list"
  | I_IfCons "Instruction list" "Instruction list"
  | I_IfLeft "Instruction list" "Instruction list"
  | I_Loop "Instruction list"
  | I_LoopLeft "Instruction list"
  | I_Iter Iter_ovl "Instruction list"
  | I_Map Map_ovl "Instruction list"
  | I_Push TypedValue
  | I_Lambda Lambda
  | I_Exec
  | I_CreateContract ContractScript Micheline
  | I_Seq "Instruction list"

end
