(* ===== verification/MIR_Serializer.thy ===== *)
theory MIR_Serializer
  imports MIR_Micheline
begin

text \<open>
  The binary format of Micheline (\<open>contrib/mir/src/serializer\<close>): \<open>encode.rs\<close> writes a tree at the
  end of a buffer, \<open>decode.rs\<close> reads it back from a byte iterator.  Integers are written by the
  type \<open>Zarith\<close> of the package \<open>mavryk_data_encoding\<close>, which is a parameter here
  (\<open>zarith_write\<close>) with the format it documents as the hypothesis \<open>zarith_ok\<close>.

  A read returns the value with the bytes left, an error, or a panic.
\<close>

section \<open>Tags\<close>

definition NUMBER_TAG :: u8 where "NUMBER_TAG = 0x00"
definition STRING_TAG :: u8 where "STRING_TAG = 0x01"
definition SEQ_TAG :: u8 where "SEQ_TAG = 0x02"
definition BYTES_TAG :: u8 where "BYTES_TAG = 0x0a"
definition APP_NO_ARGS_NO_ANNOTS_TAG :: u8 where "APP_NO_ARGS_NO_ANNOTS_TAG = 0x03"
definition APP_NO_ARGS_WITH_ANNOTS_TAG :: u8 where "APP_NO_ARGS_WITH_ANNOTS_TAG = 0x04"
definition APP_ONE_ARG_NO_ANNOTS_TAG :: u8 where "APP_ONE_ARG_NO_ANNOTS_TAG = 0x05"
definition APP_ONE_ARG_WITH_ANNOTS_TAG :: u8 where "APP_ONE_ARG_WITH_ANNOTS_TAG = 0x06"
definition APP_TWO_ARGS_NO_ANNOTS_TAG :: u8 where "APP_TWO_ARGS_NO_ANNOTS_TAG = 0x07"
definition APP_TWO_ARGS_WITH_ANNOTS_TAG :: u8 where "APP_TWO_ARGS_WITH_ANNOTS_TAG = 0x08"
definition APP_GENERIC :: u8 where "APP_GENERIC = 0x09"

lemmas tag_defs =
  NUMBER_TAG_def STRING_TAG_def SEQ_TAG_def BYTES_TAG_def
  APP_NO_ARGS_NO_ANNOTS_TAG_def APP_NO_ARGS_WITH_ANNOTS_TAG_def
  APP_ONE_ARG_NO_ANNOTS_TAG_def APP_ONE_ARG_WITH_ANNOTS_TAG_def
  APP_TWO_ARGS_NO_ANNOTS_TAG_def APP_TWO_ARGS_WITH_ANNOTS_TAG_def APP_GENERIC_def

section \<open>Encoding\<close>

text \<open>A function that writes to \<open>out: &mut Vec<u8>\<close> maps the buffer to the extended buffer.\<close>

definition put_len :: "u32 \<Rightarrow> bytes \<Rightarrow> bytes" where
  "put_len len out = out @ to_be_bytes len"

definition put_bytes :: "bytes \<Rightarrow> bytes \<Rightarrow> bytes" where
  "put_bytes bs out = put_len (word_of_nat (length bs)) (out @ [BYTES_TAG]) @ bs"

definition put_string :: "string \<Rightarrow> bytes \<Rightarrow> bytes" where
  "put_string s out = put_len (word_of_nat (length s)) (out @ [STRING_TAG]) @ as_bytes s"

text \<open>\<open>out[a..b].copy_from_slice(bs)\<close> for a range inside the buffer.\<close>

definition copy_from_slice :: "nat \<Rightarrow> bytes \<Rightarrow> bytes \<Rightarrow> bytes" where
  "copy_from_slice a bs out = take a out @ bs @ drop (a + length bs) out"

definition with_patchback_len :: "bytes \<Rightarrow> (bytes \<Rightarrow> bytes) \<Rightarrow> bytes" where
  "with_patchback_len out f =
     (let out = put_len 0 out; i = length out; out = f out;
          len_of_written = word_of_nat (length out - i) :: u32
      in copy_from_slice (i - 4) (to_be_bytes len_of_written) out)"

definition annotation_encode_bytes :: "Annotation \<Rightarrow> bytes \<Rightarrow> bytes" where
  "annotation_encode_bytes ann out =
     (case ann of
        Special s \<Rightarrow> out @ as_bytes s
      | Field s \<Rightarrow> out @ as_bytes ''%'' @ as_bytes s
      | Variable s \<Rightarrow> out @ as_bytes ''@'' @ as_bytes s
      | Type_ann s \<Rightarrow> out @ as_bytes '':'' @ as_bytes s)"

fun annotations_encode_from :: "bool \<Rightarrow> Annotations \<Rightarrow> bytes \<Rightarrow> bytes" where
  "annotations_encode_from is_first [] out = out"
| "annotations_encode_from is_first (ann # anns) out =
     annotations_encode_from False anns
       (annotation_encode_bytes ann (if is_first then out else out @ as_bytes '' ''))"

definition annotations_encode_bytes :: "Annotations \<Rightarrow> bytes \<Rightarrow> bytes" where
  "annotations_encode_bytes anns out = with_patchback_len out (annotations_encode_from True anns)"

text \<open>The default method of \<open>AppEncoder\<close>; \<open>put_args\<close> is its loop over the arguments.\<close>

definition app_encode ::
  "u8 \<Rightarrow> u8 \<Rightarrow> Prim \<Rightarrow> (bytes \<Rightarrow> bytes) \<Rightarrow> Annotations \<Rightarrow> bytes \<Rightarrow> bytes" where
  "app_encode no_annots_tag with_annots_tag prim put_args annots out =
     (let out = out @ [if annots = [] then no_annots_tag else with_annots_tag];
          out = prim_encode prim out;
          out = put_args out
      in if annots \<noteq> [] then annotations_encode_bytes annots out else out)"

text \<open>
  \<open>encode_micheline\<close>; \<open>encode_all\<close> is the loop of \<open>put_seq\<close> and of \<open>AppEncoder::encode\<close>.  The
  last equation of \<open>encode_micheline\<close> is the implementation of \<open>AppEncoder\<close> for slices, which
  dispatches on the number of arguments.
\<close>

fun encode_micheline :: "(int \<Rightarrow> bytes) \<Rightarrow> Micheline \<Rightarrow> bytes \<Rightarrow> bytes"
  and encode_all :: "(int \<Rightarrow> bytes) \<Rightarrow> Micheline list \<Rightarrow> bytes \<Rightarrow> bytes" where
  "encode_micheline zarith_write (Mich_Int n) out = (out @ [NUMBER_TAG]) @ zarith_write n"
| "encode_micheline zarith_write (Mich_String s) out = put_string s out"
| "encode_micheline zarith_write (Mich_Bytes b) out = put_bytes b out"
| "encode_micheline zarith_write (Seq s) out =
     with_patchback_len (out @ [SEQ_TAG]) (\<lambda>out. encode_all zarith_write s out)"
| "encode_micheline zarith_write (App prim args annots) out =
     (if length args = 0
      then app_encode APP_NO_ARGS_NO_ANNOTS_TAG APP_NO_ARGS_WITH_ANNOTS_TAG prim
             (\<lambda>out. encode_all zarith_write args out) annots out
      else if length args = 1
      then app_encode APP_ONE_ARG_NO_ANNOTS_TAG APP_ONE_ARG_WITH_ANNOTS_TAG prim
             (\<lambda>out. encode_all zarith_write args out) annots out
      else if length args = 2
      then app_encode APP_TWO_ARGS_NO_ANNOTS_TAG APP_TWO_ARGS_WITH_ANNOTS_TAG prim
             (\<lambda>out. encode_all zarith_write args out) annots out
      else annotations_encode_bytes annots
             (with_patchback_len (prim_encode prim (out @ [APP_GENERIC]))
               (\<lambda>out. encode_all zarith_write args out)))"
| "encode_all zarith_write [] out = out"
| "encode_all zarith_write (mich # michs) out =
     encode_all zarith_write michs (encode_micheline zarith_write mich out)"

definition encode_starting_with :: "(int \<Rightarrow> bytes) \<Rightarrow> bytes \<Rightarrow> Micheline \<Rightarrow> bytes" where
  "encode_starting_with zarith_write start_bytes mich = encode_micheline zarith_write mich start_bytes"

definition encode :: "(int \<Rightarrow> bytes) \<Rightarrow> Micheline \<Rightarrow> bytes" where
  "encode zarith_write mich = encode_starting_with zarith_write [] mich"

definition encode_for_pack :: "(int \<Rightarrow> bytes) \<Rightarrow> Micheline \<Rightarrow> bytes" where
  "encode_for_pack zarith_write mich = encode_starting_with zarith_write [0x05] mich"

section \<open>Decoding\<close>

datatype DecodeError =
    TrailingBytes
  | NoPackTag
  | UnexpectedEOF
  | UnknownTag u8
  | ForbiddenStringCharacter
  | UnknownPrim u8
  | BadAnnotation

datatype DecodeFailure = Decode_Err DecodeError | Decode_Panic

type_synonym 'a decoded = "(DecodeFailure, 'a \<times> bytes) result"

datatype NumArgs = Zero | One | Two | Many

definition bytes_take :: "nat \<Rightarrow> bytes \<Rightarrow> (bytes \<times> bytes) option" where
  "bytes_take num bs = (if length bs < num then None else Some (take num bs, drop num bs))"

definition get_len :: "bytes \<Rightarrow> u32 decoded" where
  "get_len bs =
     (case bytes_take 4 bs of
        None \<Rightarrow> Inl (Decode_Err UnexpectedEOF)
      | Some (cur, rest) \<Rightarrow> Inr (from_be_bytes cur, rest))"

definition get_bytes :: "bytes \<Rightarrow> bytes decoded" where
  "get_bytes bs =
     (case get_len bs of
        Inl e \<Rightarrow> Inl e
      | Inr (len, rest) \<Rightarrow>
          (case bytes_take (unat len) rest of
             None \<Rightarrow> Inl (Decode_Err UnexpectedEOF)
           | Some r \<Rightarrow> Inr r))"

text \<open>
  A \<open>BitVec<u8, Lsb0>\<close> is the list of its bits.  \<open>into_vec\<close>, after \<open>set_uninitialized(false)\<close>, packs
  them into bytes from the least significant bit, the last one padded with zeros, and
  \<open>BigInt::from_bytes_le\<close> reads a magnitude with the least significant byte first.
\<close>

function bitvec_into_vec :: "bool list \<Rightarrow> bytes" where
  "bitvec_into_vec bits =
     (if bits = [] then []
      else horner_sum of_bool 2 (take 8 bits) # bitvec_into_vec (drop 8 bits))"
  by pat_completeness auto
termination by (relation "measure length") auto

declare bitvec_into_vec.simps [simp del]

definition bigint_from_bytes_le :: "bool \<Rightarrow> bytes \<Rightarrow> int" where
  "bigint_from_bytes_le neg bs =
     (let magnitude = horner_sum uint 256 bs in if neg then - magnitude else magnitude)"

text \<open>The loop of \<open>decode_int\<close>: \<open>first\<close>, the sign (\<open>neg\<close>) and the bits read so far.\<close>

fun decode_int_loop :: "bool \<Rightarrow> bool \<Rightarrow> bool list \<Rightarrow> bytes \<Rightarrow> int decoded" where
  "decode_int_loop first neg bitvec [] = Inl (Decode_Err UnexpectedEOF)"
| "decode_int_loop first neg bitvec (b # bs) =
     (let neg = (if first then bit b 6 else neg);
          data_len = (if first then 6 else 7);
          bitvec = bitvec @ map (bit b) [0..<data_len]
      in if bit b 7 then decode_int_loop False neg bitvec bs
         else Inr (bigint_from_bytes_le neg (bitvec_into_vec bitvec), bs))"

definition decode_int :: "bytes \<Rightarrow> Micheline decoded" where
  "decode_int bs = map_result (apfst Mich_Int) (decode_int_loop True False [] bs)"

definition printable :: "char \<Rightarrow> bool" where
  "printable c \<longleftrightarrow> (32 \<le> (of_char c :: nat) \<and> (of_char c :: nat) \<le> 126)
     \<or> of_char c = (10 :: nat) \<or> of_char c = (13 :: nat)"

definition validate_str :: "bytes \<Rightarrow> (DecodeFailure, string) result" where
  "validate_str bs =
     (let s = from_utf8_unchecked bs
      in if \<not> list_all printable s then Inl (Decode_Err ForbiddenStringCharacter) else Inr s)"

definition decode_string :: "bytes \<Rightarrow> Micheline decoded" where
  "decode_string bs =
     (case get_bytes bs of
        Inl e \<Rightarrow> Inl e
      | Inr (s, rest) \<Rightarrow> map_result (\<lambda>s. (Mich_String s, rest)) (validate_str s))"

definition decode_bytes :: "bytes \<Rightarrow> Micheline decoded" where
  "decode_bytes bs = map_result (apfst Mich_Bytes) (get_bytes bs)"

definition alpha_num :: "char \<Rightarrow> bool" where
  "alpha_num c \<longleftrightarrow> c = CHR ''_'' \<or> (48 \<le> (of_char c :: nat) \<and> (of_char c :: nat) \<le> 57)
     \<or> (97 \<le> (of_char c :: nat) \<and> (of_char c :: nat) \<le> 122)
     \<or> (65 \<le> (of_char c :: nat) \<and> (of_char c :: nat) \<le> 90)"

definition ann_char :: "char \<Rightarrow> bool" where
  "ann_char c \<longleftrightarrow> alpha_num c \<or> c \<in> {CHR ''.'', CHR ''%'', CHR ''@''}"

definition ann_syntax :: "string \<Rightarrow> bool" where
  "ann_syntax s \<longleftrightarrow> s \<in> {''@%'', ''@%%'', ''%@''} \<or>
     (case s of
        c # d # rest \<Rightarrow>
          c \<in> {CHR ''@'', CHR '':'', CHR ''%''} \<and> alpha_num d \<and> list_all ann_char rest
      | _ \<Rightarrow> False)"

definition validate_ann :: "bytes \<Rightarrow> (DecodeFailure, Annotation) result" where
  "validate_ann bs =
     (let s = from_utf8_unchecked bs
      in if ann_syntax s
         then (case try_ann_from_str s of Some (Some ann) \<Rightarrow> Inr ann | _ \<Rightarrow> Inl Decode_Panic)
         else Inl (Decode_Err BadAnnotation))"

text \<open>\<open>[u8]::split\<close> on one separator, and \<open>collect\<close> of results, which stops at the first error.\<close>

fun split_on :: "'a \<Rightarrow> 'a list \<Rightarrow> 'a list list" where
  "split_on sep [] = [[]]"
| "split_on sep (x # xs) =
     (case split_on sep xs of
        [] \<Rightarrow> []
      | ys # yss \<Rightarrow> if x = sep then [] # ys # yss else (x # ys) # yss)"

fun collect_results :: "('e, 'a) result list \<Rightarrow> ('e, 'a list) result" where
  "collect_results [] = Inr []"
| "collect_results (Inl e # rs) = Inl e"
| "collect_results (Inr x # rs) = map_result (\<lambda>xs. x # xs) (collect_results rs)"

definition decode_anns :: "bool \<Rightarrow> bytes \<Rightarrow> Annotations decoded" where
  "decode_anns annotations bs =
     (if annotations then
        (case get_bytes bs of
           Inl e \<Rightarrow> Inl e
         | Inr (s, rest) \<Rightarrow>
             if s = [] then Inr (NO_ANNS, rest)
             else map_result (\<lambda>anns. (anns, rest))
                    (collect_results (map validate_ann (split_on 0x20 s))))
      else Inr (NO_ANNS, bs))"

text \<open>The arms of \<open>decode_micheline\<close> that call \<open>decode_app\<close>, with its first two arguments.\<close>

definition app_tag :: "u8 \<Rightarrow> (NumArgs \<times> bool) option" where
  "app_tag b =
     (if b = APP_NO_ARGS_NO_ANNOTS_TAG then Some (Zero, False)
      else if b = APP_NO_ARGS_WITH_ANNOTS_TAG then Some (Zero, True)
      else if b = APP_ONE_ARG_NO_ANNOTS_TAG then Some (One, False)
      else if b = APP_ONE_ARG_WITH_ANNOTS_TAG then Some (One, True)
      else if b = APP_TWO_ARGS_NO_ANNOTS_TAG then Some (Two, False)
      else if b = APP_TWO_ARGS_WITH_ANNOTS_TAG then Some (Two, True)
      else if b = APP_GENERIC then Some (Many, True)
      else None)"

text \<open>
  \<open>decode_micheline\<close>, \<open>decode_app\<close> and the loop of \<open>decode_seq_raw\<close> call each other.  The rest
  of the bytes a call returns is shorter than its input, so the recursion ends.
\<close>

function (sequential) decode_micheline :: "bytes \<Rightarrow> Micheline decoded"
  and decode_app :: "NumArgs \<Rightarrow> bool \<Rightarrow> bytes \<Rightarrow> Micheline decoded"
  and decode_elts :: "bytes \<Rightarrow> (DecodeFailure, Micheline list) result" where
  "decode_micheline [] = Inl (Decode_Err UnexpectedEOF)"
| "decode_micheline (b # bs) =
     (if b = NUMBER_TAG then decode_int bs
      else if b = STRING_TAG then decode_string bs
      else if b = SEQ_TAG then
        (case get_bytes bs of
           Inl e \<Rightarrow> Inl e
         | Inr (elts, rest) \<Rightarrow> map_result (\<lambda>ms. (Seq ms, rest)) (decode_elts elts))
      else if b = BYTES_TAG then decode_bytes bs
      else case app_tag b of
        Some (num_args, annotations) \<Rightarrow> decode_app num_args annotations bs
      | None \<Rightarrow> Inl (Decode_Err (UnknownTag b)))"
| "decode_app num_args annotations [] = Inl (Decode_Err UnexpectedEOF)"
| "decode_app num_args annotations (p # bs) =
     (if unat p \<ge> prim_COUNT then Inl (Decode_Err (UnknownPrim p))
      else
        let prim = prim_transmute p;
            args = (case num_args of
                Zero \<Rightarrow> Inr ([], bs)
              | One \<Rightarrow> map_result (apfst (\<lambda>m. [m])) (decode_micheline bs)
              | Two \<Rightarrow>
                  (case decode_micheline bs of
                     Inl e \<Rightarrow> Inl e
                   | Inr (m1, bs1) \<Rightarrow> map_result (apfst (\<lambda>m2. [m1, m2])) (decode_micheline bs1))
              | Many \<Rightarrow>
                  (case get_bytes bs of
                     Inl e \<Rightarrow> Inl e
                   | Inr (elts, rest) \<Rightarrow> map_result (\<lambda>ms. (ms, rest)) (decode_elts elts)))
        in case args of
             Inl e \<Rightarrow> Inl e
           | Inr (args, bs) \<Rightarrow>
               map_result (\<lambda>(anns, rest). (App prim args anns, rest)) (decode_anns annotations bs))"
| "decode_elts [] = Inr []"
| "decode_elts (b # bs) =
     (case decode_micheline (b # bs) of
        Inl e \<Rightarrow> Inl e
      | Inr (m, rest) \<Rightarrow> map_result (\<lambda>ms. m # ms) (decode_elts rest))"
  by pat_completeness auto

lemma bytes_take_length:
  "bytes_take n bs = Some (cur, rest) \<Longrightarrow> length cur = n \<and> length bs = n + length rest"
  by (auto simp: bytes_take_def split: if_splits)

lemma get_bytes_length:
  "get_bytes bs = Inr (x, rest) \<Longrightarrow> length bs = 4 + length x + length rest"
  by (auto simp: get_bytes_def get_len_def dest!: bytes_take_length
      split: sum.splits option.splits)

lemma decode_int_loop_length:
  "decode_int_loop first neg bitvec bs = Inr (n, rest) \<Longrightarrow> length rest < length bs"
  by (induction first neg bitvec bs rule: decode_int_loop.induct)
    (force simp: Let_def split: if_splits)+

lemma map_result_Inr:
  "map_result f r = Inr y \<longleftrightarrow> (\<exists>x. r = Inr x \<and> y = f x)"
  by (cases r) auto

lemma leaf_decoders_length:
  "decode_int bs = Inr (m, rest) \<Longrightarrow> length rest < length bs"
  "decode_string bs = Inr (m, rest) \<Longrightarrow> length rest < length bs"
  "decode_bytes bs = Inr (m, rest) \<Longrightarrow> length rest < length bs"
  by (auto simp: decode_int_def decode_string_def decode_bytes_def map_result_Inr
      dest!: decode_int_loop_length get_bytes_length split: sum.splits)

lemma decode_anns_length:
  "decode_anns annotations bs = Inr (anns, rest) \<Longrightarrow> length rest \<le> length bs"
  by (auto simp: decode_anns_def map_result_Inr
      dest!: get_bytes_length split: if_splits sum.splits)

lemma decode_partial_length:
  "decode_micheline_decode_app_decode_elts_dom (Inl bs) \<Longrightarrow>
     (\<forall>m rest. decode_micheline bs = Inr (m, rest) \<longrightarrow> length rest < length bs)"
  "decode_micheline_decode_app_decode_elts_dom (Inr (Inl (num_args, annotations, bs))) \<Longrightarrow>
     (\<forall>m rest. decode_app num_args annotations bs = Inr (m, rest) \<longrightarrow> length rest < length bs)"
  "decode_micheline_decode_app_decode_elts_dom (Inr (Inr bs)) \<Longrightarrow> True"
proof (induction bs and num_args annotations bs and bs
    rule: decode_micheline_decode_app_decode_elts.pinduct)
  case (2 b bs)
  then show ?case
    by (auto simp: decode_micheline.psimps map_result_Inr less_Suc_eq
        dest!: get_bytes_length leaf_decoders_length split: if_splits sum.splits option.splits)
next
  case (4 num_args annotations p bs)
  then show ?case
    by (cases num_args)
      (force simp: decode_app.psimps map_result_Inr Let_def
        dest!: get_bytes_length decode_anns_length split: if_splits sum.splits)+
qed (auto simp: decode_micheline.psimps decode_app.psimps)

termination decode_micheline
  by (relation "measure (\<lambda>x. case x of Inl bs \<Rightarrow> 2 * length bs
      | Inr (Inl (_, _, bs)) \<Rightarrow> 2 * length bs | Inr (Inr bs) \<Rightarrow> 2 * length bs + 1)")
    (auto dest!: get_bytes_length decode_partial_length(1))

definition decode_raw :: "bytes \<Rightarrow> (DecodeFailure, Micheline) result" where
  "decode_raw bs =
     (case decode_micheline bs of
        Inl e \<Rightarrow> Inl e
      | Inr (res, rest) \<Rightarrow> if rest \<noteq> [] then Inl (Decode_Err TrailingBytes) else Inr res)"

definition decode_packed :: "bytes \<Rightarrow> (DecodeFailure, Micheline) result" where
  "decode_packed bs =
     (if bs = [] \<or> hd bs \<noteq> 0x05 then Inl (Decode_Err NoPackTag) else decode_raw (tl bs))"

section \<open>The integer format\<close>

text \<open>
  \<open>Zarith\<close>: seven bits of the number in a byte, the least significant ones first, and six in
  the first byte, whose bit 6 is the sign.  Bit 7 is set in every byte but the last.
\<close>

definition zarith_form :: "bytes \<Rightarrow> bool" where
  "zarith_form bs \<longleftrightarrow> bs \<noteq> [] \<and> list_all (\<lambda>b. bit b 7) (butlast bs) \<and> \<not> bit (last bs) 7"

definition zarith_value :: "bytes \<Rightarrow> int" where
  "zarith_value bs =
     (if bit (hd bs) 6 then -1 else 1) *
     (uint (take_bit 6 (hd bs)) + 64 * horner_sum (\<lambda>b. uint (take_bit 7 b)) 128 (tl bs))"

definition zarith_ok :: "(int \<Rightarrow> bytes) \<Rightarrow> bool" where
  "zarith_ok zarith_write \<longleftrightarrow>
     (\<forall>n. zarith_form (zarith_write n) \<and> zarith_value (zarith_write n) = n)"

lemma uint_horner_sum_bits:
  assumes "length bits \<le> LENGTH('a)"
  shows "uint (horner_sum of_bool 2 bits :: 'a::len word) = horner_sum of_bool 2 bits"
proof -
  have "(horner_sum of_bool 2 bits :: int) < 2 ^ length bits"
    by (rule horner_sum_of_bool_2_less)
  also have "\<dots> \<le> 2 ^ LENGTH('a)"
    using assms by simp
  finally have "take_bit LENGTH('a) (horner_sum of_bool 2 bits :: int) = horner_sum of_bool 2 bits"
    by (simp add: take_bit_int_eq_self horner_sum_nonnegative)
  moreover have "(horner_sum of_bool 2 bits :: 'a word) = word_of_int (horner_sum of_bool 2 bits)"
    by (induction bits) simp_all
  ultimately show ?thesis
    by (simp only: uint_word_of_int_eq)
qed

lemma horner_sum_256_into_vec:
  "horner_sum uint 256 (bitvec_into_vec bits) = horner_sum of_bool 2 bits"
proof (induction bits rule: bitvec_into_vec.induct)
  case (1 bits)
  show ?case
  proof (cases "bits = []")
    case False
    have "horner_sum of_bool 2 bits = (horner_sum of_bool 2 (take 8 bits @ drop 8 bits) :: int)"
      by simp
    also have "\<dots> = horner_sum of_bool 2 (take 8 bits) + 256 * horner_sum of_bool 2 (drop 8 bits)"
      by (cases "length bits \<ge> 8") (simp_all only: horner_sum_append, simp_all add: min_def)
    finally show ?thesis
      using 1 False by (simp add: bitvec_into_vec.simps [of bits] uint_horner_sum_bits)
  qed (simp add: bitvec_into_vec.simps)
qed

text \<open>What the loop of \<open>decode_int\<close> makes of well-formed bytes.\<close>

lemma decode_int_loop_tail:
  assumes "zarith_form bs"
  shows "decode_int_loop False neg bitvec (bs @ rest) =
    Inr (bigint_from_bytes_le neg (bitvec_into_vec (bitvec @ concat (map (\<lambda>b. map (bit b) [0..<7]) bs))), rest)"
  using assms
proof (induction bs arbitrary: bitvec)
  case (Cons b bs)
  then show ?case
    by (cases "bs = []") (auto simp: zarith_form_def Let_def)
qed (simp add: zarith_form_def)

lemma horner_sum_bits: "horner_sum of_bool 2 (map (bit b) [0..<n]) = uint (take_bit n b)"
  for b :: "'a::len word"
proof -
  have "map (bit b) [0..<n] = map (bit (uint b)) [0..<n]"
    by (simp add: bit_uint_iff fun_eq_iff) (auto dest: bit_imp_le_length)
  then show ?thesis
    by (simp only: horner_sum_bit_eq_take_bit unsigned_take_bit_eq)
qed

lemma horner_sum_digits:
  "horner_sum of_bool 2 (concat (map (\<lambda>b. map (bit b) [0..<7]) bs)) =
     horner_sum (\<lambda>b. uint (take_bit 7 b)) 128 bs" for bs :: bytes
  by (induction bs) (simp_all add: horner_sum_append horner_sum_bits del: upt_rec_numeral)

lemma decode_int_loop_zarith:
  assumes "zarith_form bs"
  shows "decode_int_loop True False [] (bs @ rest) = Inr (zarith_value bs, rest)"
proof (cases bs)
  case (Cons b ds)
  show ?thesis
  proof (cases "ds = []")
    case True
    with Cons assms show ?thesis
      by (simp add: zarith_form_def zarith_value_def Let_def bigint_from_bytes_le_def
          horner_sum_256_into_vec horner_sum_bits del: upt_rec_numeral)
  next
    case False
    with Cons assms have "zarith_form ds" "bit b 7"
      by (simp_all add: zarith_form_def)
    with Cons show ?thesis
      by (simp add: decode_int_loop_tail zarith_value_def Let_def bigint_from_bytes_le_def
          horner_sum_256_into_vec horner_sum_append horner_sum_bits horner_sum_digits
          del: upt_rec_numeral)
  qed
qed (use assms in \<open>simp add: zarith_form_def\<close>)

section \<open>Encoders append\<close>

lemma with_patchback_len_append:
  assumes "f (out @ to_be_bytes (0 :: u32)) = (out @ to_be_bytes (0 :: u32)) @ w"
  shows "with_patchback_len out f = out @ to_be_bytes (word_of_nat (length w) :: u32) @ w"
  using assms by (simp add: with_patchback_len_def put_len_def copy_from_slice_def Let_def)

lemma annotations_encode_from_append:
  "annotations_encode_from is_first anns out = out @ annotations_encode_from is_first anns []"
proof (induction anns arbitrary: is_first out)
  case (Cons ann anns)
  show ?case
    by (cases ann) (simp_all add: annotation_encode_bytes_def Cons [of _ "out @ _"] Cons [of _ "_ # _"]
        Cons [of _ "as_bytes _"] Cons [of _ "_ @ _"])
qed simp

lemma annotations_encode_bytes_append:
  "annotations_encode_bytes anns out =
     out @ to_be_bytes (word_of_nat (length (annotations_encode_from True anns [])) :: u32) @
     annotations_encode_from True anns []"
  unfolding annotations_encode_bytes_def
  by (rule with_patchback_len_append) (rule annotations_encode_from_append)

lemma with_patchback_len_appender:
  "(\<And>out. f out = out @ w) \<Longrightarrow>
     with_patchback_len out f = out @ to_be_bytes (word_of_nat (length w) :: u32) @ w"
  by (rule with_patchback_len_append) simp

lemma encode_all_appends:
  assumes "\<And>m. m \<in> set ms \<Longrightarrow> \<exists>w. \<forall>out. encode_micheline zarith_write m out = out @ w"
  shows "\<exists>w. \<forall>out. encode_all zarith_write ms out = out @ w"
  using assms
proof (induction ms)
  case (Cons m ms)
  then obtain w v where
    "\<forall>out. encode_micheline zarith_write m out = out @ w" "\<forall>out. encode_all zarith_write ms out = out @ v"
    by (meson list.set_intros)
  then show ?case by auto
qed simp

lemma encode_micheline_appends: "\<exists>w. \<forall>out. encode_micheline zarith_write m out = out @ w"
proof (induction m)
  case (App prim args annots)
  then obtain w where w: "encode_all zarith_write args out = out @ w" for out
    using encode_all_appends by metis
  then show ?case
    by (auto simp: app_encode_def prim_encode_def annotations_encode_bytes_append Let_def
        with_patchback_len_appender [OF w])
next
  case (Seq ms)
  then obtain w where w: "encode_all zarith_write ms out = out @ w" for out
    using encode_all_appends by metis
  then show ?case
    by (auto simp: with_patchback_len_appender [OF w])
qed (auto simp: put_string_def put_bytes_def put_len_def)

lemma encode_append:
  "encode_micheline zarith_write m out = out @ encode_micheline zarith_write m []"
  "encode_all zarith_write ms out = out @ encode_all zarith_write ms []"
  using encode_micheline_appends [of zarith_write m]
    encode_all_appends [of ms zarith_write, OF encode_micheline_appends] by force+

section \<open>Trees the format can carry\<close>

text \<open>
  Strings are printable, annotations follow the lexical syntax, and every length that is
  written fits 32 bits.
\<close>

definition ann_name :: "string \<Rightarrow> bool" where
  "ann_name s \<longleftrightarrow> (case s of [] \<Rightarrow> False | d # rest \<Rightarrow> alpha_num d \<and> list_all ann_char rest)"

definition annotation_ok :: "Annotation \<Rightarrow> bool" where
  "annotation_ok ann =
     (case ann of
        Special s \<Rightarrow> s \<in> {''@%'', ''@%%'', ''%@''}
      | Field s \<Rightarrow> ann_name s
      | Variable s \<Rightarrow> ann_name s
      | Type_ann s \<Rightarrow> ann_name s)"

fun micheline_ok :: "(int \<Rightarrow> bytes) \<Rightarrow> Micheline \<Rightarrow> bool" where
  "micheline_ok zarith_write (Mich_Int n) \<longleftrightarrow> True"
| "micheline_ok zarith_write (Mich_String s) \<longleftrightarrow> list_all printable s \<and> length s < 2 ^ 32"
| "micheline_ok zarith_write (Mich_Bytes b) \<longleftrightarrow> length b < 2 ^ 32"
| "micheline_ok zarith_write (Seq ms) \<longleftrightarrow>
     list_all (micheline_ok zarith_write) ms \<and> length (encode_all zarith_write ms []) < 2 ^ 32"
| "micheline_ok zarith_write (App prim args annots) \<longleftrightarrow>
     prim \<in> set prims \<and> list_all (micheline_ok zarith_write) args \<and>
     length (encode_all zarith_write args []) < 2 ^ 32 \<and> list_all annotation_ok annots \<and>
     length (annotations_encode_from True annots []) < 2 ^ 32"

section \<open>Reading back\<close>

lemma get_bytes_put:
  assumes "length w < 2 ^ 32"
  shows "get_bytes (to_be_bytes (word_of_nat (length w) :: u32) @ w @ rest) = Inr (w, rest)"
proof -
  have "unat (word_of_nat (length w) :: u32) = length w"
    using assms by (simp add: unat_of_nat take_bit_nat_def)
  then show ?thesis
    by (simp add: get_bytes_def get_len_def bytes_take_def)
qed

lemma split_on_single: "sep \<notin> set xs \<Longrightarrow> split_on sep xs = [xs]"
  by (induction xs) auto

lemma split_on_append:
  "sep \<notin> set xs \<Longrightarrow> split_on sep (xs @ sep # ys) = xs # split_on sep ys"
proof (induction xs)
  case Nil
  have "split_on sep ys \<noteq> []"
    by (induction ys) (auto split: list.splits)
  then show ?case by (auto split: list.splits)
qed auto

lemma ann_char_not_space: "\<not> ann_char CHR '' ''"
  by (simp add: ann_char_def alpha_num_def)

lemma word_of_char_inject [simp]:
  "(word_of_nat (of_char c) :: u8) = word_of_nat (of_char d) \<longleftrightarrow> c = d"
  by (metis of_char_eq_iff unat_word_of_char)

lemma ann_name_ann_char: "ann_name s \<Longrightarrow> list_all ann_char s"
  by (auto simp: ann_name_def ann_char_def split: list.splits)

lemma space_as_bytes: "0x20 \<in> set (as_bytes s) \<longleftrightarrow> CHR '' '' \<in> set s"
proof -
  have "(0x20 :: u8) = word_of_nat (of_char CHR '' '')" by simp
  then show ?thesis unfolding as_bytes_def by (auto simp del: of_char_Char)
qed

lemma ann_name_no_space: "ann_name s \<Longrightarrow> CHR '' '' \<notin> set s"
  by (drule ann_name_ann_char) (auto simp: list_all_iff ann_char_not_space)

lemma annotation_bytes:
  "annotation_encode_bytes ann [] =
     as_bytes (case ann of Special s \<Rightarrow> s | Field s \<Rightarrow> ''%'' @ s | Variable s \<Rightarrow> ''@'' @ s
       | Type_ann s \<Rightarrow> '':'' @ s)"
  by (cases ann) (simp_all add: annotation_encode_bytes_def as_bytes_def)

lemma annotation_bytes_no_space:
  "annotation_ok ann \<Longrightarrow> 0x20 \<notin> set (annotation_encode_bytes ann [])"
  by (cases ann) (auto simp: annotation_bytes space_as_bytes annotation_ok_def
      dest: ann_name_no_space)

lemma validate_annotation_bytes:
  "annotation_ok ann \<Longrightarrow> validate_ann (annotation_encode_bytes ann []) = Inr ann"
  by (cases ann)
    (auto simp: annotation_bytes validate_ann_def annotation_ok_def ann_syntax_def ann_name_def
      Let_def alpha_num_def split: list.splits)

lemma annotation_bytes_append:
  "annotation_encode_bytes ann out = out @ annotation_encode_bytes ann []"
  by (cases ann) (simp_all add: annotation_encode_bytes_def)

lemma annotations_encode_Cons:
  "annotations_encode_from False (ann # anns) [] =
     0x20 # annotation_encode_bytes ann [] @ annotations_encode_from False anns []"
  "annotations_encode_from True (ann # anns) [] =
     annotation_encode_bytes ann [] @ annotations_encode_from False anns []"
  using annotations_encode_from_append [of False anns "annotation_encode_bytes ann []"]
    annotations_encode_from_append [of False anns "0x20 # annotation_encode_bytes ann []"]
  by (simp_all add: annotation_bytes_append [of ann "as_bytes _"])
       (simp add: as_bytes_def)

lemma split_annotations:
  "list_all annotation_ok (ann # anns) \<Longrightarrow>
     split_on 0x20 (annotation_encode_bytes ann [] @ annotations_encode_from False anns []) =
     map (\<lambda>a. annotation_encode_bytes a []) (ann # anns)"
proof (induction anns arbitrary: ann)
  case Nil
  then show ?case by (simp add: split_on_single annotation_bytes_no_space)
next
  case (Cons a anns)
  then show ?case
    by (simp add: annotations_encode_Cons split_on_append annotation_bytes_no_space
        del: annotations_encode_from.simps)
qed

lemma collect_validated:
  "list_all annotation_ok anns \<Longrightarrow>
     collect_results (map (\<lambda>a. validate_ann (annotation_encode_bytes a [])) anns) = Inr anns"
  by (induction anns) (simp_all add: validate_annotation_bytes)

lemma decode_anns_put:
  assumes "list_all annotation_ok anns" "length (annotations_encode_from True anns []) < 2 ^ 32"
  shows "decode_anns True (annotations_encode_bytes anns [] @ rest) = Inr (anns, rest)"
proof (cases anns)
  case Nil
  then show ?thesis
    using get_bytes_put [of "[]" rest] by (simp add: decode_anns_def annotations_encode_bytes_append)
next
  case (Cons a as)
  have "annotation_encode_bytes a [] \<noteq> []"
    using assms Cons by (cases a) (auto simp: annotation_bytes annotation_ok_def as_bytes_def)
  with Cons assms get_bytes_put [OF assms(2), of rest] split_annotations [of a as]
    collect_validated [of anns]
  show ?thesis
    by (simp add: decode_anns_def annotations_encode_bytes_append annotations_encode_Cons comp_def
        del: annotations_encode_from.simps)
qed

lemma app_encode_bytes:
  "app_encode no_tag with_tag prim (encode_all zarith_write args) annots [] =
     (if annots = [] then no_tag else with_tag) # prim_as_u8 prim # encode_all zarith_write args [] @
     (if annots = [] then [] else annotations_encode_bytes annots [])"
  using encode_append(2) [of zarith_write args "[no_tag, prim_as_u8 prim]"]
    encode_append(2) [of zarith_write args "[with_tag, prim_as_u8 prim]"]
  by (simp add: app_encode_def prim_encode_def annotations_encode_bytes_append Let_def)

lemma app_generic_bytes:
  "annotations_encode_bytes annots
     (with_patchback_len (prim_encode prim [APP_GENERIC]) (encode_all zarith_write args)) =
     APP_GENERIC # prim_as_u8 prim #
     to_be_bytes (word_of_nat (length (encode_all zarith_write args [])) :: u32) @
     encode_all zarith_write args [] @ annotations_encode_bytes annots []"
  by (simp add: prim_encode_def with_patchback_len_appender [OF encode_append(2)]
      annotations_encode_bytes_append)

lemma encode_tag: "\<exists>b bs. encode_micheline zarith_write m [] = b # bs"
  by (cases m)
    (auto simp: put_string_def put_bytes_def put_len_def app_encode_bytes app_generic_bytes
      with_patchback_len_appender [OF encode_append(2)] annotations_encode_bytes_append
      prim_encode_def)

lemma decode_elts_nonempty:
  "bs \<noteq> [] \<Longrightarrow> decode_elts bs =
     (case decode_micheline bs of
        Inl e \<Rightarrow> Inl e
      | Inr (m, rest) \<Rightarrow> map_result (\<lambda>ms. m # ms) (decode_elts rest))"
  by (cases bs) simp_all

lemma decode_elts_put:
  assumes "\<And>m rest. m \<in> set ms \<Longrightarrow>
      decode_micheline (encode_micheline zarith_write m [] @ rest) = Inr (m, rest)"
  shows "decode_elts (encode_all zarith_write ms []) = Inr ms"
  using assms
proof (induction ms)
  case (Cons m ms)
  have "encode_all zarith_write (m # ms) [] =
      encode_micheline zarith_write m [] @ encode_all zarith_write ms []"
    by (simp add: encode_append(2) [of _ ms "encode_micheline zarith_write m []"])
  with Cons encode_tag [of zarith_write m] show ?case
    by (subst decode_elts_nonempty) auto
qed simp

lemma decode_app_put:
  assumes prim: "prim \<in> set prims"
    and args: "case num_args of
        Zero \<Rightarrow> bs = rest \<and> args = []
      | One \<Rightarrow> (\<exists>m. decode_micheline bs = Inr (m, rest) \<and> args = [m])
      | Two \<Rightarrow> (\<exists>m1 m2 bs'. decode_micheline bs = Inr (m1, bs') \<and>
          decode_micheline bs' = Inr (m2, rest) \<and> args = [m1, m2])
      | Many \<Rightarrow> (\<exists>elts. get_bytes bs = Inr (elts, rest) \<and> decode_elts elts = Inr args)"
    and anns: "decode_anns annotations rest = Inr (annots, rest')"
  shows "decode_app num_args annotations (prim_as_u8 prim # bs) = Inr (App prim args annots, rest')"
  using prim_as_u8_less [OF prim] args anns prim
  by (cases num_args) (auto simp: Let_def not_le)

text \<open>The tags of \<open>decode_micheline\<close> are told apart.\<close>

lemma app_tag_simps [simp]:
  "app_tag APP_NO_ARGS_NO_ANNOTS_TAG = Some (Zero, False)"
  "app_tag APP_NO_ARGS_WITH_ANNOTS_TAG = Some (Zero, True)"
  "app_tag APP_ONE_ARG_NO_ANNOTS_TAG = Some (One, False)"
  "app_tag APP_ONE_ARG_WITH_ANNOTS_TAG = Some (One, True)"
  "app_tag APP_TWO_ARGS_NO_ANNOTS_TAG = Some (Two, False)"
  "app_tag APP_TWO_ARGS_WITH_ANNOTS_TAG = Some (Two, True)"
  "app_tag APP_GENERIC = Some (Many, True)"
  by (simp_all add: app_tag_def tag_defs)

lemma decode_micheline_app:
  assumes "app_tag b = Some (num_args, annotations)"
  shows "decode_micheline (b # bs) = decode_app num_args annotations bs"
  using assms by (auto simp: app_tag_def tag_defs split: if_splits)

lemma decode_anns_optional:
  assumes "list_all annotation_ok anns" "length (annotations_encode_from True anns []) < 2 ^ 32"
  shows "decode_anns (anns \<noteq> [])
    ((if anns = [] then [] else annotations_encode_bytes anns []) @ rest) = Inr (anns, rest)"
  using decode_anns_put [OF assms, of rest] by (simp add: decode_anns_def)

lemma decode_app_encode:
  assumes ok: "micheline_ok zarith_write (App prim args annots)"
    and tags: "app_tag no_tag = Some (num_args, False)" "app_tag with_tag = Some (num_args, True)"
    and args: "\<And>rest. case num_args of
        Zero \<Rightarrow> args = []
      | One \<Rightarrow> (\<exists>m. decode_micheline (encode_all zarith_write args [] @ rest) = Inr (m, rest) \<and>
          args = [m])
      | Two \<Rightarrow> (\<exists>m1 m2 bs. decode_micheline (encode_all zarith_write args [] @ rest) = Inr (m1, bs) \<and>
          decode_micheline bs = Inr (m2, rest) \<and> args = [m1, m2])
      | Many \<Rightarrow> False"
  shows "decode_micheline (app_encode no_tag with_tag prim (encode_all zarith_write args) annots [] @
    rest) = Inr (App prim args annots, rest)"
proof -
  let ?anns = "if annots = [] then [] else annotations_encode_bytes annots []"
  have "app_tag (if annots = [] then no_tag else with_tag) = Some (num_args, annots \<noteq> [])"
    using tags by simp
  moreover have "decode_app num_args (annots \<noteq> [])
      (prim_as_u8 prim # encode_all zarith_write args [] @ ?anns @ rest) =
      Inr (App prim args annots, rest)"
    using ok args [of "?anns @ rest"]
    by (intro decode_app_put [OF _ _ decode_anns_optional]) (auto split: NumArgs.splits)
  ultimately show ?thesis
    by (simp only: app_encode_bytes append_Cons append_assoc decode_micheline_app)
qed

lemma decode_encode_app:
  assumes ok: "micheline_ok zarith_write (App prim args annots)"
    and IH: "\<And>m rest. m \<in> set args \<Longrightarrow>
      decode_micheline (encode_micheline zarith_write m [] @ rest) = Inr (m, rest)"
  shows "decode_micheline (encode_micheline zarith_write (App prim args annots) [] @ rest) =
    Inr (App prim args annots, rest)"
proof -
  consider "args = []" | m where "args = [m]" | m1 m2 where "args = [m1, m2]"
    | m1 m2 m3 ms where "args = m1 # m2 # m3 # ms"
    by (metis list.exhaust)
  then show ?thesis
  proof cases
    case 1
    with decode_app_encode [OF ok app_tag_simps(1,2), of rest] show ?thesis by simp
  next
    case (2 m)
    with decode_app_encode [OF ok app_tag_simps(3,4), of rest] IH show ?thesis by simp
  next
    case (3 m1 m2)
    with decode_app_encode [OF ok app_tag_simps(5,6), of rest] IH
      encode_append(1) [of zarith_write m2 "encode_micheline zarith_write m1 []"]
    show ?thesis by simp
  next
    case (4 m1 m2 m3 ms)
    have "decode_app Many True (prim_as_u8 prim #
        to_be_bytes (word_of_nat (length (encode_all zarith_write args [])) :: u32) @
        encode_all zarith_write args [] @ annotations_encode_bytes annots [] @ rest) =
        Inr (App prim args annots, rest)"
      using ok decode_elts_put [OF IH]
      by (intro decode_app_put [OF _ _ decode_anns_put]) (auto simp: get_bytes_put)
    with 4 show ?thesis
      by (simp add: app_generic_bytes decode_micheline_app
          del: encode_all.simps decode_app.simps decode_micheline.simps)
  qed
qed

lemma decode_encode_micheline:
  assumes "zarith_ok zarith_write" "micheline_ok zarith_write m"
  shows "decode_micheline (encode_micheline zarith_write m [] @ rest) = Inr (m, rest)"
  using assms(2)
proof (induction m arbitrary: rest)
  case (Mich_Int n)
  then show ?case
    using assms(1) decode_int_loop_zarith [of "zarith_write n" rest]
    by (simp add: tag_defs decode_int_def zarith_ok_def)
next
  case (Mich_String s)
  then show ?case
    using get_bytes_put [of "as_bytes s" rest]
    by (simp add: put_string_def put_len_def tag_defs decode_string_def validate_str_def)
next
  case (Mich_Bytes b)
  then show ?case
    using get_bytes_put [of b rest]
    by (simp add: put_bytes_def put_len_def tag_defs decode_bytes_def)
next
  case (Seq ms)
  then have "decode_elts (encode_all zarith_write ms []) = Inr ms"
    by (intro decode_elts_put) (auto simp: list_all_iff)
  moreover have "encode_micheline zarith_write (Seq ms) [] = SEQ_TAG #
      to_be_bytes (word_of_nat (length (encode_all zarith_write ms [])) :: u32) @
      encode_all zarith_write ms []"
    by (simp add: with_patchback_len_appender [OF encode_append(2)])
  ultimately show ?case
    using Seq(2) get_bytes_put [of "encode_all zarith_write ms []" rest] by (simp add: tag_defs)
next
  case (App prim args annots)
  then show ?case by (intro decode_encode_app) (auto simp: list_all_iff)
qed

section \<open>No panic\<close>

lemma validate_ann_no_panic: "validate_ann bs \<noteq> Inl Decode_Panic"
  by (auto simp: validate_ann_def ann_syntax_def Let_def split: list.splits)

lemma collect_results_Inl:
  "collect_results rs = Inl e \<Longrightarrow> Inl e \<in> set rs"
  by (induction rs rule: collect_results.induct) (auto simp: map_result_def split: sum.splits)

lemma map_result_Inl: "map_result f r = Inl e \<longleftrightarrow> r = Inl e"
  by (cases r) auto

lemma leaf_decoders_no_panic:
  "get_bytes bs \<noteq> Inl Decode_Panic"
  "decode_int bs \<noteq> Inl Decode_Panic"
  "decode_string bs \<noteq> Inl Decode_Panic"
  "decode_bytes bs \<noteq> Inl Decode_Panic"
  "decode_anns annotations bs \<noteq> Inl Decode_Panic"
proof -
  show get_bytes: "get_bytes bs \<noteq> Inl Decode_Panic" for bs
    by (auto simp: get_bytes_def get_len_def split: option.splits)
  have "decode_int_loop first neg bitvec bs \<noteq> Inl Decode_Panic" for first neg bitvec
    by (induction first neg bitvec bs rule: decode_int_loop.induct) (auto simp: Let_def)
  then show "decode_int bs \<noteq> Inl Decode_Panic"
    by (simp add: decode_int_def map_result_Inl)
  show "decode_string bs \<noteq> Inl Decode_Panic" "decode_bytes bs \<noteq> Inl Decode_Panic"
    using get_bytes [of bs]
    by (auto simp: decode_string_def decode_bytes_def validate_str_def map_result_Inl Let_def
        split: sum.splits if_splits)
  have no_ann_panic: "Inl Decode_Panic \<notin> set (map validate_ann bss)" for bss
    by (metis imageE set_map validate_ann_no_panic)
  show "decode_anns annotations bs \<noteq> Inl Decode_Panic"
    using get_bytes [of bs] no_ann_panic
    by (auto simp: decode_anns_def map_result_Inl dest!: collect_results_Inl simp del: set_map
        split: sum.splits if_splits)
qed

lemma decode_no_panic:
  "decode_micheline bs \<noteq> Inl Decode_Panic"
  "decode_app num_args annotations bs \<noteq> Inl Decode_Panic"
  "decode_elts bs \<noteq> Inl Decode_Panic"
proof (induction bs and num_args annotations bs and bs
    rule: decode_micheline_decode_app_decode_elts.induct)
  case (2 b bs)
  then show ?case
    using leaf_decoders_no_panic
    by (auto simp: map_result_Inl split: sum.splits option.splits)
next
  case (4 num_args annotations p bs)
  then show ?case
    using leaf_decoders_no_panic
    by (cases num_args; auto simp: map_result_Inl Let_def split: sum.splits; blast)
next
  case (6 b bs)
  then show ?case
    by (auto simp: map_result_Inl split: sum.splits)
qed auto

section \<open>A writer of integers\<close>

fun zarith_digits :: "nat \<Rightarrow> bytes" where
  "zarith_digits n =
     (if n < 128 then [word_of_nat n] else word_of_nat (n mod 128 + 128) # zarith_digits (n div 128))"

declare zarith_digits.simps [simp del]

definition std_zarith_write :: "int \<Rightarrow> bytes" where
  "std_zarith_write n =
     (let m = nat \<bar>n\<bar>; sign = (if n < 0 then 64 else 0)
      in if m < 64 then [word_of_nat (m + sign)]
         else word_of_nat (m mod 64 + sign + 128) # zarith_digits (m div 64))"

lemma u8_bits:
  assumes "n < 256"
  shows "bit (word_of_nat n :: u8) i \<longleftrightarrow> bit n i"
    and "uint (take_bit i (word_of_nat n :: u8)) = int (take_bit i n)"
proof -
  have n: "unat (word_of_nat n :: u8) = n"
    using assms by (simp add: unat_of_nat take_bit_nat_def)
  have "bit (unat (word_of_nat n :: u8)) i \<longleftrightarrow> bit (word_of_nat n :: u8) i"
    by (simp only: bit_unsigned_iff) simp
  with n show "bit (word_of_nat n :: u8) i \<longleftrightarrow> bit n i" by simp
  show "uint (take_bit i (word_of_nat n :: u8)) = int (take_bit i n)"
    by (simp only: unsigned_take_bit_eq uint_nat n of_nat_take_bit)
qed

lemma byte_div_mod:
  "k < 128 \<Longrightarrow> (k + 128) div 128 = (1 :: nat)"
  "k < 64 \<Longrightarrow> (k + 64) div 64 = (1 :: nat)"
  "k < 64 \<Longrightarrow> (k + 64) div 128 = (0 :: nat)"
  "k < 64 \<Longrightarrow> (k + 128) div 64 = (2 :: nat)"
  "k < 64 \<Longrightarrow> (192 + k) div 64 = (3 :: nat)"
  "k < 64 \<Longrightarrow> (192 + k) div 128 = (1 :: nat)"
  "k < 64 \<Longrightarrow> (k + 128) mod 64 = (k :: nat)"
  "k < 64 \<Longrightarrow> (192 + k) mod 64 = (k :: nat)"
  by (simp_all add: div_nat_eqI) (simp_all add: mod_nat_eqI)

lemma zarith_digits_ok:
  "zarith_form (zarith_digits n) \<and>
   horner_sum (\<lambda>b. uint (take_bit 7 b)) 128 (zarith_digits n) = int n"
proof (induction n rule: zarith_digits.induct)
  case (1 n)
  show ?case
  proof (cases "n < 128")
    case True
    then show ?thesis
      by (simp add: zarith_digits.simps zarith_form_def u8_bits take_bit_nat_eq_self bit_nat_def)
  next
    case False
    have "n mod 128 + 128 < 256" by simp
    then have "bit (word_of_nat (n mod 128 + 128) :: u8) 7"
      and "uint (take_bit 7 (word_of_nat (n mod 128 + 128) :: u8)) = int (n mod 128)"
      by (simp_all only: u8_bits, simp_all add: bit_nat_def take_bit_nat_def byte_div_mod)
    moreover have "zarith_digits (n div 128) \<noteq> []"
      using 1 False by (simp add: zarith_form_def)
    ultimately show ?thesis
      using 1 False
      by (simp add: zarith_digits.simps [of n] zarith_form_def zmod_int zdiv_int mod_mult_div_eq)
  qed
qed

lemma std_zarith_ok: "zarith_ok std_zarith_write"
  unfolding zarith_ok_def
proof (intro allI)
  fix n :: int
  define sign where "sign = (if n < 0 then 64 else 0 :: nat)"
  define m where "m = nat \<bar>n\<bar>"
  have m: "n = (if n < 0 then - int m else int m)" by (simp add: m_def)
  have single: "bit (word_of_nat (k + sign) :: u8) 6 \<longleftrightarrow> n < 0"
    "uint (take_bit 6 (word_of_nat (k + sign) :: u8)) = int k"
    "\<not> bit (word_of_nat (k + sign) :: u8) 7" if "k < 64" for k
  proof -
    have "k + sign < 256" using that by (simp add: sign_def)
    with that show "bit (word_of_nat (k + sign) :: u8) 6 \<longleftrightarrow> n < 0"
      "uint (take_bit 6 (word_of_nat (k + sign) :: u8)) = int k"
      "\<not> bit (word_of_nat (k + sign) :: u8) 7"
      by (simp_all only: u8_bits, simp_all add: sign_def bit_nat_def take_bit_nat_def byte_div_mod)
  qed
  have first: "bit (word_of_nat (k + sign + 128) :: u8) 6 \<longleftrightarrow> n < 0"
    "uint (take_bit 6 (word_of_nat (k + sign + 128) :: u8)) = int k"
    "bit (word_of_nat (k + sign + 128) :: u8) 7" if "k < 64" for k
  proof -
    have "k + sign + 128 < 256" using that by (simp add: sign_def)
    with that show "bit (word_of_nat (k + sign + 128) :: u8) 6 \<longleftrightarrow> n < 0"
      "uint (take_bit 6 (word_of_nat (k + sign + 128) :: u8)) = int k"
      "bit (word_of_nat (k + sign + 128) :: u8) 7"
      by (simp_all only: u8_bits, simp_all add: sign_def bit_nat_def take_bit_nat_def byte_div_mod)
  qed
  show "zarith_form (std_zarith_write n) \<and> zarith_value (std_zarith_write n) = n"
  proof (cases "m < 64")
    case True
    with single [OF this] m show ?thesis
      by (simp add: std_zarith_write_def zarith_form_def zarith_value_def Let_def
          split: if_splits flip: sign_def m_def)
  next
    case False
    have "zarith_digits (m div 64) \<noteq> []"
      using zarith_digits_ok [of "m div 64"] by (simp add: zarith_form_def)
    with False first [of "m mod 64"] zarith_digits_ok [of "m div 64"] m show ?thesis
      by (simp add: std_zarith_write_def zarith_form_def zarith_value_def Let_def zdiv_int zmod_int
          mod_mult_div_eq split: if_splits flip: sign_def m_def)
  qed
qed

section \<open>Properties\<close>

text \<open>
  C14: Reading what \<open>PACK\<close> wrote gives the tree back: for every Micheline tree whose strings are
  printable, whose annotations follow the lexical syntax and whose lengths fit 32 bits,
  \<open>decode_packed\<close> of \<open>encode_for_pack\<close> returns exactly that tree, for any writer of integers
  that follows the documented format of \<open>Zarith\<close>.
\<close>

theorem pack_round_trip:
  assumes "zarith_ok zarith_write" "micheline_ok zarith_write m"
  shows "decode_packed (encode_for_pack zarith_write m) = Inr m"
  using decode_encode_micheline [OF assms, of "[]"] encode_append(1) [of zarith_write m "[0x05]"]
  by (simp add: decode_packed_def encode_for_pack_def encode_starting_with_def decode_raw_def)

definition example_micheline :: Micheline where
  "example_micheline =
     App ''pair''
       [App ''int'' [] [Field ''a''], Mich_Int (-1000),
        Seq [Mich_String ''ab'', prim1 ''Some'' (Mich_Bytes [1, 2])]]
       [Type_ann ''t'', Variable ''v'']"

lemma example_micheline_ok: "micheline_ok std_zarith_write example_micheline"
  by (simp add: example_micheline_def prim1_def prims_def printable_def annotation_ok_def
      ann_name_def alpha_num_def annotation_encode_bytes_def as_bytes_def put_bytes_def
      put_string_def put_len_def app_encode_def annotations_encode_bytes_def prim_encode_def
      with_patchback_len_def copy_from_slice_def std_zarith_write_def zarith_digits.simps Let_def)

theorem pack_round_trip_witness:
  "decode_packed (encode_for_pack std_zarith_write example_micheline) = Inr example_micheline"
  by (rule pack_round_trip [OF std_zarith_ok example_micheline_ok])


end
