(* ===== verification/MIR_ByteRepr.thy ===== *)
theory MIR_ByteRepr
  imports MIR_Ast MIR_Serializer
begin

text \<open>
  Byte and base58-check representations of key hashes, addresses, keys and signatures
  (\<open>src/contrib/mir/src/ast/michelson_key_hash.rs\<close>, \<open>michelson_address.rs\<close> and below,
  \<open>michelson_key.rs\<close>, \<open>michelson_signature.rs\<close>), the BLS12-381 elements (\<open>src/contrib/mir/src/bls\<close>)
  and the round trips of the byte representations.

  What the source takes from other crates is a parameter: the fields of \<open>Ext\<close>.  The texts of error
  messages are left out.
\<close>

section \<open>What other crates provide\<close>

text \<open>
  The hash types of \<open>mavryk_crypto_rs\<close> the source uses.
\<close>

datatype HashType =
    ContractMv1Hash | ContractMv2Hash | ContractMv3Hash | ContractMv4Hash | ContractKt1Hash
  | SmartRollupHash | PublicKeyEd25519 | PublicKeySecp256k1 | PublicKeyP256 | PublicKeyBls
  | ChainIdHash | BlsSignature

text \<open>
  \<^item> \<open>mavryk_crypto_rs\<close>: \<open>try_from_bytes\<close> and \<open>from_b58check\<close> of each hash type, \<open>from_base58check\<close>,
    \<open>pk_hash\<close>, \<open>verify_signature\<close> and \<open>aggregate_verify\<close>, where an error is \<open>None\<close>; \<open>digest_256\<close> and
    \<open>blake2b_digest\<close> (\<open>blake2b::digest\<close>, to a digest of the given size).
  \<^item> \<open>base58\<close>: \<open>from_base58\<close>; \<open>cryptoxide\<close>: the other digests.
  \<^item> \<open>blst\<close>: scalars and points are represented by their serialized form.  \<open>fr_check\<close> tells whether
    32 bytes are a scalar of the field; \<open>p1_deserialize\<close> and \<open>p2_deserialize\<close> read a point, check that
    it is in the group and return its serialized form.
  \<^item> \<open>chrono\<close>: \<open>parse_rfc3339\<close>; \<open>mavryk_data_encoding\<close>: \<open>zarith_write\<close>.
\<close>

record Ext =
  try_from_bytes :: "HashType \<Rightarrow> bytes \<Rightarrow> bytes option"
  from_b58check :: "HashType \<Rightarrow> string \<Rightarrow> bytes option"
  from_base58check :: "string \<Rightarrow> bytes option"
  from_base58 :: "string \<Rightarrow> bytes option"
  pk_hash :: "HashType \<Rightarrow> bytes \<Rightarrow> bytes option"
  verify_signature :: "HashType \<Rightarrow> bytes \<Rightarrow> bytes \<Rightarrow> bytes \<Rightarrow> bool option"
  aggregate_verify :: "bytes \<Rightarrow> bytes \<Rightarrow> bytes \<Rightarrow> bool option"
  digest_256 :: "bytes \<Rightarrow> bytes option"
  blake2b_digest :: "bytes \<Rightarrow> nat \<Rightarrow> bytes option"
  blake2b_256 :: "bytes \<Rightarrow> bytes"
  keccak256 :: "bytes \<Rightarrow> bytes"
  sha256 :: "bytes \<Rightarrow> bytes"
  sha3_256 :: "bytes \<Rightarrow> bytes"
  sha512 :: "bytes \<Rightarrow> bytes"
  fr_check :: "bytes \<Rightarrow> bool"
  fr_add :: "bytes \<Rightarrow> bytes \<Rightarrow> bytes"
  fr_mul :: "bytes \<Rightarrow> bytes \<Rightarrow> bytes"
  fr_cneg :: "bytes \<Rightarrow> bytes"
  p1_deserialize :: "bytes \<Rightarrow> bytes option"
  p1_add :: "bytes \<Rightarrow> bytes \<Rightarrow> bytes"
  p1_mult :: "bytes \<Rightarrow> bytes \<Rightarrow> bytes"
  p1_cneg :: "bytes \<Rightarrow> bytes"
  p2_deserialize :: "bytes \<Rightarrow> bytes option"
  p2_add :: "bytes \<Rightarrow> bytes \<Rightarrow> bytes"
  p2_mult :: "bytes \<Rightarrow> bytes \<Rightarrow> bytes"
  p2_cneg :: "bytes \<Rightarrow> bytes"
  pairing_product_is_one :: "(bytes \<times> bytes) list \<Rightarrow> bool"
  parse_rfc3339 :: "string \<Rightarrow> int option"
  zarith_write :: "int \<Rightarrow> bytes"

section \<open>Byte representation trait\<close>

datatype ByteReprError = UnknownPrefix | WrongFormat

type_synonym 'a repr = "(ByteReprError, 'a) outcome"

text \<open>\<open>HashTrait::try_from_bytes(..)?\<close> and \<open>HashTrait::from_b58check(..)?\<close>\<close>

definition try_hash_bytes :: "Ext \<Rightarrow> HashType \<Rightarrow> bytes \<Rightarrow> bytes repr" where
  "try_hash_bytes ext ty bs = ok_or (try_from_bytes ext ty bs) WrongFormat"

definition try_hash_b58 :: "Ext \<Rightarrow> HashType \<Rightarrow> string \<Rightarrow> bytes repr" where
  "try_hash_b58 ext ty s = ok_or (from_b58check ext ty s) WrongFormat"

section \<open>Key hashes\<close>

definition keyhash_check_size :: "'a list \<Rightarrow> nat \<Rightarrow> unit repr" where
  "keyhash_check_size data expected_size = (if length data \<noteq> expected_size then Err WrongFormat else Ok ())"

definition TAG_TZ1 :: u8 where "TAG_TZ1 = 0"
definition TAG_TZ2 :: u8 where "TAG_TZ2 = 1"
definition TAG_TZ3 :: u8 where "TAG_TZ3 = 2"
definition TAG_MV4 :: u8 where "TAG_MV4 = 3"
definition keyhash_HASH_SIZE :: nat where "keyhash_HASH_SIZE = 20"
definition keyhash_BYTE_SIZE :: nat where "keyhash_BYTE_SIZE = keyhash_HASH_SIZE + 1"
definition keyhash_BASE58_SIZE :: nat where "keyhash_BASE58_SIZE = 36"

definition keyhash_from_base58_check :: "Ext \<Rightarrow> string \<Rightarrow> KeyHash repr" where
  "keyhash_from_base58_check ext data =
     bind_outcome (keyhash_check_size data keyhash_BASE58_SIZE) (\<lambda>_.
     bind_outcome (str_prefix 3 data) (\<lambda>s.
       if s = ''tz1'' then map_outcome Tz1 (try_hash_b58 ext ContractMv1Hash data)
       else if s = ''tz2'' then map_outcome Tz2 (try_hash_b58 ext ContractMv2Hash data)
       else if s = ''tz3'' then map_outcome Tz3 (try_hash_b58 ext ContractMv3Hash data)
       else if s = ''mv4'' then map_outcome Mv4 (try_hash_b58 ext ContractMv4Hash data)
       else Err UnknownPrefix))"

definition keyhash_from_bytes :: "Ext \<Rightarrow> bytes \<Rightarrow> KeyHash repr" where
  "keyhash_from_bytes ext bs =
     bind_outcome (keyhash_check_size bs keyhash_BYTE_SIZE) (\<lambda>_.
       if hd bs = TAG_TZ1 then map_outcome Tz1 (try_hash_bytes ext ContractMv1Hash (tl bs))
       else if hd bs = TAG_TZ2 then map_outcome Tz2 (try_hash_bytes ext ContractMv2Hash (tl bs))
       else if hd bs = TAG_TZ3 then map_outcome Tz3 (try_hash_bytes ext ContractMv3Hash (tl bs))
       else if hd bs = TAG_MV4 then map_outcome Mv4 (try_hash_bytes ext ContractMv4Hash (tl bs))
       else Err UnknownPrefix)"

fun keyhash_to_bytes :: "KeyHash \<Rightarrow> bytes \<Rightarrow> bytes" where
  "keyhash_to_bytes (Tz1 hash) out = out @ [TAG_TZ1] @ hash"
| "keyhash_to_bytes (Tz2 hash) out = out @ [TAG_TZ2] @ hash"
| "keyhash_to_bytes (Tz3 hash) out = out @ [TAG_TZ3] @ hash"
| "keyhash_to_bytes (Mv4 hash) out = out @ [TAG_MV4] @ hash"

section \<open>Address hashes\<close>

definition address_check_size :: "'a list \<Rightarrow> nat \<Rightarrow> unit repr" where
  "address_check_size data min_size = (if length data < min_size then Err WrongFormat else Ok ())"

definition TAG_IMPLICIT :: u8 where "TAG_IMPLICIT = 0"
definition TAG_KT1 :: u8 where "TAG_KT1 = 1"
definition TAG_SR1 :: u8 where "TAG_SR1 = 3"
definition PADDING_ORIGINATED :: bytes where "PADDING_ORIGINATED = [0]"
definition addresshash_HASH_SIZE :: nat where "addresshash_HASH_SIZE = 20"
definition addresshash_BYTE_SIZE :: nat where "addresshash_BYTE_SIZE = addresshash_HASH_SIZE + 2"
definition addresshash_BASE58_SIZE :: nat where "addresshash_BASE58_SIZE = 36"

definition addresshash_from_base58_check :: "Ext \<Rightarrow> string \<Rightarrow> AddressHash repr" where
  "addresshash_from_base58_check ext data =
     bind_outcome (address_check_size data addresshash_BASE58_SIZE) (\<lambda>_.
     bind_outcome (str_prefix 3 data) (\<lambda>s.
       if s = ''KT1'' then map_outcome Kt1 (try_hash_b58 ext ContractKt1Hash data)
       else if s = ''sr1'' then map_outcome Sr1 (try_hash_b58 ext SmartRollupHash data)
       else map_outcome Implicit (keyhash_from_base58_check ext data)))"

definition validate_padding_byte :: "bytes \<Rightarrow> unit repr" where
  "validate_padding_byte bs = (if last bs = 0 then Ok () else Err WrongFormat)"

definition addresshash_from_bytes :: "Ext \<Rightarrow> bytes \<Rightarrow> AddressHash repr" where
  "addresshash_from_bytes ext bs =
     bind_outcome (address_check_size bs addresshash_BYTE_SIZE) (\<lambda>_.
       if hd bs = TAG_IMPLICIT then map_outcome Implicit (keyhash_from_bytes ext (tl bs))
       else if hd bs = TAG_KT1 then
         bind_outcome (validate_padding_byte bs) (\<lambda>_.
           map_outcome Kt1 (try_hash_bytes ext ContractKt1Hash (butlast (tl bs))))
       else if hd bs = TAG_SR1 then
         bind_outcome (validate_padding_byte bs) (\<lambda>_.
           map_outcome Sr1 (try_hash_bytes ext SmartRollupHash (butlast (tl bs))))
       else Err UnknownPrefix)"

fun addresshash_to_bytes :: "AddressHash \<Rightarrow> bytes \<Rightarrow> bytes" where
  "addresshash_to_bytes (Implicit hash) out = keyhash_to_bytes hash (out @ [TAG_IMPLICIT])"
| "addresshash_to_bytes (Kt1 hash) out = out @ [TAG_KT1] @ hash @ PADDING_ORIGINATED"
| "addresshash_to_bytes (Sr1 hash) out = out @ [TAG_SR1] @ hash @ PADDING_ORIGINATED"

section \<open>Entrypoints\<close>

definition DEFAULT_EP_NAME :: string where "DEFAULT_EP_NAME = ''default''"
definition MAX_EP_LEN :: nat where "MAX_EP_LEN = 31"

definition entrypoint_default :: Entrypoint where
  "entrypoint_default = DEFAULT_EP_NAME"

definition entrypoint_is_default :: "Entrypoint \<Rightarrow> bool" where
  "entrypoint_is_default ep \<longleftrightarrow> ep = DEFAULT_EP_NAME"

definition check_ep_name_len :: "'a list \<Rightarrow> unit repr" where
  "check_ep_name_len ep = (if length ep > MAX_EP_LEN then Err WrongFormat else Ok ())"

text \<open>The loop of \<open>check_ep_name\<close>, from a byte on.\<close>

fun check_ep_chars :: "bool \<Rightarrow> string \<Rightarrow> unit repr" where
  "check_ep_chars first_char [] = Ok ()"
| "check_ep_chars first_char (c # cs) =
     (if c = CHR ''_'' \<or> alpha_num c \<or>
         (c = CHR ''.'' \<or> c = CHR ''%'' \<or> c = CHR ''@'') \<and> \<not> first_char
      then check_ep_chars False cs else Err WrongFormat)"

definition check_ep_name :: "string \<Rightarrow> unit repr" where
  "check_ep_name ep = bind_outcome (check_ep_name_len ep) (\<lambda>_. check_ep_chars True ep)"

definition entrypoint_try_from_str :: "string \<Rightarrow> Entrypoint repr" where
  "entrypoint_try_from_str s =
     (if s = [] then Ok entrypoint_default else map_outcome (\<lambda>_. s) (check_ep_name s))"

definition entrypoint_try_from_bytes :: "bytes \<Rightarrow> Entrypoint repr" where
  "entrypoint_try_from_bytes s =
     (if s = [] then Ok entrypoint_default
      else let ep = from_utf8_unchecked s in
        bind_outcome (check_ep_name ep) (\<lambda>_.
          if entrypoint_is_default ep then Err WrongFormat else Ok ep))"

definition entrypoint_try_from_ann :: "string \<Rightarrow> Entrypoint repr" where
  "entrypoint_try_from_ann s = map_outcome (\<lambda>_. s) (check_ep_name_len s)"

section \<open>Addresses\<close>

definition is_default_ep :: "Address \<Rightarrow> bool" where
  "is_default_ep a = entrypoint_is_default (address_entrypoint a)"

definition address_from_base58_check :: "Ext \<Rightarrow> string \<Rightarrow> Address repr" where
  "address_from_base58_check ext data =
     (let hash = takeWhile (\<lambda>c. c \<noteq> CHR ''%'') data;
          ep = tl (dropWhile (\<lambda>c. c \<noteq> CHR ''%'') data) in
      bind_outcome (addresshash_from_base58_check ext hash) (\<lambda>hash.
      bind_outcome (entrypoint_try_from_str ep) (\<lambda>ep. Ok (Address hash ep))))"

definition address_from_bytes :: "Ext \<Rightarrow> bytes \<Rightarrow> Address repr" where
  "address_from_bytes ext bs =
     bind_outcome (address_check_size bs addresshash_BYTE_SIZE) (\<lambda>_.
     bind_outcome (addresshash_from_bytes ext (take addresshash_BYTE_SIZE bs)) (\<lambda>hash.
     bind_outcome (entrypoint_try_from_bytes (drop addresshash_BYTE_SIZE bs)) (\<lambda>ep.
       Ok (Address hash ep))))"

definition address_to_bytes :: "Address \<Rightarrow> bytes \<Rightarrow> bytes" where
  "address_to_bytes a out =
     (let out = addresshash_to_bytes (address_hash a) out in
      if is_default_ep a then out else out @ as_bytes (address_entrypoint a))"

section \<open>Keys\<close>

definition key_check_size :: "'a list \<Rightarrow> nat \<Rightarrow> unit repr" where
  "key_check_size data min_size = (if length data < min_size then Err WrongFormat else Ok ())"

definition TAG_ED25519 :: u8 where "TAG_ED25519 = 0"
definition TAG_SECP256K1 :: u8 where "TAG_SECP256K1 = 1"
definition TAG_P256 :: u8 where "TAG_P256 = 2"
definition TAG_BLS :: u8 where "TAG_BLS = 3"
definition MIN_BASE58_SIZE :: nat where "MIN_BASE58_SIZE = 54"
definition MIN_BYTE_SIZE :: nat where "MIN_BYTE_SIZE = 32"

definition key_from_base58_check :: "Ext \<Rightarrow> string \<Rightarrow> Key repr" where
  "key_from_base58_check ext data =
     bind_outcome (key_check_size data MIN_BASE58_SIZE) (\<lambda>_.
     bind_outcome (str_prefix 4 data) (\<lambda>s.
       if s = ''edpk'' then map_outcome Key_Ed25519 (try_hash_b58 ext PublicKeyEd25519 data)
       else if s = ''sppk'' then map_outcome Key_Secp256k1 (try_hash_b58 ext PublicKeySecp256k1 data)
       else if s = ''p2pk'' then map_outcome Key_P256 (try_hash_b58 ext PublicKeyP256 data)
       else if s = ''BLpk'' then map_outcome Key_Bls (try_hash_b58 ext PublicKeyBls data)
       else Err UnknownPrefix))"

definition key_from_bytes :: "Ext \<Rightarrow> bytes \<Rightarrow> Key repr" where
  "key_from_bytes ext bs =
     bind_outcome (key_check_size bs MIN_BYTE_SIZE) (\<lambda>_.
       if hd bs = TAG_ED25519 then map_outcome Key_Ed25519 (try_hash_bytes ext PublicKeyEd25519 (tl bs))
       else if hd bs = TAG_SECP256K1 then
         map_outcome Key_Secp256k1 (try_hash_bytes ext PublicKeySecp256k1 (tl bs))
       else if hd bs = TAG_P256 then map_outcome Key_P256 (try_hash_bytes ext PublicKeyP256 (tl bs))
       else if hd bs = TAG_BLS then map_outcome Key_Bls (try_hash_bytes ext PublicKeyBls (tl bs))
       else Err UnknownPrefix)"

fun key_to_bytes :: "Key \<Rightarrow> bytes \<Rightarrow> bytes" where
  "key_to_bytes (Key_Ed25519 hash) out = out @ [TAG_ED25519] @ hash"
| "key_to_bytes (Key_Secp256k1 hash) out = out @ [TAG_SECP256K1] @ hash"
| "key_to_bytes (Key_P256 hash) out = out @ [TAG_P256] @ hash"
| "key_to_bytes (Key_Bls hash) out = out @ [TAG_BLS] @ hash"

text \<open>\<open>Key::hash\<close>, whose \<open>unwrap\<close> panics when the digest fails.\<close>

definition unwrap :: "'a option \<Rightarrow> ('e, 'a) outcome" where
  "unwrap x = (case x of Some a \<Rightarrow> Ok a | None \<Rightarrow> Panic UnwrapFailed)"

fun key_hash :: "Ext \<Rightarrow> Key \<Rightarrow> ('e, KeyHash) outcome" where
  "key_hash ext (Key_Ed25519 k) = map_outcome Tz1 (unwrap (pk_hash ext PublicKeyEd25519 k))"
| "key_hash ext (Key_Secp256k1 k) = map_outcome Tz2 (unwrap (pk_hash ext PublicKeySecp256k1 k))"
| "key_hash ext (Key_P256 k) = map_outcome Tz3 (unwrap (pk_hash ext PublicKeyP256 k))"
| "key_hash ext (Key_Bls k) = map_outcome Mv4 (unwrap (pk_hash ext PublicKeyBls k))"

section \<open>Signatures\<close>

text \<open>
  \<open>SignatureTrait::from_b58check\<close> and \<open>try_from_bytes\<close>, by the prefix of the signature type; all four
  types are 64 bytes long.
\<close>

definition sig_BYTE_SIZE :: nat where "sig_BYTE_SIZE = 64"
definition EDSIG_PREFIX :: bytes where "EDSIG_PREFIX = [9, 245, 205, 134, 18]"
definition SPSIG_PREFIX :: bytes where "SPSIG_PREFIX = [13, 115, 101, 19, 63]"
definition P2SIG_PREFIX :: bytes where "P2SIG_PREFIX = [54, 240, 44, 52]"
definition SIG_PREFIX :: bytes where "SIG_PREFIX = [4, 130, 43]"

definition sig_from_b58check :: "Ext \<Rightarrow> bytes \<Rightarrow> string \<Rightarrow> bytes repr" where
  "sig_from_b58check ext BASE58_PREFIX s =
     bind_outcome (ok_or (from_base58check ext s) WrongFormat) (\<lambda>bs.
       if length bs \<noteq> length BASE58_PREFIX + sig_BYTE_SIZE then Err WrongFormat
       else if take (length BASE58_PREFIX) bs = BASE58_PREFIX
       then Ok (drop (length BASE58_PREFIX) bs)
       else Err WrongFormat)"

definition sig_try_from_bytes :: "bytes \<Rightarrow> bytes repr" where
  "sig_try_from_bytes bs = (if length bs = sig_BYTE_SIZE then Ok bs else Err WrongFormat)"

text \<open>The reimplemented \<open>from_b58check\<close> for BLS signatures.\<close>

definition CHECKSUM_BYTE_SIZE :: nat where "CHECKSUM_BYTE_SIZE = 4"

definition bls_from_b58check :: "Ext \<Rightarrow> string \<Rightarrow> bytes repr" where
  "bls_from_b58check ext s =
     bind_outcome (ok_or (from_base58 ext s) WrongFormat) (\<lambda>bytes_with_checksum.
       if length bytes_with_checksum < CHECKSUM_BYTE_SIZE then Err WrongFormat
       else let mid = length bytes_with_checksum - CHECKSUM_BYTE_SIZE;
                bs = take mid bytes_with_checksum;
                checksum = drop mid bytes_with_checksum in
         if take 4 (sha256 ext (sha256 ext bs)) \<noteq> checksum then Err WrongFormat else Ok bs)"

definition starts_with :: "'a list \<Rightarrow> 'a list \<Rightarrow> bool" where
  "starts_with s p \<longleftrightarrow> take (length p) s = p"

definition signature_from_base58_check :: "Ext \<Rightarrow> string \<Rightarrow> Signature repr" where
  "signature_from_base58_check ext data =
     (if starts_with data ''edsig'' then map_outcome Sig_Ed25519 (sig_from_b58check ext EDSIG_PREFIX data)
      else if starts_with data ''spsig1''
      then map_outcome Sig_Secp256k1 (sig_from_b58check ext SPSIG_PREFIX data)
      else if starts_with data ''p2sig'' then map_outcome Sig_P256 (sig_from_b58check ext P2SIG_PREFIX data)
      else if starts_with data ''BLsig'' then
        bind_outcome (bls_from_b58check ext data) (\<lambda>raw_bytes.
          if length raw_bytes < 4 then Panic SliceBounds else Ok (Sig_Bls (drop 4 raw_bytes)))
      else if starts_with data ''sig'' then map_outcome Sig_Generic (sig_from_b58check ext SIG_PREFIX data)
      else Err UnknownPrefix)"

definition GENERIC_BYTE_LENGTH :: nat where "GENERIC_BYTE_LENGTH = 64"
definition BLS_BYTE_LENGTH :: nat where "BLS_BYTE_LENGTH = 96"

definition signature_from_bytes :: "Ext \<Rightarrow> bytes \<Rightarrow> Signature repr" where
  "signature_from_bytes ext bs =
     (if length bs = GENERIC_BYTE_LENGTH then map_outcome Sig_Generic (sig_try_from_bytes bs)
      else if length bs = BLS_BYTE_LENGTH then map_outcome Sig_Bls (try_hash_bytes ext BlsSignature bs)
      else Err WrongFormat)"

fun signature_to_bytes :: "Signature \<Rightarrow> bytes \<Rightarrow> bytes" where
  "signature_to_bytes (Sig_Ed25519 hash) out = out @ hash"
| "signature_to_bytes (Sig_Secp256k1 hash) out = out @ hash"
| "signature_to_bytes (Sig_P256 hash) out = out @ hash"
| "signature_to_bytes (Sig_Bls hash) out = out @ hash"
| "signature_to_bytes (Sig_Generic hash) out = out @ hash"

definition verify_hashed :: "Ext \<Rightarrow> HashType \<Rightarrow> bytes \<Rightarrow> bytes \<Rightarrow> bytes \<Rightarrow> ('e, bool) outcome" where
  "verify_hashed ext ty key sig msg =
     bind_outcome (unwrap (digest_256 ext msg)) (\<lambda>h.
       Ok (case verify_signature ext ty key sig h of Some b \<Rightarrow> b | None \<Rightarrow> False))"

fun signature_check :: "Ext \<Rightarrow> Signature \<Rightarrow> Key \<Rightarrow> bytes \<Rightarrow> ('e, bool) outcome" where
  "signature_check ext sig (Key_Ed25519 key) msg =
     (case sig of
        Sig_Ed25519 sig \<Rightarrow> verify_hashed ext PublicKeyEd25519 key sig msg
      | Sig_Generic sig \<Rightarrow> verify_hashed ext PublicKeyEd25519 key sig msg
      | _ \<Rightarrow> Ok False)"
| "signature_check ext sig (Key_Secp256k1 key) msg =
     (case sig of
        Sig_Secp256k1 sig \<Rightarrow> verify_hashed ext PublicKeySecp256k1 key sig msg
      | Sig_Generic sig \<Rightarrow> verify_hashed ext PublicKeySecp256k1 key sig msg
      | _ \<Rightarrow> Ok False)"
| "signature_check ext sig (Key_P256 key) msg =
     (case sig of
        Sig_P256 sig \<Rightarrow> verify_hashed ext PublicKeyP256 key sig msg
      | Sig_Generic sig \<Rightarrow> verify_hashed ext PublicKeyP256 key sig msg
      | _ \<Rightarrow> Ok False)"
| "signature_check ext sig (Key_Bls key) msg =
     (case sig of
        Sig_Bls sig \<Rightarrow>
          Ok (case aggregate_verify ext sig msg key of Some b \<Rightarrow> b | None \<Rightarrow> False)
      | _ \<Rightarrow> Ok False)"

section \<open>Chain identifiers\<close>

definition chain_id_from_bytes :: "Ext \<Rightarrow> bytes \<Rightarrow> ChainId repr" where
  "chain_id_from_bytes ext bs = try_hash_bytes ext ChainIdHash bs"

definition chain_id_from_base58_check :: "Ext \<Rightarrow> string \<Rightarrow> ChainId repr" where
  "chain_id_from_base58_check ext s = try_hash_b58 ext ChainIdHash s"

section \<open>BLS12-381\<close>

definition fr_BYTE_SIZE :: nat where "fr_BYTE_SIZE = 32"
definition g1_BYTE_SIZE :: nat where "g1_BYTE_SIZE = 96"
definition g2_BYTE_SIZE :: nat where "g2_BYTE_SIZE = 192"

definition fr_from_bytes :: "Ext \<Rightarrow> bytes \<Rightarrow> bytes option" where
  "fr_from_bytes ext bs =
     (if length bs > fr_BYTE_SIZE then None
      else let buf = bs @ replicate (fr_BYTE_SIZE - length bs) 0 in
        if fr_check ext buf then Some buf else None)"

definition fr_order :: int where
  "fr_order = 52435875175126190479447740508185965837690552500527637822603658699938581184513"

text \<open>\<open>BigUint::to_bytes_le\<close>, which gives one zero byte for zero.\<close>

fun nat_bytes_le :: "nat \<Rightarrow> bytes" where
  "nat_bytes_le n = (if n < 256 then [word_of_nat n] else word_of_nat (n mod 256) # nat_bytes_le (n div 256))"

declare nat_bytes_le.simps [simp del]

definition fr_from_big_int :: "Ext \<Rightarrow> int \<Rightarrow> ('e, bytes) outcome" where
  "fr_from_big_int ext i =
     (let bytes_le = nat_bytes_le (nat (i mod fr_order)) in
      if length bytes_le > fr_BYTE_SIZE then Panic SliceBounds
      else unwrap (fr_from_bytes ext (bytes_le @ replicate (fr_BYTE_SIZE - length bytes_le) 0)))"

definition fr_to_big_int :: "bytes \<Rightarrow> int" where
  "fr_to_big_int bs = bigint_from_bytes_le False bs"

definition g1_from_bytes :: "Ext \<Rightarrow> bytes \<Rightarrow> bytes option" where
  "g1_from_bytes ext bs = (if length bs \<noteq> g1_BYTE_SIZE then None else p1_deserialize ext bs)"

definition g2_from_bytes :: "Ext \<Rightarrow> bytes \<Rightarrow> bytes option" where
  "g2_from_bytes ext bs = (if length bs \<noteq> g2_BYTE_SIZE then None else p2_deserialize ext bs)"

text \<open>
  \<open>pairing_check\<close>: the product of the Miller loops and its final exponentiation are operations of
  \<open>blst\<close>.
\<close>

definition pairing_check :: "Ext \<Rightarrow> (bytes \<times> bytes) list \<Rightarrow> bool" where
  "pairing_check ext pairs = pairing_product_is_one ext pairs"

section \<open>The contract of a byte representation\<close>

text \<open>
  The contract of the trait \<open>ByteReprTrait\<close>, as far as raw bytes go: writing appends, reading never
  panics, and a well-formed value is read back from its bytes.
\<close>

locale byte_repr =
  fixes to_bytes :: "'a \<Rightarrow> bytes \<Rightarrow> bytes"
    and from_bytes :: "bytes \<Rightarrow> 'a repr"
    and valid :: "'a \<Rightarrow> bool"
  assumes to_bytes_append: "to_bytes x out = out @ to_bytes x []"
    and from_bytes_no_panic: "from_bytes bs \<noteq> Panic p"
    and from_to_bytes: "valid x \<Longrightarrow> from_bytes (to_bytes x []) = Ok x"
begin

lemma to_bytes_inject:
  assumes "valid x" "valid y" "to_bytes x [] = to_bytes y []"
  shows "x = y"
  by (metis assms from_to_bytes outcome.inject(1))

lemma from_bytes_cases:
  obtains (Ok) x where "from_bytes bs = Ok x" | (Err) e where "from_bytes bs = Err e"
  using from_bytes_no_panic by (cases "from_bytes bs") auto

end

text \<open>
  Well-formed values: the hash is one the library accepts, and of the size the source expects.
\<close>

definition hash_ok :: "Ext \<Rightarrow> HashType \<Rightarrow> nat \<Rightarrow> bytes \<Rightarrow> bool" where
  "hash_ok ext ty n hash \<longleftrightarrow> length hash = n \<and> try_from_bytes ext ty hash = Some hash"

fun keyhash_ok :: "Ext \<Rightarrow> KeyHash \<Rightarrow> bool" where
  "keyhash_ok ext (Tz1 h) = hash_ok ext ContractMv1Hash 20 h"
| "keyhash_ok ext (Tz2 h) = hash_ok ext ContractMv2Hash 20 h"
| "keyhash_ok ext (Tz3 h) = hash_ok ext ContractMv3Hash 20 h"
| "keyhash_ok ext (Mv4 h) = hash_ok ext ContractMv4Hash 20 h"

fun addresshash_ok :: "Ext \<Rightarrow> AddressHash \<Rightarrow> bool" where
  "addresshash_ok ext (Implicit h) = keyhash_ok ext h"
| "addresshash_ok ext (Kt1 h) = hash_ok ext ContractKt1Hash 20 h"
| "addresshash_ok ext (Sr1 h) = hash_ok ext SmartRollupHash 20 h"

definition entrypoint_ok :: "Entrypoint \<Rightarrow> bool" where
  "entrypoint_ok ep \<longleftrightarrow> ep \<noteq> [] \<and> check_ep_name ep = Ok ()"

definition address_ok :: "Ext \<Rightarrow> Address \<Rightarrow> bool" where
  "address_ok ext a \<longleftrightarrow> addresshash_ok ext (address_hash a) \<and> entrypoint_ok (address_entrypoint a)"

fun key_ok :: "Ext \<Rightarrow> Key \<Rightarrow> bool" where
  "key_ok ext (Key_Ed25519 h) = hash_ok ext PublicKeyEd25519 32 h"
| "key_ok ext (Key_Secp256k1 h) = hash_ok ext PublicKeySecp256k1 33 h"
| "key_ok ext (Key_P256 h) = hash_ok ext PublicKeyP256 33 h"
| "key_ok ext (Key_Bls h) = hash_ok ext PublicKeyBls 48 h"

text \<open>
  The bytes of a signature do not tell its type, so that only generic and BLS signatures are read back.
\<close>

fun signature_ok :: "Ext \<Rightarrow> Signature \<Rightarrow> bool" where
  "signature_ok ext (Sig_Bls h) = hash_ok ext BlsSignature 96 h"
| "signature_ok ext (Sig_Generic h) \<longleftrightarrow> length h = 64"
| "signature_ok ext _ = False"

lemma check_size_simps:
  "keyhash_check_size data n = (if length data = n then Ok () else Err WrongFormat)"
  "address_check_size data n = (if n \<le> length data then Ok () else Err WrongFormat)"
  "key_check_size data n = (if n \<le> length data then Ok () else Err WrongFormat)"
  by (simp_all add: keyhash_check_size_def address_check_size_def key_check_size_def)

lemmas repr_sizes =
  keyhash_BYTE_SIZE_def keyhash_HASH_SIZE_def keyhash_BASE58_SIZE_def addresshash_BYTE_SIZE_def
  addresshash_HASH_SIZE_def addresshash_BASE58_SIZE_def MIN_BYTE_SIZE_def MIN_BASE58_SIZE_def
  GENERIC_BYTE_LENGTH_def BLS_BYTE_LENGTH_def sig_BYTE_SIZE_def

lemmas repr_tags =
  TAG_TZ1_def TAG_TZ2_def TAG_TZ3_def TAG_MV4_def TAG_IMPLICIT_def TAG_KT1_def TAG_SR1_def
  TAG_ED25519_def TAG_SECP256K1_def TAG_P256_def TAG_BLS_def

lemma try_hash_bytes_ok: "hash_ok ext ty n h \<Longrightarrow> try_hash_bytes ext ty h = Ok h"
  by (simp add: hash_ok_def try_hash_bytes_def)

lemma try_hash_no_panic [simp]:
  "try_hash_bytes ext ty bs \<noteq> Panic p" "try_hash_b58 ext ty s \<noteq> Panic p"
  by (simp_all add: try_hash_bytes_def try_hash_b58_def ok_or_def split: option.split)

lemma keyhash_from_bytes_no_panic [simp]: "keyhash_from_bytes ext bs \<noteq> Panic p"
  by (simp add: keyhash_from_bytes_def bind_outcome_Panic map_outcome_Panic check_size_simps)

lemma validate_padding_byte_no_panic [simp]: "validate_padding_byte bs \<noteq> Panic p"
  by (simp add: validate_padding_byte_def)

lemma addresshash_from_bytes_no_panic [simp]: "addresshash_from_bytes ext bs \<noteq> Panic p"
  by (simp add: addresshash_from_bytes_def bind_outcome_Panic map_outcome_Panic check_size_simps)

lemma check_ep_chars_no_panic [simp]: "check_ep_chars first cs \<noteq> Panic p"
  by (induction first cs rule: check_ep_chars.induct) simp_all

lemma check_ep_name_no_panic [simp]: "check_ep_name_len ep \<noteq> Panic p" "check_ep_name s \<noteq> Panic p"
  by (simp_all add: check_ep_name_def check_ep_name_len_def bind_outcome_Panic)

lemma entrypoint_no_panic [simp]:
  "entrypoint_try_from_bytes bs \<noteq> Panic p" "entrypoint_try_from_str s \<noteq> Panic p"
  "entrypoint_try_from_ann s \<noteq> Panic p"
  by (simp_all add: entrypoint_try_from_bytes_def entrypoint_try_from_str_def
      entrypoint_try_from_ann_def Let_def bind_outcome_Panic map_outcome_Panic)

interpretation keyhash: byte_repr keyhash_to_bytes "keyhash_from_bytes ext" "keyhash_ok ext" for ext
proof
  show "keyhash_to_bytes x out = out @ keyhash_to_bytes x []" for x out
    by (cases x) simp_all
  show "keyhash_ok ext x \<Longrightarrow> keyhash_from_bytes ext (keyhash_to_bytes x []) = Ok x" for x
    by (cases x) (simp_all add: keyhash_from_bytes_def check_size_simps repr_sizes repr_tags
        try_hash_bytes_ok, simp_all add: hash_ok_def)
qed simp

interpretation addresshash: byte_repr addresshash_to_bytes "addresshash_from_bytes ext"
  "addresshash_ok ext" for ext
proof
  show append: "addresshash_to_bytes x out = out @ addresshash_to_bytes x []" for x out
    by (cases x) (simp_all add: keyhash.to_bytes_append [of _ "out @ [TAG_IMPLICIT]"]
        keyhash.to_bytes_append [of _ "[TAG_IMPLICIT]"])
  have length_kh: "keyhash_ok ext h \<Longrightarrow> length (keyhash_to_bytes h []) = 21" for h
    by (cases h) (simp_all add: hash_ok_def)
  show "addresshash_ok ext x \<Longrightarrow> addresshash_from_bytes ext (addresshash_to_bytes x []) = Ok x" for x
    by (cases x) (simp_all add: addresshash_from_bytes_def check_size_simps repr_sizes repr_tags
        keyhash.to_bytes_append [of _ "[0]"] length_kh keyhash.from_to_bytes try_hash_bytes_ok
        PADDING_ORIGINATED_def validate_padding_byte_def butlast_append,
        simp_all add: hash_ok_def)
qed simp

lemma length_addresshash_to_bytes:
  "addresshash_ok ext h \<Longrightarrow> length (addresshash_to_bytes h []) = addresshash_BYTE_SIZE"
proof (cases h)
  case (Implicit kh)
  then show "addresshash_ok ext h \<Longrightarrow> ?thesis"
    by (cases kh) (simp_all add: hash_ok_def repr_sizes)
qed (simp_all add: hash_ok_def repr_sizes PADDING_ORIGINATED_def)

lemma entrypoint_from_to_bytes:
  "entrypoint_ok ep \<Longrightarrow> \<not> entrypoint_is_default ep \<Longrightarrow> entrypoint_try_from_bytes (as_bytes ep) = Ok ep"
  by (cases "as_bytes ep = []")
    (simp_all add: entrypoint_ok_def entrypoint_try_from_bytes_def as_bytes_def [of ep, symmetric],
      simp add: as_bytes_def)

interpretation address: byte_repr address_to_bytes "address_from_bytes ext" "address_ok ext" for ext
proof
  show "address_to_bytes x out = out @ address_to_bytes x []" for x out
    by (simp add: address_to_bytes_def Let_def addresshash.to_bytes_append [of _ out])
  show "address_from_bytes ext bs \<noteq> Panic p" for bs p
    by (simp add: address_from_bytes_def bind_outcome_Panic check_size_simps)
  show "address_ok ext x \<Longrightarrow> address_from_bytes ext (address_to_bytes x []) = Ok x" for x
    by (cases x) (auto simp: address_ok_def address_from_bytes_def address_to_bytes_def Let_def
        check_size_simps length_addresshash_to_bytes addresshash.from_to_bytes is_default_ep_def
        entrypoint_from_to_bytes, simp_all add: entrypoint_try_from_bytes_def
        entrypoint_is_default_def entrypoint_default_def)
qed

interpretation key: byte_repr key_to_bytes "key_from_bytes ext" "key_ok ext" for ext
proof
  show "key_to_bytes x out = out @ key_to_bytes x []" for x out
    by (cases x) simp_all
  show "key_from_bytes ext bs \<noteq> Panic p" for bs p
    by (simp add: key_from_bytes_def bind_outcome_Panic map_outcome_Panic check_size_simps)
  show "key_ok ext x \<Longrightarrow> key_from_bytes ext (key_to_bytes x []) = Ok x" for x
    by (cases x) (simp_all add: key_from_bytes_def check_size_simps repr_sizes repr_tags
        try_hash_bytes_ok, simp_all add: hash_ok_def)
qed

interpretation signature: byte_repr signature_to_bytes "signature_from_bytes ext" "signature_ok ext" for ext
proof
  show "signature_to_bytes x out = out @ signature_to_bytes x []" for x out
    by (cases x) simp_all
  show "signature_from_bytes ext bs \<noteq> Panic p" for bs p
    by (simp add: signature_from_bytes_def sig_try_from_bytes_def map_outcome_Panic)
  show "signature_ok ext x \<Longrightarrow> signature_from_bytes ext (signature_to_bytes x []) = Ok x" for x
    by (cases x) (simp_all add: signature_from_bytes_def sig_try_from_bytes_def repr_sizes hash_ok_def
        try_hash_bytes_def)
qed

end
