(* ===== verification/MIR_Order.thy ===== *)
theory MIR_Order
  imports MIR_ByteRepr "HOL-Library.List_Lexorder" "HOL-Library.Product_Lexorder" "HOL-Library.Char_ord"
begin

text \<open>
  The order of Michelson values (\<open>src/contrib/mir/src/ast/comparable.rs\<close> and the derived orders of the
  types it refers to), and the ordered maps and sets of the standard library that depend on it.  On the
  values of one comparable type the order is total, which is the contract \<open>key_order\<close> under which
  \<open>BTreeMap\<close> and \<open>BTreeSet\<close> behave as maps and sets.
\<close>

section \<open>Orders\<close>

datatype Ordering = Less | Equal | Greater

definition cmp :: "'a::linorder \<Rightarrow> 'a \<Rightarrow> Ordering" where
  "cmp a b = (if a < b then Less else if a = b then Equal else Greater)"

text \<open>
  Derived orders compare the position of the variant first.  Hashes are compared as byte strings.
\<close>

fun keyhash_ord_key :: "KeyHash \<Rightarrow> nat \<times> bytes" where
  "keyhash_ord_key (Tz1 h) = (0, h)"
| "keyhash_ord_key (Tz2 h) = (1, h)"
| "keyhash_ord_key (Tz3 h) = (2, h)"
| "keyhash_ord_key (Mv4 h) = (3, h)"

fun addresshash_ord_key :: "AddressHash \<Rightarrow> nat \<times> nat \<times> bytes" where
  "addresshash_ord_key (Implicit h) = (0, keyhash_ord_key h)"
| "addresshash_ord_key (Kt1 h) = (1, 0, h)"
| "addresshash_ord_key (Sr1 h) = (2, 0, h)"

definition address_ord_key :: "Address \<Rightarrow> (nat \<times> nat \<times> bytes) \<times> string" where
  "address_ord_key a = (addresshash_ord_key (address_hash a), address_entrypoint a)"

fun key_ord_key :: "Key \<Rightarrow> nat \<times> bytes" where
  "key_ord_key (Key_Ed25519 h) = (0, h)"
| "key_ord_key (Key_Secp256k1 h) = (1, h)"
| "key_ord_key (Key_P256 h) = (2, h)"
| "key_ord_key (Key_Bls h) = (3, h)"

fun signature_ord_key :: "Signature \<Rightarrow> nat \<times> bytes" where
  "signature_ord_key (Sig_Ed25519 h) = (0, h)"
| "signature_ord_key (Sig_Secp256k1 h) = (1, h)"
| "signature_ord_key (Sig_P256 h) = (2, h)"
| "signature_ord_key (Sig_Bls h) = (3, h)"
| "signature_ord_key (Sig_Generic h) = (4, h)"

text \<open>The order of a pair: the second components matter only when the first ones are equal.\<close>

definition cmp_then :: "Ordering option \<Rightarrow> Ordering option \<Rightarrow> Ordering option" where
  "cmp_then a b = (if a = Some Equal then b else a)"

function partial_cmp :: "TypedValue \<Rightarrow> TypedValue \<Rightarrow> Ordering option" where
  "partial_cmp self other =
     (case self of
        V_Int a \<Rightarrow> (case other of V_Int b \<Rightarrow> Some (cmp a b) | _ \<Rightarrow> None)
      | V_Nat a \<Rightarrow> (case other of V_Nat b \<Rightarrow> Some (cmp a b) | _ \<Rightarrow> None)
      | V_Mumav a \<Rightarrow> (case other of V_Mumav b \<Rightarrow> Some (cmp a b) | _ \<Rightarrow> None)
      | V_Bool a \<Rightarrow> (case other of V_Bool b \<Rightarrow> Some (cmp a b) | _ \<Rightarrow> None)
      | V_String a \<Rightarrow> (case other of V_String b \<Rightarrow> Some (cmp a b) | _ \<Rightarrow> None)
      | V_Unit \<Rightarrow> (case other of V_Unit \<Rightarrow> Some Equal | _ \<Rightarrow> None)
      | V_Pair l1 l2 \<Rightarrow>
          (case other of
             V_Pair r1 r2 \<Rightarrow> cmp_then (partial_cmp l1 r1) (partial_cmp l2 r2)
           | _ \<Rightarrow> None)
      | V_Option x \<Rightarrow>
          (case other of
             V_Option y \<Rightarrow>
               (case x of
                  None \<Rightarrow> (case y of None \<Rightarrow> Some Equal | Some _ \<Rightarrow> Some Less)
                | Some x \<Rightarrow> (case y of None \<Rightarrow> Some Greater | Some y \<Rightarrow> partial_cmp x y))
           | _ \<Rightarrow> None)
      | V_Or x \<Rightarrow>
          (case other of
             V_Or y \<Rightarrow>
               (case x of
                  Inl x \<Rightarrow> (case y of Inl y \<Rightarrow> partial_cmp x y | Inr _ \<Rightarrow> Some Less)
                | Inr x \<Rightarrow> (case y of Inl _ \<Rightarrow> Some Greater | Inr y \<Rightarrow> partial_cmp x y))
           | _ \<Rightarrow> None)
      | V_Address l \<Rightarrow>
          (case other of V_Address r \<Rightarrow> Some (cmp (address_ord_key l) (address_ord_key r)) | _ \<Rightarrow> None)
      | V_ChainId l \<Rightarrow> (case other of V_ChainId r \<Rightarrow> Some (cmp l r) | _ \<Rightarrow> None)
      | V_Bytes l \<Rightarrow> (case other of V_Bytes r \<Rightarrow> Some (cmp l r) | _ \<Rightarrow> None)
      | V_Key l \<Rightarrow> (case other of V_Key r \<Rightarrow> Some (cmp (key_ord_key l) (key_ord_key r)) | _ \<Rightarrow> None)
      | V_Signature l \<Rightarrow>
          (case other of V_Signature r \<Rightarrow> Some (cmp (signature_ord_key l) (signature_ord_key r)) | _ \<Rightarrow> None)
      | V_KeyHash l \<Rightarrow>
          (case other of V_KeyHash r \<Rightarrow> Some (cmp (keyhash_ord_key l) (keyhash_ord_key r)) | _ \<Rightarrow> None)
      | V_Timestamp a \<Rightarrow> (case other of V_Timestamp b \<Rightarrow> Some (cmp a b) | _ \<Rightarrow> None)
      | _ \<Rightarrow> None)"
  by pat_completeness auto
termination by (relation "measure (size \<circ> fst)") auto

declare partial_cmp.simps [simp del]

text \<open>\<open>Ord::cmp\<close>, which panics on incomparable values.\<close>

definition value_cmp :: "TypedValue \<Rightarrow> TypedValue \<Rightarrow> ('e, Ordering) outcome" where
  "value_cmp a b = (case partial_cmp a b of Some ord \<Rightarrow> Ok ord | None \<Rightarrow> Panic Incomparable)"

section \<open>Ordered maps and sets\<close>

text \<open>
  A \<open>BTreeMap\<close> is the list of its entries in ascending order; a search compares the key with the
  entries from the left and panics when the keys are incomparable.  \<open>insert\<close> keeps the key that is
  already there and returns the old value; a \<open>BTreeSet\<close> is a map to the unit.
\<close>

fun btree_get ::
  "('k \<Rightarrow> 'k \<Rightarrow> Ordering option) \<Rightarrow> 'k \<Rightarrow> ('k \<times> 'v) list \<Rightarrow> ('e, 'v option) outcome" where
  "btree_get c k [] = Ok None"
| "btree_get c k ((k', v) # m) =
     (case c k k' of
        None \<Rightarrow> Panic Incomparable
      | Some Less \<Rightarrow> Ok None
      | Some Equal \<Rightarrow> Ok (Some v)
      | Some Greater \<Rightarrow> btree_get c k m)"

fun btree_insert ::
  "('k \<Rightarrow> 'k \<Rightarrow> Ordering option) \<Rightarrow> 'k \<Rightarrow> 'v \<Rightarrow> ('k \<times> 'v) list
     \<Rightarrow> ('e, 'v option \<times> ('k \<times> 'v) list) outcome" where
  "btree_insert c k v [] = Ok (None, [(k, v)])"
| "btree_insert c k v ((k', v') # m) =
     (case c k k' of
        None \<Rightarrow> Panic Incomparable
      | Some Less \<Rightarrow> Ok (None, (k, v) # (k', v') # m)
      | Some Equal \<Rightarrow> Ok (Some v', (k', v) # m)
      | Some Greater \<Rightarrow> map_outcome (apsnd ((#) (k', v'))) (btree_insert c k v m))"

fun btree_remove ::
  "('k \<Rightarrow> 'k \<Rightarrow> Ordering option) \<Rightarrow> 'k \<Rightarrow> ('k \<times> 'v) list
     \<Rightarrow> ('e, 'v option \<times> ('k \<times> 'v) list) outcome" where
  "btree_remove c k [] = Ok (None, [])"
| "btree_remove c k ((k', v') # m) =
     (case c k k' of
        None \<Rightarrow> Panic Incomparable
      | Some Less \<Rightarrow> Ok (None, (k', v') # m)
      | Some Equal \<Rightarrow> Ok (Some v', m)
      | Some Greater \<Rightarrow> map_outcome (apsnd ((#) (k', v'))) (btree_remove c k m))"

definition set_map :: "'k list \<Rightarrow> ('k \<times> unit) list" where
  "set_map s = map (\<lambda>k. (k, ())) s"

definition btree_contains ::
  "('k \<Rightarrow> 'k \<Rightarrow> Ordering option) \<Rightarrow> 'k \<Rightarrow> 'k list \<Rightarrow> ('e, bool) outcome" where
  "btree_contains c k s = map_outcome (\<lambda>r. r \<noteq> None) (btree_get c k (set_map s))"

definition btree_set_insert ::
  "('k \<Rightarrow> 'k \<Rightarrow> Ordering option) \<Rightarrow> 'k \<Rightarrow> 'k list \<Rightarrow> ('e, 'k list) outcome" where
  "btree_set_insert c k s = map_outcome (map fst \<circ> snd) (btree_insert c k () (set_map s))"

definition btree_set_remove ::
  "('k \<Rightarrow> 'k \<Rightarrow> Ordering option) \<Rightarrow> 'k \<Rightarrow> 'k list \<Rightarrow> ('e, 'k list) outcome" where
  "btree_set_remove c k s = map_outcome (map fst \<circ> snd) (btree_remove c k (set_map s))"

text \<open>The keys are in strictly ascending order.\<close>

definition ascending :: "('k \<Rightarrow> 'k \<Rightarrow> Ordering option) \<Rightarrow> 'k list \<Rightarrow> bool" where
  "ascending c ks \<longleftrightarrow> sorted_wrt (\<lambda>a b. c a b = Some Less) ks"

section \<open>The contract of a key type\<close>

locale key_order =
  fixes c :: "'k \<Rightarrow> 'k \<Rightarrow> Ordering option" and K :: "'k set"
  assumes total: "a \<in> K \<Longrightarrow> b \<in> K \<Longrightarrow> c a b \<noteq> None"
    and equal_iff: "a \<in> K \<Longrightarrow> b \<in> K \<Longrightarrow> c a b = Some Equal \<longleftrightarrow> a = b"
    and greater_iff: "a \<in> K \<Longrightarrow> b \<in> K \<Longrightarrow> c a b = Some Greater \<longleftrightarrow> c b a = Some Less"
    and less_trans: "a \<in> K \<Longrightarrow> b \<in> K \<Longrightarrow> d \<in> K \<Longrightarrow> c a b = Some Less \<Longrightarrow> c b d = Some Less \<Longrightarrow> c a d = Some Less"
begin

lemma cmp_cases:
  assumes "a \<in> K" "b \<in> K"
  obtains (less) "c a b = Some Less" "c b a = Some Greater" "a \<noteq> b"
  | (equal) "c a b = Some Equal" "a = b"
  | (greater) "c a b = Some Greater" "c b a = Some Less" "a \<noteq> b"
proof -
  obtain ord where "c a b = Some ord" using total assms by blast
  then show thesis
    using that equal_iff [OF assms] greater_iff [OF assms] greater_iff [OF assms(2,1)]
    by (cases ord) auto
qed

lemma ascending_notin:
  assumes "ascending c (k' # ks)" "k \<in> K" "insert k' (set ks) \<subseteq> K" "c k k' = Some Less"
  shows "k \<notin> insert k' (set ks)"
proof
  assume "k \<in> insert k' (set ks)"
  moreover have "k \<noteq> k'" using assms(3,4) equal_iff [of k' k'] by auto
  ultimately have "k \<in> set ks" by simp
  then have "c k' k = Some Less" using assms(1) by (simp add: ascending_def)
  moreover have "c k' k = Some Greater" using assms(2,3,4) greater_iff by auto
  ultimately show False by simp
qed

lemma ascending_distinct:
  assumes "ascending c ks" "set ks \<subseteq> K"
  shows "distinct ks"
  using assms
proof (induction ks)
  case (Cons k ks)
  have "k \<notin> set ks"
  proof
    assume "k \<in> set ks"
    then have "c k k = Some Less" using Cons.prems(1) by (simp add: ascending_def)
    then show False using equal_iff [of k k] Cons.prems(2) by simp
  qed
  then show ?case using Cons by (simp add: ascending_def)
qed simp

lemma get_map_of:
  assumes "ascending c (map fst m)" "k \<in> K" "fst ` set m \<subseteq> K"
  shows "btree_get c k m = Ok (map_of m k)"
  using assms
proof (induction m)
  case (Cons e m)
  obtain k' v where e: "e = (k', v)" by (cases e)
  have k': "k' \<in> K" using Cons.prems(3) e by auto
  show ?case
  proof (rule cmp_cases [OF \<open>k \<in> K\<close> k'])
    assume "c k k' = Some Less"
    moreover from this have "k \<notin> insert k' (set (map fst m))"
      using Cons.prems e by (intro ascending_notin) auto
    ultimately show ?thesis
      by (auto simp: e map_of_eq_None_iff [THEN iffD2] split: if_splits)
  qed (use Cons e in \<open>auto simp: ascending_def\<close>)
qed simp

lemma insert_ok:
  assumes "ascending c (map fst m)" "k \<in> K" "fst ` set m \<subseteq> K"
  shows "\<exists>m'. btree_insert c k v m = (Ok (map_of m k, m') :: ('e, _) outcome) \<and> map_of m' = (map_of m)(k \<mapsto> v) \<and>
    ascending c (map fst m') \<and> set (map fst m') = insert k (set (map fst m)) \<and>
    set m' \<subseteq> insert (k, v) (set m)"
  using assms
proof (induction m)
  case Nil
  then show ?case by (simp add: ascending_def fun_eq_iff)
next
  case (Cons e m)
  obtain k' v' where e: "e = (k', v')" by (cases e)
  have k': "k' \<in> K" and K: "fst ` set m \<subseteq> K" using Cons.prems(3) e by auto
  from Cons.prems have asc: "ascending c (map fst m)" "\<forall>x \<in> set (map fst m). c k' x = Some Less"
    by (auto simp: ascending_def e)
  show ?case
  proof (rule cmp_cases [OF \<open>k \<in> K\<close> k'])
    assume less: "c k k' = Some Less"
    then have notin: "k \<notin> insert k' (set (map fst m))"
      using Cons.prems e by (intro ascending_notin) auto
    have "\<forall>x \<in> set (map fst m). c k x = Some Less"
      using asc(2) K less k' \<open>k \<in> K\<close> by (auto intro: less_trans)
    with less notin asc show ?thesis
      by (auto simp: e ascending_def map_of_eq_None_iff [THEN iffD2] split: if_splits)
  next
    assume "c k k' = Some Equal" "k = k'"
    with asc show ?thesis
      by (auto simp: e ascending_def fun_eq_iff)
  next
    assume gr: "c k k' = Some Greater" "c k' k = Some Less" "k \<noteq> k'"
    from Cons.IH [OF asc(1) \<open>k \<in> K\<close> K] obtain m' where
      "btree_insert c k v m = (Ok (map_of m k, m') :: ('e, _) outcome)" "map_of m' = (map_of m)(k \<mapsto> v)"
      "ascending c (map fst m')" "set (map fst m') = insert k (set (map fst m))"
      "set m' \<subseteq> insert (k, v) (set m)" by blast
    with gr asc(2) show ?thesis
      by (auto simp: e ascending_def fun_eq_iff)
  qed
qed

lemma remove_ok:
  assumes "ascending c (map fst m)" "k \<in> K" "fst ` set m \<subseteq> K"
  shows "\<exists>m'. btree_remove c k m = (Ok (map_of m k, m') :: ('e, _) outcome) \<and> map_of m' = (map_of m)(k := None) \<and>
    ascending c (map fst m') \<and> set (map fst m') = set (map fst m) - {k} \<and> set m' \<subseteq> set m"
  using assms
proof (induction m)
  case Nil
  then show ?case by (simp add: ascending_def)
next
  case (Cons e m)
  obtain k' v' where e: "e = (k', v')" by (cases e)
  have k': "k' \<in> K" and K: "fst ` set m \<subseteq> K" using Cons.prems(3) e by auto
  from Cons.prems have asc: "ascending c (map fst m)" "\<forall>x \<in> set (map fst m). c k' x = Some Less"
    by (auto simp: ascending_def e)
  show ?case
  proof (rule cmp_cases [OF \<open>k \<in> K\<close> k'])
    assume less: "c k k' = Some Less"
    then have notin: "k \<notin> insert k' (set (map fst m))"
      using Cons.prems e by (intro ascending_notin) auto
    with less Cons.prems(1) show ?thesis
      by (auto simp: e map_of_eq_None_iff [THEN iffD2] fun_eq_iff split: if_splits)
  next
    assume eq: "c k k' = Some Equal" "k = k'"
    have "k \<notin> set (map fst m)"
    proof
      assume "k \<in> set (map fst m)"
      then have "c k' k = Some Less" using asc(2) by blast
      with eq show False by simp
    qed
    with eq asc show ?thesis
      by (auto simp: e fun_eq_iff map_of_eq_None_iff)
  next
    assume gr: "c k k' = Some Greater" "c k' k = Some Less" "k \<noteq> k'"
    from Cons.IH [OF asc(1) \<open>k \<in> K\<close> K] obtain m' where
      "btree_remove c k m = (Ok (map_of m k, m') :: ('e, _) outcome)" "map_of m' = (map_of m)(k := None)"
      "ascending c (map fst m')" "set (map fst m') = set (map fst m) - {k}" "set m' \<subseteq> set m" by blast
    with gr asc(2) show ?thesis
      by (auto simp: e ascending_def fun_eq_iff)
  qed
qed

lemma ascending_set_map: "map fst (set_map s) = s"
  by (simp add: set_map_def comp_def)

lemma fst_set_map: "fst ` set (set_map s) = set s"
  by (simp add: set_map_def image_image)

lemma map_of_set_map: "map_of (set_map s) k = (if k \<in> set s then Some () else None)"
  by (induction s) (auto simp: set_map_def)

lemma contains_ok:
  "ascending c s \<Longrightarrow> k \<in> K \<Longrightarrow> set s \<subseteq> K \<Longrightarrow> btree_contains c k s = Ok (k \<in> set s)"
  by (simp add: btree_contains_def ascending_set_map map_of_set_map fst_set_map get_map_of)

lemma set_insert_ok:
  assumes "ascending c s" "k \<in> K" "set s \<subseteq> K"
  shows "\<exists>s'. btree_set_insert c k s = (Ok s' :: ('e, _) outcome) \<and> ascending c s' \<and>
    set s' = insert k (set s)"
proof -
  obtain m' where "btree_insert c k () (set_map s) = (Ok (map_of (set_map s) k, m') :: ('e, _) outcome)"
    "ascending c (map fst m')" "set (map fst m') = insert k (set (map fst (set_map s)))"
    using insert_ok [of "set_map s" k "()"] assms by (auto simp: ascending_set_map fst_set_map)
  then show ?thesis by (simp add: btree_set_insert_def fst_set_map)
qed

lemma set_remove_ok:
  assumes "ascending c s" "k \<in> K" "set s \<subseteq> K"
  shows "\<exists>s'. btree_set_remove c k s = (Ok s' :: ('e, _) outcome) \<and> ascending c s' \<and>
    set s' = set s - {k}"
proof -
  obtain m' where "btree_remove c k (set_map s) = (Ok (map_of (set_map s) k, m') :: ('e, _) outcome)"
    "ascending c (map fst m')" "set (map fst m') = set (map fst (set_map s)) - {k}"
    using remove_ok [of "set_map s" k] assms by (auto simp: ascending_set_map fst_set_map)
  then show ?thesis by (simp add: btree_set_remove_def fst_set_map)
qed

lemma ascending_unique:
  assumes "ascending c s" "ascending c t" "set s = set t" "set s \<subseteq> K"
  shows "s = t"
proof -
  have irrefl: "c a a \<noteq> Some Less" if "a \<in> K" for a
    using equal_iff [OF that that] by auto
  have asym: "c b a \<noteq> Some Less" if "c a b = Some Less" "a \<in> K" "b \<in> K" for a b
    using that less_trans [of a b a] irrefl by auto
  show ?thesis
    using assms
  proof (induction s arbitrary: t)
    case (Cons a s)
    then obtain b t' where t: "t = b # t'" by (cases t) auto
    have K: "a \<in> K" "b \<in> K" using Cons.prems t by auto
    have "a = b"
    proof (rule ccontr)
      assume "a \<noteq> b"
      then have "a \<in> set t'" "b \<in> set s" using Cons.prems(3) t by auto
      then show False using Cons.prems(1,2) t asym K by (auto simp: ascending_def)
    qed
    moreover have "set s = set t'"
    proof -
      have "a \<notin> set s" "a \<notin> set t'"
        using Cons.prems(1,2) t \<open>a = b\<close> irrefl K by (auto simp: ascending_def)
      then show ?thesis using Cons.prems(3) t \<open>a = b\<close> by (metis insert_ident list.set(2))
    qed
    ultimately show ?case
      using Cons t by (auto simp: ascending_def)
  qed simp
qed

end

section \<open>Comparable values\<close>

text \<open>The values of a comparable type.\<close>

fun comparable_value :: "Type \<Rightarrow> TypedValue \<Rightarrow> bool" where
  "comparable_value T_Int v = (case v of V_Int _ \<Rightarrow> True | _ \<Rightarrow> False)"
| "comparable_value T_Nat v = (case v of V_Nat _ \<Rightarrow> True | _ \<Rightarrow> False)"
| "comparable_value T_Mumav v = (case v of V_Mumav _ \<Rightarrow> True | _ \<Rightarrow> False)"
| "comparable_value T_Bool v = (case v of V_Bool _ \<Rightarrow> True | _ \<Rightarrow> False)"
| "comparable_value T_String v = (case v of V_String _ \<Rightarrow> True | _ \<Rightarrow> False)"
| "comparable_value T_Unit v = (case v of V_Unit \<Rightarrow> True | _ \<Rightarrow> False)"
| "comparable_value (T_Pair a b) v =
     (case v of V_Pair x y \<Rightarrow> comparable_value a x \<and> comparable_value b y | _ \<Rightarrow> False)"
| "comparable_value (T_Option a) v =
     (case v of V_Option x \<Rightarrow> (case x of None \<Rightarrow> True | Some x \<Rightarrow> comparable_value a x) | _ \<Rightarrow> False)"
| "comparable_value (T_Or a b) v =
     (case v of
        V_Or x \<Rightarrow> (case x of Inl x \<Rightarrow> comparable_value a x | Inr y \<Rightarrow> comparable_value b y)
      | _ \<Rightarrow> False)"
| "comparable_value T_Address v = (case v of V_Address _ \<Rightarrow> True | _ \<Rightarrow> False)"
| "comparable_value T_ChainId v = (case v of V_ChainId _ \<Rightarrow> True | _ \<Rightarrow> False)"
| "comparable_value T_Bytes v = (case v of V_Bytes _ \<Rightarrow> True | _ \<Rightarrow> False)"
| "comparable_value T_Key v = (case v of V_Key _ \<Rightarrow> True | _ \<Rightarrow> False)"
| "comparable_value T_Signature v = (case v of V_Signature _ \<Rightarrow> True | _ \<Rightarrow> False)"
| "comparable_value T_KeyHash v = (case v of V_KeyHash _ \<Rightarrow> True | _ \<Rightarrow> False)"
| "comparable_value T_Timestamp v = (case v of V_Timestamp _ \<Rightarrow> True | _ \<Rightarrow> False)"
| "comparable_value _ v = False"

lemma partial_cmp_simps [simp]:
  "partial_cmp (V_Int a) (V_Int b) = Some (cmp a b)"
  "partial_cmp (V_Nat m) (V_Nat n) = Some (cmp m n)"
  "partial_cmp (V_Mumav a) (V_Mumav b) = Some (cmp a b)"
  "partial_cmp (V_Bool p) (V_Bool q) = Some (cmp p q)"
  "partial_cmp (V_String s) (V_String t) = Some (cmp s t)"
  "partial_cmp V_Unit V_Unit = Some Equal"
  "partial_cmp (V_Pair v w) (V_Pair v' w') = cmp_then (partial_cmp v v') (partial_cmp w w')"
  "partial_cmp (V_Option None) (V_Option None) = Some Equal"
  "partial_cmp (V_Option None) (V_Option (Some v)) = Some Less"
  "partial_cmp (V_Option (Some v)) (V_Option None) = Some Greater"
  "partial_cmp (V_Option (Some v)) (V_Option (Some w)) = partial_cmp v w"
  "partial_cmp (V_Or (Inl v)) (V_Or (Inl w)) = partial_cmp v w"
  "partial_cmp (V_Or (Inl v)) (V_Or (Inr w)) = Some Less"
  "partial_cmp (V_Or (Inr v)) (V_Or (Inl w)) = Some Greater"
  "partial_cmp (V_Or (Inr v)) (V_Or (Inr w)) = partial_cmp v w"
  "partial_cmp (V_Address x) (V_Address y) = Some (cmp (address_ord_key x) (address_ord_key y))"
  "partial_cmp (V_ChainId cs) (V_ChainId ds) = Some (cmp cs ds)"
  "partial_cmp (V_Bytes cs) (V_Bytes ds) = Some (cmp cs ds)"
  "partial_cmp (V_Key k) (V_Key l) = Some (cmp (key_ord_key k) (key_ord_key l))"
  "partial_cmp (V_Signature f) (V_Signature g) = Some (cmp (signature_ord_key f) (signature_ord_key g))"
  "partial_cmp (V_KeyHash h) (V_KeyHash i) = Some (cmp (keyhash_ord_key h) (keyhash_ord_key i))"
  "partial_cmp (V_Timestamp a) (V_Timestamp b) = Some (cmp a b)"
  by (simp_all add: partial_cmp.simps)

lemma cmp_simps [simp]:
  "cmp a b = Less \<longleftrightarrow> a < b" "cmp a b = Equal \<longleftrightarrow> a = b" "cmp a b = Greater \<longleftrightarrow> b < a"
  by (auto simp: cmp_def)

lemma keyhash_ord_key_inject [simp]: "keyhash_ord_key h = keyhash_ord_key h' \<longleftrightarrow> h = h'"
  by (cases h; cases h') auto

lemma addresshash_ord_key_inject [simp]: "addresshash_ord_key h = addresshash_ord_key h' \<longleftrightarrow> h = h'"
  by (cases h; cases h') auto

lemma address_ord_key_inject [simp]: "address_ord_key a = address_ord_key b \<longleftrightarrow> a = b"
  by (cases a; cases b) (simp add: address_ord_key_def)

lemma key_ord_key_inject [simp]: "key_ord_key k = key_ord_key l \<longleftrightarrow> k = l"
  by (cases k; cases l) auto

lemma signature_ord_key_inject [simp]: "signature_ord_key k = signature_ord_key l \<longleftrightarrow> k = l"
  by (cases k; cases l) auto

text \<open>A type whose values are ordered by a key in a linear order.\<close>

lemma key_order_linear:
  fixes f :: "'a \<Rightarrow> 'b::linorder"
  assumes "\<And>v. v \<in> K \<Longrightarrow> \<exists>x. v = C x" and "inj f" and "inj C"
    and "\<And>x y. partial_cmp (C x) (C y) = Some (cmp (f x) (f y))"
  shows "key_order partial_cmp K"
proof
  fix a b d assume "a \<in> K" "b \<in> K"
  then obtain x y where xy: "a = C x" "b = C y" using assms(1) by blast
  show "partial_cmp a b \<noteq> None" by (simp add: xy assms(4))
  show "partial_cmp a b = Some Equal \<longleftrightarrow> a = b"
    using assms(2,3) by (auto simp: xy assms(4) inj_eq)
  show "partial_cmp a b = Some Greater \<longleftrightarrow> partial_cmp b a = Some Less" by (simp add: xy assms(4))
  assume "d \<in> K"
  then obtain z where "d = C z" using assms(1) by blast
  then show "partial_cmp a b = Some Less \<Longrightarrow> partial_cmp b d = Some Less \<Longrightarrow> partial_cmp a d = Some Less"
    by (simp add: xy assms(4))
qed

lemma key_order_pair:
  assumes "key_order partial_cmp K" "key_order partial_cmp L"
    and "\<And>v. v \<in> M \<Longrightarrow> \<exists>x \<in> K. \<exists>y \<in> L. v = V_Pair x y"
  shows "key_order partial_cmp M"
proof -
  note K = key_order.total [OF assms(1)] key_order.equal_iff [OF assms(1)] key_order.greater_iff [OF assms(1)]
    and L = key_order.total [OF assms(2)] key_order.equal_iff [OF assms(2)] key_order.greater_iff [OF assms(2)]
  show ?thesis
  proof
    fix a b d assume "a \<in> M" "b \<in> M"
    then obtain x y x' y' where ab: "a = V_Pair x y" "b = V_Pair x' y'"
      and in1: "x \<in> K" "y \<in> L" "x' \<in> K" "y' \<in> L" using assms(3) by meson
    show "partial_cmp a b \<noteq> None"
      using K(1)[of x x'] L(1)[of y y'] in1 by (simp add: ab cmp_then_def)
    show "partial_cmp a b = Some Equal \<longleftrightarrow> a = b"
      using K(2)[of x x'] L(2)[of y y'] in1 by (simp add: ab cmp_then_def)
    show "partial_cmp a b = Some Greater \<longleftrightarrow> partial_cmp b a = Some Less"
      using K(2)[of x x'] K(2)[of x' x] K(3)[of x x'] L(3)[of y y'] in1 by (auto simp: ab cmp_then_def)
    assume "d \<in> M" and less: "partial_cmp a b = Some Less" "partial_cmp b d = Some Less"
    then obtain x'' y'' where d: "d = V_Pair x'' y''" "x'' \<in> K" "y'' \<in> L" using assms(3) by meson
    show "partial_cmp a d = Some Less"
      using less K(2)[of x x'] K(2)[of x' x''] K(2)[of x x''] in1 d
        key_order.less_trans [OF assms(1), of x x' x''] key_order.less_trans [OF assms(2), of y y' y'']
      by (auto simp: ab cmp_then_def split: if_splits)
  qed
qed

lemma key_order_option:
  assumes "key_order partial_cmp K"
    and "\<And>v. v \<in> M \<Longrightarrow> v = V_Option None \<or> (\<exists>x \<in> K. v = V_Option (Some x))"
  shows "key_order partial_cmp M"
proof
  fix a b d assume "a \<in> M" "b \<in> M"
  note ab = assms(2) [OF \<open>a \<in> M\<close>] assms(2) [OF \<open>b \<in> M\<close>]
  show "partial_cmp a b \<noteq> None"
    using ab key_order.total [OF assms(1)] by (elim disjE bexE) simp_all
  show "partial_cmp a b = Some Equal \<longleftrightarrow> a = b"
    using ab key_order.equal_iff [OF assms(1)] by (elim disjE bexE) simp_all
  show "partial_cmp a b = Some Greater \<longleftrightarrow> partial_cmp b a = Some Less"
    using ab key_order.greater_iff [OF assms(1)] by (elim disjE bexE) simp_all
  assume "d \<in> M" and less: "partial_cmp a b = Some Less" "partial_cmp b d = Some Less"
  show "partial_cmp a d = Some Less"
    using ab assms(2) [OF \<open>d \<in> M\<close>] less
    by (elim disjE bexE) (simp_all, blast intro: key_order.less_trans [OF assms(1)])
qed

lemma key_order_or:
  assumes "key_order partial_cmp K" "key_order partial_cmp L"
    and "\<And>v. v \<in> M \<Longrightarrow> (\<exists>x \<in> K. v = V_Or (Inl x)) \<or> (\<exists>y \<in> L. v = V_Or (Inr y))"
  shows "key_order partial_cmp M"
proof
  fix a b d assume "a \<in> M" "b \<in> M"
  note ab = assms(3) [OF \<open>a \<in> M\<close>] assms(3) [OF \<open>b \<in> M\<close>]
  show "partial_cmp a b \<noteq> None"
    using ab key_order.total [OF assms(1)] key_order.total [OF assms(2)]
    by (elim disjE bexE) simp_all
  show "partial_cmp a b = Some Equal \<longleftrightarrow> a = b"
    using ab key_order.equal_iff [OF assms(1)] key_order.equal_iff [OF assms(2)]
    by (elim disjE bexE) simp_all
  show "partial_cmp a b = Some Greater \<longleftrightarrow> partial_cmp b a = Some Less"
    using ab key_order.greater_iff [OF assms(1)] key_order.greater_iff [OF assms(2)]
    by (elim disjE bexE) simp_all
  assume "d \<in> M" and less: "partial_cmp a b = Some Less" "partial_cmp b d = Some Less"
  show "partial_cmp a d = Some Less"
    using ab assms(3) [OF \<open>d \<in> M\<close>] less
    by (elim disjE bexE)
      (simp_all, blast intro: key_order.less_trans [OF assms(1)], blast intro: key_order.less_trans [OF assms(2)])
qed

lemma key_order_comparable: "key_order partial_cmp {v. comparable_value ty v}"
proof (induction ty)
  case (T_Pair ty1 ty2)
  then show ?case
    by (rule key_order_pair) (auto split: TypedValue.splits)
next
  case (T_Option ty)
  then show ?case
    by (rule key_order_option) (auto split: TypedValue.splits option.splits)
next
  case (T_Or ty1 ty2)
  then show ?case
    by (rule key_order_or) (auto split: TypedValue.splits sum.splits)
next
  case T_Unit
  show ?case by unfold_locales (auto split: TypedValue.splits)
next
  case T_Int
  show ?case by (rule key_order_linear [of _ V_Int id]) (auto simp: inj_def split: TypedValue.splits)
next
  case T_Nat
  show ?case by (rule key_order_linear [of _ V_Nat id]) (auto simp: inj_def split: TypedValue.splits)
next
  case T_Mumav
  show ?case by (rule key_order_linear [of _ V_Mumav id]) (auto simp: inj_def split: TypedValue.splits)
next
  case T_Bool
  show ?case by (rule key_order_linear [of _ V_Bool id]) (auto simp: inj_def split: TypedValue.splits)
next
  case T_String
  show ?case by (rule key_order_linear [of _ V_String id]) (auto simp: inj_def split: TypedValue.splits)
next
  case T_Address
  show ?case by (rule key_order_linear [of _ V_Address address_ord_key]) (auto simp: inj_def split: TypedValue.splits)
next
  case T_ChainId
  show ?case by (rule key_order_linear [of _ V_ChainId id]) (auto simp: inj_def split: TypedValue.splits)
next
  case T_Bytes
  show ?case by (rule key_order_linear [of _ V_Bytes id]) (auto simp: inj_def split: TypedValue.splits)
next
  case T_Key
  show ?case by (rule key_order_linear [of _ V_Key key_ord_key]) (auto simp: inj_def split: TypedValue.splits)
next
  case T_Signature
  show ?case by (rule key_order_linear [of _ V_Signature signature_ord_key]) (auto simp: inj_def split: TypedValue.splits)
next
  case T_KeyHash
  show ?case by (rule key_order_linear [of _ V_KeyHash keyhash_ord_key]) (auto simp: inj_def split: TypedValue.splits)
next
  case T_Timestamp
  show ?case by (rule key_order_linear [of _ V_Timestamp id]) (auto simp: inj_def split: TypedValue.splits)
qed (simp_all add: key_order_def)

interpretation comparable: key_order partial_cmp "{v. comparable_value ty v}" for ty
  by (rule key_order_comparable)

end
