(* ===== verification/MIR_Untype.thy ===== *)
theory MIR_Untype
  imports MIR_Order
begin

text \<open>
  Untyping: the Micheline representation of types, values and closures in the optimized legacy format
  (\<open>IntoMicheline\<close> in \<open>src/contrib/mir/src/ast.rs\<close> and \<open>michelson_lambda.rs\<close>), which \<open>PACK\<close> serializes.
\<close>

section \<open>Types\<close>

text \<open>\<open>LinearizePairIter\<close> yields the components of a right comb.\<close>

fun linearize_pair :: "Type \<Rightarrow> Type list" where
  "linearize_pair (T_Pair a b) = a # linearize_pair b"
| "linearize_pair ty = [ty]"

lemma size_linearize_pair: "t \<in> set (linearize_pair ty) \<Longrightarrow> size t \<le> size ty"
  by (induction ty rule: linearize_pair.induct) auto

function type_into_micheline :: "Type \<Rightarrow> Micheline" where
  "type_into_micheline ty =
     (case ty of
        T_Nat \<Rightarrow> prim0 ''nat''
      | T_Int \<Rightarrow> prim0 ''int''
      | T_Bool \<Rightarrow> prim0 ''bool''
      | T_Mumav \<Rightarrow> prim0 ''mumav''
      | T_String \<Rightarrow> prim0 ''string''
      | T_Unit \<Rightarrow> prim0 ''unit''
      | T_Operation \<Rightarrow> prim0 ''operation''
      | T_Address \<Rightarrow> prim0 ''address''
      | T_ChainId \<Rightarrow> prim0 ''chain_id''
      | T_Bytes \<Rightarrow> prim0 ''bytes''
      | T_Key \<Rightarrow> prim0 ''key''
      | T_Signature \<Rightarrow> prim0 ''signature''
      | T_Timestamp \<Rightarrow> prim0 ''timestamp''
      | T_KeyHash \<Rightarrow> prim0 ''key_hash''
      | T_Never \<Rightarrow> prim0 ''never''
      | T_Bls12381Fr \<Rightarrow> prim0 ''bls12_381_fr''
      | T_Bls12381G1 \<Rightarrow> prim0 ''bls12_381_g1''
      | T_Bls12381G2 \<Rightarrow> prim0 ''bls12_381_g2''
      | T_Option x \<Rightarrow> prim1 ''option'' (type_into_micheline x)
      | T_List x \<Rightarrow> prim1 ''list'' (type_into_micheline x)
      | T_Set x \<Rightarrow> prim1 ''set'' (type_into_micheline x)
      | T_Contract x \<Rightarrow> prim1 ''contract'' (type_into_micheline x)
      | T_Ticket x \<Rightarrow> prim1 ''ticket'' (type_into_micheline x)
      | T_Pair a b \<Rightarrow> App ''pair'' (map type_into_micheline (a # linearize_pair b)) NO_ANNS
      | T_Map a b \<Rightarrow> prim2 ''map'' (type_into_micheline a) (type_into_micheline b)
      | T_BigMap a b \<Rightarrow> prim2 ''big_map'' (type_into_micheline a) (type_into_micheline b)
      | T_Or a b \<Rightarrow> prim2 ''or'' (type_into_micheline a) (type_into_micheline b)
      | T_Lambda a b \<Rightarrow> prim2 ''lambda'' (type_into_micheline a) (type_into_micheline b))"
  by pat_completeness auto
termination
  by (relation "measure size") (auto dest!: size_linearize_pair)

declare type_into_micheline.simps [simp del]

section \<open>Values\<close>

definition unwrap_ticket :: "AddressHash \<Rightarrow> TypedValue \<Rightarrow> nat \<Rightarrow> TypedValue" where
  "unwrap_ticket ticketer content amount =
     V_Pair (V_Address (Address ticketer entrypoint_default)) (V_Pair content (V_Nat amount))"

definition address_into_micheline :: "Address \<Rightarrow> Micheline" where
  "address_into_micheline a = Mich_Bytes (address_to_bytes a [])"

text \<open>
  The representation of a ticket is the one of \<open>unwrap_ticket\<close>, written out; the \<open>try_into().unwrap()\<close>
  conversions of numbers into \<open>BigInt\<close> cannot fail.
\<close>

function (sequential) value_into_micheline :: "TypedValue \<Rightarrow> Micheline"
  and pair_into_micheline :: "TypedValue \<times> TypedValue \<Rightarrow> Micheline"
  and overlay_into_micheline :: "TypedValue \<times> TypedValue option \<Rightarrow> Micheline"
  and option_into_micheline :: "TypedValue option \<Rightarrow> Micheline"
  and closure_into_micheline :: "Closure \<Rightarrow> Micheline"
  and operation_into_micheline :: "Operation \<Rightarrow> Micheline" where
  "value_into_micheline (V_Int i) = Mich_Int i"
| "value_into_micheline (V_Nat u) = Mich_Int (int u)"
| "value_into_micheline (V_Mumav u) = Mich_Int u"
| "value_into_micheline (V_Bool b) = (if b then prim0 ''True'' else prim0 ''False'')"
| "value_into_micheline (V_String s) = Mich_String s"
| "value_into_micheline V_Unit = prim0 ''Unit''"
| "value_into_micheline (V_Pair a b) = prim2 ''Pair'' (value_into_micheline a) (value_into_micheline b)"
| "value_into_micheline (V_List l) = Seq (map value_into_micheline l)"
| "value_into_micheline (V_Set s) = Seq (map value_into_micheline s)"
| "value_into_micheline (V_Map m) = Seq (map pair_into_micheline m)"
| "value_into_micheline (V_BigMap mid overlay kty vty) =
     (let map_part = Seq (map overlay_into_micheline overlay) in
      case mid of
        Some i \<Rightarrow> if overlay = [] then Mich_Int i else prim2 ''Pair'' (Mich_Int i) map_part
      | None \<Rightarrow> map_part)"
| "value_into_micheline (V_Option x) = option_into_micheline x"
| "value_into_micheline (V_Or x) =
     (case x of
        Inl x \<Rightarrow> prim1 ''Left'' (value_into_micheline x)
      | Inr x \<Rightarrow> prim1 ''Right'' (value_into_micheline x))"
| "value_into_micheline (V_Address x) = address_into_micheline x"
| "value_into_micheline (V_ChainId x) = Mich_Bytes x"
| "value_into_micheline (V_Bytes x) = Mich_Bytes x"
| "value_into_micheline (V_Key k) = Mich_Bytes (key_to_bytes k [])"
| "value_into_micheline (V_Signature s) = Mich_Bytes (signature_to_bytes s [])"
| "value_into_micheline (V_Lambda lam) = closure_into_micheline lam"
| "value_into_micheline (V_KeyHash s) = Mich_Bytes (keyhash_to_bytes s [])"
| "value_into_micheline (V_Timestamp s) = Mich_Int s"
| "value_into_micheline (V_Bls12381Fr x) = Mich_Bytes x"
| "value_into_micheline (V_Bls12381G1 x) = Mich_Bytes x"
| "value_into_micheline (V_Bls12381G2 x) = Mich_Bytes x"
| "value_into_micheline (V_Contract x) = address_into_micheline x"
| "value_into_micheline (V_Operation operation counter) = operation_into_micheline operation"
| "value_into_micheline (V_Ticket ticketer content amount) =
     prim2 ''Pair'' (address_into_micheline (Address ticketer entrypoint_default))
       (prim2 ''Pair'' (value_into_micheline content) (Mich_Int (int amount)))"
| "pair_into_micheline (key, val) = prim2 ''Elt'' (value_into_micheline key) (value_into_micheline val)"
| "overlay_into_micheline (key, val) = prim2 ''Elt'' (value_into_micheline key) (option_into_micheline val)"
| "option_into_micheline None = prim0 ''None''"
| "option_into_micheline (Some x) = prim1 ''Some'' (value_into_micheline x)"
| "closure_into_micheline (C_Lambda (L_Lambda micheline_code code)) = micheline_code"
| "closure_into_micheline (C_Lambda (L_LambdaRec in_ty out_ty micheline_code code)) =
     prim1 ''Lambda_rec'' micheline_code"
| "closure_into_micheline (C_Apply arg_ty arg_val closure) =
     (let push = prim2 ''PUSH'' (type_into_micheline arg_ty) (value_into_micheline arg_val) in
      case closure of
        C_Lambda (L_LambdaRec in_ty out_ty micheline_code code) \<Rightarrow>
          Seq [push, prim0 ''PAIR'',
               prim3 ''LAMBDA_REC'' (type_into_micheline in_ty) (type_into_micheline out_ty) micheline_code,
               prim0 ''SWAP'', prim0 ''EXEC'']
      | _ \<Rightarrow> Seq [push, prim0 ''PAIR'', closure_into_micheline closure])"
| "operation_into_micheline (TransferTokens param destination_address amount) =
     prim3 ''Transfer_tokens'' (value_into_micheline param) (address_into_micheline destination_address)
       (Mich_Int amount)"
| "operation_into_micheline (SetDelegate sd) =
     prim1 ''Set_delegate''
       (case sd of
          Some kh \<Rightarrow> prim1 ''Some'' (Mich_Bytes (keyhash_to_bytes kh []))
        | None \<Rightarrow> prim0 ''None'')"
| "operation_into_micheline (Emit tag val arg_ty) =
     App ''Emit''
       [value_into_micheline val, (case arg_ty of Inr mich \<Rightarrow> mich | Inl typ \<Rightarrow> type_into_micheline typ)]
       (case tag of Some tag \<Rightarrow> [Field tag] | None \<Rightarrow> NO_ANNS)"
| "operation_into_micheline (CreateContract delegate amount storage code micheline_code) =
     App ''Create_contract''
       [micheline_code,
        (case delegate of
           None \<Rightarrow> prim0 ''None''
         | Some x \<Rightarrow> prim1 ''Some'' (address_into_micheline (Address (Implicit x) entrypoint_default))),
        Mich_Int amount, value_into_micheline storage]
       NO_ANNS"
  by pat_completeness auto
termination
  by (relation "measure (case_sum (case_sum size (case_sum (size_prod size size)
        (size_prod size (size_option size)))) (case_sum (size_option size) (case_sum size size)))")
    (auto simp: less_Suc_eq_le intro: size_list_estimation' size_list_estimation)

end
