(* ===== verification/MIR_BigMap.thy ===== *)
theory MIR_BigMap
  imports MIR_Untype
begin

text \<open>
  Big maps and the lazy storage behind them (\<open>src/contrib/mir/src/ast/big_map.rs\<close>).  The trait
  \<open>LazyStorage\<close> is a record of operations; the locale \<open>lazy_storage\<close> states what its documentation
  promises, the reading and writing of big maps and the dump of their overlays at the end of an
  execution are verified against it, and \<open>InMemoryLazyStorage\<close> implements it.
\<close>

section \<open>Big maps\<close>

record BigMap =
  bm_id :: "int option"
  bm_overlay :: "(TypedValue \<times> TypedValue option) list"
  bm_key_type :: Type
  bm_value_type :: Type

definition big_map_value :: "BigMap \<Rightarrow> TypedValue" where
  "big_map_value m = V_BigMap (bm_id m) (bm_overlay m) (bm_key_type m) (bm_value_type m)"

datatype LazyStorageError = DecodingError | OtherError

text \<open>The trait \<open>LazyStorage\<close>.\<close>

record 's LazyStorage =
  ls_big_map_get :: "'s \<Rightarrow> int \<Rightarrow> TypedValue \<Rightarrow> (LazyStorageError, TypedValue option) outcome"
  ls_big_map_mem :: "'s \<Rightarrow> int \<Rightarrow> TypedValue \<Rightarrow> (LazyStorageError, bool) outcome"
  ls_big_map_update :: "'s \<Rightarrow> int \<Rightarrow> TypedValue \<Rightarrow> TypedValue option \<Rightarrow> (LazyStorageError, 's) outcome"
  ls_big_map_get_type :: "'s \<Rightarrow> int \<Rightarrow> (LazyStorageError, (Type \<times> Type) option) outcome"
  ls_big_map_new :: "'s \<Rightarrow> Type \<Rightarrow> Type \<Rightarrow> (LazyStorageError, int \<times> 's) outcome"
  ls_big_map_copy :: "'s \<Rightarrow> int \<Rightarrow> (LazyStorageError, int \<times> 's) outcome"
  ls_big_map_remove :: "'s \<Rightarrow> int \<Rightarrow> (LazyStorageError, 's) outcome"

definition big_map_get ::
  "'s LazyStorage \<Rightarrow> 's \<Rightarrow> BigMap \<Rightarrow> TypedValue \<Rightarrow> (LazyStorageError, TypedValue option) outcome" where
  "big_map_get ops storage m key =
     bind_outcome (btree_get partial_cmp key (bm_overlay m)) (\<lambda>r.
       case r of
         Some change \<Rightarrow> Ok change
       | None \<Rightarrow>
           (case bm_id m of
              Some i \<Rightarrow> ls_big_map_get ops storage i key
            | None \<Rightarrow> Ok None))"

definition big_map_mem ::
  "'s LazyStorage \<Rightarrow> 's \<Rightarrow> BigMap \<Rightarrow> TypedValue \<Rightarrow> (LazyStorageError, bool) outcome" where
  "big_map_mem ops storage m key =
     bind_outcome (btree_get partial_cmp key (bm_overlay m)) (\<lambda>r.
       case r of
         Some change \<Rightarrow> Ok (change \<noteq> None)
       | None \<Rightarrow>
           (case bm_id m of
              Some i \<Rightarrow> ls_big_map_mem ops storage i key
            | None \<Rightarrow> Ok False))"

definition big_map_update ::
  "BigMap \<Rightarrow> TypedValue \<Rightarrow> TypedValue option \<Rightarrow> ('e, BigMap) outcome" where
  "big_map_update m key val =
     map_outcome (\<lambda>(_, overlay). m\<lparr>bm_overlay := overlay\<rparr>)
       (btree_insert partial_cmp key val (bm_overlay m))"

fun big_map_bulk_update ::
  "'s LazyStorage \<Rightarrow> 's \<Rightarrow> int \<Rightarrow> (TypedValue \<times> TypedValue option) list
     \<Rightarrow> (LazyStorageError, 's) outcome" where
  "big_map_bulk_update ops storage i [] = Ok storage"
| "big_map_bulk_update ops storage i ((k, v) # entries) =
     bind_outcome (ls_big_map_update ops storage i k v) (\<lambda>storage.
       big_map_bulk_update ops storage i entries)"

section \<open>The storage in memory\<close>

record MapInfo =
  mi_map :: "(TypedValue \<times> TypedValue) list"
  mi_key_type :: Type
  mi_value_type :: Type

record InMemoryLazyStorage =
  next_id :: int
  big_maps :: "(int \<times> MapInfo) list"

definition id_cmp :: "int \<Rightarrow> int \<Rightarrow> Ordering option" where
  "id_cmp a b = Some (cmp a b)"

definition storage_new :: InMemoryLazyStorage where
  "storage_new = \<lparr>next_id = 0, big_maps = []\<rparr>"

definition get_next_id :: "InMemoryLazyStorage \<Rightarrow> int \<times> InMemoryLazyStorage" where
  "get_next_id s = (next_id s, s\<lparr>next_id := next_id s + 1\<rparr>)"

definition access_big_map :: "InMemoryLazyStorage \<Rightarrow> int \<Rightarrow> (LazyStorageError, MapInfo) outcome" where
  "access_big_map s i =
     bind_outcome (btree_get id_cmp i (big_maps s)) (\<lambda>r.
       case r of Some info \<Rightarrow> Ok info | None \<Rightarrow> Panic StoragePanic)"

definition mem_big_map_get ::
  "InMemoryLazyStorage \<Rightarrow> int \<Rightarrow> TypedValue \<Rightarrow> (LazyStorageError, TypedValue option) outcome" where
  "mem_big_map_get s i key =
     bind_outcome (access_big_map s i) (\<lambda>info. btree_get partial_cmp key (mi_map info))"

definition mem_big_map_mem ::
  "InMemoryLazyStorage \<Rightarrow> int \<Rightarrow> TypedValue \<Rightarrow> (LazyStorageError, bool) outcome" where
  "mem_big_map_mem s i key =
     bind_outcome (access_big_map s i) (\<lambda>info.
       map_outcome (\<lambda>r. r \<noteq> None) (btree_get partial_cmp key (mi_map info)))"

definition put_big_map ::
  "InMemoryLazyStorage \<Rightarrow> int \<Rightarrow> MapInfo \<Rightarrow> (LazyStorageError, InMemoryLazyStorage) outcome" where
  "put_big_map s i info =
     map_outcome (\<lambda>(_, maps). s\<lparr>big_maps := maps\<rparr>) (btree_insert id_cmp i info (big_maps s))"

definition mem_big_map_update ::
  "InMemoryLazyStorage \<Rightarrow> int \<Rightarrow> TypedValue \<Rightarrow> TypedValue option
     \<Rightarrow> (LazyStorageError, InMemoryLazyStorage) outcome" where
  "mem_big_map_update s i key val =
     bind_outcome (access_big_map s i) (\<lambda>info.
     bind_outcome
       (case val of
          None \<Rightarrow> map_outcome snd (btree_remove partial_cmp key (mi_map info))
        | Some v \<Rightarrow> map_outcome snd (btree_insert partial_cmp key v (mi_map info))) (\<lambda>m.
       put_big_map s i (info\<lparr>mi_map := m\<rparr>)))"

definition mem_big_map_get_type ::
  "InMemoryLazyStorage \<Rightarrow> int \<Rightarrow> (LazyStorageError, (Type \<times> Type) option) outcome" where
  "mem_big_map_get_type s i =
     map_outcome (map_option (\<lambda>info. (mi_key_type info, mi_value_type info)))
       (btree_get id_cmp i (big_maps s))"

definition mem_big_map_new ::
  "InMemoryLazyStorage \<Rightarrow> Type \<Rightarrow> Type \<Rightarrow> (LazyStorageError, int \<times> InMemoryLazyStorage) outcome" where
  "mem_big_map_new s key_type value_type =
     (let (i, s) = get_next_id s in
      map_outcome (\<lambda>s. (i, s))
        (put_big_map s i \<lparr>mi_map = [], mi_key_type = key_type, mi_value_type = value_type\<rparr>))"

definition mem_big_map_remove ::
  "InMemoryLazyStorage \<Rightarrow> int \<Rightarrow> (LazyStorageError, InMemoryLazyStorage) outcome" where
  "mem_big_map_remove s i =
     map_outcome (\<lambda>(_, maps). s\<lparr>big_maps := maps\<rparr>) (btree_remove id_cmp i (big_maps s))"

definition mem_big_map_copy ::
  "InMemoryLazyStorage \<Rightarrow> int \<Rightarrow> (LazyStorageError, int \<times> InMemoryLazyStorage) outcome" where
  "mem_big_map_copy s copied_id =
     (let (i, s) = get_next_id s in
      bind_outcome (access_big_map s copied_id) (\<lambda>info.
        map_outcome (\<lambda>s. (i, s)) (put_big_map s i info)))"

definition in_memory :: "InMemoryLazyStorage LazyStorage" where
  "in_memory =
     \<lparr>ls_big_map_get = mem_big_map_get, ls_big_map_mem = mem_big_map_mem,
      ls_big_map_update = mem_big_map_update, ls_big_map_get_type = mem_big_map_get_type,
      ls_big_map_new = mem_big_map_new, ls_big_map_copy = mem_big_map_copy,
      ls_big_map_remove = mem_big_map_remove\<rparr>"

section \<open>Collecting the big maps of a value\<close>

text \<open>\<open>collect_big_maps\<close> with \<open>view_big_maps_mut\<close> and \<open>view_big_map_ids\<close>: the maps in the order of the
  traversal.\<close>

function collect_big_maps :: "TypedValue \<Rightarrow> BigMap list" where
  "collect_big_maps v =
     (case v of
        V_Pair a b \<Rightarrow> collect_big_maps a @ collect_big_maps b
      | V_Or p \<Rightarrow> (case p of Inl l \<Rightarrow> collect_big_maps l | Inr r \<Rightarrow> collect_big_maps r)
      | V_Option p \<Rightarrow> (case p of Some x \<Rightarrow> collect_big_maps x | None \<Rightarrow> [])
      | V_List l \<Rightarrow> concat (map collect_big_maps l)
      | V_Map m \<Rightarrow> concat (map (\<lambda>e. collect_big_maps (snd e)) m)
      | V_BigMap i overlay kty vty \<Rightarrow>
          [\<lparr>bm_id = i, bm_overlay = overlay, bm_key_type = kty, bm_value_type = vty\<rparr>]
      | V_Operation op counter \<Rightarrow>
          (case op of
             TransferTokens param dest amount \<Rightarrow> collect_big_maps param
           | CreateContract delegate amount storage code mich \<Rightarrow> collect_big_maps storage
           | _ \<Rightarrow> [])
      | _ \<Rightarrow> [])"
  by pat_completeness auto
termination
proof (relation "measure size")
  fix v m e assume "v = V_Map m" "e \<in> set m"
  then have "size_prod size size e \<le> size_list (size_prod size size) m"
    by (simp add: size_list_estimation')
  with \<open>v = V_Map m\<close> show "(snd e, v) \<in> measure size"
    by (cases e) simp
qed (auto simp: less_Suc_eq_le intro: size_list_estimation')

declare collect_big_maps.simps [simp del]

definition view_big_map_ids :: "TypedValue \<Rightarrow> int list" where
  "view_big_map_ids v = List.map_filter bm_id (collect_big_maps v)"

section \<open>Dumping updates\<close>

text \<open>
  The maps are updated in place through references: a group holds the positions of its maps.  The
  first loop groups the maps that have an identifier and stores the others.
\<close>

definition group_entry ::
  "int \<Rightarrow> nat \<Rightarrow> (int \<times> nat \<times> nat list) list \<Rightarrow> ('e, (int \<times> nat \<times> nat list) list) outcome" where
  "group_entry i pos grouped =
     bind_outcome (btree_get id_cmp i grouped) (\<lambda>r.
       map_outcome snd
         (btree_insert id_cmp i
           (case r of None \<Rightarrow> (pos, []) | Some (main, others) \<Rightarrow> (main, others @ [pos])) grouped))"

definition take_overlay :: "nat \<Rightarrow> int \<Rightarrow> BigMap list \<Rightarrow> BigMap list" where
  "take_overlay pos i maps = maps[pos := (maps ! pos)\<lparr>bm_id := Some i, bm_overlay := []\<rparr>]"

fun dump_group ::
  "'s LazyStorage \<Rightarrow> nat list \<Rightarrow> 's \<Rightarrow> BigMap list \<Rightarrow> (int \<times> nat \<times> nat list) list
     \<Rightarrow> (LazyStorageError, 's \<times> BigMap list \<times> (int \<times> nat \<times> nat list) list) outcome" where
  "dump_group ops [] storage maps grouped = Ok (storage, maps, grouped)"
| "dump_group ops (pos # todo) storage maps grouped =
     (case bm_id (maps ! pos) of
        Some i \<Rightarrow>
          bind_outcome (group_entry i pos grouped) (\<lambda>grouped.
            dump_group ops todo storage maps grouped)
      | None \<Rightarrow>
          bind_outcome (ls_big_map_new ops storage (bm_key_type (maps ! pos)) (bm_value_type (maps ! pos)))
            (\<lambda>(i, storage).
          bind_outcome (big_map_bulk_update ops storage i (bm_overlay (maps ! pos))) (\<lambda>storage.
            dump_group ops todo storage (take_overlay pos i maps) grouped)))"

fun dump_remove ::
  "'s LazyStorage \<Rightarrow> (int \<times> nat \<times> nat list) list \<Rightarrow> int list \<Rightarrow> 's \<Rightarrow> (LazyStorageError, 's) outcome" where
  "dump_remove ops grouped [] storage = Ok storage"
| "dump_remove ops grouped (i # started) storage =
     bind_outcome (btree_get id_cmp i grouped) (\<lambda>r.
       if r = None
       then bind_outcome (ls_big_map_remove ops storage i) (\<lambda>storage.
              dump_remove ops grouped started storage)
       else dump_remove ops grouped started storage)"

fun dump_copies ::
  "'s LazyStorage \<Rightarrow> int \<Rightarrow> nat list \<Rightarrow> 's \<Rightarrow> BigMap list \<Rightarrow> (LazyStorageError, 's \<times> BigMap list) outcome" where
  "dump_copies ops i [] storage maps = Ok (storage, maps)"
| "dump_copies ops i (pos # others) storage maps =
     bind_outcome (ls_big_map_copy ops storage i) (\<lambda>(new_id, storage).
     bind_outcome (big_map_bulk_update ops storage new_id (bm_overlay (maps ! pos))) (\<lambda>storage.
       dump_copies ops i others storage (take_overlay pos new_id maps)))"

fun dump_update ::
  "'s LazyStorage \<Rightarrow> (int \<times> nat \<times> nat list) list \<Rightarrow> 's \<Rightarrow> BigMap list
     \<Rightarrow> (LazyStorageError, 's \<times> BigMap list) outcome" where
  "dump_update ops [] storage maps = Ok (storage, maps)"
| "dump_update ops ((i, main, others) # grouped) storage maps =
     bind_outcome (dump_copies ops i others storage maps) (\<lambda>(storage, maps).
     bind_outcome (big_map_bulk_update ops storage i (bm_overlay (maps ! main))) (\<lambda>storage.
       dump_update ops grouped storage (take_overlay main i maps)))"

definition dump_big_map_updates ::
  "'s LazyStorage \<Rightarrow> 's \<Rightarrow> int list \<Rightarrow> BigMap list \<Rightarrow> (LazyStorageError, 's \<times> BigMap list) outcome" where
  "dump_big_map_updates ops storage started_with_map_ids finished_with_maps =
     bind_outcome (dump_group ops [0..<length finished_with_maps] storage finished_with_maps [])
       (\<lambda>(storage, maps, grouped).
     bind_outcome (dump_remove ops grouped started_with_map_ids storage) (\<lambda>storage.
       dump_update ops grouped storage maps))"

interpretation ids: key_order id_cmp UNIV
  by unfold_locales (auto simp: id_cmp_def)

section \<open>The contract of the lazy storage\<close>

text \<open>
  \<open>view\<close> is the content of the storage: the key type, the value type and the entries of every stored
  map.  \<open>used\<close> are the identifiers that have been given out; an identifier is never given out twice.
\<close>

type_synonym stored_map = "Type \<times> Type \<times> (TypedValue \<rightharpoonup> TypedValue)"

text \<open>The entries of a big map: its overlay over the stored map.\<close>

definition big_map_entries :: "(int \<rightharpoonup> stored_map) \<Rightarrow> BigMap \<Rightarrow> TypedValue \<rightharpoonup> TypedValue" where
  "big_map_entries stored m =
     (\<lambda>k. case map_of (bm_overlay m) k of
        Some change \<Rightarrow> change
      | None \<Rightarrow>
          (case bm_id m of
             None \<Rightarrow> None
           | Some i \<Rightarrow> (case stored i of None \<Rightarrow> None | Some (kt, vt, f) \<Rightarrow> f k)))"

definition overlay_ok :: "BigMap \<Rightarrow> bool" where
  "overlay_ok m \<longleftrightarrow> ascending partial_cmp (map fst (bm_overlay m)) \<and>
     (\<forall>k \<in> fst ` set (bm_overlay m). comparable_value (bm_key_type m) k)"

definition big_map_ok :: "(int \<rightharpoonup> stored_map) \<Rightarrow> BigMap \<Rightarrow> bool" where
  "big_map_ok stored m \<longleftrightarrow> overlay_ok m \<and>
     (\<forall>i. bm_id m = Some i \<longrightarrow> (\<exists>f. stored i = Some (bm_key_type m, bm_value_type m, f)))"

definition unreferenced :: "BigMap list \<Rightarrow> int \<Rightarrow> bool" where
  "unreferenced ms i \<longleftrightarrow> Some i \<notin> bm_id ` set ms"

locale lazy_storage =
  fixes ops :: "'s LazyStorage"
    and inv :: "'s \<Rightarrow> bool"
    and view :: "'s \<Rightarrow> int \<rightharpoonup> stored_map"
    and used :: "'s \<Rightarrow> int set"
  assumes view_used: "inv s \<Longrightarrow> dom (view s) \<subseteq> used s"
    and get: "inv s \<Longrightarrow> view s i = Some (kt, vt, f) \<Longrightarrow> comparable_value kt k \<Longrightarrow>
      ls_big_map_get ops s i k = Ok (f k)"
    and mem: "inv s \<Longrightarrow> view s i = Some (kt, vt, f) \<Longrightarrow> comparable_value kt k \<Longrightarrow>
      ls_big_map_mem ops s i k = Ok (f k \<noteq> None)"
    and update: "inv s \<Longrightarrow> view s i = Some (kt, vt, f) \<Longrightarrow> comparable_value kt k \<Longrightarrow>
      \<exists>s'. ls_big_map_update ops s i k v = Ok s' \<and> inv s' \<and> used s' = used s \<and>
        view s' = (view s)(i \<mapsto> (kt, vt, f(k := v)))"
    and get_type: "inv s \<Longrightarrow>
      ls_big_map_get_type ops s i = Ok (map_option (\<lambda>(kt, vt, f). (kt, vt)) (view s i))"
    and new: "inv s \<Longrightarrow>
      \<exists>i s'. ls_big_map_new ops s kt vt = Ok (i, s') \<and> inv s' \<and> i \<notin> used s \<and>
        used s' = insert i (used s) \<and> view s' = (view s)(i \<mapsto> (kt, vt, Map.empty))"
    and copy: "inv s \<Longrightarrow> view s j = Some info \<Longrightarrow>
      \<exists>i s'. ls_big_map_copy ops s j = Ok (i, s') \<and> inv s' \<and> i \<notin> used s \<and>
        used s' = insert i (used s) \<and> view s' = (view s)(i \<mapsto> info)"
    and remove: "inv s \<Longrightarrow>
      \<exists>s'. ls_big_map_remove ops s i = Ok s' \<and> inv s' \<and> used s' = used s \<and> view s' = (view s)(i := None)"
begin

lemma overlay_get:
  "overlay_ok m \<Longrightarrow> comparable_value (bm_key_type m) k \<Longrightarrow>
    btree_get partial_cmp k (bm_overlay m) = Ok (map_of (bm_overlay m) k)"
  by (rule comparable.get_map_of [of _ _ "bm_key_type m"]) (auto simp: overlay_ok_def)

lemma big_map_get_entries:
  assumes "inv s" "big_map_ok (view s) m" "comparable_value (bm_key_type m) k"
  shows "big_map_get ops s m k = Ok (big_map_entries (view s) m k)"
proof -
  have "btree_get partial_cmp k (bm_overlay m) = (Ok (map_of (bm_overlay m) k) :: (LazyStorageError, _) outcome)"
    using assms by (intro overlay_get) (auto simp: big_map_ok_def)
  then show ?thesis
    using assms get [OF \<open>inv s\<close>]
    by (auto simp: big_map_get_def big_map_entries_def big_map_ok_def split: option.splits)
qed

lemma big_map_mem_entries:
  assumes "inv s" "big_map_ok (view s) m" "comparable_value (bm_key_type m) k"
  shows "big_map_mem ops s m k = Ok (big_map_entries (view s) m k \<noteq> None)"
proof -
  have "btree_get partial_cmp k (bm_overlay m) = (Ok (map_of (bm_overlay m) k) :: (LazyStorageError, _) outcome)"
    using assms by (intro overlay_get) (auto simp: big_map_ok_def)
  then show ?thesis
    using assms mem [OF \<open>inv s\<close>]
    by (auto simp: big_map_mem_def big_map_entries_def big_map_ok_def split: option.splits)
qed

lemma big_map_update_entries:
  assumes "big_map_ok (view s) m" "comparable_value (bm_key_type m) k"
  shows "\<exists>m'. big_map_update m k v = (Ok m' :: ('e, _) outcome) \<and> big_map_ok (view s) m' \<and>
    big_map_entries (view s) m' = (big_map_entries (view s) m)(k := v) \<and> bm_id m' = bm_id m \<and>
    bm_key_type m' = bm_key_type m \<and> bm_value_type m' = bm_value_type m"
proof -
  let ?o = "bm_overlay m"
  have "ascending partial_cmp (map fst ?o)" "fst ` set ?o \<subseteq> {k. comparable_value (bm_key_type m) k}"
    using assms(1) by (auto simp: big_map_ok_def overlay_ok_def)
  from comparable.insert_ok [OF this(1) _ this(2), of k v] assms(2) obtain o' where
    o': "btree_insert partial_cmp k v ?o = (Ok (map_of ?o k, o') :: ('e, _) outcome)"
      "map_of o' = (map_of ?o)(k \<mapsto> v)" "ascending partial_cmp (map fst o')"
      "set (map fst o') = insert k (set (map fst ?o))" by auto
  have "fst ` set o' = insert k (fst ` set ?o)" using o'(4) by simp
  then have "big_map_ok (view s) (m\<lparr>bm_overlay := o'\<rparr>)"
    using assms o'(3) by (auto simp: big_map_ok_def overlay_ok_def)
  moreover have "big_map_entries (view s) (m\<lparr>bm_overlay := o'\<rparr>) = (big_map_entries (view s) m)(k := v)"
    using o'(2) by (auto simp: big_map_entries_def fun_eq_iff split: option.split)
  ultimately show ?thesis using o'(1) by (simp add: big_map_update_def)
qed

lemma bulk_update_ok:
  assumes "inv s" "view s i = Some (kt, vt, f)" "ascending partial_cmp (map fst es)"
    and "\<forall>k \<in> fst ` set es. comparable_value kt k"
  shows "\<exists>s'. big_map_bulk_update ops s i es = Ok s' \<and> inv s' \<and> used s' = used s \<and>
    view s' = (view s)(i \<mapsto> (kt, vt, \<lambda>k. case map_of es k of Some change \<Rightarrow> change | None \<Rightarrow> f k))"
  using assms
proof (induction es arbitrary: s f)
  case Nil
  then show ?case by (auto simp: fun_eq_iff)
next
  case (Cons e es)
  obtain k v where e: "e = (k, v)" by (cases e)
  obtain s1 where s1: "ls_big_map_update ops s i k v = Ok s1" "inv s1" "used s1 = used s"
    "view s1 = (view s)(i \<mapsto> (kt, vt, f(k := v)))"
    using update [OF Cons.prems(1,2), of k v] Cons.prems(4) e by auto
  have "k \<notin> fst ` set es"
  proof
    assume "k \<in> fst ` set es"
    then have "partial_cmp k k = Some Less" using Cons.prems(3) e by (auto simp: ascending_def)
    then show False
      using comparable.equal_iff [of k kt k] Cons.prems(4) e by simp
  qed
  then have notin: "map_of es k = None" by (simp add: map_of_eq_None_iff)
  have "view s1 i = Some (kt, vt, f(k := v))" "ascending partial_cmp (map fst es)"
    "\<forall>k \<in> fst ` set es. comparable_value kt k"
    using s1(4) Cons.prems(3,4) e by (auto simp: ascending_def)
  from Cons.IH [OF s1(2) this] obtain s2 where
    "big_map_bulk_update ops s1 i es = Ok s2" "inv s2" "used s2 = used s1"
    "view s2 = (view s1)(i \<mapsto> (kt, vt, \<lambda>k'. case map_of es k' of Some change \<Rightarrow> change | None \<Rightarrow> (f(k := v)) k'))"
    by blast
  moreover have "(\<lambda>k'. case map_of es k' of Some change \<Rightarrow> change | None \<Rightarrow> (f(k := v)) k') =
    (\<lambda>k'. case map_of (e # es) k' of Some change \<Rightarrow> change | None \<Rightarrow> f k')"
    using notin by (auto simp: e fun_eq_iff split: option.splits)
  ultimately show ?case
    using s1 by (simp add: e fun_eq_iff)
qed

text \<open>
  The state of a dump that started from the storage \<open>s0\<close> and the maps \<open>ms0\<close>: the maps at the
  positions in \<open>stored\<close> are stored, each under its own identifier, the others are as they were, and of
  the maps that nobody refers to, the ones in \<open>gone\<close> are removed.
\<close>

definition dumped :: "'s \<Rightarrow> BigMap list \<Rightarrow> 's \<Rightarrow> BigMap list \<Rightarrow> nat \<Rightarrow> bool" where
  "dumped s0 ms0 s ms q \<longleftrightarrow>
     (\<exists>i. bm_id (ms ! q) = Some i \<and> bm_overlay (ms ! q) = [] \<and>
       bm_key_type (ms ! q) = bm_key_type (ms0 ! q) \<and> bm_value_type (ms ! q) = bm_value_type (ms0 ! q) \<and>
       view s i = Some (bm_key_type (ms0 ! q), bm_value_type (ms0 ! q), big_map_entries (view s0) (ms0 ! q)) \<and>
       (i \<in> used s0 \<longrightarrow> bm_id (ms0 ! q) = Some i))"

definition progress :: "'s \<Rightarrow> BigMap list \<Rightarrow> nat set \<Rightarrow> int set \<Rightarrow> 's \<Rightarrow> BigMap list \<Rightarrow> bool" where
  "progress s0 ms0 stored gone s ms \<longleftrightarrow>
     inv s \<and> length ms = length ms0 \<and> used s0 \<subseteq> used s \<and> stored \<subseteq> {..<length ms0} \<and>
     inj_on (\<lambda>q. bm_id (ms ! q)) stored \<and>
     (\<forall>q \<in> stored. dumped s0 ms0 s ms q) \<and>
     (\<forall>q < length ms0. q \<notin> stored \<longrightarrow> ms ! q = ms0 ! q \<and>
        (\<forall>i. bm_id (ms0 ! q) = Some i \<longrightarrow> view s i = view s0 i \<and> (\<forall>p \<in> stored. bm_id (ms ! p) \<noteq> Some i))) \<and>
     (\<forall>i \<in> used s0. unreferenced ms0 i \<longrightarrow> view s i = (if i \<in> gone then None else view s0 i))"

lemma progressD:
  assumes "progress s0 ms0 stored gone s ms"
  shows "inv s" "length ms = length ms0" "used s0 \<subseteq> used s" "stored \<subseteq> {..<length ms0}"
    "inj_on (\<lambda>q. bm_id (ms ! q)) stored" "q \<in> stored \<Longrightarrow> dumped s0 ms0 s ms q"
    "q < length ms0 \<Longrightarrow> q \<notin> stored \<Longrightarrow> ms ! q = ms0 ! q"
    "q < length ms0 \<Longrightarrow> q \<notin> stored \<Longrightarrow> bm_id (ms0 ! q) = Some i \<Longrightarrow> view s i = view s0 i"
    "q < length ms0 \<Longrightarrow> q \<notin> stored \<Longrightarrow> bm_id (ms0 ! q) = Some i \<Longrightarrow> p \<in> stored \<Longrightarrow> bm_id (ms ! p) \<noteq> Some i"
    "i \<in> used s0 \<Longrightarrow> unreferenced ms0 i \<Longrightarrow> view s i = (if i \<in> gone then None else view s0 i)"
  using assms by (auto simp: progress_def)

definition maps_ok :: "'s \<Rightarrow> BigMap list \<Rightarrow> bool" where
  "maps_ok s ms \<longleftrightarrow> inv s \<and> (\<forall>m \<in> set ms. big_map_ok (view s) m)"

lemma maps_okD:
  assumes "maps_ok s ms" "q < length ms"
  shows "inv s" "big_map_ok (view s) (ms ! q)" "bm_id (ms ! q) = Some i \<Longrightarrow> i \<in> used s"
proof -
  show "inv s" and ok: "big_map_ok (view s) (ms ! q)" using assms by (auto simp: maps_ok_def)
  show "i \<in> used s" if "bm_id (ms ! q) = Some i"
    using ok that view_used [OF \<open>inv s\<close>] by (auto simp: big_map_ok_def)
qed

lemma big_map_entries_None:
  "bm_id m = None \<Longrightarrow> big_map_entries (view s) m = (\<lambda>k. case map_of (bm_overlay m) k of Some change \<Rightarrow> change | None \<Rightarrow> None)"
  by (auto simp: big_map_entries_def fun_eq_iff split: option.split)

lemma big_map_entries_Some:
  "bm_id m = Some i \<Longrightarrow> view s i = Some (kt, vt, f) \<Longrightarrow>
    big_map_entries (view s) m = (\<lambda>k. case map_of (bm_overlay m) k of Some change \<Rightarrow> change | None \<Rightarrow> f k)"
  by (auto simp: big_map_entries_def fun_eq_iff split: option.split)

text \<open>The map at a position has been stored under an identifier that no other pending map has.\<close>

lemma progress_insert:
  assumes prog: "progress s0 ms0 stored gone s ms" and ok: "maps_ok s0 ms0"
    and q: "q < length ms0" "q \<notin> stored"
    and s2: "inv s2" "used s \<subseteq> used s2"
      "view s2 = (view s)(i \<mapsto> (bm_key_type (ms0 ! q), bm_value_type (ms0 ! q), big_map_entries (view s0) (ms0 ! q)))"
    and fresh: "i \<notin> used s \<or>
      bm_id (ms0 ! q) = Some i \<and> (\<forall>p < length ms0. p \<notin> stored \<longrightarrow> p \<noteq> q \<longrightarrow> bm_id (ms0 ! p) \<noteq> Some i)"
  shows "progress s0 ms0 (insert q stored) gone s2 (take_overlay q i ms)"
proof -
  let ?ms = "take_overlay q i ms"
  note D = progressD [OF prog]
  have nth: "?ms ! q = (ms0 ! q)\<lparr>bm_id := Some i, bm_overlay := []\<rparr>" "p \<noteq> q \<Longrightarrow> ?ms ! p = ms ! p" for p
    using q D(2) D(7) [OF q] by (auto simp: take_overlay_def)
  have nth_stored: "p \<in> stored \<Longrightarrow> ?ms ! p = ms ! p" for p using q(2) nth(2) by metis
  have not_done: "bm_id (ms ! p) \<noteq> Some i" if "p \<in> stored" for p
    using that fresh D(6) [OF that] D(9) [OF q] view_used [OF D(1)] by (auto simp: dumped_def)
  have used_i: "i \<in> used s0 \<Longrightarrow> bm_id (ms0 ! q) = Some i"
    using fresh D(3) by auto
  have "dumped s0 ms0 s2 ?ms p" if "p \<in> insert q stored" for p
  proof (cases "p = q")
    case True
    then show ?thesis using used_i by (simp add: dumped_def nth s2(3))
  next
    case False
    with that have "dumped s0 ms0 s ms p" "bm_id (ms ! p) \<noteq> Some i" using D(6) not_done by auto
    with False show ?thesis by (auto simp: dumped_def nth s2(3))
  qed
  moreover have "inj_on (\<lambda>p. bm_id (?ms ! p)) (insert q stored)"
    using D(5) not_done q(2) by (auto simp: nth(1) nth_stored inj_on_def) (metis not_done)+
  moreover have "?ms ! p = ms0 ! p \<and> (\<forall>j. bm_id (ms0 ! p) = Some j \<longrightarrow>
      view s2 j = view s0 j \<and> (\<forall>r \<in> insert q stored. bm_id (?ms ! r) \<noteq> Some j))"
    if p: "p < length ms0" "p \<notin> insert q stored" for p
  proof -
    have "bm_id (ms0 ! p) \<noteq> Some i"
      using fresh maps_okD(3) [OF ok p(1)] D(3) p by auto
    then show ?thesis
      using p D(7,8,9) by (auto simp: nth nth_stored s2(3))
  qed
  moreover have "view s2 j = (if j \<in> gone then None else view s0 j)"
    if "j \<in> used s0" "unreferenced ms0 j" for j
  proof -
    have "j \<noteq> i" using that used_i nth_mem [OF q(1)] by (force simp: unreferenced_def)
    then show ?thesis using that D(10) by (simp add: s2(3))
  qed
  moreover have "length ?ms = length ms0" "used s0 \<subseteq> used s2" "insert q stored \<subseteq> {..<length ms0}"
    using D s2 q by (auto simp: take_overlay_def)
  ultimately show ?thesis
    using s2(1) unfolding progress_def by blast
qed

lemma progress_store:
  assumes prog: "progress s0 ms0 stored gone s ms" and ok: "maps_ok s0 ms0"
    and q: "q < length ms0" "q \<notin> stored"
    and s1: "inv s1" "used s \<subseteq> used s1"
      "view s1 = (view s)(i \<mapsto> (bm_key_type (ms0 ! q), bm_value_type (ms0 ! q), f))"
    and f: "big_map_entries (view s0) (ms0 ! q) =
      (\<lambda>k. case map_of (bm_overlay (ms0 ! q)) k of Some change \<Rightarrow> change | None \<Rightarrow> f k)"
    and fresh: "i \<notin> used s \<or>
      bm_id (ms0 ! q) = Some i \<and> (\<forall>p < length ms0. p \<notin> stored \<longrightarrow> p \<noteq> q \<longrightarrow> bm_id (ms0 ! p) \<noteq> Some i)"
  shows "\<exists>s2. big_map_bulk_update ops s1 i (bm_overlay (ms ! q)) = Ok s2 \<and>
    progress s0 ms0 (insert q stored) gone s2 (take_overlay q i ms)"
proof -
  obtain s2 where "big_map_bulk_update ops s1 i (bm_overlay (ms ! q)) = Ok s2" "inv s2" "used s2 = used s1"
    "view s2 = (view s)(i \<mapsto> (bm_key_type (ms0 ! q), bm_value_type (ms0 ! q), big_map_entries (view s0) (ms0 ! q)))"
    using bulk_update_ok [of s1 i "bm_key_type (ms0 ! q)" "bm_value_type (ms0 ! q)" f "bm_overlay (ms0 ! q)"]
      maps_okD(2) [OF ok q(1)] s1 progressD(7) [OF prog q]
    by (auto simp: f big_map_ok_def overlay_ok_def fun_eq_iff)
  then show ?thesis
    using progress_insert [OF prog ok q, of s2 i] s1(2) fresh by blast
qed

lemma big_map_entries_stored:
  assumes "maps_ok s0 ms0" "q < length ms0" "bm_id (ms0 ! q) = Some i"
  obtains f where "view s0 i = Some (bm_key_type (ms0 ! q), bm_value_type (ms0 ! q), f)"
    "big_map_entries (view s0) (ms0 ! q) =
      (\<lambda>k. case map_of (bm_overlay (ms0 ! q)) k of Some change \<Rightarrow> change | None \<Rightarrow> f k)"
  using maps_okD(2) [OF assms(1,2)] assms(3) big_map_entries_Some [OF assms(3)] by (auto simp: big_map_ok_def)

text \<open>The three ways in which a map is stored.\<close>

lemma progress_new:
  assumes prog: "progress s0 ms0 stored gone s ms" and ok: "maps_ok s0 ms0"
    and q: "q < length ms0" "q \<notin> stored" and "bm_id (ms0 ! q) = None"
  shows "\<exists>i s1 s2. ls_big_map_new ops s (bm_key_type (ms ! q)) (bm_value_type (ms ! q)) = Ok (i, s1) \<and>
    big_map_bulk_update ops s1 i (bm_overlay (ms ! q)) = Ok s2 \<and>
    progress s0 ms0 (insert q stored) gone s2 (take_overlay q i ms)"
proof -
  note ms_q = progressD(7) [OF prog q]
  obtain i s1 where s1: "ls_big_map_new ops s (bm_key_type (ms ! q)) (bm_value_type (ms ! q)) = Ok (i, s1)"
    "inv s1" "i \<notin> used s" "used s1 = insert i (used s)"
    "view s1 = (view s)(i \<mapsto> (bm_key_type (ms0 ! q), bm_value_type (ms0 ! q), Map.empty))"
    using new [OF progressD(1) [OF prog]] ms_q by metis
  have "big_map_entries (view s0) (ms0 ! q) =
      (\<lambda>k. case map_of (bm_overlay (ms0 ! q)) k of Some change \<Rightarrow> change | None \<Rightarrow> Map.empty k)"
    using assms(5) by (simp add: big_map_entries_None)
  from progress_store [OF prog ok q s1(2) _ s1(5) this] s1(3,4) s1(1) show ?thesis by blast
qed

lemma progress_copy:
  assumes prog: "progress s0 ms0 stored gone s ms" and ok: "maps_ok s0 ms0"
    and q: "q < length ms0" "q \<notin> stored" and id: "bm_id (ms0 ! q) = Some j"
  shows "\<exists>i s1 s2. ls_big_map_copy ops s j = Ok (i, s1) \<and>
    big_map_bulk_update ops s1 i (bm_overlay (ms ! q)) = Ok s2 \<and>
    progress s0 ms0 (insert q stored) gone s2 (take_overlay q i ms)"
proof -
  obtain f where f: "view s0 j = Some (bm_key_type (ms0 ! q), bm_value_type (ms0 ! q), f)"
    "big_map_entries (view s0) (ms0 ! q) =
      (\<lambda>k. case map_of (bm_overlay (ms0 ! q)) k of Some change \<Rightarrow> change | None \<Rightarrow> f k)"
    using big_map_entries_stored [OF ok q(1) id] .
  have "view s j = Some (bm_key_type (ms0 ! q), bm_value_type (ms0 ! q), f)"
    using progressD(8) [OF prog q id] f(1) by simp
  from copy [OF progressD(1) [OF prog] this] obtain i s1 where s1: "ls_big_map_copy ops s j = Ok (i, s1)"
    "inv s1" "i \<notin> used s" "used s1 = insert i (used s)"
    "view s1 = (view s)(i \<mapsto> (bm_key_type (ms0 ! q), bm_value_type (ms0 ! q), f))"
    by blast
  from progress_store [OF prog ok q s1(2) _ s1(5) f(2)] s1(3,4) s1(1) show ?thesis by blast
qed

lemma progress_in_place:
  assumes prog: "progress s0 ms0 stored gone s ms" and ok: "maps_ok s0 ms0"
    and q: "q < length ms0" "q \<notin> stored" and id: "bm_id (ms0 ! q) = Some i"
    and last: "\<forall>p < length ms0. p \<notin> stored \<longrightarrow> p \<noteq> q \<longrightarrow> bm_id (ms0 ! p) \<noteq> Some i"
  shows "\<exists>s2. big_map_bulk_update ops s i (bm_overlay (ms ! q)) = Ok s2 \<and>
    progress s0 ms0 (insert q stored) gone s2 (take_overlay q i ms)"
proof -
  obtain f where f: "view s0 i = Some (bm_key_type (ms0 ! q), bm_value_type (ms0 ! q), f)"
    "big_map_entries (view s0) (ms0 ! q) =
      (\<lambda>k. case map_of (bm_overlay (ms0 ! q)) k of Some change \<Rightarrow> change | None \<Rightarrow> f k)"
    using big_map_entries_stored [OF ok q(1) id] .
  have "view s = (view s)(i \<mapsto> (bm_key_type (ms0 ! q), bm_value_type (ms0 ! q), f))"
    using progressD(8) [OF prog q id] f(1) by (auto simp: fun_eq_iff)
  from progress_store [OF prog ok q progressD(1) [OF prog] _ this f(2)] id last show ?thesis by blast
qed

lemma dump_copies_ok:
  assumes "progress s0 ms0 stored gone s ms" "maps_ok s0 ms0" "distinct others"
    and "\<forall>q \<in> set others. q < length ms0 \<and> q \<notin> stored \<and> bm_id (ms0 ! q) = Some i"
  shows "\<exists>s' ms'. dump_copies ops i others s ms = Ok (s', ms') \<and>
    progress s0 ms0 (stored \<union> set others) gone s' ms'"
  using assms
proof (induction others arbitrary: s ms stored)
  case (Cons q others)
  then obtain j s1 s2 where "ls_big_map_copy ops s i = Ok (j, s1)"
    "big_map_bulk_update ops s1 j (bm_overlay (ms ! q)) = Ok s2"
    "progress s0 ms0 (insert q stored) gone s2 (take_overlay q j ms)"
    using progress_copy [of s0 ms0 "stored" gone s ms q i] by auto
  then show ?case
    using Cons.IH [of "insert q stored" s2 "take_overlay q j ms"] Cons.prems by auto
qed simp

text \<open>Groups: every identifier with the positions of the maps that have it.\<close>

definition id_positions :: "BigMap list \<Rightarrow> nat \<Rightarrow> int option \<Rightarrow> nat set" where
  "id_positions ms n i = {q. q < n \<and> bm_id (ms ! q) = i}"

definition groups_ok :: "BigMap list \<Rightarrow> nat \<Rightarrow> (int \<times> nat \<times> nat list) list \<Rightarrow> bool" where
  "groups_ok ms n grouped \<longleftrightarrow> ascending id_cmp (map fst grouped) \<and>
     (\<forall>i. map_of grouped i = None \<longrightarrow> id_positions ms n (Some i) = {}) \<and>
     (\<forall>i main others. map_of grouped i = Some (main, others) \<longrightarrow>
        distinct (main # others) \<and> set (main # others) = id_positions ms n (Some i))"

lemma groups_okD:
  assumes "groups_ok ms n grouped"
  shows "ascending id_cmp (map fst grouped)"
    "map_of grouped i = None \<Longrightarrow> id_positions ms n (Some i) = {}"
    "map_of grouped i = Some (main, others) \<Longrightarrow>
      distinct (main # others) \<and> set (main # others) = id_positions ms n (Some i)"
  using assms by (auto simp: groups_ok_def)

lemma id_positions_Suc:
  "id_positions ms (Suc n) i = (if bm_id (ms ! n) = i then insert n (id_positions ms n i) else id_positions ms n i)"
  by (auto simp: id_positions_def less_Suc_eq)

lemma id_positions_empty: "id_positions ms (length ms) (Some i) = {} \<longleftrightarrow> unreferenced ms i"
proof
  show "id_positions ms (length ms) (Some i) = {} \<Longrightarrow> unreferenced ms i"
    by (auto simp: id_positions_def unreferenced_def in_set_conv_nth image_iff)
  show "unreferenced ms i \<Longrightarrow> id_positions ms (length ms) (Some i) = {}"
    using nth_mem by (force simp: id_positions_def unreferenced_def)
qed

lemma group_entry_ok:
  assumes "groups_ok ms n grouped" "bm_id (ms ! n) = Some i"
  shows "\<exists>grouped'. group_entry i n grouped = (Ok grouped' :: ('e, _) outcome) \<and> groups_ok ms (Suc n) grouped'"
proof -
  let ?e = "case map_of grouped i of None \<Rightarrow> (n, []) | Some (main, others) \<Rightarrow> (main, others @ [n])"
  have asc: "ascending id_cmp (map fst grouped)" using assms(1) by (simp add: groups_ok_def)
  obtain g where g: "btree_insert id_cmp i ?e grouped = (Ok (map_of grouped i, g) :: ('e, _) outcome)"
    "map_of g = (map_of grouped)(i \<mapsto> ?e)" "ascending id_cmp (map fst g)"
    using ids.insert_ok [OF asc, of i ?e] by auto
  have n: "n \<notin> id_positions ms n (Some i)" by (simp add: id_positions_def)
  have "groups_ok ms (Suc n) g"
    unfolding groups_ok_def
  proof (intro conjI allI impI g(3))
    fix j
    show "id_positions ms (Suc n) (Some j) = {}" if "map_of g j = None"
      using that assms(2) groups_okD(2) [OF assms(1), of j] by (auto simp: g(2) id_positions_Suc split: if_splits)
    fix main others assume e: "map_of g j = Some (main, others)"
    show "distinct (main # others)" "set (main # others) = id_positions ms (Suc n) (Some j)"
      using e n assms(2) groups_okD(2,3) [OF assms(1), of j]
      by (auto simp: g(2) id_positions_Suc split: if_splits option.splits)
  qed
  then show ?thesis
    using g(1) asc by (simp add: group_entry_def ids.get_map_of)
qed

lemma dump_group_ok:
  assumes "maps_ok s0 ms0" "progress s0 ms0 (id_positions ms0 p None) gone s ms"
    "groups_ok ms0 p grouped" "p \<le> length ms0"
  shows "\<exists>s' ms' grouped'. dump_group ops [p..<length ms0] s ms grouped = Ok (s', ms', grouped') \<and>
    progress s0 ms0 (id_positions ms0 (length ms0) None) gone s' ms' \<and> groups_ok ms0 (length ms0) grouped'"
  using assms
proof (induction "length ms0 - p" arbitrary: p s ms grouped)
  case (Suc k)
  then have p: "p < length ms0" "[p..<length ms0] = p # [Suc p..<length ms0]" "k = length ms0 - Suc p"
    by (auto simp: upt_conv_Cons)
  have pending: "p \<notin> id_positions ms0 p None" by (simp add: id_positions_def)
  note ms_p = progressD(7) [OF Suc.prems(2) p(1) pending]
  show ?case
  proof (cases "bm_id (ms0 ! p)")
    case None
    then obtain i s1 s2 where
      "ls_big_map_new ops s (bm_key_type (ms ! p)) (bm_value_type (ms ! p)) = Ok (i, s1)"
      "big_map_bulk_update ops s1 i (bm_overlay (ms ! p)) = Ok s2"
      "progress s0 ms0 (id_positions ms0 (Suc p) None) gone s2 (take_overlay p i ms)"
      using progress_new [OF Suc.prems(2,1) p(1) pending None] by (auto simp: id_positions_Suc)
    moreover have "id_positions ms0 (Suc p) (Some j) = id_positions ms0 p (Some j)" for j
      using None by (simp add: id_positions_Suc)
    then have "groups_ok ms0 (Suc p) grouped"
      using Suc.prems(3) by (auto simp: groups_ok_def)
    ultimately show ?thesis
      using Suc.hyps(1) [OF p(3) Suc.prems(1), of s2 "take_overlay p i ms" grouped] p(1,2) None ms_p
      by auto
  next
    case (Some i)
    then obtain grouped' where "group_entry i p grouped = (Ok grouped' :: (LazyStorageError, _) outcome)"
      "groups_ok ms0 (Suc p) grouped'"
      using group_entry_ok [OF Suc.prems(3)] by blast
    moreover have "id_positions ms0 (Suc p) None = id_positions ms0 p None"
      using Some by (simp add: id_positions_Suc)
    ultimately show ?thesis
      using Suc.hyps(1) [OF p(3) Suc.prems(1), of s ms grouped'] Suc.prems(2) p(1,2) Some ms_p
      by auto
  qed
qed simp

lemma progress_remove:
  assumes prog: "progress s0 ms0 stored gone s ms" and i: "i \<in> used s0" "unreferenced ms0 i"
  shows "\<exists>s'. ls_big_map_remove ops s i = Ok s' \<and> progress s0 ms0 stored (insert i gone) s' ms"
proof -
  note D = progressD [OF prog]
  obtain s' where s': "ls_big_map_remove ops s i = Ok s'" "inv s'" "used s' = used s"
    "view s' = (view s)(i := None)" using remove [OF D(1)] by blast
  have no_id: "q < length ms0 \<Longrightarrow> bm_id (ms0 ! q) \<noteq> Some i" for q
    using i(2) nth_mem by (force simp: unreferenced_def)
  have "dumped s0 ms0 s' ms q" if q: "q \<in> stored" for q
  proof -
    obtain j where "bm_id (ms ! q) = Some j" "j \<in> used s0 \<longrightarrow> bm_id (ms0 ! q) = Some j"
      using D(6) [OF q] by (auto simp: dumped_def)
    moreover from this have "j \<noteq> i" using no_id [of q] i(1) D(4) q by auto
    ultimately show ?thesis using D(6) [OF q] by (simp add: dumped_def s'(4))
  qed
  then have "progress s0 ms0 stored (insert i gone) s' ms"
    using D s' no_id by (auto simp: progress_def)
  then show ?thesis using s'(1) by blast
qed

lemma dump_remove_ok:
  assumes "progress s0 ms0 stored gone s ms" "groups_ok ms0 (length ms0) grouped" "set started \<subseteq> used s0"
  shows "\<exists>s'. dump_remove ops grouped started s = Ok s' \<and>
    progress s0 ms0 stored (gone \<union> {i \<in> set started. unreferenced ms0 i}) s' ms"
  using assms
proof (induction started arbitrary: s gone)
  case (Cons i started)
  have get: "btree_get id_cmp i grouped = (Ok (map_of grouped i) :: (LazyStorageError, _) outcome)"
    using Cons.prems(2) by (simp add: groups_ok_def ids.get_map_of)
  have iff: "map_of grouped i = None \<longleftrightarrow> unreferenced ms0 i"
    using groups_okD(2,3) [OF Cons.prems(2), of i]
    by (cases "map_of grouped i") (auto simp flip: id_positions_empty)
  show ?case
  proof (cases "unreferenced ms0 i")
    case True
    then obtain s1 where "ls_big_map_remove ops s i = Ok s1" "progress s0 ms0 stored (insert i gone) s1 ms"
      using progress_remove [OF Cons.prems(1)] Cons.prems(3) by auto
    moreover have "insert i gone \<union> {j \<in> set started. unreferenced ms0 j} =
      gone \<union> {j \<in> set (i # started). unreferenced ms0 j}" using True by auto
    ultimately show ?thesis
      using Cons.IH [of "insert i gone" s1] Cons.prems get iff True by auto
  next
    case False
    then have "gone \<union> {j \<in> set started. unreferenced ms0 j} =
      gone \<union> {j \<in> set (i # started). unreferenced ms0 j}" by auto
    then show ?thesis
      using Cons.IH [OF Cons.prems(1,2)] Cons.prems(3) get iff False by auto
  qed
qed simp

lemma dump_update_ok:
  assumes "progress s0 ms0 stored gone s ms" "maps_ok s0 ms0" "distinct (map fst grouped)"
    "\<forall>i main others. (i, main, others) \<in> set grouped \<longrightarrow> distinct (main # others) \<and>
       set (main # others) = id_positions ms0 (length ms0) (Some i) \<and> set (main # others) \<inter> stored = {}"
  shows "\<exists>s' ms'. dump_update ops grouped s ms = Ok (s', ms') \<and>
    progress s0 ms0 (stored \<union> (\<Union>i \<in> fst ` set grouped. id_positions ms0 (length ms0) (Some i))) gone s' ms'"
  using assms
proof (induction grouped arbitrary: s ms stored)
  case (Cons g grouped)
  obtain i main others where g: "g = (i, main, others)" by (cases g)
  let ?P = "id_positions ms0 (length ms0) (Some i)"
  have group: "distinct (main # others)" "set (main # others) = ?P" "?P \<inter> stored = {}"
    using Cons.prems(4) g by (metis list.set_intros(1))+
  have mem: "q \<in> set (main # others) \<Longrightarrow> q < length ms0 \<and> q \<notin> stored \<and> bm_id (ms0 ! q) = Some i" for q
    using group(2,3) by (auto simp: id_positions_def)
  obtain s1 ms1 where s1: "dump_copies ops i others s ms = Ok (s1, ms1)"
    "progress s0 ms0 (stored \<union> set others) gone s1 ms1"
    using dump_copies_ok [OF Cons.prems(1,2), of others i] group(1) mem by auto
  have "\<forall>p < length ms0. p \<notin> stored \<union> set others \<longrightarrow> p \<noteq> main \<longrightarrow> bm_id (ms0 ! p) \<noteq> Some i"
    using group(2) by (auto simp: id_positions_def)
  then obtain s2 where s2: "big_map_bulk_update ops s1 i (bm_overlay (ms1 ! main)) = Ok s2"
    "progress s0 ms0 (insert main (stored \<union> set others)) gone s2 (take_overlay main i ms1)"
    using progress_in_place [OF s1(2) Cons.prems(2), of main i] mem [of main] group(1) by auto
  have stored: "insert main (stored \<union> set others) = stored \<union> ?P" using group(2) by auto
  have rest: "\<forall>j main' others'. (j, main', others') \<in> set grouped \<longrightarrow> distinct (main' # others') \<and>
    set (main' # others') = id_positions ms0 (length ms0) (Some j) \<and> set (main' # others') \<inter> (stored \<union> ?P) = {}"
  proof (intro allI impI)
    fix j main' others' assume j: "(j, main', others') \<in> set grouped"
    then have "(j, main', others') \<in> set (g # grouped)" by simp
    note group' = Cons.prems(4) [rule_format, OF this]
    have "j \<noteq> i" using j Cons.prems(3) g by force
    then have "id_positions ms0 (length ms0) (Some j) \<inter> ?P = {}" by (auto simp: id_positions_def)
    with group' show "distinct (main' # others') \<and>
      set (main' # others') = id_positions ms0 (length ms0) (Some j) \<and> set (main' # others') \<inter> (stored \<union> ?P) = {}"
      by (metis Int_Un_distrib Un_empty)
  qed
  have "progress s0 ms0 (stored \<union> ?P) gone s2 (take_overlay main i ms1)" "distinct (map fst grouped)"
    using s2(2) stored Cons.prems(3) by simp_all
  from Cons.IH [OF this(1) Cons.prems(2) this(2) rest]
  have "\<exists>s' ms'. dump_update ops grouped s2 (take_overlay main i ms1) = Ok (s', ms') \<and>
    progress s0 ms0 ((stored \<union> ?P) \<union> (\<Union>i \<in> fst ` set grouped. id_positions ms0 (length ms0) (Some i))) gone s' ms'" .
  then show ?case
    using s1(1) s2(1) by (auto simp: g Un_assoc)
qed simp

theorem dump_correct:
  assumes ok: "maps_ok s ms" and started: "set started \<subseteq> used s"
  shows "\<exists>s' ms'. dump_big_map_updates ops s started ms = Ok (s', ms') \<and> length ms' = length ms \<and>
    distinct (map bm_id ms') \<and> maps_ok s' ms' \<and>
    (\<forall>q < length ms. bm_overlay (ms' ! q) = [] \<and> bm_id (ms' ! q) \<noteq> None \<and>
       big_map_entries (view s') (ms' ! q) = big_map_entries (view s) (ms ! q)) \<and>
    (\<forall>i \<in> used s. unreferenced ms i \<longrightarrow> view s' i = (if i \<in> set started then None else view s i))"
proof -
  let ?n = "length ms"
  have "progress s ms (id_positions ms 0 None) {} s ms" "groups_ok ms 0 []"
    using ok by (auto simp: progress_def id_positions_def groups_ok_def ascending_def maps_ok_def)
  from dump_group_ok [OF ok this] obtain s1 ms1 grouped where 1:
    "dump_group ops [0..<?n] s ms [] = Ok (s1, ms1, grouped)"
    "progress s ms (id_positions ms ?n None) {} s1 ms1" and groups: "groups_ok ms ?n grouped" by auto
  obtain s2 where 2: "dump_remove ops grouped started s1 = Ok s2"
    "progress s ms (id_positions ms ?n None) {i \<in> set started. unreferenced ms i} s2 ms1"
    using dump_remove_ok [OF 1(2) groups started] by auto
  have distinct: "distinct (map fst grouped)"
    using ids.ascending_distinct groups_okD(1) [OF groups] by auto
  have "\<forall>i main others. (i, main, others) \<in> set grouped \<longrightarrow> distinct (main # others) \<and>
    set (main # others) = id_positions ms ?n (Some i) \<and> set (main # others) \<inter> id_positions ms ?n None = {}"
  proof (intro allI impI)
    fix i main others assume "(i, main, others) \<in> set grouped"
    then have "map_of grouped i = Some (main, others)" using map_of_is_SomeI [OF distinct] by simp
    note group = groups_okD(3) [OF groups this]
    moreover have "id_positions ms ?n (Some i) \<inter> id_positions ms ?n None = {}" by (auto simp: id_positions_def)
    ultimately show "distinct (main # others) \<and> set (main # others) = id_positions ms ?n (Some i) \<and>
      set (main # others) \<inter> id_positions ms ?n None = {}" by metis
  qed
  from dump_update_ok [OF 2(2) ok distinct this] obtain s3 ms3 where 3:
    "dump_update ops grouped s2 ms1 = Ok (s3, ms3)"
    "progress s ms (id_positions ms ?n None \<union> (\<Union>i \<in> fst ` set grouped. id_positions ms ?n (Some i)))
       {i \<in> set started. unreferenced ms i} s3 ms3" by blast
  have "id_positions ms ?n None \<union> (\<Union>i \<in> fst ` set grouped. id_positions ms ?n (Some i)) = {..<?n}"
  proof -
    have referenced: "i \<in> fst ` set grouped" if "q < ?n" "bm_id (ms ! q) = Some i" for q i
      using groups_okD(2) [OF groups, of i] that by (auto simp: id_positions_def map_of_eq_None_iff)
    show ?thesis
    proof (rule set_eqI)
      show "q \<in> id_positions ms ?n None \<union> (\<Union>i \<in> fst ` set grouped. id_positions ms ?n (Some i)) \<longleftrightarrow>
        q \<in> {..<?n}" for q
        using referenced [of q] by (cases "bm_id (ms ! q)") (auto simp: id_positions_def)
    qed
  qed
  with 3(2) have "progress s ms {..<?n} {i \<in> set started. unreferenced ms i} s3 ms3" by simp
  note D = progressD [OF this]
  have "distinct (map bm_id ms3)"
    using D(2,5) by (auto simp: distinct_conv_nth inj_on_def)
  moreover have dumped: "bm_overlay (ms3 ! q) = [] \<and> bm_id (ms3 ! q) \<noteq> None \<and>
    big_map_entries (view s3) (ms3 ! q) = big_map_entries (view s) (ms ! q) \<and> big_map_ok (view s3) (ms3 ! q)" if q: "q < ?n" for q
  proof -
    obtain i where i: "bm_id (ms3 ! q) = Some i" "bm_overlay (ms3 ! q) = []"
      "view s3 i = Some (bm_key_type (ms3 ! q), bm_value_type (ms3 ! q), big_map_entries (view s) (ms ! q))"
      using D(6) [of q] q by (auto simp: dumped_def)
    then show ?thesis
      using big_map_entries_Some [OF i(1,3)] by (simp add: big_map_ok_def overlay_ok_def ascending_def)
  qed
  moreover have "maps_ok s3 ms3"
    using D(1,2) dumped by (auto simp: maps_ok_def in_set_conv_nth)
  moreover have "dump_big_map_updates ops s started ms = Ok (s3, ms3)"
    by (simp add: dump_big_map_updates_def 1(1) 2(1) 3(1))
  ultimately show ?thesis using D(2,10) by auto
qed

end

section \<open>The storage in memory fulfils the contract\<close>

definition info_view :: "MapInfo \<Rightarrow> stored_map" where
  "info_view info = (mi_key_type info, mi_value_type info, map_of (mi_map info))"

definition info_ok :: "MapInfo \<Rightarrow> bool" where
  "info_ok info \<longleftrightarrow> ascending partial_cmp (map fst (mi_map info)) \<and>
     fst ` set (mi_map info) \<subseteq> {k. comparable_value (mi_key_type info) k}"

definition storage_inv :: "InMemoryLazyStorage \<Rightarrow> bool" where
  "storage_inv s \<longleftrightarrow> ascending id_cmp (map fst (big_maps s)) \<and> (\<forall>i \<in> fst ` set (big_maps s). i < next_id s) \<and>
     (\<forall>info \<in> snd ` set (big_maps s). info_ok info)"

definition storage_view :: "InMemoryLazyStorage \<Rightarrow> int \<rightharpoonup> stored_map" where
  "storage_view s i = map_option info_view (map_of (big_maps s) i)"

definition storage_used :: "InMemoryLazyStorage \<Rightarrow> int set" where
  "storage_used s = {..<next_id s}"

lemma storage_access:
  "storage_inv s \<Longrightarrow> map_of (big_maps s) i = Some info \<Longrightarrow> access_big_map s i = Ok info \<and> info_ok info"
  by (force simp: access_big_map_def storage_inv_def ids.get_map_of dest: map_of_SomeD)

lemma storage_view_next_id [simp]: "storage_view (s\<lparr>next_id := n\<rparr>) = storage_view s"
  by (simp add: storage_view_def fun_eq_iff)

lemma storage_put:
  assumes "storage_inv s" "i < next_id s" "info_ok info"
  shows "\<exists>s'. put_big_map s i info = Ok s' \<and> storage_inv s' \<and> next_id s' = next_id s \<and>
    storage_view s' = (storage_view s)(i \<mapsto> info_view info)"
proof -
  obtain maps where maps: "btree_insert id_cmp i info (big_maps s) =
      (Ok (map_of (big_maps s) i, maps) :: (LazyStorageError, _) outcome)"
    "map_of maps = (map_of (big_maps s))(i \<mapsto> info)" "ascending id_cmp (map fst maps)"
    "set (map fst maps) = insert i (set (map fst (big_maps s)))" "set maps \<subseteq> insert (i, info) (set (big_maps s))"
    using ids.insert_ok [of "big_maps s" i info] assms(1) by (auto simp: storage_inv_def)
  have "storage_inv (s\<lparr>big_maps := maps\<rparr>)"
    using assms maps(3,4,5) by (auto simp: storage_inv_def)
  moreover have "storage_view (s\<lparr>big_maps := maps\<rparr>) = (storage_view s)(i \<mapsto> info_view info)"
    by (auto simp: storage_view_def maps(2) fun_eq_iff)
  ultimately show ?thesis using maps(1) by (simp add: put_big_map_def)
qed

lemma info_update:
  assumes "info_ok info" "comparable_value (mi_key_type info) k"
  shows "\<exists>m. (case v of
      None \<Rightarrow> map_outcome snd (btree_remove partial_cmp k (mi_map info))
    | Some w \<Rightarrow> map_outcome snd (btree_insert partial_cmp k w (mi_map info))) = (Ok m :: ('e, _) outcome) \<and>
    info_ok (info\<lparr>mi_map := m\<rparr>) \<and> map_of m = (map_of (mi_map info))(k := v)"
proof (cases v)
  case None
  obtain m where "btree_remove partial_cmp k (mi_map info) = (Ok (map_of (mi_map info) k, m) :: ('e, _) outcome)"
    "map_of m = (map_of (mi_map info))(k := None)" "ascending partial_cmp (map fst m)"
    "set (map fst m) = set (map fst (mi_map info)) - {k}"
    using comparable.remove_ok [of "mi_map info" k "mi_key_type info"] assms by (auto simp: info_ok_def)
  with None assms show ?thesis by (auto simp: info_ok_def)
next
  case (Some w)
  obtain m where "btree_insert partial_cmp k w (mi_map info) = (Ok (map_of (mi_map info) k, m) :: ('e, _) outcome)"
    "map_of m = (map_of (mi_map info))(k \<mapsto> w)" "ascending partial_cmp (map fst m)"
    "set (map fst m) = insert k (set (map fst (mi_map info)))"
    using comparable.insert_ok [of "mi_map info" k "mi_key_type info" w] assms by (auto simp: info_ok_def)
  with Some assms show ?thesis by (auto simp: info_ok_def)
qed

interpretation in_memory: lazy_storage in_memory storage_inv storage_view storage_used
proof
  fix s :: InMemoryLazyStorage and i kt vt f k v info j
  assume inv: "storage_inv s"
  have asc: "ascending id_cmp (map fst (big_maps s))" using inv by (simp add: storage_inv_def)
  have next_id: "storage_inv (s\<lparr>next_id := next_id s + 1\<rparr>)" using inv by (auto simp: storage_inv_def)
  show "dom (storage_view s) \<subseteq> storage_used s"
    using inv by (force simp: storage_view_def storage_used_def storage_inv_def dest: map_of_SomeD)
  show "ls_big_map_get_type in_memory s i = Ok (map_option (\<lambda>(kt, vt, f). (kt, vt)) (storage_view s i))"
    using asc by (simp add: in_memory_def mem_big_map_get_type_def ids.get_map_of storage_view_def
        option.map_comp comp_def info_view_def)
  show "\<exists>i s'. ls_big_map_new in_memory s kt vt = Ok (i, s') \<and> storage_inv s' \<and> i \<notin> storage_used s \<and>
      storage_used s' = insert i (storage_used s) \<and> storage_view s' = (storage_view s)(i \<mapsto> (kt, vt, Map.empty))"
    using storage_put [OF next_id, of "next_id s" "\<lparr>mi_map = [], mi_key_type = kt, mi_value_type = vt\<rparr>"]
    by (auto simp: in_memory_def mem_big_map_new_def get_next_id_def info_ok_def ascending_def storage_used_def
        info_view_def)
  show "\<exists>s'. ls_big_map_remove in_memory s i = Ok s' \<and> storage_inv s' \<and> storage_used s' = storage_used s \<and>
      storage_view s' = (storage_view s)(i := None)"
  proof -
    obtain maps where "btree_remove id_cmp i (big_maps s) =
        (Ok (map_of (big_maps s) i, maps) :: (LazyStorageError, _) outcome)"
      "map_of maps = (map_of (big_maps s))(i := None)" "ascending id_cmp (map fst maps)"
      "set (map fst maps) = set (map fst (big_maps s)) - {i}" "set maps \<subseteq> set (big_maps s)"
      using ids.remove_ok [OF asc, of i] by auto
    with inv show ?thesis
      by (auto simp: in_memory_def mem_big_map_remove_def storage_inv_def storage_used_def storage_view_def fun_eq_iff)
  qed
  show "\<exists>i s'. ls_big_map_copy in_memory s j = Ok (i, s') \<and> storage_inv s' \<and> i \<notin> storage_used s \<and>
      storage_used s' = insert i (storage_used s) \<and> storage_view s' = (storage_view s)(i \<mapsto> info)"
    if copied: "storage_view s j = Some info"
  proof -
    obtain mi where "map_of (big_maps s) j = Some mi" "info_view mi = info"
      using copied by (auto simp: storage_view_def)
    then show ?thesis
      using storage_put [OF next_id, of "next_id s" mi] storage_access [OF next_id, of j mi]
      by (auto simp: in_memory_def mem_big_map_copy_def get_next_id_def storage_used_def)
  qed
  assume view: "storage_view s i = Some (kt, vt, f)" and k: "comparable_value kt k"
  then obtain mi where mi: "map_of (big_maps s) i = Some mi" "mi_key_type mi = kt" "mi_value_type mi = vt"
    "map_of (mi_map mi) = f" by (auto simp: storage_view_def info_view_def)
  note acc = storage_access [OF inv mi(1)]
  have get: "btree_get partial_cmp k (mi_map mi) = (Ok (f k) :: (LazyStorageError, _) outcome)"
    using acc k mi comparable.get_map_of [of "mi_map mi" k kt] by (auto simp: info_ok_def)
  show "ls_big_map_get in_memory s i k = Ok (f k)"
    using acc get by (simp add: in_memory_def mem_big_map_get_def)
  show "ls_big_map_mem in_memory s i k = Ok (f k \<noteq> None)"
    using acc get by (simp add: in_memory_def mem_big_map_mem_def)
  obtain m where m: "(case v of
      None \<Rightarrow> map_outcome snd (btree_remove partial_cmp k (mi_map mi))
    | Some w \<Rightarrow> map_outcome snd (btree_insert partial_cmp k w (mi_map mi))) = (Ok m :: (LazyStorageError, _) outcome)"
    "info_ok (mi\<lparr>mi_map := m\<rparr>)" "map_of m = f(k := v)"
    using info_update [of mi k v] acc k mi by auto
  have "i < next_id s" using inv mi(1) by (force simp: storage_inv_def dest: map_of_SomeD)
  then show "\<exists>s'. ls_big_map_update in_memory s i k v = Ok s' \<and> storage_inv s' \<and> storage_used s' = storage_used s \<and>
      storage_view s' = (storage_view s)(i \<mapsto> (kt, vt, f(k := v)))"
    using storage_put [OF inv _ m(2), of i] acc m mi
    by (auto simp: in_memory_def mem_big_map_update_def storage_used_def info_view_def)
qed

section \<open>Properties\<close>

text \<open>
  C38: Big maps behave as maps, whatever part of them is stored: reading a key gives the entry of the
  overlay or else of the stored map, membership agrees with reading, and an update changes the entry of
  its key only, without touching the storage.
\<close>

theorem big_map_operations:
  assumes "storage_inv s" "big_map_ok (storage_view s) m" "comparable_value (bm_key_type m) k"
  shows "big_map_get in_memory s m k = Ok (big_map_entries (storage_view s) m k) \<and>
    big_map_mem in_memory s m k = Ok (big_map_entries (storage_view s) m k \<noteq> None) \<and>
    (\<exists>m'. big_map_update m k v = (Ok m' :: (LazyStorageError, _) outcome) \<and> big_map_ok (storage_view s) m' \<and>
       big_map_entries (storage_view s) m' = (big_map_entries (storage_view s) m)(k := v))"
  using in_memory.big_map_get_entries [OF assms] in_memory.big_map_mem_entries [OF assms]
    in_memory.big_map_update_entries [OF assms(2,3), of v]
  by blast

definition example_storage :: InMemoryLazyStorage where
  "example_storage =
     \<lparr>next_id = 3,
      big_maps = [(0, \<lparr>mi_map = [(V_Int 1, V_Nat 10), (V_Int 2, V_Nat 20)], mi_key_type = T_Int, mi_value_type = T_Nat\<rparr>),
                  (2, \<lparr>mi_map = [], mi_key_type = T_Int, mi_value_type = T_Nat\<rparr>)]\<rparr>"

definition example_big_map :: BigMap where
  "example_big_map =
     \<lparr>bm_id = Some 0, bm_overlay = [(V_Int 2, None), (V_Int 5, Some (V_Nat 50))], bm_key_type = T_Int,
      bm_value_type = T_Nat\<rparr>"

lemma example_big_map_ok: "storage_inv example_storage" "big_map_ok (storage_view example_storage) example_big_map"
  by (simp_all add: example_storage_def example_big_map_def storage_inv_def info_ok_def ascending_def id_cmp_def
      big_map_ok_def overlay_ok_def storage_view_def info_view_def cmp_def)

theorem big_map_operations_witness:
  "big_map_get in_memory example_storage example_big_map (V_Int 1) = Ok (Some (V_Nat 10)) \<and>
   big_map_mem in_memory example_storage example_big_map (V_Int 2) = Ok False"
  using big_map_operations [OF example_big_map_ok, of "V_Int 1"] big_map_operations [OF example_big_map_ok, of "V_Int 2"]
  by (simp add: example_big_map_def big_map_entries_def storage_view_def example_storage_def info_view_def)

text \<open>
  C37: Dumping the big maps at the end of an execution succeeds and loses nothing.  Afterwards no
  overlay is left, every map has an identifier of its own in the storage, and its entries are the ones
  it had before; maps that started the execution and are no longer referred to are removed, and no other
  stored map has changed.
\<close>

theorem dump_big_map_updates_correct:
  assumes "storage_inv s" "\<forall>m \<in> set ms. big_map_ok (storage_view s) m" "\<forall>i \<in> set started. i < next_id s"
  shows "\<exists>s' ms'. dump_big_map_updates in_memory s started ms = Ok (s', ms') \<and> storage_inv s' \<and>
    length ms' = length ms \<and> distinct (map bm_id ms') \<and> (\<forall>m \<in> set ms'. big_map_ok (storage_view s') m) \<and>
    (\<forall>q < length ms. bm_overlay (ms' ! q) = [] \<and> bm_id (ms' ! q) \<noteq> None \<and>
       big_map_entries (storage_view s') (ms' ! q) = big_map_entries (storage_view s) (ms ! q)) \<and>
    (\<forall>i < next_id s. unreferenced ms i \<longrightarrow>
       storage_view s' i = (if i \<in> set started then None else storage_view s i))"
proof -
  have "in_memory.maps_ok s ms" "set started \<subseteq> storage_used s"
    using assms by (auto simp: in_memory.maps_ok_def storage_used_def)
  from in_memory.dump_correct [OF this] show ?thesis
    unfolding in_memory.maps_ok_def storage_used_def by (elim exE conjE) (intro exI conjI; simp add: Ball_def)
qed

theorem dump_big_map_updates_correct_witness:
  "\<exists>s' ms'. dump_big_map_updates in_memory example_storage [0, 2] [example_big_map, example_big_map] = Ok (s', ms') \<and>
     distinct (map bm_id ms') \<and> storage_view s' 2 = None \<and>
     big_map_entries (storage_view s') (ms' ! 1) (V_Int 5) = Some (V_Nat 50)"
proof -
  have "\<forall>m \<in> set [example_big_map, example_big_map]. big_map_ok (storage_view example_storage) m"
    "\<forall>i \<in> set [0, 2]. i < next_id example_storage" "unreferenced [example_big_map, example_big_map] 2"
    using example_big_map_ok by (simp_all add: example_storage_def unreferenced_def example_big_map_def)
  with dump_big_map_updates_correct [OF example_big_map_ok(1) this(1,2)] obtain s' ms' where
    "dump_big_map_updates in_memory example_storage [0, 2] [example_big_map, example_big_map] = Ok (s', ms')"
    "distinct (map bm_id ms')" "storage_view s' 2 = None"
    "big_map_entries (storage_view s') (ms' ! 1) = big_map_entries (storage_view example_storage) example_big_map"
    by (auto simp: example_storage_def)
  moreover have "big_map_entries (storage_view example_storage) example_big_map (V_Int 5) = Some (V_Nat 50)"
    by (simp add: example_big_map_def big_map_entries_def)
  ultimately show ?thesis by auto
qed

end
