(* ===== verification/MIR_Stack.thy ===== *)
theory MIR_Stack
  imports MIR_Ast
begin

text \<open>
  Stacks (\<open>src/contrib/mir/src/stack.rs\<close>).  The source keeps a stack in a vector whose last element is
  the top.  The operations on the vector are translated first; the interpreter and the type checker then
  use the same operations on lists whose head is the top, and the vector operations refine them.
\<close>

section \<open>Stacks as vectors\<close>

text \<open>
  An operation is \<open>Panic StackBounds\<close> where the source panics.  Operations that change the stack return
  the new vector.
\<close>

type_synonym 'a vec_stack = "'a list"

type_synonym 'a may_panic = "(unit, 'a) outcome"

definition checked_sub_or_panic :: "nat \<Rightarrow> nat \<Rightarrow> nat may_panic" where
  "checked_sub_or_panic a b = (if b \<le> a then Ok (a - b) else Panic StackBounds)"

definition vec_index :: "'a vec_stack \<Rightarrow> nat \<Rightarrow> nat may_panic" where
  "vec_index v i = checked_sub_or_panic (length v) (i + 1)"

definition vec_push :: "'a \<Rightarrow> 'a vec_stack \<Rightarrow> 'a vec_stack" where
  "vec_push x v = v @ [x]"

definition vec_pop :: "'a vec_stack \<Rightarrow> ('a \<times> 'a vec_stack) option" where
  "vec_pop v = (if v = [] then None else Some (last v, butlast v))"

definition vec_remove :: "nat \<Rightarrow> 'a vec_stack \<Rightarrow> ('a \<times> 'a vec_stack) may_panic" where
  "vec_remove i v = bind_outcome (vec_index v i) (\<lambda>j. Ok (v ! j, take j v @ drop (Suc j) v))"

text \<open>\<open>Vec::insert\<close> puts the element before the given position.\<close>

definition vec_insert :: "nat \<Rightarrow> 'a \<Rightarrow> 'a vec_stack \<Rightarrow> 'a vec_stack may_panic" where
  "vec_insert i e v =
     (if i > 0 then bind_outcome (vec_index v (i - 1)) (\<lambda>j. Ok (take j v @ [e] @ drop j v))
      else Ok (vec_push e v))"

definition vec_drop_top :: "nat \<Rightarrow> 'a vec_stack \<Rightarrow> 'a vec_stack may_panic" where
  "vec_drop_top sz v = bind_outcome (checked_sub_or_panic (length v) sz) (\<lambda>n. Ok (take n v))"

text \<open>The drained elements, from the top, and the rest.\<close>

definition vec_drain_top :: "nat \<Rightarrow> 'a vec_stack \<Rightarrow> ('a list \<times> 'a vec_stack) may_panic" where
  "vec_drain_top sz v =
     bind_outcome (checked_sub_or_panic (length v) sz) (\<lambda>n. Ok (rev (drop n v), take n v))"

text \<open>The stack split off, and the rest.\<close>

definition vec_split_off :: "nat \<Rightarrow> 'a vec_stack \<Rightarrow> ('a vec_stack \<times> 'a vec_stack) may_panic" where
  "vec_split_off sz v =
     bind_outcome (checked_sub_or_panic (length v) sz) (\<lambda>n. Ok (drop n v, take n v))"

definition vec_append :: "'a vec_stack \<Rightarrow> 'a vec_stack \<Rightarrow> 'a vec_stack" where
  "vec_append v other = v @ other"

definition vec_swap :: "nat \<Rightarrow> nat \<Rightarrow> 'a vec_stack \<Rightarrow> 'a vec_stack may_panic" where
  "vec_swap i1 i2 v =
     bind_outcome (vec_index v i1) (\<lambda>i1v.
     bind_outcome (vec_index v i2) (\<lambda>i2v. Ok (v[i1v := v ! i2v, i2v := v ! i1v])))"

definition vec_at :: "'a vec_stack \<Rightarrow> nat \<Rightarrow> 'a may_panic" where
  "vec_at v i = bind_outcome (vec_index v i) (\<lambda>j. Ok (v ! j))"

definition vec_iter :: "'a vec_stack \<Rightarrow> 'a list" where
  "vec_iter v = rev v"

definition top_is_first :: "'a list \<Rightarrow> 'a vec_stack" where
  "top_is_first data = rev data"

definition top_is_last :: "'a list \<Rightarrow> 'a vec_stack" where
  "top_is_last data = data"

section \<open>Stacks as lists\<close>

definition stk_remove :: "nat \<Rightarrow> 'a list \<Rightarrow> ('e, ('a \<times> 'a list)) outcome" where
  "stk_remove i s = (if i < length s then Ok (s ! i, take i s @ drop (Suc i) s) else Panic StackBounds)"

definition stk_insert :: "nat \<Rightarrow> 'a \<Rightarrow> 'a list \<Rightarrow> ('e, 'a list) outcome" where
  "stk_insert i e s = (if i \<le> length s then Ok (take i s @ e # drop i s) else Panic StackBounds)"

definition stk_split :: "nat \<Rightarrow> 'a list \<Rightarrow> ('e, ('a list \<times> 'a list)) outcome" where
  "stk_split n s = (if n \<le> length s then Ok (take n s, drop n s) else Panic StackBounds)"

definition stk_at :: "'a list \<Rightarrow> nat \<Rightarrow> ('e, 'a) outcome" where
  "stk_at s i = (if i < length s then Ok (s ! i) else Panic StackBounds)"

definition stk_swap :: "nat \<Rightarrow> nat \<Rightarrow> 'a list \<Rightarrow> ('e, 'a list) outcome" where
  "stk_swap i j s = (if i < length s \<and> j < length s then Ok (s[i := s ! j, j := s ! i]) else Panic StackBounds)"

section \<open>Refinement\<close>

lemma vec_index_simp: "vec_index v i = (if i < length v then Ok (length v - Suc i) else Panic StackBounds)"
  by (simp add: vec_index_def checked_sub_or_panic_def)

lemma nth_rev_index: "i < length v \<Longrightarrow> v ! (length v - Suc i) = rev v ! i"
  by (simp add: rev_nth)

lemma rev_list_update: "i < length v \<Longrightarrow> rev (v[i := x]) = (rev v)[length v - Suc i := x]"
  by (simp add: rev_update)

text \<open>
  C39: The stack operations on vectors, whose last element is the top, implement the operations on
  lists whose first element is the top: reversing the vector commutes with every operation, and the
  vector operations panic in exactly the cases in which the list operations do.
\<close>

theorem stack_refinement:
  "(vec_iter (vec_push x v) = x # vec_iter v) \<and>
   (map_option (apsnd vec_iter) (vec_pop v) = (case vec_iter v of [] \<Rightarrow> None | y # s \<Rightarrow> Some (y, s))) \<and>
   (map_outcome (apsnd vec_iter) (vec_remove i v) = stk_remove i (vec_iter v)) \<and>
   (map_outcome vec_iter (vec_insert i x v) = stk_insert i x (vec_iter v)) \<and>
   (map_outcome (apsnd vec_iter) (vec_drain_top n v) = stk_split n (vec_iter v)) \<and>
   (map_outcome vec_iter (vec_drop_top n v) = map_outcome snd (stk_split n (vec_iter v))) \<and>
   (map_outcome (map_prod vec_iter vec_iter) (vec_split_off n v) = stk_split n (vec_iter v)) \<and>
   (vec_iter (vec_append v w) = vec_iter w @ vec_iter v) \<and>
   (map_outcome vec_iter (vec_swap i j v) = stk_swap i j (vec_iter v)) \<and>
   (vec_at v i = stk_at (vec_iter v) i) \<and>
   (vec_iter (top_is_first data) = data)"
proof (intro conjI)
  show "map_option (apsnd vec_iter) (vec_pop v) = (case vec_iter v of [] \<Rightarrow> None | y # s \<Rightarrow> Some (y, s))"
    by (cases v rule: rev_cases) (simp_all add: vec_pop_def vec_iter_def)
  show "map_outcome (apsnd vec_iter) (vec_remove i v) = stk_remove i (vec_iter v)"
    by (auto simp: vec_remove_def vec_index_simp stk_remove_def vec_iter_def nth_rev_index rev_take rev_drop Suc_diff_Suc)
  show "map_outcome vec_iter (vec_insert i x v) = stk_insert i x (vec_iter v)"
    by (cases i) (auto simp: vec_insert_def vec_index_simp stk_insert_def vec_iter_def vec_push_def rev_take rev_drop
        not_less_eq_eq)
  show "map_outcome vec_iter (vec_swap i j v) = stk_swap i j (vec_iter v)"
    by (auto simp: vec_swap_def vec_index_simp stk_swap_def vec_iter_def rev_list_update nth_rev_index)
qed (auto simp: vec_push_def vec_iter_def vec_drain_top_def vec_drop_top_def vec_split_off_def vec_append_def
    vec_at_def vec_index_simp stk_split_def stk_at_def checked_sub_or_panic_def top_is_first_def nth_rev_index
    rev_take rev_drop)

end
