(* ===== verification/MIR_Gas.thy ===== *)
theory MIR_Gas
  imports MIR_Order MIR_Stack
begin

text \<open>
  Gas accounting and costs (\<open>src/contrib/mir/src/gas.rs\<close>).  Gas never grows, a charge that cannot be
  paid exhausts it, and a charge after that panics.
\<close>

section \<open>Gas\<close>

text \<open>The remaining milligas, or \<open>None\<close> when it is exhausted.\<close>

type_synonym Gas = "nat option"

datatype OutOfGas = OutOfGas

type_synonym cost = "(OutOfGas, nat) outcome"

definition DEFAULT_GAS_AMOUNT :: nat where
  "DEFAULT_GAS_AMOUNT = 1040000"

definition gas_default :: Gas where
  "gas_default = Some (DEFAULT_GAS_AMOUNT * 1000)"

definition gas_consume :: "nat \<Rightarrow> Gas \<Rightarrow> (OutOfGas, unit) outcome \<times> Gas" where
  "gas_consume cost gas =
     (case gas of
        None \<Rightarrow> (Panic GasExhausted, gas)
      | Some milligas \<Rightarrow>
          if cost \<le> milligas then (Ok (), Some (milligas - cost)) else (Err OutOfGas, None))"

section \<open>Checked arithmetic\<close>

text \<open>
  \<open>Checked<T>\<close> of the crate \<open>checked\<close> lifts the checked operations of an integer type of \<open>w\<close> bits to
  optional numbers.
\<close>

type_synonym checked = "nat option"

definition ck_fit :: "nat \<Rightarrow> nat \<Rightarrow> checked" where
  "ck_fit w n = (if n < 2 ^ w then Some n else None)"

definition ck_add :: "nat \<Rightarrow> checked \<Rightarrow> checked \<Rightarrow> checked" where
  "ck_add w a b = Option.bind a (\<lambda>m. Option.bind b (\<lambda>n. ck_fit w (m + n)))"

definition ck_mul :: "nat \<Rightarrow> checked \<Rightarrow> checked \<Rightarrow> checked" where
  "ck_mul w a b = Option.bind a (\<lambda>m. Option.bind b (\<lambda>n. ck_fit w (m * n)))"

definition ck_sub :: "checked \<Rightarrow> checked \<Rightarrow> checked" where
  "ck_sub a b = Option.bind a (\<lambda>m. Option.bind b (\<lambda>n. if n \<le> m then Some (m - n) else None))"

definition ck_shr :: "checked \<Rightarrow> nat \<Rightarrow> checked" where
  "ck_shr a k = map_option (\<lambda>m. m div 2 ^ k) a"

definition as_gas_cost :: "checked \<Rightarrow> cost" where
  "as_gas_cost c = (case c of None \<Rightarrow> Err OutOfGas | Some n \<Rightarrow> if n < 2 ^ 32 then Ok n else Err OutOfGas)"

text \<open>\<open>log2i\<close> rounds up; it panics on zero, and its callers add one to a size.\<close>

fun log2_up :: "nat \<Rightarrow> nat" where
  "log2_up n = (if n \<le> 1 then 0 else Suc (log2_up ((n + 1) div 2)))"

declare log2_up.simps [simp del]

definition log2i :: "nat \<Rightarrow> cost" where
  "log2i n = (if n = 0 then Panic Unreachable else Ok (log2_up n))"

text \<open>\<open>bits\<close> of a big number and its size in bytes.\<close>

fun bit_length :: "nat \<Rightarrow> nat" where
  "bit_length n = (if n = 0 then 0 else Suc (bit_length (n div 2)))"

declare bit_length.simps [simp del]

definition bits_to_bytes :: "nat \<Rightarrow> nat" where
  "bits_to_bytes bits = (bits + 7) div 8"

definition nat_byte_size :: "nat \<Rightarrow> nat" where
  "nat_byte_size n = bits_to_bytes (bit_length n)"

definition int_byte_size :: "int \<Rightarrow> nat" where
  "int_byte_size i = nat_byte_size (nat \<bar>i\<bar>)"

section \<open>Costs of type checking\<close>

definition tc_INSTR_STEP :: nat where [simp]: "tc_INSTR_STEP = 220 * 2"
definition tc_VALUE_STEP :: nat where [simp]: "tc_VALUE_STEP = 100"
definition tc_PARSE_TYPE_STEP :: nat where [simp]: "tc_PARSE_TYPE_STEP = 60"
definition tc_TYPE_PROP_STEP :: nat where [simp]: "tc_TYPE_PROP_STEP = 60"
definition tc_KEY_HASH_READABLE :: nat where [simp]: "tc_KEY_HASH_READABLE = 3200"
definition tc_KEY_HASH_OPTIMIZED :: nat where [simp]: "tc_KEY_HASH_OPTIMIZED = 80"
definition tc_BLS_FR :: nat where [simp]: "tc_BLS_FR = 120"
definition tc_BLS_G1 :: nat where [simp]: "tc_BLS_G1 = 54600"
definition tc_BLS_G2 :: nat where [simp]: "tc_BLS_G2 = 69000"
definition tc_KEY_READABLE :: nat where [simp]: "tc_KEY_READABLE = 3600"
definition tc_KEY_OPTIMIZED :: nat where [simp]: "tc_KEY_OPTIMIZED = 60"
definition tc_CHAIN_ID_READABLE :: nat where [simp]: "tc_CHAIN_ID_READABLE = 1600"
definition tc_CHAIN_ID_OPTIMIZED :: nat where [simp]: "tc_CHAIN_ID_OPTIMIZED = 50"

text \<open>\<open>integer_sqrt\<close> of the crate \<open>integer-sqrt\<close> is the square root, rounded down.\<close>

fun isqrt_from :: "nat \<Rightarrow> nat \<Rightarrow> nat" where
  "isqrt_from 0 l = 0"
| "isqrt_from (Suc k) l = (if Suc k * Suc k \<le> l then Suc k else isqrt_from k l)"

definition integer_sqrt :: "nat \<Rightarrow> nat" where
  "integer_sqrt l = isqrt_from l l"

definition tc_timestamp_decoding :: "nat \<Rightarrow> cost" where
  "tc_timestamp_decoding l =
     (let v0 = ck_mul 64 (Some (integer_sqrt l)) (Some l) in
      as_gas_cost (ck_add 64 (Some 105) (ck_add 64 (ck_shr v0 5) (ck_shr v0 6))))"

definition tc_variadic :: "nat \<Rightarrow> cost" where
  "tc_variadic depth = as_gas_cost (ck_mul 32 (Some depth) (Some 50))"

text \<open>\<open>dig_n\<close>, \<open>dug_n\<close>, \<open>pair_n\<close>, \<open>unpair_n\<close>, \<open>get_n\<close> and \<open>update_n\<close> have the same body.\<close>

definition tc_proof_argument :: "nat \<Rightarrow> cost" where
  "tc_proof_argument depth = as_gas_cost (ck_mul 64 (Some depth) (Some 50))"

definition tc_drop_n :: "nat option \<Rightarrow> cost" where
  "tc_drop_n depth = (case depth of None \<Rightarrow> Ok 0 | Some n \<Rightarrow> tc_variadic n)"

definition tc_dip_n :: "nat option \<Rightarrow> cost" where
  "tc_dip_n depth = (case depth of None \<Rightarrow> Ok 0 | Some n \<Rightarrow> tc_variadic n)"

definition tc_ty_eq :: "nat \<Rightarrow> nat \<Rightarrow> cost" where
  "tc_ty_eq sz1 sz2 = as_gas_cost (ck_mul 64 (Some (min sz1 sz2)) (Some 60))"

definition tc_construct :: "nat \<Rightarrow> nat \<Rightarrow> nat \<Rightarrow> cost" where
  "tc_construct coefficient key_size sz =
     bind_outcome (ok_or (ck_add 64 (Some sz) (Some 1)) OutOfGas) (\<lambda>n1.
     bind_outcome (log2i n1) (\<lambda>log2n.
       as_gas_cost (ck_add 64 (ck_mul 64 (Some coefficient) (Some sz))
         (ck_mul 64 (ck_mul 64 (Some key_size) (Some sz)) (Some log2n)))))"

definition tc_construct_map :: "nat \<Rightarrow> nat \<Rightarrow> cost" where
  "tc_construct_map key_size sz = tc_construct 80 key_size sz"

definition tc_construct_set :: "nat \<Rightarrow> nat \<Rightarrow> cost" where
  "tc_construct_set val_size sz = tc_construct 130 val_size sz"

section \<open>Costs of interpretation\<close>

definition cost_DIP :: nat where [simp]: "cost_DIP = 10"
definition cost_DROP :: nat where [simp]: "cost_DROP = 10"
definition cost_DUP :: nat where [simp]: "cost_DUP = 10"
definition cost_GT :: nat where [simp]: "cost_GT = 10"
definition cost_GE :: nat where [simp]: "cost_GE = 10"
definition cost_EQ :: nat where [simp]: "cost_EQ = 10"
definition cost_NEQ :: nat where [simp]: "cost_NEQ = 10"
definition cost_LE :: nat where [simp]: "cost_LE = 10"
definition cost_LT :: nat where [simp]: "cost_LT = 10"
definition cost_IF :: nat where [simp]: "cost_IF = 10"
definition cost_IF_NONE :: nat where [simp]: "cost_IF_NONE = 10"
definition cost_IF_CONS :: nat where [simp]: "cost_IF_CONS = 10"
definition cost_IF_LEFT :: nat where [simp]: "cost_IF_LEFT = 10"
definition cost_LOOP :: nat where [simp]: "cost_LOOP = 10"
definition cost_ITER :: nat where [simp]: "cost_ITER = 20"
definition cost_SWAP :: nat where [simp]: "cost_SWAP = 10"
definition cost_ABS :: nat where [simp]: "cost_ABS = 10"
definition cost_INT_NAT :: nat where [simp]: "cost_INT_NAT = 10"
definition cost_ISNAT :: nat where [simp]: "cost_ISNAT = 10"
definition cost_INT_BLS_FR :: nat where [simp]: "cost_INT_BLS_FR = 115"
definition cost_PUSH :: nat where [simp]: "cost_PUSH = 10"
definition cost_ADD_TEZ :: nat where [simp]: "cost_ADD_TEZ = 20"
definition cost_ADD_BLS_FR :: nat where [simp]: "cost_ADD_BLS_FR = 30"
definition cost_ADD_BLS_G1 :: nat where [simp]: "cost_ADD_BLS_G1 = 900"
definition cost_ADD_BLS_G2 :: nat where [simp]: "cost_ADD_BLS_G2 = 2470"
definition cost_MUL_BLS_G1 :: nat where [simp]: "cost_MUL_BLS_G1 = 103000"
definition cost_MUL_BLS_G2 :: nat where [simp]: "cost_MUL_BLS_G2 = 220000"
definition cost_MUL_BLS_FR :: nat where [simp]: "cost_MUL_BLS_FR = 45"
definition cost_MUL_TEZ_NAT :: nat where [simp]: "cost_MUL_TEZ_NAT = 50"
definition cost_MUL_NAT_TEZ :: nat where [simp]: "cost_MUL_NAT_TEZ = cost_MUL_TEZ_NAT"
definition cost_EDIV_TEZ_TEZ :: nat where [simp]: "cost_EDIV_TEZ_TEZ = 80"
definition cost_EDIV_TEZ_NAT :: nat where [simp]: "cost_EDIV_TEZ_NAT = 70"
definition cost_NEG_FR :: nat where [simp]: "cost_NEG_FR = 30"
definition cost_NEG_G1 :: nat where [simp]: "cost_NEG_G1 = 50"
definition cost_NEG_G2 :: nat where [simp]: "cost_NEG_G2 = 70"
definition cost_SUB_MUMAV :: nat where [simp]: "cost_SUB_MUMAV = 15"
definition cost_UNIT :: nat where [simp]: "cost_UNIT = 10"
definition cost_AND_BOOL :: nat where [simp]: "cost_AND_BOOL = 10"
definition cost_OR_BOOL :: nat where [simp]: "cost_OR_BOOL = 10"
definition cost_XOR_BOOL :: nat where [simp]: "cost_XOR_BOOL = 15"
definition cost_NOT_BOOL :: nat where [simp]: "cost_NOT_BOOL = 10"
definition cost_CAR :: nat where [simp]: "cost_CAR = 10"
definition cost_CDR :: nat where [simp]: "cost_CDR = 10"
definition cost_PAIR :: nat where [simp]: "cost_PAIR = 10"
definition cost_UNPAIR :: nat where [simp]: "cost_UNPAIR = 10"
definition cost_SOME :: nat where [simp]: "cost_SOME = 10"
definition cost_NONE :: nat where [simp]: "cost_NONE = 10"
definition cost_AMOUNT :: nat where [simp]: "cost_AMOUNT = 10"
definition cost_NIL :: nat where [simp]: "cost_NIL = 10"
definition cost_CONS :: nat where [simp]: "cost_CONS = 15"
definition cost_EMPTY_SET :: nat where [simp]: "cost_EMPTY_SET = 300"
definition cost_SIZE_STRING :: nat where [simp]: "cost_SIZE_STRING = 15"
definition cost_SIZE_BYTES :: nat where [simp]: "cost_SIZE_BYTES = 10"
definition cost_SIZE_LIST :: nat where [simp]: "cost_SIZE_LIST = 10"
definition cost_SIZE_SET :: nat where [simp]: "cost_SIZE_SET = 10"
definition cost_SIZE_MAP :: nat where [simp]: "cost_SIZE_MAP = 10"
definition cost_EMPTY_BIG_MAP :: nat where [simp]: "cost_EMPTY_BIG_MAP = 300"
definition cost_CHAIN_ID :: nat where [simp]: "cost_CHAIN_ID = 15"
definition cost_PACK :: nat where [simp]: "cost_PACK = 0"
definition cost_SELF :: nat where [simp]: "cost_SELF = 10"
definition cost_ADDRESS :: nat where [simp]: "cost_ADDRESS = 10"
definition cost_LEFT :: nat where [simp]: "cost_LEFT = 10"
definition cost_RIGHT :: nat where [simp]: "cost_RIGHT = 10"
definition cost_MAP_OPTION :: nat where [simp]: "cost_MAP_OPTION = 10"
definition cost_MAP_LIST :: nat where [simp]: "cost_MAP_LIST = 10"
definition cost_MAP_MAP :: nat where [simp]: "cost_MAP_MAP = 20"
definition cost_TRANSFER_TOKENS :: nat where [simp]: "cost_TRANSFER_TOKENS = 60"
definition cost_SET_DELEGATE :: nat where [simp]: "cost_SET_DELEGATE = 60"
definition cost_LAMBDA :: nat where [simp]: "cost_LAMBDA = 10"
definition cost_EXEC :: nat where [simp]: "cost_EXEC = 10"
definition cost_HASH_KEY :: nat where [simp]: "cost_HASH_KEY = 605"
definition cost_APPLY :: nat where [simp]: "cost_APPLY = 140"
definition cost_TICKET :: nat where [simp]: "cost_TICKET = 10"
definition cost_READ_TICKET :: nat where [simp]: "cost_READ_TICKET = 10"
definition cost_BALANCE :: nat where [simp]: "cost_BALANCE = 10"
definition cost_CONTRACT :: nat where [simp]: "cost_CONTRACT = 30"
definition cost_LEVEL :: nat where [simp]: "cost_LEVEL = 10"
definition cost_MIN_BLOCK_TIME :: nat where [simp]: "cost_MIN_BLOCK_TIME = 20"
definition cost_SELF_ADDRESS :: nat where [simp]: "cost_SELF_ADDRESS = 10"
definition cost_SENDER :: nat where [simp]: "cost_SENDER = 10"
definition cost_SOURCE :: nat where [simp]: "cost_SOURCE = 10"
definition cost_NOW :: nat where [simp]: "cost_NOW = 10"
definition cost_IMPLICIT_ACCOUNT :: nat where [simp]: "cost_IMPLICIT_ACCOUNT = 10"
definition cost_VOTING_POWER :: nat where [simp]: "cost_VOTING_POWER = 640"
definition cost_TOTAL_VOTING_POWER :: nat where [simp]: "cost_TOTAL_VOTING_POWER = 450"
definition cost_EMIT :: nat where [simp]: "cost_EMIT = 30"
definition cost_INTERPRET_RET :: nat where [simp]: "cost_INTERPRET_RET = 15"
definition cost_LOOP_ENTER :: nat where [simp]: "cost_LOOP_ENTER = 10"
definition cost_LOOP_LEFT_ENTER :: nat where [simp]: "cost_LOOP_LEFT_ENTER = 10"
definition cost_LOOP_EXIT :: nat where [simp]: "cost_LOOP_EXIT = 10"
definition cost_CREATE_CONTRACT :: nat where [simp]: "cost_CREATE_CONTRACT = 60"

definition cost_dropn :: "nat \<Rightarrow> cost" where
  "cost_dropn n =
     as_gas_cost (ck_add 32 (ck_add 32 (ck_add 32 (Some 30) (ck_mul 32 (Some n) (Some 2))) (ck_shr (Some n) 1)) (ck_shr (Some n) 3))"

definition cost_drop :: "nat option \<Rightarrow> cost" where
  "cost_drop mb_n =
     (case mb_n of None \<Rightarrow> Ok cost_DROP | Some n \<Rightarrow> cost_dropn n)"

definition cost_dipn :: "nat \<Rightarrow> cost" where
  "cost_dipn n =
     as_gas_cost (ck_add 32 (Some 15) (ck_mul 32 (Some n) (Some 4)))"

definition cost_dip :: "nat option \<Rightarrow> cost" where
  "cost_dip mb_n =
     (case mb_n of None \<Rightarrow> Ok cost_DIP | Some n \<Rightarrow> cost_dipn n)"

definition cost_undip :: "nat \<Rightarrow> cost" where
  "cost_undip n =
     as_gas_cost (ck_mul 32 (ck_add 32 (Some n) (Some 1)) (Some 10))"

definition cost_dupn :: "nat \<Rightarrow> cost" where
  "cost_dupn n =
     as_gas_cost (ck_add 32 (ck_add 32 (Some 20) (Some n)) (ck_shr (Some n) 2))"

definition cost_dig :: "nat \<Rightarrow> cost" where
  "cost_dig n =
     as_gas_cost (ck_add 32 (ck_add 32 (ck_add 32 (Some 30) (ck_mul 32 (Some 6) (Some n))) (ck_shr (Some n) 1)) (ck_shr (Some n) 2))"

definition cost_dug :: "nat \<Rightarrow> cost" where
  "cost_dug n =
     as_gas_cost (ck_add 32 (ck_add 32 (ck_add 32 (Some 35) (ck_mul 32 (Some 6) (Some n))) (ck_shr (Some n) 1)) (ck_shr (Some n) 2))"

definition cost_dup :: "nat option \<Rightarrow> cost" where
  "cost_dup mb_n =
     (case mb_n of None \<Rightarrow> Ok cost_DUP | Some n \<Rightarrow> cost_dupn n)"

text \<open>The numeric operations take the byte sizes of their operands, the others their lengths.\<close>

definition cost_add_num :: "nat \<Rightarrow> nat \<Rightarrow> cost" where
  "cost_add_num sz1 sz2 =
     as_gas_cost (ck_add 64 (Some 35) (ck_shr (Some (max sz1 sz2)) 1))"

definition cost_sub_num :: "nat \<Rightarrow> nat \<Rightarrow> cost" where
  "cost_sub_num sz1 sz2 =
     as_gas_cost (ck_add 64 (Some 35) (ck_shr (Some (max sz1 sz2)) 1))"

definition cost_and_num :: "nat \<Rightarrow> nat \<Rightarrow> cost" where
  "cost_and_num sz1 sz2 =
     as_gas_cost (ck_add 64 (Some 35) (ck_shr (Some (min sz1 sz2)) 1))"

definition cost_and_bytes :: "nat \<Rightarrow> nat \<Rightarrow> cost" where
  "cost_and_bytes sz1 sz2 =
     as_gas_cost (ck_add 64 (Some 35) (ck_shr (Some (min sz1 sz2)) 1))"

definition cost_or_num :: "nat \<Rightarrow> nat \<Rightarrow> cost" where
  "cost_or_num sz1 sz2 =
     as_gas_cost (ck_add 64 (Some 35) (ck_shr (Some (min sz1 sz2)) 1))"

definition cost_or_bytes :: "nat \<Rightarrow> nat \<Rightarrow> cost" where
  "cost_or_bytes sz1 sz2 =
     as_gas_cost (ck_add 64 (Some 35) (ck_shr (Some (min sz1 sz2)) 1))"

definition cost_xor_nat :: "nat \<Rightarrow> nat \<Rightarrow> cost" where
  "cost_xor_nat sz1 sz2 =
     as_gas_cost (ck_add 64 (Some 35) (ck_shr (Some (min sz1 sz2)) 1))"

definition cost_xor_bytes :: "nat \<Rightarrow> nat \<Rightarrow> cost" where
  "cost_xor_bytes sz1 sz2 =
     as_gas_cost (ck_add 64 (Some 40) (ck_shr (Some (min sz1 sz2)) 1))"

definition cost_not_num :: "nat \<Rightarrow> cost" where
  "cost_not_num sz =
     as_gas_cost (ck_add 64 (Some 25) (ck_shr (Some sz) 1))"

definition cost_not_bytes :: "nat \<Rightarrow> cost" where
  "cost_not_bytes sz =
     as_gas_cost (ck_add 64 (Some 30) (ck_shr (Some sz) 1))"

definition cost_lsl_nat :: "nat \<Rightarrow> cost" where
  "cost_lsl_nat sz =
     as_gas_cost (Some (sz div 2 + 130))"

definition cost_lsl_bytes :: "nat \<Rightarrow> nat \<Rightarrow> cost" where
  "cost_lsl_bytes size_1 size_2 =
     (let w1 = (if size_2 > 0 then (size_2 - 1) div 16 + size_1 div 2 else size_1 div 2) in
      as_gas_cost (Some (w1 + size_1 div 4 + 65)))"

definition cost_lsr_nat :: "nat \<Rightarrow> cost" where
  "cost_lsr_nat sz =
     as_gas_cost (Some (sz div 2 + 45))"

definition cost_lsr_bytes :: "nat \<Rightarrow> nat \<Rightarrow> cost" where
  "cost_lsr_bytes size_1 size_2 =
     (let w1 = (if size_1 \<ge> size_2 div 8 then size_1 - size_2 div 8 else 0) in
      as_gas_cost (ck_add 64 (ck_add 64 (ck_shr (Some w1) 1) (ck_shr (Some w1) 2)) (Some 55)))"

definition cost_mul_int :: "nat \<Rightarrow> nat \<Rightarrow> cost" where
  "cost_mul_int size_1 size_2 =
     bind_outcome
       (if size_1 + size_2 = 0 then Ok (Some 0)
        else bind_outcome (ok_or (ck_add 64 (Some size_1) (Some size_2)) OutOfGas) (\<lambda>a.
             bind_outcome (log2i a) (\<lambda>log. Ok (ck_mul 64 (Some a) (Some log))))) (\<lambda>v0.
       as_gas_cost (ck_add 64 (ck_add 64 (ck_add 64 (Some 55) (ck_shr v0 1)) (ck_shr v0 2)) (ck_shr v0 4)))"

definition cost_ediv_int :: "nat \<Rightarrow> nat \<Rightarrow> cost" where
  "cost_ediv_int size_1 size_2 =
     (let w1 = (if size_1 \<ge> size_2 then size_1 - size_2 else 0) in
      as_gas_cost
        (ck_add 64
          (ck_add 64
            (ck_add 64
              (ck_add 64 (ck_mul 64 (Some w1) (Some 12))
                (ck_mul 64 (ck_add 64 (ck_shr (Some w1) 10) (ck_shr (Some w1) 13)) (Some size_2)))
              (ck_shr (Some size_1) 2))
            (Some size_1))
          (Some 150)))"

definition cost_ediv_nat :: "nat \<Rightarrow> nat \<Rightarrow> cost" where
  "cost_ediv_nat size_1 size_2 =
     (let w1 = (if size_1 \<ge> size_2 then size_1 - size_2 else 0) in
      as_gas_cost
        (ck_add 64
          (ck_add 64
            (ck_add 64
              (ck_add 64 (ck_mul 64 (Some w1) (Some 12))
                (ck_mul 64 (ck_add 64 (ck_shr (Some w1) 10) (ck_shr (Some w1) 13)) (Some size_2)))
              (ck_shr (Some size_1) 2))
            (Some size_1))
          (Some 150)))"

definition cost_cmp_bytes :: "nat \<Rightarrow> nat \<Rightarrow> cost" where
  "cost_cmp_bytes s1 s2 =
     (let v = Some (min s1 s2) in
      as_gas_cost (ck_add 64 (ck_add 64 (Some 35) (ck_shr v 6)) (ck_shr v 7)))"

definition cost_add :: "nat \<Rightarrow> cost \<Rightarrow> cost" where
  "cost_add c x = bind_outcome x (\<lambda>n. as_gas_cost (ck_add 32 (Some c) (Some n)))"

definition ADDRESS_SIZE :: nat where "ADDRESS_SIZE = 20 + 31"
definition CMP_CHAIN_ID :: nat where "CMP_CHAIN_ID = 30"
definition CMP_KEY :: nat where "CMP_KEY = 92"
definition CMP_SIGNATURE :: nat where "CMP_SIGNATURE = 92"

function cost_compare :: "TypedValue \<Rightarrow> TypedValue \<Rightarrow> cost" where
  "cost_compare v1 v2 =
     (case v1 of
        V_Nat l \<Rightarrow>
          (case v2 of V_Nat r \<Rightarrow> cost_cmp_bytes (nat_byte_size l) (nat_byte_size r) | _ \<Rightarrow> Panic Incomparable)
      | V_Int l \<Rightarrow>
          (case v2 of V_Int r \<Rightarrow> cost_cmp_bytes (int_byte_size l) (int_byte_size r) | _ \<Rightarrow> Panic Incomparable)
      | V_Timestamp l \<Rightarrow>
          (case v2 of V_Timestamp r \<Rightarrow> cost_cmp_bytes (int_byte_size l) (int_byte_size r) | _ \<Rightarrow> Panic Incomparable)
      | V_Bool _ \<Rightarrow> (case v2 of V_Bool _ \<Rightarrow> cost_cmp_bytes 1 1 | _ \<Rightarrow> Panic Incomparable)
      | V_Mumav _ \<Rightarrow> (case v2 of V_Mumav _ \<Rightarrow> cost_cmp_bytes 8 8 | _ \<Rightarrow> Panic Incomparable)
      | V_String l \<Rightarrow> (case v2 of V_String r \<Rightarrow> cost_cmp_bytes (length l) (length r) | _ \<Rightarrow> Panic Incomparable)
      | V_Unit \<Rightarrow> (case v2 of V_Unit \<Rightarrow> Ok 10 | _ \<Rightarrow> Panic Incomparable)
      | V_Pair l0 l1 \<Rightarrow>
          (case v2 of
             V_Pair r0 r1 \<Rightarrow>
               bind_outcome (cost_compare l0 r0) (\<lambda>c0.
               bind_outcome (cost_compare l1 r1) (\<lambda>c1.
                 as_gas_cost (ck_add 32 (ck_add 32 (Some 10) (Some c0)) (Some c1))))
           | _ \<Rightarrow> Panic Incomparable)
      | V_Option l \<Rightarrow>
          (case v2 of
             V_Option r \<Rightarrow>
               (case l of
                  None \<Rightarrow> Ok 10
                | Some l \<Rightarrow> (case r of None \<Rightarrow> Ok 10 | Some r \<Rightarrow> cost_add 10 (cost_compare l r)))
           | _ \<Rightarrow> Panic Incomparable)
      | V_Address _ \<Rightarrow>
          (case v2 of V_Address _ \<Rightarrow> cost_cmp_bytes ADDRESS_SIZE ADDRESS_SIZE | _ \<Rightarrow> Panic Incomparable)
      | V_ChainId _ \<Rightarrow> (case v2 of V_ChainId _ \<Rightarrow> Ok CMP_CHAIN_ID | _ \<Rightarrow> Panic Incomparable)
      | V_Bytes l \<Rightarrow> (case v2 of V_Bytes r \<Rightarrow> cost_cmp_bytes (length l) (length r) | _ \<Rightarrow> Panic Incomparable)
      | V_Key _ \<Rightarrow> (case v2 of V_Key _ \<Rightarrow> Ok CMP_KEY | _ \<Rightarrow> Panic Incomparable)
      | V_Signature _ \<Rightarrow> (case v2 of V_Signature _ \<Rightarrow> Ok CMP_SIGNATURE | _ \<Rightarrow> Panic Incomparable)
      | V_KeyHash _ \<Rightarrow>
          (case v2 of V_KeyHash _ \<Rightarrow> cost_cmp_bytes keyhash_BYTE_SIZE keyhash_BYTE_SIZE | _ \<Rightarrow> Panic Incomparable)
      | V_Or l \<Rightarrow>
          (case v2 of
             V_Or r \<Rightarrow>
               (case l of
                  Inl x \<Rightarrow> (case r of Inl y \<Rightarrow> cost_add 10 (cost_compare x y) | Inr _ \<Rightarrow> Ok 10)
                | Inr x \<Rightarrow> (case r of Inl _ \<Rightarrow> Ok 10 | Inr y \<Rightarrow> cost_add 10 (cost_compare x y)))
           | _ \<Rightarrow> Panic Incomparable)
      | _ \<Rightarrow> Panic Incomparable)"
  by pat_completeness auto
termination by (relation "measure (size \<circ> fst)") auto

declare cost_compare.simps [simp del]

text \<open>\<open>join_tickets\<close> computes the cost of the comparison and drops it.\<close>

definition cost_join_tickets :: "TypedValue \<Rightarrow> nat \<Rightarrow> TypedValue \<Rightarrow> nat \<Rightarrow> cost" where
  "cost_join_tickets content1 amount1 content2 amount2 =
     bind_outcome (cost_compare content1 content2) (\<lambda>_.
       cost_add_num (nat_byte_size amount1) (nat_byte_size amount2))"

text \<open>\<open>split_ticket\<close> takes the size of the number as a struct, a vector of 24 bytes, whatever the number is.\<close>

definition size_of_BigUint :: nat where "size_of_BigUint = 24"

definition cost_split_ticket :: "nat \<Rightarrow> nat \<Rightarrow> cost" where
  "cost_split_ticket amount1 amount2 =
     as_gas_cost (ck_add 64 (Some 40) (ck_shr (Some (max size_of_BigUint size_of_BigUint)) 1))"

definition cost_concat_list_precheck :: "nat \<Rightarrow> cost" where
  "cost_concat_list_precheck list_size =
     as_gas_cost (ck_mul 64 (Some 10) (Some list_size))"

definition cost_concat_string_list :: "checked \<Rightarrow> cost" where
  "cost_concat_string_list total_len =
     as_gas_cost (ck_add 64 (map_option (\<lambda>n. n div 2) total_len) (Some 100))"

definition cost_concat_bytes_list :: "checked \<Rightarrow> cost" where
  "cost_concat_bytes_list total_len =
     as_gas_cost (ck_add 64 (map_option (\<lambda>n. n div 2) total_len) (Some 100))"

definition cost_concat_string_pair :: "nat \<Rightarrow> nat \<Rightarrow> cost" where
  "cost_concat_string_pair len1 len2 =
     as_gas_cost (ck_add 64 (map_option (\<lambda>n. n div 2) (ck_add 64 (Some len1) (Some len2))) (Some 45))"

definition cost_concat_bytes_pair :: "nat \<Rightarrow> nat \<Rightarrow> cost" where
  "cost_concat_bytes_pair len1 len2 =
     as_gas_cost (ck_add 64 (map_option (\<lambda>n. n div 2) (ck_add 64 (Some len1) (Some len2))) (Some 45))"

text \<open>The cost of a lookup: a comparison of the key with itself for each level of the tree.\<close>

definition lookup_cost :: "TypedValue \<Rightarrow> nat \<Rightarrow> (OutOfGas, checked) outcome" where
  "lookup_cost k map_size =
     bind_outcome (cost_compare k k) (\<lambda>compare_cost.
     bind_outcome (ok_or (ck_add 64 (Some map_size) (Some 1)) OutOfGas) (\<lambda>n.
     bind_outcome (log2i n) (\<lambda>size_log. Ok (ck_mul 32 (Some compare_cost) (Some size_log)))))"

definition cost_map_get :: "TypedValue \<Rightarrow> nat \<Rightarrow> cost" where
  "cost_map_get k map_size =
     bind_outcome (lookup_cost k map_size) (\<lambda>c.
       as_gas_cost (ck_add 32 (Some 80) (c)))"

definition cost_set_mem :: "TypedValue \<Rightarrow> nat \<Rightarrow> cost" where
  "cost_set_mem k map_size =
     bind_outcome (lookup_cost k map_size) (\<lambda>c.
       as_gas_cost (ck_add 32 (Some 115) (c)))"

definition cost_map_update :: "TypedValue \<Rightarrow> nat \<Rightarrow> cost" where
  "cost_map_update k map_size =
     bind_outcome (lookup_cost k map_size) (\<lambda>c.
       as_gas_cost (ck_add 32 (Some 80) (ck_mul 32 (Some 2) c)))"

definition cost_set_update :: "TypedValue \<Rightarrow> nat \<Rightarrow> cost" where
  "cost_set_update k map_size =
     bind_outcome (lookup_cost k map_size) (\<lambda>c.
       as_gas_cost (ck_add 32 (Some 130) (ck_mul 32 (Some 2) c)))"

definition cost_map_get_and_update :: "TypedValue \<Rightarrow> nat \<Rightarrow> cost" where
  "cost_map_get_and_update k map_size =
     bind_outcome (lookup_cost k map_size) (\<lambda>c.
       as_gas_cost (ck_add 32 (Some 80) (ck_mul 32 (Some 3) c)))"

definition cost_map_mem :: "TypedValue \<Rightarrow> nat \<Rightarrow> cost" where
  "cost_map_mem k map_size =
     cost_map_get k map_size"

text \<open>\<open>MichelineSize\<close>: the numbers of nodes, of bytes in literals and of bytes in numbers.\<close>

record MichelineSize =
  nodes_num :: checked
  str_byte :: checked
  zariths :: checked

fun annotation_size :: "Annotation \<Rightarrow> nat" where
  "annotation_size (Field a) = length a + 1"
| "annotation_size (Variable a) = length a + 1"
| "annotation_size (Type_ann a) = length a + 1"
| "annotation_size (Special a) = length a"

fun collect_annots_size :: "Annotation list \<Rightarrow> MichelineSize \<Rightarrow> MichelineSize" where
  "collect_annots_size [] sz = sz"
| "collect_annots_size (annot # annots) sz =
     collect_annots_size annots (sz\<lparr>str_byte := ck_add 64 (str_byte sz) (Some (annotation_size annot))\<rparr>)"

fun collect_micheline_size :: "Micheline \<Rightarrow> MichelineSize \<Rightarrow> MichelineSize"
  and collect_michelines_size :: "Micheline list \<Rightarrow> MichelineSize \<Rightarrow> MichelineSize" where
  "collect_micheline_size mich sz =
     (let sz = sz\<lparr>nodes_num := ck_add 64 (nodes_num sz) (Some 1)\<rparr> in
      case mich of
        Mich_String s \<Rightarrow> sz\<lparr>str_byte := ck_add 64 (str_byte sz) (Some (length s))\<rparr>
      | Mich_Bytes bs \<Rightarrow> sz\<lparr>str_byte := ck_add 64 (str_byte sz) (Some (length bs))\<rparr>
      | Mich_Int i \<Rightarrow> sz\<lparr>zariths := ck_add 64 (zariths sz) (Some (int_byte_size i))\<rparr>
      | Seq ms \<Rightarrow> collect_michelines_size ms sz
      | App prim args annots \<Rightarrow> collect_annots_size annots (collect_michelines_size args sz))"
| "collect_michelines_size [] sz = sz"
| "collect_michelines_size (m # ms) sz = collect_michelines_size ms (collect_micheline_size m sz)"

declare collect_micheline_size.simps(1) [simp del]

definition micheline_encoding_by_size :: "MichelineSize \<Rightarrow> cost" where
  "micheline_encoding_by_size sz =
     as_gas_cost (ck_add 64 (ck_add 64 (ck_mul 64 (nodes_num sz) (Some 100)) (ck_mul 64 (zariths sz) (Some 25)))
       (ck_mul 64 (str_byte sz) (Some 10)))"

definition cost_micheline_encoding :: "Micheline \<Rightarrow> cost" where
  "cost_micheline_encoding mich =
     micheline_encoding_by_size
       (collect_micheline_size mich \<lparr>nodes_num = Some 0, str_byte = Some 0, zariths = Some 0\<rparr>)"

definition cost_check_signature :: "Key \<Rightarrow> nat \<Rightarrow> cost" where
  "cost_check_signature k len =
     as_gas_cost
       (case k of
          Key_Ed25519 _ \<Rightarrow> ck_add 64 (Some 65800) (ck_add 64 (ck_shr (Some len) 3) (Some len))
        | Key_Secp256k1 _ \<Rightarrow> ck_add 64 (Some 51600) (ck_add 64 (ck_shr (Some len) 3) (Some len))
        | Key_P256 _ \<Rightarrow> ck_add 64 (Some 341000) (ck_add 64 (ck_shr (Some len) 3) (Some len))
        | Key_Bls _ \<Rightarrow> ck_add 64 (Some 1570000) (ck_mul 64 (Some len) (Some 3)))"

definition cost_slice :: "nat \<Rightarrow> cost" where
  "cost_slice len =
     as_gas_cost (ck_add 64 (ck_shr (Some len) 1) (Some 25))"

definition cost_blake2b :: "nat \<Rightarrow> cost" where
  "cost_blake2b sz =
     as_gas_cost (ck_add 64 (Some 430) (ck_add 64 (ck_shr (Some sz) 3) (Some sz)))"

definition cost_keccak :: "nat \<Rightarrow> cost" where
  "cost_keccak sz =
     as_gas_cost (ck_add 64 (Some 1350) (ck_add 64 (ck_shr (Some sz) 2) (ck_mul 64 (Some sz) (Some 8))))"

definition cost_sha3 :: "nat \<Rightarrow> cost" where
  "cost_sha3 sz =
     as_gas_cost (ck_add 64 (Some 1350) (ck_add 64 (ck_shr (Some sz) 2) (ck_mul 64 (Some sz) (Some 8))))"

definition cost_sha256 :: "nat \<Rightarrow> cost" where
  "cost_sha256 sz =
     as_gas_cost (ck_add 64 (Some 600)
       (ck_add 64 (ck_shr (Some sz) 2) (ck_add 64 (ck_shr (Some sz) 1) (ck_mul 64 (Some sz) (Some 4)))))"

definition cost_sha512 :: "nat \<Rightarrow> cost" where
  "cost_sha512 sz =
     as_gas_cost (ck_add 64 (Some 680) (ck_mul 64 (Some sz) (Some 3)))"

definition cost_pairing_check :: "nat \<Rightarrow> cost" where
  "cost_pairing_check sz =
     as_gas_cost (ck_add 64 (Some 450000) (ck_mul 64 (Some 342500) (Some sz)))"

definition cost_mul_bls_fr_big_int :: "nat \<Rightarrow> cost" where
  "cost_mul_bls_fr_big_int sz =
     as_gas_cost (ck_add 64 (Some 265) (ck_add 64 (ck_shr (Some sz) 4) (Some sz)))"

definition cost_neg_int :: "nat \<Rightarrow> cost" where
  "cost_neg_int sz =
     as_gas_cost (ck_add 64 (Some 25) (ck_shr (Some sz) 1))"

definition cost_abs :: "nat \<Rightarrow> cost" where
  "cost_abs sz =
     as_gas_cost (ck_add 64 (Some 20) (ck_shr (Some sz) 1))"

definition cost_int_bytes :: "nat \<Rightarrow> cost" where
  "cost_int_bytes sz =
     as_gas_cost (ck_add 64 (Some 20) (ck_add 64 (ck_shr (Some sz) 1) (ck_mul 64 (Some sz) (Some 2))))"

definition cost_nat_bytes :: "nat \<Rightarrow> cost" where
  "cost_nat_bytes sz =
     as_gas_cost (ck_add 64 (Some 45) (ck_add 64 (ck_shr (Some sz) 1) (ck_mul 64 (Some sz) (Some 2))))"

definition cost_bytes_int :: "nat \<Rightarrow> cost" where
  "cost_bytes_int sz =
     as_gas_cost (ck_add 64 (Some 90) (ck_mul 64 (Some sz) (Some 3)))"

definition cost_bytes_nat :: "nat \<Rightarrow> cost" where
  "cost_bytes_nat sz =
     as_gas_cost (ck_add 64 (Some 75) (ck_mul 64 (Some sz) (Some 3)))"

definition cost_unpack :: "nat \<Rightarrow> cost" where
  "cost_unpack sz =
     as_gas_cost (ck_add 64 (Some 260) (ck_shr (Some sz) 1))"

definition cost_pair_n :: "nat \<Rightarrow> cost" where
  "cost_pair_n sz =
     (let v0 = ck_sub (Some sz) (Some 2) in
      as_gas_cost (ck_add 64 (Some 40) (ck_add 64 (ck_shr v0 2) (ck_mul 64 v0 (Some 3)))))"

definition cost_unpair_n :: "nat \<Rightarrow> cost" where
  "cost_unpair_n sz =
     (let v0 = ck_sub (Some sz) (Some 2) in as_gas_cost (ck_add 64 (Some 30) (ck_mul 64 v0 (Some 4))))"

definition cost_get_n :: "nat \<Rightarrow> cost" where
  "cost_get_n sz =
     as_gas_cost (ck_add 64 (Some 20) (ck_add 64 (ck_shr (Some sz) 1) (ck_shr (Some sz) 4)))"

definition cost_update_n :: "nat \<Rightarrow> cost" where
  "cost_update_n sz =
     as_gas_cost (ck_add 64 (Some 30)
       (ck_add 64 (ck_shr (Some sz) 5) (ck_add 64 (ck_shr (Some sz) 2) (Some sz))))"

section \<open>Costs do not panic\<close>

lemma gas_consume_cases:
  obtains (exhausted) "gas = None" "gas_consume cost gas = (Panic GasExhausted, None)"
  | (too_much) n where "gas = Some n" "n < cost" "gas_consume cost gas = (Err OutOfGas, None)"
  | (paid) n where "gas = Some n" "cost \<le> n" "gas_consume cost gas = (Ok (), Some (n - cost))"
  by (cases gas; cases "cost \<le> the gas") (auto simp: gas_consume_def not_le)

lemma as_gas_cost_no_panic [simp]: "as_gas_cost c \<noteq> Panic p"
  by (simp add: as_gas_cost_def split: option.split)

lemma as_gas_cost_bound: "as_gas_cost c = Ok n \<Longrightarrow> n < 2 ^ 32"
  by (simp add: as_gas_cost_def split: option.splits if_splits)

lemma ok_or_no_panic [simp]: "ok_or x e \<noteq> Panic p"
  by (simp add: ok_or_def split: option.split)

lemma log2i_no_panic: "n \<noteq> 0 \<Longrightarrow> log2i n \<noteq> Panic p"
  by (simp add: log2i_def)

lemma ck_add_one: "ck_add w (Some n) (Some 1) = Some m \<Longrightarrow> m \<noteq> 0"
  by (auto simp: ck_add_def ck_fit_def split: if_splits)

lemma tc_construct_no_panic [simp]: "tc_construct c key_size sz \<noteq> Panic p"
  using ck_add_one [of 64 sz]
  by (cases "ck_add 64 (Some sz) (Some 1)") (auto simp: tc_construct_def log2i_def)

lemma cost_mul_int_no_panic [simp]: "cost_mul_int sz1 sz2 \<noteq> Panic p"
  by (auto simp: cost_mul_int_def bind_outcome_Panic log2i_def ck_add_def ck_fit_def ok_or_def split: if_splits)

lemma cost_no_panic [simp]:
  "tc_timestamp_decoding n0 \<noteq> Panic p"
  "tc_variadic n0 \<noteq> Panic p"
  "tc_proof_argument n0 \<noteq> Panic p"
  "tc_drop_n o0 \<noteq> Panic p"
  "tc_dip_n o0 \<noteq> Panic p"
  "tc_ty_eq n0 n1 \<noteq> Panic p"
  "tc_construct_map n0 n1 \<noteq> Panic p"
  "tc_construct_set n0 n1 \<noteq> Panic p"
  "cost_dropn n0 \<noteq> Panic p"
  "cost_drop o0 \<noteq> Panic p"
  "cost_dipn n0 \<noteq> Panic p"
  "cost_dip o0 \<noteq> Panic p"
  "cost_undip n0 \<noteq> Panic p"
  "cost_dupn n0 \<noteq> Panic p"
  "cost_dig n0 \<noteq> Panic p"
  "cost_dug n0 \<noteq> Panic p"
  "cost_dup o0 \<noteq> Panic p"
  "cost_add_num n0 n1 \<noteq> Panic p"
  "cost_sub_num n0 n1 \<noteq> Panic p"
  "cost_and_num n0 n1 \<noteq> Panic p"
  "cost_and_bytes n0 n1 \<noteq> Panic p"
  "cost_or_num n0 n1 \<noteq> Panic p"
  "cost_or_bytes n0 n1 \<noteq> Panic p"
  "cost_xor_nat n0 n1 \<noteq> Panic p"
  "cost_xor_bytes n0 n1 \<noteq> Panic p"
  "cost_not_num n0 \<noteq> Panic p"
  "cost_not_bytes n0 \<noteq> Panic p"
  "cost_lsl_nat n0 \<noteq> Panic p"
  "cost_lsl_bytes n0 n1 \<noteq> Panic p"
  "cost_lsr_nat n0 \<noteq> Panic p"
  "cost_lsr_bytes n0 n1 \<noteq> Panic p"
  "cost_ediv_int n0 n1 \<noteq> Panic p"
  "cost_ediv_nat n0 n1 \<noteq> Panic p"
  "cost_cmp_bytes n0 n1 \<noteq> Panic p"
  "cost_split_ticket n0 n1 \<noteq> Panic p"
  "cost_concat_list_precheck n0 \<noteq> Panic p"
  "cost_concat_string_list c0 \<noteq> Panic p"
  "cost_concat_bytes_list c0 \<noteq> Panic p"
  "cost_concat_string_pair n0 n1 \<noteq> Panic p"
  "cost_concat_bytes_pair n0 n1 \<noteq> Panic p"
  "cost_micheline_encoding m0 \<noteq> Panic p"
  "cost_check_signature key0 n1 \<noteq> Panic p"
  "cost_slice n0 \<noteq> Panic p"
  "cost_blake2b n0 \<noteq> Panic p"
  "cost_keccak n0 \<noteq> Panic p"
  "cost_sha3 n0 \<noteq> Panic p"
  "cost_sha256 n0 \<noteq> Panic p"
  "cost_sha512 n0 \<noteq> Panic p"
  "cost_pairing_check n0 \<noteq> Panic p"
  "cost_mul_bls_fr_big_int n0 \<noteq> Panic p"
  "cost_neg_int n0 \<noteq> Panic p"
  "cost_abs n0 \<noteq> Panic p"
  "cost_int_bytes n0 \<noteq> Panic p"
  "cost_nat_bytes n0 \<noteq> Panic p"
  "cost_bytes_int n0 \<noteq> Panic p"
  "cost_bytes_nat n0 \<noteq> Panic p"
  "cost_unpack n0 \<noteq> Panic p"
  "cost_pair_n n0 \<noteq> Panic p"
  "cost_unpair_n n0 \<noteq> Panic p"
  "cost_get_n n0 \<noteq> Panic p"
  "cost_update_n n0 \<noteq> Panic p"
  by (simp_all add: tc_timestamp_decoding_def tc_variadic_def tc_proof_argument_def tc_drop_n_def tc_dip_n_def
      tc_ty_eq_def tc_construct_map_def tc_construct_set_def cost_dropn_def cost_drop_def
      cost_dipn_def cost_dip_def cost_undip_def cost_dupn_def cost_dig_def
      cost_dug_def cost_dup_def cost_add_num_def cost_sub_num_def cost_and_num_def
      cost_and_bytes_def cost_or_num_def cost_or_bytes_def cost_xor_nat_def cost_xor_bytes_def
      cost_not_num_def cost_not_bytes_def cost_lsl_nat_def cost_lsl_bytes_def cost_lsr_nat_def
      cost_lsr_bytes_def cost_ediv_int_def cost_ediv_nat_def cost_cmp_bytes_def cost_split_ticket_def
      cost_concat_list_precheck_def cost_concat_string_list_def cost_concat_bytes_list_def cost_concat_string_pair_def cost_concat_bytes_pair_def
      cost_micheline_encoding_def cost_check_signature_def cost_slice_def cost_blake2b_def cost_keccak_def
      cost_sha3_def cost_sha256_def cost_sha512_def cost_pairing_check_def cost_mul_bls_fr_big_int_def
      cost_neg_int_def cost_abs_def cost_int_bytes_def cost_nat_bytes_def cost_bytes_int_def
      cost_bytes_nat_def cost_unpack_def cost_pair_n_def cost_unpair_n_def cost_get_n_def
      cost_update_n_def micheline_encoding_by_size_def Let_def split: option.split)

text \<open>Comparing values of one comparable type does not panic.\<close>

lemma cost_add_no_panic: "cost_add c x = Panic p \<longleftrightarrow> x = Panic p"
  by (simp add: cost_add_def bind_outcome_Panic)

lemma cost_compare_simps:
  "cost_compare (V_Nat m) (V_Nat n) = cost_cmp_bytes (nat_byte_size m) (nat_byte_size n)"
  "cost_compare (V_Int i) (V_Int j) = cost_cmp_bytes (int_byte_size i) (int_byte_size j)"
  "cost_compare (V_Timestamp i) (V_Timestamp j) = cost_cmp_bytes (int_byte_size i) (int_byte_size j)"
  "cost_compare (V_Bool p) (V_Bool q) = cost_cmp_bytes 1 1"
  "cost_compare (V_Mumav i) (V_Mumav j) = cost_cmp_bytes 8 8"
  "cost_compare (V_String s) (V_String t) = cost_cmp_bytes (length s) (length t)"
  "cost_compare V_Unit V_Unit = Ok 10"
  "cost_compare (V_Pair v w) (V_Pair v' w') =
     bind_outcome (cost_compare v v') (\<lambda>c0. bind_outcome (cost_compare w w') (\<lambda>c1.
       as_gas_cost (ck_add 32 (ck_add 32 (Some 10) (Some c0)) (Some c1))))"
  "cost_compare (V_Option None) (V_Option x) = Ok 10"
  "cost_compare (V_Option (Some v)) (V_Option None) = Ok 10"
  "cost_compare (V_Option (Some v)) (V_Option (Some w)) = cost_add 10 (cost_compare v w)"
  "cost_compare (V_Address a) (V_Address b) = cost_cmp_bytes ADDRESS_SIZE ADDRESS_SIZE"
  "cost_compare (V_ChainId bs) (V_ChainId cs) = Ok CMP_CHAIN_ID"
  "cost_compare (V_Bytes bs) (V_Bytes cs) = cost_cmp_bytes (length bs) (length cs)"
  "cost_compare (V_Key k) (V_Key l) = Ok CMP_KEY"
  "cost_compare (V_Signature f) (V_Signature g) = Ok CMP_SIGNATURE"
  "cost_compare (V_KeyHash h) (V_KeyHash h') = cost_cmp_bytes keyhash_BYTE_SIZE keyhash_BYTE_SIZE"
  "cost_compare (V_Or (Inl v)) (V_Or (Inl w)) = cost_add 10 (cost_compare v w)"
  "cost_compare (V_Or (Inl v)) (V_Or (Inr w)) = Ok 10"
  "cost_compare (V_Or (Inr v)) (V_Or (Inl w)) = Ok 10"
  "cost_compare (V_Or (Inr v)) (V_Or (Inr w)) = cost_add 10 (cost_compare v w)"
  by (subst cost_compare.simps, simp)+

lemma cost_compare_no_panic:
  "comparable_value ty v \<Longrightarrow> comparable_value ty w \<Longrightarrow> cost_compare v w \<noteq> Panic p"
proof (induction ty arbitrary: v w)
  case (T_Pair ty1 ty2)
  then show ?case
    by (auto simp: cost_compare_simps bind_outcome_Panic split: TypedValue.splits)
next
  case (T_Option ty)
  then show ?case
    by (auto simp: cost_compare_simps cost_add_no_panic split: TypedValue.splits option.splits)
next
  case (T_Or ty1 ty2)
  then show ?case
    by (auto simp: cost_compare_simps cost_add_no_panic split: TypedValue.splits sum.splits)
qed (auto simp: cost_compare_simps split: TypedValue.splits)

lemma lookup_cost_no_panic: "comparable_value ty k \<Longrightarrow> lookup_cost k n \<noteq> Panic p"
  using cost_compare_no_panic [of ty k k p] ck_add_one [of 64 n]
  by (cases "cost_compare k k"; cases "ck_add 64 (Some n) (Some 1)") (auto simp: lookup_cost_def log2i_def)

lemma cost_lookup_no_panic:
  assumes "comparable_value ty k"
  shows "cost_map_get k n \<noteq> Panic p" "cost_map_mem k n \<noteq> Panic p" "cost_set_mem k n \<noteq> Panic p"
    "cost_map_update k n \<noteq> Panic p" "cost_set_update k n \<noteq> Panic p" "cost_map_get_and_update k n \<noteq> Panic p"
  using lookup_cost_no_panic [OF assms, of n p]
  by (simp_all add: cost_map_get_def cost_map_mem_def cost_set_mem_def cost_map_update_def cost_set_update_def
      cost_map_get_and_update_def bind_outcome_Panic)

end
