(* ===== verification/MIR_Context.thy ===== *)
theory MIR_Context
  imports MIR_BigMap MIR_Gas
begin

text \<open>
  The outer context of type checking and interpretation (\<open>src/contrib/mir/src/context.rs\<close>), and
  computations that read and change it.
\<close>

section \<open>The context\<close>

text \<open>
  A \<open>HashMap\<close> of entrypoints is a map.  \<open>lookup_contract\<close> and \<open>voting_powers\<close> are functions that the
  embedder supplies.  The storage of big maps is the one in memory.
\<close>

type_synonym Entrypoints = "Entrypoint \<rightharpoonup> Type"

record Ctx =
  ctx_gas :: Gas
  ctx_amount :: int
  ctx_balance :: int
  ctx_level :: nat
  ctx_sender :: AddressHash
  ctx_source :: AddressHash
  ctx_min_block_time :: nat
  ctx_chain_id :: ChainId
  ctx_self_address :: AddressHash
  ctx_lookup_contract :: "AddressHash \<Rightarrow> Entrypoints option"
  ctx_voting_powers :: "KeyHash \<Rightarrow> nat"
  ctx_now :: int
  ctx_total_voting_power :: nat
  ctx_operation_group_hash :: bytes
  ctx_big_map_storage :: InMemoryLazyStorage
  ctx_origination_counter :: u32
  ctx_operation_counter :: u128

text \<open>The counters wrap around, as the release profile computes.\<close>

definition operation_counter :: "Ctx \<Rightarrow> u128 \<times> Ctx" where
  "operation_counter ctx =
     (let n = ctx_operation_counter ctx + 1 in (n, ctx\<lparr>ctx_operation_counter := n\<rparr>))"

definition origination_counter :: "Ctx \<Rightarrow> u32 \<times> Ctx" where
  "origination_counter ctx =
     (let n = ctx_origination_counter ctx + 1 in (n, ctx\<lparr>ctx_origination_counter := n\<rparr>))"

definition set_operation_counter :: "u128 \<Rightarrow> Ctx \<Rightarrow> Ctx" where
  "set_operation_counter v ctx = ctx\<lparr>ctx_operation_counter := v\<rparr>"

definition set_origination_counter :: "u32 \<Rightarrow> Ctx \<Rightarrow> Ctx" where
  "set_origination_counter v ctx = ctx\<lparr>ctx_origination_counter := v\<rparr>"

definition set_known_contracts :: "(AddressHash \<rightharpoonup> Entrypoints) \<Rightarrow> Ctx \<Rightarrow> Ctx" where
  "set_known_contracts m ctx = ctx\<lparr>ctx_lookup_contract := m\<rparr>"

text \<open>A \<open>HashMap\<close> of voting powers is the list of its entries, with distinct keys.\<close>

definition set_voting_powers :: "(KeyHash \<times> nat) list \<Rightarrow> Ctx \<Rightarrow> Ctx" where
  "set_voting_powers m ctx =
     ctx\<lparr>ctx_total_voting_power := sum_list (map snd m),
         ctx_voting_powers := (\<lambda>x. case map_of m x of Some n \<Rightarrow> n | None \<Rightarrow> 0)\<rparr>"

section \<open>Computations on the context\<close>

text \<open>A computation with errors \<open>'e\<close> leaves a context behind whether it succeeds or not.\<close>

type_synonym ('e, 'a) comp = "Ctx \<Rightarrow> ('e, 'a) outcome \<times> Ctx"

definition return :: "'a \<Rightarrow> ('e, 'a) comp" where
  "return x ctx = (Ok x, ctx)"

definition throw :: "'e \<Rightarrow> ('e, 'a) comp" where
  "throw e ctx = (Err e, ctx)"

definition panic :: "PanicReason \<Rightarrow> ('e, 'a) comp" where
  "panic p ctx = (Panic p, ctx)"

definition bind :: "('e, 'a) comp \<Rightarrow> ('a \<Rightarrow> ('e, 'b) comp) \<Rightarrow> ('e, 'b) comp" where
  "bind m k ctx =
     (case m ctx of
        (Ok x, ctx) \<Rightarrow> k x ctx
      | (Err e, ctx) \<Rightarrow> (Err e, ctx)
      | (Panic p, ctx) \<Rightarrow> (Panic p, ctx))"

definition lift :: "('e, 'a) outcome \<Rightarrow> ('e, 'a) comp" where
  "lift r ctx = (r, ctx)"

definition read :: "(Ctx \<Rightarrow> 'a) \<Rightarrow> ('e, 'a) comp" where
  "read f ctx = (Ok (f ctx), ctx)"

definition catch :: "('e, 'a) comp \<Rightarrow> ('e \<Rightarrow> ('f, 'a) comp) \<Rightarrow> ('f, 'a) comp" where
  "catch m h ctx =
     (case m ctx of
        (Ok x, ctx) \<Rightarrow> (Ok x, ctx)
      | (Err e, ctx) \<Rightarrow> h e ctx
      | (Panic p, ctx) \<Rightarrow> (Panic p, ctx))"

text \<open>\<open>map_err(f)?\<close>\<close>

definition map_err_comp :: "('e \<Rightarrow> 'f) \<Rightarrow> ('e, 'a) comp \<Rightarrow> ('f, 'a) comp" where
  "map_err_comp f m = catch m (\<lambda>e. throw (f e))"

text \<open>\<open>ctx.gas.consume(..)?\<close>, where \<open>oog\<close> is the error that \<open>OutOfGas\<close> becomes.\<close>

definition consume :: "'e \<Rightarrow> nat \<Rightarrow> ('e, unit) comp" where
  "consume oog cost ctx =
     (let (r, gas) = gas_consume cost (ctx_gas ctx) in
      (map_err_outcome (\<lambda>_. oog) r, ctx\<lparr>ctx_gas := gas\<rparr>))"

text \<open>\<open>ctx.gas.consume(f(..)?)?\<close>\<close>

definition charge :: "'e \<Rightarrow> cost \<Rightarrow> ('e, unit) comp" where
  "charge oog c = bind (lift (map_err_outcome (\<lambda>_. oog) c)) (consume oog)"

lemma bind_simps [simp]:
  "bind (return x) k = k x"
  "bind (throw e) k = throw e"
  "bind (panic p) k = panic p"
  by (simp_all add: bind_def return_def throw_def panic_def fun_eq_iff)

lemma bind_assoc: "bind (bind m k) l = bind m (\<lambda>x. bind (k x) l)"
  by (auto simp: bind_def fun_eq_iff split: outcome.splits prod.splits)

lemma bind_cong [fundef_cong]:
  "m ctx = m' ctx' \<Longrightarrow> (\<And>x ctx''. m' ctx' = (Ok x, ctx'') \<Longrightarrow> k x ctx'' = k' x ctx'') \<Longrightarrow>
    bind m k ctx = bind m' k' ctx'"
  by (cases "m' ctx'") (auto simp: bind_def split: outcome.splits)

lemma bind_eq_Ok:
  "bind m k ctx = (Ok y, ctx') \<longleftrightarrow> (\<exists>x ctx''. m ctx = (Ok x, ctx'') \<and> k x ctx'' = (Ok y, ctx'))"
  by (auto simp: bind_def split: outcome.splits prod.splits)

lemma bind_eq_Panic:
  "bind m k ctx = (Panic p, ctx') \<longleftrightarrow>
    m ctx = (Panic p, ctx') \<or> (\<exists>x ctx''. m ctx = (Ok x, ctx'') \<and> k x ctx'' = (Panic p, ctx'))"
  by (auto simp: bind_def split: outcome.splits prod.splits)

lemma bind_eq_Err:
  "bind m k ctx = (Err e, ctx') \<longleftrightarrow>
    m ctx = (Err e, ctx') \<or> (\<exists>x ctx''. m ctx = (Ok x, ctx'') \<and> k x ctx'' = (Err e, ctx'))"
  by (auto simp: bind_def split: outcome.splits prod.splits)

lemma basic_eq [simp]:
  "return x ctx = (r, ctx') \<longleftrightarrow> r = Ok x \<and> ctx' = ctx"
  "throw e ctx = (r, ctx') \<longleftrightarrow> r = Err e \<and> ctx' = ctx"
  "panic p ctx = (r, ctx') \<longleftrightarrow> r = Panic p \<and> ctx' = ctx"
  "lift s ctx = (r, ctx') \<longleftrightarrow> s = r \<and> ctx' = ctx"
  "read f ctx = (r, ctx') \<longleftrightarrow> r = Ok (f ctx) \<and> ctx' = ctx"
  by (auto simp: return_def throw_def panic_def lift_def read_def)

lemma catch_eq_Ok:
  "catch m h ctx = (Ok x, ctx') \<longleftrightarrow>
    m ctx = (Ok x, ctx') \<or> (\<exists>e ctx''. m ctx = (Err e, ctx'') \<and> h e ctx'' = (Ok x, ctx'))"
  by (auto simp: catch_def split: outcome.splits prod.splits)

lemma catch_eq_Panic:
  "catch m h ctx = (Panic p, ctx') \<longleftrightarrow>
    m ctx = (Panic p, ctx') \<or> (\<exists>e ctx''. m ctx = (Err e, ctx'') \<and> h e ctx'' = (Panic p, ctx'))"
  by (auto simp: catch_def split: outcome.splits prod.splits)

lemma map_err_comp_eq:
  "map_err_comp f m ctx = (Ok x, ctx') \<longleftrightarrow> m ctx = (Ok x, ctx')"
  "map_err_comp f m ctx = (Panic p, ctx') \<longleftrightarrow> m ctx = (Panic p, ctx')"
  by (auto simp: map_err_comp_def catch_eq_Ok catch_eq_Panic)

section \<open>What a computation may change\<close>

text \<open>
  Gas that is left, with exhausted gas below everything, so that a computation never increases it.
\<close>

definition gas_le :: "Gas \<Rightarrow> Gas \<Rightarrow> bool" where
  "gas_le g h = (case g of None \<Rightarrow> True | Some m \<Rightarrow> (case h of None \<Rightarrow> False | Some n \<Rightarrow> m \<le> n))"

lemma gas_le_refl [simp]: "gas_le g g"
  by (simp add: gas_le_def split: option.split)

lemma gas_le_trans: "gas_le a b \<Longrightarrow> gas_le b c \<Longrightarrow> gas_le a c"
  by (auto simp: gas_le_def split: option.splits)

text \<open>A computation that changes nothing but the gas, which it does not increase.\<close>

definition only_gas :: "('e, 'a) comp \<Rightarrow> bool" where
  "only_gas m \<longleftrightarrow> (\<forall>ctx r ctx'. m ctx = (r, ctx') \<longrightarrow>
     gas_le (ctx_gas ctx') (ctx_gas ctx) \<and> ctx' = ctx\<lparr>ctx_gas := ctx_gas ctx'\<rparr>)"

named_theorems only_gas_intros

lemma only_gasI:
  "(\<And>ctx r ctx'. m ctx = (r, ctx') \<Longrightarrow> gas_le (ctx_gas ctx') (ctx_gas ctx) \<and> ctx' = ctx\<lparr>ctx_gas := ctx_gas ctx'\<rparr>) \<Longrightarrow>
    only_gas m"
  by (auto simp: only_gas_def)

lemma only_gasD:
  assumes "only_gas m" "m ctx = (r, ctx')"
  shows "gas_le (ctx_gas ctx') (ctx_gas ctx)" "ctx' = ctx\<lparr>ctx_gas := ctx_gas ctx'\<rparr>"
  using assms by (auto simp: only_gas_def)

lemma only_gas_basic [only_gas_intros]:
  "only_gas (return x)" "only_gas (throw e)" "only_gas (panic p)" "only_gas (lift s)" "only_gas (read f)"
  by (auto simp: only_gas_def)

lemma same_but_gas_trans:
  "ctx' = ctx\<lparr>ctx_gas := g\<rparr> \<Longrightarrow> ctx'' = ctx'\<lparr>ctx_gas := h\<rparr> \<Longrightarrow> ctx'' = ctx\<lparr>ctx_gas := h\<rparr>"
  by simp

lemma only_gas_bind [only_gas_intros]:
  assumes "only_gas m" "\<And>x. only_gas (k x)"
  shows "only_gas (bind m k)"
proof (rule only_gasI)
  fix ctx r ctx' assume *: "bind m k ctx = (r, ctx')"
  obtain r1 ctx1 where m: "m ctx = (r1, ctx1)" by (cases "m ctx")
  note m' = only_gasD [OF assms(1) m]
  show "gas_le (ctx_gas ctx') (ctx_gas ctx) \<and> ctx' = ctx\<lparr>ctx_gas := ctx_gas ctx'\<rparr>"
  proof (cases r1)
    case (Ok x)
    then have k: "k x ctx1 = (r, ctx')" using * m by (simp add: bind_def)
    have "ctx' = ctx\<lparr>ctx_gas := ctx_gas ctx'\<rparr>"
      by (rule same_but_gas_trans [OF m'(2) only_gasD(2) [OF assms(2) k]])
    then show ?thesis
      using gas_le_trans [OF only_gasD(1) [OF assms(2) k] m'(1)] by blast
  qed (use * m m' in \<open>auto simp: bind_def\<close>)
qed

lemma only_gas_catch [only_gas_intros]:
  assumes "only_gas m" "\<And>e. only_gas (h e)"
  shows "only_gas (catch m h)"
proof (rule only_gasI)
  fix ctx r ctx' assume *: "catch m h ctx = (r, ctx')"
  obtain r1 ctx1 where m: "m ctx = (r1, ctx1)" by (cases "m ctx")
  note m' = only_gasD [OF assms(1) m]
  show "gas_le (ctx_gas ctx') (ctx_gas ctx) \<and> ctx' = ctx\<lparr>ctx_gas := ctx_gas ctx'\<rparr>"
  proof (cases r1)
    case (Err e)
    then have h: "h e ctx1 = (r, ctx')" using * m by (simp add: catch_def)
    have "ctx' = ctx\<lparr>ctx_gas := ctx_gas ctx'\<rparr>"
      by (rule same_but_gas_trans [OF m'(2) only_gasD(2) [OF assms(2) h]])
    then show ?thesis
      using gas_le_trans [OF only_gasD(1) [OF assms(2) h] m'(1)] by blast
  qed (use * m m' in \<open>auto simp: catch_def\<close>)
qed

lemma only_gas_map_err [only_gas_intros]: "only_gas m \<Longrightarrow> only_gas (map_err_comp f m)"
  unfolding map_err_comp_def by (intro only_gas_intros)

lemma only_gas_consume [only_gas_intros]: "only_gas (consume oog cost)"
  by (auto simp: only_gas_def consume_def gas_consume_def gas_le_def split: option.splits if_splits)

lemma only_gas_charge [only_gas_intros]: "only_gas (charge oog c)"
  unfolding charge_def by (intro only_gas_intros)

lemma consume_eq_Ok:
  "consume oog cost ctx = (Ok u, ctx') \<longleftrightarrow>
    (\<exists>n. ctx_gas ctx = Some n \<and> cost \<le> n \<and> ctx' = ctx\<lparr>ctx_gas := Some (n - cost)\<rparr>)"
  by (rule gas_consume_cases [of "ctx_gas ctx" cost]) (auto simp: consume_def)

lemma consume_eq_Panic:
  "consume oog cost ctx = (Panic p, ctx') \<Longrightarrow> p = GasExhausted \<and> ctx_gas ctx = None"
  by (rule gas_consume_cases [of "ctx_gas ctx" cost]) (auto simp: consume_def)

lemma charge_eq_Panic:
  "charge oog c ctx = (Panic p, ctx') \<Longrightarrow> c = Panic p \<or> p = GasExhausted"
  by (auto simp: charge_def bind_eq_Panic map_err_outcome_Panic dest: consume_eq_Panic)

lemma charge_eq_Ok:
  "charge oog c ctx = (Ok u, ctx') \<longleftrightarrow>
    (\<exists>cost n. c = Ok cost \<and> ctx_gas ctx = Some n \<and> cost \<le> n \<and> ctx' = ctx\<lparr>ctx_gas := Some (n - cost)\<rparr>)"
  by (auto simp: charge_def bind_eq_Ok map_err_outcome_Ok consume_eq_Ok)

section \<open>Weakest preconditions\<close>

text \<open>
  \<open>wp P E m Q ctx\<close>: run from \<open>ctx\<close>, the computation \<open>m\<close> returns with \<open>Q\<close>, fails with \<open>E\<close> or panics
  for a reason in \<open>P\<close>.
\<close>

definition wp ::
  "PanicReason set \<Rightarrow> ('e \<Rightarrow> Ctx \<Rightarrow> bool) \<Rightarrow> ('e, 'a) comp \<Rightarrow> ('a \<Rightarrow> Ctx \<Rightarrow> bool) \<Rightarrow> Ctx \<Rightarrow> bool" where
  "wp P E m Q ctx =
     (case m ctx of (Ok x, ctx') \<Rightarrow> Q x ctx' | (Err e, ctx') \<Rightarrow> E e ctx' | (Panic p, ctx') \<Rightarrow> p \<in> P)"

lemma wp_simps [simp]:
  "wp P E (return x) Q = Q x"
  "wp P E (throw e) Q = E e"
  "wp P E (panic p) Q = (\<lambda>_. p \<in> P)"
  "wp P E (read f) Q = (\<lambda>ctx. Q (f ctx) ctx)"
  "wp P E (bind m k) Q = wp P E m (\<lambda>x. wp P E (k x) Q)"
  "wp P E (lift (Ok x)) Q = Q x"
  "wp P E (lift (Err e)) Q = E e"
  "wp P E (lift (Panic p)) Q = (\<lambda>_. p \<in> P)"
  by (auto simp: wp_def return_def throw_def panic_def read_def lift_def bind_def fun_eq_iff
      split: outcome.split prod.split)

lemma wp_catch [simp]: "wp P E (catch m h) Q = wp P (\<lambda>e. wp P E (h e) Q) m Q"
  by (auto simp: wp_def catch_def fun_eq_iff split: outcome.split prod.split)

lemma wp_map_err [simp]: "wp P E (map_err_comp f m) Q = wp P (\<lambda>e. E (f e)) m Q"
  by (simp add: map_err_comp_def)

lemma wp_lift:
  "wp P E (lift r) Q ctx \<longleftrightarrow>
    (\<forall>x. r = Ok x \<longrightarrow> Q x ctx) \<and> (\<forall>e. r = Err e \<longrightarrow> E e ctx) \<and> (\<forall>p. r = Panic p \<longrightarrow> p \<in> P)"
  by (cases r) simp_all

lemma wp_mono:
  assumes "wp P E m Q ctx"
    and "\<And>x ctx'. m ctx = (Ok x, ctx') \<Longrightarrow> Q x ctx' \<Longrightarrow> Q' x ctx'"
    and "\<And>e ctx'. m ctx = (Err e, ctx') \<Longrightarrow> E e ctx' \<Longrightarrow> E' e ctx'"
    and "P \<subseteq> P'"
  shows "wp P' E' m Q' ctx"
  using assms by (auto simp: wp_def split: outcome.splits prod.splits)

lemma wpD:
  assumes "wp P E m Q ctx"
  shows "m ctx = (Ok x, ctx') \<Longrightarrow> Q x ctx'" "m ctx = (Err e, ctx') \<Longrightarrow> E e ctx'"
    "m ctx = (Panic p, ctx') \<Longrightarrow> p \<in> P"
  using assms by (auto simp: wp_def)

text \<open>
  An invariant of the context that paying for gas keeps, with the panic of exhausted gas allowed
  where the invariant does not exclude it.
\<close>

locale metered =
  fixes I :: "Ctx \<Rightarrow> bool" and P :: "PanicReason set" and E :: "'e \<Rightarrow> Ctx \<Rightarrow> bool" and oog :: 'e
  assumes paid: "I ctx \<Longrightarrow> ctx_gas ctx = Some n \<Longrightarrow> cost \<le> n \<Longrightarrow> I (ctx\<lparr>ctx_gas := Some (n - cost)\<rparr>)"
    and unpaid: "I ctx \<Longrightarrow> ctx_gas ctx = Some n \<Longrightarrow> E oog (ctx\<lparr>ctx_gas := None\<rparr>)"
    and exhausted: "I ctx \<Longrightarrow> ctx_gas ctx = None \<Longrightarrow> GasExhausted \<in> P"
    and uncosted: "I ctx \<Longrightarrow> E oog ctx"
begin

lemma wp_consume:
  assumes "I ctx" "\<And>ctx'. I ctx' \<Longrightarrow> Q () ctx'"
  shows "wp P E (consume oog cost) Q ctx"
  using assms paid [of ctx] unpaid [of ctx] exhausted [of ctx]
  by (auto simp: wp_def consume_def gas_consume_def split: option.split)

lemma wp_charge:
  assumes "I ctx" "\<And>p. c \<noteq> Panic p" "\<And>ctx'. I ctx' \<Longrightarrow> Q () ctx'"
  shows "wp P E (charge oog c) Q ctx"
  using assms uncosted [of ctx] by (cases c) (auto simp: charge_def intro: wp_consume)

lemma wp_charge_compare:
  assumes "I ctx" "\<And>p. c = Panic p \<Longrightarrow> p \<in> P" "\<And>ctx'. I ctx' \<Longrightarrow> Q () ctx'"
  shows "wp P E (charge oog c) Q ctx"
  using assms uncosted [of ctx] by (cases c) (auto simp: charge_def intro: wp_consume)

end

end
