(* ===== verification/MIR_Types.thy ===== *)
theory MIR_Types
  imports MIR_Context
begin

text \<open>
  Michelson types in the type checker (\<open>src/contrib/mir/src/typechecker.rs\<close>,
  \<open>typechecker/type_props.rs\<close>, \<open>FailingTypeStack\<close> of \<open>stack.rs\<close>): errors, properties of types, parsing
  of types, equality of types and stacks.  The shared lemmas say that these computations change
  nothing but the gas and panic only when exhausted gas is used.
\<close>

section \<open>Errors\<close>

text \<open>
  The constructors of the source.  The parts that only serve the printed message (offending stacks,
  texts, the reasons of \<open>NoMatchingOverload\<close> and \<open>StacksNotEqual\<close>) are left out.
\<close>

datatype TypeProperty =
    Comparable | Passable | Storable | Pushable | Packable | BigMapValue | Duplicable

datatype (plugins only: size) TcError =
    StacksNotEqual
  | TcOutOfGas
  | InvalidTypeProperty TypeProperty Type
  | FailNotInTail
  | NumericConversion
  | TypesNotEqual Type Type
  | Dup0
  | PairN01 Prim nat
  | InvalidValueForType Type
  | InvalidEltForMap Type
  | ElementsNotSorted Type
  | DuplicateElements Type
  | NoMatchingOverload Prim
  | TcByteReprError Type ByteReprError
  | EntrypointError ByteReprError
  | ChainIdError
  | SelfForbidden
  | NoSuchEntrypoint Entrypoint
  | NoSuchContract
  | UnexpectedImplicitAccountType Type
  | EntrypointAmbiguity
  | UnexpectedMicheline
  | DuplicateTopLevelElt Prim
  | MissingTopLevelElt Prim
  | ExpectedU10 int
  | TcAnnotationError AnnotationError
  | DuplicateEntrypoint Entrypoint
  | ExplicitDefaultEntrypointError Prim
  | TodoInstr Prim
  | TodoType Prim
  | BigMapNotFound int
  | TcLazyStorageError LazyStorageError
  | MapBlockEmptyStack
  | MapBlockFail

type_synonym 'a tc = "(TcError, 'a) comp"

abbreviation tc_consume :: "nat \<Rightarrow> unit tc" where
  "tc_consume \<equiv> consume TcOutOfGas"

abbreviation tc_charge :: "cost \<Rightarrow> unit tc" where
  "tc_charge \<equiv> charge TcOutOfGas"

section \<open>Stacks of types\<close>

type_synonym TypeStack = "Type list"

datatype FailingTypeStack = Stk TypeStack | Failed

fun access_mut :: "FailingTypeStack \<Rightarrow> 'e \<Rightarrow> ('e, TypeStack) comp" where
  "access_mut (Stk stack) err = return stack"
| "access_mut Failed err = throw err"

definition ensure_ty_eq :: "Type \<Rightarrow> Type \<Rightarrow> unit tc" where
  "ensure_ty_eq ty1 ty2 =
     bind (tc_charge (tc_ty_eq (size_for_gas ty1) (size_for_gas ty2))) (\<lambda>_.
       if ty1 \<noteq> ty2 then throw (TypesNotEqual ty1 ty2) else return ())"

fun types_not_equal_as :: "TcError \<Rightarrow> TcError \<Rightarrow> TcError" where
  "types_not_equal_as err (TypesNotEqual ty1 ty2) = err"
| "types_not_equal_as err e = e"

fun ensure_all_ty_eq :: "TypeStack \<Rightarrow> TypeStack \<Rightarrow> unit tc" where
  "ensure_all_ty_eq (ty1 # stack1) (ty2 # stack2) =
     bind (map_err_comp (types_not_equal_as StacksNotEqual) (ensure_ty_eq ty1 ty2)) (\<lambda>_.
       ensure_all_ty_eq stack1 stack2)"
| "ensure_all_ty_eq _ _ = return ()"

definition ensure_stacks_eq :: "TypeStack \<Rightarrow> TypeStack \<Rightarrow> unit tc" where
  "ensure_stacks_eq stack1 stack2 =
     (if length stack1 \<noteq> length stack2 then throw StacksNotEqual
      else ensure_all_ty_eq stack1 stack2)"

text \<open>The new value of \<open>dest\<close>.\<close>

fun unify_stacks :: "FailingTypeStack \<Rightarrow> FailingTypeStack \<Rightarrow> FailingTypeStack tc" where
  "unify_stacks (Stk stack1) (Stk stack2) =
     bind (ensure_stacks_eq stack1 stack2) (\<lambda>_. return (Stk stack1))"
| "unify_stacks (Stk stack1) Failed = return (Stk stack1)"
| "unify_stacks Failed aux = return aux"

definition ensure_stack_len :: "Prim \<Rightarrow> TypeStack \<Rightarrow> nat \<Rightarrow> unit tc" where
  "ensure_stack_len instr stack l =
     (if length stack \<ge> l then return () else throw (NoMatchingOverload instr))"

definition validate_u10 :: "int \<Rightarrow> nat tc" where
  "validate_u10 n =
     (if n < 0 \<or> n \<ge> 2 ^ 16 then throw (ExpectedU10 n)
      else if nat n \<ge> 1024 then throw (ExpectedU10 n)
      else return (nat n))"

text \<open>\<open>get_nth_field_ref\<close> returns a place in a type; here, its contents and how to replace them.\<close>

fun get_nth_field :: "nat \<Rightarrow> Type \<Rightarrow> Type option" where
  "get_nth_field 0 ty = Some ty"
| "get_nth_field (Suc 0) (T_Pair l r) = Some l"
| "get_nth_field (Suc (Suc m)) (T_Pair l r) = get_nth_field m r"
| "get_nth_field _ _ = None"

fun set_nth_field :: "nat \<Rightarrow> Type \<Rightarrow> Type \<Rightarrow> Type option" where
  "set_nth_field 0 new ty = Some new"
| "set_nth_field (Suc 0) new (T_Pair l r) = Some (T_Pair new r)"
| "set_nth_field (Suc (Suc m)) new (T_Pair l r) = map_option (T_Pair l) (set_nth_field m new r)"
| "set_nth_field _ _ _ = None"

section \<open>Properties of types\<close>

text \<open>
  \<open>ensure_prop\<close> charges for every node it visits.  A composite type has the property if the visited
  parts have it; the other types have it or not.
\<close>

fun ensure_prop :: "Type \<Rightarrow> TypeProperty \<Rightarrow> unit tc" where
  "ensure_prop ty prop =
     bind (tc_consume tc_TYPE_PROP_STEP) (\<lambda>_.
       case ty of
         T_Ticket _ \<Rightarrow>
           if prop \<in> {Comparable, Pushable, Duplicable, Packable}
           then throw (InvalidTypeProperty prop ty) else return ()
       | T_Bls12381Fr \<Rightarrow> if prop = Comparable then throw (InvalidTypeProperty prop ty) else return ()
       | T_Bls12381G1 \<Rightarrow> if prop = Comparable then throw (InvalidTypeProperty prop ty) else return ()
       | T_Bls12381G2 \<Rightarrow> if prop = Comparable then throw (InvalidTypeProperty prop ty) else return ()
       | T_Operation \<Rightarrow> if prop \<noteq> Duplicable then throw (InvalidTypeProperty prop ty) else return ()
       | T_Pair l r \<Rightarrow> bind (ensure_prop l prop) (\<lambda>_. ensure_prop r prop)
       | T_Or l r \<Rightarrow> bind (ensure_prop l prop) (\<lambda>_. ensure_prop r prop)
       | T_Option x \<Rightarrow> ensure_prop x prop
       | T_List x \<Rightarrow>
           if prop = Comparable then throw (InvalidTypeProperty prop ty) else ensure_prop x prop
       | T_Set x \<Rightarrow>
           if prop = Comparable then throw (InvalidTypeProperty prop ty) else ensure_prop x prop
       | T_Map k v \<Rightarrow>
           if prop = Comparable then throw (InvalidTypeProperty prop ty) else ensure_prop v prop
       | T_BigMap k v \<Rightarrow>
           if prop \<in> {Comparable, BigMapValue, Packable, Pushable}
           then throw (InvalidTypeProperty prop ty) else ensure_prop v prop
       | T_Contract _ \<Rightarrow>
           if prop \<in> {Passable, Packable, Duplicable} then return ()
           else throw (InvalidTypeProperty prop ty)
       | T_Lambda _ _ \<Rightarrow> if prop = Comparable then throw (InvalidTypeProperty prop ty) else return ()
       | _ \<Rightarrow> return ())"

declare ensure_prop.simps [simp del]

section \<open>Parsing types\<close>

text \<open>
  Primitives of the types without arguments.  The arms of the source that follow one another for
  each such primitive accept it without arguments and reject it otherwise.
\<close>

definition atomic_types :: "(Prim \<times> Type) list" where
  "atomic_types =
     [(''int'', T_Int), (''nat'', T_Nat), (''bool'', T_Bool), (''mumav'', T_Mumav),
      (''string'', T_String), (''operation'', T_Operation), (''never'', T_Never), (''unit'', T_Unit),
      (''address'', T_Address), (''chain_id'', T_ChainId), (''timestamp'', T_Timestamp),
      (''bytes'', T_Bytes), (''key'', T_Key), (''key_hash'', T_KeyHash),
      (''signature'', T_Signature), (''bls12_381_fr'', T_Bls12381Fr),
      (''bls12_381_g1'', T_Bls12381G1), (''bls12_381_g2'', T_Bls12381G2)]"

definition micheline_unsupported_types :: "Prim list" where
  "micheline_unsupported_types =
     [''chest'', ''chest_key'', ''tx_rollup_l2_address'', ''sapling_state'', ''sapling_transaction'',
      ''sapling_transaction_deprecated'']"

definition lift_ann :: "(AnnotationError, 'a) result \<Rightarrow> 'a tc" where
  "lift_ann r = (case r of Inr x \<Rightarrow> return x | Inl e \<Rightarrow> throw (TcAnnotationError e))"

text \<open>
  What follows the match: a field annotation that is an entrypoint is recorded with the parsed type.
  The annotation of a type is always there, since only applications are types.
\<close>

definition record_entrypoint :: "Annotations \<Rightarrow> Type \<Rightarrow> Entrypoints option \<Rightarrow> (Type \<times> Entrypoints option) tc" where
  "record_entrypoint anns parsed_ty entrypoints =
     (case entrypoints of
        None \<Rightarrow> return (parsed_ty, None)
      | Some eps \<Rightarrow>
          bind (lift_ann (get_single_field_ann anns)) (\<lambda>ann.
            case ann of
              None \<Rightarrow> return (parsed_ty, Some eps)
            | Some field_ann \<Rightarrow>
                (case entrypoint_try_from_ann field_ann of
                   Ok entrypoint \<Rightarrow>
                     if eps entrypoint \<noteq> None then throw (DuplicateEntrypoint entrypoint)
                     else return (parsed_ty, Some (eps(entrypoint \<mapsto> parsed_ty)))
                 | _ \<Rightarrow> return (parsed_ty, Some eps))))"

fun micheline_size :: "Micheline \<Rightarrow> nat" where
  "micheline_size (App p args anns) = Suc (sum_list (map micheline_size args))"
| "micheline_size (Seq elts) = Suc (sum_list (map micheline_size elts))"
| "micheline_size _ = 1"

lemma micheline_size_pos [simp]: "0 < micheline_size m"
  by (cases m) simp_all

text \<open>Argument lists of a given length; any other list is unexpected.\<close>

fun expect_1 :: "Micheline list \<Rightarrow> (Micheline \<Rightarrow> 'a tc) \<Rightarrow> 'a tc" where
  "expect_1 [a] k = k a"
| "expect_1 _ k = throw UnexpectedMicheline"

fun expect_2 :: "Micheline list \<Rightarrow> (Micheline \<Rightarrow> Micheline \<Rightarrow> 'a tc) \<Rightarrow> 'a tc" where
  "expect_2 [a, b] k = k a b"
| "expect_2 _ k = throw UnexpectedMicheline"

lemma expect_1_cong [fundef_cong]:
  "args = args' \<Longrightarrow> (\<And>a. args' = [a] \<Longrightarrow> k a = k' a) \<Longrightarrow> expect_1 args k = expect_1 args' k'"
  by (cases "(args', k')" rule: expect_1.cases) simp_all

lemma expect_2_cong [fundef_cong]:
  "args = args' \<Longrightarrow> (\<And>a b. args' = [a, b] \<Longrightarrow> k a b = k' a b) \<Longrightarrow> expect_2 args k = expect_2 args' k'"
  by (cases "(args', k')" rule: expect_2.cases) simp_all

function (sequential) parse_ty_with_entrypoints ::
    "Micheline \<Rightarrow> Entrypoints option \<Rightarrow> (Type \<times> Entrypoints option) tc"
  and make_pair :: "Micheline list \<Rightarrow> Type tc" where
  "parse_ty_with_entrypoints (App prim args anns) entrypoints =
     bind (tc_consume tc_PARSE_TYPE_STEP) (\<lambda>_.
     bind
       (case map_of atomic_types prim of
          Some ty \<Rightarrow> if args = [] then return (ty, entrypoints) else throw UnexpectedMicheline
        | None \<Rightarrow>
          if prim = ''ticket'' then
            expect_1 args (\<lambda>t.
              bind (parse_ty_with_entrypoints t None) (\<lambda>(t, _).
              bind (ensure_prop t Comparable) (\<lambda>_. return (T_Ticket t, entrypoints))))
          else if prim = ''pair'' then
            if length args \<ge> 2 then bind (make_pair args) (\<lambda>t. return (t, entrypoints))
            else throw UnexpectedMicheline
          else if prim = ''or'' then
            expect_2 args (\<lambda>l r.
              bind (parse_ty_with_entrypoints l entrypoints) (\<lambda>(l, entrypoints).
              bind (parse_ty_with_entrypoints r entrypoints) (\<lambda>(r, entrypoints).
                return (T_Or l r, entrypoints))))
          else if prim = ''option'' then
            expect_1 args (\<lambda>t.
              bind (parse_ty_with_entrypoints t None) (\<lambda>(t, _). return (T_Option t, entrypoints)))
          else if prim = ''list'' then
            expect_1 args (\<lambda>t.
              bind (parse_ty_with_entrypoints t None) (\<lambda>(t, _). return (T_List t, entrypoints)))
          else if prim = ''lambda'' then
            expect_2 args (\<lambda>ty1 ty2.
              bind (parse_ty_with_entrypoints ty1 None) (\<lambda>(ty1, _).
              bind (parse_ty_with_entrypoints ty2 None) (\<lambda>(ty2, _).
                return (T_Lambda ty1 ty2, entrypoints))))
          else if prim = ''contract'' then
            expect_1 args (\<lambda>t.
              bind (parse_ty_with_entrypoints t None) (\<lambda>(t, _).
              bind (ensure_prop t Passable) (\<lambda>_. return (T_Contract t, entrypoints))))
          else if prim = ''set'' then
            expect_1 args (\<lambda>k.
              bind (parse_ty_with_entrypoints k None) (\<lambda>(k, _).
              bind (ensure_prop k Comparable) (\<lambda>_. return (T_Set k, entrypoints))))
          else if prim = ''map'' then
            expect_2 args (\<lambda>k v.
              bind (parse_ty_with_entrypoints k None) (\<lambda>(k, _).
              bind (ensure_prop k Comparable) (\<lambda>_.
              bind (parse_ty_with_entrypoints v None) (\<lambda>(v, _). return (T_Map k v, entrypoints)))))
          else if prim = ''big_map'' then
            expect_2 args (\<lambda>k v.
              bind (parse_ty_with_entrypoints k None) (\<lambda>(k, _).
              bind (ensure_prop k Comparable) (\<lambda>_.
              bind (parse_ty_with_entrypoints v None) (\<lambda>(v, _).
              bind (ensure_prop v BigMapValue) (\<lambda>_. return (T_BigMap k v, entrypoints))))))
          else if prim \<in> set micheline_unsupported_types then throw (TodoType prim)
          else throw UnexpectedMicheline) (\<lambda>(parsed_ty, entrypoints).
       record_entrypoint anns parsed_ty entrypoints))"
| "parse_ty_with_entrypoints _ entrypoints =
     bind (tc_consume tc_PARSE_TYPE_STEP) (\<lambda>_. throw UnexpectedMicheline)"
| "make_pair [ty1, ty2] =
     bind (parse_ty_with_entrypoints ty1 None) (\<lambda>(l, _).
     bind (parse_ty_with_entrypoints ty2 None) (\<lambda>(r, _). return (T_Pair l r)))"
| "make_pair (ty1 # ty2 # ty3 # rest) =
     bind (parse_ty_with_entrypoints ty1 None) (\<lambda>(l, _).
     bind (make_pair (ty2 # ty3 # rest)) (\<lambda>r. return (T_Pair l r)))"
| "make_pair _ = panic Unreachable"
  by pat_completeness auto

termination
  by (relation "measure (case_sum (\<lambda>(m, _). micheline_size m) (\<lambda>ms. sum_list (map micheline_size ms)))") auto

definition parse_ty :: "Micheline \<Rightarrow> Type tc" where
  "parse_ty ty = bind (parse_ty_with_entrypoints ty None) (\<lambda>(t, _). return t)"

definition parse_parameter_ty_with_entrypoints :: "Micheline \<Rightarrow> (Entrypoints \<times> Type) tc" where
  "parse_parameter_ty_with_entrypoints parameter_ty =
     bind (parse_ty_with_entrypoints parameter_ty (Some Map.empty)) (\<lambda>(parameter, entrypoints).
       let eps = the entrypoints in
       return (if eps entrypoint_default \<noteq> None then eps else eps(entrypoint_default \<mapsto> parameter),
               parameter))"

definition get_entrypoints :: "Micheline \<Rightarrow> Entrypoints tc" where
  "get_entrypoints m = bind (parse_parameter_ty_with_entrypoints m) (\<lambda>(entrypoints, _). return entrypoints)"

text \<open>A context for examples.\<close>

definition example_context :: Ctx where
  "example_context =
     \<lparr>ctx_gas = Some 100000, ctx_amount = 5, ctx_balance = 100, ctx_level = 1, ctx_sender = Kt1 [1], ctx_source = Kt1 [2],
      ctx_min_block_time = 30, ctx_chain_id = [0, 0, 0, 0], ctx_self_address = Kt1 [3], ctx_lookup_contract = (\<lambda>_. None),
      ctx_voting_powers = (\<lambda>_. 0), ctx_now = 0, ctx_total_voting_power = 0, ctx_operation_group_hash = [],
      ctx_big_map_storage = example_storage, ctx_origination_counter = 0, ctx_operation_counter = 0\<rparr>"

section \<open>Specification of type properties\<close>

text \<open>The property that \<open>ensure_prop\<close> decides, and well-formed types: keys are comparable.\<close>

fun has_prop :: "TypeProperty \<Rightarrow> Type \<Rightarrow> bool" where
  "has_prop p (T_Ticket t) \<longleftrightarrow> p \<notin> {Comparable, Pushable, Duplicable, Packable}"
| "has_prop p T_Bls12381Fr \<longleftrightarrow> p \<noteq> Comparable"
| "has_prop p T_Bls12381G1 \<longleftrightarrow> p \<noteq> Comparable"
| "has_prop p T_Bls12381G2 \<longleftrightarrow> p \<noteq> Comparable"
| "has_prop p T_Operation \<longleftrightarrow> p = Duplicable"
| "has_prop p (T_Pair l r) \<longleftrightarrow> has_prop p l \<and> has_prop p r"
| "has_prop p (T_Or l r) \<longleftrightarrow> has_prop p l \<and> has_prop p r"
| "has_prop p (T_Option t) \<longleftrightarrow> has_prop p t"
| "has_prop p (T_List t) \<longleftrightarrow> p \<noteq> Comparable \<and> has_prop p t"
| "has_prop p (T_Set t) \<longleftrightarrow> p \<noteq> Comparable \<and> has_prop p t"
| "has_prop p (T_Map k v) \<longleftrightarrow> p \<noteq> Comparable \<and> has_prop p v"
| "has_prop p (T_BigMap k v) \<longleftrightarrow> p \<notin> {Comparable, BigMapValue, Packable, Pushable} \<and> has_prop p v"
| "has_prop p (T_Contract t) \<longleftrightarrow> p \<in> {Passable, Packable, Duplicable}"
| "has_prop p (T_Lambda a b) \<longleftrightarrow> p \<noteq> Comparable"
| "has_prop p _ \<longleftrightarrow> True"

fun type_ok :: "Type \<Rightarrow> bool" where
  "type_ok (T_Pair l r) \<longleftrightarrow> type_ok l \<and> type_ok r"
| "type_ok (T_Or l r) \<longleftrightarrow> type_ok l \<and> type_ok r"
| "type_ok (T_Option t) \<longleftrightarrow> type_ok t"
| "type_ok (T_List t) \<longleftrightarrow> type_ok t"
| "type_ok (T_Set k) \<longleftrightarrow> has_prop Comparable k \<and> type_ok k"
| "type_ok (T_Map k v) \<longleftrightarrow> has_prop Comparable k \<and> type_ok k \<and> type_ok v"
| "type_ok (T_BigMap k v) \<longleftrightarrow> has_prop Comparable k \<and> has_prop BigMapValue v \<and> type_ok k \<and> type_ok v"
| "type_ok (T_Contract t) \<longleftrightarrow> has_prop Passable t \<and> type_ok t"
| "type_ok (T_Lambda a b) \<longleftrightarrow> type_ok a \<and> type_ok b"
| "type_ok (T_Ticket t) \<longleftrightarrow> type_ok t"
| "type_ok _ \<longleftrightarrow> True"

definition entrypoints_ok :: "Entrypoints \<Rightarrow> bool" where
  "entrypoints_ok eps \<longleftrightarrow> (\<forall>e t. eps e = Some t \<longrightarrow> type_ok t)"

section \<open>The effect on the context\<close>

lemma only_gas_access_mut [only_gas_intros]: "only_gas (access_mut s e)"
  by (cases s) (auto intro: only_gas_intros)

lemma only_gas_ensure_ty_eq [only_gas_intros]: "only_gas (ensure_ty_eq a b)"
  by (auto simp: ensure_ty_eq_def intro!: only_gas_intros)

lemma only_gas_ensure_all_ty_eq [only_gas_intros]: "only_gas (ensure_all_ty_eq a b)"
  by (induction a b rule: ensure_all_ty_eq.induct) (auto intro!: only_gas_intros)

lemma only_gas_ensure_stacks_eq [only_gas_intros]: "only_gas (ensure_stacks_eq a b)"
  by (auto simp: ensure_stacks_eq_def intro!: only_gas_intros)

lemma only_gas_unify_stacks [only_gas_intros]: "only_gas (unify_stacks a b)"
  by (cases "(a, b)" rule: unify_stacks.cases) (auto intro!: only_gas_intros)

lemma only_gas_checks [only_gas_intros]:
  "only_gas (ensure_stack_len p s n)" "only_gas (validate_u10 i)" "only_gas (lift_ann r)"
  by (auto simp: ensure_stack_len_def validate_u10_def lift_ann_def intro!: only_gas_intros split: sum.split)

lemma only_gas_ensure_prop [only_gas_intros]: "only_gas (ensure_prop t p)"
  by (induction t; subst ensure_prop.simps) (auto intro!: only_gas_intros)

lemma only_gas_if [only_gas_intros]:
  "(b \<Longrightarrow> only_gas m) \<Longrightarrow> (\<not> b \<Longrightarrow> only_gas n) \<Longrightarrow> only_gas (if b then m else n)"
  by simp

lemma only_gas_case_option [only_gas_intros]:
  "(x = None \<Longrightarrow> only_gas m) \<Longrightarrow> (\<And>y. x = Some y \<Longrightarrow> only_gas (k y)) \<Longrightarrow> only_gas (case_option m k x)"
  by (cases x) simp_all

lemma only_gas_case_prod [only_gas_intros]:
  "(\<And>a b. x = (a, b) \<Longrightarrow> only_gas (k a b)) \<Longrightarrow> only_gas (case_prod k x)"
  by (cases x) simp_all

lemma only_gas_expect [only_gas_intros]:
  "(\<And>a. args = [a] \<Longrightarrow> only_gas (k1 a)) \<Longrightarrow> only_gas (expect_1 args k1)"
  "(\<And>a b. args = [a, b] \<Longrightarrow> only_gas (k2 a b)) \<Longrightarrow> only_gas (expect_2 args k2)"
  by (cases "(args, k1)" rule: expect_1.cases; simp add: only_gas_intros)
    (cases "(args, k2)" rule: expect_2.cases; simp add: only_gas_intros)

lemma only_gas_record_entrypoint [only_gas_intros]: "only_gas (record_entrypoint anns t eps)"
  by (auto simp: record_entrypoint_def intro!: only_gas_intros split: outcome.split)

lemma only_gas_make_pair:
  "(\<And>m eps. m \<in> set ms \<Longrightarrow> only_gas (parse_ty_with_entrypoints m eps)) \<Longrightarrow> only_gas (make_pair ms)"
proof (induction ms rule: induct_list012)
  case (3 x y zs)
  then show ?case
    by (cases zs) (auto intro!: only_gas_intros)
qed (auto intro!: only_gas_intros)

lemma only_gas_parse [only_gas_intros]: "only_gas (parse_ty_with_entrypoints m eps)"
proof (induction m arbitrary: eps)
  case (App prim args anns)
  show ?case
    by (subst parse_ty_with_entrypoints.simps) (intro only_gas_intros only_gas_make_pair App; simp)
qed (auto intro!: only_gas_intros)

lemma only_gas_parse_ty [only_gas_intros]: "only_gas (parse_ty m)"
  by (auto simp: parse_ty_def intro!: only_gas_intros)

lemma only_gas_parse_parameter [only_gas_intros]: "only_gas (parse_parameter_ty_with_entrypoints m)"
  by (auto simp: parse_parameter_ty_with_entrypoints_def Let_def intro!: only_gas_intros split: prod.split)

section \<open>What the checks establish\<close>

text \<open>
  Runs of the type checker under an invariant of the context that fixes the storage of big maps.
\<close>

locale tc_run = metered I P "\<lambda>(_ :: TcError) _. True" TcOutOfGas
  for I :: "Ctx \<Rightarrow> bool" and P :: "PanicReason set" +
  fixes storage :: InMemoryLazyStorage
  assumes same_storage: "I ctx \<Longrightarrow> ctx_big_map_storage ctx = storage"
begin

lemma wp_access_mut: "(\<And>stk. s = Stk stk \<Longrightarrow> Q stk ctx) \<Longrightarrow> wp P (\<lambda>_ _. True) (access_mut s e) Q ctx"
  by (cases s) auto

lemma wp_ensure_ty_eq:
  assumes "I ctx" "\<And>ctx'. I ctx' \<Longrightarrow> a = b \<Longrightarrow> Q () ctx'"
  shows "wp P (\<lambda>_ _. True) (ensure_ty_eq a b) Q ctx"
  using assms by (auto simp: ensure_ty_eq_def intro!: wp_charge)

lemma wp_ensure_all_ty_eq:
  assumes "I ctx" "length s = length t" "\<And>ctx'. I ctx' \<Longrightarrow> s = t \<Longrightarrow> Q () ctx'"
  shows "wp P (\<lambda>_ _. True) (ensure_all_ty_eq s t) Q ctx"
  using assms
  by (induction s t arbitrary: ctx rule: ensure_all_ty_eq.induct) (auto intro!: wp_ensure_ty_eq)

lemma wp_ensure_stacks_eq:
  assumes "I ctx" "\<And>ctx'. I ctx' \<Longrightarrow> s = t \<Longrightarrow> Q () ctx'"
  shows "wp P (\<lambda>_ _. True) (ensure_stacks_eq s t) Q ctx"
  using assms by (auto simp: ensure_stacks_eq_def intro!: wp_ensure_all_ty_eq)

lemma wp_unify_stacks:
  assumes "I ctx"
    "\<And>ctx'. I ctx' \<Longrightarrow> s = Failed \<or> t = Failed \<or> s = t \<Longrightarrow> Q (if s = Failed then t else s) ctx'"
  shows "wp P (\<lambda>_ _. True) (unify_stacks s t) Q ctx"
  using assms by (cases "(s, t)" rule: unify_stacks.cases) (auto intro!: wp_ensure_stacks_eq)

lemma wp_ensure_stack_len:
  "(n \<le> length s \<Longrightarrow> Q () ctx) \<Longrightarrow> wp P (\<lambda>_ _. True) (ensure_stack_len p s n) Q ctx"
  by (simp add: ensure_stack_len_def)

lemma wp_validate_u10:
  "(\<And>n. i = int n \<Longrightarrow> n < 1024 \<Longrightarrow> Q n ctx) \<Longrightarrow> wp P (\<lambda>_ _. True) (validate_u10 i) Q ctx"
  by (simp add: validate_u10_def)

lemma wp_lift_ann:
  "(\<And>x. r = Inr x \<Longrightarrow> Q x ctx) \<Longrightarrow> wp P (\<lambda>_ _. True) (lift_ann r) Q ctx"
  by (cases r) (auto simp: lift_ann_def)

lemma wp_ensure_prop:
  assumes "I ctx" "\<And>ctx'. I ctx' \<Longrightarrow> has_prop p t \<Longrightarrow> Q () ctx'"
  shows "wp P (\<lambda>_ _. True) (ensure_prop t p) Q ctx"
  using assms
  by (induction t arbitrary: ctx Q; subst ensure_prop.simps) (auto intro!: wp_consume)

lemma wp_record_entrypoint:
  assumes "pred_option entrypoints_ok eps" "type_ok t"
    and "\<And>eps'. pred_option entrypoints_ok eps' \<Longrightarrow> eps' = None \<longleftrightarrow> eps = None \<Longrightarrow> Q (t, eps') ctx"
  shows "wp P (\<lambda>_ _. True) (record_entrypoint anns t eps) Q ctx"
  using assms
  by (auto simp: record_entrypoint_def entrypoints_ok_def pred_option_def intro!: wp_lift_ann
      split: option.split outcome.split)

lemma wp_if:
  "(b \<Longrightarrow> wp P E m Q ctx) \<Longrightarrow> (\<not> b \<Longrightarrow> wp P E n Q ctx) \<Longrightarrow> wp P E (if b then m else n) Q ctx"
  by simp

lemma wp_case_option:
  "(x = None \<Longrightarrow> wp P E m Q ctx) \<Longrightarrow> (\<And>y. x = Some y \<Longrightarrow> wp P E (k y) Q ctx) \<Longrightarrow>
    wp P E (case_option m k x) Q ctx"
  by (cases x) simp_all

lemma wp_expect:
  "(\<And>a. args = [a] \<Longrightarrow> wp P (\<lambda>_ _. True) (k1 a) Q ctx) \<Longrightarrow> wp P (\<lambda>_ _. True) (expect_1 args k1) Q ctx"
  "(\<And>a b. args = [a, b] \<Longrightarrow> wp P (\<lambda>_ _. True) (k2 a b) Q ctx) \<Longrightarrow> wp P (\<lambda>_ _. True) (expect_2 args k2) Q ctx"
  by (cases "(args, k1)" rule: expect_1.cases; simp)
    (cases "(args, k2)" rule: expect_2.cases; simp)

lemma wp_make_pair:
  assumes "I ctx" "2 \<le> length ms" "\<And>t ctx'. I ctx' \<Longrightarrow> type_ok t \<Longrightarrow> Q t ctx'"
    and "\<And>m ctx R. m \<in> set ms \<Longrightarrow> I ctx \<Longrightarrow> (\<And>t eps' ctx'. I ctx' \<Longrightarrow> type_ok t \<Longrightarrow> R (t, eps') ctx') \<Longrightarrow>
      wp P (\<lambda>_ _. True) (parse_ty_with_entrypoints m None) R ctx"
  shows "wp P (\<lambda>_ _. True) (make_pair ms) Q ctx"
  using assms
proof (induction ms arbitrary: ctx Q rule: induct_list012)
  case (3 x y zs)
  show ?case
  proof (cases zs)
    case Nil
    then show ?thesis using 3(3,5) by (auto intro!: 3(6))
  next
    case (Cons z zs')
    have "wp P (\<lambda>_ _. True) (make_pair (y # zs)) (\<lambda>r. Q (T_Pair t r)) ctx'" if "I ctx'" "type_ok t" for t ctx'
      using that Cons by (intro 3(2)) (auto intro!: 3(5,6))
    then show ?thesis using 3(3) Cons by (auto intro!: 3(6))
  qed
qed simp_all

lemma wp_parse_ty_with_entrypoints:
  assumes "I ctx" "pred_option entrypoints_ok eps"
    and "\<And>t eps' ctx'. I ctx' \<Longrightarrow> type_ok t \<Longrightarrow> pred_option entrypoints_ok eps' \<Longrightarrow> eps' = None \<longleftrightarrow> eps = None \<Longrightarrow>
      Q (t, eps') ctx'"
  shows "wp P (\<lambda>_ _. True) (parse_ty_with_entrypoints m eps) Q ctx"
  using assms
proof (induction m arbitrary: ctx eps Q)
  case (App prim args anns)
  have atomic: "type_ok t" if "map_of atomic_types prim = Some t" for t
    using map_of_SomeD [OF that] by (auto simp: atomic_types_def)
  have fin: "wp P (\<lambda>_ _. True) (record_entrypoint anns t eps') Q ctx'"
    if "I ctx'" "type_ok t" "pred_option entrypoints_ok eps'" "eps' = None \<longleftrightarrow> eps = None" for t eps' ctx'
    using that by (auto intro!: wp_record_entrypoint App.prems(3))
  show ?case
    unfolding parse_ty_with_entrypoints.simps wp_simps
    by (intro wp_consume wp_if wp_case_option wp_expect App.prems(1))
      (auto intro!: App.IH wp_make_pair wp_ensure_prop fin App.prems(2) dest: atomic)
qed (auto intro!: wp_consume)

lemma wp_parse_ty:
  assumes "I ctx" "\<And>t ctx'. I ctx' \<Longrightarrow> type_ok t \<Longrightarrow> Q t ctx'"
  shows "wp P (\<lambda>_ _. True) (parse_ty m) Q ctx"
  using assms by (auto simp: parse_ty_def intro!: wp_parse_ty_with_entrypoints)

lemma wp_parse_parameter:
  assumes "I ctx"
    and "\<And>eps t ctx'. I ctx' \<Longrightarrow> type_ok t \<Longrightarrow> entrypoints_ok eps \<Longrightarrow> Q (eps, t) ctx'"
  shows "wp P (\<lambda>_ _. True) (parse_parameter_ty_with_entrypoints m) Q ctx"
  using assms
  by (auto simp: parse_parameter_ty_with_entrypoints_def entrypoints_ok_def Let_def
      intro!: wp_parse_ty_with_entrypoints)

lemmas wp_checks = wp_consume wp_charge wp_access_mut wp_ensure_ty_eq wp_ensure_stacks_eq wp_unify_stacks
  wp_ensure_stack_len wp_validate_u10 wp_lift_ann wp_ensure_prop wp_parse_ty wp_parse_parameter

end

text \<open>The invariant of a run that starts with gas: it never uses exhausted gas.\<close>

definition live :: "InMemoryLazyStorage \<Rightarrow> Ctx \<Rightarrow> bool" where
  "live storage ctx \<longleftrightarrow> ctx_gas ctx \<noteq> None \<and> ctx_big_map_storage ctx = storage"

interpretation tc_live: tc_run "live storage" P storage for storage P
  by unfold_locales (auto simp: live_def)

text \<open>
  C40: Parsing a parameter type from Micheline, started with gas, never panics, whatever the input.
  If it succeeds, the type and the types of all entrypoints are well-formed (keys of sets and maps
  are comparable, values of big maps and parameters of contracts are allowed), the default
  entrypoint exists, some gas is left, and nothing but the gas of the context has changed.
\<close>

theorem parse_parameter_sound:
  assumes "ctx_gas ctx \<noteq> None" "parse_parameter_ty_with_entrypoints m ctx = (r, ctx')"
  shows "(\<forall>p. r \<noteq> Panic p) \<and>
    (\<forall>eps t. r = Ok (eps, t) \<longrightarrow>
       type_ok t \<and> entrypoints_ok eps \<and> eps entrypoint_default \<noteq> None \<and> ctx_gas ctx' \<noteq> None) \<and>
    gas_le (ctx_gas ctx') (ctx_gas ctx) \<and> ctx' = ctx\<lparr>ctx_gas := ctx_gas ctx'\<rparr>"
proof -
  define S where "S = ctx_big_map_storage ctx"
  have live: "live S ctx" using assms(1) by (simp add: live_def S_def)
  have w: "wp {} (\<lambda>_ _. True) (parse_parameter_ty_with_entrypoints m)
      (\<lambda>(eps, t) ctx'. live S ctx' \<and> type_ok t \<and> entrypoints_ok eps) ctx"
    by (rule tc_live.wp_parse_parameter [OF live]) simp
  have "eps entrypoint_default \<noteq> None" if "r = Ok (eps, t)" for eps t
    using assms(2) that
    by (auto simp: parse_parameter_ty_with_entrypoints_def bind_eq_Ok Let_def split: prod.splits if_splits)
      (metis fun_upd_same)
  then show ?thesis
    using wpD [OF w] assms(2) only_gasD [OF only_gas_parse_parameter assms(2)]
    by (cases r) (auto simp: live_def)
qed

lemma parse_parameter_example:
  "\<exists>eps ctx'. parse_parameter_ty_with_entrypoints
       (App ''or'' [App ''int'' [] [Field ''up''], App ''set'' [App ''nat'' [] []] []] []) example_context =
     (Ok (eps, T_Or T_Int (T_Set T_Nat)), ctx') \<and> eps ''up'' = Some T_Int"
  by (simp add: parse_parameter_ty_with_entrypoints_def atomic_types_def record_entrypoint_def lift_ann_def
    get_single_field_ann_def entrypoint_try_from_ann_def check_ep_name_len_def entrypoint_default_def
    MAX_EP_LEN_def DEFAULT_EP_NAME_def ensure_prop.simps Let_def
    example_context_def bind_def return_def consume_def gas_consume_def)

theorem parse_parameter_sound_witness:
  "\<exists>eps t ctx'. parse_parameter_ty_with_entrypoints
       (App ''or'' [App ''int'' [] [Field ''up''], App ''set'' [App ''nat'' [] []] []] []) example_context = (Ok (eps, t), ctx') \<and>
     t = T_Or T_Int (T_Set T_Nat) \<and> type_ok t \<and> eps ''up'' = Some T_Int \<and> eps entrypoint_default \<noteq> None"
proof -
  let ?m = "App ''or'' [App ''int'' [] [Field ''up''], App ''set'' [App ''nat'' [] []] []] []"
  obtain eps t ctx' where run: "parse_parameter_ty_with_entrypoints ?m example_context = (Ok (eps, t), ctx')"
      "t = T_Or T_Int (T_Set T_Nat)" "eps ''up'' = Some T_Int"
    using parse_parameter_example by blast
  from parse_parameter_sound [OF _ run(1)] show ?thesis
    using run by (simp add: example_context_def)
qed

end
