(* ===== verification/MIR_Overloads.thy ===== *)
theory MIR_Overloads
  imports MIR_Types
begin

text \<open>
  Type checking of the instructions that contain neither code nor values
  (\<open>typecheck_instruction\<close> of \<open>src/contrib/mir/src/typechecker.rs\<close>).  Stacks have their top first, so
  the pattern \<open>[.., T::Int, T::Nat]\<close> of the source, whose last element is the top, is
  \<open>T_Nat # T_Int # _\<close> here.
\<close>

section \<open>Instructions with a table of overloads\<close>

text \<open>
  An instruction without arguments whose arms match the top of the stack against closed types: each
  row has the types it takes off the stack, the instruction it becomes and the types it leaves.  The
  number is the height of the stack that the instruction asks for; a shorter stack and a stack that
  no row matches are both errors, and so are arguments.
\<close>

type_synonym overload_row = "TypeStack \<times> Instruction \<times> TypeStack"

definition ADD_rows :: "overload_row list" where
  "ADD_rows =
     [([T_Nat, T_Nat], I_Arith (I_Add Add_NatNat), [T_Nat]),
      ([T_Int, T_Int], I_Arith (I_Add Add_IntInt), [T_Int]),
      ([T_Int, T_Nat], I_Arith (I_Add Add_IntNat), [T_Int]),
      ([T_Nat, T_Int], I_Arith (I_Add Add_NatInt), [T_Int]),
      ([T_Mumav, T_Mumav], I_Arith (I_Add Add_MumavMumav), [T_Mumav]),
      ([T_Bls12381Fr, T_Bls12381Fr], I_Arith (I_Add Add_Bls12381Fr), [T_Bls12381Fr]),
      ([T_Bls12381G1, T_Bls12381G1], I_Arith (I_Add Add_Bls12381G1), [T_Bls12381G1]),
      ([T_Bls12381G2, T_Bls12381G2], I_Arith (I_Add Add_Bls12381G2), [T_Bls12381G2]),
      ([T_Int, T_Timestamp], I_Arith (I_Add Add_IntTimestamp), [T_Timestamp]),
      ([T_Timestamp, T_Int], I_Arith (I_Add Add_TimestampInt), [T_Timestamp])]"

definition MUL_rows :: "overload_row list" where
  "MUL_rows =
     [([T_Nat, T_Nat], I_Arith (I_Mul Mul_NatNat), [T_Nat]),
      ([T_Nat, T_Int], I_Arith (I_Mul Mul_NatInt), [T_Int]),
      ([T_Int, T_Int], I_Arith (I_Mul Mul_IntInt), [T_Int]),
      ([T_Nat, T_Mumav], I_Arith (I_Mul Mul_NatMumav), [T_Mumav]),
      ([T_Int, T_Nat], I_Arith (I_Mul Mul_IntNat), [T_Int]),
      ([T_Mumav, T_Nat], I_Arith (I_Mul Mul_MumavNat), [T_Mumav]),
      ([T_Bls12381G1, T_Bls12381Fr], I_Arith (I_Mul Mul_Bls12381G1Bls12381Fr), [T_Bls12381G1]),
      ([T_Bls12381G2, T_Bls12381Fr], I_Arith (I_Mul Mul_Bls12381G2Bls12381Fr), [T_Bls12381G2]),
      ([T_Bls12381Fr, T_Bls12381Fr], I_Arith (I_Mul Mul_Bls12381FrBls12381Fr), [T_Bls12381Fr]),
      ([T_Nat, T_Bls12381Fr], I_Arith (I_Mul Mul_NatBls12381Fr), [T_Bls12381Fr]),
      ([T_Int, T_Bls12381Fr], I_Arith (I_Mul Mul_IntBls12381Fr), [T_Bls12381Fr]),
      ([T_Bls12381Fr, T_Nat], I_Arith (I_Mul Mul_Bls12381FrNat), [T_Bls12381Fr]),
      ([T_Bls12381Fr, T_Int], I_Arith (I_Mul Mul_Bls12381FrInt), [T_Bls12381Fr])]"

definition EDIV_rows :: "overload_row list" where
  "EDIV_rows =
     [([T_Nat, T_Nat], I_Arith (I_EDiv EDiv_NatNat), [T_Option (T_Pair T_Nat T_Nat)]),
      ([T_Nat, T_Int], I_Arith (I_EDiv EDiv_NatInt), [T_Option (T_Pair T_Int T_Nat)]),
      ([T_Int, T_Nat], I_Arith (I_EDiv EDiv_IntNat), [T_Option (T_Pair T_Int T_Nat)]),
      ([T_Int, T_Int], I_Arith (I_EDiv EDiv_IntInt), [T_Option (T_Pair T_Int T_Nat)]),
      ([T_Mumav, T_Nat], I_Arith (I_EDiv EDiv_MumavNat), [T_Option (T_Pair T_Mumav T_Mumav)]),
      ([T_Mumav, T_Mumav], I_Arith (I_EDiv EDiv_MumavMumav), [T_Option (T_Pair T_Nat T_Mumav)])]"

definition NEG_rows :: "overload_row list" where
  "NEG_rows =
     [([T_Nat], I_Arith (I_Neg Neg_Nat), [T_Int]),
      ([T_Int], I_Arith (I_Neg Neg_Int), [T_Int]),
      ([T_Bls12381G1], I_Arith (I_Neg Neg_Bls12381G1), [T_Bls12381G1]),
      ([T_Bls12381G2], I_Arith (I_Neg Neg_Bls12381G2), [T_Bls12381G2]),
      ([T_Bls12381Fr], I_Arith (I_Neg Neg_Bls12381Fr), [T_Bls12381Fr])]"

definition SUB_rows :: "overload_row list" where
  "SUB_rows =
     [([T_Nat, T_Nat], I_Arith (I_Sub Sub_NatNat), [T_Int]),
      ([T_Nat, T_Int], I_Arith (I_Sub Sub_NatInt), [T_Int]),
      ([T_Int, T_Nat], I_Arith (I_Sub Sub_IntNat), [T_Int]),
      ([T_Int, T_Int], I_Arith (I_Sub Sub_IntInt), [T_Int]),
      ([T_Timestamp, T_Int], I_Arith (I_Sub Sub_TimestampInt), [T_Timestamp]),
      ([T_Timestamp, T_Timestamp], I_Arith (I_Sub Sub_TimestampTimestamp), [T_Int])]"

definition SUB_MUMAV_rows :: "overload_row list" where
  "SUB_MUMAV_rows = [([T_Mumav, T_Mumav], I_Arith I_SubMumav, [T_Option T_Mumav])]"

definition AND_rows :: "overload_row list" where
  "AND_rows =
     [([T_Nat, T_Nat], I_Arith (I_And And_NatNat), [T_Nat]),
      ([T_Int, T_Nat], I_Arith (I_And And_IntNat), [T_Nat]),
      ([T_Bool, T_Bool], I_Arith (I_And And_Bool), [T_Bool]),
      ([T_Bytes, T_Bytes], I_Arith (I_And And_Bytes), [T_Bytes])]"

definition OR_rows :: "overload_row list" where
  "OR_rows =
     [([T_Nat, T_Nat], I_Arith (I_Or Or_Nat), [T_Nat]),
      ([T_Bool, T_Bool], I_Arith (I_Or Or_Bool), [T_Bool]),
      ([T_Bytes, T_Bytes], I_Arith (I_Or Or_Bytes), [T_Bytes])]"

definition XOR_rows :: "overload_row list" where
  "XOR_rows =
     [([T_Nat, T_Nat], I_Arith (I_Xor Xor_Nat), [T_Nat]),
      ([T_Bool, T_Bool], I_Arith (I_Xor Xor_Bool), [T_Bool]),
      ([T_Bytes, T_Bytes], I_Arith (I_Xor Xor_Bytes), [T_Bytes])]"

definition LSL_rows :: "overload_row list" where
  "LSL_rows =
     [([T_Nat, T_Nat], I_Arith (I_Lsl Lsl_Nat), [T_Nat]),
      ([T_Bytes, T_Nat], I_Arith (I_Lsl Lsl_Bytes), [T_Bytes])]"

definition LSR_rows :: "overload_row list" where
  "LSR_rows =
     [([T_Nat, T_Nat], I_Arith (I_Lsr Lsr_Nat), [T_Nat]),
      ([T_Bytes, T_Nat], I_Arith (I_Lsr Lsr_Bytes), [T_Bytes])]"

definition NOT_rows :: "overload_row list" where
  "NOT_rows =
     [([T_Bool], I_Arith (I_Not Not_Bool), [T_Bool]),
      ([T_Int], I_Arith (I_Not Not_Int), [T_Int]),
      ([T_Nat], I_Arith (I_Not Not_Nat), [T_Int]),
      ([T_Bytes], I_Arith (I_Not Not_Bytes), [T_Bytes])]"

definition GT_rows :: "overload_row list" where "GT_rows = [([T_Int], I_Arith I_Gt, [T_Bool])]"
definition GE_rows :: "overload_row list" where "GE_rows = [([T_Int], I_Arith I_Ge, [T_Bool])]"
definition EQ_rows :: "overload_row list" where "EQ_rows = [([T_Int], I_Arith I_Eq, [T_Bool])]"
definition NEQ_rows :: "overload_row list" where "NEQ_rows = [([T_Int], I_Arith I_Neq, [T_Bool])]"
definition LE_rows :: "overload_row list" where "LE_rows = [([T_Int], I_Arith I_Le, [T_Bool])]"
definition LT_rows :: "overload_row list" where "LT_rows = [([T_Int], I_Arith I_Lt, [T_Bool])]"

definition INT_rows :: "overload_row list" where
  "INT_rows =
     [([T_Nat], I_Arith (I_Int Int_Nat), [T_Int]),
      ([T_Bls12381Fr], I_Arith (I_Int Int_Bls12381Fr), [T_Int]),
      ([T_Bytes], I_Arith (I_Int Int_Bytes), [T_Int])]"

definition NAT_rows :: "overload_row list" where
  "NAT_rows = [([T_Bytes], I_Arith I_Nat, [T_Nat])]"

definition BYTES_rows :: "overload_row list" where
  "BYTES_rows =
     [([T_Int], I_Arith (I_Bytes Bytes_Int), [T_Bytes]),
      ([T_Nat], I_Arith (I_Bytes Bytes_Nat), [T_Bytes])]"

definition ABS_rows :: "overload_row list" where
  "ABS_rows = [([T_Int], I_Arith I_Abs, [T_Nat])]"

definition ISNAT_rows :: "overload_row list" where
  "ISNAT_rows = [([T_Int], I_Arith I_IsNat, [T_Option T_Nat])]"

definition UNIT_rows :: "overload_row list" where "UNIT_rows = [([], I_Data I_Unit, [T_Unit])]"

definition AMOUNT_rows :: "overload_row list" where
  "AMOUNT_rows = [([], I_Chain I_Amount, [T_Mumav])]"

definition CHAIN_ID_rows :: "overload_row list" where
  "CHAIN_ID_rows = [([], I_Chain I_ChainId, [T_ChainId])]"

definition SET_DELEGATE_rows :: "overload_row list" where
  "SET_DELEGATE_rows = [([T_Option T_KeyHash], I_Chain I_SetDelegate, [T_Operation])]"

definition CHECK_SIGNATURE_rows :: "overload_row list" where
  "CHECK_SIGNATURE_rows = [([T_Key, T_Signature, T_Bytes], I_Chain I_CheckSignature, [T_Bool])]"

definition SLICE_rows :: "overload_row list" where
  "SLICE_rows =
     [([T_Nat, T_Nat, T_String], I_Data (I_Slice Slice_String), [T_Option T_String]),
      ([T_Nat, T_Nat, T_Bytes], I_Data (I_Slice Slice_Bytes), [T_Option T_Bytes])]"

definition HASH_KEY_rows :: "overload_row list" where
  "HASH_KEY_rows = [([T_Key], I_Chain I_HashKey, [T_KeyHash])]"

definition BLAKE2B_rows :: "overload_row list" where
  "BLAKE2B_rows = [([T_Bytes], I_Chain I_Blake2b, [T_Bytes])]"
definition KECCAK_rows :: "overload_row list" where
  "KECCAK_rows = [([T_Bytes], I_Chain I_Keccak, [T_Bytes])]"
definition SHA256_rows :: "overload_row list" where
  "SHA256_rows = [([T_Bytes], I_Chain I_Sha256, [T_Bytes])]"
definition SHA3_rows :: "overload_row list" where
  "SHA3_rows = [([T_Bytes], I_Chain I_Sha3, [T_Bytes])]"
definition SHA512_rows :: "overload_row list" where
  "SHA512_rows = [([T_Bytes], I_Chain I_Sha512, [T_Bytes])]"

definition BALANCE_rows :: "overload_row list" where
  "BALANCE_rows = [([], I_Chain I_Balance, [T_Mumav])]"
definition LEVEL_rows :: "overload_row list" where
  "LEVEL_rows = [([], I_Chain I_Level, [T_Nat])]"
definition MIN_BLOCK_TIME_rows :: "overload_row list" where
  "MIN_BLOCK_TIME_rows = [([], I_Chain I_MinBlockTime, [T_Nat])]"
definition SELF_ADDRESS_rows :: "overload_row list" where
  "SELF_ADDRESS_rows = [([], I_Chain I_SelfAddress, [T_Address])]"
definition SENDER_rows :: "overload_row list" where
  "SENDER_rows = [([], I_Chain I_Sender, [T_Address])]"
definition SOURCE_rows :: "overload_row list" where
  "SOURCE_rows = [([], I_Chain I_Source, [T_Address])]"
definition NOW_rows :: "overload_row list" where
  "NOW_rows = [([], I_Chain I_Now, [T_Timestamp])]"

definition IMPLICIT_ACCOUNT_rows :: "overload_row list" where
  "IMPLICIT_ACCOUNT_rows = [([T_KeyHash], I_Chain I_ImplicitAccount, [T_Contract T_Unit])]"
definition TOTAL_VOTING_POWER_rows :: "overload_row list" where
  "TOTAL_VOTING_POWER_rows = [([], I_Chain I_TotalVotingPower, [T_Nat])]"
definition VOTING_POWER_rows :: "overload_row list" where
  "VOTING_POWER_rows = [([T_KeyHash], I_Chain I_VotingPower, [T_Nat])]"

definition PAIRING_CHECK_rows :: "overload_row list" where
  "PAIRING_CHECK_rows =
     [([T_List (T_Pair T_Bls12381G1 T_Bls12381G2)], I_Chain I_PairingCheck, [T_Bool])]"

definition overload_tables :: "(Prim \<times> nat \<times> overload_row list) list" where
  "overload_tables =
     [(''ADD'', 2, ADD_rows), (''MUL'', 2, MUL_rows), (''EDIV'', 2, EDIV_rows), (''NEG'', 1, NEG_rows),
      (''SUB'', 2, SUB_rows), (''SUB_MUMAV'', 2, SUB_MUMAV_rows), (''AND'', 2, AND_rows),
      (''OR'', 2, OR_rows), (''XOR'', 2, XOR_rows), (''LSL'', 2, LSL_rows), (''LSR'', 2, LSR_rows),
      (''NOT'', 1, NOT_rows), (''GT'', 1, GT_rows), (''GE'', 1, GE_rows), (''EQ'', 1, EQ_rows),
      (''NEQ'', 1, NEQ_rows), (''LE'', 1, LE_rows), (''LT'', 1, LT_rows), (''INT'', 1, INT_rows),
      (''NAT'', 1, NAT_rows), (''BYTES'', 1, BYTES_rows), (''ABS'', 1, ABS_rows),
      (''ISNAT'', 1, ISNAT_rows), (''UNIT'', 0, UNIT_rows), (''AMOUNT'', 0, AMOUNT_rows),
      (''CHAIN_ID'', 0, CHAIN_ID_rows), (''SET_DELEGATE'', 1, SET_DELEGATE_rows),
      (''CHECK_SIGNATURE'', 3, CHECK_SIGNATURE_rows), (''SLICE'', 3, SLICE_rows),
      (''HASH_KEY'', 1, HASH_KEY_rows), (''BLAKE2B'', 1, BLAKE2B_rows), (''KECCAK'', 1, KECCAK_rows),
      (''SHA256'', 1, SHA256_rows), (''SHA3'', 1, SHA3_rows), (''SHA512'', 1, SHA512_rows),
      (''BALANCE'', 0, BALANCE_rows), (''LEVEL'', 0, LEVEL_rows),
      (''MIN_BLOCK_TIME'', 0, MIN_BLOCK_TIME_rows), (''SELF_ADDRESS'', 0, SELF_ADDRESS_rows),
      (''SENDER'', 0, SENDER_rows), (''SOURCE'', 0, SOURCE_rows), (''NOW'', 0, NOW_rows),
      (''IMPLICIT_ACCOUNT'', 1, IMPLICIT_ACCOUNT_rows),
      (''TOTAL_VOTING_POWER'', 0, TOTAL_VOTING_POWER_rows), (''VOTING_POWER'', 1, VOTING_POWER_rows),
      (''PAIRING_CHECK'', 1, PAIRING_CHECK_rows)]"

type_synonym checked_instr = "Instruction \<times> FailingTypeStack"

definition tc_overloads ::
  "Prim \<Rightarrow> nat \<Rightarrow> overload_row list \<Rightarrow> Micheline list \<Rightarrow> TypeStack \<Rightarrow> checked_instr tc" where
  "tc_overloads prim n rows args stack =
     (if args \<noteq> [] then throw UnexpectedMicheline
      else if length stack < n then throw (NoMatchingOverload prim)
      else case map_of rows (take n stack) of
        Some (instr, outs) \<Rightarrow> return (instr, Stk (outs @ drop n stack))
      | None \<Rightarrow> throw (NoMatchingOverload prim))"

section \<open>Instructions that depend on the shape of types\<close>

text \<open>
  The other instructions without code.  Each gets its arguments, annotations, the entrypoints of the
  contract it belongs to (none inside a lambda) and the stack.
\<close>

type_synonym instr_checker = "Micheline list \<Rightarrow> Annotations \<Rightarrow> Entrypoints option \<Rightarrow> TypeStack \<Rightarrow> checked_instr tc"

abbreviation checked_as :: "Instruction \<Rightarrow> TypeStack \<Rightarrow> checked_instr tc" where
  "checked_as i stack \<equiv> return (i, Stk stack)"

text \<open>Without arguments or with a number: \<open>[Int(height)]\<close> or \<open>[]\<close>.\<close>

fun opt_u10 :: "Micheline list \<Rightarrow> nat option tc" where
  "opt_u10 [Mich_Int height] = bind (validate_u10 height) (\<lambda>n. return (Some n))"
| "opt_u10 [] = return None"
| "opt_u10 _ = throw UnexpectedMicheline"

definition unwrap_or_1 :: "nat option \<Rightarrow> nat" where
  "unwrap_or_1 n = (case n of Some n \<Rightarrow> n | None \<Rightarrow> 1)"

definition tc_DROP :: instr_checker where
  "tc_DROP args anns eps stack =
     bind (opt_u10 args) (\<lambda>opt_height.
     bind (tc_charge (tc_drop_n opt_height)) (\<lambda>_.
     bind (ensure_stack_len ''DROP'' stack (unwrap_or_1 opt_height)) (\<lambda>_.
     bind (lift (stk_split (unwrap_or_1 opt_height) stack)) (\<lambda>(_, stack).
       checked_as (I_Data (I_Drop opt_height)) stack))))"

definition tc_DUP :: instr_checker where
  "tc_DUP args anns eps stack =
     (if args = [Mich_Int 0] then throw Dup0
      else
        bind (opt_u10 args) (\<lambda>opt_height.
        bind (ensure_stack_len ''DUP'' stack (unwrap_or_1 opt_height)) (\<lambda>_.
        bind (lift (stk_at stack (unwrap_or_1 opt_height - 1))) (\<lambda>ty.
        bind (ensure_prop ty Duplicable) (\<lambda>_.
          checked_as (I_Data (I_Dup opt_height)) (ty # stack))))))"

fun tc_DIG :: instr_checker where
  "tc_DIG [Mich_Int height] anns eps stack =
     bind (validate_u10 height) (\<lambda>dig_height.
     bind (ensure_stack_len ''DIG'' stack dig_height) (\<lambda>_.
     bind (tc_charge (tc_proof_argument dig_height)) (\<lambda>_.
       if dig_height > 0 then
         bind (lift (stk_remove dig_height stack)) (\<lambda>(e, stack).
           checked_as (I_Data (I_Dig dig_height)) (e # stack))
       else checked_as (I_Data (I_Dig dig_height)) stack)))"
| "tc_DIG _ anns eps stack = throw UnexpectedMicheline"

fun stack_pop :: "'a list \<Rightarrow> ('e, 'a \<times> 'a list) comp" where
  "stack_pop (x # stack) = return (x, stack)"
| "stack_pop [] = panic Unreachable"

fun tc_DUG :: instr_checker where
  "tc_DUG [Mich_Int height] anns eps stack =
     bind (validate_u10 height) (\<lambda>dug_height.
     bind (tc_charge (tc_proof_argument dug_height)) (\<lambda>_.
       if dug_height > 0 then
         bind (ensure_stack_len ''DUG'' stack dug_height) (\<lambda>_.
         bind (stack_pop stack) (\<lambda>(e, stack).
         bind (lift (stk_insert dug_height e stack)) (\<lambda>stack.
           checked_as (I_Data (I_Dug dug_height)) stack)))
       else checked_as (I_Data (I_Dug dug_height)) stack))"
| "tc_DUG _ anns eps stack = throw UnexpectedMicheline"

fun tc_SWAP :: instr_checker where
  "tc_SWAP [] anns eps (a # b # stack) = checked_as (I_Data I_Swap) (b # a # stack)"
| "tc_SWAP [] anns eps _ = throw (NoMatchingOverload ''SWAP'')"
| "tc_SWAP _ anns eps stack = throw UnexpectedMicheline"

fun tc_FAILWITH :: instr_checker where
  "tc_FAILWITH [] anns eps (ty # stack) =
     bind (ensure_prop ty Pushable) (\<lambda>_. return (I_Data (I_Failwith ty), Failed))"
| "tc_FAILWITH [] anns eps [] = throw (NoMatchingOverload ''FAILWITH'')"
| "tc_FAILWITH _ anns eps stack = throw UnexpectedMicheline"

fun tc_NEVER :: instr_checker where
  "tc_NEVER [] anns eps (ty # stack) =
     (case ty of T_Never \<Rightarrow> return (I_Data I_Never, Failed) | _ \<Rightarrow> throw (NoMatchingOverload ''NEVER''))"
| "tc_NEVER [] anns eps [] = throw (NoMatchingOverload ''NEVER'')"
| "tc_NEVER _ anns eps stack = throw UnexpectedMicheline"

fun tc_CAR :: instr_checker where
  "tc_CAR [] anns eps (ty # stack) =
     (case ty of T_Pair l r \<Rightarrow> checked_as (I_Data I_Car) (l # stack) | _ \<Rightarrow> throw (NoMatchingOverload ''CAR''))"
| "tc_CAR [] anns eps [] = throw (NoMatchingOverload ''CAR'')"
| "tc_CAR _ anns eps stack = throw UnexpectedMicheline"

fun tc_CDR :: instr_checker where
  "tc_CDR [] anns eps (ty # stack) =
     (case ty of T_Pair l r \<Rightarrow> checked_as (I_Data I_Cdr) (r # stack) | _ \<Rightarrow> throw (NoMatchingOverload ''CDR''))"
| "tc_CDR [] anns eps [] = throw (NoMatchingOverload ''CDR'')"
| "tc_CDR _ anns eps stack = throw UnexpectedMicheline"

text \<open>\<open>drain_top(n).rev().reduce(|acc, e| new_pair(e, acc)).unwrap()\<close>\<close>

fun reduce_pairs :: "('a \<Rightarrow> 'a \<Rightarrow> 'a) \<Rightarrow> 'a list \<Rightarrow> 'a option" where
  "reduce_pairs pair [] = None"
| "reduce_pairs pair (acc # es) = Some (fold pair es acc)"

fun tc_PAIR :: instr_checker where
  "tc_PAIR [] anns eps (l # r # stack) = checked_as (I_Data I_Pair) (T_Pair l r # stack)"
| "tc_PAIR [] anns eps _ = throw (NoMatchingOverload ''PAIR'')"
| "tc_PAIR [Mich_Int n] anns eps stack =
     bind (validate_u10 n) (\<lambda>n.
       if n < 2 then throw (PairN01 ''PAIR'' n)
       else if length stack < n then throw (NoMatchingOverload ''PAIR'')
       else
         bind (tc_charge (tc_proof_argument n)) (\<lambda>_.
         bind (lift (stk_split n stack)) (\<lambda>(top, stack).
         bind (lift (unwrap (reduce_pairs T_Pair (rev top)))) (\<lambda>res.
           checked_as (I_Data (I_PairN n)) (res # stack)))))"
| "tc_PAIR _ anns eps stack = throw UnexpectedMicheline"

text \<open>The local function \<open>fill\<close> of \<open>UNPAIR n\<close>; the stack it fills.\<close>

fun unpair_fill :: "nat \<Rightarrow> TypeStack \<Rightarrow> Type \<Rightarrow> TypeStack tc" where
  "unpair_fill 0 stack p = return (p # stack)"
| "unpair_fill (Suc n) stack (T_Pair l r) =
     bind (unpair_fill n stack r) (\<lambda>stack. return (l # stack))"
| "unpair_fill (Suc n) stack p = throw (NoMatchingOverload ''UNPAIR'')"

definition tc_unpair_n :: "nat \<Rightarrow> Type \<Rightarrow> TypeStack \<Rightarrow> checked_instr tc" where
  "tc_unpair_n n p stack =
     (if n < 2 then throw (PairN01 ''UNPAIR'' n)
      else
        bind (tc_charge (tc_proof_argument n)) (\<lambda>_.
        bind (unpair_fill (n - 1) stack p) (\<lambda>stack. checked_as (I_Data (I_UnpairN n)) stack)))"

fun tc_UNPAIR :: instr_checker where
  "tc_UNPAIR [] anns eps (ty # stack) =
     (case ty of
        T_Pair l r \<Rightarrow> checked_as (I_Data I_Unpair) (l # r # stack)
      | _ \<Rightarrow> throw (NoMatchingOverload ''UNPAIR''))"
| "tc_UNPAIR [] anns eps [] = throw (NoMatchingOverload ''UNPAIR'')"
| "tc_UNPAIR [Mich_Int n] anns eps (p # stack) = bind (validate_u10 n) (\<lambda>n. tc_unpair_n n p stack)"
| "tc_UNPAIR [Mich_Int n] anns eps [] = throw (NoMatchingOverload ''UNPAIR'')"
| "tc_UNPAIR _ anns eps stack = throw UnexpectedMicheline"

fun tc_SOME :: instr_checker where
  "tc_SOME [] anns eps (ty # stack) = checked_as (I_Data I_ISome) (T_Option ty # stack)"
| "tc_SOME [] anns eps [] = throw (NoMatchingOverload ''SOME'')"
| "tc_SOME _ anns eps stack = throw UnexpectedMicheline"

fun tc_NONE :: instr_checker where
  "tc_NONE [ty] anns eps stack =
     bind (parse_ty ty) (\<lambda>ty. checked_as (I_Data I_None) (T_Option ty # stack))"
| "tc_NONE _ anns eps stack = throw UnexpectedMicheline"

fun tc_COMPARE :: instr_checker where
  "tc_COMPARE [] anns eps (t # u # stack) =
     bind (map_err_comp (types_not_equal_as (NoMatchingOverload ''COMPARE'')) (ensure_ty_eq t u)) (\<lambda>_.
     bind (ensure_prop t Comparable) (\<lambda>_. checked_as (I_Arith I_Compare) (T_Int # stack)))"
| "tc_COMPARE [] anns eps _ = throw (NoMatchingOverload ''COMPARE'')"
| "tc_COMPARE _ anns eps stack = throw UnexpectedMicheline"

fun tc_NIL :: instr_checker where
  "tc_NIL [ty] anns eps stack =
     bind (parse_ty ty) (\<lambda>ty. checked_as (I_Data I_Nil) (T_List ty # stack))"
| "tc_NIL _ anns eps stack = throw UnexpectedMicheline"

fun tc_CONS :: instr_checker where
  "tc_CONS [] anns eps (ty2 # ty # stack) =
     (case ty of
        T_List ty1 \<Rightarrow>
          bind (ensure_ty_eq ty1 ty2) (\<lambda>_. checked_as (I_Data I_Cons) (T_List ty1 # stack))
      | _ \<Rightarrow> throw (NoMatchingOverload ''CONS''))"
| "tc_CONS [] anns eps _ = throw (NoMatchingOverload ''CONS'')"
| "tc_CONS _ anns eps stack = throw UnexpectedMicheline"

fun tc_CONCAT :: instr_checker where
  "tc_CONCAT [] anns eps (ty # stack) =
     (case ty of
        T_String \<Rightarrow>
          if stack \<noteq> [] \<and> hd stack = T_String
          then checked_as (I_Data (I_Concat Concat_TwoStrings)) stack
          else throw (NoMatchingOverload ''CONCAT'')
      | T_Bytes \<Rightarrow>
          if stack \<noteq> [] \<and> hd stack = T_Bytes
          then checked_as (I_Data (I_Concat Concat_TwoBytes)) stack
          else throw (NoMatchingOverload ''CONCAT'')
      | T_List ty \<Rightarrow>
          if ty = T_String then checked_as (I_Data (I_Concat Concat_ListOfStrings)) (ty # stack)
          else if ty = T_Bytes then checked_as (I_Data (I_Concat Concat_ListOfBytes)) (ty # stack)
          else throw (NoMatchingOverload ''CONCAT'')
      | _ \<Rightarrow> throw (NoMatchingOverload ''CONCAT''))"
| "tc_CONCAT [] anns eps [] = throw (NoMatchingOverload ''CONCAT'')"
| "tc_CONCAT _ anns eps stack = throw UnexpectedMicheline"

fun tc_EMPTY_SET :: instr_checker where
  "tc_EMPTY_SET [ty] anns eps stack =
     bind (parse_ty ty) (\<lambda>ty.
     bind (ensure_prop ty Comparable) (\<lambda>_. checked_as (I_Data I_EmptySet) (T_Set ty # stack)))"
| "tc_EMPTY_SET _ anns eps stack = throw UnexpectedMicheline"

fun tc_EMPTY_BIG_MAP :: instr_checker where
  "tc_EMPTY_BIG_MAP [kty, vty] anns eps stack =
     bind (parse_ty kty) (\<lambda>kty.
     bind (ensure_prop kty Comparable) (\<lambda>_.
     bind (parse_ty vty) (\<lambda>vty.
     bind (ensure_prop vty BigMapValue) (\<lambda>_.
       checked_as (I_Data (I_EmptyBigMap kty vty)) (T_BigMap kty vty # stack)))))"
| "tc_EMPTY_BIG_MAP _ anns eps stack = throw UnexpectedMicheline"

fun tc_MEM :: instr_checker where
  "tc_MEM [] anns eps (kty' # ty # stack) =
     (case ty of
        T_Set ty \<Rightarrow>
          bind (ensure_ty_eq ty kty') (\<lambda>_. checked_as (I_Data (I_Mem Mem_Set)) (T_Bool # stack))
      | T_Map kty vty \<Rightarrow>
          bind (ensure_ty_eq kty kty') (\<lambda>_. checked_as (I_Data (I_Mem Mem_Map)) (T_Bool # stack))
      | T_BigMap kty vty \<Rightarrow>
          bind (ensure_ty_eq kty kty') (\<lambda>_. checked_as (I_Data (I_Mem Mem_BigMap)) (T_Bool # stack))
      | _ \<Rightarrow> throw (NoMatchingOverload ''MEM''))"
| "tc_MEM [] anns eps _ = throw (NoMatchingOverload ''MEM'')"
| "tc_MEM _ anns eps stack = throw UnexpectedMicheline"

definition tc_get_n :: "nat \<Rightarrow> Type \<Rightarrow> TypeStack \<Rightarrow> checked_instr tc" where
  "tc_get_n n ty stack =
     bind (tc_charge (tc_proof_argument n)) (\<lambda>_.
       case get_nth_field n ty of
         Some res \<Rightarrow> checked_as (I_Data (I_GetN n)) (res # stack)
       | None \<Rightarrow> throw (NoMatchingOverload ''GET''))"

fun tc_get_by_key :: "TypeStack \<Rightarrow> checked_instr tc" where
  "tc_get_by_key (kty' # ty # stack) =
     (case ty of
        T_Map kty vty \<Rightarrow>
          bind (ensure_ty_eq kty kty') (\<lambda>_. checked_as (I_Data (I_Get Get_Map)) (T_Option vty # stack))
      | T_BigMap kty vty \<Rightarrow>
          bind (ensure_ty_eq kty kty') (\<lambda>_. checked_as (I_Data (I_Get Get_BigMap)) (T_Option vty # stack))
      | _ \<Rightarrow> throw (NoMatchingOverload ''GET''))"
| "tc_get_by_key _ = throw (NoMatchingOverload ''GET'')"

fun tc_GET :: instr_checker where
  "tc_GET [] anns eps stack = tc_get_by_key stack"
| "tc_GET [Mich_Int n] anns eps (ty # stack) = bind (validate_u10 n) (\<lambda>n. tc_get_n n ty stack)"
| "tc_GET [Mich_Int n] anns eps [] = throw (NoMatchingOverload ''GET'')"
| "tc_GET _ anns eps stack = throw UnexpectedMicheline"

fun tc_update_by_key :: "TypeStack \<Rightarrow> checked_instr tc" where
  "tc_update_by_key (kty' # vty' # ty # stack) =
     (case ty of
        T_Set kty \<Rightarrow>
          if vty' = T_Bool then
            bind (ensure_ty_eq kty kty') (\<lambda>_. checked_as (I_Data (I_Update Update_Set)) (T_Set kty # stack))
          else throw (NoMatchingOverload ''UPDATE'')
      | T_Map kty vty \<Rightarrow>
          (case vty' of
             T_Option vty_new \<Rightarrow>
               bind (ensure_ty_eq kty kty') (\<lambda>_.
               bind (ensure_ty_eq vty vty_new) (\<lambda>_.
                 checked_as (I_Data (I_Update Update_Map)) (T_Map kty vty # stack)))
           | _ \<Rightarrow> throw (NoMatchingOverload ''UPDATE''))
      | T_BigMap kty vty \<Rightarrow>
          (case vty' of
             T_Option vty_new \<Rightarrow>
               bind (ensure_ty_eq kty kty') (\<lambda>_.
               bind (ensure_ty_eq vty vty_new) (\<lambda>_.
                 checked_as (I_Data (I_Update Update_BigMap)) (T_BigMap kty vty # stack)))
           | _ \<Rightarrow> throw (NoMatchingOverload ''UPDATE''))
      | _ \<Rightarrow> throw (NoMatchingOverload ''UPDATE''))"
| "tc_update_by_key _ = throw (NoMatchingOverload ''UPDATE'')"

fun tc_UPDATE :: instr_checker where
  "tc_UPDATE [] anns eps stack = tc_update_by_key stack"
| "tc_UPDATE [Mich_Int n] anns eps (new_val # ty # stack) =
     bind (validate_u10 n) (\<lambda>n.
       case set_nth_field n new_val ty of
         Some res \<Rightarrow> checked_as (I_Data (I_UpdateN n)) (res # stack)
       | None \<Rightarrow> throw (NoMatchingOverload ''UPDATE''))"
| "tc_UPDATE [Mich_Int n] anns eps _ = throw (NoMatchingOverload ''UPDATE'')"
| "tc_UPDATE _ anns eps stack = throw UnexpectedMicheline"

fun tc_GET_AND_UPDATE :: instr_checker where
  "tc_GET_AND_UPDATE [] anns eps (kty' # vty' # ty # stack) =
     (case vty' of
        T_Option vty_new \<Rightarrow>
          (case ty of
             T_Map kty vty \<Rightarrow>
               bind (ensure_ty_eq kty kty') (\<lambda>_.
               bind (ensure_ty_eq vty vty_new) (\<lambda>_.
                 checked_as (I_Data (I_GetAndUpdate GetAndUpdate_Map)) (vty' # ty # stack)))
           | T_BigMap kty vty \<Rightarrow>
               bind (ensure_ty_eq kty kty') (\<lambda>_.
               bind (ensure_ty_eq vty vty_new) (\<lambda>_.
                 checked_as (I_Data (I_GetAndUpdate GetAndUpdate_BigMap)) (vty' # ty # stack)))
           | _ \<Rightarrow> throw (NoMatchingOverload ''GET_AND_UPDATE''))
      | _ \<Rightarrow> throw (NoMatchingOverload ''GET_AND_UPDATE''))"
| "tc_GET_AND_UPDATE [] anns eps _ = throw (NoMatchingOverload ''GET_AND_UPDATE'')"
| "tc_GET_AND_UPDATE _ anns eps stack = throw UnexpectedMicheline"

fun tc_SIZE :: instr_checker where
  "tc_SIZE [] anns eps (ty # stack) =
     (case ty of
        T_String \<Rightarrow> checked_as (I_Data (I_Size Size_String)) (T_Nat # stack)
      | T_Bytes \<Rightarrow> checked_as (I_Data (I_Size Size_Bytes)) (T_Nat # stack)
      | T_List _ \<Rightarrow> checked_as (I_Data (I_Size Size_List)) (T_Nat # stack)
      | T_Set _ \<Rightarrow> checked_as (I_Data (I_Size Size_Set)) (T_Nat # stack)
      | T_Map _ _ \<Rightarrow> checked_as (I_Data (I_Size Size_Map)) (T_Nat # stack)
      | _ \<Rightarrow> throw (NoMatchingOverload ''SIZE''))"
| "tc_SIZE [] anns eps [] = throw (NoMatchingOverload ''SIZE'')"
| "tc_SIZE _ anns eps stack = throw UnexpectedMicheline"

definition lift_ep :: "'a repr \<Rightarrow> 'a tc" where
  "lift_ep r = lift (map_err_outcome EntrypointError r)"

text \<open>The entrypoint of a field annotation, if there is one.\<close>

definition entrypoint_of_anns :: "Annotations \<Rightarrow> Entrypoint option tc" where
  "entrypoint_of_anns anns =
     bind (lift_ann (get_single_field_ann anns)) (\<lambda>ann.
       case ann of
         None \<Rightarrow> return None
       | Some ann \<Rightarrow> bind (lift_ep (entrypoint_try_from_ann ann)) (\<lambda>ep. return (Some ep)))"

definition unwrap_or_default :: "Entrypoint option \<Rightarrow> Entrypoint" where
  "unwrap_or_default ep = (case ep of Some ep \<Rightarrow> ep | None \<Rightarrow> entrypoint_default)"

fun tc_SELF :: instr_checker where
  "tc_SELF [] anns self_entrypoints stack =
     bind (entrypoint_of_anns anns) (\<lambda>ep.
       let entrypoint = unwrap_or_default ep in
       bind (lift (ok_or self_entrypoints SelfForbidden)) (\<lambda>eps.
       bind (lift (ok_or (eps entrypoint) (NoSuchEntrypoint entrypoint))) (\<lambda>ty.
         checked_as (I_Chain (I_ISelf entrypoint)) (T_Contract ty # stack))))"
| "tc_SELF _ anns eps stack = throw UnexpectedMicheline"

fun tc_ADDRESS :: instr_checker where
  "tc_ADDRESS [] anns eps (ty # stack) =
     (case ty of
        T_Contract _ \<Rightarrow> checked_as (I_Chain I_Address) (T_Address # stack)
      | _ \<Rightarrow> throw (NoMatchingOverload ''ADDRESS''))"
| "tc_ADDRESS [] anns eps [] = throw (NoMatchingOverload ''ADDRESS'')"
| "tc_ADDRESS _ anns eps stack = throw UnexpectedMicheline"

fun tc_PACK :: instr_checker where
  "tc_PACK [] anns eps (t # stack) =
     bind (ensure_prop t Packable) (\<lambda>_. checked_as (I_Data I_Pack) (T_Bytes # stack))"
| "tc_PACK [] anns eps [] = throw (NoMatchingOverload ''PACK'')"
| "tc_PACK _ anns eps stack = throw UnexpectedMicheline"

fun tc_UNPACK :: instr_checker where
  "tc_UNPACK [ty] anns eps (t # stack) =
     (if t = T_Bytes then
        bind (parse_ty ty) (\<lambda>ty.
        bind (ensure_prop ty Pushable) (\<lambda>_. checked_as (I_Data (I_Unpack ty)) (T_Option ty # stack)))
      else throw (NoMatchingOverload ''UNPACK''))"
| "tc_UNPACK [ty] anns eps [] = throw (NoMatchingOverload ''UNPACK'')"
| "tc_UNPACK _ anns eps stack = throw UnexpectedMicheline"

fun tc_TRANSFER_TOKENS :: instr_checker where
  "tc_TRANSFER_TOKENS [] anns eps (arg_t # m # c # stack) =
     (if m = T_Mumav then
        (case c of
           T_Contract ct \<Rightarrow>
             bind (ensure_ty_eq ct arg_t) (\<lambda>_. checked_as (I_Chain I_TransferTokens) (T_Operation # stack))
         | _ \<Rightarrow> throw (NoMatchingOverload ''TRANSFER_TOKENS''))
      else throw (NoMatchingOverload ''TRANSFER_TOKENS''))"
| "tc_TRANSFER_TOKENS [] anns eps _ = throw (NoMatchingOverload ''TRANSFER_TOKENS'')"
| "tc_TRANSFER_TOKENS _ anns eps stack = throw UnexpectedMicheline"

fun tc_LEFT :: instr_checker where
  "tc_LEFT [ty_right] anns eps (ty_left # stack) =
     bind (parse_ty ty_right) (\<lambda>ty_right.
       checked_as (I_Data I_Left) (T_Or ty_left ty_right # stack))"
| "tc_LEFT [ty_right] anns eps [] = throw (NoMatchingOverload ''LEFT'')"
| "tc_LEFT _ anns eps stack = throw UnexpectedMicheline"

fun tc_RIGHT :: instr_checker where
  "tc_RIGHT [ty_left] anns eps (ty_right # stack) =
     bind (parse_ty ty_left) (\<lambda>ty_left.
       checked_as (I_Data I_Right) (T_Or ty_left ty_right # stack))"
| "tc_RIGHT [ty_left] anns eps [] = throw (NoMatchingOverload ''RIGHT'')"
| "tc_RIGHT _ anns eps stack = throw UnexpectedMicheline"

fun tc_EXEC :: instr_checker where
  "tc_EXEC [] anns eps (ty # lam # stack) =
     (case lam of
        T_Lambda in_ty out_ty \<Rightarrow>
          bind (ensure_ty_eq in_ty ty) (\<lambda>_. checked_as I_Exec (out_ty # stack))
      | _ \<Rightarrow> throw (NoMatchingOverload ''EXEC''))"
| "tc_EXEC [] anns eps _ = throw (NoMatchingOverload ''EXEC'')"
| "tc_EXEC _ anns eps stack = throw UnexpectedMicheline"

fun tc_APPLY :: instr_checker where
  "tc_APPLY [] anns eps (ty # lam # stack) =
     (case lam of
        T_Lambda in_ty out_ty \<Rightarrow>
          (case in_ty of
             T_Pair l r \<Rightarrow>
               bind (ensure_ty_eq l ty) (\<lambda>_.
                 checked_as (I_Data (I_Apply ty)) (T_Lambda r out_ty # stack))
           | _ \<Rightarrow> throw (NoMatchingOverload ''APPLY''))
      | _ \<Rightarrow> throw (NoMatchingOverload ''APPLY''))"
| "tc_APPLY [] anns eps _ = throw (NoMatchingOverload ''APPLY'')"
| "tc_APPLY _ anns eps stack = throw UnexpectedMicheline"

fun tc_TICKET :: instr_checker where
  "tc_TICKET [] anns eps (ty # n # stack) =
     (if n = T_Nat then checked_as (I_Chain I_Ticket) (T_Option (T_Ticket ty) # stack)
      else throw (NoMatchingOverload ''TICKET''))"
| "tc_TICKET [] anns eps _ = throw (NoMatchingOverload ''TICKET'')"
| "tc_TICKET _ anns eps stack = throw UnexpectedMicheline"

fun tc_READ_TICKET :: instr_checker where
  "tc_READ_TICKET [] anns eps (ty # stack) =
     (case ty of
        T_Ticket t \<Rightarrow>
          checked_as (I_Chain I_ReadTicket) (T_Pair T_Address (T_Pair t T_Nat) # ty # stack)
      | _ \<Rightarrow> throw (NoMatchingOverload ''READ_TICKET''))"
| "tc_READ_TICKET [] anns eps [] = throw (NoMatchingOverload ''READ_TICKET'')"
| "tc_READ_TICKET _ anns eps stack = throw UnexpectedMicheline"

fun tc_SPLIT_TICKET :: instr_checker where
  "tc_SPLIT_TICKET [] anns eps (ty # n # stack) =
     (case ty of
        T_Ticket t \<Rightarrow>
          if n = T_Pair T_Nat T_Nat
          then checked_as (I_Chain I_SplitTicket) (T_Option (T_Pair ty ty) # stack)
          else throw (NoMatchingOverload ''SPLIT_TICKET'')
      | _ \<Rightarrow> throw (NoMatchingOverload ''SPLIT_TICKET''))"
| "tc_SPLIT_TICKET [] anns eps _ = throw (NoMatchingOverload ''SPLIT_TICKET'')"
| "tc_SPLIT_TICKET _ anns eps stack = throw UnexpectedMicheline"

fun tc_JOIN_TICKETS :: instr_checker where
  "tc_JOIN_TICKETS [] anns eps (ty # stack) =
     (case ty of
        T_Pair l r \<Rightarrow>
          (case l of
             T_Ticket lt \<Rightarrow>
               (case r of
                  T_Ticket rt \<Rightarrow>
                    bind (ensure_ty_eq lt rt) (\<lambda>_. checked_as (I_Chain I_JoinTickets) (T_Option l # stack))
                | _ \<Rightarrow> throw (NoMatchingOverload ''JOIN_TICKETS''))
           | _ \<Rightarrow> throw (NoMatchingOverload ''JOIN_TICKETS''))
      | _ \<Rightarrow> throw (NoMatchingOverload ''JOIN_TICKETS''))"
| "tc_JOIN_TICKETS [] anns eps [] = throw (NoMatchingOverload ''JOIN_TICKETS'')"
| "tc_JOIN_TICKETS _ anns eps stack = throw UnexpectedMicheline"

fun tc_CONTRACT :: instr_checker where
  "tc_CONTRACT [t] anns eps (a # stack) =
     (if a = T_Address then
        bind (entrypoint_of_anns anns) (\<lambda>entrypoint.
          if (case entrypoint of Some ep \<Rightarrow> entrypoint_is_default ep | None \<Rightarrow> False)
          then throw (ExplicitDefaultEntrypointError ''CONTRACT'')
          else
            bind (parse_ty t) (\<lambda>t.
              checked_as (I_Chain (I_Contract t (unwrap_or_default entrypoint)))
                (T_Option (T_Contract t) # stack)))
      else throw (NoMatchingOverload ''CONTRACT''))"
| "tc_CONTRACT [t] anns eps [] = throw (NoMatchingOverload ''CONTRACT'')"
| "tc_CONTRACT _ anns eps stack = throw UnexpectedMicheline"

text \<open>The end of both arms of \<open>EMIT\<close>.\<close>

definition emit_tag :: "Annotations \<Rightarrow> string option tc" where
  "emit_tag anns =
     bind (lift_ann (get_single_field_ann anns)) (\<lambda>opt_tag.
       case opt_tag of
         None \<Rightarrow> return None
       | Some t \<Rightarrow> bind (lift_ep (check_ep_name_len t)) (\<lambda>_. return (Some t)))"

fun tc_EMIT :: instr_checker where
  "tc_EMIT [t] anns eps (emit_val_type # stack) =
     bind (parse_ty t) (\<lambda>emit_type_arg.
     bind (ensure_ty_eq emit_type_arg emit_val_type) (\<lambda>_.
     bind (ensure_prop emit_val_type Pushable) (\<lambda>_.
     bind (emit_tag anns) (\<lambda>opt_tag.
       checked_as (I_Chain (I_Emit opt_tag (Inr t))) (T_Operation # stack)))))"
| "tc_EMIT [] anns eps (emit_val_type # stack) =
     bind (ensure_prop emit_val_type Pushable) (\<lambda>_.
     bind (emit_tag anns) (\<lambda>opt_tag.
       checked_as (I_Chain (I_Emit opt_tag (Inl emit_val_type))) (T_Operation # stack)))"
| "tc_EMIT [t] anns eps [] = throw (NoMatchingOverload ''EMIT'')"
| "tc_EMIT [] anns eps [] = throw (NoMatchingOverload ''EMIT'')"
| "tc_EMIT _ anns eps stack = throw UnexpectedMicheline"

section \<open>All instructions without code\<close>

definition shape_checkers :: "(Prim \<times> instr_checker) list" where
  "shape_checkers =
     [(''DROP'', tc_DROP), (''DUP'', tc_DUP), (''DIG'', tc_DIG), (''DUG'', tc_DUG), (''SWAP'', tc_SWAP),
      (''FAILWITH'', tc_FAILWITH), (''NEVER'', tc_NEVER), (''CAR'', tc_CAR), (''CDR'', tc_CDR),
      (''PAIR'', tc_PAIR), (''UNPAIR'', tc_UNPAIR), (''SOME'', tc_SOME), (''NONE'', tc_NONE),
      (''COMPARE'', tc_COMPARE), (''NIL'', tc_NIL), (''CONS'', tc_CONS), (''CONCAT'', tc_CONCAT),
      (''EMPTY_SET'', tc_EMPTY_SET), (''EMPTY_BIG_MAP'', tc_EMPTY_BIG_MAP), (''MEM'', tc_MEM),
      (''GET'', tc_GET), (''UPDATE'', tc_UPDATE), (''GET_AND_UPDATE'', tc_GET_AND_UPDATE),
      (''SIZE'', tc_SIZE), (''SELF'', tc_SELF), (''ADDRESS'', tc_ADDRESS), (''PACK'', tc_PACK),
      (''UNPACK'', tc_UNPACK), (''TRANSFER_TOKENS'', tc_TRANSFER_TOKENS), (''LEFT'', tc_LEFT),
      (''RIGHT'', tc_RIGHT), (''EXEC'', tc_EXEC), (''APPLY'', tc_APPLY), (''TICKET'', tc_TICKET),
      (''READ_TICKET'', tc_READ_TICKET), (''SPLIT_TICKET'', tc_SPLIT_TICKET),
      (''JOIN_TICKETS'', tc_JOIN_TICKETS), (''CONTRACT'', tc_CONTRACT), (''EMIT'', tc_EMIT)]"

definition micheline_unsupported_instructions :: "Prim list" where
  "micheline_unsupported_instructions =
     [''EMPTY_MAP'', ''SAPLING_EMPTY_STATE'', ''SAPLING_VERIFY_UPDATE'', ''OPEN_CHEST'', ''VIEW'',
      ''CREATE_ACCOUNT'', ''STEPS_TO_QUOTA'', ''TICKET_DEPRECATED'', ''CAST'', ''RENAME'']"

text \<open>Primitives of types, fields and values are not instructions.\<close>

definition tc_simple :: "Prim \<Rightarrow> instr_checker" where
  "tc_simple prim args anns self_entrypoints stack =
     (case map_of overload_tables prim of
        Some (n, rows) \<Rightarrow> tc_overloads prim n rows args stack
      | None \<Rightarrow>
          (case map_of shape_checkers prim of
             Some checker \<Rightarrow> checker args anns self_entrypoints stack
           | None \<Rightarrow>
               if prim \<in> set micheline_unsupported_instructions then throw (TodoInstr prim)
               else throw UnexpectedMicheline))"

end
