(* ===== verification/MIR_TcRules.thy ===== *)
theory MIR_TcRules
  imports MIR_Overloads
begin

text \<open>
  The type checker of Michelson (\<open>src/contrib/mir/src/typechecker.rs\<close>), continued: the rules for
  instructions with code, for lambdas, scripts and values.  A rule gets the check of the code it
  contains as a function of the stack; the recursion is tied in \<open>MIR_Typechecker\<close>.
\<close>

section \<open>Instructions with code\<close>

type_synonym block_checker = "FailingTypeStack \<Rightarrow> (Instruction list \<times> FailingTypeStack) tc"

definition tc_DIP :: "nat option \<Rightarrow> block_checker \<Rightarrow> TypeStack \<Rightarrow> checked_instr tc" where
  "tc_DIP opt_height nested stack =
     bind (tc_charge (tc_dip_n opt_height)) (\<lambda>_.
     bind (ensure_stack_len ''DIP'' stack (unwrap_or_1 opt_height)) (\<lambda>_.
     bind (lift (stk_split (unwrap_or_1 opt_height) stack)) (\<lambda>(protected, stack).
     bind (nested (Stk stack)) (\<lambda>(nested, opt_stack).
     bind (access_mut opt_stack FailNotInTail) (\<lambda>stack.
       checked_as (I_Dip opt_height nested) (protected @ stack))))))"

fun tc_IF :: "block_checker \<Rightarrow> block_checker \<Rightarrow> TypeStack \<Rightarrow> checked_instr tc" where
  "tc_IF nested_t nested_f (ty # stack) =
     (if ty = T_Bool then
        bind (nested_t (Stk stack)) (\<lambda>(nested_t, opt_stack).
        bind (nested_f (Stk stack)) (\<lambda>(nested_f, f_opt_stack).
        bind (unify_stacks opt_stack f_opt_stack) (\<lambda>opt_stack.
          return (I_If nested_t nested_f, opt_stack))))
      else throw (NoMatchingOverload ''IF''))"
| "tc_IF nested_t nested_f [] = throw (NoMatchingOverload ''IF'')"

fun tc_IF_NONE :: "block_checker \<Rightarrow> block_checker \<Rightarrow> TypeStack \<Rightarrow> checked_instr tc" where
  "tc_IF_NONE when_none when_some (ty # stack) =
     (case ty of
        T_Option ty \<Rightarrow>
          bind (when_none (Stk stack)) (\<lambda>(when_none, opt_stack).
          bind (when_some (Stk (ty # stack))) (\<lambda>(when_some, some_opt_stack).
          bind (unify_stacks opt_stack some_opt_stack) (\<lambda>opt_stack.
            return (I_IfNone when_none when_some, opt_stack))))
      | _ \<Rightarrow> throw (NoMatchingOverload ''IF_NONE''))"
| "tc_IF_NONE when_none when_some [] = throw (NoMatchingOverload ''IF_NONE'')"

fun tc_IF_CONS :: "block_checker \<Rightarrow> block_checker \<Rightarrow> TypeStack \<Rightarrow> checked_instr tc" where
  "tc_IF_CONS when_cons when_nil (lty # stack) =
     (case lty of
        T_List ty \<Rightarrow>
          bind (when_cons (Stk (ty # lty # stack))) (\<lambda>(when_cons, cons_opt_stack).
          bind (when_nil (Stk stack)) (\<lambda>(when_nil, opt_stack).
          bind (unify_stacks opt_stack cons_opt_stack) (\<lambda>opt_stack.
            return (I_IfCons when_cons when_nil, opt_stack))))
      | _ \<Rightarrow> throw (NoMatchingOverload ''IF_CONS''))"
| "tc_IF_CONS when_cons when_nil [] = throw (NoMatchingOverload ''IF_CONS'')"

fun tc_IF_LEFT :: "block_checker \<Rightarrow> block_checker \<Rightarrow> TypeStack \<Rightarrow> checked_instr tc" where
  "tc_IF_LEFT when_left when_right (ty # stack) =
     (case ty of
        T_Or ty_l ty_r \<Rightarrow>
          bind (when_left (Stk (ty_l # stack))) (\<lambda>(when_left, opt_stack).
          bind (when_right (Stk (ty_r # stack))) (\<lambda>(when_right, opt_right_stack).
          bind (unify_stacks opt_stack opt_right_stack) (\<lambda>opt_stack.
            return (I_IfLeft when_left when_right, opt_stack))))
      | _ \<Rightarrow> throw (NoMatchingOverload ''IF_LEFT''))"
| "tc_IF_LEFT when_left when_right [] = throw (NoMatchingOverload ''IF_LEFT'')"

text \<open>
  After unification with a stack that is not failed, the result is not failed either; \<open>LOOP\<close> ignores
  a failed stack, \<open>LOOP_LEFT\<close> reports it.
\<close>

fun pop_if_ok :: "FailingTypeStack \<Rightarrow> FailingTypeStack" where
  "pop_if_ok (Stk stack) = Stk (tl stack)"
| "pop_if_ok Failed = Failed"

fun tc_LOOP :: "block_checker \<Rightarrow> TypeStack \<Rightarrow> checked_instr tc" where
  "tc_LOOP nested (ty # stack) =
     (if ty = T_Bool then
        bind (nested (Stk stack)) (\<lambda>(nested, opt_stack).
        bind (unify_stacks opt_stack (Stk (ty # stack))) (\<lambda>opt_stack.
          return (I_Loop nested, pop_if_ok opt_stack)))
      else throw (NoMatchingOverload ''LOOP''))"
| "tc_LOOP nested [] = throw (NoMatchingOverload ''LOOP'')"

fun set_top :: "'a \<Rightarrow> 'a list \<Rightarrow> ('e, 'a list) comp" where
  "set_top x (_ # stack) = return (x # stack)"
| "set_top x [] = panic StackBounds"

fun tc_LOOP_LEFT :: "block_checker \<Rightarrow> TypeStack \<Rightarrow> checked_instr tc" where
  "tc_LOOP_LEFT nested (ty # stack) =
     (case ty of
        T_Or l_ty r_ty \<Rightarrow>
          bind (nested (Stk (l_ty # stack))) (\<lambda>(nested, opt_stack).
          bind (unify_stacks opt_stack (Stk (ty # stack))) (\<lambda>opt_stack.
          bind (access_mut opt_stack FailNotInTail) (\<lambda>stack.
          bind (set_top r_ty stack) (\<lambda>stack. checked_as (I_LoopLeft nested) stack))))
      | _ \<Rightarrow> throw (NoMatchingOverload ''LOOP_LEFT''))"
| "tc_LOOP_LEFT nested [] = throw (NoMatchingOverload ''LOOP_LEFT'')"

definition tc_iter :: "Iter_ovl \<Rightarrow> block_checker \<Rightarrow> Type \<Rightarrow> TypeStack \<Rightarrow> checked_instr tc" where
  "tc_iter ovl nested ty stack =
     bind (nested (Stk (ty # stack))) (\<lambda>(nested, opt_inner_stack).
     bind (unify_stacks (Stk stack) opt_inner_stack) (\<lambda>opt_stack.
       return (I_Iter ovl nested, opt_stack)))"

fun tc_ITER :: "block_checker \<Rightarrow> TypeStack \<Rightarrow> checked_instr tc" where
  "tc_ITER nested (ty # stack) =
     (case ty of
        T_List ty \<Rightarrow> tc_iter Iter_List nested ty stack
      | T_Set ty \<Rightarrow> tc_iter Iter_Set nested ty stack
      | T_Map kty vty \<Rightarrow> tc_iter Iter_Map nested (T_Pair kty vty) stack
      | _ \<Rightarrow> throw (NoMatchingOverload ''ITER''))"
| "tc_ITER nested [] = throw (NoMatchingOverload ''ITER'')"

definition typecheck_map_block ::
  "block_checker \<Rightarrow> Type \<Rightarrow> TypeStack \<Rightarrow> (Instruction list \<times> Type) tc" where
  "typecheck_map_block nested ty1 stack =
     bind (nested (Stk (ty1 # stack))) (\<lambda>(nested, opt_nested_stack).
     bind (access_mut opt_nested_stack MapBlockFail) (\<lambda>nested_stack.
       case nested_stack of
         [] \<Rightarrow> throw MapBlockEmptyStack
       | ty2 # nested_stack \<Rightarrow>
           bind (ensure_stacks_eq stack nested_stack) (\<lambda>_. return (nested, ty2))))"

fun tc_MAP :: "block_checker \<Rightarrow> TypeStack \<Rightarrow> checked_instr tc" where
  "tc_MAP nested (ty # stack) =
     (case ty of
        T_List ty1 \<Rightarrow>
          bind (typecheck_map_block nested ty1 stack) (\<lambda>(nested, ty2).
            checked_as (I_Map Map_List nested) (T_List ty2 # stack))
      | T_Option ty1 \<Rightarrow>
          bind (typecheck_map_block nested ty1 stack) (\<lambda>(nested, ty2).
            checked_as (I_Map Map_Option nested) (T_Option ty2 # stack))
      | T_Map kty ty1 \<Rightarrow>
          bind (typecheck_map_block nested (T_Pair kty ty1) stack) (\<lambda>(nested, ty2).
            checked_as (I_Map Map_Map nested) (T_Map kty ty2 # stack))
      | _ \<Rightarrow> throw (NoMatchingOverload ''MAP''))"
| "tc_MAP nested [] = throw (NoMatchingOverload ''MAP'')"

definition tc_PUSH :: "Micheline \<Rightarrow> (Type \<Rightarrow> TypedValue tc) \<Rightarrow> TypeStack \<Rightarrow> checked_instr tc" where
  "tc_PUSH t value stack =
     bind (parse_ty t) (\<lambda>t.
     bind (ensure_prop t Pushable) (\<lambda>_.
     bind (value t) (\<lambda>v. checked_as (I_Push v) (t # stack))))"

text \<open>\<open>instrs\<close> is the code as Micheline, \<open>nested\<close> its check.\<close>

definition typecheck_lambda ::
  "Micheline list \<Rightarrow> block_checker \<Rightarrow> Type \<Rightarrow> Type \<Rightarrow> bool \<Rightarrow> Lambda tc" where
  "typecheck_lambda instrs nested in_ty out_ty recursive =
     (let stk = (if recursive then Stk [in_ty, T_Lambda in_ty out_ty] else Stk [in_ty]) in
      bind (nested stk) (\<lambda>(code, stk).
      bind (unify_stacks stk (Stk [out_ty])) (\<lambda>_.
        return (if recursive then L_LambdaRec in_ty out_ty (Seq instrs) code
                else L_Lambda (Seq instrs) code))))"

definition tc_LAMBDA ::
  "bool \<Rightarrow> Micheline \<Rightarrow> Micheline \<Rightarrow> Micheline list \<Rightarrow> block_checker \<Rightarrow> TypeStack \<Rightarrow> checked_instr tc" where
  "tc_LAMBDA recursive ty1 ty2 instrs nested stack =
     bind (parse_ty ty1) (\<lambda>in_ty.
     bind (parse_ty ty2) (\<lambda>out_ty.
     bind (typecheck_lambda instrs nested in_ty out_ty recursive) (\<lambda>res.
       checked_as (I_Lambda res) (T_Lambda in_ty out_ty # stack))))"

section \<open>Scripts\<close>

text \<open>The top-level elements collected so far: parameter, storage, code.\<close>

type_synonym script_elements = "Micheline option \<times> Micheline option \<times> Micheline option"

definition set_if_none :: "Prim \<Rightarrow> Micheline option \<Rightarrow> Micheline \<Rightarrow> (TcError, Micheline option) outcome" where
  "set_if_none elt var val = (if var = None then Ok (Some val) else Err (DuplicateTopLevelElt elt))"

fun collect_elements :: "script_elements \<Rightarrow> Micheline list \<Rightarrow> (TcError, script_elements) outcome" where
  "collect_elements elts [] = Ok elts"
| "collect_elements (param, stor, code) (App prim [content] anns # seq) =
     (if anns \<noteq> [] then Err UnexpectedMicheline
      else if prim = ''code'' then
        bind_outcome (set_if_none prim code content) (\<lambda>code. collect_elements (param, stor, code) seq)
      else if prim = ''parameter'' then
        bind_outcome (set_if_none prim param content) (\<lambda>param. collect_elements (param, stor, code) seq)
      else if prim = ''storage'' then
        bind_outcome (set_if_none prim stor content) (\<lambda>stor. collect_elements (param, stor, code) seq)
      else Err UnexpectedMicheline)"
| "collect_elements elts (_ # seq) = Err UnexpectedMicheline"

text \<open>The elements of a script, which may be nested in one more sequence.\<close>

fun script_elements_of :: "Micheline \<Rightarrow> (TcError, script_elements) outcome" where
  "script_elements_of (Seq [Seq seq]) = collect_elements (None, None, None) seq"
| "script_elements_of (Seq seq) = collect_elements (None, None, None) seq"
| "script_elements_of _ = Err UnexpectedMicheline"

type_synonym code_checker = "Entrypoints option \<Rightarrow> FailingTypeStack \<Rightarrow> checked_instr tc"

definition check_script ::
  "Micheline option \<Rightarrow> Micheline option \<Rightarrow> code_checker option \<Rightarrow> ContractScript tc" where
  "check_script parameter_ty storage_ty code =
     bind (lift (ok_or parameter_ty (MissingTopLevelElt ''parameter''))) (\<lambda>parameter_ty.
     bind (parse_parameter_ty_with_entrypoints parameter_ty) (\<lambda>(entrypoints, parameter).
     bind (lift (ok_or storage_ty (MissingTopLevelElt ''storage''))) (\<lambda>storage_ty.
     bind (parse_ty storage_ty) (\<lambda>stor.
     bind (ensure_prop parameter Passable) (\<lambda>_.
     bind (ensure_prop stor Storable) (\<lambda>_.
     bind (lift (ok_or code (MissingTopLevelElt ''code''))) (\<lambda>code.
     bind (code (Some entrypoints) (Stk [T_Pair parameter stor])) (\<lambda>(code, stack).
     bind (unify_stacks (Stk [T_Pair (T_List T_Operation) stor]) stack) (\<lambda>_.
       return (ContractScript parameter stor code))))))))))"

fun tc_CREATE_CONTRACT :: "Micheline \<Rightarrow> ContractScript tc \<Rightarrow> TypeStack \<Rightarrow> checked_instr tc" where
  "tc_CREATE_CONTRACT cs script (opt_keyhash # m # new_storage # stack) =
     (if m = T_Mumav \<and> opt_keyhash = T_Option T_KeyHash then
        bind script (\<lambda>contract_script. case contract_script of ContractScript parameter stor code \<Rightarrow>
          bind (ensure_ty_eq stor new_storage) (\<lambda>_.
            checked_as (I_CreateContract contract_script cs) (T_Operation # T_Address # stack)))
      else throw (NoMatchingOverload ''CREATE_CONTRACT''))"
| "tc_CREATE_CONTRACT cs script _ = throw (NoMatchingOverload ''CREATE_CONTRACT'')"

section \<open>Values\<close>

definition typecheck_contract_address :: "Address \<Rightarrow> Entrypoint \<Rightarrow> Type \<Rightarrow> Address tc" where
  "typecheck_contract_address address ep typ =
     bind (if entrypoint_is_default (address_entrypoint address) then
             return (if entrypoint_is_default ep then entrypoint_default else ep)
           else if entrypoint_is_default ep then return (address_entrypoint address)
           else throw EntrypointAmbiguity) (\<lambda>entrypoint.
       case address_hash address of
         Implicit _ \<Rightarrow>
           if \<not> entrypoint_is_default entrypoint then throw (NoSuchEntrypoint entrypoint)
           else if (case typ of T_Unit \<Rightarrow> True | T_Ticket _ \<Rightarrow> True | _ \<Rightarrow> False)
           then return (Address (address_hash address) entrypoint)
           else throw (UnexpectedImplicitAccountType typ)
       | _ \<Rightarrow>
           bind (read (\<lambda>ctx. ctx_lookup_contract ctx (address_hash address))) (\<lambda>found.
           bind (lift (ok_or found NoSuchContract)) (\<lambda>contract_entrypoints.
           bind (lift (ok_or (contract_entrypoints entrypoint) (NoSuchEntrypoint entrypoint))) (\<lambda>ty.
           bind (ensure_ty_eq typ ty) (\<lambda>_.
             return (Address (address_hash address) entrypoint))))))"

definition lift_repr :: "Type \<Rightarrow> 'a repr \<Rightarrow> 'a tc" where
  "lift_repr t r = lift (map_err_outcome (TcByteReprError t) r)"

definition lift_chain_id :: "'a repr \<Rightarrow> 'a tc" where
  "lift_chain_id r = lift (map_err_outcome (\<lambda>_. ChainIdError) r)"

text \<open>Values whose Micheline has no parts that are values.\<close>

fun tc_int_value :: "Ext \<Rightarrow> Type \<Rightarrow> int \<Rightarrow> TypedValue tc" where
  "tc_int_value ext t n =
     (case t of
        T_Nat \<Rightarrow> if n < 0 then throw NumericConversion else return (V_Nat (nat n))
      | T_Int \<Rightarrow> return (V_Int n)
      | T_Mumav \<Rightarrow>
          if n < 0 then throw (InvalidValueForType t)
          else if n \<ge> 2 ^ 63 then throw NumericConversion
          else return (V_Mumav n)
      | T_Timestamp \<Rightarrow> return (V_Timestamp n)
      | T_Bls12381Fr \<Rightarrow>
          bind (tc_consume tc_BLS_FR) (\<lambda>_.
          bind (lift (fr_from_big_int ext n)) (\<lambda>x. return (V_Bls12381Fr x)))
      | _ \<Rightarrow> throw (InvalidValueForType t))"

fun tc_string_value :: "Ext \<Rightarrow> Type \<Rightarrow> string \<Rightarrow> TypedValue tc" where
  "tc_string_value ext t s =
     (case t of
        T_String \<Rightarrow> return (V_String s)
      | T_Address \<Rightarrow>
          bind (tc_consume tc_KEY_HASH_READABLE) (\<lambda>_.
          bind (lift_repr T_Address (address_from_base58_check ext s)) (\<lambda>x. return (V_Address x)))
      | T_ChainId \<Rightarrow>
          bind (tc_consume tc_CHAIN_ID_READABLE) (\<lambda>_.
          bind (lift_chain_id (chain_id_from_base58_check ext s)) (\<lambda>x. return (V_ChainId x)))
      | T_Key \<Rightarrow>
          bind (tc_consume tc_KEY_READABLE) (\<lambda>_.
          bind (lift_repr T_Key (key_from_base58_check ext s)) (\<lambda>x. return (V_Key x)))
      | T_Signature \<Rightarrow>
          bind (tc_consume tc_KEY_READABLE) (\<lambda>_.
          bind (lift_repr T_Signature (signature_from_base58_check ext s)) (\<lambda>x. return (V_Signature x)))
      | T_KeyHash \<Rightarrow>
          bind (tc_consume tc_KEY_HASH_READABLE) (\<lambda>_.
          bind (lift_repr T_KeyHash (keyhash_from_base58_check ext s)) (\<lambda>x. return (V_KeyHash x)))
      | T_Timestamp \<Rightarrow>
          bind (tc_charge (tc_timestamp_decoding (length s))) (\<lambda>_.
          bind (lift (ok_or (parse_rfc3339 ext s) (InvalidValueForType T_Timestamp))) (\<lambda>dt.
            return (V_Timestamp dt)))
      | _ \<Rightarrow> throw (InvalidValueForType t))"

fun tc_bytes_value :: "Ext \<Rightarrow> Type \<Rightarrow> bytes \<Rightarrow> TypedValue tc" where
  "tc_bytes_value ext t bs =
     (case t of
        T_Bytes \<Rightarrow> return (V_Bytes bs)
      | T_Address \<Rightarrow>
          bind (tc_consume tc_KEY_HASH_OPTIMIZED) (\<lambda>_.
          bind (lift_repr T_Address (address_from_bytes ext bs)) (\<lambda>x. return (V_Address x)))
      | T_ChainId \<Rightarrow>
          bind (tc_consume tc_CHAIN_ID_OPTIMIZED) (\<lambda>_.
          bind (lift_chain_id (chain_id_from_bytes ext bs)) (\<lambda>x. return (V_ChainId x)))
      | T_Key \<Rightarrow>
          bind (tc_consume tc_KEY_OPTIMIZED) (\<lambda>_.
          bind (lift_repr T_Key (key_from_bytes ext bs)) (\<lambda>x. return (V_Key x)))
      | T_Signature \<Rightarrow>
          bind (tc_consume tc_KEY_OPTIMIZED) (\<lambda>_.
          bind (lift_repr T_Signature (signature_from_bytes ext bs)) (\<lambda>x. return (V_Signature x)))
      | T_KeyHash \<Rightarrow>
          bind (tc_consume tc_KEY_HASH_OPTIMIZED) (\<lambda>_.
          bind (lift_repr T_KeyHash (keyhash_from_bytes ext bs)) (\<lambda>x. return (V_KeyHash x)))
      | T_Bls12381Fr \<Rightarrow>
          bind (tc_consume tc_BLS_FR) (\<lambda>_.
          bind (lift (ok_or (fr_from_bytes ext bs) (InvalidValueForType t))) (\<lambda>x. return (V_Bls12381Fr x)))
      | T_Bls12381G1 \<Rightarrow>
          bind (tc_consume tc_BLS_G1) (\<lambda>_.
          bind (lift (ok_or (g1_from_bytes ext bs) (InvalidValueForType t))) (\<lambda>x. return (V_Bls12381G1 x)))
      | T_Bls12381G2 \<Rightarrow>
          bind (tc_consume tc_BLS_G2) (\<lambda>_.
          bind (lift (ok_or (g2_from_bytes ext bs) (InvalidValueForType t))) (\<lambda>x. return (V_Bls12381G2 x)))
      | _ \<Rightarrow> throw (InvalidValueForType t))"

definition tc_constant_value :: "Type \<Rightarrow> Prim \<Rightarrow> TypedValue tc" where
  "tc_constant_value t prim =
     (if t = T_Bool \<and> prim = ''True'' then return (V_Bool True)
      else if t = T_Bool \<and> prim = ''False'' then return (V_Bool False)
      else if t = T_Unit \<and> prim = ''Unit'' then return V_Unit
      else throw (InvalidValueForType t))"

fun tc_atomic_value :: "Ext \<Rightarrow> Micheline \<Rightarrow> Type \<Rightarrow> TypedValue tc" where
  "tc_atomic_value ext (Mich_Int n) t = tc_int_value ext t n"
| "tc_atomic_value ext (Mich_String s) t = tc_string_value ext t s"
| "tc_atomic_value ext (Mich_Bytes bs) t = tc_bytes_value ext t bs"
| "tc_atomic_value ext (App prim args anns) t =
     (if args = [] then tc_constant_value t prim else throw (InvalidValueForType t))"
| "tc_atomic_value ext (Seq elts) t = throw (InvalidValueForType t)"

text \<open>
  The check of \<open>OrderValidatingIterator\<close> between two neighbours, made when the second one has been
  checked.  The set or map collected from a strictly ascending sequence is that sequence.
\<close>

definition check_order :: "Type \<Rightarrow> TypedValue option \<Rightarrow> TypedValue \<Rightarrow> unit tc" where
  "check_order container_ty cur next_key =
     (case cur of
        None \<Rightarrow> return ()
      | Some cur_key \<Rightarrow>
          bind (tc_charge (cost_compare cur_key next_key)) (\<lambda>_.
          bind (lift (value_cmp cur_key next_key)) (\<lambda>ord.
            case ord of
              Less \<Rightarrow> return ()
            | Equal \<Rightarrow> throw (DuplicateElements container_ty)
            | Greater \<Rightarrow> throw (ElementsNotSorted container_ty))))"

fun pair_args :: "Micheline \<Rightarrow> (Micheline \<times> Micheline list) option" where
  "pair_args (App prim (vl # rest) anns) = (if prim = ''Pair'' \<and> rest \<noteq> [] then Some (vl, rest) else None)"
| "pair_args (Seq (vl # rest)) = (if rest \<noteq> [] then Some (vl, rest) else None)"
| "pair_args _ = None"

fun seq_args :: "Micheline \<Rightarrow> Micheline list option" where
  "seq_args (Seq vs) = Some vs"
| "seq_args _ = None"

text \<open>The code of a lambda, and whether it is recursive.\<close>

fun lambda_code :: "Micheline \<Rightarrow> (Micheline list \<times> bool) option" where
  "lambda_code (Seq instrs) = Some (instrs, False)"
| "lambda_code (App prim [Seq instrs] anns) = (if prim = ''Lambda_rec'' then Some (instrs, True) else None)"
| "lambda_code _ = None"

text \<open>The identifier and the elements of a big map.\<close>

fun big_map_parts :: "Micheline \<Rightarrow> (int option \<times> Micheline list option) option" where
  "big_map_parts (Mich_Int i) = Some (Some i, None)"
| "big_map_parts (Seq vs) = Some (None, Some vs)"
| "big_map_parts (App prim [Mich_Int i, Seq vs] anns) =
     (if prim = ''Pair'' then Some (Some i, Some vs) else None)"
| "big_map_parts _ = None"

definition check_big_map_id :: "int option \<Rightarrow> Type \<Rightarrow> Type \<Rightarrow> unit tc" where
  "check_big_map_id id_opt tk tv =
     (case id_opt of
        None \<Rightarrow> return ()
      | Some i \<Rightarrow>
          bind (read (\<lambda>ctx. mem_big_map_get_type (ctx_big_map_storage ctx) i)) (\<lambda>r.
          bind (lift (map_err_outcome TcLazyStorageError r)) (\<lambda>tys.
          bind (lift (ok_or tys (BigMapNotFound i))) (\<lambda>(key_type, value_type).
          bind (ensure_ty_eq key_type tk) (\<lambda>_. ensure_ty_eq value_type tv)))))"

fun ticket_of_value :: "Type \<Rightarrow> TypedValue \<Rightarrow> TypedValue tc" where
  "ticket_of_value t (V_Pair (V_Address address) (V_Pair c (V_Nat amount))) =
     return (V_Ticket (address_hash address) c amount)"
| "ticket_of_value t (V_Pair _ _) = panic Unreachable"
| "ticket_of_value t _ = throw (InvalidValueForType t)"

end
