(* ===== verification/MIR_Typechecker.thy ===== *)
theory MIR_Typechecker
  imports MIR_TcRules
begin

text \<open>
  The type checker of Michelson (\<open>src/contrib/mir/src/typechecker.rs\<close>): the mutually recursive
  functions for instructions, values and scripts, on the Micheline tree.
\<close>

section \<open>Sizes of parts\<close>

definition micheline_sizes :: "Micheline list \<Rightarrow> nat" where
  "micheline_sizes ms = sum_list (map micheline_size ms)"

lemma micheline_sizes_simps [simp]:
  "micheline_sizes [] = 0"
  "micheline_sizes (m # ms) = micheline_size m + micheline_sizes ms"
  "micheline_size (App prim args anns) = Suc (micheline_sizes args)"
  "micheline_size (Seq elts) = Suc (micheline_sizes elts)"
  by (simp_all add: micheline_sizes_def)

declare micheline_size.simps [simp del]

lemma pair_args_size:
  "pair_args v = Some (vl, rest) \<Longrightarrow> micheline_size vl < micheline_size v \<and> Suc (micheline_sizes rest) < micheline_size v"
  by (cases v rule: pair_args.cases) (auto split: if_splits)

lemma seq_args_size: "seq_args v = Some vs \<Longrightarrow> micheline_sizes vs < micheline_size v"
  by (cases v) simp_all

lemma lambda_code_size: "lambda_code v = Some (instrs, r) \<Longrightarrow> micheline_sizes instrs < micheline_size v"
  by (cases v rule: lambda_code.cases) (auto split: if_splits)

lemma big_map_parts_size: "big_map_parts v = Some (i, Some vs) \<Longrightarrow> micheline_sizes vs < micheline_size v"
  by (cases v rule: big_map_parts.cases) (auto split: if_splits)

lemma collect_elements_size:
  "collect_elements (p, s, c) seq = Ok (p', s', Some m) \<Longrightarrow> c = Some m \<or> micheline_size m < Suc (micheline_sizes seq)"
  by (induction "(p, s, c)" seq arbitrary: p s c rule: collect_elements.induct)
    (auto simp: bind_outcome_Ok set_if_none_def split: if_splits)

lemma script_elements_size:
  "script_elements_of v = Ok (p, s, Some m) \<Longrightarrow> micheline_size m < micheline_size v"
  by (cases v rule: script_elements_of.cases) (auto dest!: collect_elements_size)

section \<open>The type checker\<close>

text \<open>Tickets and contracts are checked as values of another type.\<close>

fun indirect :: "Type \<Rightarrow> nat" where
  "indirect (T_Ticket _) = 1"
| "indirect (T_Contract _) = 1"
| "indirect _ = 0"

lemma indirect_less [simp]: "indirect t < 2"
  by (cases t) simp_all

function (sequential)
  typecheck_instruction :: "Ext \<Rightarrow> Micheline \<Rightarrow> Entrypoints option \<Rightarrow> FailingTypeStack \<Rightarrow> checked_instr tc"
and typecheck :: "Ext \<Rightarrow> Micheline list \<Rightarrow> Entrypoints option \<Rightarrow> block_checker"
and typecheck_value :: "Ext \<Rightarrow> Micheline \<Rightarrow> Type \<Rightarrow> TypedValue tc"
and typecheck_list :: "Ext \<Rightarrow> Micheline list \<Rightarrow> Type \<Rightarrow> TypedValue list tc"
and typecheck_set :: "Ext \<Rightarrow> Type \<Rightarrow> Type \<Rightarrow> TypedValue option \<Rightarrow> Micheline list \<Rightarrow> TypedValue list tc"
and typecheck_map ::
  "Ext \<Rightarrow> Type \<Rightarrow> Type \<Rightarrow> Type \<Rightarrow> TypedValue option \<Rightarrow> Micheline list \<Rightarrow> (TypedValue \<times> TypedValue) list tc"
and typecheck_script :: "Ext \<Rightarrow> Micheline \<Rightarrow> ContractScript tc" where
  "typecheck_instruction ext i self_entrypoints opt_stack =
     bind (access_mut opt_stack FailNotInTail) (\<lambda>stack.
     bind (tc_consume tc_INSTR_STEP) (\<lambda>_.
       case i of
         Seq nested \<Rightarrow>
           bind (typecheck ext nested self_entrypoints opt_stack) (\<lambda>(nested, opt_stack).
             return (I_Seq nested, opt_stack))
       | App prim args anns \<Rightarrow>
           if prim = ''DIP'' then
             (case args of
                [Mich_Int height, Seq nested] \<Rightarrow>
                  bind (validate_u10 height) (\<lambda>height.
                    tc_DIP (Some height) (typecheck ext nested self_entrypoints) stack)
              | [Seq nested] \<Rightarrow> tc_DIP None (typecheck ext nested self_entrypoints) stack
              | _ \<Rightarrow> throw UnexpectedMicheline)
           else if prim = ''IF'' then
             (case args of
                [Seq nested_t, Seq nested_f] \<Rightarrow>
                  tc_IF (typecheck ext nested_t self_entrypoints) (typecheck ext nested_f self_entrypoints) stack
              | _ \<Rightarrow> throw UnexpectedMicheline)
           else if prim = ''IF_NONE'' then
             (case args of
                [Seq when_none, Seq when_some] \<Rightarrow>
                  tc_IF_NONE (typecheck ext when_none self_entrypoints) (typecheck ext when_some self_entrypoints) stack
              | _ \<Rightarrow> throw UnexpectedMicheline)
           else if prim = ''IF_CONS'' then
             (case args of
                [Seq when_cons, Seq when_nil] \<Rightarrow>
                  tc_IF_CONS (typecheck ext when_cons self_entrypoints) (typecheck ext when_nil self_entrypoints) stack
              | _ \<Rightarrow> throw UnexpectedMicheline)
           else if prim = ''IF_LEFT'' then
             (case args of
                [Seq when_left, Seq when_right] \<Rightarrow>
                  tc_IF_LEFT (typecheck ext when_left self_entrypoints) (typecheck ext when_right self_entrypoints) stack
              | _ \<Rightarrow> throw UnexpectedMicheline)
           else if prim = ''LOOP'' then
             (case args of
                [Seq nested] \<Rightarrow> tc_LOOP (typecheck ext nested self_entrypoints) stack
              | _ \<Rightarrow> throw UnexpectedMicheline)
           else if prim = ''LOOP_LEFT'' then
             (case args of
                [Seq nested] \<Rightarrow> tc_LOOP_LEFT (typecheck ext nested self_entrypoints) stack
              | _ \<Rightarrow> throw UnexpectedMicheline)
           else if prim = ''ITER'' then
             (case args of
                [Seq nested] \<Rightarrow> tc_ITER (typecheck ext nested self_entrypoints) stack
              | _ \<Rightarrow> throw UnexpectedMicheline)
           else if prim = ''MAP'' then
             (case args of
                [Seq nested] \<Rightarrow> tc_MAP (typecheck ext nested self_entrypoints) stack
              | _ \<Rightarrow> throw UnexpectedMicheline)
           else if prim = ''PUSH'' then
             (case args of
                [t, v] \<Rightarrow> tc_PUSH t (typecheck_value ext v) stack
              | _ \<Rightarrow> throw UnexpectedMicheline)
           else if prim = ''LAMBDA'' \<or> prim = ''LAMBDA_REC'' then
             (case args of
                [ty1, ty2, Seq instrs] \<Rightarrow>
                  tc_LAMBDA (prim = ''LAMBDA_REC'') ty1 ty2 instrs (typecheck ext instrs None) stack
              | _ \<Rightarrow> throw UnexpectedMicheline)
           else if prim = ''CREATE_CONTRACT'' then
             (case args of
                [cs] \<Rightarrow> tc_CREATE_CONTRACT cs (typecheck_script ext cs) stack
              | _ \<Rightarrow> throw UnexpectedMicheline)
           else tc_simple prim args anns self_entrypoints stack
       | _ \<Rightarrow> throw UnexpectedMicheline))"
| "typecheck ext [] self_entrypoints opt_stack = return ([], opt_stack)"
| "typecheck ext (i # is) self_entrypoints opt_stack =
     bind (typecheck_instruction ext i self_entrypoints opt_stack) (\<lambda>(i, opt_stack).
     bind (typecheck ext is self_entrypoints opt_stack) (\<lambda>(is, opt_stack).
       return (i # is, opt_stack)))"
| "typecheck_value ext v t =
     bind (tc_consume tc_VALUE_STEP) (\<lambda>_.
       case t of
         T_Pair ty_l ty_r \<Rightarrow>
           (case pair_args v of
              Some (vl, rest) \<Rightarrow>
                bind (typecheck_value ext vl ty_l) (\<lambda>l.
                bind (case rest of
                        [vr] \<Rightarrow> typecheck_value ext vr ty_r
                      | vrs \<Rightarrow> typecheck_value ext (App ''Pair'' rest NO_ANNS) ty_r) (\<lambda>r.
                  return (V_Pair l r)))
            | None \<Rightarrow> throw (InvalidValueForType t))
       | T_Or ty_l ty_r \<Rightarrow>
           (case v of
              App prim [val] anns \<Rightarrow>
                if prim = ''Left'' then bind (typecheck_value ext val ty_l) (\<lambda>x. return (V_Or (Inl x)))
                else if prim = ''Right'' then bind (typecheck_value ext val ty_r) (\<lambda>x. return (V_Or (Inr x)))
                else throw (InvalidValueForType t)
            | _ \<Rightarrow> throw (InvalidValueForType t))
       | T_Option ty \<Rightarrow>
           (case v of
              App prim [val] anns \<Rightarrow>
                if prim = ''Some'' then bind (typecheck_value ext val ty) (\<lambda>x. return (V_Option (Some x)))
                else throw (InvalidValueForType t)
            | App prim [] anns \<Rightarrow>
                if prim = ''None'' then return (V_Option None) else throw (InvalidValueForType t)
            | _ \<Rightarrow> throw (InvalidValueForType t))
       | T_List ty \<Rightarrow>
           (case seq_args v of
              Some vs \<Rightarrow> bind (typecheck_list ext vs ty) (\<lambda>xs. return (V_List xs))
            | None \<Rightarrow> throw (InvalidValueForType t))
       | T_Set ty \<Rightarrow>
           (case seq_args v of
              Some vs \<Rightarrow>
                bind (tc_charge (tc_construct_set (size_for_gas ty) (length vs))) (\<lambda>_.
                bind (typecheck_set ext t ty None vs) (\<lambda>xs. return (V_Set xs)))
            | None \<Rightarrow> throw (InvalidValueForType t))
       | T_Map tk tv \<Rightarrow>
           (case seq_args v of
              Some vs \<Rightarrow>
                bind (tc_charge (tc_construct_map (size_for_gas tk) (length vs))) (\<lambda>_.
                bind (typecheck_map ext t tk tv None vs) (\<lambda>xs. return (V_Map xs)))
            | None \<Rightarrow> throw (InvalidValueForType t))
       | T_BigMap tk tv \<Rightarrow>
           (case big_map_parts v of
              Some (id_opt, vs_opt) \<Rightarrow>
                bind (check_big_map_id id_opt tk tv) (\<lambda>_.
                  case vs_opt of
                    Some vs \<Rightarrow>
                      bind (tc_charge (tc_construct_map (size_for_gas tk) (length vs))) (\<lambda>_.
                      bind (typecheck_map ext t tk tv None vs) (\<lambda>xs.
                        return (V_BigMap id_opt (map (apsnd Some) xs) tk tv)))
                  | None \<Rightarrow> return (V_BigMap id_opt [] tk tv))
            | None \<Rightarrow> throw (InvalidValueForType t))
       | T_Contract ty \<Rightarrow>
           bind (typecheck_value ext v T_Address) (\<lambda>t_addr.
             case t_addr of
               V_Address addr \<Rightarrow>
                 bind (typecheck_contract_address addr entrypoint_default ty) (\<lambda>addr.
                   return (V_Contract addr))
             | _ \<Rightarrow> panic Unreachable)
       | T_Lambda in_ty out_ty \<Rightarrow>
           (case lambda_code v of
              Some (instrs, recursive) \<Rightarrow>
                bind (typecheck_lambda instrs (typecheck ext instrs None) in_ty out_ty recursive) (\<lambda>lam.
                  return (V_Lambda (C_Lambda lam)))
            | None \<Rightarrow> throw (InvalidValueForType t))
       | T_Ticket c \<Rightarrow>
           bind (map_err_comp (\<lambda>_. InvalidValueForType t)
                   (typecheck_value ext v (T_Pair T_Address (T_Pair c T_Nat)))) (\<lambda>x.
             ticket_of_value t x)
       | _ \<Rightarrow> tc_atomic_value ext v t)"
| "typecheck_list ext [] ty = return []"
| "typecheck_list ext (v # vs) ty =
     bind (typecheck_value ext v ty) (\<lambda>x.
     bind (typecheck_list ext vs ty) (\<lambda>xs. return (x # xs)))"
| "typecheck_set ext set_ty elem_ty cur [] = return []"
| "typecheck_set ext set_ty elem_ty cur (v # vs) =
     bind (typecheck_value ext v elem_ty) (\<lambda>x.
     bind (check_order set_ty cur x) (\<lambda>_.
     bind (typecheck_set ext set_ty elem_ty (Some x) vs) (\<lambda>xs. return (x # xs))))"
| "typecheck_map ext map_ty key_type value_type cur [] = return []"
| "typecheck_map ext map_ty key_type value_type cur (elt # vs) =
     (case elt of
        App prim [k, v] anns \<Rightarrow>
          if prim = ''Elt'' then
            bind (typecheck_value ext k key_type) (\<lambda>k.
            bind (typecheck_value ext v value_type) (\<lambda>v.
            bind (check_order map_ty cur k) (\<lambda>_.
            bind (typecheck_map ext map_ty key_type value_type (Some k) vs) (\<lambda>kvs.
              return ((k, v) # kvs)))))
          else throw (InvalidEltForMap map_ty)
      | _ \<Rightarrow> throw (InvalidEltForMap map_ty))"
| "typecheck_script ext script =
     (case script_elements_of script of
        Ok (parameter_ty, storage_ty, code) \<Rightarrow>
          check_script parameter_ty storage_ty
            (case code of Some code \<Rightarrow> Some (typecheck_instruction ext code) | None \<Rightarrow> None)
      | Err e \<Rightarrow> throw e
      | Panic p \<Rightarrow> panic p)"
  by pat_completeness auto

termination
  by (relation "measures
      [case_sum
         (case_sum (\<lambda>(_, m, _). micheline_size m)
           (case_sum (\<lambda>(_, ms, _). micheline_sizes ms) (\<lambda>(_, m, _). micheline_size m)))
         (case_sum
           (case_sum (\<lambda>(_, ms, _). micheline_sizes ms) (\<lambda>(_, _, _, _, ms). micheline_sizes ms))
           (case_sum (\<lambda>(_, _, _, _, _, ms). micheline_sizes ms) (\<lambda>(_, m). micheline_size m))),
       case_sum
         (case_sum (\<lambda>_. 0) (case_sum (\<lambda>_. 2) (\<lambda>(_, _, t). indirect t)))
         (case_sum (\<lambda>_. 2) (case_sum (\<lambda>_. 2) (\<lambda>_. 0)))]")
    (auto dest: pair_args_size seq_args_size lambda_code_size big_map_parts_size script_elements_size)

declare typecheck_instruction.simps [simp del] typecheck_value.simps [simp del] typecheck_script.simps [simp del]

section \<open>Entry points\<close>

definition micheline_typecheck_value :: "Ext \<Rightarrow> Micheline \<Rightarrow> Micheline \<Rightarrow> TypedValue tc" where
  "micheline_typecheck_value ext self value_type =
     bind (parse_ty value_type) (\<lambda>ty. typecheck_value ext self ty)"

fun parse_tys :: "Micheline list \<Rightarrow> Type list tc" where
  "parse_tys [] = return []"
| "parse_tys (m # ms) = bind (parse_ty m) (\<lambda>t. bind (parse_tys ms) (\<lambda>ts. return (t # ts)))"

text \<open>The last element of the given stack is its top.\<close>

definition micheline_typecheck_instruction ::
  "Ext \<Rightarrow> Micheline \<Rightarrow> Micheline option \<Rightarrow> Micheline list \<Rightarrow> Instruction tc" where
  "micheline_typecheck_instruction ext self self_type stack =
     bind (case self_type of
             None \<Rightarrow> return None
           | Some ty \<Rightarrow>
               bind (parse_parameter_ty_with_entrypoints ty) (\<lambda>(entrypoints, ty).
               bind (ensure_prop ty Passable) (\<lambda>_. return (Some entrypoints)))) (\<lambda>entrypoints.
     bind (parse_tys stack) (\<lambda>checked_stack.
     bind (typecheck_instruction ext self entrypoints (Stk (rev checked_stack))) (\<lambda>(i, _).
       return i)))"

end
