(* ===== verification/MIR_TcGas.thy ===== *)
theory MIR_TcGas
  imports MIR_Typechecker
begin

text \<open>
  Type checking changes nothing of the context but its gas, and never increases it.  This holds for
  any input and any outcome, so that the interpreter, which type checks what it unpacks, terminates.
\<close>

section \<open>Instructions without code\<close>

lemma only_gas_opt_u10 [only_gas_intros]: "only_gas (opt_u10 args)"
  by (cases args rule: opt_u10.cases) (auto intro!: only_gas_intros)

lemma only_gas_unpair_fill [only_gas_intros]: "only_gas (unpair_fill n stack p)"
  by (induction n stack p rule: unpair_fill.induct) (auto intro!: only_gas_intros)

lemma only_gas_stack_pop [only_gas_intros]: "only_gas (stack_pop stack)"
  by (cases stack) (auto intro!: only_gas_intros)

lemma only_gas_anns [only_gas_intros]:
  "only_gas (lift_ep r)" "only_gas (entrypoint_of_anns anns)" "only_gas (emit_tag anns)"
  by (auto simp: lift_ep_def entrypoint_of_anns_def emit_tag_def intro!: only_gas_intros)

lemma only_gas_indexed [only_gas_intros]: "only_gas (tc_unpair_n n p stack)" "only_gas (tc_get_n n ty stack)"
  by (auto simp: tc_unpair_n_def tc_get_n_def intro!: only_gas_intros)

lemma only_gas_get_by_key [only_gas_intros]: "only_gas (tc_get_by_key stack)"
  by (cases stack rule: tc_get_by_key.cases) (auto intro!: only_gas_intros split: Type.split)

lemma only_gas_update_by_key [only_gas_intros]: "only_gas (tc_update_by_key stack)"
  by (cases stack rule: tc_update_by_key.cases) (auto intro!: only_gas_intros split: Type.split)

lemma only_gas_DROP [only_gas_intros]: "only_gas (tc_DROP args anns eps stack)"
  by (auto simp: tc_DROP_def intro!: only_gas_intros)

lemma only_gas_DUP [only_gas_intros]: "only_gas (tc_DUP args anns eps stack)"
  by (auto simp: tc_DUP_def intro!: only_gas_intros)

lemma only_gas_DIG [only_gas_intros]: "only_gas (tc_DIG args anns eps stack)"
  by (cases "(args, anns, eps, stack)" rule: tc_DIG.cases) (auto simp: Let_def intro!: only_gas_intros split: Type.split)

lemma only_gas_DUG [only_gas_intros]: "only_gas (tc_DUG args anns eps stack)"
  by (cases "(args, anns, eps, stack)" rule: tc_DUG.cases) (auto simp: Let_def intro!: only_gas_intros split: Type.split)

lemma only_gas_SWAP [only_gas_intros]: "only_gas (tc_SWAP args anns eps stack)"
  by (cases "(args, anns, eps, stack)" rule: tc_SWAP.cases) (auto simp: Let_def intro!: only_gas_intros split: Type.split)

lemma only_gas_FAILWITH [only_gas_intros]: "only_gas (tc_FAILWITH args anns eps stack)"
  by (cases "(args, anns, eps, stack)" rule: tc_FAILWITH.cases) (auto simp: Let_def intro!: only_gas_intros split: Type.split)

lemma only_gas_NEVER [only_gas_intros]: "only_gas (tc_NEVER args anns eps stack)"
  by (cases "(args, anns, eps, stack)" rule: tc_NEVER.cases) (auto simp: Let_def intro!: only_gas_intros split: Type.split)

lemma only_gas_CAR [only_gas_intros]: "only_gas (tc_CAR args anns eps stack)"
  by (cases "(args, anns, eps, stack)" rule: tc_CAR.cases) (auto simp: Let_def intro!: only_gas_intros split: Type.split)

lemma only_gas_CDR [only_gas_intros]: "only_gas (tc_CDR args anns eps stack)"
  by (cases "(args, anns, eps, stack)" rule: tc_CDR.cases) (auto simp: Let_def intro!: only_gas_intros split: Type.split)

lemma only_gas_PAIR [only_gas_intros]: "only_gas (tc_PAIR args anns eps stack)"
  by (cases "(args, anns, eps, stack)" rule: tc_PAIR.cases) (auto simp: Let_def intro!: only_gas_intros split: Type.split)

lemma only_gas_UNPAIR [only_gas_intros]: "only_gas (tc_UNPAIR args anns eps stack)"
  by (cases "(args, anns, eps, stack)" rule: tc_UNPAIR.cases) (auto simp: Let_def intro!: only_gas_intros split: Type.split)

lemma only_gas_SOME [only_gas_intros]: "only_gas (tc_SOME args anns eps stack)"
  by (cases "(args, anns, eps, stack)" rule: tc_SOME.cases) (auto simp: Let_def intro!: only_gas_intros split: Type.split)

lemma only_gas_NONE [only_gas_intros]: "only_gas (tc_NONE args anns eps stack)"
  by (cases "(args, anns, eps, stack)" rule: tc_NONE.cases) (auto simp: Let_def intro!: only_gas_intros split: Type.split)

lemma only_gas_COMPARE [only_gas_intros]: "only_gas (tc_COMPARE args anns eps stack)"
  by (cases "(args, anns, eps, stack)" rule: tc_COMPARE.cases) (auto simp: Let_def intro!: only_gas_intros split: Type.split)

lemma only_gas_NIL [only_gas_intros]: "only_gas (tc_NIL args anns eps stack)"
  by (cases "(args, anns, eps, stack)" rule: tc_NIL.cases) (auto simp: Let_def intro!: only_gas_intros split: Type.split)

lemma only_gas_CONS [only_gas_intros]: "only_gas (tc_CONS args anns eps stack)"
  by (cases "(args, anns, eps, stack)" rule: tc_CONS.cases) (auto simp: Let_def intro!: only_gas_intros split: Type.split)

lemma only_gas_CONCAT [only_gas_intros]: "only_gas (tc_CONCAT args anns eps stack)"
  by (cases "(args, anns, eps, stack)" rule: tc_CONCAT.cases) (auto simp: Let_def intro!: only_gas_intros split: Type.split)

lemma only_gas_EMPTY_SET [only_gas_intros]: "only_gas (tc_EMPTY_SET args anns eps stack)"
  by (cases "(args, anns, eps, stack)" rule: tc_EMPTY_SET.cases) (auto simp: Let_def intro!: only_gas_intros split: Type.split)

lemma only_gas_EMPTY_BIG_MAP [only_gas_intros]: "only_gas (tc_EMPTY_BIG_MAP args anns eps stack)"
  by (cases "(args, anns, eps, stack)" rule: tc_EMPTY_BIG_MAP.cases) (auto simp: Let_def intro!: only_gas_intros split: Type.split)

lemma only_gas_MEM [only_gas_intros]: "only_gas (tc_MEM args anns eps stack)"
  by (cases "(args, anns, eps, stack)" rule: tc_MEM.cases) (auto simp: Let_def intro!: only_gas_intros split: Type.split)

lemma only_gas_GET [only_gas_intros]: "only_gas (tc_GET args anns eps stack)"
  by (cases "(args, anns, eps, stack)" rule: tc_GET.cases) (auto simp: Let_def intro!: only_gas_intros split: Type.split)

lemma only_gas_UPDATE [only_gas_intros]: "only_gas (tc_UPDATE args anns eps stack)"
  by (cases "(args, anns, eps, stack)" rule: tc_UPDATE.cases) (auto simp: Let_def intro!: only_gas_intros split: Type.split)

lemma only_gas_GET_AND_UPDATE [only_gas_intros]: "only_gas (tc_GET_AND_UPDATE args anns eps stack)"
  by (cases "(args, anns, eps, stack)" rule: tc_GET_AND_UPDATE.cases) (auto simp: Let_def intro!: only_gas_intros split: Type.split)

lemma only_gas_SIZE [only_gas_intros]: "only_gas (tc_SIZE args anns eps stack)"
  by (cases "(args, anns, eps, stack)" rule: tc_SIZE.cases) (auto simp: Let_def intro!: only_gas_intros split: Type.split)

lemma only_gas_SELF [only_gas_intros]: "only_gas (tc_SELF args anns eps stack)"
  by (cases "(args, anns, eps, stack)" rule: tc_SELF.cases) (auto simp: Let_def intro!: only_gas_intros split: Type.split)

lemma only_gas_ADDRESS [only_gas_intros]: "only_gas (tc_ADDRESS args anns eps stack)"
  by (cases "(args, anns, eps, stack)" rule: tc_ADDRESS.cases) (auto simp: Let_def intro!: only_gas_intros split: Type.split)

lemma only_gas_PACK [only_gas_intros]: "only_gas (tc_PACK args anns eps stack)"
  by (cases "(args, anns, eps, stack)" rule: tc_PACK.cases) (auto simp: Let_def intro!: only_gas_intros split: Type.split)

lemma only_gas_UNPACK [only_gas_intros]: "only_gas (tc_UNPACK args anns eps stack)"
  by (cases "(args, anns, eps, stack)" rule: tc_UNPACK.cases) (auto simp: Let_def intro!: only_gas_intros split: Type.split)

lemma only_gas_TRANSFER_TOKENS [only_gas_intros]: "only_gas (tc_TRANSFER_TOKENS args anns eps stack)"
  by (cases "(args, anns, eps, stack)" rule: tc_TRANSFER_TOKENS.cases) (auto simp: Let_def intro!: only_gas_intros split: Type.split)

lemma only_gas_LEFT [only_gas_intros]: "only_gas (tc_LEFT args anns eps stack)"
  by (cases "(args, anns, eps, stack)" rule: tc_LEFT.cases) (auto simp: Let_def intro!: only_gas_intros split: Type.split)

lemma only_gas_RIGHT [only_gas_intros]: "only_gas (tc_RIGHT args anns eps stack)"
  by (cases "(args, anns, eps, stack)" rule: tc_RIGHT.cases) (auto simp: Let_def intro!: only_gas_intros split: Type.split)

lemma only_gas_EXEC [only_gas_intros]: "only_gas (tc_EXEC args anns eps stack)"
  by (cases "(args, anns, eps, stack)" rule: tc_EXEC.cases) (auto simp: Let_def intro!: only_gas_intros split: Type.split)

lemma only_gas_APPLY [only_gas_intros]: "only_gas (tc_APPLY args anns eps stack)"
  by (cases "(args, anns, eps, stack)" rule: tc_APPLY.cases) (auto simp: Let_def intro!: only_gas_intros split: Type.split)

lemma only_gas_TICKET [only_gas_intros]: "only_gas (tc_TICKET args anns eps stack)"
  by (cases "(args, anns, eps, stack)" rule: tc_TICKET.cases) (auto simp: Let_def intro!: only_gas_intros split: Type.split)

lemma only_gas_READ_TICKET [only_gas_intros]: "only_gas (tc_READ_TICKET args anns eps stack)"
  by (cases "(args, anns, eps, stack)" rule: tc_READ_TICKET.cases) (auto simp: Let_def intro!: only_gas_intros split: Type.split)

lemma only_gas_SPLIT_TICKET [only_gas_intros]: "only_gas (tc_SPLIT_TICKET args anns eps stack)"
  by (cases "(args, anns, eps, stack)" rule: tc_SPLIT_TICKET.cases) (auto simp: Let_def intro!: only_gas_intros split: Type.split)

lemma only_gas_JOIN_TICKETS [only_gas_intros]: "only_gas (tc_JOIN_TICKETS args anns eps stack)"
  by (cases "(args, anns, eps, stack)" rule: tc_JOIN_TICKETS.cases) (auto simp: Let_def intro!: only_gas_intros split: Type.split)

lemma only_gas_CONTRACT [only_gas_intros]: "only_gas (tc_CONTRACT args anns eps stack)"
  by (cases "(args, anns, eps, stack)" rule: tc_CONTRACT.cases) (auto simp: Let_def intro!: only_gas_intros split: Type.split)

lemma only_gas_EMIT [only_gas_intros]: "only_gas (tc_EMIT args anns eps stack)"
  by (cases "(args, anns, eps, stack)" rule: tc_EMIT.cases) (auto simp: Let_def intro!: only_gas_intros split: Type.split)

lemma only_gas_shape_checkers:
  "list_all (\<lambda>(_, checker). \<forall>args anns eps stack. only_gas (checker args anns eps stack)) shape_checkers"
  by (simp add: shape_checkers_def only_gas_intros)

lemma only_gas_tc_simple [only_gas_intros]: "only_gas (tc_simple prim args anns eps stack)"
proof -
  have "only_gas (checker args anns eps stack)" if "map_of shape_checkers prim = Some checker" for checker
    using only_gas_shape_checkers map_of_SomeD [OF that] by (auto simp: list_all_iff)
  then show ?thesis
    by (auto simp: tc_simple_def tc_overloads_def intro!: only_gas_intros split: prod.split)
qed

section \<open>Instructions with code\<close>

lemma only_gas_DIP [only_gas_intros]:
  "(\<And>s. only_gas (nested s)) \<Longrightarrow> only_gas (tc_DIP h nested stack)"
  by (auto simp: tc_DIP_def intro!: only_gas_intros)

lemma only_gas_branches [only_gas_intros]:
  assumes "\<And>s. only_gas (a s)" "\<And>s. only_gas (b s)"
  shows "only_gas (tc_IF a b stack)" "only_gas (tc_IF_NONE a b stack)" "only_gas (tc_IF_CONS a b stack)"
    "only_gas (tc_IF_LEFT a b stack)"
  by (cases stack; auto intro!: only_gas_intros assms split: Type.split)+

lemma only_gas_set_top [only_gas_intros]: "only_gas (set_top x stack)"
  by (cases stack) (auto intro!: only_gas_intros)

lemma only_gas_loops [only_gas_intros]:
  assumes "\<And>s. only_gas (nested s)"
  shows "only_gas (tc_LOOP nested stack)" "only_gas (tc_LOOP_LEFT nested stack)" "only_gas (tc_ITER nested stack)"
    "only_gas (tc_MAP nested stack)"
  by (cases stack; auto simp: tc_iter_def typecheck_map_block_def
      intro!: only_gas_intros assms split: Type.split list.split)+

lemma only_gas_PUSH [only_gas_intros]: "(\<And>t. only_gas (v t)) \<Longrightarrow> only_gas (tc_PUSH t v stack)"
  by (auto simp: tc_PUSH_def intro!: only_gas_intros)

lemma only_gas_lambda [only_gas_intros]:
  assumes "\<And>s. only_gas (nested s)"
  shows "only_gas (typecheck_lambda instrs nested a b r)" "only_gas (tc_LAMBDA r t1 t2 instrs nested stack)"
  by (auto simp: typecheck_lambda_def tc_LAMBDA_def Let_def intro!: only_gas_intros assms)

lemma only_gas_bind_lift: "(\<And>x. r = Ok x \<Longrightarrow> only_gas (k x)) \<Longrightarrow> only_gas (bind (lift r) k)"
  by (cases r) (auto simp: bind_def lift_def only_gas_def)

lemma only_gas_script [only_gas_intros]:
  "(\<And>c eps s. code = Some c \<Longrightarrow> only_gas (c eps s)) \<Longrightarrow> only_gas (check_script p t code)"
  unfolding check_script_def
  by (intro only_gas_bind_lift only_gas_intros) (auto simp: ok_or_def split: option.splits)

lemma only_gas_CREATE_CONTRACT [only_gas_intros]:
  "only_gas script \<Longrightarrow> only_gas (tc_CREATE_CONTRACT cs script stack)"
  by (cases "(cs, script, stack)" rule: tc_CREATE_CONTRACT.cases)
    (auto intro!: only_gas_intros split: ContractScript.split)

section \<open>Values\<close>

lemma only_gas_contract_address [only_gas_intros]: "only_gas (typecheck_contract_address a ep t)"
  by (auto simp: typecheck_contract_address_def intro!: only_gas_intros split: AddressHash.split)

lemma only_gas_lift_repr [only_gas_intros]: "only_gas (lift_repr t r)" "only_gas (lift_chain_id r')"
  by (auto simp: lift_repr_def lift_chain_id_def intro!: only_gas_intros)

lemma only_gas_atomic [only_gas_intros]: "only_gas (tc_atomic_value ext v t)"
  by (cases "(ext, v, t)" rule: tc_atomic_value.cases)
    (auto simp: tc_constant_value_def intro!: only_gas_intros split: Type.split)

lemma only_gas_value_parts [only_gas_intros]:
  "only_gas (check_order t cur k)" "only_gas (check_big_map_id i tk tv)"
  by (auto simp: check_order_def check_big_map_id_def intro!: only_gas_intros split: Ordering.split)

lemma only_gas_ticket_of_value [only_gas_intros]: "only_gas (ticket_of_value t v)"
  by (cases "(t, v)" rule: ticket_of_value.cases) (auto intro!: only_gas_intros)

section \<open>The recursive checker\<close>

lemma only_gas_case_list [only_gas_intros]:
  "(xs = [] \<Longrightarrow> only_gas a) \<Longrightarrow> (\<And>y ys. xs = y # ys \<Longrightarrow> only_gas (b y ys)) \<Longrightarrow> only_gas (case_list a b xs)"
  by (cases xs) simp_all

lemma only_gas_case_Micheline [only_gas_intros]:
  assumes "\<And>i. m = Mich_Int i \<Longrightarrow> only_gas (a i)" "\<And>s. m = Mich_String s \<Longrightarrow> only_gas (b s)"
    "\<And>bs. m = Mich_Bytes bs \<Longrightarrow> only_gas (c bs)" "\<And>p args anns. m = App p args anns \<Longrightarrow> only_gas (d p args anns)"
    "\<And>ms. m = Seq ms \<Longrightarrow> only_gas (e ms)"
  shows "only_gas (case_Micheline a b c d e m)"
  using assms by (cases m) simp_all

definition tc_framed :: "Ext \<Rightarrow> Micheline \<Rightarrow> bool" where
  "tc_framed ext m \<longleftrightarrow> (\<forall>eps s. only_gas (typecheck_instruction ext m eps s)) \<and>
     (\<forall>t. only_gas (typecheck_value ext m t)) \<and> only_gas (typecheck_script ext m)"

lemma only_gas_typecheck_parts:
  assumes "\<And>m. m \<in> set ms \<Longrightarrow> tc_framed ext m"
  shows "only_gas (typecheck ext ms eps s)" "only_gas (typecheck_list ext ms t)"
    "only_gas (typecheck_set ext st t cur ms)"
  using assms
  by (induction ms arbitrary: s cur) (auto simp: tc_framed_def intro!: only_gas_intros)

lemma only_gas_typecheck_map:
  assumes "\<And>m. micheline_size m < micheline_sizes ms \<Longrightarrow> tc_framed ext m"
  shows "only_gas (typecheck_map ext mt kt vt cur ms)"
  using assms
  by (induction ms arbitrary: cur) (auto simp: tc_framed_def intro!: only_gas_intros)

lemma micheline_size_member: "m \<in> set ms \<Longrightarrow> micheline_size m \<le> micheline_sizes ms"
  by (induction ms) auto

lemma tc_framed_members:
  assumes "\<And>m'. micheline_size m' < n \<Longrightarrow> tc_framed ext m'" "micheline_sizes ms < n"
  shows "only_gas (typecheck ext ms eps s)" "only_gas (typecheck_list ext ms t)"
    "only_gas (typecheck_set ext st t cur ms)" "only_gas (typecheck_map ext mt kt vt cur ms)"
  by (intro only_gas_typecheck_parts only_gas_typecheck_map assms(1)
      le_less_trans [OF micheline_size_member assms(2)] less_trans [OF _ assms(2)]; assumption)+

lemma tc_framed_part:
  assumes "\<And>m'. micheline_size m' < n \<Longrightarrow> tc_framed ext m'" "micheline_size m < n"
  shows "only_gas (typecheck_instruction ext m eps s)" "only_gas (typecheck_value ext m t)"
    "only_gas (typecheck_script ext m)"
  using assms by (auto simp: tc_framed_def)

lemma only_gas_typecheck_instruction:
  assumes "\<And>m'. micheline_size m' < micheline_size i \<Longrightarrow> tc_framed ext m'"
  shows "only_gas (typecheck_instruction ext i eps s)"
  by (subst typecheck_instruction.simps, intro only_gas_intros tc_framed_members [OF assms] tc_framed_part [OF assms])
    (simp_all, linarith+)

lemma only_gas_typecheck_value_direct:
  assumes "\<And>m'. micheline_size m' < micheline_size v \<Longrightarrow> tc_framed ext m'" "indirect t = 0"
  shows "only_gas (typecheck_value ext v t)"
  using assms(2)
  by (subst typecheck_value.simps, cases t; simp only: Type.case;
      (intro only_gas_intros tc_framed_members [OF assms(1)] tc_framed_part [OF assms(1)])?)
    (auto dest: pair_args_size seq_args_size lambda_code_size big_map_parts_size)

lemma only_gas_typecheck_value:
  assumes "\<And>m'. micheline_size m' < micheline_size v \<Longrightarrow> tc_framed ext m'"
  shows "only_gas (typecheck_value ext v t)"
proof (cases "indirect t = 0")
  case True
  with assms show ?thesis by (rule only_gas_typecheck_value_direct)
next
  case False
  note direct = only_gas_typecheck_value_direct [OF assms]
  from False show ?thesis
    by (cases t; subst typecheck_value.simps)
      (auto intro!: only_gas_intros direct split: TypedValue.split)
qed

lemma tc_framed: "tc_framed ext m"
proof (induction m rule: measure_induct_rule [of micheline_size])
  case (less m)
  then have "only_gas (typecheck_script ext m)"
    by (subst typecheck_script.simps)
      (auto intro!: only_gas_intros tc_framed_part [OF less] split: outcome.split option.splits dest: script_elements_size)
  then show ?case
    using only_gas_typecheck_instruction [OF less] only_gas_typecheck_value [OF less]
    by (simp add: tc_framed_def)
qed

lemmas only_gas_typecheck [only_gas_intros] =
  tc_framed_part [OF tc_framed lessI] tc_framed_members [OF tc_framed lessI]

end
