(* ===== verification/MIR_Run.thy ===== *)
theory MIR_Run
  imports MIR_TcGas
begin

text \<open>
  What the instructions of the interpreter (\<open>src/contrib/mir/src/interpreter.rs\<close>) share: errors, the
  macro \<open>pop!\<close> with the constructors it expects, and numbers as bytes.  Stacks have their top first.
\<close>

section \<open>Errors\<close>

datatype (plugins only:) InterpretError =
    IOutOfGas
  | MumavOverflow
  | NegativeMumav
  | FailedWith Type TypedValue
  | ArgOutOfBounds
  | ILazyStorageError LazyStorageError

type_synonym IStack = "TypedValue list"

type_synonym 'a run = "(InterpretError, 'a) comp"

abbreviation i_consume :: "nat \<Rightarrow> unit run" where
  "i_consume \<equiv> consume IOutOfGas"

abbreviation i_charge :: "cost \<Rightarrow> unit run" where
  "i_charge \<equiv> charge IOutOfGas"

section \<open>Taking values off the stack\<close>

text \<open>
  \<open>pop!()\<close> takes the top of the stack and panics if there is none; \<open>pop!(V::C)\<close> also panics on a value
  of another constructor.  \<open>irrefutable_match!(&mut stack[0]; V::C)\<close> gives access to the top in place,
  which is a pop here and a push of the changed value; an empty stack is an index out of bounds.
\<close>

definition pop :: "IStack \<Rightarrow> (TypedValue \<Rightarrow> IStack \<Rightarrow> 'b run) \<Rightarrow> 'b run" where
  "pop stack k = (case stack of v # stack \<Rightarrow> k v stack | [] \<Rightarrow> panic Unreachable)"

definition pop_as :: "(TypedValue \<Rightarrow> 'a run) \<Rightarrow> IStack \<Rightarrow> ('a \<Rightarrow> IStack \<Rightarrow> 'b run) \<Rightarrow> 'b run" where
  "pop_as f stack k = pop stack (\<lambda>v stack. bind (f v) (\<lambda>x. k x stack))"

definition top_as :: "(TypedValue \<Rightarrow> 'a run) \<Rightarrow> IStack \<Rightarrow> ('a \<Rightarrow> IStack \<Rightarrow> 'b run) \<Rightarrow> 'b run" where
  "top_as f stack k =
     (case stack of v # stack \<Rightarrow> bind (f v) (\<lambda>x. k x stack) | [] \<Rightarrow> panic StackBounds)"

definition as_Int :: "TypedValue \<Rightarrow> int run" where
  "as_Int v = (case v of V_Int x \<Rightarrow> return x | _ \<Rightarrow> panic Unreachable)"
definition as_Nat :: "TypedValue \<Rightarrow> nat run" where
  "as_Nat v = (case v of V_Nat x \<Rightarrow> return x | _ \<Rightarrow> panic Unreachable)"
definition as_Mumav :: "TypedValue \<Rightarrow> int run" where
  "as_Mumav v = (case v of V_Mumav x \<Rightarrow> return x | _ \<Rightarrow> panic Unreachable)"
definition as_Bool :: "TypedValue \<Rightarrow> bool run" where
  "as_Bool v = (case v of V_Bool x \<Rightarrow> return x | _ \<Rightarrow> panic Unreachable)"
definition as_String :: "TypedValue \<Rightarrow> string run" where
  "as_String v = (case v of V_String x \<Rightarrow> return x | _ \<Rightarrow> panic Unreachable)"
definition as_Bytes :: "TypedValue \<Rightarrow> bytes run" where
  "as_Bytes v = (case v of V_Bytes x \<Rightarrow> return x | _ \<Rightarrow> panic Unreachable)"
definition as_Timestamp :: "TypedValue \<Rightarrow> int run" where
  "as_Timestamp v = (case v of V_Timestamp x \<Rightarrow> return x | _ \<Rightarrow> panic Unreachable)"
definition as_Fr :: "TypedValue \<Rightarrow> bytes run" where
  "as_Fr v = (case v of V_Bls12381Fr x \<Rightarrow> return x | _ \<Rightarrow> panic Unreachable)"
definition as_G1 :: "TypedValue \<Rightarrow> bytes run" where
  "as_G1 v = (case v of V_Bls12381G1 x \<Rightarrow> return x | _ \<Rightarrow> panic Unreachable)"
definition as_G2 :: "TypedValue \<Rightarrow> bytes run" where
  "as_G2 v = (case v of V_Bls12381G2 x \<Rightarrow> return x | _ \<Rightarrow> panic Unreachable)"
definition as_Pair :: "TypedValue \<Rightarrow> (TypedValue \<times> TypedValue) run" where
  "as_Pair v = (case v of V_Pair x y \<Rightarrow> return (x, y) | _ \<Rightarrow> panic Unreachable)"
definition as_Option :: "TypedValue \<Rightarrow> TypedValue option run" where
  "as_Option v = (case v of V_Option x \<Rightarrow> return x | _ \<Rightarrow> panic Unreachable)"
definition as_Or :: "TypedValue \<Rightarrow> (TypedValue + TypedValue) run" where
  "as_Or v = (case v of V_Or x \<Rightarrow> return x | _ \<Rightarrow> panic Unreachable)"
definition as_List :: "TypedValue \<Rightarrow> TypedValue list run" where
  "as_List v = (case v of V_List x \<Rightarrow> return x | _ \<Rightarrow> panic Unreachable)"
definition as_Set :: "TypedValue \<Rightarrow> TypedValue list run" where
  "as_Set v = (case v of V_Set x \<Rightarrow> return x | _ \<Rightarrow> panic Unreachable)"
definition as_Map :: "TypedValue \<Rightarrow> (TypedValue \<times> TypedValue) list run" where
  "as_Map v = (case v of V_Map x \<Rightarrow> return x | _ \<Rightarrow> panic Unreachable)"
definition as_BigMap :: "TypedValue \<Rightarrow> BigMap run" where
  "as_BigMap v =
     (case v of
        V_BigMap i overlay kty vty \<Rightarrow>
          return \<lparr>bm_id = i, bm_overlay = overlay, bm_key_type = kty, bm_value_type = vty\<rparr>
      | _ \<Rightarrow> panic Unreachable)"
definition as_Address :: "TypedValue \<Rightarrow> Address run" where
  "as_Address v = (case v of V_Address x \<Rightarrow> return x | _ \<Rightarrow> panic Unreachable)"
definition as_Contract :: "TypedValue \<Rightarrow> Address run" where
  "as_Contract v = (case v of V_Contract x \<Rightarrow> return x | _ \<Rightarrow> panic Unreachable)"
definition as_Key :: "TypedValue \<Rightarrow> Key run" where
  "as_Key v = (case v of V_Key x \<Rightarrow> return x | _ \<Rightarrow> panic Unreachable)"
definition as_KeyHash :: "TypedValue \<Rightarrow> KeyHash run" where
  "as_KeyHash v = (case v of V_KeyHash x \<Rightarrow> return x | _ \<Rightarrow> panic Unreachable)"
definition as_Signature :: "TypedValue \<Rightarrow> Signature run" where
  "as_Signature v = (case v of V_Signature x \<Rightarrow> return x | _ \<Rightarrow> panic Unreachable)"
definition as_Lambda :: "TypedValue \<Rightarrow> Closure run" where
  "as_Lambda v = (case v of V_Lambda x \<Rightarrow> return x | _ \<Rightarrow> panic Unreachable)"
definition as_Ticket :: "TypedValue \<Rightarrow> (AddressHash \<times> TypedValue \<times> nat) run" where
  "as_Ticket v = (case v of V_Ticket h c n \<Rightarrow> return (h, c, n) | _ \<Rightarrow> panic Unreachable)"
definition as_Operation :: "TypedValue \<Rightarrow> (Operation \<times> u128) run" where
  "as_Operation v = (case v of V_Operation op n \<Rightarrow> return (op, n) | _ \<Rightarrow> panic Unreachable)"

text \<open>
  \<open>stack.push(v)\<close> at the end of an instruction.
\<close>

abbreviation push :: "IStack \<Rightarrow> TypedValue \<Rightarrow> IStack run" where
  "push stack v \<equiv> return (v # stack)"

section \<open>Numbers as bytes\<close>

text \<open>
  The conversions of \<open>BigUint\<close> and \<open>BigInt\<close>: \<open>from_bytes_be\<close>, \<open>to_bytes_be\<close>, and the shortest two's
  complement representation.
\<close>

definition nat_from_bytes_be :: "bytes \<Rightarrow> nat" where
  "nat_from_bytes_be bs = foldl (\<lambda>acc b. acc * 256 + unat b) 0 bs"

definition nat_to_bytes_be :: "nat \<Rightarrow> bytes" where
  "nat_to_bytes_be n = rev (nat_bytes_le n)"

definition int_from_signed_bytes_be :: "bytes \<Rightarrow> int" where
  "int_from_signed_bytes_be bs =
     (let magnitude = int (nat_from_bytes_be bs) in
      if bs \<noteq> [] \<and> unat (hd bs) \<ge> 128 then magnitude - 256 ^ length bs else magnitude)"

function signed_bytes_le :: "int \<Rightarrow> bytes" where
  "signed_bytes_le i =
     (if -128 \<le> i \<and> i < 128 then [word_of_int i]
      else word_of_int (i mod 256) # signed_bytes_le (i div 256))"
  by pat_completeness auto
termination
  by (relation "measure (\<lambda>i. nat \<bar>i\<bar>)") auto

declare signed_bytes_le.simps [simp del]

definition int_to_signed_bytes_be :: "int \<Rightarrow> bytes" where
  "int_to_signed_bytes_be i = rev (signed_bytes_le i)"

text \<open>Arithmetic on \<open>i64\<close> with overflow checks.\<close>

definition i64_range :: "int \<Rightarrow> bool" where
  "i64_range n \<longleftrightarrow> - (2 ^ 63) \<le> n \<and> n < 2 ^ 63"

definition checked_i64 :: "int \<Rightarrow> int option" where
  "checked_i64 n = (if i64_range n then Some n else None)"

text \<open>Division that rounds towards zero, with its remainder.\<close>

definition div_rem_i64 :: "int \<Rightarrow> int \<Rightarrow> int \<times> int" where
  "div_rem_i64 a b = (let q = sgn a * sgn b * (\<bar>a\<bar> div \<bar>b\<bar>) in (q, a - b * q))"

section \<open>Evaluation\<close>

lemma pop_simps [simp]:
  "pop (v # stack) k = k v stack"
  "pop_as f (v # stack) k' = bind (f v) (\<lambda>x. k' x stack)"
  "top_as f (v # stack) k' = bind (f v) (\<lambda>x. k' x stack)"
  by (simp_all add: pop_def pop_as_def top_as_def)

lemma as_simps [simp]:
  "as_Int (V_Int i) = return i"
  "as_Nat (V_Nat n) = return n"
  "as_Mumav (V_Mumav i) = return i"
  "as_Bool (V_Bool b) = return b"
  "as_String (V_String s) = return s"
  "as_Bytes (V_Bytes bs) = return bs"
  "as_Timestamp (V_Timestamp i) = return i"
  "as_Fr (V_Bls12381Fr bs) = return bs"
  "as_G1 (V_Bls12381G1 bs) = return bs"
  "as_G2 (V_Bls12381G2 bs) = return bs"
  "as_Pair (V_Pair v w) = return (v, w)"
  "as_Option (V_Option r) = return r"
  "as_Or (V_Or u) = return u"
  "as_List (V_List vs) = return vs"
  "as_Set (V_Set vs) = return vs"
  "as_Map (V_Map m) = return m"
  "as_Address (V_Address a) = return a"
  "as_Contract (V_Contract a) = return a"
  "as_Key (V_Key k) = return k"
  "as_KeyHash (V_KeyHash kh) = return kh"
  "as_Signature (V_Signature sig) = return sig"
  "as_Lambda (V_Lambda cl) = return cl"
  "as_Ticket (V_Ticket h v n) = return (h, v, n)"
  "as_Operation (V_Operation op c) = return (op, c)"
  by (simp_all add: as_Int_def as_Nat_def as_Mumav_def as_Bool_def as_String_def as_Bytes_def as_Timestamp_def
    as_Fr_def as_G1_def as_G2_def as_Pair_def as_Option_def as_Or_def as_List_def as_Set_def as_Map_def
    as_Address_def as_Contract_def as_Key_def as_KeyHash_def as_Signature_def as_Lambda_def as_Ticket_def
    as_Operation_def)

lemma as_BigMap_simps [simp]:
  "as_BigMap (V_BigMap i overlay kty vty) =
    return \<lparr>bm_id = i, bm_overlay = overlay, bm_key_type = kty, bm_value_type = vty\<rparr>"
  "as_BigMap (big_map_value m) = return m"
  by (cases m; simp add: as_BigMap_def big_map_value_def)+

end
