(* ===== verification/MIR_Arith.thy ===== *)
theory MIR_Arith
  imports MIR_Run
begin

unbundle bit_operations_syntax

text \<open>
  Arithmetic, logic and comparison (\<open>src/contrib/mir/src/interpreter.rs\<close>): one definition per
  instruction, by overload, with the order of pops and charges of the source.
\<close>

section \<open>Sums, differences and products\<close>

definition run_Add :: "Ext \<Rightarrow> Add_ovl \<Rightarrow> IStack \<Rightarrow> IStack run" where
  "run_Add ext overload stack =
     (case overload of
        Add_IntInt \<Rightarrow>
          pop_as as_Int stack (\<lambda>o1 stack. pop_as as_Int stack (\<lambda>o2 stack.
          bind (i_charge (cost_add_num (int_byte_size o1) (int_byte_size o2))) (\<lambda>_.
            push stack (V_Int (o1 + o2)))))
      | Add_NatNat \<Rightarrow>
          pop_as as_Nat stack (\<lambda>o1 stack. pop_as as_Nat stack (\<lambda>o2 stack.
          bind (i_charge (cost_add_num (nat_byte_size o1) (nat_byte_size o2))) (\<lambda>_.
            push stack (V_Nat (o1 + o2)))))
      | Add_IntNat \<Rightarrow>
          pop_as as_Int stack (\<lambda>o1 stack. pop_as as_Nat stack (\<lambda>o2 stack.
          bind (i_charge (cost_add_num (int_byte_size o1) (nat_byte_size o2))) (\<lambda>_.
            push stack (V_Int (o1 + int o2)))))
      | Add_NatInt \<Rightarrow>
          pop_as as_Nat stack (\<lambda>o1 stack. pop_as as_Int stack (\<lambda>o2 stack.
          bind (i_charge (cost_add_num (nat_byte_size o1) (int_byte_size o2))) (\<lambda>_.
            push stack (V_Int (int o1 + o2)))))
      | Add_MumavMumav \<Rightarrow>
          pop_as as_Mumav stack (\<lambda>o1 stack. pop_as as_Mumav stack (\<lambda>o2 stack.
          bind (i_consume cost_ADD_TEZ) (\<lambda>_.
          bind (lift (ok_or (checked_i64 (o1 + o2)) MumavOverflow)) (\<lambda>sum.
            push stack (V_Mumav sum)))))
      | Add_Bls12381Fr \<Rightarrow>
          pop_as as_Fr stack (\<lambda>o1 stack. pop_as as_Fr stack (\<lambda>o2 stack.
          bind (i_consume cost_ADD_BLS_FR) (\<lambda>_. push stack (V_Bls12381Fr (fr_add ext o1 o2)))))
      | Add_Bls12381G1 \<Rightarrow>
          pop_as as_G1 stack (\<lambda>o1 stack. pop_as as_G1 stack (\<lambda>o2 stack.
          bind (i_consume cost_ADD_BLS_G1) (\<lambda>_. push stack (V_Bls12381G1 (p1_add ext o1 o2)))))
      | Add_Bls12381G2 \<Rightarrow>
          pop_as as_G2 stack (\<lambda>o1 stack. pop_as as_G2 stack (\<lambda>o2 stack.
          bind (i_consume cost_ADD_BLS_G2) (\<lambda>_. push stack (V_Bls12381G2 (p2_add ext o1 o2)))))
      | Add_IntTimestamp \<Rightarrow>
          pop_as as_Int stack (\<lambda>o1 stack. pop_as as_Timestamp stack (\<lambda>o2 stack.
          bind (i_charge (cost_add_num (int_byte_size o1) (int_byte_size o2))) (\<lambda>_.
            push stack (V_Timestamp (o1 + o2)))))
      | Add_TimestampInt \<Rightarrow>
          pop_as as_Timestamp stack (\<lambda>o1 stack. pop_as as_Int stack (\<lambda>o2 stack.
          bind (i_charge (cost_add_num (int_byte_size o1) (int_byte_size o2))) (\<lambda>_.
            push stack (V_Timestamp (o1 + o2))))))"

definition run_Sub :: "Sub_ovl \<Rightarrow> IStack \<Rightarrow> IStack run" where
  "run_Sub overload stack =
     (case overload of
        Sub_IntInt \<Rightarrow>
          pop_as as_Int stack (\<lambda>o1 stack. pop_as as_Int stack (\<lambda>o2 stack.
          bind (i_charge (cost_sub_num (int_byte_size o1) (int_byte_size o2))) (\<lambda>_.
            push stack (V_Int (o1 - o2)))))
      | Sub_NatNat \<Rightarrow>
          pop_as as_Nat stack (\<lambda>o1 stack. pop_as as_Nat stack (\<lambda>o2 stack.
          bind (i_charge (cost_sub_num (nat_byte_size o1) (nat_byte_size o2))) (\<lambda>_.
            push stack (V_Int (int o1 - int o2)))))
      | Sub_IntNat \<Rightarrow>
          pop_as as_Int stack (\<lambda>o1 stack. pop_as as_Nat stack (\<lambda>o2 stack.
          bind (i_charge (cost_sub_num (int_byte_size o1) (nat_byte_size o2))) (\<lambda>_.
            push stack (V_Int (o1 - int o2)))))
      | Sub_NatInt \<Rightarrow>
          pop_as as_Nat stack (\<lambda>o1 stack. pop_as as_Int stack (\<lambda>o2 stack.
          bind (i_charge (cost_sub_num (nat_byte_size o1) (int_byte_size o2))) (\<lambda>_.
            push stack (V_Int (int o1 - o2)))))
      | Sub_TimestampInt \<Rightarrow>
          pop_as as_Timestamp stack (\<lambda>o1 stack. pop_as as_Int stack (\<lambda>o2 stack.
          bind (i_charge (cost_sub_num (int_byte_size o1) (int_byte_size o2))) (\<lambda>_.
            push stack (V_Timestamp (o1 - o2)))))
      | Sub_TimestampTimestamp \<Rightarrow>
          pop_as as_Timestamp stack (\<lambda>o1 stack. pop_as as_Timestamp stack (\<lambda>o2 stack.
          bind (i_charge (cost_sub_num (int_byte_size o1) (int_byte_size o2))) (\<lambda>_.
            push stack (V_Int (o1 - o2))))))"

definition run_Mul :: "Ext \<Rightarrow> Mul_ovl \<Rightarrow> IStack \<Rightarrow> IStack run" where
  "run_Mul ext overload stack =
     (case overload of
        Mul_NatNat \<Rightarrow>
          pop_as as_Nat stack (\<lambda>x1 stack. pop_as as_Nat stack (\<lambda>x2 stack.
          bind (i_charge (cost_mul_int (nat_byte_size x1) (nat_byte_size x2))) (\<lambda>_.
            push stack (V_Nat (x1 * x2)))))
      | Mul_NatInt \<Rightarrow>
          pop_as as_Nat stack (\<lambda>x1 stack. pop_as as_Int stack (\<lambda>x2 stack.
          bind (i_charge (cost_mul_int (nat_byte_size x1) (int_byte_size x2))) (\<lambda>_.
            push stack (V_Int (int x1 * x2)))))
      | Mul_IntNat \<Rightarrow>
          pop_as as_Int stack (\<lambda>x1 stack. pop_as as_Nat stack (\<lambda>x2 stack.
          bind (i_charge (cost_mul_int (int_byte_size x1) (nat_byte_size x2))) (\<lambda>_.
            push stack (V_Int (x1 * int x2)))))
      | Mul_IntInt \<Rightarrow>
          pop_as as_Int stack (\<lambda>x1 stack. pop_as as_Int stack (\<lambda>x2 stack.
          bind (i_charge (cost_mul_int (int_byte_size x1) (int_byte_size x2))) (\<lambda>_.
            push stack (V_Int (x1 * x2)))))
      | Mul_MumavNat \<Rightarrow>
          bind (i_consume cost_MUL_TEZ_NAT) (\<lambda>_.
          pop_as as_Mumav stack (\<lambda>x1 stack. pop_as as_Nat stack (\<lambda>n stack.
          bind (lift (ok_or (checked_i64 (int n)) MumavOverflow)) (\<lambda>x2.
          bind (lift (ok_or (checked_i64 (x1 * x2)) MumavOverflow)) (\<lambda>res.
            push stack (V_Mumav res))))))
      | Mul_NatMumav \<Rightarrow>
          bind (i_consume cost_MUL_NAT_TEZ) (\<lambda>_.
          pop_as as_Nat stack (\<lambda>n stack.
          bind (lift (ok_or (checked_i64 (int n)) MumavOverflow)) (\<lambda>x1.
          pop_as as_Mumav stack (\<lambda>x2 stack.
          bind (lift (ok_or (checked_i64 (x1 * x2)) MumavOverflow)) (\<lambda>res.
            push stack (V_Mumav res))))))
      | Mul_Bls12381G1Bls12381Fr \<Rightarrow>
          bind (i_consume cost_MUL_BLS_G1) (\<lambda>_.
          pop_as as_G1 stack (\<lambda>x1 stack. pop_as as_Fr stack (\<lambda>x2 stack.
            push stack (V_Bls12381G1 (p1_mult ext x1 x2)))))
      | Mul_Bls12381G2Bls12381Fr \<Rightarrow>
          bind (i_consume cost_MUL_BLS_G2) (\<lambda>_.
          pop_as as_G2 stack (\<lambda>x1 stack. pop_as as_Fr stack (\<lambda>x2 stack.
            push stack (V_Bls12381G2 (p2_mult ext x1 x2)))))
      | Mul_Bls12381FrBls12381Fr \<Rightarrow>
          bind (i_consume cost_MUL_BLS_FR) (\<lambda>_.
          pop_as as_Fr stack (\<lambda>x1 stack. pop_as as_Fr stack (\<lambda>x2 stack.
            push stack (V_Bls12381Fr (fr_mul ext x1 x2)))))
      | Mul_NatBls12381Fr \<Rightarrow>
          pop_as as_Nat stack (\<lambda>nat stack.
          bind (i_charge (cost_mul_bls_fr_big_int (nat_byte_size nat))) (\<lambda>_.
          bind (lift (fr_from_big_int ext (int nat))) (\<lambda>x1.
          pop_as as_Fr stack (\<lambda>x2 stack. push stack (V_Bls12381Fr (fr_mul ext x1 x2))))))
      | Mul_IntBls12381Fr \<Rightarrow>
          pop_as as_Int stack (\<lambda>int stack.
          bind (i_charge (cost_mul_bls_fr_big_int (int_byte_size int))) (\<lambda>_.
          bind (lift (fr_from_big_int ext int)) (\<lambda>x1.
          pop_as as_Fr stack (\<lambda>x2 stack. push stack (V_Bls12381Fr (fr_mul ext x1 x2))))))
      | Mul_Bls12381FrNat \<Rightarrow>
          pop_as as_Fr stack (\<lambda>x1 stack. pop_as as_Nat stack (\<lambda>nat stack.
          bind (i_charge (cost_mul_bls_fr_big_int (nat_byte_size nat))) (\<lambda>_.
          bind (lift (fr_from_big_int ext (int nat))) (\<lambda>x2.
            push stack (V_Bls12381Fr (fr_mul ext x1 x2))))))
      | Mul_Bls12381FrInt \<Rightarrow>
          pop_as as_Fr stack (\<lambda>x1 stack. pop_as as_Int stack (\<lambda>int stack.
          bind (i_charge (cost_mul_bls_fr_big_int (int_byte_size int))) (\<lambda>_.
          bind (lift (fr_from_big_int ext int)) (\<lambda>x2.
            push stack (V_Bls12381Fr (fr_mul ext x1 x2)))))))"

section \<open>Euclidean division\<close>

text \<open>\<open>BigInt::magnitude\<close>\<close>

abbreviation magnitude :: "int \<Rightarrow> nat" where
  "magnitude x \<equiv> nat \<bar>x\<bar>"

abbreviation some_pair :: "TypedValue \<Rightarrow> TypedValue \<Rightarrow> TypedValue" where
  "some_pair v w \<equiv> V_Option (Some (V_Pair v w))"

definition ediv_NatInt :: "nat \<Rightarrow> int \<Rightarrow> TypedValue" where
  "ediv_NatInt x1 x2 =
     (if x2 = 0 then V_Option None
      else let quotient = x1 div magnitude x2; remainder = x1 mod magnitude x2 in
        if x2 > 0 then some_pair (V_Int (int quotient)) (V_Nat remainder)
        else some_pair (V_Int (- int quotient)) (V_Nat remainder))"

definition ediv_IntNat :: "int \<Rightarrow> nat \<Rightarrow> TypedValue" where
  "ediv_IntNat x1 x2 =
     (if x2 = 0 then V_Option None
      else let quotient = magnitude x1 div x2; remainder = magnitude x1 mod x2 in
        if \<not> x1 < 0 then some_pair (V_Int (int quotient)) (V_Nat remainder)
        else if remainder > 0 then some_pair (V_Int (- int quotient - 1)) (V_Nat (x2 - remainder))
        else some_pair (V_Int (- int quotient)) (V_Nat remainder))"

definition ediv_IntInt :: "int \<Rightarrow> int \<Rightarrow> TypedValue" where
  "ediv_IntInt x1 x2 =
     (if x2 = 0 then V_Option None
      else let quotient = magnitude x1 div magnitude x2; remainder = magnitude x1 mod magnitude x2 in
        if x1 < 0 \<and> x2 < 0 then
          if remainder > 0 then some_pair (V_Int (int quotient + 1)) (V_Nat (magnitude x2 - remainder))
          else some_pair (V_Int (int quotient)) (V_Nat remainder)
        else if x1 < 0 \<and> x2 > 0 then
          if remainder > 0 then some_pair (V_Int (- int quotient - 1)) (V_Nat (magnitude x2 - remainder))
          else some_pair (V_Int (- int quotient)) (V_Nat remainder)
        else if x2 > 0 then some_pair (V_Int (int quotient)) (V_Nat remainder)
        else if x2 < 0 then some_pair (V_Int (- int quotient)) (V_Nat remainder)
        else V_Option None)"

definition ediv_MumavNat :: "int \<Rightarrow> nat \<Rightarrow> TypedValue" where
  "ediv_MumavNat x1 x2 =
     (if x2 = 0 then V_Option None
      else case checked_i64 (int x2) of
        Some x2_i64 \<Rightarrow> let (quotient, remainder) = div_rem_i64 x1 x2_i64 in
          some_pair (V_Mumav quotient) (V_Mumav remainder)
      | None \<Rightarrow> some_pair (V_Mumav 0) (V_Mumav x1))"

definition run_EDiv :: "EDiv_ovl \<Rightarrow> IStack \<Rightarrow> IStack run" where
  "run_EDiv overload stack =
     (case overload of
        EDiv_NatNat \<Rightarrow>
          pop_as as_Nat stack (\<lambda>x1 stack. pop_as as_Nat stack (\<lambda>x2 stack.
          bind (i_charge (cost_ediv_nat (nat_byte_size x1) (nat_byte_size x2))) (\<lambda>_.
            push stack (if x2 = 0 then V_Option None else some_pair (V_Nat (x1 div x2)) (V_Nat (x1 mod x2))))))
      | EDiv_NatInt \<Rightarrow>
          pop_as as_Nat stack (\<lambda>x1 stack. pop_as as_Int stack (\<lambda>x2 stack.
          bind (i_charge (cost_ediv_int (nat_byte_size x1) (int_byte_size x2))) (\<lambda>_.
            push stack (ediv_NatInt x1 x2))))
      | EDiv_IntNat \<Rightarrow>
          pop_as as_Int stack (\<lambda>x1 stack. pop_as as_Nat stack (\<lambda>x2 stack.
          bind (i_charge (cost_ediv_int (int_byte_size x1) (nat_byte_size x2))) (\<lambda>_.
            push stack (ediv_IntNat x1 x2))))
      | EDiv_IntInt \<Rightarrow>
          pop_as as_Int stack (\<lambda>x1 stack. pop_as as_Int stack (\<lambda>x2 stack.
          bind (i_charge (cost_ediv_int (int_byte_size x1) (int_byte_size x2))) (\<lambda>_.
            push stack (ediv_IntInt x1 x2))))
      | EDiv_MumavNat \<Rightarrow>
          pop_as as_Mumav stack (\<lambda>x1 stack. pop_as as_Nat stack (\<lambda>x2 stack.
          bind (i_consume cost_EDIV_TEZ_NAT) (\<lambda>_. push stack (ediv_MumavNat x1 x2))))
      | EDiv_MumavMumav \<Rightarrow>
          pop_as as_Mumav stack (\<lambda>x1 stack. pop_as as_Mumav stack (\<lambda>x2 stack.
          bind (i_consume cost_EDIV_TEZ_TEZ) (\<lambda>_.
            if x2 = 0 then push stack (V_Option None)
            else let (quotient, remainder) = div_rem_i64 x1 x2 in
              if quotient < 0 then panic UnwrapFailed
              else push stack (some_pair (V_Nat (nat quotient)) (V_Mumav remainder))))))"

definition run_Neg :: "Ext \<Rightarrow> Neg_ovl \<Rightarrow> IStack \<Rightarrow> IStack run" where
  "run_Neg ext overload stack =
     (case overload of
        Neg_Nat \<Rightarrow>
          pop_as as_Nat stack (\<lambda>v stack.
          bind (i_charge (cost_neg_int (nat_byte_size v))) (\<lambda>_. push stack (V_Int (- int v))))
      | Neg_Int \<Rightarrow>
          pop_as as_Int stack (\<lambda>v stack.
          bind (i_charge (cost_neg_int (int_byte_size v))) (\<lambda>_. push stack (V_Int (- v))))
      | Neg_Bls12381G1 \<Rightarrow>
          bind (i_consume cost_NEG_G1) (\<lambda>_.
          top_as as_G1 stack (\<lambda>v stack. push stack (V_Bls12381G1 (p1_cneg ext v))))
      | Neg_Bls12381G2 \<Rightarrow>
          bind (i_consume cost_NEG_G2) (\<lambda>_.
          top_as as_G2 stack (\<lambda>v stack. push stack (V_Bls12381G2 (p2_cneg ext v))))
      | Neg_Bls12381Fr \<Rightarrow>
          bind (i_consume cost_NEG_FR) (\<lambda>_.
          top_as as_Fr stack (\<lambda>v stack. push stack (V_Bls12381Fr (fr_cneg ext v)))))"

section \<open>Shifts\<close>

text \<open>
  The loop of \<open>LSL\<close> runs over the bytes from the last to the first and writes each shifted byte with
  the bits that the byte to its right has shifted out; \<open>lsl_bits\<close> returns the written bytes and the
  carry that is left.  The loop of \<open>LSR\<close> runs from the first byte on and stops \<open>byte_shifts\<close> bytes
  before the end.
\<close>

fun lsl_bits :: "nat \<Rightarrow> bytes \<Rightarrow> bytes \<times> u8" where
  "lsl_bits bit_shifts [] = ([], 0)"
| "lsl_bits bit_shifts (byte # rest) =
     (let (written, carry) = lsl_bits bit_shifts rest in
      ((push_bit bit_shifts byte OR carry) # written,
       if bit_shifts > 0 then drop_bit (8 - bit_shifts) byte else carry))"

definition lsl_bytes :: "bytes \<Rightarrow> nat \<Rightarrow> bytes" where
  "lsl_bytes o1 o2 =
     (let byte_shifts = o2 div 8; bit_shifts = o2 mod 8; (written, carry) = lsl_bits bit_shifts o1 in
      (if bit_shifts > 0 then [carry] else []) @ written @ replicate byte_shifts 0)"

fun lsr_bits :: "nat \<Rightarrow> u8 \<Rightarrow> bytes \<Rightarrow> bytes" where
  "lsr_bits bit_shifts carry [] = []"
| "lsr_bits bit_shifts carry (byte # rest) =
     (drop_bit bit_shifts byte OR carry) #
       lsr_bits bit_shifts (if bit_shifts > 0 then push_bit (8 - bit_shifts) byte else carry) rest"

definition lsr_bytes :: "bytes \<Rightarrow> nat \<Rightarrow> ('e, bytes) outcome" where
  "lsr_bytes o1 o2 =
     (let byte_shifts = o2 div 8; bit_shifts = o2 mod 8 in
      if length o1 < byte_shifts then Panic CapacityOverflow
      else Ok (lsr_bits bit_shifts 0 (take (length o1 - byte_shifts) o1)))"

definition run_Lsl :: "Lsl_ovl \<Rightarrow> IStack \<Rightarrow> IStack run" where
  "run_Lsl overload stack =
     (case overload of
        Lsl_Nat \<Rightarrow>
          pop_as as_Nat stack (\<lambda>o1 stack. pop_as as_Nat stack (\<lambda>o2 stack.
            if o2 > 256 then throw ArgOutOfBounds
            else bind (i_charge (cost_lsl_nat (nat_byte_size o1))) (\<lambda>_. push stack (V_Nat (push_bit o2 o1)))))
      | Lsl_Bytes \<Rightarrow>
          pop_as as_Bytes stack (\<lambda>o1 stack. pop_as as_Nat stack (\<lambda>o2 stack.
            if o2 > 64000 then throw ArgOutOfBounds
            else bind (i_charge (cost_lsl_bytes (length o1) o2)) (\<lambda>_. push stack (V_Bytes (lsl_bytes o1 o2))))))"

definition run_Lsr :: "Lsr_ovl \<Rightarrow> IStack \<Rightarrow> IStack run" where
  "run_Lsr overload stack =
     (case overload of
        Lsr_Nat \<Rightarrow>
          pop_as as_Nat stack (\<lambda>o1 stack. pop_as as_Nat stack (\<lambda>o2 stack.
            if o2 > 256 then throw ArgOutOfBounds
            else bind (i_charge (cost_lsr_nat (nat_byte_size o1))) (\<lambda>_. push stack (V_Nat (drop_bit o2 o1)))))
      | Lsr_Bytes \<Rightarrow>
          pop_as as_Bytes stack (\<lambda>o1 stack. pop_as as_Nat stack (\<lambda>o2 stack.
            if o2 > 64000 then throw ArgOutOfBounds
            else bind (i_charge (cost_lsr_bytes (length o1) o2)) (\<lambda>_.
                 bind (lift (lsr_bytes o1 o2)) (\<lambda>result. push stack (V_Bytes result))))))"

section \<open>Logic\<close>

text \<open>
  The loops over both operands from their ends: \<open>AND\<close> writes into the shorter operand, \<open>OR\<close> and \<open>XOR\<close>
  into the longer one, whose leading bytes stay as they are.
\<close>

definition zip_rev :: "(u8 \<Rightarrow> u8 \<Rightarrow> u8) \<Rightarrow> bytes \<Rightarrow> bytes \<Rightarrow> bytes" where
  "zip_rev f o1 o2 =
     rev (map2 f (rev o1) (rev o2) @ drop (length o1) (rev o2))"

definition and_bytes :: "bytes \<Rightarrow> bytes \<Rightarrow> bytes" where
  "and_bytes o1 o2 = (if length o1 < length o2 then zip_rev (AND) o2 o1 else zip_rev (AND) o1 o2)"

definition or_bytes :: "bytes \<Rightarrow> bytes \<Rightarrow> bytes" where
  "or_bytes o1 o2 = (if length o1 > length o2 then zip_rev (OR) o2 o1 else zip_rev (OR) o1 o2)"

definition xor_bytes :: "bytes \<Rightarrow> bytes \<Rightarrow> bytes" where
  "xor_bytes o1 o2 = (if length o1 > length o2 then zip_rev (XOR) o2 o1 else zip_rev (XOR) o1 o2)"

definition run_SubMumav :: "IStack \<Rightarrow> IStack run" where
  "run_SubMumav stack =
     bind (i_consume cost_SUB_MUMAV) (\<lambda>_.
     pop_as as_Mumav stack (\<lambda>v1 stack. pop_as as_Mumav stack (\<lambda>v2 stack.
       push stack (V_Option (if v1 \<ge> v2 then Some (V_Mumav (v1 - v2)) else None)))))"

definition run_And :: "And_ovl \<Rightarrow> IStack \<Rightarrow> IStack run" where
  "run_And overload stack =
     (case overload of
        And_Bool \<Rightarrow>
          pop_as as_Bool stack (\<lambda>o1 stack. top_as as_Bool stack (\<lambda>o2 stack.
          bind (i_consume cost_AND_BOOL) (\<lambda>_. push stack (V_Bool (o2 \<and> o1)))))
      | And_NatNat \<Rightarrow>
          pop_as as_Nat stack (\<lambda>o1 stack. top_as as_Nat stack (\<lambda>o2 stack.
          bind (i_charge (cost_and_num (nat_byte_size o1) (nat_byte_size o2))) (\<lambda>_.
            push stack (V_Nat (o2 AND o1)))))
      | And_IntNat \<Rightarrow>
          pop_as as_Int stack (\<lambda>o1 stack. pop_as as_Nat stack (\<lambda>o2 stack.
          bind (i_charge (cost_and_num (int_byte_size o1) (nat_byte_size o2))) (\<lambda>_.
            let res = o1 AND int o2 in
            if res < 0 then panic UnwrapFailed else push stack (V_Nat (nat res)))))
      | And_Bytes \<Rightarrow>
          pop_as as_Bytes stack (\<lambda>o1 stack. top_as as_Bytes stack (\<lambda>o2 stack.
          bind (i_charge (cost_and_bytes (length o1) (length o2))) (\<lambda>_.
            push stack (V_Bytes (and_bytes o1 o2))))))"

definition run_Or :: "Or_ovl \<Rightarrow> IStack \<Rightarrow> IStack run" where
  "run_Or overload stack =
     (case overload of
        Or_Bool \<Rightarrow>
          pop_as as_Bool stack (\<lambda>o1 stack. top_as as_Bool stack (\<lambda>o2 stack.
          bind (i_consume cost_OR_BOOL) (\<lambda>_. push stack (V_Bool (o2 \<or> o1)))))
      | Or_Nat \<Rightarrow>
          pop_as as_Nat stack (\<lambda>o1 stack. top_as as_Nat stack (\<lambda>o2 stack.
          bind (i_charge (cost_or_num (nat_byte_size o1) (nat_byte_size o2))) (\<lambda>_.
            push stack (V_Nat (o2 OR o1)))))
      | Or_Bytes \<Rightarrow>
          pop_as as_Bytes stack (\<lambda>o1 stack. top_as as_Bytes stack (\<lambda>o2 stack.
          bind (i_charge (cost_or_bytes (length o1) (length o2))) (\<lambda>_.
            push stack (V_Bytes (or_bytes o1 o2))))))"

definition run_Xor :: "Xor_ovl \<Rightarrow> IStack \<Rightarrow> IStack run" where
  "run_Xor overload stack =
     (case overload of
        Xor_Bool \<Rightarrow>
          pop_as as_Bool stack (\<lambda>o1 stack. top_as as_Bool stack (\<lambda>o2 stack.
          bind (i_consume cost_XOR_BOOL) (\<lambda>_. push stack (V_Bool (o2 \<noteq> o1)))))
      | Xor_Nat \<Rightarrow>
          pop_as as_Nat stack (\<lambda>o1 stack. top_as as_Nat stack (\<lambda>o2 stack.
          bind (i_charge (cost_xor_nat (nat_byte_size o1) (nat_byte_size o2))) (\<lambda>_.
            push stack (V_Nat (o2 XOR o1)))))
      | Xor_Bytes \<Rightarrow>
          pop_as as_Bytes stack (\<lambda>o1 stack. top_as as_Bytes stack (\<lambda>o2 stack.
            push stack (V_Bytes (xor_bytes o1 o2)))))"

definition run_Not :: "Not_ovl \<Rightarrow> IStack \<Rightarrow> IStack run" where
  "run_Not overload stack =
     (case overload of
        Not_Bool \<Rightarrow>
          top_as as_Bool stack (\<lambda>b stack. bind (i_consume cost_NOT_BOOL) (\<lambda>_. push stack (V_Bool (\<not> b))))
      | Not_Int \<Rightarrow>
          pop_as as_Int stack (\<lambda>i stack.
          bind (i_charge (cost_not_num (int_byte_size i))) (\<lambda>_. push stack (V_Int (NOT i))))
      | Not_Nat \<Rightarrow>
          pop_as as_Nat stack (\<lambda>n stack.
          bind (i_charge (cost_not_num (nat_byte_size n))) (\<lambda>_. push stack (V_Int (NOT (int n)))))
      | Not_Bytes \<Rightarrow>
          top_as as_Bytes stack (\<lambda>bs stack.
          bind (i_charge (cost_not_bytes (length bs))) (\<lambda>_. push stack (V_Bytes (map (NOT) bs)))))"

section \<open>Comparison with zero, conversions, comparison\<close>

definition run_test :: "nat \<Rightarrow> (int \<Rightarrow> bool) \<Rightarrow> IStack \<Rightarrow> IStack run" where
  "run_test cost test stack =
     bind (i_consume cost) (\<lambda>_. pop_as as_Int stack (\<lambda>i stack. push stack (V_Bool (test i))))"

definition run_Abs :: "IStack \<Rightarrow> IStack run" where
  "run_Abs stack =
     pop_as as_Int stack (\<lambda>i stack.
     bind (i_charge (cost_abs (int_byte_size i))) (\<lambda>_. push stack (V_Nat (magnitude i))))"

definition run_IsNat :: "IStack \<Rightarrow> IStack run" where
  "run_IsNat stack =
     pop_as as_Int stack (\<lambda>i stack.
     bind (i_consume cost_ISNAT) (\<lambda>_.
       push stack (V_Option (if i < 0 then None else Some (V_Nat (nat i))))))"

definition run_Int :: "Int_ovl \<Rightarrow> IStack \<Rightarrow> IStack run" where
  "run_Int overload stack =
     (case overload of
        Int_Nat \<Rightarrow>
          pop_as as_Nat stack (\<lambda>n stack. bind (i_consume cost_INT_NAT) (\<lambda>_. push stack (V_Int (int n))))
      | Int_Bls12381Fr \<Rightarrow>
          pop_as as_Fr stack (\<lambda>x stack.
          bind (i_consume cost_INT_BLS_FR) (\<lambda>_. push stack (V_Int (fr_to_big_int x))))
      | Int_Bytes \<Rightarrow>
          pop_as as_Bytes stack (\<lambda>bs stack.
          bind (i_charge (cost_int_bytes (length bs))) (\<lambda>_. push stack (V_Int (int_from_signed_bytes_be bs)))))"

definition run_Nat :: "IStack \<Rightarrow> IStack run" where
  "run_Nat stack =
     pop_as as_Bytes stack (\<lambda>bs stack.
     bind (i_charge (cost_int_bytes (length bs))) (\<lambda>_. push stack (V_Nat (nat_from_bytes_be bs))))"

definition run_Bytes :: "Bytes_ovl \<Rightarrow> IStack \<Rightarrow> IStack run" where
  "run_Bytes overload stack =
     (case overload of
        Bytes_Nat \<Rightarrow>
          pop_as as_Nat stack (\<lambda>n stack.
          bind (i_charge (cost_bytes_nat (nat_byte_size n))) (\<lambda>_.
            push stack (V_Bytes (if n = 0 then [] else nat_to_bytes_be n))))
      | Bytes_Int \<Rightarrow>
          pop_as as_Int stack (\<lambda>i stack.
          bind (i_charge (cost_bytes_int (int_byte_size i))) (\<lambda>_.
            push stack (V_Bytes (if i = 0 then [] else int_to_signed_bytes_be i)))))"

fun ordering_int :: "Ordering \<Rightarrow> int" where
  "ordering_int Less = -1"
| "ordering_int Equal = 0"
| "ordering_int Greater = 1"

definition run_Compare :: "IStack \<Rightarrow> IStack run" where
  "run_Compare stack =
     pop stack (\<lambda>l stack. pop stack (\<lambda>r stack.
     bind (i_charge (cost_compare l r)) (\<lambda>_.
     bind (lift (value_cmp l r)) (\<lambda>ord. push stack (V_Int (ordering_int ord))))))"

text \<open>The arms of \<open>interpret_one\<close> for these instructions.\<close>

definition run_arith :: "Ext \<Rightarrow> ArithInstruction \<Rightarrow> IStack \<Rightarrow> IStack run" where
  "run_arith ext i =
     (case i of
        I_Add overload \<Rightarrow> run_Add ext overload
      | I_Sub overload \<Rightarrow> run_Sub overload
      | I_Mul overload \<Rightarrow> run_Mul ext overload
      | I_EDiv overload \<Rightarrow> run_EDiv overload
      | I_Neg overload \<Rightarrow> run_Neg ext overload
      | I_Lsl overload \<Rightarrow> run_Lsl overload
      | I_Lsr overload \<Rightarrow> run_Lsr overload
      | I_SubMumav \<Rightarrow> run_SubMumav
      | I_And overload \<Rightarrow> run_And overload
      | I_Or overload \<Rightarrow> run_Or overload
      | I_Xor overload \<Rightarrow> run_Xor overload
      | I_Not overload \<Rightarrow> run_Not overload
      | I_Gt \<Rightarrow> run_test cost_GT (\<lambda>i. i > 0)
      | I_Ge \<Rightarrow> run_test cost_GE (\<lambda>i. \<not> i < 0)
      | I_Eq \<Rightarrow> run_test cost_EQ (\<lambda>i. i = 0)
      | I_Neq \<Rightarrow> run_test cost_NEQ (\<lambda>i. i \<noteq> 0)
      | I_Le \<Rightarrow> run_test cost_LE (\<lambda>i. \<not> i > 0)
      | I_Lt \<Rightarrow> run_test cost_LT (\<lambda>i. i < 0)
      | I_Abs \<Rightarrow> run_Abs
      | I_IsNat \<Rightarrow> run_IsNat
      | I_Int overload \<Rightarrow> run_Int overload
      | I_Nat \<Rightarrow> run_Nat
      | I_Bytes overload \<Rightarrow> run_Bytes overload
      | I_Compare \<Rightarrow> run_Compare)"

end
