(* ===== verification/MIR_Data.thy ===== *)
theory MIR_Data
  imports MIR_Arith
begin

text \<open>
  Instructions on the stack, on pairs, options, lists, sets, maps and big maps, and on strings and
  bytes (\<open>src/contrib/mir/src/interpreter.rs\<close>).
\<close>

section \<open>The stack\<close>

definition run_Drop :: "nat option \<Rightarrow> IStack \<Rightarrow> IStack run" where
  "run_Drop opt_height stack =
     bind (i_charge (cost_drop opt_height)) (\<lambda>_.
     bind (lift (stk_split (unwrap_or_1 opt_height) stack)) (\<lambda>(_, stack). return stack))"

definition run_Dup :: "nat option \<Rightarrow> IStack \<Rightarrow> IStack run" where
  "run_Dup opt_height stack =
     bind (i_charge (cost_dup opt_height)) (\<lambda>_.
     let dup_height = unwrap_or_1 opt_height in
     if dup_height = 0 then panic StackBounds
     else bind (lift (stk_at stack (dup_height - 1))) (\<lambda>v. push stack v))"

definition run_Dig :: "nat \<Rightarrow> IStack \<Rightarrow> IStack run" where
  "run_Dig dig_height stack =
     bind (i_charge (cost_dig dig_height)) (\<lambda>_.
       if dig_height > 0 then bind (lift (stk_remove dig_height stack)) (\<lambda>(e, stack). push stack e)
       else return stack)"

definition run_Dug :: "nat \<Rightarrow> IStack \<Rightarrow> IStack run" where
  "run_Dug dug_height stack =
     bind (i_charge (cost_dug dug_height)) (\<lambda>_.
       if dug_height > 0 then pop stack (\<lambda>e stack. lift (stk_insert dug_height e stack))
       else return stack)"

definition run_Swap :: "IStack \<Rightarrow> IStack run" where
  "run_Swap stack = bind (i_consume cost_SWAP) (\<lambda>_. lift (stk_swap 0 1 stack))"

definition run_Failwith :: "Type \<Rightarrow> IStack \<Rightarrow> IStack run" where
  "run_Failwith ty stack = pop stack (\<lambda>x stack. throw (FailedWith ty x))"

definition run_const :: "nat \<Rightarrow> TypedValue \<Rightarrow> IStack \<Rightarrow> IStack run" where
  "run_const cost v stack = bind (i_consume cost) (\<lambda>_. push stack v)"

section \<open>Pairs, options and unions\<close>

definition run_Car :: "IStack \<Rightarrow> IStack run" where
  "run_Car stack = bind (i_consume cost_CAR) (\<lambda>_. pop_as as_Pair stack (\<lambda>(l, r) stack. push stack l))"

definition run_Cdr :: "IStack \<Rightarrow> IStack run" where
  "run_Cdr stack = bind (i_consume cost_CDR) (\<lambda>_. pop_as as_Pair stack (\<lambda>(l, r) stack. push stack r))"

definition run_Pair :: "IStack \<Rightarrow> IStack run" where
  "run_Pair stack =
     bind (i_consume cost_PAIR) (\<lambda>_.
     pop stack (\<lambda>l stack. pop stack (\<lambda>r stack. push stack (V_Pair l r))))"

definition run_PairN :: "nat \<Rightarrow> IStack \<Rightarrow> IStack run" where
  "run_PairN n stack =
     bind (i_charge (cost_pair_n n)) (\<lambda>_.
     bind (lift (stk_split n stack)) (\<lambda>(drained, stack).
     bind (lift (unwrap (reduce_pairs V_Pair (rev drained)))) (\<lambda>res. push stack res)))"

definition run_Unpair :: "IStack \<Rightarrow> IStack run" where
  "run_Unpair stack =
     bind (i_consume cost_UNPAIR) (\<lambda>_. pop_as as_Pair stack (\<lambda>(l, r) stack. return (l # r # stack)))"

fun unpair_values :: "nat \<Rightarrow> IStack \<Rightarrow> TypedValue \<Rightarrow> ('e, IStack) outcome" where
  "unpair_values 0 stack p = Ok (p # stack)"
| "unpair_values (Suc n) stack p =
     (case p of
        V_Pair l r \<Rightarrow> map_outcome ((#) l) (unpair_values n stack r)
      | _ \<Rightarrow> Panic Unreachable)"

text \<open>\<open>n - 1\<close> on \<open>u16\<close>\<close>

definition u16_pred :: "nat \<Rightarrow> nat" where
  "u16_pred n = (n + 65535) mod 65536"

definition run_UnpairN :: "nat \<Rightarrow> IStack \<Rightarrow> IStack run" where
  "run_UnpairN n stack =
     bind (i_charge (cost_unpair_n n)) (\<lambda>_.
     pop stack (\<lambda>p stack. lift (unpair_values (u16_pred n) stack p)))"

text \<open>\<open>get_nth_field_ref\<close>, for reading and for writing.\<close>

fun nth_field :: "nat \<Rightarrow> TypedValue \<Rightarrow> ('e, TypedValue) outcome" where
  "nth_field 0 v = Ok v"
| "nth_field (Suc 0) v = (case v of V_Pair l r \<Rightarrow> Ok l | _ \<Rightarrow> Panic Unreachable)"
| "nth_field (Suc (Suc m)) v = (case v of V_Pair l r \<Rightarrow> nth_field m r | _ \<Rightarrow> Panic Unreachable)"

fun update_nth_field :: "nat \<Rightarrow> TypedValue \<Rightarrow> TypedValue \<Rightarrow> ('e, TypedValue) outcome" where
  "update_nth_field 0 x v = Ok x"
| "update_nth_field (Suc 0) x v = (case v of V_Pair l r \<Rightarrow> Ok (V_Pair x r) | _ \<Rightarrow> Panic Unreachable)"
| "update_nth_field (Suc (Suc m)) x v =
     (case v of V_Pair l r \<Rightarrow> map_outcome (V_Pair l) (update_nth_field m x r) | _ \<Rightarrow> Panic Unreachable)"

definition run_GetN :: "nat \<Rightarrow> IStack \<Rightarrow> IStack run" where
  "run_GetN n stack =
     bind (i_charge (cost_get_n n)) (\<lambda>_. top_as (\<lambda>v. lift (nth_field n v)) stack (\<lambda>x stack. push stack x))"

definition run_UpdateN :: "nat \<Rightarrow> IStack \<Rightarrow> IStack run" where
  "run_UpdateN n stack =
     bind (i_charge (cost_update_n n)) (\<lambda>_.
     pop stack (\<lambda>new_val stack.
     top_as (\<lambda>v. lift (update_nth_field n new_val v)) stack (\<lambda>v stack. push stack v)))"

definition run_ISome :: "IStack \<Rightarrow> IStack run" where
  "run_ISome stack = bind (i_consume cost_SOME) (\<lambda>_. pop stack (\<lambda>v stack. push stack (V_Option (Some v))))"

definition run_Left :: "IStack \<Rightarrow> IStack run" where
  "run_Left stack = bind (i_consume cost_LEFT) (\<lambda>_. pop stack (\<lambda>v stack. push stack (V_Or (Inl v))))"

definition run_Right :: "IStack \<Rightarrow> IStack run" where
  "run_Right stack = bind (i_consume cost_RIGHT) (\<lambda>_. pop stack (\<lambda>v stack. push stack (V_Or (Inr v))))"

definition run_Apply :: "Type \<Rightarrow> IStack \<Rightarrow> IStack run" where
  "run_Apply arg_ty stack =
     pop stack (\<lambda>arg_val stack. pop_as as_Lambda stack (\<lambda>closure stack.
     bind (i_consume cost_APPLY) (\<lambda>_. push stack (V_Lambda (C_Apply arg_ty arg_val closure)))))"

section \<open>Lists, sets, maps and big maps\<close>

definition run_Cons :: "IStack \<Rightarrow> IStack run" where
  "run_Cons stack =
     bind (i_consume cost_CONS) (\<lambda>_.
     pop stack (\<lambda>elt stack. pop_as as_List stack (\<lambda>lst stack. push stack (V_List (elt # lst)))))"

definition empty_big_map :: "Type \<Rightarrow> Type \<Rightarrow> TypedValue" where
  "empty_big_map kty vty = V_BigMap None [] kty vty"

text \<open>\<open>?\<close> on a result of the storage\<close>

definition lift_storage :: "(LazyStorageError, 'a) outcome \<Rightarrow> 'a run" where
  "lift_storage r = lift (map_err_outcome ILazyStorageError r)"

definition run_Mem :: "Mem_ovl \<Rightarrow> IStack \<Rightarrow> IStack run" where
  "run_Mem overload stack =
     pop stack (\<lambda>key stack.
       case overload of
         Mem_Set \<Rightarrow>
           pop_as as_Set stack (\<lambda>set stack.
           bind (i_charge (cost_set_mem key (length set))) (\<lambda>_.
           bind (lift (btree_contains partial_cmp key set)) (\<lambda>result. push stack (V_Bool result))))
       | Mem_Map \<Rightarrow>
           pop_as as_Map stack (\<lambda>map stack.
           bind (i_charge (cost_map_mem key (length map))) (\<lambda>_.
           bind (lift (btree_get partial_cmp key map)) (\<lambda>result. push stack (V_Bool (result \<noteq> None)))))
       | Mem_BigMap \<Rightarrow>
           pop_as as_BigMap stack (\<lambda>map stack.
           bind (i_charge (cost_map_mem key (length (bm_overlay map)))) (\<lambda>_.
           bind (read ctx_big_map_storage) (\<lambda>storage.
           bind (lift_storage (big_map_mem in_memory storage map key)) (\<lambda>result. push stack (V_Bool result))))))"

definition run_Get :: "Get_ovl \<Rightarrow> IStack \<Rightarrow> IStack run" where
  "run_Get overload stack =
     pop stack (\<lambda>key stack.
       case overload of
         Get_Map \<Rightarrow>
           pop_as as_Map stack (\<lambda>map stack.
           bind (i_charge (cost_map_get key (length map))) (\<lambda>_.
           bind (lift (btree_get partial_cmp key map)) (\<lambda>result. push stack (V_Option result))))
       | Get_BigMap \<Rightarrow>
           pop_as as_BigMap stack (\<lambda>map stack.
           bind (i_charge (cost_map_get key (length (bm_overlay map)))) (\<lambda>_.
           bind (read ctx_big_map_storage) (\<lambda>storage.
           bind (lift_storage (big_map_get in_memory storage map key)) (\<lambda>result. push stack (V_Option result))))))"

text \<open>\<open>match opt_new_val { None => map.remove(&key), Some(val) => map.insert(key, val) }\<close>\<close>

definition map_change ::
  "TypedValue \<Rightarrow> TypedValue option \<Rightarrow> (TypedValue \<times> TypedValue) list
     \<Rightarrow> ('e, TypedValue option \<times> (TypedValue \<times> TypedValue) list) outcome" where
  "map_change key opt_new_val m =
     (case opt_new_val of
        None \<Rightarrow> btree_remove partial_cmp key m
      | Some val \<Rightarrow> btree_insert partial_cmp key val m)"

definition run_Update :: "Update_ovl \<Rightarrow> IStack \<Rightarrow> IStack run" where
  "run_Update overload stack =
     pop stack (\<lambda>key stack.
       case overload of
         Update_Set \<Rightarrow>
           pop_as as_Bool stack (\<lambda>new_present stack. top_as as_Set stack (\<lambda>set stack.
           bind (i_charge (cost_set_update key (length set))) (\<lambda>_.
           bind (lift (if new_present then btree_set_insert partial_cmp key set
                       else btree_set_remove partial_cmp key set)) (\<lambda>set. push stack (V_Set set)))))
       | Update_Map \<Rightarrow>
           pop_as as_Option stack (\<lambda>opt_new_val stack. top_as as_Map stack (\<lambda>map stack.
           bind (i_charge (cost_map_update key (length map))) (\<lambda>_.
           bind (lift (map_change key opt_new_val map)) (\<lambda>(_, map). push stack (V_Map map)))))
       | Update_BigMap \<Rightarrow>
           pop_as as_Option stack (\<lambda>opt_new_val stack. top_as as_BigMap stack (\<lambda>map stack.
           bind (i_charge (cost_map_update key (length (bm_overlay map)))) (\<lambda>_.
           bind (lift (big_map_update map key opt_new_val)) (\<lambda>map. push stack (big_map_value map))))))"

definition run_GetAndUpdate :: "GetAndUpdate_ovl \<Rightarrow> IStack \<Rightarrow> IStack run" where
  "run_GetAndUpdate overload stack =
     pop stack (\<lambda>key stack. pop_as as_Option stack (\<lambda>opt_new_val stack.
       case overload of
         GetAndUpdate_Map \<Rightarrow>
           top_as as_Map stack (\<lambda>map stack.
           bind (i_charge (cost_map_get_and_update key (length map))) (\<lambda>_.
           bind (lift (map_change key opt_new_val map)) (\<lambda>(opt_old_val, map).
             return (V_Option opt_old_val # V_Map map # stack))))
       | GetAndUpdate_BigMap \<Rightarrow>
           top_as as_BigMap stack (\<lambda>map stack.
           bind (i_charge (cost_map_get_and_update key (length (bm_overlay map)))) (\<lambda>_.
           bind (read ctx_big_map_storage) (\<lambda>storage.
           bind (lift_storage (big_map_get in_memory storage map key)) (\<lambda>opt_old_val.
           bind (lift (big_map_update map key opt_new_val)) (\<lambda>map.
             return (V_Option opt_old_val # big_map_value map # stack))))))))"

definition run_Size :: "Size_ovl \<Rightarrow> IStack \<Rightarrow> IStack run" where
  "run_Size overload stack =
     (case overload of
        Size_String \<Rightarrow>
          pop_as as_String stack (\<lambda>e stack. bind (i_consume cost_SIZE_STRING) (\<lambda>_. push stack (V_Nat (length e))))
      | Size_Bytes \<Rightarrow>
          pop_as as_Bytes stack (\<lambda>e stack. bind (i_consume cost_SIZE_BYTES) (\<lambda>_. push stack (V_Nat (length e))))
      | Size_List \<Rightarrow>
          pop_as as_List stack (\<lambda>e stack. bind (i_consume cost_SIZE_LIST) (\<lambda>_. push stack (V_Nat (length e))))
      | Size_Set \<Rightarrow>
          pop_as as_Set stack (\<lambda>e stack. bind (i_consume cost_SIZE_SET) (\<lambda>_. push stack (V_Nat (length e))))
      | Size_Map \<Rightarrow>
          pop_as as_Map stack (\<lambda>e stack. bind (i_consume cost_SIZE_MAP) (\<lambda>_. push stack (V_Nat (length e)))))"

section \<open>Strings and bytes\<close>

text \<open>The loops over a list whose elements all have to be of one constructor.\<close>

fun collect_as :: "(TypedValue \<Rightarrow> 'a run) \<Rightarrow> TypedValue list \<Rightarrow> 'a list run" where
  "collect_as f [] = return []"
| "collect_as f (v # vs) = bind (f v) (\<lambda>x. bind (collect_as f vs) (\<lambda>xs. return (x # xs)))"

definition total_len :: "'a list list \<Rightarrow> checked" where
  "total_len xs = foldl (\<lambda>total x. ck_add 64 total (Some (length x))) (Some 0) xs"

definition run_Concat :: "Concat_ovl \<Rightarrow> IStack \<Rightarrow> IStack run" where
  "run_Concat overload stack =
     (case overload of
        Concat_TwoStrings \<Rightarrow>
          pop_as as_String stack (\<lambda>s1 stack. pop_as as_String stack (\<lambda>s2 stack.
          bind (i_charge (cost_concat_string_pair (length s1) (length s2))) (\<lambda>_. push stack (V_String (s1 @ s2)))))
      | Concat_TwoBytes \<Rightarrow>
          pop_as as_Bytes stack (\<lambda>bs1 stack. pop_as as_Bytes stack (\<lambda>bs2 stack.
          bind (i_charge (cost_concat_bytes_pair (length bs1) (length bs2))) (\<lambda>_. push stack (V_Bytes (bs1 @ bs2)))))
      | Concat_ListOfStrings \<Rightarrow>
          pop_as as_List stack (\<lambda>list stack.
          bind (i_charge (cost_concat_list_precheck (length list))) (\<lambda>_.
          bind (collect_as as_String list) (\<lambda>ss.
          bind (i_charge (cost_concat_string_list (total_len ss))) (\<lambda>_.
          bind (lift (ok_or (total_len ss) IOutOfGas)) (\<lambda>_. push stack (V_String (concat ss)))))))
      | Concat_ListOfBytes \<Rightarrow>
          pop_as as_List stack (\<lambda>list stack.
          bind (i_charge (cost_concat_list_precheck (length list))) (\<lambda>_.
          bind (collect_as as_Bytes list) (\<lambda>bss.
          bind (i_charge (cost_concat_bytes_list (total_len bss))) (\<lambda>_.
          bind (lift (ok_or (total_len bss) IOutOfGas)) (\<lambda>_. push stack (V_Bytes (concat bss))))))))"

text \<open>The indices of \<open>SLICE\<close> are \<open>usize\<close>; \<open>str::get\<close> also checks for boundaries of characters.\<close>

definition usize_of_nat :: "nat \<Rightarrow> nat option" where
  "usize_of_nat n = (if n < 2 ^ 64 then Some n else None)"

definition validate_bounds :: "nat \<Rightarrow> nat \<Rightarrow> nat \<Rightarrow> (nat \<times> nat) option" where
  "validate_bounds offset len actual_length =
     Option.bind (usize_of_nat offset) (\<lambda>start.
     Option.bind (usize_of_nat len) (\<lambda>len.
     Option.bind (usize_of_nat (start + len)) (\<lambda>stop.
       if start \<ge> actual_length then None else Some (start, stop))))"

definition bytes_get :: "bytes \<Rightarrow> nat \<times> nat \<Rightarrow> bytes option" where
  "bytes_get bs = (\<lambda>(start, stop).
     if start \<le> stop \<and> stop \<le> length bs then Some (take (stop - start) (drop start bs)) else None)"

definition str_get :: "string \<Rightarrow> nat \<times> nat \<Rightarrow> string option" where
  "str_get s = (\<lambda>(start, stop).
     if start \<le> stop \<and> stop \<le> length s \<and> is_char_boundary s start \<and> is_char_boundary s stop
     then Some (take (stop - start) (drop start s)) else None)"

definition run_Slice :: "Slice_ovl \<Rightarrow> IStack \<Rightarrow> IStack run" where
  "run_Slice overload stack =
     pop_as as_Nat stack (\<lambda>offset stack. pop_as as_Nat stack (\<lambda>len stack.
       case overload of
         Slice_String \<Rightarrow>
           pop_as as_String stack (\<lambda>str stack.
           bind (i_charge (cost_slice (length str))) (\<lambda>_.
             push stack (V_Option (map_option V_String
               (Option.bind (validate_bounds offset len (length str)) (str_get str))))))
       | Slice_Bytes \<Rightarrow>
           pop_as as_Bytes stack (\<lambda>bytes stack.
           bind (i_charge (cost_slice (length bytes))) (\<lambda>_.
             push stack (V_Option (map_option V_Bytes
               (Option.bind (validate_bounds offset len (length bytes)) (bytes_get bytes))))))))"

definition run_Pack :: "Ext \<Rightarrow> IStack \<Rightarrow> IStack run" where
  "run_Pack ext stack =
     bind (i_consume cost_PACK) (\<lambda>_.
     pop stack (\<lambda>v stack.
       let mich = value_into_micheline v in
       bind (i_charge (cost_micheline_encoding mich)) (\<lambda>_.
         push stack (V_Bytes (encode_for_pack (zarith_write ext) mich)))))"

text \<open>\<open>.ok()\<close> on a result of the type checker: every error becomes \<open>None\<close>, exhausted gas included.\<close>

definition try_tc :: "'a tc \<Rightarrow> 'a option run" where
  "try_tc m = catch (bind m (\<lambda>x. return (Some x))) (\<lambda>_. return None)"

definition try_unpack :: "Ext \<Rightarrow> Type \<Rightarrow> bytes \<Rightarrow> TypedValue option run" where
  "try_unpack ext ty bytes =
     (case decode_packed bytes of
        Inr mich \<Rightarrow> try_tc (typecheck_value ext mich ty)
      | Inl (Decode_Err _) \<Rightarrow> return None
      | Inl Decode_Panic \<Rightarrow> panic SliceBounds)"

definition run_Unpack :: "Ext \<Rightarrow> Type \<Rightarrow> IStack \<Rightarrow> IStack run" where
  "run_Unpack ext ty stack =
     pop_as as_Bytes stack (\<lambda>bytes stack.
     bind (i_charge (cost_unpack (length bytes))) (\<lambda>_.
     bind (try_unpack ext ty bytes) (\<lambda>r. push stack (V_Option r))))"

text \<open>The arms of \<open>interpret_one\<close> for these instructions.\<close>

definition run_data :: "Ext \<Rightarrow> DataInstruction \<Rightarrow> IStack \<Rightarrow> IStack run" where
  "run_data ext i =
     (case i of
        I_Drop opt_height \<Rightarrow> run_Drop opt_height
      | I_Dup opt_height \<Rightarrow> run_Dup opt_height
      | I_Dig dig_height \<Rightarrow> run_Dig dig_height
      | I_Dug dug_height \<Rightarrow> run_Dug dug_height
      | I_Swap \<Rightarrow> run_Swap
      | I_Failwith ty \<Rightarrow> run_Failwith ty
      | I_Never \<Rightarrow> (\<lambda>stack. panic Unreachable)
      | I_Unit \<Rightarrow> run_const cost_UNIT V_Unit
      | I_Car \<Rightarrow> run_Car
      | I_Cdr \<Rightarrow> run_Cdr
      | I_Pair \<Rightarrow> run_Pair
      | I_PairN n \<Rightarrow> run_PairN n
      | I_ISome \<Rightarrow> run_ISome
      | I_None \<Rightarrow> run_const cost_NONE (V_Option None)
      | I_Nil \<Rightarrow> run_const cost_NIL (V_List [])
      | I_EmptySet \<Rightarrow> run_const cost_EMPTY_SET (V_Set [])
      | I_EmptyBigMap kty vty \<Rightarrow> run_const cost_EMPTY_BIG_MAP (empty_big_map kty vty)
      | I_Mem overload \<Rightarrow> run_Mem overload
      | I_Get overload \<Rightarrow> run_Get overload
      | I_GetN n \<Rightarrow> run_GetN n
      | I_Update overload \<Rightarrow> run_Update overload
      | I_GetAndUpdate overload \<Rightarrow> run_GetAndUpdate overload
      | I_Concat overload \<Rightarrow> run_Concat overload
      | I_Size overload \<Rightarrow> run_Size overload
      | I_UpdateN n \<Rightarrow> run_UpdateN n
      | I_Unpair \<Rightarrow> run_Unpair
      | I_UnpairN n \<Rightarrow> run_UnpairN n
      | I_Cons \<Rightarrow> run_Cons
      | I_Pack \<Rightarrow> run_Pack ext
      | I_Unpack ty \<Rightarrow> run_Unpack ext ty
      | I_Slice overload \<Rightarrow> run_Slice overload
      | I_Left \<Rightarrow> run_Left
      | I_Right \<Rightarrow> run_Right
      | I_Apply arg_ty \<Rightarrow> run_Apply arg_ty)"

end
