(* ===== verification/MIR_Chain.thy ===== *)
theory MIR_Chain
  imports MIR_Data
begin

text \<open>
  Instructions on tickets, cryptography, contracts and operations, and those that read the context
  (\<open>src/contrib/mir/src/interpreter.rs\<close>).
\<close>

section \<open>The context\<close>

text \<open>\<open>interpret_cost::C\<close>, then a push of a value of the context.\<close>

definition run_env :: "nat \<Rightarrow> (Ctx \<Rightarrow> TypedValue) \<Rightarrow> IStack \<Rightarrow> IStack run" where
  "run_env cost f stack = bind (i_consume cost) (\<lambda>_. bind (read f) (\<lambda>v. push stack v))"

definition address_of :: "AddressHash \<Rightarrow> TypedValue" where
  "address_of hash = V_Address (Address hash entrypoint_default)"

definition run_ISelf :: "Entrypoint \<Rightarrow> IStack \<Rightarrow> IStack run" where
  "run_ISelf entrypoint stack =
     bind (i_consume cost_SELF) (\<lambda>_.
     bind (read ctx_self_address) (\<lambda>hash. push stack (V_Contract (Address hash entrypoint))))"

definition run_VotingPower :: "IStack \<Rightarrow> IStack run" where
  "run_VotingPower stack =
     bind (i_consume cost_VOTING_POWER) (\<lambda>_.
     pop_as as_KeyHash stack (\<lambda>keyhash stack.
     bind (read ctx_voting_powers) (\<lambda>voting_powers. push stack (V_Nat (voting_powers keyhash)))))"

section \<open>Cryptography\<close>

definition run_CheckSignature :: "Ext \<Rightarrow> IStack \<Rightarrow> IStack run" where
  "run_CheckSignature ext stack =
     pop_as as_Key stack (\<lambda>key stack. pop_as as_Signature stack (\<lambda>sig stack. pop_as as_Bytes stack (\<lambda>msg stack.
     bind (i_charge (cost_check_signature key (length msg))) (\<lambda>_.
     bind (lift (signature_check ext sig key msg)) (\<lambda>b. push stack (V_Bool b))))))"

definition run_HashKey :: "Ext \<Rightarrow> IStack \<Rightarrow> IStack run" where
  "run_HashKey ext stack =
     bind (i_consume cost_HASH_KEY) (\<lambda>_.
     pop_as as_Key stack (\<lambda>key stack.
     bind (lift (key_hash ext key)) (\<lambda>hash. push stack (V_KeyHash hash))))"

definition run_digest :: "(nat \<Rightarrow> cost) \<Rightarrow> (bytes \<Rightarrow> bytes) \<Rightarrow> IStack \<Rightarrow> IStack run" where
  "run_digest cost digest stack =
     top_as as_Bytes stack (\<lambda>msg stack.
     bind (i_charge (cost (length msg))) (\<lambda>_. push stack (V_Bytes (digest msg))))"

definition as_points :: "TypedValue \<Rightarrow> (bytes \<times> bytes) run" where
  "as_points elt =
     bind (as_Pair elt) (\<lambda>(g1, g2). bind (as_G1 g1) (\<lambda>x. bind (as_G2 g2) (\<lambda>y. return (x, y))))"

definition run_PairingCheck :: "Ext \<Rightarrow> IStack \<Rightarrow> IStack run" where
  "run_PairingCheck ext stack =
     pop_as as_List stack (\<lambda>list stack.
     bind (i_charge (cost_pairing_check (length list))) (\<lambda>_.
     bind (collect_as as_points list) (\<lambda>points. push stack (V_Bool (pairing_check ext points)))))"

section \<open>Tickets\<close>

definition run_Ticket :: "IStack \<Rightarrow> IStack run" where
  "run_Ticket stack =
     pop stack (\<lambda>content stack. pop_as as_Nat stack (\<lambda>amount stack.
     bind (i_consume cost_TICKET) (\<lambda>_.
       if amount = 0 then push stack (V_Option None)
       else bind (read ctx_self_address) (\<lambda>ticketer.
         push stack (V_Option (Some (V_Ticket ticketer content amount)))))))"

definition run_ReadTicket :: "IStack \<Rightarrow> IStack run" where
  "run_ReadTicket stack =
     bind (i_consume cost_READ_TICKET) (\<lambda>_.
     top_as as_Ticket stack (\<lambda>(ticketer, content, amount) stack.
       return (unwrap_ticket ticketer content amount # V_Ticket ticketer content amount # stack)))"

definition run_SplitTicket :: "IStack \<Rightarrow> IStack run" where
  "run_SplitTicket stack =
     pop_as as_Ticket stack (\<lambda>(ticketer, content, amount) stack.
     pop_as as_Pair stack (\<lambda>(left, right) stack.
     bind (as_Nat left) (\<lambda>amount_left.
     bind (as_Nat right) (\<lambda>amount_right.
     bind (i_charge (cost_split_ticket amount_left amount_right)) (\<lambda>_.
       push stack (V_Option
         (if amount_left + amount_right = amount \<and> amount_left > 0 \<and> amount_right > 0
          then Some (V_Pair (V_Ticket ticketer content amount_left) (V_Ticket ticketer content amount_right))
          else None)))))))"

definition run_JoinTickets :: "IStack \<Rightarrow> IStack run" where
  "run_JoinTickets stack =
     pop_as as_Pair stack (\<lambda>(left, right) stack.
     bind (as_Ticket left) (\<lambda>(ticketer1, content1, amount1).
     bind (as_Ticket right) (\<lambda>(ticketer2, content2, amount2).
     bind (i_charge (cost_join_tickets content1 amount1 content2 amount2)) (\<lambda>_.
       push stack (V_Option
         (if content1 = content2 \<and> ticketer1 = ticketer2
          then Some (V_Ticket ticketer1 content1 (amount1 + amount2)) else None))))))"

section \<open>Contracts and operations\<close>

definition run_Address :: "IStack \<Rightarrow> IStack run" where
  "run_Address stack =
     bind (i_consume cost_ADDRESS) (\<lambda>_. pop_as as_Contract stack (\<lambda>address stack. push stack (V_Address address)))"

definition run_ImplicitAccount :: "IStack \<Rightarrow> IStack run" where
  "run_ImplicitAccount stack =
     bind (i_consume cost_IMPLICIT_ACCOUNT) (\<lambda>_.
     pop_as as_KeyHash stack (\<lambda>keyhash stack.
       push stack (V_Contract (Address (Implicit keyhash) entrypoint_default))))"

definition run_Contract :: "Type \<Rightarrow> Entrypoint \<Rightarrow> IStack \<Rightarrow> IStack run" where
  "run_Contract typ ep stack =
     bind (i_consume cost_CONTRACT) (\<lambda>_.
     pop_as as_Address stack (\<lambda>address stack.
     bind (try_tc (typecheck_contract_address address ep typ)) (\<lambda>r.
       push stack (V_Option (map_option V_Contract r)))))"

text \<open>\<open>ctx.operation_counter()\<close> and \<open>ctx.origination_counter()\<close>\<close>

definition next_operation :: "u128 run" where
  "next_operation ctx = (let (n, ctx) = operation_counter ctx in (Ok n, ctx))"

definition next_origination :: "u32 run" where
  "next_origination ctx = (let (n, ctx) = origination_counter ctx in (Ok n, ctx))"

definition run_TransferTokens :: "IStack \<Rightarrow> IStack run" where
  "run_TransferTokens stack =
     pop stack (\<lambda>param stack. pop_as as_Mumav stack (\<lambda>mumav_amount stack.
     pop_as as_Contract stack (\<lambda>contract_address stack.
     bind next_operation (\<lambda>counter.
     bind (i_consume cost_TRANSFER_TOKENS) (\<lambda>_.
       push stack (V_Operation (TransferTokens param contract_address mumav_amount) counter))))))"

text \<open>\<open>pop!(V::Option)\<close> of a delegate\<close>

definition as_delegate :: "TypedValue \<Rightarrow> KeyHash option run" where
  "as_delegate v =
     bind (as_Option v) (\<lambda>r.
       case r of None \<Rightarrow> return None | Some kh \<Rightarrow> bind (as_KeyHash kh) (\<lambda>kh. return (Some kh)))"

definition run_SetDelegate :: "IStack \<Rightarrow> IStack run" where
  "run_SetDelegate stack =
     pop_as as_delegate stack (\<lambda>opt_keyhash stack.
     bind next_operation (\<lambda>counter.
     bind (i_consume cost_SET_DELEGATE) (\<lambda>_.
       push stack (V_Operation (SetDelegate opt_keyhash) counter))))"

definition run_Emit :: "string option \<Rightarrow> Type + Micheline \<Rightarrow> IStack \<Rightarrow> IStack run" where
  "run_Emit tag arg_ty stack =
     bind next_operation (\<lambda>counter.
     pop stack (\<lambda>emit_val stack.
     bind (i_consume cost_EMIT) (\<lambda>_. push stack (V_Operation (Emit tag emit_val arg_ty) counter))))"

text \<open>\<open>ContractKt1Hash::hash_size()\<close>: the hash of a contract has 20 bytes.\<close>

definition kt1_hash_size :: nat where "kt1_hash_size = 20"

definition compute_contract_address :: "Ext \<Rightarrow> bytes \<Rightarrow> u32 \<Rightarrow> ('e, Address) outcome" where
  "compute_contract_address ext operation_group_hash o_index =
     bind_outcome (unwrap (blake2b_digest ext (operation_group_hash @ to_le_bytes o_index) kt1_hash_size)) (\<lambda>digest.
     bind_outcome (unwrap (try_from_bytes ext ContractKt1Hash digest)) (\<lambda>hash.
       Ok (Address (Kt1 hash) entrypoint_default)))"

definition run_CreateContract :: "Ext \<Rightarrow> ContractScript \<Rightarrow> Micheline \<Rightarrow> IStack \<Rightarrow> IStack run" where
  "run_CreateContract ext cs micheline stack =
     bind (i_consume cost_CREATE_CONTRACT) (\<lambda>_.
     bind next_operation (\<lambda>counter.
     pop_as as_delegate stack (\<lambda>opt_keyhash stack. pop_as as_Mumav stack (\<lambda>amount stack. pop stack (\<lambda>storage stack.
     bind next_origination (\<lambda>origination_counter.
     bind (read ctx_operation_group_hash) (\<lambda>operation_group_hash.
     bind (lift (compute_contract_address ext operation_group_hash origination_counter)) (\<lambda>address.
       return (V_Operation (CreateContract opt_keyhash amount storage cs micheline) counter
               # V_Address address # stack)))))))))"

text \<open>The arms of \<open>interpret_one\<close> for these instructions.\<close>

definition run_chain :: "Ext \<Rightarrow> ChainInstruction \<Rightarrow> IStack \<Rightarrow> IStack run" where
  "run_chain ext i =
     (case i of
        I_Amount \<Rightarrow> run_env cost_AMOUNT (\<lambda>ctx. V_Mumav (ctx_amount ctx))
      | I_ChainId \<Rightarrow> run_env cost_CHAIN_ID (\<lambda>ctx. V_ChainId (ctx_chain_id ctx))
      | I_ISelf entrypoint \<Rightarrow> run_ISelf entrypoint
      | I_CheckSignature \<Rightarrow> run_CheckSignature ext
      | I_TransferTokens \<Rightarrow> run_TransferTokens
      | I_SetDelegate \<Rightarrow> run_SetDelegate
      | I_Address \<Rightarrow> run_Address
      | I_HashKey \<Rightarrow> run_HashKey ext
      | I_Ticket \<Rightarrow> run_Ticket
      | I_ReadTicket \<Rightarrow> run_ReadTicket
      | I_SplitTicket \<Rightarrow> run_SplitTicket
      | I_JoinTickets \<Rightarrow> run_JoinTickets
      | I_Blake2b \<Rightarrow> run_digest cost_blake2b (blake2b_256 ext)
      | I_Keccak \<Rightarrow> run_digest cost_keccak (keccak256 ext)
      | I_Sha256 \<Rightarrow> run_digest cost_sha256 (sha256 ext)
      | I_Sha3 \<Rightarrow> run_digest cost_sha3 (sha3_256 ext)
      | I_Sha512 \<Rightarrow> run_digest cost_sha512 (sha512 ext)
      | I_Balance \<Rightarrow> run_env cost_BALANCE (\<lambda>ctx. V_Mumav (ctx_balance ctx))
      | I_Contract typ ep \<Rightarrow> run_Contract typ ep
      | I_Level \<Rightarrow> run_env cost_LEVEL (\<lambda>ctx. V_Nat (ctx_level ctx))
      | I_MinBlockTime \<Rightarrow> run_env cost_MIN_BLOCK_TIME (\<lambda>ctx. V_Nat (ctx_min_block_time ctx))
      | I_SelfAddress \<Rightarrow> run_env cost_SELF_ADDRESS (\<lambda>ctx. address_of (ctx_self_address ctx))
      | I_Sender \<Rightarrow> run_env cost_SENDER (\<lambda>ctx. address_of (ctx_sender ctx))
      | I_Source \<Rightarrow> run_env cost_SOURCE (\<lambda>ctx. address_of (ctx_source ctx))
      | I_Now \<Rightarrow> run_env cost_NOW (\<lambda>ctx. V_Timestamp (ctx_now ctx))
      | I_ImplicitAccount \<Rightarrow> run_ImplicitAccount
      | I_VotingPower \<Rightarrow> run_VotingPower
      | I_TotalVotingPower \<Rightarrow> run_env cost_TOTAL_VOTING_POWER (\<lambda>ctx. V_Nat (ctx_total_voting_power ctx))
      | I_Emit tag arg_ty \<Rightarrow> run_Emit tag arg_ty
      | I_PairingCheck \<Rightarrow> run_PairingCheck ext)"

end
