(* ===== verification/MIR_Frame.thy ===== *)
theory MIR_Frame
  imports MIR_Chain
begin

text \<open>
  What running an instruction may change of the context: the gas, which never increases, and the
  two counters of operations and originations.
\<close>

section \<open>Frames\<close>

definition frame :: "Ctx \<Rightarrow> Ctx \<Rightarrow> bool" where
  "frame ctx ctx' \<longleftrightarrow> gas_le (ctx_gas ctx') (ctx_gas ctx) \<and>
     (\<exists>g i j. ctx' = ctx\<lparr>ctx_gas := g, ctx_origination_counter := i, ctx_operation_counter := j\<rparr>)"

definition framed :: "('e, 'a) comp \<Rightarrow> Ctx \<Rightarrow> bool" where
  "framed m ctx \<longleftrightarrow> frame ctx (snd (m ctx))"

named_theorems framed_intros

lemma frameI:
  "gas_le g (ctx_gas ctx) \<Longrightarrow> frame ctx (ctx\<lparr>ctx_gas := g, ctx_origination_counter := i, ctx_operation_counter := j\<rparr>)"
  by (auto simp: frame_def)

lemma frame_parts:
  "frame ctx ctx" "frame ctx (ctx\<lparr>ctx_origination_counter := i\<rparr>)" "frame ctx (ctx\<lparr>ctx_operation_counter := j\<rparr>)"
  "gas_le g (ctx_gas ctx) \<Longrightarrow> frame ctx (ctx\<lparr>ctx_gas := g\<rparr>)"
  using frameI [of "ctx_gas ctx" ctx "ctx_operation_counter ctx" "ctx_origination_counter ctx"]
    frameI [of "ctx_gas ctx" ctx "ctx_operation_counter ctx" i]
    frameI [of "ctx_gas ctx" ctx j "ctx_origination_counter ctx"]
    frameI [of g ctx "ctx_operation_counter ctx" "ctx_origination_counter ctx"]
  by simp_all

lemma ctx_frame_trans: "frame a b \<Longrightarrow> frame b c \<Longrightarrow> frame a c"
  by (cases a) (auto simp: frame_def dest: gas_le_trans)

lemma framedD: "framed m ctx \<Longrightarrow> m ctx = (r, ctx') \<Longrightarrow> frame ctx ctx'"
  by (simp add: framed_def)

lemma framed_only_gas: "only_gas m \<Longrightarrow> framed m ctx"
  using frame_parts(4) only_gasD [of m ctx] unfolding framed_def by (metis prod.collapse)

lemma framed_basic [framed_intros]:
  "framed (return x) ctx" "framed (throw e) ctx" "framed (panic p) ctx" "framed (lift s) ctx"
  "framed (read f) ctx" "framed (consume oog n) ctx" "framed (charge oog c) ctx"
  by (simp_all add: framed_only_gas only_gas_intros)

lemma framed_bind [framed_intros]:
  assumes "framed m ctx" "\<And>x ctx'. m ctx = (Ok x, ctx') \<Longrightarrow> framed (k x) ctx'"
  shows "framed (bind m k) ctx"
proof (cases "m ctx")
  case (Pair r ctx')
  then have "frame ctx ctx'" by (rule framedD [OF assms(1)])
  with Pair assms(2) show ?thesis
    by (cases r) (auto simp: framed_def bind_def intro: ctx_frame_trans)
qed

lemma framed_counters [framed_intros]: "framed next_operation ctx" "framed next_origination ctx"
  by (simp_all add: framed_def frame_parts next_operation_def next_origination_def operation_counter_def
      origination_counter_def Let_def)

lemma framed_try_tc [framed_intros]: "only_gas m \<Longrightarrow> framed (try_tc m) ctx"
  unfolding try_tc_def by (intro framed_only_gas only_gas_intros)

lemma framed_pop [framed_intros]:
  "(\<And>v rest. stack = v # rest \<Longrightarrow> framed (k v rest) ctx) \<Longrightarrow> framed (pop stack k) ctx"
  by (auto simp: pop_def framed_basic split: list.split)

lemma framed_pop_as [framed_intros]:
  assumes "\<And>v. framed (f v) ctx"
    and "\<And>v rest x ctx'. stack = v # rest \<Longrightarrow> f v ctx = (Ok x, ctx') \<Longrightarrow> framed (k x rest) ctx'"
  shows "framed (pop_as f stack k) ctx" "framed (top_as f stack k) ctx"
  unfolding pop_as_def top_as_def by (auto intro!: framed_intros assms split: list.split)

lemma framed_if [framed_intros]:
  "(b \<Longrightarrow> framed m ctx) \<Longrightarrow> (\<not> b \<Longrightarrow> framed n ctx) \<Longrightarrow> framed (if b then m else n) ctx"
  by simp

lemma framed_case_option [framed_intros]:
  "(r = None \<Longrightarrow> framed m ctx) \<Longrightarrow> (\<And>x. r = Some x \<Longrightarrow> framed (k x) ctx) \<Longrightarrow> framed (case_option m k r) ctx"
  by (cases r) simp_all

lemma framed_case_prod [framed_intros]:
  "(\<And>a b. p = (a, b) \<Longrightarrow> framed (k a b) ctx) \<Longrightarrow> framed (case_prod k p) ctx"
  "(\<And>a b. p = (a, b) \<Longrightarrow> framed (k' a b y) ctx) \<Longrightarrow> framed (case_prod k' p y) ctx"
  by (cases p; simp)+

lemma framed_case_sum [framed_intros]:
  "(\<And>x. u = Inl x \<Longrightarrow> framed (f x) ctx) \<Longrightarrow> (\<And>x. u = Inr x \<Longrightarrow> framed (g x) ctx) \<Longrightarrow> framed (case_sum f g u) ctx"
  by (cases u) simp_all

lemma framed_case_list [framed_intros]:
  "(xs = [] \<Longrightarrow> framed m ctx) \<Longrightarrow> (\<And>y ys. xs = y # ys \<Longrightarrow> framed (k y ys) ctx) \<Longrightarrow> framed (case_list m k xs) ctx"
  by (cases xs) simp_all

lemma framed_as [framed_intros]:
  "framed (as_Int v) ctx" "framed (as_Nat v) ctx" "framed (as_Mumav v) ctx" "framed (as_Bool v) ctx"
  "framed (as_String v) ctx" "framed (as_Bytes v) ctx" "framed (as_Timestamp v) ctx" "framed (as_Fr v) ctx"
  "framed (as_G1 v) ctx" "framed (as_G2 v) ctx" "framed (as_Pair v) ctx" "framed (as_Option v) ctx"
  "framed (as_Or v) ctx" "framed (as_List v) ctx" "framed (as_Set v) ctx" "framed (as_Map v) ctx"
  "framed (as_BigMap v) ctx" "framed (as_Address v) ctx" "framed (as_Contract v) ctx" "framed (as_Key v) ctx"
  "framed (as_KeyHash v) ctx" "framed (as_Signature v) ctx" "framed (as_Lambda v) ctx" "framed (as_Ticket v) ctx"
  "framed (as_Operation v) ctx"
  by (cases v; simp add: framed_basic as_Int_def as_Nat_def as_Mumav_def as_Bool_def as_String_def as_Bytes_def
    as_Timestamp_def as_Fr_def as_G1_def as_G2_def as_Pair_def as_Option_def as_Or_def as_List_def as_Set_def
    as_Map_def as_BigMap_def as_Address_def as_Contract_def as_Key_def as_KeyHash_def as_Signature_def
    as_Lambda_def as_Ticket_def as_Operation_def)+

lemma framed_collect_as [framed_intros]: "(\<And>v ctx. framed (f v) ctx) \<Longrightarrow> framed (collect_as f vs) ctx"
  by (induction vs arbitrary: ctx) (auto intro!: framed_intros)

section \<open>Instructions without code\<close>

lemma framed_run_arith [framed_intros]: "framed (run_arith ext i stack) ctx"
  by (cases i)
    (auto simp: run_arith_def run_Add_def run_Sub_def run_Mul_def run_EDiv_def run_Neg_def run_Lsl_def run_Lsr_def
      run_SubMumav_def run_And_def run_Or_def run_Xor_def run_Not_def run_test_def run_Abs_def run_IsNat_def
      run_Int_def run_Nat_def run_Bytes_def run_Compare_def Let_def
      intro!: framed_intros
      split: Add_ovl.split Sub_ovl.split Mul_ovl.split EDiv_ovl.split Neg_ovl.split Lsl_ovl.split Lsr_ovl.split
        And_ovl.split Or_ovl.split Xor_ovl.split Not_ovl.split Int_ovl.split Bytes_ovl.split)

lemma framed_run_data [framed_intros]: "framed (run_data ext i stack) ctx"
  by (cases i)
    (auto simp: run_data_def run_Drop_def run_Dup_def run_Dig_def run_Dug_def run_Swap_def run_Failwith_def
      run_const_def run_Car_def run_Cdr_def run_Pair_def run_PairN_def run_Unpair_def run_UnpairN_def run_GetN_def
      run_UpdateN_def run_ISome_def run_Left_def run_Right_def run_Apply_def run_Cons_def lift_storage_def run_Mem_def
      run_Get_def run_Update_def run_GetAndUpdate_def run_Size_def run_Concat_def run_Slice_def run_Pack_def
      try_unpack_def run_Unpack_def Let_def
      intro!: framed_intros only_gas_typecheck
      split: Mem_ovl.split Get_ovl.split Update_ovl.split GetAndUpdate_ovl.split Size_ovl.split Concat_ovl.split
        Slice_ovl.split DecodeFailure.split sum.split)

lemma framed_run_chain [framed_intros]: "framed (run_chain ext i stack) ctx"
  by (cases i)
    (auto simp: run_chain_def run_env_def run_ISelf_def run_VotingPower_def run_CheckSignature_def run_HashKey_def
      run_digest_def as_points_def run_PairingCheck_def run_Ticket_def run_ReadTicket_def run_SplitTicket_def
      run_JoinTickets_def run_Address_def run_ImplicitAccount_def run_Contract_def run_TransferTokens_def
      as_delegate_def run_SetDelegate_def run_Emit_def
      intro!: framed_intros only_gas_contract_address)

lemma framed_run_CreateContract [framed_intros]: "framed (run_CreateContract ext cs m stack) ctx"
  by (auto simp: run_CreateContract_def as_delegate_def intro!: framed_intros)

lemma framed_run_const [framed_intros]: "framed (run_const cost v stack) ctx"
  by (auto simp: run_const_def intro!: framed_intros)

end
