(* ===== verification/MIR_Interpreter.thy ===== *)
theory MIR_Interpreter
  imports MIR_Frame
begin

text \<open>
  The interpreter (\<open>interpret\<close>, \<open>interpret_one\<close> and \<open>ContractScript::interpret\<close> of
  \<open>src/contrib/mir/src/interpreter.rs\<close>).  Loops, iterations and calls of lambdas are functions of
  their own.  All of them terminate, since each round of a loop pays for itself first and gas never
  increases.
\<close>

section \<open>Congruence rules\<close>

lemma pop_as_cong [fundef_cong]:
  assumes "stack = stack'" "ctx = ctx'" "f = f'"
    and "\<And>v rest x ctx''. stack' = v # rest \<Longrightarrow> f' v ctx' = (Ok x, ctx'') \<Longrightarrow> k x rest ctx'' = k' x rest ctx''"
  shows "pop_as f stack k ctx = pop_as f' stack' k' ctx'"
  using assms by (auto simp: pop_as_def pop_def panic_def intro: bind_cong split: list.split)

lemma pop_cong [fundef_cong]:
  assumes "stack = stack'" "ctx = ctx'" "\<And>v rest. stack' = v # rest \<Longrightarrow> k v rest ctx' = k' v rest ctx'"
  shows "pop stack k ctx = pop stack' k' ctx'"
  using assms by (auto simp: pop_def panic_def split: list.split)

lemma top_as_cong [fundef_cong]:
  assumes "stack = stack'" "ctx = ctx'" "f = f'"
    and "\<And>v rest x ctx''. stack' = v # rest \<Longrightarrow> f' v ctx' = (Ok x, ctx'') \<Longrightarrow> k x rest ctx'' = k' x rest ctx''"
  shows "top_as f stack k ctx = top_as f' stack' k' ctx'"
  using assms by (auto simp: top_as_def panic_def intro: bind_cong split: list.split)

lemma case_prod_ctx_cong [fundef_cong]:
  "p = q \<Longrightarrow> ctx = ctx' \<Longrightarrow> (\<And>a b. q = (a, b) \<Longrightarrow> f a b ctx' = g a b ctx') \<Longrightarrow> case_prod f p ctx = case_prod g q ctx'"
  by (cases q) simp

lemma if_ctx_cong [fundef_cong]:
  "b = c \<Longrightarrow> ctx = ctx' \<Longrightarrow> (c \<Longrightarrow> m ctx' = m' ctx') \<Longrightarrow> (\<not> c \<Longrightarrow> n ctx' = n' ctx') \<Longrightarrow>
    (if b then m else n) ctx = (if c then m' else n') ctx'"
  by simp

lemma case_option_ctx_cong [fundef_cong]:
  "r = s \<Longrightarrow> ctx = ctx' \<Longrightarrow> (s = None \<Longrightarrow> f ctx' = f' ctx') \<Longrightarrow> (\<And>x. s = Some x \<Longrightarrow> g x ctx' = g' x ctx') \<Longrightarrow>
    case_option f g r ctx = case_option f' g' s ctx'"
  by (cases s) simp_all

lemma case_sum_ctx_cong [fundef_cong]:
  "r = s \<Longrightarrow> ctx = ctx' \<Longrightarrow> (\<And>x. s = Inl x \<Longrightarrow> f x ctx' = f' x ctx') \<Longrightarrow> (\<And>x. s = Inr x \<Longrightarrow> g x ctx' = g' x ctx') \<Longrightarrow>
    case_sum f g r ctx = case_sum f' g' s ctx'"
  by (cases s) simp_all

lemma case_list_ctx_cong [fundef_cong]:
  "xs = ys \<Longrightarrow> ctx = ctx' \<Longrightarrow> (ys = [] \<Longrightarrow> f ctx' = f' ctx') \<Longrightarrow>
    (\<And>z zs. ys = z # zs \<Longrightarrow> g z zs ctx' = g' z zs ctx') \<Longrightarrow> case_list f g xs ctx = case_list f' g' ys ctx'"
  by (cases ys) simp_all

section \<open>The interpreter\<close>

function interpret_seq :: "Ext \<Rightarrow> Instruction list \<Rightarrow> IStack \<Rightarrow> IStack run"
  and interpret_one :: "Ext \<Rightarrow> Instruction \<Rightarrow> IStack \<Rightarrow> IStack run"
  and run_loop :: "Ext \<Rightarrow> Instruction list \<Rightarrow> IStack \<Rightarrow> IStack run"
  and run_loop_left :: "Ext \<Rightarrow> Instruction list \<Rightarrow> IStack \<Rightarrow> IStack run"
  and run_iter :: "Ext \<Rightarrow> Instruction list \<Rightarrow> TypedValue list \<Rightarrow> IStack \<Rightarrow> IStack run"
  and run_map_list :: "Ext \<Rightarrow> Instruction list \<Rightarrow> TypedValue list \<Rightarrow> IStack \<Rightarrow> (TypedValue list \<times> IStack) run"
  and run_map_map ::
    "Ext \<Rightarrow> Instruction list \<Rightarrow> (TypedValue \<times> TypedValue) list \<Rightarrow> IStack
       \<Rightarrow> ((TypedValue \<times> TypedValue) list \<times> IStack) run"
  and run_exec :: "Ext \<Rightarrow> Closure \<Rightarrow> TypedValue \<Rightarrow> TypedValue run" where
  "interpret_seq ext [] stack ctx = bind (i_consume cost_INTERPRET_RET) (\<lambda>_. return stack) ctx"
| "interpret_seq ext (i # is) stack ctx = bind (interpret_one ext i stack) (\<lambda>stack. interpret_seq ext is stack) ctx"
| "interpret_one ext (I_Arith i) stack ctx = run_arith ext i stack ctx"
| "interpret_one ext (I_Data i) stack ctx = run_data ext i stack ctx"
| "interpret_one ext (I_Chain i) stack ctx = run_chain ext i stack ctx"
| "interpret_one ext (I_Dip opt_height nested) stack ctx =
     bind (i_charge (cost_dip opt_height)) (\<lambda>_.
     bind (lift (stk_split (unwrap_or_1 opt_height) stack)) (\<lambda>(protected, stack).
     bind (interpret_seq ext nested stack) (\<lambda>stack.
     bind (i_charge (cost_undip (unwrap_or_1 opt_height))) (\<lambda>_. return (protected @ stack))))) ctx"
| "interpret_one ext (I_If nested_t nested_f) stack ctx =
     bind (i_consume cost_IF) (\<lambda>_.
     pop_as as_Bool stack (\<lambda>b stack. if b then interpret_seq ext nested_t stack else interpret_seq ext nested_f stack)) ctx"
| "interpret_one ext (I_IfNone when_none when_some) stack ctx =
     bind (i_consume cost_IF_NONE) (\<lambda>_.
     pop_as as_Option stack (\<lambda>r stack.
       case r of
         Some x \<Rightarrow> interpret_seq ext when_some (x # stack)
       | None \<Rightarrow> interpret_seq ext when_none stack)) ctx"
| "interpret_one ext (I_IfCons when_cons when_nil) stack ctx =
     bind (i_consume cost_IF_CONS) (\<lambda>_.
     top_as as_List stack (\<lambda>lst stack.
       case lst of
         x # lst \<Rightarrow> interpret_seq ext when_cons (x # V_List lst # stack)
       | [] \<Rightarrow> interpret_seq ext when_nil stack)) ctx"
| "interpret_one ext (I_IfLeft when_left when_right) stack ctx =
     bind (i_consume cost_IF_LEFT) (\<lambda>_.
     pop_as as_Or stack (\<lambda>u stack.
       case u of
         Inl x \<Rightarrow> interpret_seq ext when_left (x # stack)
       | Inr x \<Rightarrow> interpret_seq ext when_right (x # stack))) ctx"
| "interpret_one ext (I_Loop nested) stack ctx =
     bind (i_consume cost_LOOP_ENTER) (\<lambda>_. run_loop ext nested stack) ctx"
| "interpret_one ext (I_LoopLeft nested) stack ctx =
     bind (i_consume cost_LOOP_LEFT_ENTER) (\<lambda>_. run_loop_left ext nested stack) ctx"
| "interpret_one ext (I_Iter Iter_List nested) stack ctx =
     bind (i_consume cost_ITER) (\<lambda>_. pop_as as_List stack (\<lambda>lst stack. run_iter ext nested lst stack)) ctx"
| "interpret_one ext (I_Iter Iter_Set nested) stack ctx =
     bind (i_consume cost_ITER) (\<lambda>_. pop_as as_Set stack (\<lambda>lst stack. run_iter ext nested lst stack)) ctx"
| "interpret_one ext (I_Iter Iter_Map nested) stack ctx =
     bind (i_consume cost_ITER) (\<lambda>_. pop_as as_Map stack (\<lambda>m stack.
       run_iter ext nested (map (\<lambda>(k, v). V_Pair k v) m) stack)) ctx"
| "interpret_one ext (I_Map Map_List nested) stack ctx =
     bind (i_consume cost_MAP_LIST) (\<lambda>_. pop_as as_List stack (\<lambda>lst stack.
     bind (run_map_list ext nested lst stack) (\<lambda>(result, stack). push stack (V_List result)))) ctx"
| "interpret_one ext (I_Map Map_Option nested) stack ctx =
     bind (i_consume cost_MAP_OPTION) (\<lambda>_. pop_as as_Option stack (\<lambda>r stack.
       case r of
         Some elem \<Rightarrow>
           bind (i_consume cost_PUSH) (\<lambda>_.
           bind (interpret_seq ext nested (elem # stack)) (\<lambda>stack.
           pop stack (\<lambda>v stack. push stack (V_Option (Some v)))))
       | None \<Rightarrow> push stack (V_Option None))) ctx"
| "interpret_one ext (I_Map Map_Map nested) stack ctx =
     bind (i_consume cost_MAP_MAP) (\<lambda>_. pop_as as_Map stack (\<lambda>m stack.
     bind (run_map_map ext nested m stack) (\<lambda>(result, stack). push stack (V_Map result)))) ctx"
| "interpret_one ext (I_Push v) stack ctx = run_const cost_PUSH v stack ctx"
| "interpret_one ext (I_Lambda lam) stack ctx = run_const cost_LAMBDA (V_Lambda (C_Lambda lam)) stack ctx"
| "interpret_one ext I_Exec stack ctx =
     bind (i_consume cost_EXEC) (\<lambda>_.
     pop stack (\<lambda>arg stack. pop_as as_Lambda stack (\<lambda>closure stack.
     bind (run_exec ext closure arg) (\<lambda>res. push stack res)))) ctx"
| "interpret_one ext (I_CreateContract cs micheline) stack ctx = run_CreateContract ext cs micheline stack ctx"
| "interpret_one ext (I_Seq nested) stack ctx = interpret_seq ext nested stack ctx"
| "run_loop ext nested stack ctx =
     bind (i_consume cost_LOOP) (\<lambda>_.
     pop_as as_Bool stack (\<lambda>b stack.
       if b then bind (interpret_seq ext nested stack) (\<lambda>stack. run_loop ext nested stack)
       else bind (i_consume cost_LOOP_EXIT) (\<lambda>_. return stack))) ctx"
| "run_loop_left ext nested stack ctx =
     bind (i_consume cost_LOOP) (\<lambda>_.
     pop_as as_Or stack (\<lambda>u stack.
       case u of
         Inl x \<Rightarrow> bind (interpret_seq ext nested (x # stack)) (\<lambda>stack. run_loop_left ext nested stack)
       | Inr x \<Rightarrow> bind (i_consume cost_LOOP_EXIT) (\<lambda>_. push stack x))) ctx"
| "run_iter ext nested [] stack ctx = return stack ctx"
| "run_iter ext nested (v # vs) stack ctx =
     bind (i_consume cost_PUSH) (\<lambda>_.
     bind (interpret_seq ext nested (v # stack)) (\<lambda>stack. run_iter ext nested vs stack)) ctx"
| "run_map_list ext nested [] stack ctx = return ([], stack) ctx"
| "run_map_list ext nested (elem # elems) stack ctx =
     bind (i_consume cost_PUSH) (\<lambda>_.
     bind (interpret_seq ext nested (elem # stack)) (\<lambda>stack. pop stack (\<lambda>v stack.
     bind (run_map_list ext nested elems stack) (\<lambda>(vs, stack). return (v # vs, stack))))) ctx"
| "run_map_map ext nested [] stack ctx = return ([], stack) ctx"
| "run_map_map ext nested ((key, val) # entries) stack ctx =
     bind (i_consume cost_PUSH) (\<lambda>_.
     bind (interpret_seq ext nested (V_Pair key val # stack)) (\<lambda>stack. pop stack (\<lambda>v stack.
     bind (run_map_map ext nested entries stack) (\<lambda>(m, stack). return ((key, v) # m, stack))))) ctx"
| "run_exec ext (C_Lambda (L_Lambda mich code)) arg ctx =
     bind (interpret_seq ext code [arg]) (\<lambda>stk. pop stk (\<lambda>res _. return res)) ctx"
| "run_exec ext (C_Lambda (L_LambdaRec in_ty out_ty mich code)) arg ctx =
     bind (interpret_seq ext code [arg, V_Lambda (C_Lambda (L_LambdaRec in_ty out_ty mich code))])
       (\<lambda>stk. pop stk (\<lambda>res _. return res)) ctx"
| "run_exec ext (C_Apply arg_ty arg_val inner) arg ctx =
     bind (i_consume cost_PAIR) (\<lambda>_. run_exec ext inner (V_Pair arg_val arg)) ctx"
  by pat_completeness auto

section \<open>Termination\<close>

lemma framed_eq: "m ctx = m' ctx \<Longrightarrow> framed m' ctx \<Longrightarrow> framed m ctx"
  by (simp add: framed_def)

abbreviation interpret_dom where
  "interpret_dom \<equiv> interpret_seq_interpret_one_run_loop_run_loop_left_run_iter_run_map_list_run_map_map_run_exec_dom"

lemma framed_interpret_dom:
  "interpret_dom (Inl (Inl (Inl (ext, is, stack, ctx)))) \<Longrightarrow> framed (interpret_seq ext is stack) ctx"
  "interpret_dom (Inl (Inl (Inr (ext, i, stack, ctx)))) \<Longrightarrow> framed (interpret_one ext i stack) ctx"
  "interpret_dom (Inl (Inr (Inl (ext, nested, stack, ctx)))) \<Longrightarrow> framed (run_loop ext nested stack) ctx"
  "interpret_dom (Inl (Inr (Inr (ext, nested, stack, ctx)))) \<Longrightarrow> framed (run_loop_left ext nested stack) ctx"
  "interpret_dom (Inr (Inl (Inl (ext, nested, vs, stack, ctx)))) \<Longrightarrow> framed (run_iter ext nested vs stack) ctx"
  "interpret_dom (Inr (Inl (Inr (ext, nested, vs, stack, ctx)))) \<Longrightarrow> framed (run_map_list ext nested vs stack) ctx"
  "interpret_dom (Inr (Inr (Inl (ext, nested, m, stack, ctx)))) \<Longrightarrow> framed (run_map_map ext nested m stack) ctx"
  "interpret_dom (Inr (Inr (Inr (ext, cl, arg, ctx)))) \<Longrightarrow> framed (run_exec ext cl arg) ctx"
proof (induction rule:
    interpret_seq_interpret_one_run_loop_run_loop_left_run_iter_run_map_list_run_map_map_run_exec.pinduct)
qed ((rule framed_eq, (rule interpret_seq.psimps interpret_one.psimps run_loop.psimps run_loop_left.psimps
    run_iter.psimps run_map_list.psimps run_map_map.psimps run_exec.psimps, assumption)); (intro framed_intros)?; metis)+

definition gas_amount :: "Ctx \<Rightarrow> nat" where
  "gas_amount ctx = (case ctx_gas ctx of None \<Rightarrow> 0 | Some n \<Rightarrow> n)"

lemma frame_gas_amount: "frame ctx ctx' \<Longrightarrow> gas_amount ctx' \<le> gas_amount ctx"
  by (auto simp: frame_def gas_amount_def gas_le_def split: option.splits)

lemma consume_gas_amount: "i_consume cost ctx = (Ok u, ctx') \<Longrightarrow> gas_amount ctx' + cost = gas_amount ctx"
  by (auto simp: consume_eq_Ok gas_amount_def)

lemmas framed_gas = consume_gas_amount framed_as [THEN framedD, THEN frame_gas_amount]
  framed_basic(7) [THEN framedD, THEN frame_gas_amount] framed_interpret_dom [THEN framedD, THEN frame_gas_amount]

lemma interpret_total: "All interpret_dom"
  by (relation "inv_image (less_than <*lex*> less_than)
      (case_sum
        (case_sum
          (case_sum (\<lambda>(_, is, _, ctx). (gas_amount ctx, size_list size is)) (\<lambda>(_, i, _, ctx). (gas_amount ctx, size i)))
          (case_sum (\<lambda>(_, _, _, ctx). (gas_amount ctx, 0)) (\<lambda>(_, _, _, ctx). (gas_amount ctx, 0))))
        (case_sum
          (case_sum (\<lambda>(_, _, _, _, ctx). (gas_amount ctx, 0)) (\<lambda>(_, _, _, _, ctx). (gas_amount ctx, 0)))
          (case_sum (\<lambda>(_, _, _, _, ctx). (gas_amount ctx, 0)) (\<lambda>(_, cl, _, ctx). (gas_amount ctx, size cl)))))")
    (auto dest!: framed_gas)

termination interpret_seq
  by (rule interpret_total)

lemmas interpret_simps = interpret_seq.simps interpret_one.simps run_loop.simps run_loop_left.simps run_iter.simps
  run_map_list.simps run_map_map.simps run_exec.simps

lemmas interpret_unfold = interpret_simps [abs_def]

declare interpret_simps [simp del]

lemma framed_interpret [framed_intros]:
  "framed (interpret_seq ext is stack) ctx" "framed (interpret_one ext i stack) ctx"
  using interpret_total by (auto intro: framed_interpret_dom)

section \<open>Contracts\<close>

datatype (plugins only:) ContractInterpretError = C_TcError TcError | C_InterpretError InterpretError

text \<open>
  \<open>ContractScript::interpret\<close>.  The operations are returned as a list; the source returns an iterator
  that takes them out of their values when it is run.
\<close>

definition as_result :: "TypedValue \<Rightarrow> ((Operation \<times> u128) list \<times> TypedValue) run" where
  "as_result v =
     bind (as_Pair v) (\<lambda>(operations, stor).
     bind (as_List operations) (\<lambda>vec.
     bind (collect_as as_Operation vec) (\<lambda>ops. return (ops, stor))))"

fun contract_interpret ::
  "Ext \<Rightarrow> ContractScript \<Rightarrow> Micheline \<Rightarrow> Micheline
     \<Rightarrow> (ContractInterpretError, (Operation \<times> u128) list \<times> TypedValue) comp" where
  "contract_interpret ext (ContractScript parameter_ty storage_ty code) parameter stor =
     bind (map_err_comp C_TcError (typecheck_value ext parameter parameter_ty)) (\<lambda>parameter.
     bind (map_err_comp C_TcError (typecheck_value ext stor storage_ty)) (\<lambda>stor.
     bind (map_err_comp C_InterpretError (interpret_one ext code [V_Pair parameter stor])) (\<lambda>stack.
       case stack of
         [] \<Rightarrow> panic UnwrapFailed
       | v # _ \<Rightarrow> map_err_comp C_InterpretError (as_result v))))"

end
