(* ===== verification/MIR_Typing.thy ===== *)
theory MIR_Typing
  imports MIR_Interpreter
begin

text \<open>
  Types of values, instructions and code: the specification that the type checker establishes and
  the interpreter relies on.  A stack type is a list with its top first; code that always fails has
  the failed stack as its result.
\<close>

section \<open>Instructions without code\<close>

fun arith_sig :: "ArithInstruction \<Rightarrow> (TypeStack \<times> TypeStack) option" where
  "arith_sig (I_Add overload) = Some
     (case overload of
        Add_IntInt \<Rightarrow> ([T_Int, T_Int], [T_Int])
      | Add_NatNat \<Rightarrow> ([T_Nat, T_Nat], [T_Nat])
      | Add_IntNat \<Rightarrow> ([T_Int, T_Nat], [T_Int])
      | Add_NatInt \<Rightarrow> ([T_Nat, T_Int], [T_Int])
      | Add_MumavMumav \<Rightarrow> ([T_Mumav, T_Mumav], [T_Mumav])
      | Add_Bls12381Fr \<Rightarrow> ([T_Bls12381Fr, T_Bls12381Fr], [T_Bls12381Fr])
      | Add_Bls12381G1 \<Rightarrow> ([T_Bls12381G1, T_Bls12381G1], [T_Bls12381G1])
      | Add_Bls12381G2 \<Rightarrow> ([T_Bls12381G2, T_Bls12381G2], [T_Bls12381G2])
      | Add_IntTimestamp \<Rightarrow> ([T_Int, T_Timestamp], [T_Timestamp])
      | Add_TimestampInt \<Rightarrow> ([T_Timestamp, T_Int], [T_Timestamp]))"
| "arith_sig (I_Sub overload) = Some
     (case overload of
        Sub_IntInt \<Rightarrow> ([T_Int, T_Int], [T_Int])
      | Sub_NatNat \<Rightarrow> ([T_Nat, T_Nat], [T_Int])
      | Sub_IntNat \<Rightarrow> ([T_Int, T_Nat], [T_Int])
      | Sub_NatInt \<Rightarrow> ([T_Nat, T_Int], [T_Int])
      | Sub_TimestampInt \<Rightarrow> ([T_Timestamp, T_Int], [T_Timestamp])
      | Sub_TimestampTimestamp \<Rightarrow> ([T_Timestamp, T_Timestamp], [T_Int]))"
| "arith_sig (I_Mul overload) = Some
     (case overload of
        Mul_NatNat \<Rightarrow> ([T_Nat, T_Nat], [T_Nat])
      | Mul_NatInt \<Rightarrow> ([T_Nat, T_Int], [T_Int])
      | Mul_IntNat \<Rightarrow> ([T_Int, T_Nat], [T_Int])
      | Mul_IntInt \<Rightarrow> ([T_Int, T_Int], [T_Int])
      | Mul_MumavNat \<Rightarrow> ([T_Mumav, T_Nat], [T_Mumav])
      | Mul_NatMumav \<Rightarrow> ([T_Nat, T_Mumav], [T_Mumav])
      | Mul_Bls12381G1Bls12381Fr \<Rightarrow> ([T_Bls12381G1, T_Bls12381Fr], [T_Bls12381G1])
      | Mul_Bls12381G2Bls12381Fr \<Rightarrow> ([T_Bls12381G2, T_Bls12381Fr], [T_Bls12381G2])
      | Mul_Bls12381FrBls12381Fr \<Rightarrow> ([T_Bls12381Fr, T_Bls12381Fr], [T_Bls12381Fr])
      | Mul_NatBls12381Fr \<Rightarrow> ([T_Nat, T_Bls12381Fr], [T_Bls12381Fr])
      | Mul_IntBls12381Fr \<Rightarrow> ([T_Int, T_Bls12381Fr], [T_Bls12381Fr])
      | Mul_Bls12381FrNat \<Rightarrow> ([T_Bls12381Fr, T_Nat], [T_Bls12381Fr])
      | Mul_Bls12381FrInt \<Rightarrow> ([T_Bls12381Fr, T_Int], [T_Bls12381Fr]))"
| "arith_sig (I_EDiv overload) = Some
     (case overload of
        EDiv_NatNat \<Rightarrow> ([T_Nat, T_Nat], [T_Option (T_Pair T_Nat T_Nat)])
      | EDiv_NatInt \<Rightarrow> ([T_Nat, T_Int], [T_Option (T_Pair T_Int T_Nat)])
      | EDiv_IntNat \<Rightarrow> ([T_Int, T_Nat], [T_Option (T_Pair T_Int T_Nat)])
      | EDiv_IntInt \<Rightarrow> ([T_Int, T_Int], [T_Option (T_Pair T_Int T_Nat)])
      | EDiv_MumavNat \<Rightarrow> ([T_Mumav, T_Nat], [T_Option (T_Pair T_Mumav T_Mumav)])
      | EDiv_MumavMumav \<Rightarrow> ([T_Mumav, T_Mumav], [T_Option (T_Pair T_Nat T_Mumav)]))"
| "arith_sig (I_Neg overload) = Some
     (case overload of
        Neg_Nat \<Rightarrow> ([T_Nat], [T_Int])
      | Neg_Int \<Rightarrow> ([T_Int], [T_Int])
      | Neg_Bls12381G1 \<Rightarrow> ([T_Bls12381G1], [T_Bls12381G1])
      | Neg_Bls12381G2 \<Rightarrow> ([T_Bls12381G2], [T_Bls12381G2])
      | Neg_Bls12381Fr \<Rightarrow> ([T_Bls12381Fr], [T_Bls12381Fr]))"
| "arith_sig (I_Lsl overload) = Some
     (case overload of Lsl_Nat \<Rightarrow> ([T_Nat, T_Nat], [T_Nat]) | Lsl_Bytes \<Rightarrow> ([T_Bytes, T_Nat], [T_Bytes]))"
| "arith_sig (I_Lsr overload) = Some
     (case overload of Lsr_Nat \<Rightarrow> ([T_Nat, T_Nat], [T_Nat]) | Lsr_Bytes \<Rightarrow> ([T_Bytes, T_Nat], [T_Bytes]))"
| "arith_sig I_SubMumav = Some ([T_Mumav, T_Mumav], [T_Option T_Mumav])"
| "arith_sig (I_And overload) = Some
     (case overload of
        And_Bool \<Rightarrow> ([T_Bool, T_Bool], [T_Bool])
      | And_NatNat \<Rightarrow> ([T_Nat, T_Nat], [T_Nat])
      | And_IntNat \<Rightarrow> ([T_Int, T_Nat], [T_Nat])
      | And_Bytes \<Rightarrow> ([T_Bytes, T_Bytes], [T_Bytes]))"
| "arith_sig (I_Or overload) = Some
     (case overload of
        Or_Bool \<Rightarrow> ([T_Bool, T_Bool], [T_Bool])
      | Or_Nat \<Rightarrow> ([T_Nat, T_Nat], [T_Nat])
      | Or_Bytes \<Rightarrow> ([T_Bytes, T_Bytes], [T_Bytes]))"
| "arith_sig (I_Xor overload) = Some
     (case overload of
        Xor_Bool \<Rightarrow> ([T_Bool, T_Bool], [T_Bool])
      | Xor_Nat \<Rightarrow> ([T_Nat, T_Nat], [T_Nat])
      | Xor_Bytes \<Rightarrow> ([T_Bytes, T_Bytes], [T_Bytes]))"
| "arith_sig (I_Not overload) = Some
     (case overload of
        Not_Bool \<Rightarrow> ([T_Bool], [T_Bool])
      | Not_Int \<Rightarrow> ([T_Int], [T_Int])
      | Not_Nat \<Rightarrow> ([T_Nat], [T_Int])
      | Not_Bytes \<Rightarrow> ([T_Bytes], [T_Bytes]))"
| "arith_sig I_Gt = Some ([T_Int], [T_Bool])"
| "arith_sig I_Ge = Some ([T_Int], [T_Bool])"
| "arith_sig I_Eq = Some ([T_Int], [T_Bool])"
| "arith_sig I_Neq = Some ([T_Int], [T_Bool])"
| "arith_sig I_Lt = Some ([T_Int], [T_Bool])"
| "arith_sig I_Le = Some ([T_Int], [T_Bool])"
| "arith_sig I_Abs = Some ([T_Int], [T_Nat])"
| "arith_sig I_IsNat = Some ([T_Int], [T_Option T_Nat])"
| "arith_sig (I_Int overload) = Some
     (case overload of
        Int_Nat \<Rightarrow> ([T_Nat], [T_Int])
      | Int_Bls12381Fr \<Rightarrow> ([T_Bls12381Fr], [T_Int])
      | Int_Bytes \<Rightarrow> ([T_Bytes], [T_Int]))"
| "arith_sig I_Nat = Some ([T_Bytes], [T_Nat])"
| "arith_sig (I_Bytes overload) = Some
     (case overload of Bytes_Nat \<Rightarrow> ([T_Nat], [T_Bytes]) | Bytes_Int \<Rightarrow> ([T_Int], [T_Bytes]))"
| "arith_sig I_Compare = None"

inductive arith_ty :: "ArithInstruction \<Rightarrow> TypeStack \<Rightarrow> FailingTypeStack \<Rightarrow> bool" where
  arith_ty_sig: "arith_sig i = Some (ins, outs) \<Longrightarrow> arith_ty i (ins @ s) (Stk (outs @ s))"
| arith_ty_compare: "has_prop Comparable t \<Longrightarrow> arith_ty I_Compare (t # t # s) (Stk (T_Int # s))"

fun unpair_types :: "nat \<Rightarrow> Type \<Rightarrow> TypeStack option" where
  "unpair_types 0 t = Some [t]"
| "unpair_types (Suc n) t = (case t of T_Pair l r \<Rightarrow> map_option ((#) l) (unpair_types n r) | _ \<Rightarrow> None)"

inductive data_ty :: "DataInstruction \<Rightarrow> TypeStack \<Rightarrow> FailingTypeStack \<Rightarrow> bool" where
  "unwrap_or_1 h \<le> length s \<Longrightarrow> data_ty (I_Drop h) s (Stk (drop (unwrap_or_1 h) s))"
| "0 < unwrap_or_1 h \<Longrightarrow> unwrap_or_1 h \<le> length s \<Longrightarrow> data_ty (I_Dup h) s (Stk (s ! (unwrap_or_1 h - 1) # s))"
| "data_ty (I_Dig 0) s (Stk s)"
| "0 < n \<Longrightarrow> n < length s \<Longrightarrow> data_ty (I_Dig n) s (Stk (s ! n # take n s @ drop (Suc n) s))"
| "data_ty (I_Dug 0) s (Stk s)"
| "0 < n \<Longrightarrow> n \<le> length s \<Longrightarrow> data_ty (I_Dug n) (t # s) (Stk (take n s @ t # drop n s))"
| "data_ty I_Swap (a # b # s) (Stk (b # a # s))"
| "data_ty (I_Failwith t) (t # s) Failed"
| "data_ty I_Never (T_Never # s) Failed"
| "data_ty I_Unit s (Stk (T_Unit # s))"
| "data_ty I_Car (T_Pair a b # s) (Stk (a # s))"
| "data_ty I_Cdr (T_Pair a b # s) (Stk (b # s))"
| "data_ty I_Pair (a # b # s) (Stk (T_Pair a b # s))"
| "n \<le> length s \<Longrightarrow> reduce_pairs T_Pair (rev (take n s)) = Some t \<Longrightarrow> data_ty (I_PairN n) s (Stk (t # drop n s))"
| "data_ty I_Unpair (T_Pair a b # s) (Stk (a # b # s))"
| "0 < n \<Longrightarrow> n < 65536 \<Longrightarrow> unpair_types (n - 1) t = Some ts \<Longrightarrow> data_ty (I_UnpairN n) (t # s) (Stk (ts @ s))"
| "data_ty I_ISome (t # s) (Stk (T_Option t # s))"
| "data_ty I_None s (Stk (T_Option t # s))"
| "data_ty I_Left (a # s) (Stk (T_Or a b # s))"
| "data_ty I_Right (b # s) (Stk (T_Or a b # s))"
| "data_ty I_Nil s (Stk (T_List t # s))"
| "data_ty I_Cons (t # T_List t # s) (Stk (T_List t # s))"
| "has_prop Comparable k \<Longrightarrow> data_ty I_EmptySet s (Stk (T_Set k # s))"
| "has_prop Comparable k \<Longrightarrow> data_ty (I_EmptyBigMap k v) s (Stk (T_BigMap k v # s))"
| "data_ty (I_Mem Mem_Set) (k # T_Set k # s) (Stk (T_Bool # s))"
| "data_ty (I_Mem Mem_Map) (k # T_Map k v # s) (Stk (T_Bool # s))"
| "data_ty (I_Mem Mem_BigMap) (k # T_BigMap k v # s) (Stk (T_Bool # s))"
| "data_ty (I_Get Get_Map) (k # T_Map k v # s) (Stk (T_Option v # s))"
| "data_ty (I_Get Get_BigMap) (k # T_BigMap k v # s) (Stk (T_Option v # s))"
| "get_nth_field n t = Some r \<Longrightarrow> data_ty (I_GetN n) (t # s) (Stk (r # s))"
| "data_ty (I_Update Update_Set) (k # T_Bool # T_Set k # s) (Stk (T_Set k # s))"
| "data_ty (I_Update Update_Map) (k # T_Option v # T_Map k v # s) (Stk (T_Map k v # s))"
| "data_ty (I_Update Update_BigMap) (k # T_Option v # T_BigMap k v # s) (Stk (T_BigMap k v # s))"
| "set_nth_field n x t = Some r \<Longrightarrow> data_ty (I_UpdateN n) (x # t # s) (Stk (r # s))"
| "data_ty (I_GetAndUpdate GetAndUpdate_Map) (k # T_Option v # T_Map k v # s) (Stk (T_Option v # T_Map k v # s))"
| "data_ty (I_GetAndUpdate GetAndUpdate_BigMap) (k # T_Option v # T_BigMap k v # s)
     (Stk (T_Option v # T_BigMap k v # s))"
| "data_ty (I_Concat Concat_TwoStrings) (T_String # T_String # s) (Stk (T_String # s))"
| "data_ty (I_Concat Concat_TwoBytes) (T_Bytes # T_Bytes # s) (Stk (T_Bytes # s))"
| "data_ty (I_Concat Concat_ListOfStrings) (T_List T_String # s) (Stk (T_String # s))"
| "data_ty (I_Concat Concat_ListOfBytes) (T_List T_Bytes # s) (Stk (T_Bytes # s))"
| "data_ty (I_Size Size_String) (T_String # s) (Stk (T_Nat # s))"
| "data_ty (I_Size Size_Bytes) (T_Bytes # s) (Stk (T_Nat # s))"
| "data_ty (I_Size Size_List) (T_List t # s) (Stk (T_Nat # s))"
| "data_ty (I_Size Size_Set) (T_Set t # s) (Stk (T_Nat # s))"
| "data_ty (I_Size Size_Map) (T_Map k v # s) (Stk (T_Nat # s))"
| "data_ty I_Pack (t # s) (Stk (T_Bytes # s))"
| "type_ok t \<Longrightarrow> data_ty (I_Unpack t) (T_Bytes # s) (Stk (T_Option t # s))"
| "data_ty (I_Slice Slice_String) (T_Nat # T_Nat # T_String # s) (Stk (T_Option T_String # s))"
| "data_ty (I_Slice Slice_Bytes) (T_Nat # T_Nat # T_Bytes # s) (Stk (T_Option T_Bytes # s))"
| "data_ty (I_Apply l) (l # T_Lambda (T_Pair l r) b # s) (Stk (T_Lambda r b # s))"

inductive chain_ty :: "ChainInstruction \<Rightarrow> TypeStack \<Rightarrow> FailingTypeStack \<Rightarrow> bool" where
  "chain_ty I_Amount s (Stk (T_Mumav # s))"
| "chain_ty I_ChainId s (Stk (T_ChainId # s))"
| "chain_ty (I_ISelf e) s (Stk (T_Contract t # s))"
| "chain_ty I_CheckSignature (T_Key # T_Signature # T_Bytes # s) (Stk (T_Bool # s))"
| "chain_ty I_TransferTokens (t # T_Mumav # T_Contract t # s) (Stk (T_Operation # s))"
| "chain_ty I_SetDelegate (T_Option T_KeyHash # s) (Stk (T_Operation # s))"
| "chain_ty I_Address (T_Contract t # s) (Stk (T_Address # s))"
| "chain_ty I_HashKey (T_Key # s) (Stk (T_KeyHash # s))"
| "chain_ty I_Ticket (t # T_Nat # s) (Stk (T_Option (T_Ticket t) # s))"
| "chain_ty I_ReadTicket (T_Ticket t # s) (Stk (T_Pair T_Address (T_Pair t T_Nat) # T_Ticket t # s))"
| "chain_ty I_SplitTicket (T_Ticket t # T_Pair T_Nat T_Nat # s)
     (Stk (T_Option (T_Pair (T_Ticket t) (T_Ticket t)) # s))"
| "chain_ty I_JoinTickets (T_Pair (T_Ticket t) (T_Ticket t) # s) (Stk (T_Option (T_Ticket t) # s))"
| "i \<in> {I_Blake2b, I_Keccak, I_Sha256, I_Sha3, I_Sha512} \<Longrightarrow> chain_ty i (T_Bytes # s) (Stk (T_Bytes # s))"
| "chain_ty I_Balance s (Stk (T_Mumav # s))"
| "chain_ty (I_Contract t e) (T_Address # s) (Stk (T_Option (T_Contract t) # s))"
| "i \<in> {I_Level, I_MinBlockTime, I_TotalVotingPower} \<Longrightarrow> chain_ty i s (Stk (T_Nat # s))"
| "i \<in> {I_SelfAddress, I_Sender, I_Source} \<Longrightarrow> chain_ty i s (Stk (T_Address # s))"
| "chain_ty I_Now s (Stk (T_Timestamp # s))"
| "chain_ty I_ImplicitAccount (T_KeyHash # s) (Stk (T_Contract T_Unit # s))"
| "chain_ty I_VotingPower (T_KeyHash # s) (Stk (T_Nat # s))"
| "chain_ty (I_Emit tag ty) (t # s) (Stk (T_Operation # s))"
| "chain_ty I_PairingCheck (T_List (T_Pair T_Bls12381G1 T_Bls12381G2) # s) (Stk (T_Bool # s))"

section \<open>Values and code\<close>

text \<open>
  The types of stored big maps are given by \<open>S\<close>.  Amounts of tokens are not negative and fit into
  \<open>i64\<close>; the keys of sets and maps are comparable and in ascending order.
\<close>

type_synonym storage_types = "int \<rightharpoonup> Type \<times> Type"

definition fs_le :: "FailingTypeStack \<Rightarrow> FailingTypeStack \<Rightarrow> bool" where
  "fs_le a b \<longleftrightarrow> a = Failed \<or> a = b"

lemma fs_le_simps [simp]: "fs_le Failed fs" "fs_le fs fs" "fs_le (Stk s) fs \<longleftrightarrow> fs = Stk s"
  by (auto simp: fs_le_def)

definition mumav_ok :: "int \<Rightarrow> bool" where
  "mumav_ok n \<longleftrightarrow> 0 \<le> n \<and> n < 2 ^ 63"

inductive value_ty :: "storage_types \<Rightarrow> TypedValue \<Rightarrow> Type \<Rightarrow> bool"
  and closure_ty :: "storage_types \<Rightarrow> Closure \<Rightarrow> Type \<Rightarrow> Type \<Rightarrow> bool"
  and operation_ty :: "storage_types \<Rightarrow> Operation \<Rightarrow> bool"
  and script_ty :: "storage_types \<Rightarrow> ContractScript \<Rightarrow> Type \<Rightarrow> Type \<Rightarrow> bool"
  and instr_ty :: "storage_types \<Rightarrow> Instruction \<Rightarrow> TypeStack \<Rightarrow> FailingTypeStack \<Rightarrow> bool"
  and seq_ty :: "storage_types \<Rightarrow> Instruction list \<Rightarrow> TypeStack \<Rightarrow> FailingTypeStack \<Rightarrow> bool"
  for S :: storage_types where
  vt_Int: "value_ty S (V_Int i) T_Int"
| vt_Nat: "value_ty S (V_Nat n) T_Nat"
| vt_Mumav: "mumav_ok m \<Longrightarrow> value_ty S (V_Mumav m) T_Mumav"
| vt_Bool: "value_ty S (V_Bool b) T_Bool"
| vt_String: "value_ty S (V_String s) T_String"
| vt_Unit: "value_ty S V_Unit T_Unit"
| vt_Pair: "value_ty S v a \<Longrightarrow> value_ty S w b \<Longrightarrow> value_ty S (V_Pair v w) (T_Pair a b)"
| vt_None: "value_ty S (V_Option None) (T_Option t)"
| vt_Some: "value_ty S v t \<Longrightarrow> value_ty S (V_Option (Some v)) (T_Option t)"
| vt_List: "(\<And>v. v \<in> set vs \<Longrightarrow> value_ty S v t) \<Longrightarrow> value_ty S (V_List vs) (T_List t)"
| vt_Set:
    "has_prop Comparable k \<Longrightarrow> ascending partial_cmp ks \<Longrightarrow> (\<And>v. v \<in> set ks \<Longrightarrow> value_ty S v k) \<Longrightarrow>
      value_ty S (V_Set ks) (T_Set k)"
| vt_Map:
    "has_prop Comparable k \<Longrightarrow> ascending partial_cmp (map fst m) \<Longrightarrow>
      (\<And>x y. (x, y) \<in> set m \<Longrightarrow> value_ty S x k) \<Longrightarrow> (\<And>x y. (x, y) \<in> set m \<Longrightarrow> value_ty S y v) \<Longrightarrow>
      value_ty S (V_Map m) (T_Map k v)"
| vt_BigMap:
    "has_prop Comparable k \<Longrightarrow> ascending partial_cmp (map fst m) \<Longrightarrow>
      (\<And>x y. (x, y) \<in> set m \<Longrightarrow> value_ty S x k) \<Longrightarrow> (\<And>x y. (x, Some y) \<in> set m \<Longrightarrow> value_ty S y v) \<Longrightarrow>
      (\<And>n. i = Some n \<Longrightarrow> S n = Some (k, v)) \<Longrightarrow> value_ty S (V_BigMap i m k v) (T_BigMap k v)"
| vt_Left: "value_ty S v a \<Longrightarrow> value_ty S (V_Or (Inl v)) (T_Or a b)"
| vt_Right: "value_ty S v b \<Longrightarrow> value_ty S (V_Or (Inr v)) (T_Or a b)"
| vt_Address: "value_ty S (V_Address x) T_Address"
| vt_ChainId: "value_ty S (V_ChainId c) T_ChainId"
| vt_Contract: "value_ty S (V_Contract x) (T_Contract t)"
| vt_Bytes: "value_ty S (V_Bytes bs) T_Bytes"
| vt_Key: "value_ty S (V_Key key) T_Key"
| vt_Signature: "value_ty S (V_Signature sig) T_Signature"
| vt_Lambda: "closure_ty S cl a b \<Longrightarrow> value_ty S (V_Lambda cl) (T_Lambda a b)"
| vt_KeyHash: "value_ty S (V_KeyHash kh) T_KeyHash"
| vt_Operation: "operation_ty S op \<Longrightarrow> value_ty S (V_Operation op n) T_Operation"
| vt_Ticket: "value_ty S v t \<Longrightarrow> value_ty S (V_Ticket h v n) (T_Ticket t)"
| vt_Timestamp: "value_ty S (V_Timestamp i) T_Timestamp"
| vt_Fr: "value_ty S (V_Bls12381Fr bs) T_Bls12381Fr"
| vt_G1: "value_ty S (V_Bls12381G1 bs) T_Bls12381G1"
| vt_G2: "value_ty S (V_Bls12381G2 bs) T_Bls12381G2"
| ct_Lambda: "seq_ty S code [a] fs \<Longrightarrow> fs_le fs (Stk [b]) \<Longrightarrow> closure_ty S (C_Lambda (L_Lambda mich code)) a b"
| ct_LambdaRec:
    "seq_ty S code [a, T_Lambda a b] fs \<Longrightarrow> fs_le fs (Stk [b]) \<Longrightarrow>
      closure_ty S (C_Lambda (L_LambdaRec a b mich code)) a b"
| ct_Apply: "value_ty S v a \<Longrightarrow> closure_ty S cl (T_Pair a b) c \<Longrightarrow> closure_ty S (C_Apply a v cl) b c"
| ot_Transfer: "value_ty S v t \<Longrightarrow> mumav_ok m \<Longrightarrow> operation_ty S (TransferTokens v x m)"
| ot_Delegate: "operation_ty S (SetDelegate d)"
| ot_Emit: "value_ty S v t \<Longrightarrow> operation_ty S (Emit tag v ty)"
| ot_Create:
    "script_ty S cs p st \<Longrightarrow> value_ty S v st \<Longrightarrow> mumav_ok m \<Longrightarrow> operation_ty S (CreateContract d m v cs mich)"
| st_Script:
    "instr_ty S code [T_Pair p st] fs \<Longrightarrow> fs_le fs (Stk [T_Pair (T_List T_Operation) st]) \<Longrightarrow>
      type_ok p \<Longrightarrow> type_ok st \<Longrightarrow> script_ty S (ContractScript p st code) p st"
| it_Arith: "arith_ty ai s fs \<Longrightarrow> instr_ty S (I_Arith ai) s fs"
| it_Data: "data_ty di s fs \<Longrightarrow> instr_ty S (I_Data di) s fs"
| it_Chain: "chain_ty ci s fs \<Longrightarrow> instr_ty S (I_Chain ci) s fs"
| it_Dip:
    "unwrap_or_1 h \<le> length s \<Longrightarrow> seq_ty S code (drop (unwrap_or_1 h) s) (Stk s') \<Longrightarrow>
      instr_ty S (I_Dip h code) s (Stk (take (unwrap_or_1 h) s @ s'))"
| it_If:
    "seq_ty S c1 s fs1 \<Longrightarrow> fs_le fs1 fs \<Longrightarrow> seq_ty S c2 s fs2 \<Longrightarrow> fs_le fs2 fs \<Longrightarrow>
      instr_ty S (I_If c1 c2) (T_Bool # s) fs"
| it_IfNone:
    "seq_ty S c1 s fs1 \<Longrightarrow> fs_le fs1 fs \<Longrightarrow> seq_ty S c2 (t # s) fs2 \<Longrightarrow> fs_le fs2 fs \<Longrightarrow>
      instr_ty S (I_IfNone c1 c2) (T_Option t # s) fs"
| it_IfCons:
    "seq_ty S c1 (t # T_List t # s) fs1 \<Longrightarrow> fs_le fs1 fs \<Longrightarrow> seq_ty S c2 s fs2 \<Longrightarrow> fs_le fs2 fs \<Longrightarrow>
      instr_ty S (I_IfCons c1 c2) (T_List t # s) fs"
| it_IfLeft:
    "seq_ty S c1 (a # s) fs1 \<Longrightarrow> fs_le fs1 fs \<Longrightarrow> seq_ty S c2 (b # s) fs2 \<Longrightarrow> fs_le fs2 fs \<Longrightarrow>
      instr_ty S (I_IfLeft c1 c2) (T_Or a b # s) fs"
| it_Loop:
    "seq_ty S code s fs \<Longrightarrow> fs_le fs (Stk (T_Bool # s)) \<Longrightarrow> instr_ty S (I_Loop code) (T_Bool # s) (Stk s)"
| it_LoopLeft:
    "seq_ty S code (a # s) fs \<Longrightarrow> fs_le fs (Stk (T_Or a b # s)) \<Longrightarrow>
      instr_ty S (I_LoopLeft code) (T_Or a b # s) (Stk (b # s))"
| it_IterList:
    "seq_ty S code (t # s) fs \<Longrightarrow> fs_le fs (Stk s) \<Longrightarrow> instr_ty S (I_Iter Iter_List code) (T_List t # s) (Stk s)"
| it_IterSet:
    "seq_ty S code (t # s) fs \<Longrightarrow> fs_le fs (Stk s) \<Longrightarrow> instr_ty S (I_Iter Iter_Set code) (T_Set t # s) (Stk s)"
| it_IterMap:
    "seq_ty S code (T_Pair k v # s) fs \<Longrightarrow> fs_le fs (Stk s) \<Longrightarrow>
      instr_ty S (I_Iter Iter_Map code) (T_Map k v # s) (Stk s)"
| it_MapList:
    "seq_ty S code (t # s) (Stk (t' # s)) \<Longrightarrow>
      instr_ty S (I_Map Map_List code) (T_List t # s) (Stk (T_List t' # s))"
| it_MapOption:
    "seq_ty S code (t # s) (Stk (t' # s)) \<Longrightarrow>
      instr_ty S (I_Map Map_Option code) (T_Option t # s) (Stk (T_Option t' # s))"
| it_MapMap:
    "seq_ty S code (T_Pair k t # s) (Stk (t' # s)) \<Longrightarrow>
      instr_ty S (I_Map Map_Map code) (T_Map k t # s) (Stk (T_Map k t' # s))"
| it_Push: "value_ty S v t \<Longrightarrow> instr_ty S (I_Push v) s (Stk (t # s))"
| it_Lambda: "closure_ty S (C_Lambda lam) a b \<Longrightarrow> instr_ty S (I_Lambda lam) s (Stk (T_Lambda a b # s))"
| it_Exec: "instr_ty S I_Exec (a # T_Lambda a b # s) (Stk (b # s))"
| it_CreateContract:
    "script_ty S cs p st \<Longrightarrow>
      instr_ty S (I_CreateContract cs mich) (T_Option T_KeyHash # T_Mumav # st # s) (Stk (T_Operation # T_Address # s))"
| it_Seq: "seq_ty S code s fs \<Longrightarrow> instr_ty S (I_Seq code) s fs"
| sq_Nil: "seq_ty S [] s (Stk s)"
| sq_Cons: "instr_ty S i s (Stk s') \<Longrightarrow> seq_ty S code s' fs \<Longrightarrow> seq_ty S (i # code) s fs"
| sq_Fail: "instr_ty S i s Failed \<Longrightarrow> seq_ty S [i] s Failed"

inductive_simps value_ty_simps [simp]:
  "value_ty S v T_Int" "value_ty S v T_Nat" "value_ty S v T_Mumav" "value_ty S v T_Bool"
  "value_ty S v T_String" "value_ty S v T_Unit" "value_ty S v T_Never" "value_ty S v (T_Pair a b)"
  "value_ty S v (T_Option a)" "value_ty S v (T_List a)" "value_ty S v (T_Set a)" "value_ty S v (T_Map a b)"
  "value_ty S v (T_BigMap a b)" "value_ty S v (T_Or a b)" "value_ty S v T_Address" "value_ty S v T_ChainId"
  "value_ty S v (T_Contract a)" "value_ty S v T_Bytes" "value_ty S v T_Key" "value_ty S v T_Signature"
  "value_ty S v (T_Lambda a b)" "value_ty S v T_KeyHash" "value_ty S v T_Operation" "value_ty S v (T_Ticket a)"
  "value_ty S v T_Timestamp" "value_ty S v T_Bls12381Fr" "value_ty S v T_Bls12381G1" "value_ty S v T_Bls12381G2"

inductive_simps script_ty_simps: "script_ty S (ContractScript p st code) p' st'"

end
