(* ===== verification/MIR_TcSound.thy ===== *)
theory MIR_TcSound
  imports MIR_Typing
begin

text \<open>
  What the type checker accepts is well typed: the checks of \<open>src/contrib/mir/src/typechecker.rs\<close>
  against the typing relations.  The storage of big maps gives the types of the identifiers.
\<close>

section \<open>Values of comparable types\<close>

definition storage_types :: "InMemoryLazyStorage \<Rightarrow> storage_types" where
  "storage_types s i = (case mem_big_map_get_type s i of Ok r \<Rightarrow> r | _ \<Rightarrow> None)"

lemma comparable_typed: "has_prop Comparable t \<Longrightarrow> value_ty S v t \<Longrightarrow> comparable_value t v"
  by (induction t arbitrary: v) auto

section \<open>Panics of the conversions\<close>

lemma unwrap_panic: "unwrap x = Panic p \<Longrightarrow> p = UnwrapFailed"
  by (auto simp: unwrap_def split: option.splits)

lemma fr_from_big_int_panic: "fr_from_big_int ext i = Panic p \<Longrightarrow> p \<in> {SliceBounds, UnwrapFailed}"
  by (auto simp: fr_from_big_int_def Let_def dest: unwrap_panic split: if_splits)

lemma repr_panic:
  "keyhash_from_base58_check ext s = Panic p \<Longrightarrow> p = CharBoundary"
  "addresshash_from_base58_check ext s = Panic p \<Longrightarrow> p = CharBoundary"
  "address_from_base58_check ext s = Panic p \<Longrightarrow> p = CharBoundary"
  "key_from_base58_check ext s = Panic p \<Longrightarrow> p = CharBoundary"
  "signature_from_base58_check ext s = Panic p \<Longrightarrow> p = SliceBounds"
proof -
  show k: "p = CharBoundary" if "keyhash_from_base58_check ext s = Panic p" for s
    using that by (auto simp: keyhash_from_base58_check_def keyhash_check_size_def bind_outcome_Panic
        map_outcome_Panic dest: str_prefix_cases(2) split: if_splits)
  show a: "p = CharBoundary" if "addresshash_from_base58_check ext s = Panic p" for s
    using that by (auto simp: addresshash_from_base58_check_def address_check_size_def bind_outcome_Panic
        map_outcome_Panic dest: str_prefix_cases(2) k split: if_splits)
  show "p = CharBoundary" if "address_from_base58_check ext s = Panic p"
    using that by (auto simp: address_from_base58_check_def Let_def bind_outcome_Panic dest: a)
  show "p = CharBoundary" if "key_from_base58_check ext s = Panic p"
    using that by (auto simp: key_from_base58_check_def key_check_size_def bind_outcome_Panic
        map_outcome_Panic dest: str_prefix_cases(2) split: if_splits)
  show "p = SliceBounds" if "signature_from_base58_check ext s = Panic p"
    using that by (auto simp: signature_from_base58_check_def sig_from_b58check_def bls_from_b58check_def Let_def
        bind_outcome_Panic map_outcome_Panic split: if_splits)
qed

lemma repr_bytes_no_panic [simp]:
  "address_from_bytes ext bs \<noteq> Panic p" "key_from_bytes ext bs \<noteq> Panic p"
  "signature_from_bytes ext bs \<noteq> Panic p" "chain_id_from_bytes ext bs \<noteq> Panic p"
  "chain_id_from_base58_check ext s \<noteq> Panic p"
  by (auto simp: address_from_bytes_def address_check_size_def key_from_bytes_def key_check_size_def
      signature_from_bytes_def sig_try_from_bytes_def chain_id_from_bytes_def chain_id_from_base58_check_def
      bind_outcome_Panic map_outcome_Panic split: if_splits)

section \<open>Instructions without code\<close>

lemma list_all_rows: "list_all P xs \<Longrightarrow> x \<in> set xs \<Longrightarrow> P x"
  by (auto simp: list_all_iff)

lemma data_ty_dup:
  "0 < unwrap_or_1 h \<Longrightarrow> unwrap_or_1 h \<le> length s \<Longrightarrow> t = s ! (unwrap_or_1 h - 1) \<Longrightarrow> data_ty (I_Dup h) s (Stk (t # s))"
  using data_ty.intros(2) [of h s] by simp

definition row_typed :: "TypeStack \<Rightarrow> Instruction \<Rightarrow> TypeStack \<Rightarrow> bool" where
  "row_typed ins i outs \<longleftrightarrow> (\<forall>S s. instr_ty S i (ins @ s) (Stk (outs @ s)))"

lemma row_typedI:
  "arith_sig ai = Some (ins, outs) \<Longrightarrow> row_typed ins (I_Arith ai) outs"
  "(\<And>s. data_ty di (ins @ s) (Stk (outs @ s))) \<Longrightarrow> row_typed ins (I_Data di) outs"
  "(\<And>s. chain_ty ci (ins @ s) (Stk (outs @ s))) \<Longrightarrow> row_typed ins (I_Chain ci) outs"
  by (auto simp: row_typed_def intro: it_Arith arith_ty_sig it_Data it_Chain)

lemma overload_tables_typed:
  "list_all (\<lambda>(prim, n, rows). list_all (\<lambda>(ins, i, outs). length ins = n \<and> row_typed ins i outs) rows) overload_tables"
  unfolding overload_tables_def
    ADD_rows_def MUL_rows_def EDIV_rows_def NEG_rows_def SUB_rows_def SUB_MUMAV_rows_def AND_rows_def
    OR_rows_def XOR_rows_def LSL_rows_def LSR_rows_def NOT_rows_def GT_rows_def GE_rows_def EQ_rows_def
    NEQ_rows_def LE_rows_def LT_rows_def INT_rows_def NAT_rows_def BYTES_rows_def ABS_rows_def
    ISNAT_rows_def UNIT_rows_def AMOUNT_rows_def CHAIN_ID_rows_def SET_DELEGATE_rows_def
    CHECK_SIGNATURE_rows_def SLICE_rows_def HASH_KEY_rows_def BLAKE2B_rows_def KECCAK_rows_def
    SHA256_rows_def SHA3_rows_def SHA512_rows_def BALANCE_rows_def LEVEL_rows_def MIN_BLOCK_TIME_rows_def
    SELF_ADDRESS_rows_def SENDER_rows_def SOURCE_rows_def NOW_rows_def IMPLICIT_ACCOUNT_rows_def
    TOTAL_VOTING_POWER_rows_def VOTING_POWER_rows_def PAIRING_CHECK_rows_def
  by (simp, intro conjI; rule row_typedI; auto intro: data_ty.intros chain_ty.intros)

text \<open>\<open>delivers I P m R\<close>: under the invariant \<open>I\<close>, the check \<open>m\<close> returns only what satisfies \<open>R\<close>.\<close>

definition delivers :: "(Ctx \<Rightarrow> bool) \<Rightarrow> PanicReason set \<Rightarrow> 'a tc \<Rightarrow> ('a \<Rightarrow> bool) \<Rightarrow> bool" where
  "delivers I P m R \<longleftrightarrow> (\<forall>ctx. I ctx \<longrightarrow> wp P (\<lambda>_ _. True) m (\<lambda>x ctx'. I ctx' \<and> R x) ctx)"

lemma deliversI:
  "(\<And>ctx. I ctx \<Longrightarrow> wp P (\<lambda>_ _. True) m (\<lambda>x ctx'. I ctx' \<and> R x) ctx) \<Longrightarrow> delivers I P m R"
  by (simp add: delivers_def)

lemma deliversD:
  "delivers I P m R \<Longrightarrow> I ctx \<Longrightarrow> (\<And>x ctx'. I ctx' \<Longrightarrow> R x \<Longrightarrow> Q x ctx') \<Longrightarrow> wp P (\<lambda>_ _. True) m Q ctx"
  unfolding delivers_def using wp_mono [of P "\<lambda>_ _. True" m "\<lambda>x ctx'. I ctx' \<and> R x" ctx Q "\<lambda>_ _. True" P] by blast

lemma id_get_no_panic [simp]: "btree_get id_cmp i m \<noteq> Panic p"
  by (induction m) (auto simp: id_cmp_def split: Ordering.splits)

lemma script_elements_no_panic [simp]: "script_elements_of m \<noteq> Panic p"
proof -
  have "collect_elements elts ms \<noteq> Panic p" for elts ms
    by (induction elts ms rule: collect_elements.induct) (auto simp: set_if_none_def bind_outcome_Panic)
  then show ?thesis by (cases m rule: script_elements_of.cases) auto
qed

text \<open>What the checker has to establish for a Micheline expression, as code, as a value and as a script.\<close>

definition checks :: "(Ctx \<Rightarrow> bool) \<Rightarrow> PanicReason set \<Rightarrow> storage_types \<Rightarrow> Ext \<Rightarrow> Micheline \<Rightarrow> bool" where
  "checks I P S ext m \<longleftrightarrow>
     (\<forall>eps s. delivers I P (typecheck_instruction ext m eps (Stk s)) (\<lambda>(i, fs). instr_ty S i s fs)) \<and>
     (\<forall>t. type_ok t \<longrightarrow> delivers I P (typecheck_value ext m t) (\<lambda>v. value_ty S v t)) \<and>
     delivers I P (typecheck_script ext m) (\<lambda>cs. \<exists>p st. script_ty S cs p st)"

lemma checksD:
  assumes "checks I P S ext m"
  shows "delivers I P (typecheck_instruction ext m eps (Stk s)) (\<lambda>(i, fs). instr_ty S i s fs)"
    "type_ok t \<Longrightarrow> delivers I P (typecheck_value ext m t) (\<lambda>v. value_ty S v t)"
    "delivers I P (typecheck_script ext m) (\<lambda>cs. \<exists>p st. script_ty S cs p st)"
  using assms by (auto simp: checks_def)

locale tc_sound = tc_run +
  assumes tc_panics: "{StackBounds, CharBoundary, SliceBounds, UnwrapFailed} \<subseteq> P"
begin

lemma wp_unify:
  assumes "I ctx"
    "\<And>fs ctx'. I ctx' \<Longrightarrow> fs_le s fs \<Longrightarrow> fs_le t fs \<Longrightarrow> fs = s \<or> fs = t \<Longrightarrow> Q fs ctx'"
  shows "wp P (\<lambda>_ _. True) (unify_stacks s t) Q ctx"
  using assms by (auto simp: fs_le_def intro!: wp_unify_stacks)

lemma wp_opt_u10:
  assumes "I ctx" "\<And>h ctx'. I ctx' \<Longrightarrow> args = [] \<and> h = None \<or> (\<exists>n. args = [Mich_Int (int n)] \<and> h = Some n) \<Longrightarrow> Q h ctx'"
  shows "wp P (\<lambda>_ _. True) (opt_u10 args) Q ctx"
  using assms by (cases args rule: opt_u10.cases) (auto intro!: wp_validate_u10)

lemma wp_lift_ok_or: "(\<And>y. x = Some y \<Longrightarrow> Q y ctx) \<Longrightarrow> wp P (\<lambda>_ _. True) (lift (ok_or x e)) Q ctx"
  by (cases x) simp_all

lemma wp_entrypoint_of_anns:
  assumes "I ctx" "\<And>ep ctx'. I ctx' \<Longrightarrow> Q ep ctx'"
  shows "wp P (\<lambda>_ _. True) (entrypoint_of_anns anns) Q ctx"
  using assms
  by (auto simp: entrypoint_of_anns_def lift_ep_def entrypoint_try_from_ann_def wp_lift map_err_outcome_Panic map_outcome_Panic
      intro!: wp_lift_ann split: option.split)

lemma wp_emit_tag:
  assumes "I ctx" "\<And>ep ctx'. I ctx' \<Longrightarrow> Q ep ctx'"
  shows "wp P (\<lambda>_ _. True) (emit_tag anns) Q ctx"
  using assms
  by (auto simp: emit_tag_def lift_ep_def wp_lift map_err_outcome_Panic intro!: wp_lift_ann split: option.split)

lemmas wp_tc = wp_checks wp_unify wp_opt_u10 wp_lift_ok_or wp_entrypoint_of_anns wp_emit_tag

lemmas wp_tc_instr = wp_consume wp_charge wp_access_mut wp_ensure_ty_eq wp_ensure_stacks_eq wp_unify
  wp_ensure_stack_len wp_validate_u10 wp_ensure_prop wp_parse_ty wp_opt_u10 wp_lift_ok_or wp_entrypoint_of_anns wp_emit_tag

lemma wp_SWAP:
  assumes "I ctx" "\<And>i fs ctx'. I ctx' \<Longrightarrow> instr_ty S i stack fs \<Longrightarrow> Q (i, fs) ctx'"
  shows "wp P (\<lambda>_ _. True) (tc_SWAP args anns eps stack) Q ctx"
  using assms(1)
  by (cases "(args, anns, eps, stack)" rule: tc_SWAP.cases)
    (auto simp: Let_def intro!: wp_tc_instr assms(2) it_Data it_Chain it_Arith it_Exec data_ty.intros chain_ty.intros
      arith_ty.intros(2) split: Type.split)

lemma wp_FAILWITH:
  assumes "I ctx" "\<And>i fs ctx'. I ctx' \<Longrightarrow> instr_ty S i stack fs \<Longrightarrow> Q (i, fs) ctx'"
  shows "wp P (\<lambda>_ _. True) (tc_FAILWITH args anns eps stack) Q ctx"
  using assms(1)
  by (cases "(args, anns, eps, stack)" rule: tc_FAILWITH.cases)
    (auto simp: Let_def intro!: wp_tc_instr assms(2) it_Data it_Chain it_Arith it_Exec data_ty.intros chain_ty.intros
      arith_ty.intros(2) split: Type.split)

lemma wp_NEVER:
  assumes "I ctx" "\<And>i fs ctx'. I ctx' \<Longrightarrow> instr_ty S i stack fs \<Longrightarrow> Q (i, fs) ctx'"
  shows "wp P (\<lambda>_ _. True) (tc_NEVER args anns eps stack) Q ctx"
  using assms(1)
  by (cases "(args, anns, eps, stack)" rule: tc_NEVER.cases)
    (auto simp: Let_def intro!: wp_tc_instr assms(2) it_Data it_Chain it_Arith it_Exec data_ty.intros chain_ty.intros
      arith_ty.intros(2) split: Type.split)

lemma wp_CAR:
  assumes "I ctx" "\<And>i fs ctx'. I ctx' \<Longrightarrow> instr_ty S i stack fs \<Longrightarrow> Q (i, fs) ctx'"
  shows "wp P (\<lambda>_ _. True) (tc_CAR args anns eps stack) Q ctx"
  using assms(1)
  by (cases "(args, anns, eps, stack)" rule: tc_CAR.cases)
    (auto simp: Let_def intro!: wp_tc_instr assms(2) it_Data it_Chain it_Arith it_Exec data_ty.intros chain_ty.intros
      arith_ty.intros(2) split: Type.split)

lemma wp_CDR:
  assumes "I ctx" "\<And>i fs ctx'. I ctx' \<Longrightarrow> instr_ty S i stack fs \<Longrightarrow> Q (i, fs) ctx'"
  shows "wp P (\<lambda>_ _. True) (tc_CDR args anns eps stack) Q ctx"
  using assms(1)
  by (cases "(args, anns, eps, stack)" rule: tc_CDR.cases)
    (auto simp: Let_def intro!: wp_tc_instr assms(2) it_Data it_Chain it_Arith it_Exec data_ty.intros chain_ty.intros
      arith_ty.intros(2) split: Type.split)

lemma wp_SOME:
  assumes "I ctx" "\<And>i fs ctx'. I ctx' \<Longrightarrow> instr_ty S i stack fs \<Longrightarrow> Q (i, fs) ctx'"
  shows "wp P (\<lambda>_ _. True) (tc_SOME args anns eps stack) Q ctx"
  using assms(1)
  by (cases "(args, anns, eps, stack)" rule: tc_SOME.cases)
    (auto simp: Let_def intro!: wp_tc_instr assms(2) it_Data it_Chain it_Arith it_Exec data_ty.intros chain_ty.intros
      arith_ty.intros(2) split: Type.split)

lemma wp_NONE:
  assumes "I ctx" "\<And>i fs ctx'. I ctx' \<Longrightarrow> instr_ty S i stack fs \<Longrightarrow> Q (i, fs) ctx'"
  shows "wp P (\<lambda>_ _. True) (tc_NONE args anns eps stack) Q ctx"
  using assms(1)
  by (cases "(args, anns, eps, stack)" rule: tc_NONE.cases)
    (auto simp: Let_def intro!: wp_tc_instr assms(2) it_Data it_Chain it_Arith it_Exec data_ty.intros chain_ty.intros
      arith_ty.intros(2) split: Type.split)

lemma wp_COMPARE:
  assumes "I ctx" "\<And>i fs ctx'. I ctx' \<Longrightarrow> instr_ty S i stack fs \<Longrightarrow> Q (i, fs) ctx'"
  shows "wp P (\<lambda>_ _. True) (tc_COMPARE args anns eps stack) Q ctx"
  using assms(1)
  by (cases "(args, anns, eps, stack)" rule: tc_COMPARE.cases)
    (auto simp: Let_def intro!: wp_tc_instr assms(2) it_Data it_Chain it_Arith it_Exec data_ty.intros chain_ty.intros
      arith_ty.intros(2) split: Type.split)

lemma wp_NIL:
  assumes "I ctx" "\<And>i fs ctx'. I ctx' \<Longrightarrow> instr_ty S i stack fs \<Longrightarrow> Q (i, fs) ctx'"
  shows "wp P (\<lambda>_ _. True) (tc_NIL args anns eps stack) Q ctx"
  using assms(1)
  by (cases "(args, anns, eps, stack)" rule: tc_NIL.cases)
    (auto simp: Let_def intro!: wp_tc_instr assms(2) it_Data it_Chain it_Arith it_Exec data_ty.intros chain_ty.intros
      arith_ty.intros(2) split: Type.split)

lemma wp_CONS:
  assumes "I ctx" "\<And>i fs ctx'. I ctx' \<Longrightarrow> instr_ty S i stack fs \<Longrightarrow> Q (i, fs) ctx'"
  shows "wp P (\<lambda>_ _. True) (tc_CONS args anns eps stack) Q ctx"
  using assms(1)
  by (cases "(args, anns, eps, stack)" rule: tc_CONS.cases)
    (auto simp: Let_def intro!: wp_tc_instr assms(2) it_Data it_Chain it_Arith it_Exec data_ty.intros chain_ty.intros
      arith_ty.intros(2) split: Type.split)

lemma wp_CONCAT:
  assumes "I ctx" "\<And>i fs ctx'. I ctx' \<Longrightarrow> instr_ty S i stack fs \<Longrightarrow> Q (i, fs) ctx'"
  shows "wp P (\<lambda>_ _. True) (tc_CONCAT args anns eps stack) Q ctx"
  using assms(1)
  by (cases "(args, anns, eps, stack)" rule: tc_CONCAT.cases)
    (auto simp: neq_Nil_conv intro!: assms(2) it_Data data_ty.intros split: Type.split)

lemma wp_EMPTY_SET:
  assumes "I ctx" "\<And>i fs ctx'. I ctx' \<Longrightarrow> instr_ty S i stack fs \<Longrightarrow> Q (i, fs) ctx'"
  shows "wp P (\<lambda>_ _. True) (tc_EMPTY_SET args anns eps stack) Q ctx"
  using assms(1)
  by (cases "(args, anns, eps, stack)" rule: tc_EMPTY_SET.cases)
    (auto simp: Let_def intro!: wp_tc_instr assms(2) it_Data it_Chain it_Arith it_Exec data_ty.intros chain_ty.intros
      arith_ty.intros(2) split: Type.split)

lemma wp_EMPTY_BIG_MAP:
  assumes "I ctx" "\<And>i fs ctx'. I ctx' \<Longrightarrow> instr_ty S i stack fs \<Longrightarrow> Q (i, fs) ctx'"
  shows "wp P (\<lambda>_ _. True) (tc_EMPTY_BIG_MAP args anns eps stack) Q ctx"
  using assms(1)
  by (cases "(args, anns, eps, stack)" rule: tc_EMPTY_BIG_MAP.cases)
    (auto simp: Let_def intro!: wp_tc_instr assms(2) it_Data it_Chain it_Arith it_Exec data_ty.intros chain_ty.intros
      arith_ty.intros(2) split: Type.split)

lemma wp_MEM:
  assumes "I ctx" "\<And>i fs ctx'. I ctx' \<Longrightarrow> instr_ty S i stack fs \<Longrightarrow> Q (i, fs) ctx'"
  shows "wp P (\<lambda>_ _. True) (tc_MEM args anns eps stack) Q ctx"
  using assms(1)
  by (cases "(args, anns, eps, stack)" rule: tc_MEM.cases)
    (auto simp: Let_def intro!: wp_tc_instr assms(2) it_Data it_Chain it_Arith it_Exec data_ty.intros chain_ty.intros
      arith_ty.intros(2) split: Type.split)

lemma wp_GET_AND_UPDATE:
  assumes "I ctx" "\<And>i fs ctx'. I ctx' \<Longrightarrow> instr_ty S i stack fs \<Longrightarrow> Q (i, fs) ctx'"
  shows "wp P (\<lambda>_ _. True) (tc_GET_AND_UPDATE args anns eps stack) Q ctx"
  using assms(1)
  by (cases "(args, anns, eps, stack)" rule: tc_GET_AND_UPDATE.cases)
    (auto simp: Let_def intro!: wp_tc_instr assms(2) it_Data it_Chain it_Arith it_Exec data_ty.intros chain_ty.intros
      arith_ty.intros(2) split: Type.split)

lemma wp_SIZE:
  assumes "I ctx" "\<And>i fs ctx'. I ctx' \<Longrightarrow> instr_ty S i stack fs \<Longrightarrow> Q (i, fs) ctx'"
  shows "wp P (\<lambda>_ _. True) (tc_SIZE args anns eps stack) Q ctx"
  using assms(1)
  by (cases "(args, anns, eps, stack)" rule: tc_SIZE.cases)
    (auto simp: Let_def intro!: wp_tc_instr assms(2) it_Data it_Chain it_Arith it_Exec data_ty.intros chain_ty.intros
      arith_ty.intros(2) split: Type.split)

lemma wp_SELF:
  assumes "I ctx" "\<And>i fs ctx'. I ctx' \<Longrightarrow> instr_ty S i stack fs \<Longrightarrow> Q (i, fs) ctx'"
  shows "wp P (\<lambda>_ _. True) (tc_SELF args anns eps stack) Q ctx"
  using assms(1)
  by (cases "(args, anns, eps, stack)" rule: tc_SELF.cases)
    (auto simp: Let_def intro!: wp_tc_instr assms(2) it_Data it_Chain it_Arith it_Exec data_ty.intros chain_ty.intros
      arith_ty.intros(2) split: Type.split)

lemma wp_ADDRESS:
  assumes "I ctx" "\<And>i fs ctx'. I ctx' \<Longrightarrow> instr_ty S i stack fs \<Longrightarrow> Q (i, fs) ctx'"
  shows "wp P (\<lambda>_ _. True) (tc_ADDRESS args anns eps stack) Q ctx"
  using assms(1)
  by (cases "(args, anns, eps, stack)" rule: tc_ADDRESS.cases)
    (auto simp: Let_def intro!: wp_tc_instr assms(2) it_Data it_Chain it_Arith it_Exec data_ty.intros chain_ty.intros
      arith_ty.intros(2) split: Type.split)

lemma wp_PACK:
  assumes "I ctx" "\<And>i fs ctx'. I ctx' \<Longrightarrow> instr_ty S i stack fs \<Longrightarrow> Q (i, fs) ctx'"
  shows "wp P (\<lambda>_ _. True) (tc_PACK args anns eps stack) Q ctx"
  using assms(1)
  by (cases "(args, anns, eps, stack)" rule: tc_PACK.cases)
    (auto simp: Let_def intro!: wp_tc_instr assms(2) it_Data it_Chain it_Arith it_Exec data_ty.intros chain_ty.intros
      arith_ty.intros(2) split: Type.split)

lemma wp_UNPACK:
  assumes "I ctx" "\<And>i fs ctx'. I ctx' \<Longrightarrow> instr_ty S i stack fs \<Longrightarrow> Q (i, fs) ctx'"
  shows "wp P (\<lambda>_ _. True) (tc_UNPACK args anns eps stack) Q ctx"
  using assms(1)
  by (cases "(args, anns, eps, stack)" rule: tc_UNPACK.cases)
    (auto simp: Let_def intro!: wp_tc_instr assms(2) it_Data it_Chain it_Arith it_Exec data_ty.intros chain_ty.intros
      arith_ty.intros(2) split: Type.split)

lemma wp_TRANSFER_TOKENS:
  assumes "I ctx" "\<And>i fs ctx'. I ctx' \<Longrightarrow> instr_ty S i stack fs \<Longrightarrow> Q (i, fs) ctx'"
  shows "wp P (\<lambda>_ _. True) (tc_TRANSFER_TOKENS args anns eps stack) Q ctx"
  using assms(1)
  by (cases "(args, anns, eps, stack)" rule: tc_TRANSFER_TOKENS.cases)
    (auto simp: Let_def intro!: wp_tc_instr assms(2) it_Data it_Chain it_Arith it_Exec data_ty.intros chain_ty.intros
      arith_ty.intros(2) split: Type.split)

lemma wp_LEFT:
  assumes "I ctx" "\<And>i fs ctx'. I ctx' \<Longrightarrow> instr_ty S i stack fs \<Longrightarrow> Q (i, fs) ctx'"
  shows "wp P (\<lambda>_ _. True) (tc_LEFT args anns eps stack) Q ctx"
  using assms(1)
  by (cases "(args, anns, eps, stack)" rule: tc_LEFT.cases)
    (auto simp: Let_def intro!: wp_tc_instr assms(2) it_Data it_Chain it_Arith it_Exec data_ty.intros chain_ty.intros
      arith_ty.intros(2) split: Type.split)

lemma wp_RIGHT:
  assumes "I ctx" "\<And>i fs ctx'. I ctx' \<Longrightarrow> instr_ty S i stack fs \<Longrightarrow> Q (i, fs) ctx'"
  shows "wp P (\<lambda>_ _. True) (tc_RIGHT args anns eps stack) Q ctx"
  using assms(1)
  by (cases "(args, anns, eps, stack)" rule: tc_RIGHT.cases)
    (auto simp: Let_def intro!: wp_tc_instr assms(2) it_Data it_Chain it_Arith it_Exec data_ty.intros chain_ty.intros
      arith_ty.intros(2) split: Type.split)

lemma wp_EXEC:
  assumes "I ctx" "\<And>i fs ctx'. I ctx' \<Longrightarrow> instr_ty S i stack fs \<Longrightarrow> Q (i, fs) ctx'"
  shows "wp P (\<lambda>_ _. True) (tc_EXEC args anns eps stack) Q ctx"
  using assms(1)
  by (cases "(args, anns, eps, stack)" rule: tc_EXEC.cases)
    (auto simp: Let_def intro!: wp_tc_instr assms(2) it_Data it_Chain it_Arith it_Exec data_ty.intros chain_ty.intros
      arith_ty.intros(2) split: Type.split)

lemma wp_APPLY:
  assumes "I ctx" "\<And>i fs ctx'. I ctx' \<Longrightarrow> instr_ty S i stack fs \<Longrightarrow> Q (i, fs) ctx'"
  shows "wp P (\<lambda>_ _. True) (tc_APPLY args anns eps stack) Q ctx"
  using assms(1)
  by (cases "(args, anns, eps, stack)" rule: tc_APPLY.cases)
    (auto simp: Let_def intro!: wp_tc_instr assms(2) it_Data it_Chain it_Arith it_Exec data_ty.intros chain_ty.intros
      arith_ty.intros(2) split: Type.split)

lemma wp_TICKET:
  assumes "I ctx" "\<And>i fs ctx'. I ctx' \<Longrightarrow> instr_ty S i stack fs \<Longrightarrow> Q (i, fs) ctx'"
  shows "wp P (\<lambda>_ _. True) (tc_TICKET args anns eps stack) Q ctx"
  using assms(1)
  by (cases "(args, anns, eps, stack)" rule: tc_TICKET.cases)
    (auto simp: Let_def intro!: wp_tc_instr assms(2) it_Data it_Chain it_Arith it_Exec data_ty.intros chain_ty.intros
      arith_ty.intros(2) split: Type.split)

lemma wp_READ_TICKET:
  assumes "I ctx" "\<And>i fs ctx'. I ctx' \<Longrightarrow> instr_ty S i stack fs \<Longrightarrow> Q (i, fs) ctx'"
  shows "wp P (\<lambda>_ _. True) (tc_READ_TICKET args anns eps stack) Q ctx"
  using assms(1)
  by (cases "(args, anns, eps, stack)" rule: tc_READ_TICKET.cases)
    (auto simp: Let_def intro!: wp_tc_instr assms(2) it_Data it_Chain it_Arith it_Exec data_ty.intros chain_ty.intros
      arith_ty.intros(2) split: Type.split)

lemma wp_SPLIT_TICKET:
  assumes "I ctx" "\<And>i fs ctx'. I ctx' \<Longrightarrow> instr_ty S i stack fs \<Longrightarrow> Q (i, fs) ctx'"
  shows "wp P (\<lambda>_ _. True) (tc_SPLIT_TICKET args anns eps stack) Q ctx"
  using assms(1)
  by (cases "(args, anns, eps, stack)" rule: tc_SPLIT_TICKET.cases)
    (auto simp: Let_def intro!: wp_tc_instr assms(2) it_Data it_Chain it_Arith it_Exec data_ty.intros chain_ty.intros
      arith_ty.intros(2) split: Type.split)

lemma wp_JOIN_TICKETS:
  assumes "I ctx" "\<And>i fs ctx'. I ctx' \<Longrightarrow> instr_ty S i stack fs \<Longrightarrow> Q (i, fs) ctx'"
  shows "wp P (\<lambda>_ _. True) (tc_JOIN_TICKETS args anns eps stack) Q ctx"
  using assms(1)
  by (cases "(args, anns, eps, stack)" rule: tc_JOIN_TICKETS.cases)
    (auto simp: Let_def intro!: wp_tc_instr assms(2) it_Data it_Chain it_Arith it_Exec data_ty.intros chain_ty.intros
      arith_ty.intros(2) split: Type.split)

lemma wp_CONTRACT:
  assumes "I ctx" "\<And>i fs ctx'. I ctx' \<Longrightarrow> instr_ty S i stack fs \<Longrightarrow> Q (i, fs) ctx'"
  shows "wp P (\<lambda>_ _. True) (tc_CONTRACT args anns eps stack) Q ctx"
  using assms(1)
  by (cases "(args, anns, eps, stack)" rule: tc_CONTRACT.cases)
    (auto simp: Let_def intro!: wp_tc_instr assms(2) it_Data it_Chain it_Arith it_Exec data_ty.intros chain_ty.intros
      arith_ty.intros(2) split: Type.split)

lemma wp_EMIT:
  assumes "I ctx" "\<And>i fs ctx'. I ctx' \<Longrightarrow> instr_ty S i stack fs \<Longrightarrow> Q (i, fs) ctx'"
  shows "wp P (\<lambda>_ _. True) (tc_EMIT args anns eps stack) Q ctx"
  using assms(1)
  by (cases "(args, anns, eps, stack)" rule: tc_EMIT.cases)
    (auto simp: Let_def intro!: wp_tc_instr assms(2) it_Data it_Chain it_Arith it_Exec data_ty.intros chain_ty.intros
      arith_ty.intros(2) split: Type.split)

lemma wp_stk_at: "i < length s \<Longrightarrow> Q (s ! i) ctx \<Longrightarrow> wp P E (lift (stk_at s i)) Q ctx"
  by (simp add: stk_at_def)

lemma wp_DROP:
  assumes "I ctx" "\<And>i fs ctx'. I ctx' \<Longrightarrow> instr_ty S i stack fs \<Longrightarrow> Q (i, fs) ctx'"
  shows "wp P (\<lambda>_ _. True) (tc_DROP args anns eps stack) Q ctx"
  using assms(1)
  by (auto simp: tc_DROP_def stk_split_def intro!: wp_tc_instr assms(2) it_Data data_ty.intros)

lemma wp_DUP:
  assumes "I ctx" "\<And>i fs ctx'. I ctx' \<Longrightarrow> instr_ty S i stack fs \<Longrightarrow> Q (i, fs) ctx'"
  shows "wp P (\<lambda>_ _. True) (tc_DUP args anns eps stack) Q ctx"
  using assms(1)
  by (auto simp: tc_DUP_def unwrap_or_1_def intro!: wp_tc_instr wp_stk_at assms(2) it_Data data_ty_dup)

lemma wp_DIG:
  assumes "I ctx" "\<And>i fs ctx'. I ctx' \<Longrightarrow> instr_ty S i stack fs \<Longrightarrow> Q (i, fs) ctx'"
  shows "wp P (\<lambda>_ _. True) (tc_DIG args anns eps stack) Q ctx"
  using assms(1) tc_panics
  by (cases "(args, anns, eps, stack)" rule: tc_DIG.cases)
    (auto simp: stk_remove_def intro!: wp_tc_instr assms(2) it_Data data_ty.intros(3,4))

lemma wp_DUG:
  assumes "I ctx" "\<And>i fs ctx'. I ctx' \<Longrightarrow> instr_ty S i stack fs \<Longrightarrow> Q (i, fs) ctx'"
  shows "wp P (\<lambda>_ _. True) (tc_DUG args anns eps stack) Q ctx"
  using assms(1) tc_panics
  by (cases "(args, anns, eps, stack)" rule: tc_DUG.cases; cases stack)
    (auto simp: stk_insert_def intro!: wp_tc_instr assms(2) it_Data data_ty.intros(5,6))

lemma wp_PAIR:
  assumes "I ctx" "\<And>i fs ctx'. I ctx' \<Longrightarrow> instr_ty S i stack fs \<Longrightarrow> Q (i, fs) ctx'"
  shows "wp P (\<lambda>_ _. True) (tc_PAIR args anns eps stack) Q ctx"
  using assms(1) tc_panics
  by (cases "(args, anns, eps, stack)" rule: tc_PAIR.cases)
    (auto simp: stk_split_def unwrap_def intro!: wp_tc_instr assms(2) it_Data data_ty.intros split: option.split)

lemma wp_unpair_fill:
  assumes "I ctx" "\<And>ts ctx'. I ctx' \<Longrightarrow> unpair_types n t = Some ts \<Longrightarrow> Q (ts @ stack) ctx'"
  shows "wp P (\<lambda>_ _. True) (unpair_fill n stack t) Q ctx"
  using assms
proof (induction n stack t arbitrary: ctx Q rule: unpair_fill.induct)
  case (1 stack p)
  then show ?case using 1(2) [of ctx "[p]"] by simp
next
  case (2 n stack l r)
  have "Q (l # ts @ stack) ctx'" if "I ctx'" "unpair_types n r = Some ts" for ts ctx'
    using 2(3) [of ctx' "l # ts"] that by simp
  then show ?case using 2(1,2) by simp
qed simp_all

lemma wp_UNPAIR:
  assumes "I ctx" "\<And>i fs ctx'. I ctx' \<Longrightarrow> instr_ty S i stack fs \<Longrightarrow> Q (i, fs) ctx'"
  shows "wp P (\<lambda>_ _. True) (tc_UNPAIR args anns eps stack) Q ctx"
  using assms(1)
  by (cases "(args, anns, eps, stack)" rule: tc_UNPAIR.cases)
    (auto simp: tc_unpair_n_def intro!: wp_tc_instr wp_unpair_fill assms(2) it_Data data_ty.intros split: Type.split)

lemma wp_GET:
  assumes "I ctx" "\<And>i fs ctx'. I ctx' \<Longrightarrow> instr_ty S i stack fs \<Longrightarrow> Q (i, fs) ctx'"
  shows "wp P (\<lambda>_ _. True) (tc_GET args anns eps stack) Q ctx"
  using assms(1)
  by (cases "(args, anns, eps, stack)" rule: tc_GET.cases; cases stack rule: tc_get_by_key.cases)
    (auto simp: tc_get_n_def intro!: wp_tc_instr assms(2) it_Data data_ty.intros split: Type.split option.split)

lemma wp_UPDATE:
  assumes "I ctx" "\<And>i fs ctx'. I ctx' \<Longrightarrow> instr_ty S i stack fs \<Longrightarrow> Q (i, fs) ctx'"
  shows "wp P (\<lambda>_ _. True) (tc_UPDATE args anns eps stack) Q ctx"
  using assms(1)
  by (cases "(args, anns, eps, stack)" rule: tc_UPDATE.cases; cases stack rule: tc_update_by_key.cases)
    (auto intro!: wp_tc_instr assms(2) it_Data data_ty.intros split: Type.split option.split)

lemmas wp_shapes =
  wp_DROP wp_DUP wp_DIG wp_DUG wp_SWAP wp_FAILWITH wp_NEVER wp_CAR wp_CDR wp_PAIR wp_UNPAIR wp_SOME
  wp_NONE wp_COMPARE wp_NIL wp_CONS wp_CONCAT wp_EMPTY_SET wp_EMPTY_BIG_MAP wp_MEM wp_GET wp_UPDATE
  wp_GET_AND_UPDATE wp_SIZE wp_SELF wp_ADDRESS wp_PACK wp_UNPACK wp_TRANSFER_TOKENS wp_LEFT wp_RIGHT
  wp_EXEC wp_APPLY wp_TICKET wp_READ_TICKET wp_SPLIT_TICKET wp_JOIN_TICKETS wp_CONTRACT wp_EMIT

lemma wp_shape_checkers:
  assumes "I ctx" "\<And>i fs ctx'. I ctx' \<Longrightarrow> instr_ty S i stack fs \<Longrightarrow> Q (i, fs) ctx'"
  shows "list_all (\<lambda>(_, checker). wp P (\<lambda>_ _. True) (checker args anns eps stack) Q ctx) shape_checkers"
  by (simp add: shape_checkers_def wp_shapes [OF assms(1), of S stack Q] assms(2))

lemma wp_tc_simple:
  assumes "I ctx" "\<And>i fs ctx'. I ctx' \<Longrightarrow> instr_ty S i stack fs \<Longrightarrow> Q (i, fs) ctx'"
  shows "wp P (\<lambda>_ _. True) (tc_simple prim args anns eps stack) Q ctx"
proof -
  have shape: "wp P (\<lambda>_ _. True) (checker args anns eps stack) Q ctx" if "map_of shape_checkers prim = Some checker" for checker
    using list_all_rows [OF wp_shape_checkers [of ctx S stack Q args anns eps] map_of_SomeD [OF that]] assms by simp
  have table: "instr_ty S i stack (Stk (outs @ drop n stack))"
    if "map_of overload_tables prim = Some (n, rows)" "map_of rows (take n stack) = Some (i, outs)" for n rows i outs
  proof -
    have "list_all (\<lambda>(ins, i, outs). length ins = n \<and> row_typed ins i outs) rows"
      using list_all_rows [OF overload_tables_typed map_of_SomeD [OF that(1)]] by simp
    from list_all_rows [OF this map_of_SomeD [OF that(2)]] show ?thesis
      using append_take_drop_id [of n stack] by (auto simp: row_typed_def dest!: spec [where x = S] spec [where x = "drop n stack"])
  qed
  show ?thesis
    using assms(1)
    by (auto simp: tc_simple_def tc_overloads_def intro!: assms(2) dest: shape table split: option.split)
qed

lemma wp_DIP:
  assumes "I ctx" "\<And>s. delivers I P (nested (Stk s)) (\<lambda>(c, fs). seq_ty S c s fs)"
    "\<And>i fs ctx'. I ctx' \<Longrightarrow> instr_ty S i stack fs \<Longrightarrow> Q (i, fs) ctx'"
  shows "wp P (\<lambda>_ _. True) (tc_DIP h nested stack) Q ctx"
  using assms(1)
  by (auto simp: tc_DIP_def stk_split_def intro!: wp_tc_instr deliversD [OF assms(2)] assms(3) it_Dip)

lemma wp_branches:
  assumes "I ctx" "\<And>s. delivers I P (a (Stk s)) (\<lambda>(c, fs). seq_ty S c s fs)"
    "\<And>s. delivers I P (b (Stk s)) (\<lambda>(c, fs). seq_ty S c s fs)"
    "\<And>i fs ctx'. I ctx' \<Longrightarrow> instr_ty S i stack fs \<Longrightarrow> Q (i, fs) ctx'"
  shows "wp P (\<lambda>_ _. True) (tc_IF a b stack) Q ctx" "wp P (\<lambda>_ _. True) (tc_IF_NONE a b stack) Q ctx"
    "wp P (\<lambda>_ _. True) (tc_IF_CONS a b stack) Q ctx" "wp P (\<lambda>_ _. True) (tc_IF_LEFT a b stack) Q ctx"
  using assms(1)
  by (cases stack; auto intro!: wp_unify deliversD [OF assms(2)] deliversD [OF assms(3)] assms(4)
      intro: it_If it_IfNone it_IfCons it_IfLeft split: Type.split)+

lemma wp_loops:
  assumes "I ctx" "\<And>s. delivers I P (nested (Stk s)) (\<lambda>(c, fs). seq_ty S c s fs)"
    "\<And>i fs ctx'. I ctx' \<Longrightarrow> instr_ty S i stack fs \<Longrightarrow> Q (i, fs) ctx'"
  shows "wp P (\<lambda>_ _. True) (tc_LOOP nested stack) Q ctx" "wp P (\<lambda>_ _. True) (tc_LOOP_LEFT nested stack) Q ctx"
  using assms(1)
  by (cases stack; auto intro!: wp_unify wp_access_mut deliversD [OF assms(2)] assms(3) it_Loop it_LoopLeft
      split: Type.split)+

lemma wp_iterations:
  assumes "I ctx" "\<And>s. delivers I P (nested (Stk s)) (\<lambda>(c, fs). seq_ty S c s fs)"
    "\<And>i fs ctx'. I ctx' \<Longrightarrow> instr_ty S i stack fs \<Longrightarrow> Q (i, fs) ctx'"
  shows "wp P (\<lambda>_ _. True) (tc_ITER nested stack) Q ctx" "wp P (\<lambda>_ _. True) (tc_MAP nested stack) Q ctx"
  using assms(1)
  by (cases stack; auto simp: tc_iter_def typecheck_map_block_def
      intro!: wp_unify wp_access_mut wp_ensure_stacks_eq deliversD [OF assms(2)] assms(3)
      intro: it_IterList it_IterSet it_IterMap it_MapList it_MapOption it_MapMap
      split: Type.split list.split)+

lemma wp_PUSH:
  assumes "I ctx" "\<And>t. type_ok t \<Longrightarrow> delivers I P (v t) (\<lambda>x. value_ty S x t)"
    "\<And>i fs ctx'. I ctx' \<Longrightarrow> instr_ty S i stack fs \<Longrightarrow> Q (i, fs) ctx'"
  shows "wp P (\<lambda>_ _. True) (tc_PUSH t v stack) Q ctx"
  using assms(1)
  by (auto simp: tc_PUSH_def intro!: wp_tc_instr deliversD [OF assms(2)] assms(3) it_Push)

lemma wp_lambda:
  assumes "I ctx" "\<And>s. delivers I P (nested (Stk s)) (\<lambda>(c, fs). seq_ty S c s fs)"
    "\<And>lam ctx'. I ctx' \<Longrightarrow> closure_ty S (C_Lambda lam) a b \<Longrightarrow> Q lam ctx'"
  shows "wp P (\<lambda>_ _. True) (typecheck_lambda instrs nested a b r) Q ctx"
  using assms(1)
  by (cases r) (auto simp: typecheck_lambda_def intro!: wp_unify deliversD [OF assms(2)] assms(3)
      elim!: ct_Lambda ct_LambdaRec)

lemma wp_LAMBDA:
  assumes "I ctx" "\<And>s. delivers I P (nested (Stk s)) (\<lambda>(c, fs). seq_ty S c s fs)"
    "\<And>i fs ctx'. I ctx' \<Longrightarrow> instr_ty S i stack fs \<Longrightarrow> Q (i, fs) ctx'"
  shows "wp P (\<lambda>_ _. True) (tc_LAMBDA r t1 t2 instrs nested stack) Q ctx"
  using assms(1)
  by (auto simp: tc_LAMBDA_def intro!: wp_parse_ty wp_lambda [OF _ assms(2)] assms(3) it_Lambda)

lemma wp_script:
  assumes "I ctx"
    "\<And>c eps s. code = Some c \<Longrightarrow> delivers I P (c eps (Stk s)) (\<lambda>(i, fs). instr_ty S i s fs)"
    "\<And>cs ctx'. I ctx' \<Longrightarrow> \<exists>p st. script_ty S cs p st \<Longrightarrow> Q cs ctx'"
  shows "wp P (\<lambda>_ _. True) (check_script pt st code) Q ctx"
  using assms(1)
  by (auto simp: check_script_def script_ty_simps intro!: wp_tc_instr wp_parse_parameter deliversD [OF assms(2)] assms(3);
      metis fs_le_simps(2))

lemma wp_CREATE_CONTRACT:
  assumes "I ctx" "delivers I P script (\<lambda>cs. \<exists>p st. script_ty S cs p st)"
    "\<And>i fs ctx'. I ctx' \<Longrightarrow> instr_ty S i stack fs \<Longrightarrow> Q (i, fs) ctx'"
  shows "wp P (\<lambda>_ _. True) (tc_CREATE_CONTRACT m script stack) Q ctx"
  using assms(1)
  by (cases "(m, script, stack)" rule: tc_CREATE_CONTRACT.cases)
    (auto intro!: wp_ensure_ty_eq deliversD [OF assms(2)] assms(3) it_CreateContract split: ContractScript.split
      simp: script_ty_simps)

lemma wp_check_big_map_id:
  assumes "I ctx" "\<And>ctx'. I ctx' \<Longrightarrow> (\<And>n. i = Some n \<Longrightarrow> storage_types storage n = Some (k, v)) \<Longrightarrow> Q () ctx'"
  shows "wp P (\<lambda>_ _. True) (check_big_map_id i k v) Q ctx"
  using assms same_storage [OF assms(1)]
  by (auto simp: check_big_map_id_def storage_types_def mem_big_map_get_type_def wp_lift map_err_outcome_Panic map_outcome_Panic
      map_err_outcome_Ok ok_or_def intro!: wp_ensure_ty_eq split: option.splits)

lemma wp_lift_repr:
  assumes "\<And>x. r = Ok x \<Longrightarrow> Q x ctx" "\<And>p. r = Panic p \<Longrightarrow> p \<in> P"
  shows "wp P (\<lambda>_ _. True) (lift_repr t r) Q ctx" "wp P (\<lambda>_ _. True) (lift_chain_id r) Q ctx"
  using assms by (auto simp: lift_repr_def lift_chain_id_def wp_lift map_err_outcome_Panic map_err_outcome_Ok)

lemma wp_lift_panic:
  assumes "\<And>x. r = Ok x \<Longrightarrow> Q x ctx" "\<And>p. r = Panic p \<Longrightarrow> p \<in> P"
  shows "wp P (\<lambda>_ _. True) (lift r) Q ctx"
  using assms by (simp add: wp_lift)

lemma wp_atomic_value:
  assumes "I ctx" "\<And>x ctx'. I ctx' \<Longrightarrow> value_ty S x t \<Longrightarrow> Q x ctx'"
  shows "wp P (\<lambda>_ _. True) (tc_atomic_value ext v t) Q ctx"
  using assms(1) tc_panics
  by (cases "(ext, v, t)" rule: tc_atomic_value.cases)
    (auto simp: tc_constant_value_def mumav_ok_def
      intro!: wp_consume wp_charge wp_lift_repr wp_lift_panic wp_lift_ok_or assms(2)
      dest!: repr_panic fr_from_big_int_panic split: Type.split)

lemma wp_contract_address:
  assumes "I ctx" "\<And>x ctx'. I ctx' \<Longrightarrow> Q x ctx'"
  shows "wp P (\<lambda>_ _. True) (typecheck_contract_address a ep t) Q ctx"
  using assms
  by (auto simp: typecheck_contract_address_def intro!: wp_lift_ok_or wp_ensure_ty_eq split: AddressHash.split Type.split)

lemma wp_check_order:
  assumes "I ctx" "has_prop Comparable t" "pred_option (\<lambda>c. value_ty S c t) cur" "value_ty S x t"
    "\<And>ctx'. I ctx' \<Longrightarrow> pred_option (\<lambda>c. partial_cmp c x = Some Less) cur \<Longrightarrow> Q () ctx'"
  shows "wp P (\<lambda>_ _. True) (check_order ct cur x) Q ctx"
proof (cases cur)
  case (Some c)
  have c: "comparable_value t c" "comparable_value t x"
    using assms Some by (auto intro: comparable_typed)
  then obtain ord where "partial_cmp c x = Some ord"
    using comparable.total [of c t x] by auto
  with Some assms cost_compare_no_panic [OF c] show ?thesis
    by (auto simp: check_order_def value_cmp_def intro!: wp_charge split: Ordering.split)
qed (use assms in \<open>simp add: check_order_def\<close>)

lemma delivers_block:
  assumes "\<And>m. m \<in> set ms \<Longrightarrow> checks I P S ext m"
  shows "delivers I P (typecheck ext ms eps (Stk s)) (\<lambda>(c, fs). seq_ty S c s fs)"
  using assms
proof (induction ms arbitrary: s)
  case Nil
  then show ?case by (auto intro!: deliversI sq_Nil)
next
  case (Cons m ms)
  have failed: "wp P (\<lambda>_ _. True) (typecheck ext ms eps Failed) Q ctx" if "I ctx" "Q ([], Failed) ctx" for Q ctx
    using that by (cases ms) (simp_all add: typecheck_instruction.simps)
  have rest: "wp P (\<lambda>_ _. True) (typecheck ext ms eps fs) (\<lambda>(c, fs') ctx'. I ctx' \<and> seq_ty S (i # c) s fs') ctx"
    if "I ctx" "instr_ty S i s fs" for i fs ctx
    using that Cons.prems
    by (cases fs) (auto intro!: failed deliversD [OF Cons.IH] intro: sq_Cons sq_Fail)
  have "checks I P S ext m" using Cons.prems by simp
  note step = deliversD [OF checksD(1) [OF this]]
  show ?case
    using rest by (auto simp: case_prod_beta' intro!: deliversI step)
qed

lemma delivers_list:
  assumes "\<And>m. m \<in> set ms \<Longrightarrow> delivers I P (typecheck_value ext m t) (\<lambda>v. value_ty S v t)"
  shows "delivers I P (typecheck_list ext ms t) (\<lambda>xs. \<forall>x \<in> set xs. value_ty S x t)"
  using assms
proof (induction ms)
  case (Cons m ms)
  have "delivers I P (typecheck_value ext m t) (\<lambda>v. value_ty S v t)" using Cons.prems by simp
  note step = deliversD [OF this]
  have "delivers I P (typecheck_list ext ms t) (\<lambda>xs. \<forall>x \<in> set xs. value_ty S x t)" using Cons by simp
  note rest = deliversD [OF this]
  show ?case by (auto intro!: deliversI step rest)
qed (auto intro!: deliversI)

lemma ascending_extend:
  assumes "has_prop Comparable t" "pred_option (\<lambda>c. value_ty S c t) cur" "pred_option (\<lambda>c. partial_cmp c x = Some Less) cur"
    "value_ty S x t" "\<forall>y \<in> set xs. value_ty S y t" "ascending partial_cmp (x # xs)"
  shows "ascending partial_cmp (case cur of None \<Rightarrow> x # xs | Some c \<Rightarrow> c # x # xs)"
proof (cases cur)
  case (Some c)
  have "comparable_value t c" "comparable_value t x" "\<forall>y \<in> set xs. comparable_value t y"
    using assms Some comparable_typed by auto
  then have "\<forall>y \<in> set xs. partial_cmp c y = Some Less"
    using assms Some comparable.less_trans [of c t x] by (auto simp: ascending_def)
  with assms Some show ?thesis by (simp add: ascending_def)
qed (use assms in simp)

lemma delivers_set:
  assumes "\<And>m. m \<in> set ms \<Longrightarrow> delivers I P (typecheck_value ext m t) (\<lambda>v. value_ty S v t)"
    "has_prop Comparable t" "pred_option (\<lambda>c. value_ty S c t) cur"
  shows "delivers I P (typecheck_set ext st t cur ms)
    (\<lambda>xs. (\<forall>x \<in> set xs. value_ty S x t) \<and> ascending partial_cmp (case cur of None \<Rightarrow> xs | Some c \<Rightarrow> c # xs))"
  using assms
proof (induction ms arbitrary: cur)
  case Nil
  then show ?case by (auto simp: ascending_def intro!: deliversI split: option.split)
next
  case (Cons m ms)
  have "delivers I P (typecheck_value ext m t) (\<lambda>v. value_ty S v t)" using Cons.prems by simp
  note step = deliversD [OF this]
  have "delivers I P (typecheck_set ext st t (Some x) ms)
      (\<lambda>xs. (\<forall>y \<in> set xs. value_ty S y t) \<and> ascending partial_cmp (x # xs))" if "value_ty S x t" for x
    using Cons.IH [of "Some x"] Cons.prems that by simp
  note rest = deliversD [OF this]
  show ?case
    using Cons.prems(2,3)
    by (auto intro!: deliversI step rest wp_check_order [of _ t S] ascending_extend)
qed

lemma delivers_map:
  assumes "\<And>m. micheline_size m < micheline_sizes ms \<Longrightarrow> checks I P S ext m"
    "has_prop Comparable k" "type_ok k" "type_ok v" "pred_option (\<lambda>c. value_ty S c k) cur"
  shows "delivers I P (typecheck_map ext mt k v cur ms)
    (\<lambda>xs. (\<forall>(x, y) \<in> set xs. value_ty S x k \<and> value_ty S y v) \<and>
       ascending partial_cmp (case cur of None \<Rightarrow> map fst xs | Some c \<Rightarrow> c # map fst xs))"
  using assms
proof (induction ms arbitrary: cur)
  case Nil
  then show ?case by (auto simp: ascending_def intro!: deliversI split: option.split)
next
  case (Cons m ms)
  have part: "delivers I P (typecheck_value ext a t) (\<lambda>x. value_ty S x t)"
    if "micheline_size a < micheline_size m" "type_ok t" for a t
    using Cons.prems(1) [of a] that by (auto intro: checksD(2))
  have "delivers I P (typecheck_map ext mt k v (Some x) ms)
      (\<lambda>xs. (\<forall>(x, y) \<in> set xs. value_ty S x k \<and> value_ty S y v) \<and> ascending partial_cmp (x # map fst xs))"
    if "value_ty S x k" for x
    using Cons.IH [of "Some x"] Cons.prems that by simp
  note rest = deliversD [OF this]
  have "ascending partial_cmp (case cur of None \<Rightarrow> map fst ((x, y) # xs) | Some c \<Rightarrow> c # map fst ((x, y) # xs))"
    if "pred_option (\<lambda>c. partial_cmp c x = Some Less) cur" "value_ty S x k"
      "\<forall>(x, y) \<in> set xs. value_ty S x k \<and> value_ty S y v" "ascending partial_cmp (x # map fst xs)" for x y xs
    using ascending_extend [OF Cons.prems(2,5) that(1,2), of "map fst xs"] that(3,4)
    by (cases cur) (auto simp: case_prod_beta')
  then show ?case
    using Cons.prems(2-5)
    by (auto intro!: deliversI deliversD [OF part] rest wp_check_order [of _ k S]
        split: Micheline.split list.split)
qed

lemma members:
  assumes "\<And>m'. micheline_size m' < n \<Longrightarrow> checks I P S ext m'" "micheline_sizes ms < n"
  shows "delivers I P (typecheck ext ms eps (Stk s)) (\<lambda>(c, fs). seq_ty S c s fs)"
    "type_ok t \<Longrightarrow> delivers I P (typecheck_list ext ms t) (\<lambda>xs. \<forall>x \<in> set xs. value_ty S x t)"
    "has_prop Comparable t \<Longrightarrow> type_ok t \<Longrightarrow> delivers I P (typecheck_set ext st t None ms)
      (\<lambda>xs. (\<forall>x \<in> set xs. value_ty S x t) \<and> ascending partial_cmp xs)"
    "has_prop Comparable k \<Longrightarrow> type_ok k \<Longrightarrow> type_ok v \<Longrightarrow> delivers I P (typecheck_map ext mt k v None ms)
      (\<lambda>xs. (\<forall>(x, y) \<in> set xs. value_ty S x k \<and> value_ty S y v) \<and> ascending partial_cmp (map fst xs))"
proof -
  have small: "checks I P S ext m" if "m \<in> set ms" for m
    using assms micheline_size_member [OF that] by auto
  then show "delivers I P (typecheck ext ms eps (Stk s)) (\<lambda>(c, fs). seq_ty S c s fs)"
    by (rule delivers_block)
  show "delivers I P (typecheck_list ext ms t) (\<lambda>xs. \<forall>x \<in> set xs. value_ty S x t)" if "type_ok t"
    using small that by (intro delivers_list checksD(2))
  show "delivers I P (typecheck_set ext st t None ms) (\<lambda>xs. (\<forall>x \<in> set xs. value_ty S x t) \<and> ascending partial_cmp xs)"
    if "has_prop Comparable t" "type_ok t"
    using delivers_set [of ms ext t S None] small that by (simp add: checksD(2))
  show "delivers I P (typecheck_map ext mt k v None ms)
      (\<lambda>xs. (\<forall>(x, y) \<in> set xs. value_ty S x k \<and> value_ty S y v) \<and> ascending partial_cmp (map fst xs))"
    if "has_prop Comparable k" "type_ok k" "type_ok v"
    using delivers_map [of ms S ext k v None] assms that by simp
qed

lemma wp_case_list:
  "(xs = [] \<Longrightarrow> wp P E m Q ctx) \<Longrightarrow> (\<And>y ys. xs = y # ys \<Longrightarrow> wp P E (k y ys) Q ctx) \<Longrightarrow> wp P E (case_list m k xs) Q ctx"
  by (cases xs) simp_all

lemma wp_case_Micheline:
  assumes "\<And>i. m = Mich_Int i \<Longrightarrow> wp P E (a i) Q ctx" "\<And>s. m = Mich_String s \<Longrightarrow> wp P E (b s) Q ctx"
    "\<And>bs. m = Mich_Bytes bs \<Longrightarrow> wp P E (c bs) Q ctx" "\<And>p args anns. m = App p args anns \<Longrightarrow> wp P E (d p args anns) Q ctx"
    "\<And>ms. m = Seq ms \<Longrightarrow> wp P E (e ms) Q ctx"
  shows "wp P E (case_Micheline a b c d e m) Q ctx"
  using assms by (cases m) simp_all

lemma wp_throw_any: "wp P (\<lambda>_ _. True) (throw e) Q ctx"
  by simp

lemma wp_bindI: "wp P E m (\<lambda>x. wp P E (k x) Q) ctx \<Longrightarrow> wp P E (bind m k) Q ctx"
  by simp

lemma delivers_instruction:
  assumes "\<And>m'. micheline_size m' < micheline_size i \<Longrightarrow> checks I P S ext m'"
  shows "delivers I P (typecheck_instruction ext i eps (Stk s)) (\<lambda>(i, fs). instr_ty S i s fs)"
proof (rule deliversI)
  fix ctx assume "I ctx"
  let ?Q = "\<lambda>x ctx'. I ctx' \<and> (case x of (i, fs) \<Rightarrow> instr_ty S i s fs)"
  have fin: "?Q (i, fs) ctx'" if "I ctx'" "instr_ty S i s fs" for i fs ctx'
    using that by simp
  note code = wp_DIP [where S = S] wp_branches [where S = S] wp_loops [where S = S] wp_iterations [where S = S]
    wp_PUSH [where S = S] wp_LAMBDA [where S = S] wp_CREATE_CONTRACT [where S = S] wp_tc_simple [where S = S]
  show "wp P (\<lambda>_ _. True) (typecheck_instruction ext i eps (Stk s)) ?Q ctx"
  proof (cases "\<exists>ms. i = Seq ms")
    case True
    then obtain ms where i: "i = Seq ms" by blast
    have "delivers I P (typecheck ext ms eps (Stk s)) (\<lambda>(c, fs). seq_ty S c s fs)"
      by (rule members(1) [OF assms]) (simp add: i, linarith)
    note block = deliversD [OF this]
    show ?thesis
      unfolding i using \<open>I ctx\<close>
      by (auto simp: typecheck_instruction.simps [of ext "Seq ms"] intro!: wp_consume block it_Seq)
  next
    case False
    show ?thesis
      unfolding typecheck_instruction.simps [of ext i] wp_simps access_mut.simps
      by (intro wp_consume wp_if wp_case_list wp_case_Micheline wp_throw_any wp_bindI wp_validate_u10 code fin \<open>I ctx\<close>;
          (rule members(1) [OF assms] checksD(2,3) [OF assms])?)
        (insert False, simp_all, linarith+)
  qed
qed

lemma delivers_value_direct:
  assumes "\<And>m'. micheline_size m' < micheline_size v \<Longrightarrow> checks I P S ext m'" "indirect t = 0" "type_ok t"
    "S = storage_types storage"
  shows "delivers I P (typecheck_value ext v t) (\<lambda>x. value_ty S x t)"
proof (rule deliversI)
  fix ctx assume "I ctx"
  have part: "wp P (\<lambda>_ _. True) (typecheck_value ext m t') Q ctx'"
    if "micheline_size m < micheline_size v" "type_ok t'" "I ctx'" "\<And>x ctx'. I ctx' \<Longrightarrow> value_ty S x t' \<Longrightarrow> Q x ctx'"
    for m t' Q ctx'
    using deliversD [OF checksD(2) [OF assms(1)]] that by blast
  have lam: "wp P (\<lambda>_ _. True) (typecheck_lambda instrs (typecheck ext instrs None) a b r) Q ctx'"
    if "lambda_code v = Some (instrs, r)" "I ctx'" "\<And>lam ctx'. I ctx' \<Longrightarrow> closure_ty S (C_Lambda lam) a b \<Longrightarrow> Q lam ctx'"
    for instrs a b r Q ctx'
    using that members(1) [OF assms(1)] lambda_code_size [OF that(1)] by (intro wp_lambda [where S = S]) auto
  note lists = deliversD [OF members(2) [OF assms(1)]] deliversD [OF members(3) [OF assms(1)]]
    deliversD [OF members(4) [OF assms(1)]]
  show "wp P (\<lambda>_ _. True) (typecheck_value ext v t) (\<lambda>x ctx'. I ctx' \<and> value_ty S x t) ctx"
    using assms(2,3) \<open>I ctx\<close>
    by (subst typecheck_value.simps, cases t; simp only: Type.case)
      (auto intro!: wp_consume wp_charge part lists lam wp_atomic_value wp_check_big_map_id
        simp: assms(4) ascending_def dest: pair_args_size seq_args_size lambda_code_size big_map_parts_size split: option.split Micheline.split list.split)
qed

lemma delivers_value:
  assumes "\<And>m'. micheline_size m' < micheline_size v \<Longrightarrow> checks I P S ext m'" "type_ok t" "S = storage_types storage"
  shows "delivers I P (typecheck_value ext v t) (\<lambda>x. value_ty S x t)"
proof (cases "indirect t = 0")
  case True
  with assms show ?thesis by (intro delivers_value_direct)
next
  case False
  have direct: "wp P (\<lambda>_ _. True) (typecheck_value ext v t') Q ctx"
    if "indirect t' = 0" "type_ok t'" "I ctx" "\<And>x ctx'. I ctx' \<Longrightarrow> value_ty S x t' \<Longrightarrow> Q x ctx'" for t' Q ctx
    by (rule deliversD [OF delivers_value_direct [OF assms(1) that(1,2) assms(3)] that(3,4)])
  from False assms(2) show ?thesis
    by (cases t; subst typecheck_value.simps)
      (auto intro!: deliversI wp_consume direct wp_contract_address)
qed

lemma tc_checks: "checks I P (storage_types storage) ext m"
proof (induction m rule: measure_induct_rule [of micheline_size])
  case (less m)
  have "delivers I P (typecheck_script ext m) (\<lambda>cs. \<exists>p st. script_ty (storage_types storage) cs p st)"
  proof (rule deliversI)
    fix ctx assume "I ctx"
    have code: "delivers I P (typecheck_instruction ext c eps (Stk s)) (\<lambda>(i, fs). instr_ty (storage_types storage) i s fs)"
      if "script_elements_of m = Ok (p, t, Some c)" for p t c eps s
      by (rule checksD(1) [OF less [OF script_elements_size [OF that]]])
    show "wp P (\<lambda>_ _. True) (typecheck_script ext m)
        (\<lambda>cs ctx'. I ctx' \<and> (\<exists>p st. script_ty (storage_types storage) cs p st)) ctx"
      unfolding typecheck_script.simps [of ext m] using \<open>I ctx\<close>
      by (auto intro!: wp_script [where S = "storage_types storage"] code split: outcome.split option.splits)
  qed
  then show ?case
    using delivers_instruction [OF less] delivers_value [OF less] by (simp add: checks_def)
qed

lemmas wp_typecheck = deliversD [OF checksD(1) [OF tc_checks]] deliversD [OF checksD(2) [OF tc_checks]]
  deliversD [OF checksD(3) [OF tc_checks]]

end

section \<open>The type checker on contexts with gas\<close>

definition checker_panics :: "PanicReason set" where
  "checker_panics = {StackBounds, CharBoundary, SliceBounds, UnwrapFailed}"

interpretation tc_typed: tc_sound "live storage" checker_panics storage for storage
  by unfold_locales (auto simp: live_def checker_panics_def)

lemma only_gas_scripts: "only_gas (typecheck_script ext m)"
  using tc_framed [of ext m] by (simp add: tc_framed_def)

lemma only_gas_values: "only_gas (typecheck_value ext m t)"
  using tc_framed [of ext m] by (simp add: tc_framed_def)

lemma delivers_live:
  assumes "delivers (live (ctx_big_map_storage ctx)) P m R" "only_gas m" "ctx_gas ctx \<noteq> None" "m ctx = (r, ctx')"
  shows "(\<forall>p. r = Panic p \<longrightarrow> p \<in> P) \<and> (\<forall>x. r = Ok x \<longrightarrow> ctx_gas ctx' \<noteq> None \<and> R x) \<and>
    gas_le (ctx_gas ctx') (ctx_gas ctx) \<and> ctx' = ctx\<lparr>ctx_gas := ctx_gas ctx'\<rparr>"
proof -
  have "wp P (\<lambda>_ _. True) m (\<lambda>x ctx'. live (ctx_big_map_storage ctx) ctx' \<and> R x) ctx"
    using assms(1,3) by (simp add: delivers_def live_def)
  from wpD [OF this] only_gasD [OF assms(2,4)] assms(4) show ?thesis
    by (cases r) (auto simp: live_def)
qed

text \<open>
  C99: The type checker is sound for the typing relation. Checking a script in a context with gas panics
  only where a stack depth, a string slice or an unwrapped conversion of the source panics. If it
  succeeds, the script is well-typed: its code takes a pair of the parameter and the storage to a pair of a list
  of operations and the storage. Nothing but the gas of the context changes, and gas never grows.
\<close>

theorem typecheck_script_sound:
  assumes "ctx_gas ctx \<noteq> None" "typecheck_script ext m ctx = (r, ctx')"
  shows "(\<forall>p. r = Panic p \<longrightarrow> p \<in> {StackBounds, CharBoundary, SliceBounds, UnwrapFailed}) \<and>
    (\<forall>cs. r = Ok cs \<longrightarrow> ctx_gas ctx' \<noteq> None \<and> (\<exists>p st. script_ty (storage_types (ctx_big_map_storage ctx)) cs p st)) \<and>
    gas_le (ctx_gas ctx') (ctx_gas ctx) \<and> ctx' = ctx\<lparr>ctx_gas := ctx_gas ctx'\<rparr>"
  using delivers_live [OF checksD(3) [OF tc_typed.tc_checks] only_gas_scripts assms] by (simp add: checker_panics_def)

text \<open>A counter: the parameter is added to the storage.\<close>

definition example_code :: Micheline where
  "example_code = Seq [App ''UNPAIR'' [] [], App ''ADD'' [] [], App ''NIL'' [App ''operation'' [] []] [], App ''PAIR'' [] []]"

definition example_script :: Micheline where
  "example_script = Seq [App ''parameter'' [App ''int'' [] []] [], App ''storage'' [App ''int'' [] []] [],
     App ''code'' [example_code] []]"

lemma example_script_checks:
  "\<exists>ctx'. typecheck_script ext example_script example_context =
     (Ok (ContractScript T_Int T_Int (I_Seq [I_Data (I_Unpair), I_Arith (I_Add Add_IntInt), I_Data (I_Nil), I_Data (I_Pair)])), ctx')"
  by (simp add: example_script_def example_code_def typecheck_script.simps typecheck_instruction.simps check_script_def set_if_none_def 
    parse_ty_def ensure_stacks_eq_def charge_def tc_ty_eq_def as_gas_cost_def ck_mul_def ck_fit_def map_err_comp_def catch_def tc_simple_def micheline_unsupported_instructions_def shape_checkers_def overload_tables_def tc_overloads_def ADD_rows_def ensure_ty_eq_def lift_def
    read_def
    parse_parameter_ty_with_entrypoints_def atomic_types_def record_entrypoint_def lift_ann_def
    get_single_field_ann_def entrypoint_try_from_ann_def check_ep_name_len_def entrypoint_default_def
    MAX_EP_LEN_def DEFAULT_EP_NAME_def ensure_prop.simps Let_def
    example_context_def bind_def return_def consume_def gas_consume_def)

theorem typecheck_script_sound_witness:
  "\<forall>ext. \<exists>cs p st ctx'. typecheck_script ext example_script example_context = (Ok cs, ctx') \<and>
     script_ty (storage_types example_storage) cs p st \<and> gas_le (ctx_gas ctx') (Some 100000)"
proof
  fix ext
  obtain cs ctx' where run: "typecheck_script ext example_script example_context = (Ok cs, ctx')"
    using example_script_checks by blast
  from typecheck_script_sound [OF _ run] show "\<exists>cs p st ctx'. typecheck_script ext example_script example_context = (Ok cs, ctx') \<and>
      script_ty (storage_types example_storage) cs p st \<and> gas_le (ctx_gas ctx') (Some 100000)"
    using run by (auto simp: example_context_def)
qed

text \<open>
  C98: Checking a Micheline value against a well-formed type, in a context with gas, panics only as above,
  and what it returns is a value of that type: keys of sets and maps are comparable and ascending, big maps
  exist in the storage with the types demanded, lambdas are well-typed, amounts are in range. Only gas changes.
\<close>

theorem typecheck_value_sound:
  assumes "ctx_gas ctx \<noteq> None" "type_ok t" "typecheck_value ext m t ctx = (r, ctx')"
  shows "(\<forall>p. r = Panic p \<longrightarrow> p \<in> {StackBounds, CharBoundary, SliceBounds, UnwrapFailed}) \<and>
    (\<forall>v. r = Ok v \<longrightarrow> ctx_gas ctx' \<noteq> None \<and> value_ty (storage_types (ctx_big_map_storage ctx)) v t) \<and>
    gas_le (ctx_gas ctx') (ctx_gas ctx) \<and> ctx' = ctx\<lparr>ctx_gas := ctx_gas ctx'\<rparr>"
  using delivers_live [OF checksD(2) [OF tc_typed.tc_checks assms(2)] only_gas_values assms(1,3)]
  by (simp add: checker_panics_def)

definition example_map :: Micheline where
  "example_map = Seq [App ''Elt'' [Mich_Int 3, Mich_Int 5] [], App ''Elt'' [Mich_Int 7, Mich_Int (- 5)] []]"

lemma example_map_costs:
  "tc_construct_map (Suc 0) (Suc (Suc 0)) = Ok 164" "cost_compare (V_Nat 3) (V_Nat 7) = Ok 35"
  "value_cmp (V_Nat 3) (V_Nat 7) = Ok Less"
  by (simp_all add: tc_construct_map_def tc_construct_def as_gas_cost_def ck_mul_def ck_add_def ck_fit_def log2i_def log2_up.simps
    cost_compare.simps cost_cmp_bytes_def nat_byte_size_def bit_length.simps bits_to_bytes_def ck_shr_def Let_def value_cmp_def partial_cmp.simps)

lemma example_map_checks:
  "\<exists>ctx'. typecheck_value ext example_map (T_Map T_Nat T_Int) example_context =
     (Ok (V_Map [(V_Nat 3, V_Int 5), (V_Nat 7, V_Int (- 5))]), ctx')"
  by (simp add: example_map_def typecheck_value.simps check_order_def charge_def map_err_comp_def lift_def
    example_context_def bind_def return_def consume_def gas_consume_def example_map_costs)

theorem typecheck_value_sound_witness:
  "\<forall>ext. \<exists>v ctx'. typecheck_value ext example_map (T_Map T_Nat T_Int) example_context = (Ok v, ctx') \<and>
     value_ty (storage_types example_storage) v (T_Map T_Nat T_Int)"
proof
  fix ext
  obtain v ctx' where run: "typecheck_value ext example_map (T_Map T_Nat T_Int) example_context = (Ok v, ctx')"
    using example_map_checks by blast
  from typecheck_value_sound [OF _ _ run] show "\<exists>v ctx'. typecheck_value ext example_map (T_Map T_Nat T_Int) example_context = (Ok v, ctx') \<and>
      value_ty (storage_types example_storage) v (T_Map T_Nat T_Int)"
    using run by (simp add: example_context_def)
qed

end
