(* ===== verification/Spec2Isabelle.thy ===== *)
theory Spec2Isabelle
  imports RV_Pvm MIR_TcSound
begin

text \<open>
  Verification of two parts of the repository: the RISC-V virtual machine under
  \<open>src/src/risc_v\<close>, that is the interpreter (\<open>interpreter\<close>), the loader of programs
  (\<open>kernel_loader\<close>) and the proof-generating virtual machine (\<open>pvm\<close>); and the Michelson
  implementation \<open>MIR\<close> under \<open>src/contrib/mir/src\<close>.  They share no code.

  \<^bold>\<open>The virtual machine.\<close>  The interpreter executes one RISC-V hart (RV64IMAFD subset, machine, supervisor and
  user mode) over a flat main memory.  A step takes a pending interrupt, fetches and decodes an
  instruction, runs it and takes an exception if it raises one; an environment call is handed to the
  caller.  Booting copies a loaded program, a ramdisk and a device tree into the memory.  Two drivers
  run the machine: the interpreter of the sandbox and the virtual machine, both over an execution
  environment that treats environment calls.

  \<^bold>\<open>The theories\<close>, in the order in which they depend on one another; paths are relative to
  \<open>src/src/risc_v/interpreter/src\<close> unless they start with \<open>src\<close>:

  \<^item> \<open>RV_Prelude\<close>: the integer types of the source, results, little-endian bytes, shifts as the
    release profile of Rust computes them.
  \<^item> \<open>RV_Registers\<close> (\<open>machine_state/registers.rs\<close>): the two register files.
  \<^item> \<open>RV_Traps\<close> (\<open>traps.rs\<close>, \<open>machine_state/mode.rs\<close>): modes, exceptions, interrupts; the locale
    \<open>trap_context\<close> is the contract of the trait of this name.
  \<^item> \<open>RV_Bus\<close> (\<open>machine_state/bus.rs\<close> and below): devices and main memory; read-after-write and
    bounds of every access, through the locale \<open>addressable\<close>.
  \<^item> \<open>RV_Fields\<close>, \<open>RV_CSRegisters\<close> (\<open>machine_state/csregisters.rs\<close> and below): bit fields, the
    rules for reading and writing control and status registers, reset, trap delegation; the
    invariant that all stored values are legal, and isolation of the shadow registers.
  \<^item> \<open>RV_Hart\<close> (\<open>machine_state/hart_state.rs\<close>, \<open>interpreter/rv64priv.rs\<close>,
    \<open>interpreter/rv64zicsr.rs\<close>): trap entry and return, CSR instructions; round trips of
    traps, privilege isolation.
  \<^item> \<open>RV_Translation\<close> (\<open>machine_state/address_translation.rs\<close> and below): Sv39, Sv48 and Sv57
    translation, which refines an inductive page walk.
  \<^item> \<open>RV_Integer\<close>, \<open>RV_LoadStore\<close>, \<open>RV_Float\<close> (\<open>interpreter/\<close>): the instructions, related to
    arithmetic on integers, to the bytes in memory and to the operations of the floating point
    library.
  \<^item> \<open>RV_Instruction\<close>, \<open>RV_Parser\<close>, \<open>RV_Encoding\<close> (\<open>parser.rs\<close>, \<open>parser/instruction.rs\<close>): the
    decoder, and an encoder written from the instruction formats, which the decoder inverts.
  \<^item> \<open>RV_Machine\<close> (\<open>machine_state.rs\<close>): dispatch, fetch, interrupts, exceptions and runs.
  \<^item> \<open>RV_Execution\<close>: what an instruction, a step and a run may change.  Reachable states satisfy the
    invariant and are never stuck, user mode cannot reach a control register but \<open>fcsr\<close> nor leave
    user mode except by a trap, bounded runs return, and a stored instruction is executed.
  \<^item> \<open>RV_Program\<close> (\<open>program.rs\<close>, \<open>src/src/risc_v/kernel_loader/src/lib.rs\<close>): programs as maps of
    chunks and the loaders.  The effect of a write on the bytes of a program, and loading into a
    program against loading into a plain buffer, through the locale \<open>memory_pair\<close>.
  \<^item> \<open>RV_Boot\<close> (\<open>machine_state.rs\<close>, \<open>setup_boot\<close>): booting installs the program, and the instructions
    of an assembled program are fetched one by one.
  \<^item> \<open>RV_Pvm\<close> (\<open>exec_env.rs\<close>, \<open>exec_env/posix.rs\<close>, \<open>lib.rs\<close>, \<open>src/src/risc_v/pvm/src/state.rs\<close>): the
    execution environment, with the locale \<open>exec_env\<close> as its contract, the interpreter and the
    virtual machine, which are runs of single steps.

  \<^bold>\<open>The Michelson implementation.\<close>  A contract and its values are Micheline trees.  They are
  serialized and deserialized, type checked into values and instructions, run on a stack and written
  back as Micheline; every step is paid for with gas.

  \<^bold>\<open>Its theories\<close>; paths are relative to \<open>src/contrib/mir/src\<close>:

  \<^item> \<open>MIR_Prelude\<close>: outcomes, which are results, errors or panics with their reason.
  \<^item> \<open>MIR_Micheline\<close>, \<open>MIR_Ast\<close> (\<open>ast.rs\<close> and below, \<open>lexer.rs\<close>): Micheline, primitives, annotations;
    types, values and instructions.
  \<^item> \<open>MIR_Serializer\<close> (\<open>serializer/\<close>): the binary format.  Decoding inverts packing, and no input
    makes the decoder panic.
  \<^item> \<open>MIR_ByteRepr\<close> (\<open>ast/byte_repr_trait.rs\<close>, \<open>ast/michelson_*.rs\<close>, \<open>bls/\<close>): key hashes, addresses, keys
    and signatures, with the locale \<open>byte_repr\<close> for the trait.
  \<^item> \<open>MIR_Order\<close> (\<open>ast/comparable.rs\<close>): comparison of values and ordered sets and maps, with the locale
    \<open>key_order\<close>.
  \<^item> \<open>MIR_Untype\<close> (\<open>ast.rs\<close>, \<open>ast/michelson_lambda.rs\<close>): values and types as Micheline.
  \<^item> \<open>MIR_BigMap\<close> (\<open>ast/big_map.rs\<close>): big maps over a lazy storage, with the locale \<open>lazy_storage\<close>
    for the trait; the updates of a call reach the storage completely.
  \<^item> \<open>MIR_Stack\<close> (\<open>stack.rs\<close>): stacks as vectors, which refine lists with the top first.
  \<^item> \<open>MIR_Gas\<close> (\<open>gas.rs\<close>), \<open>MIR_Context\<close> (\<open>context.rs\<close>): costs, the gas counter, the context and
    computations on it.
  \<^item> \<open>MIR_Types\<close>, \<open>MIR_Overloads\<close>, \<open>MIR_TcRules\<close>, \<open>MIR_Typechecker\<close> (\<open>typechecker.rs\<close>,
    \<open>typechecker/type_props.rs\<close>): types from Micheline, the overloads of the instructions, the rules
    for code and values, and the mutually recursive checker of instructions, values and scripts.
  \<^item> \<open>MIR_TcGas\<close>: the type checker changes nothing of the context but the gas, which never increases.
  \<^item> \<open>MIR_Run\<close>, \<open>MIR_Arith\<close>, \<open>MIR_Data\<close>, \<open>MIR_Chain\<close>, \<open>MIR_Interpreter\<close> (\<open>interpreter.rs\<close>): errors and
    the popping of operands; the instructions on numbers, on data and on the blockchain; loops,
    lambdas, code and contract scripts.  The interpreter is a total function: \<open>MIR_Frame\<close> shows that it
    changes only gas and counters, and gas bounds the rounds of every loop.

  \<^bold>\<open>Conventions.\<close>  State is passed explicitly, as records that follow the structs of the source; the
  generic storage backend is represented by the values its cells hold.  Integers keep their width,
  with the wrapping arithmetic of the release profile; \<open>usize\<close> is 64 bits wide.  A fallible operation
  returns a sum, a panic is \<open>None\<close>, and an operation that fails after it has changed the state returns
  both.  All loops are total functions, so that no fuel is needed: the bounded runs are measured by the
  steps that are left.

  \<^bold>\<open>Parameters.\<close>  The hashes, signatures and curves of the crates \<open>mavryk_crypto_rs\<close> and \<open>blst\<close>
  and the integer format of \<open>mavryk_data_encoding\<close> are fields of the record \<open>Ext\<close>.  The bit access of the crate \<open>twiddle\<close>, the arithmetic of \<open>rustc_apfloat\<close> and
  \<open>ieee_apsqrt\<close>, the file format of \<open>goblin\<close> and the device tree of \<open>vm_fdt\<close> are arguments of the
  definitions that use them; what is documented of them is a hypothesis where a property needs it
  (\<open>twiddle_ok\<close>), and the witnesses give an instance.

  \<^bold>\<open>Not modelled.\<close>  The storage backends (\<open>state_backend\<close>), which are unsafe views of raw memory with
  no behaviour of their own beyond that of the cells; the printing of instructions and registers,
  which only the interactive debugger uses; \<open>get_elf_symbols\<close> and the memory of the emulator
  \<open>rvemu\<close> in \<open>kernel_loader\<close>, which only call third-party code; \<open>provide_input\<close> of the virtual machine,
  which is a \<open>todo\<close> in the source.
\<close>

end
